(* ===== verification/OAR_Prelude.thy ===== *)
theory OAR_Prelude
  imports Main "HOL-Library.Word" "HOL-Library.List_Lexorder" "HOL-Library.Char_ord"
    "HOL-Library.Sublist"
begin

text \<open>
  Shared vocabulary of the development: Rust results and the question-mark operator,
  machine integers, points in time, UTF-8 strings with the operations of Rust's \<open>str\<close> that
  the sources use, and decimal formatting. The lemma collections at the end of each section
  carry the proofs of the component theories.

  Conventions.
  \<^item> A Rust \<open>String\<close> is the list of its UTF-8 bytes, a HOL \<open>string\<close>. Equality,
    concatenation, ordering and byte length are those of the byte list. Operations that Rust
    defines on scalar values (\<open>trim\<close>, \<open>chars\<close>) go through \<open>chars\<close>, which groups a
    leading byte with its continuation bytes.
  \<^item> \<open>SystemTime\<close> is the signed number of nanoseconds since the Unix epoch.
  \<^item> \<open>u64\<close>, \<open>u32\<close>, \<open>i64\<close> and \<open>u8\<close> are words; \<open>+\<close> wraps, as in a release build.
\<close>

named_theorems oar_defs \<open>definitions of small helpers, unfolded by automation\<close>
named_theorems oar_inv \<open>preservation of component invariants\<close>

section \<open>Results\<close>

type_synonym ('t, 'e) result = "'e + 't"

abbreviation Ok :: "'t \<Rightarrow> ('t, 'e) result" where
  "Ok \<equiv> Inr"

abbreviation Err :: "'e \<Rightarrow> ('t, 'e) result" where
  "Err \<equiv> Inl"

text \<open>\<open>e?\<close> followed by the rest of the function body.\<close>

definition try_then :: "('a, 'e) result \<Rightarrow> ('a \<Rightarrow> ('b, 'e) result) \<Rightarrow> ('b, 'e) result" where
  "try_then r k = (case r of Inl e \<Rightarrow> Err e | Inr x \<Rightarrow> k x)"

text \<open>
  The same operator where the callee also mutates a state: an error leaves the function with
  the state as the callee left it.
\<close>

definition try_st ::
  "('a, 'e) result \<times> 's \<Rightarrow> ('a \<Rightarrow> 's \<Rightarrow> ('b, 'e) result \<times> 's) \<Rightarrow> ('b, 'e) result \<times> 's" where
  "try_st r k = (case r of (Inl e, s) \<Rightarrow> (Err e, s) | (Inr x, s) \<Rightarrow> k x s)"

definition map_err :: "('e \<Rightarrow> 'f) \<Rightarrow> ('t, 'e) result \<Rightarrow> ('t, 'f) result" where
  "map_err f r = (case r of Inl e \<Rightarrow> Err (f e) | Inr x \<Rightarrow> Ok x)"

definition ok_or :: "'e \<Rightarrow> 'a option \<Rightarrow> ('a, 'e) result" where
  "ok_or e x = (case x of None \<Rightarrow> Err e | Some v \<Rightarrow> Ok v)"

lemma try_then_simps [simp]:
  "try_then (Inl e) k = Inl e"
  "try_then (Inr x) k = k x"
  by (simp_all add: try_then_def)

lemma try_then_Ok_iff: "try_then r k = Inr y \<longleftrightarrow> (\<exists>x. r = Inr x \<and> k x = Inr y)"
  by (cases r) auto

lemma try_st_simps [simp]:
  "try_st (Inl e, s) k = (Inl e, s)"
  "try_st (Inr x, s) k = k x s"
  by (simp_all add: try_st_def)

lemma try_st_split:
  "P (try_st r k) \<longleftrightarrow>
    (\<forall>e s. r = (Inl e, s) \<longrightarrow> P (Inl e, s)) \<and> (\<forall>x s. r = (Inr x, s) \<longrightarrow> P (k x s))"
  by (cases r; cases "fst r") auto

lemma try_st_OkE:
  assumes "try_st r k = (Inr y, s')"
  obtains x s where "r = (Inr x, s)" and "k x s = (Inr y, s')"
  using assms by (cases r; cases "fst r") auto

lemma map_err_simps [simp]:
  "map_err f (Inl e) = Inl (f e)"
  "map_err f (Inr x) = Inr x"
  by (simp_all add: map_err_def)

lemma map_err_Ok_iff [simp]: "map_err f r = Inr x \<longleftrightarrow> r = Inr x"
  by (cases r) auto

lemma ok_or_simps [simp]:
  "ok_or e None = Inl e"
  "ok_or e (Some v) = Inr v"
  by (simp_all add: ok_or_def)

lemma ok_or_Ok_iff [simp]: "ok_or e x = Inr v \<longleftrightarrow> x = Some v"
  by (cases x) auto

section \<open>Integers and time\<close>

type_synonym u8 = "8 word"
type_synonym u32 = "32 word"
type_synonym u64 = "64 word"
type_synonym i64 = "64 word"

type_synonym system_time = int

definition UNIX_EPOCH :: system_time where
  "UNIX_EPOCH = 0"

text \<open>
  \<open>t.duration_since(UNIX_EPOCH)\<close> fails before the epoch; \<open>as_millis() as u64\<close> drops the
  sub-millisecond part and keeps the low 64 bits.
\<close>

definition millis_since_epoch :: "system_time \<Rightarrow> u64 option" where
  "millis_since_epoch t = (if t < 0 then None else Some (word_of_int (t div 1000000)))"

definition ms_to_system_time :: "u64 \<Rightarrow> system_time" where
  "ms_to_system_time ms = uint ms * 1000000"

lemma millis_since_epoch_ms_to_system_time [simp]:
  "millis_since_epoch (ms_to_system_time ms) = Some ms"
  by (simp add: millis_since_epoch_def ms_to_system_time_def)

lemma millis_since_epoch_None_iff: "millis_since_epoch t = None \<longleftrightarrow> t < 0"
  by (simp add: millis_since_epoch_def)

definition saturating_add :: "u64 \<Rightarrow> u64 \<Rightarrow> u64" where
  "saturating_add a b = (if unat a + unat b < 2 ^ 64 then a + b else - 1)"

definition saturating_mul :: "u64 \<Rightarrow> u64 \<Rightarrow> u64" where
  "saturating_mul a b = (if unat a * unat b < 2 ^ 64 then a * b else - 1)"

lemma u64_add_1_neq [simp]: "(n::u64) + 1 \<noteq> n"
  by simp

lemma unat_u64_Suc:
  fixes n :: u64
  assumes "unat n < 2 ^ 64 - 1"
  shows "unat (n + 1) = Suc (unat n)"
  using assms by (simp add: unat_word_ariths)

section \<open>Decimal formatting\<close>

definition digit_char :: "nat \<Rightarrow> char" where
  "digit_char d = char_of (48 + d)"

function show_nat :: "nat \<Rightarrow> string" where
  "show_nat n = (if n < 10 then [digit_char n] else show_nat (n div 10) @ [digit_char (n mod 10)])"
  by pat_completeness auto
termination
  by (relation "measure id") auto

declare show_nat.simps [simp del]

definition show_u64 :: "u64 \<Rightarrow> string" where
  "show_u64 n = show_nat (unat n)"

definition read_nat :: "string \<Rightarrow> nat" where
  "read_nat s = foldl (\<lambda>a c. 10 * a + (of_char c - 48)) 0 s"

lemma of_char_digit_char: "d < 10 \<Longrightarrow> of_char (digit_char d) = (48 + d :: nat)"
  by (simp add: digit_char_def)

lemma read_nat_show_nat [simp]: "read_nat (show_nat n) = n"
proof (induction n rule: show_nat.induct)
  case (1 n)
  show ?case
  proof (cases "n < 10")
    case True
    then show ?thesis
      by (simp add: show_nat.simps [of n] read_nat_def of_char_digit_char)
  next
    case False
    with "1.IH" have "read_nat (show_nat (n div 10)) = n div 10" by simp
    with False show ?thesis
      by (simp add: show_nat.simps [of n] read_nat_def of_char_digit_char)
  qed
qed

lemma show_nat_inject [simp]: "show_nat m = show_nat n \<longleftrightarrow> m = n"
  by (metis read_nat_show_nat)

lemma show_u64_inject [simp]: "show_u64 m = show_u64 n \<longleftrightarrow> m = n"
  by (simp add: show_u64_def word_unat_eq_iff)

lemma show_nat_digits: "set (show_nat n) \<subseteq> digit_char ` {..<10}"
proof (induction n rule: show_nat.induct)
  case (1 n)
  then show ?case by (subst show_nat.simps) auto
qed

lemma show_nat_nonempty [simp]: "show_nat n \<noteq> []"
  by (subst show_nat.simps) simp

lemma show_u64_no_char:
  assumes "c \<notin> digit_char ` {..<10}"
  shows "c \<notin> set (show_u64 n)"
  using assms show_nat_digits [of "unat n"] by (auto simp: show_u64_def)

section \<open>UTF-8 strings\<close>

definition is_cont :: "char \<Rightarrow> bool" where
  "is_cont c \<longleftrightarrow> 128 \<le> (of_char c :: nat) \<and> of_char c < (192 :: nat)"

text \<open>\<open>s.chars()\<close>: one byte group per scalar value.\<close>

function chars :: "string \<Rightarrow> string list" where
  "chars [] = []"
| "chars (c # cs) = (c # takeWhile is_cont cs) # chars (dropWhile is_cont cs)"
  by pat_completeness auto
termination
  by (relation "measure length") (auto simp: less_Suc_eq_le length_dropWhile_le)

text \<open>\<open>char::is_whitespace\<close>: the Unicode property White\_Space.\<close>

definition is_whitespace :: "string \<Rightarrow> bool" where
  "is_whitespace g \<longleftrightarrow> (map of_char g :: nat list) \<in> set
     ([[9], [10], [11], [12], [13], [32], [194, 133], [194, 160], [225, 154, 128],
       [226, 128, 168], [226, 128, 169], [226, 128, 175], [226, 129, 159], [227, 128, 128]]
      @ map (\<lambda>b. [226, 128, b]) [128 ..< 139])"

text \<open>\<open>char::is_control\<close>: the general category Cc.\<close>

definition is_control :: "string \<Rightarrow> bool" where
  "is_control g = (case map of_char g :: nat list of
      [a] \<Rightarrow> a < 32 \<or> a = 127
    | [a, b] \<Rightarrow> a = 194 \<and> 128 \<le> b \<and> b < 160
    | _ \<Rightarrow> False)"

definition trim_start :: "string \<Rightarrow> string" where
  "trim_start s = concat (dropWhile is_whitespace (chars s))"

definition trim_end :: "string \<Rightarrow> string" where
  "trim_end s = concat (rev (dropWhile is_whitespace (rev (chars s))))"

definition trim :: "string \<Rightarrow> string" where
  "trim s = concat (rev (dropWhile is_whitespace (rev (dropWhile is_whitespace (chars s)))))"

definition is_ascii_alphanumeric :: "char \<Rightarrow> bool" where
  "is_ascii_alphanumeric c = (let n = (of_char c :: nat) in
     (48 \<le> n \<and> n < 58) \<or> (65 \<le> n \<and> n < 91) \<or> (97 \<le> n \<and> n < 123))"

definition is_ascii_hexdigit :: "char \<Rightarrow> bool" where
  "is_ascii_hexdigit c = (let n = (of_char c :: nat) in
     (48 \<le> n \<and> n < 58) \<or> (65 \<le> n \<and> n < 71) \<or> (97 \<le> n \<and> n < 103))"

definition ascii_lower :: "char \<Rightarrow> char" where
  "ascii_lower c = (let n = (of_char c :: nat) in
     if 65 \<le> n \<and> n < 91 then char_of (n + 32) else c)"

definition to_ascii_lowercase :: "string \<Rightarrow> string" where
  "to_ascii_lowercase s = map ascii_lower s"

fun starts_with :: "string \<Rightarrow> string \<Rightarrow> bool" where
  "starts_with s [] \<longleftrightarrow> True"
| "starts_with [] (p # ps) \<longleftrightarrow> False"
| "starts_with (c # cs) (p # ps) \<longleftrightarrow> (if c = p then starts_with cs ps else False)"

definition strip_prefix :: "string \<Rightarrow> string \<Rightarrow> string option" where
  "strip_prefix s p = (if starts_with s p then Some (drop (length p) s) else None)"

fun str_contains :: "string \<Rightarrow> string \<Rightarrow> bool" where
  "str_contains [] p \<longleftrightarrow> p = []"
| "str_contains (c # cs) p \<longleftrightarrow> (if starts_with (c # cs) p then True else str_contains cs p)"

text \<open>\<open>s.split(sep)\<close> on the bytes of \<open>s\<close>; a separator outside ASCII yields extra empty
  pieces, which every caller drops.\<close>

fun split_on :: "(char \<Rightarrow> bool) \<Rightarrow> string \<Rightarrow> string list" where
  "split_on sep [] = [[]]"
| "split_on sep (c # cs) =
     (if sep c then [] # split_on sep cs
      else case split_on sep cs of [] \<Rightarrow> [[c]] | w # ws \<Rightarrow> (c # w) # ws)"

lemma starts_with_iff_prefix: "starts_with s p \<longleftrightarrow> prefix p s"
  by (induction s p rule: starts_with.induct) auto

lemma str_contains_iff_sublist: "str_contains s p \<longleftrightarrow> sublist p s"
  by (induction s) (auto simp: starts_with_iff_prefix sublist_Cons_right)

lemma strip_prefix_Some_iff: "strip_prefix s p = Some r \<longleftrightarrow> s = p @ r"
  by (auto simp: strip_prefix_def starts_with_iff_prefix prefix_def)

lemma concat_chars [simp]: "concat (chars s) = s"
  by (induction s rule: chars.induct) auto

lemma chars_eq_Nil_iff [simp]: "chars s = [] \<longleftrightarrow> s = []"
  by (cases s) auto

text \<open>The shape of a list of byte groups that comes from \<open>chars\<close>.\<close>

definition char_group :: "string \<Rightarrow> bool" where
  "char_group g \<longleftrightarrow> g \<noteq> [] \<and> list_all is_cont (tl g)"

definition char_groups :: "string list \<Rightarrow> bool" where
  "char_groups gs \<longleftrightarrow> list_all char_group gs \<and> list_all (\<lambda>g. \<not> is_cont (hd g)) (tl gs)"

lemma char_groups_chars [simp]: "char_groups (chars s)"
proof (induction s rule: chars.induct)
  case 1
  show ?case by (simp add: char_groups_def)
next
  case (2 c cs)
  have lead: "list_all (\<lambda>g. \<not> is_cont (hd g)) (chars (dropWhile is_cont cs))"
  proof (cases "dropWhile is_cont cs")
    case Nil
    then show ?thesis by (simp only: Nil chars.simps list.pred_inject)
  next
    case (Cons d ds)
    then have "\<not> is_cont d" by (simp add: dropWhile_eq_Cons_conv)
    with "2.IH" Cons show ?thesis by (simp add: char_groups_def)
  qed
  with "2.IH" show ?case
    by (auto simp: char_groups_def char_group_def list_all_iff dest: set_takeWhileD)
qed

lemma chars_concat:
  "char_groups gs \<Longrightarrow> chars (concat gs) = gs"
proof (induction gs)
  case Nil
  then show ?case by simp
next
  case (Cons g gs)
  then obtain c cs where g: "g = c # cs" and cs: "list_all is_cont cs"
    by (cases g) (auto simp: char_groups_def char_group_def)
  have stop: "dropWhile is_cont (concat gs) = concat gs \<and> takeWhile is_cont (concat gs) = []"
  proof (cases gs)
    case Nil
    then show ?thesis by simp
  next
    case (Cons h hs)
    with Cons.prems have "h \<noteq> []" and "\<not> is_cont (hd h)"
      by (auto simp: char_groups_def char_group_def)
    then show ?thesis using Cons by (cases h) auto
  qed
  have "chars (concat gs) = gs"
  proof (rule Cons.IH)
    show "char_groups gs"
      using Cons.prems by (cases gs) (auto simp: char_groups_def)
  qed
  with g cs stop show ?case
    by (simp add: list_all_iff takeWhile_append dropWhile_append)
qed

lemma char_groups_append: "char_groups (xs @ ys) \<Longrightarrow> char_groups xs \<and> char_groups ys"
  by (cases xs; cases ys) (auto simp: char_groups_def list_all_iff)

lemma char_groups_dropWhile: "char_groups gs \<Longrightarrow> char_groups (dropWhile P gs)"
  using char_groups_append [of "takeWhile P gs" "dropWhile P gs"] by simp

lemma char_groups_rev_dropWhile: "char_groups gs \<Longrightarrow> char_groups (rev (dropWhile P (rev gs)))"
proof -
  assume "char_groups gs"
  moreover have "gs = rev (dropWhile P (rev gs)) @ rev (takeWhile P (rev gs))"
    by (metis rev_append rev_rev_ident takeWhile_dropWhile_id)
  ultimately show ?thesis using char_groups_append by metis
qed

lemma char_groups_take: "char_groups gs \<Longrightarrow> char_groups (take n gs)"
  using char_groups_append [of "take n gs" "drop n gs"] by simp

lemma chars_trim:
  "chars (trim s) = rev (dropWhile is_whitespace (rev (dropWhile is_whitespace (chars s))))"
  unfolding trim_def
  by (intro chars_concat char_groups_rev_dropWhile char_groups_dropWhile char_groups_chars)

lemma hd_dropWhile_not: "dropWhile P xs \<noteq> [] \<Longrightarrow> \<not> P (hd (dropWhile P xs))"
  by (rule hd_dropWhile)

lemma rev_dropWhile_fix:
  assumes "\<And>x. xs \<noteq> [] \<Longrightarrow> \<not> P (hd xs)"
  shows "dropWhile P (rev (dropWhile P (rev xs))) = rev (dropWhile P (rev xs))"
proof -
  obtain zs where xs: "xs = rev (dropWhile P (rev xs)) @ zs"
    by (metis rev_append rev_rev_ident takeWhile_dropWhile_id)
  show ?thesis
  proof (cases "rev (dropWhile P (rev xs))")
    case Nil
    then show ?thesis by (simp only: Nil dropWhile.simps)
  next
    case (Cons y ys)
    with xs have "hd xs = y" and "xs \<noteq> []" by (metis append_Cons list.sel(1), auto)
    with assms have "\<not> P y" by auto
    with Cons show ?thesis by simp
  qed
qed

lemma dropWhile_idem [simp]: "dropWhile P (dropWhile P xs) = dropWhile P xs"
  by (induction xs) auto

lemma trim_idem [simp]: "trim (trim s) = trim s"
proof -
  let ?w = is_whitespace
  let ?a = "dropWhile ?w (chars s)"
  let ?b = "rev (dropWhile ?w (rev ?a))"
  have "dropWhile ?w ?b = ?b"
    by (rule rev_dropWhile_fix) (metis hd_dropWhile)
  then show ?thesis
    by (simp add: trim_def [of "trim s"] chars_trim) (simp add: trim_def)
qed

lemma trim_eq_Nil_iff: "trim s = [] \<longleftrightarrow> list_all is_whitespace (chars s)"
proof -
  have "trim s = [] \<longleftrightarrow> chars (trim s) = []" by simp
  also have "\<dots> \<longleftrightarrow> (\<forall>g \<in> set (dropWhile is_whitespace (chars s)). is_whitespace g)"
    by (simp add: chars_trim del: chars_eq_Nil_iff)
  also have "\<dots> \<longleftrightarrow> (\<forall>g \<in> set (chars s). is_whitespace g)"
    by (metis (no_types) dropWhile_eq_Nil_conv empty_iff hd_dropWhile hd_in_set list.set(1))
  finally show ?thesis by (simp add: list_all_iff)
qed

text \<open>Text in ASCII, the case of every literal of the sources.\<close>

abbreviation ascii :: "string \<Rightarrow> bool" where
  "ascii s \<equiv> list_all (\<lambda>c. of_char c < (128 :: nat)) s"

lemma chars_ascii: "ascii s \<Longrightarrow> chars s = map (\<lambda>c. [c]) s"
proof (induction s)
  case Nil
  show ?case by simp
next
  case (Cons c cs)
  then have "takeWhile is_cont cs = [] \<and> dropWhile is_cont cs = cs"
    by (cases cs) (auto simp: is_cont_def)
  with Cons show ?case by simp
qed

lemma trim_ascii:
  assumes "ascii s" and "\<not> is_whitespace [hd s]" and "\<not> is_whitespace [last s]"
  shows "trim s = s"
proof (cases "s = []")
  case True
  then show ?thesis by (simp add: trim_def)
next
  case False
  then obtain c cs where "s = c # cs" by (cases s) auto
  with assms have left: "dropWhile is_whitespace (chars s) = chars s"
    by (simp only: chars_ascii list.map list.sel dropWhile.simps if_False)
  have "rev s = last s # tl (rev s)"
    using False by (metis hd_rev list.collapse rev_is_Nil_conv)
  then have "rev (chars s) = [last s] # map (\<lambda>c. [c]) (tl (rev s))"
    using assms(1) by (metis chars_ascii list.simps(9) rev_map)
  with assms(3) have "dropWhile is_whitespace (rev (chars s)) = rev (chars s)" by simp
  with left show ?thesis by (simp add: trim_def)
qed

end
