(* ===== verification/Identity.thy ===== *)
theory Identity
  imports OAR_Prelude
begin

text \<open>
  Identity and token grants (\<open>domain/identity.rs\<close>, \<open>domain/token_grant.rs\<close>): tenants, users,
  Lark identities and the life cycle of an OAuth grant. Every operation of a grant consumes the
  grant and returns the new one or an error. The lemmas give the life cycle as a step relation:
  a revoked grant never changes again, a grant that needs reauthorisation can only be revoked,
  and the time stamps agree with the state in every reachable grant.
\<close>

section \<open>Data\<close>

datatype tenant_id = TenantId (tenant_str: string)
datatype workspace_user_id = WorkspaceUserId (user_str: string)
datatype lark_identity_id = LarkIdentityId (identity_str: string)
datatype token_grant_id = TokenGrantId (grant_str: string)
datatype device_session_id = DeviceSessionId (session_str: string)

datatype tenant_status = TenantActive | TenantSuspended

record tenant =
  tn_id :: tenant_id
  tn_display_name :: string
  tn_status :: tenant_status

datatype workspace_user_status = UserActive | UserDisabled

record workspace_user =
  wu_id :: workspace_user_id
  wu_tenant_id :: tenant_id
  wu_display_name :: string
  wu_status :: workspace_user_status

datatype actor_kind = ActorUser | ActorBot | ActorApp | ActorService

record lark_identity =
  li_id :: lark_identity_id
  li_tenant_id :: tenant_id
  li_actor_kind :: actor_kind
  li_actor_external_id :: string
  li_display_name :: "string option"

datatype scope_boundary = BoundaryTenant | BoundaryUser | BoundaryAdmin | BoundaryBot
  | BoundaryService

datatype secret_string = SecretString (expose_secret: string)

definition secret_display :: "secret_string \<Rightarrow> string" where
  "secret_display s = ''[REDACTED]''"

record oauth_tokens =
  ot_access_token :: secret_string
  ot_refresh_token :: "secret_string option"

datatype token_grant_state = Valid | NeedsRefresh | Expired | Revoked | ReauthRequired

record token_grant =
  tg_id :: token_grant_id
  tg_tenant_id :: tenant_id
  tg_identity_id :: lark_identity_id
  tg_actor_kind :: actor_kind
  tg_scope_boundary :: scope_boundary
  tg_scopes :: "string list"
  tg_state :: token_grant_state
  tg_issued_at :: system_time
  tg_expires_at :: "system_time option"
  tg_refreshed_at :: "system_time option"
  tg_revoked_at :: "system_time option"
  tg_reauth_required_at :: "system_time option"
  tg_last_refresh_error :: "string option"
  tg_tokens :: oauth_tokens
  tg_revocation_reason :: "string option"

datatype token_grant_error =
    InvalidGrantTransition token_grant_state string
  | MissingRefreshToken
  | RevokedGrant
  | GrantReauthRequired

section \<open>Operations\<close>

definition ensure_refreshable :: "token_grant \<Rightarrow> (unit, token_grant_error) result" where
  "ensure_refreshable g = (case tg_state g of
      Revoked \<Rightarrow> Err RevokedGrant
    | ReauthRequired \<Rightarrow> Err GrantReauthRequired
    | _ \<Rightarrow> (if ot_refresh_token (tg_tokens g) = None then Err MissingRefreshToken else Ok ()))"

definition mark_needs_refresh :: "token_grant \<Rightarrow> (token_grant, token_grant_error) result" where
  "mark_needs_refresh g = (case tg_state g of
      Revoked \<Rightarrow> Err RevokedGrant
    | ReauthRequired \<Rightarrow> Err GrantReauthRequired
    | _ \<Rightarrow> Ok (g\<lparr>tg_state := NeedsRefresh\<rparr>))"

definition refresh_succeeded_with_rotation ::
  "token_grant \<Rightarrow> system_time \<Rightarrow> secret_string \<Rightarrow> secret_string \<Rightarrow> system_time option
     \<Rightarrow> (token_grant, token_grant_error) result" where
  "refresh_succeeded_with_rotation g now new_access new_refresh new_expires_at =
     try_then (ensure_refreshable g) (\<lambda>_. Ok (g\<lparr>
        tg_tokens := \<lparr>ot_access_token = new_access, ot_refresh_token = Some new_refresh\<rparr>,
        tg_state := Valid,
        tg_expires_at := new_expires_at,
        tg_refreshed_at := Some now,
        tg_last_refresh_error := None\<rparr>))"

definition refresh_failed_transient ::
  "token_grant \<Rightarrow> system_time \<Rightarrow> string \<Rightarrow> (token_grant, token_grant_error) result" where
  "refresh_failed_transient g now reason =
     try_then (ensure_refreshable g) (\<lambda>_. Ok (g\<lparr>
        tg_state := NeedsRefresh,
        tg_refreshed_at := Some now,
        tg_last_refresh_error := Some reason\<rparr>))"

definition refresh_failed_reauth_required ::
  "token_grant \<Rightarrow> system_time \<Rightarrow> string \<Rightarrow> (token_grant, token_grant_error) result" where
  "refresh_failed_reauth_required g now reason = (case tg_state g of
      Revoked \<Rightarrow> Err RevokedGrant
    | ReauthRequired \<Rightarrow>
        Err (InvalidGrantTransition ReauthRequired ''refresh_failed_reauth_required'')
    | _ \<Rightarrow> Ok (g\<lparr>
        tg_state := ReauthRequired,
        tg_reauth_required_at := Some now,
        tg_last_refresh_error := Some reason\<rparr>))"

definition revoke_grant ::
  "token_grant \<Rightarrow> system_time \<Rightarrow> string \<Rightarrow> (token_grant, token_grant_error) result" where
  "revoke_grant g now reason =
     (if tg_state g = Revoked then Err (InvalidGrantTransition Revoked ''revoke'')
      else Ok (g\<lparr>
        tg_state := Revoked,
        tg_revoked_at := Some now,
        tg_revocation_reason := Some reason\<rparr>))"

text \<open>\<open>is_refreshable\<close> of \<open>domain/token_refresh/decision.rs\<close>.\<close>

definition is_refreshable :: "token_grant \<Rightarrow> bool" where
  "is_refreshable g \<longleftrightarrow>
     tg_state g \<in> {Valid, Expired, NeedsRefresh} \<and>
     ot_refresh_token (tg_tokens g) \<noteq> None \<and>
     tg_revoked_at g = None \<and> tg_reauth_required_at g = None"

lemmas grant_op_defs = mark_needs_refresh_def refresh_succeeded_with_rotation_def
  refresh_failed_transient_def refresh_failed_reauth_required_def revoke_grant_def
  ensure_refreshable_def

section \<open>The life cycle as a step relation\<close>

inductive grant_step :: "token_grant \<Rightarrow> token_grant \<Rightarrow> bool" where
  mark: "mark_needs_refresh g = Ok g' \<Longrightarrow> grant_step g g'"
| rotate: "refresh_succeeded_with_rotation g now a r e = Ok g' \<Longrightarrow> grant_step g g'"
| transient: "refresh_failed_transient g now reason = Ok g' \<Longrightarrow> grant_step g g'"
| reauth: "refresh_failed_reauth_required g now reason = Ok g' \<Longrightarrow> grant_step g g'"
| revoke: "revoke_grant g now reason = Ok g' \<Longrightarrow> grant_step g g'"

inductive_cases grant_stepE: "grant_step g g'"

abbreviation grant_steps :: "token_grant \<Rightarrow> token_grant \<Rightarrow> bool" where
  "grant_steps \<equiv> rtranclp grant_step"

text \<open>The time stamps of a grant agree with its state.\<close>

definition grant_wf :: "token_grant \<Rightarrow> bool" where
  "grant_wf g \<longleftrightarrow>
     (tg_revoked_at g \<noteq> None \<longleftrightarrow> tg_state g = Revoked) \<and>
     (tg_state g = ReauthRequired \<longrightarrow> tg_reauth_required_at g \<noteq> None) \<and>
     (tg_reauth_required_at g \<noteq> None \<longrightarrow> tg_state g \<in> {ReauthRequired, Revoked})"

lemma grant_step_wf [oar_inv]: "grant_step g g' \<Longrightarrow> grant_wf g \<Longrightarrow> grant_wf g'"
  by (induction rule: grant_step.induct)
    (auto simp: grant_op_defs grant_wf_def split: token_grant_state.splits if_splits)

lemma grant_steps_wf [oar_inv]: "grant_steps g g' \<Longrightarrow> grant_wf g \<Longrightarrow> grant_wf g'"
  by (induction rule: rtranclp_induct) (auto intro: grant_step_wf)

lemma grant_step_frame:
  assumes "grant_step g g'"
  shows "tg_id g' = tg_id g" and "tg_tenant_id g' = tg_tenant_id g"
    and "tg_identity_id g' = tg_identity_id g" and "tg_actor_kind g' = tg_actor_kind g"
    and "tg_scope_boundary g' = tg_scope_boundary g" and "tg_scopes g' = tg_scopes g"
    and "tg_issued_at g' = tg_issued_at g"
  using assms
  by (auto elim!: grant_stepE simp: grant_op_defs split: token_grant_state.splits if_splits)

lemma grant_step_from_revoked: "tg_state g = Revoked \<Longrightarrow> \<not> grant_step g g'"
  by (auto elim!: grant_stepE simp: grant_op_defs)

lemma grant_step_from_reauth:
  assumes "tg_state g = ReauthRequired" and "grant_step g g'"
  shows "tg_state g' = Revoked \<and> tg_tokens g' = tg_tokens g"
  using assms(2,1) by (cases rule: grant_step.cases) (auto simp: grant_op_defs)

lemma grant_steps_from_reauth:
  assumes "grant_steps g g'" and "tg_state g = ReauthRequired"
  shows "tg_state g' \<in> {ReauthRequired, Revoked} \<and> tg_tokens g' = tg_tokens g"
  using assms
proof (induction rule: rtranclp_induct)
  case base
  then show ?case by simp
next
  case (step h h')
  then show ?case
    using grant_step_from_reauth [of h h'] grant_step_from_revoked [of h h'] by auto
qed

text \<open>
  C20. A revoked grant is final: no sequence of grant operations changes it in any field.
\<close>

theorem revoked_grant_final:
  assumes "tg_state g = Revoked" and "grant_steps g g'"
  shows "g' = g"
  using assms(2,1)
  by (induction rule: converse_rtranclp_induct) (auto dest: grant_step_from_revoked)

definition sample_tokens :: oauth_tokens where
  "sample_tokens = \<lparr>ot_access_token = SecretString ''at'', ot_refresh_token = Some (SecretString ''rt'')\<rparr>"

definition sample_grant :: token_grant where
  "sample_grant = \<lparr>tg_id = TokenGrantId ''g1'', tg_tenant_id = TenantId ''t1'',
     tg_identity_id = LarkIdentityId ''i1'', tg_actor_kind = ActorUser,
     tg_scope_boundary = BoundaryUser, tg_scopes = [''okr.progress.write''], tg_state = Valid,
     tg_issued_at = 0, tg_expires_at = None, tg_refreshed_at = None, tg_revoked_at = None,
     tg_reauth_required_at = None, tg_last_refresh_error = None, tg_tokens = sample_tokens,
     tg_revocation_reason = None\<rparr>"

lemma revoked_grant_final_witness:
  "\<exists>g. grant_steps sample_grant g \<and> tg_state g = Revoked \<and> (\<forall>g'. grant_steps g g' \<longrightarrow> g' = g)"
proof -
  define g where "g = sample_grant\<lparr>tg_state := Revoked, tg_revoked_at := Some 5,
    tg_revocation_reason := Some ''left''\<rparr>"
  have "revoke_grant sample_grant 5 ''left'' = Ok g"
    by (simp add: revoke_grant_def g_def sample_grant_def)
  then have "grant_steps sample_grant g" by (auto intro: grant_step.revoke)
  moreover have "tg_state g = Revoked" by (simp add: g_def)
  ultimately show ?thesis using revoked_grant_final by blast
qed

text \<open>
  From any well-formed grant, every reachable grant has time stamps that agree with its
  state, keeps its identity, tenant and scopes, and the service-level test \<open>is_refreshable\<close>
  agrees with the guard \<open>ensure_refreshable\<close> of the refresh operations.
\<close>

theorem grant_reachable_wf_and_refreshable:
  assumes "grant_wf g" and "grant_steps g g'"
  shows "grant_wf g' \<and> tg_tenant_id g' = tg_tenant_id g \<and> tg_identity_id g' = tg_identity_id g \<and>
    tg_scopes g' = tg_scopes g \<and> (is_refreshable g' \<longleftrightarrow> ensure_refreshable g' = Ok ())"
proof -
  from assms have wf: "grant_wf g'" by (blast intro: grant_steps_wf)
  have frame: "tg_tenant_id g' = tg_tenant_id g \<and> tg_identity_id g' = tg_identity_id g \<and>
      tg_scopes g' = tg_scopes g"
    using assms(2) by (induction rule: rtranclp_induct) (auto simp: grant_step_frame)
  have "is_refreshable g' \<longleftrightarrow> ensure_refreshable g' = Ok ()"
    using wf by (auto simp: is_refreshable_def ensure_refreshable_def grant_wf_def
        split: token_grant_state.splits if_splits)
  with wf frame show ?thesis by blast
qed

lemma grant_reachable_wf_and_refreshable_witness:
  "grant_wf sample_grant \<and> grant_steps sample_grant sample_grant \<and>
   is_refreshable sample_grant \<and> ensure_refreshable sample_grant = Ok ()"
proof -
  have "grant_wf sample_grant" by (simp add: grant_wf_def sample_grant_def)
  moreover have "is_refreshable sample_grant"
    by (simp add: is_refreshable_def sample_grant_def sample_tokens_def)
  ultimately show ?thesis
    using grant_reachable_wf_and_refreshable [of sample_grant sample_grant] by auto
qed

end
