(* ===== verification/Confirmed_Action.thy ===== *)
theory Confirmed_Action
  imports Identity
begin

text \<open>
  Confirmed actions (\<open>action/confirmed_action.rs\<close>): the unit of work that a human has approved.
\<close>

datatype action_status = Proposed | Confirmed | Executing | Succeeded | Failed | Cancelled

record confirmed_action =
  ca_action_id :: string
  ca_tenant_id :: string
  ca_actor_user_id :: string
  ca_idempotency_key :: string
  ca_status :: action_status
  ca_confirmed_at :: "system_time option"

definition proposed_confirmed_action ::
  "string \<Rightarrow> string \<Rightarrow> string \<Rightarrow> string \<Rightarrow> confirmed_action" where
  "proposed_confirmed_action action_id tenant_id actor_user_id idempotency_key =
    \<lparr>ca_action_id = action_id, ca_tenant_id = tenant_id, ca_actor_user_id = actor_user_id,
     ca_idempotency_key = idempotency_key, ca_status = Proposed, ca_confirmed_at = None\<rparr>"

definition confirm_action :: "confirmed_action \<Rightarrow> system_time \<Rightarrow> confirmed_action" where
  "confirm_action a at = a\<lparr>ca_status := Confirmed, ca_confirmed_at := Some at\<rparr>"

text \<open>\<open>{status:?}\<close>, the derived \<open>Debug\<close> text.\<close>

fun show_action_status :: "action_status \<Rightarrow> string" where
  "show_action_status Proposed = ''Proposed''"
| "show_action_status Confirmed = ''Confirmed''"
| "show_action_status Executing = ''Executing''"
| "show_action_status Succeeded = ''Succeeded''"
| "show_action_status Failed = ''Failed''"
| "show_action_status Cancelled = ''Cancelled''"

text \<open>\<open>is_terminal_status\<close> of \<open>action/executor/policy.rs\<close> and of the Postgres executor.\<close>

fun is_terminal_status :: "action_status \<Rightarrow> bool" where
  "is_terminal_status Succeeded = True"
| "is_terminal_status Failed = True"
| "is_terminal_status Cancelled = True"
| "is_terminal_status _ = False"

lemma is_terminal_status_iff: "is_terminal_status s \<longleftrightarrow> s \<in> {Succeeded, Failed, Cancelled}"
  by (cases s) auto

lemma confirm_action_simps [simp]:
  "ca_status (confirm_action a at) = Confirmed"
  "ca_tenant_id (confirm_action a at) = ca_tenant_id a"
  "ca_actor_user_id (confirm_action a at) = ca_actor_user_id a"
  "ca_idempotency_key (confirm_action a at) = ca_idempotency_key a"
  "ca_action_id (confirm_action a at) = ca_action_id a"
  by (simp_all add: confirm_action_def)

end
