(* ===== verification/Capability.thy ===== *)
theory Capability
  imports OAR_Prelude
begin

text \<open>
  The capability matrix (\<open>action/capability.rs\<close>, \<open>action/capability/matrix.rs\<close>,
  \<open>action/capability/feishu.rs\<close>): what the agent can do, the scope each capability needs, which
  capabilities may enter the execution allowlist, and the OAuth scopes a set of actions
  requires. The lemmas show that the matrix has one row per action type and per capability, that
  every row admitted to execution is guarded, and what the scope derivation returns.
\<close>

section \<open>Data\<close>

datatype agent_capability = CapOkrPeriodRead | CapOkrContentRead | CapOkrProgressRead
  | CapOkrProgressCreate | CapOkrProgressUpdate | CapOkrReviewRead | CapOkrSettingRead
  | CapCalendarRead | CapCalendarEventRead | CapCalendarFreeBusyRead | CapTaskRead
  | CapTaskCreate | CapDocxDocumentRead | CapWikiNodeRead | CapMinutesBasicRead
  | CapMinutesSearchRead | CapImMessageSend

fun capability_str :: "agent_capability \<Rightarrow> string" where
  "capability_str CapOkrPeriodRead = ''okr_period_read''"
| "capability_str CapOkrContentRead = ''okr_content_read''"
| "capability_str CapOkrProgressRead = ''okr_progress_read''"
| "capability_str CapOkrProgressCreate = ''okr_progress_create''"
| "capability_str CapOkrProgressUpdate = ''okr_progress_update''"
| "capability_str CapOkrReviewRead = ''okr_review_read''"
| "capability_str CapOkrSettingRead = ''okr_setting_read''"
| "capability_str CapCalendarRead = ''calendar_read''"
| "capability_str CapCalendarEventRead = ''calendar_event_read''"
| "capability_str CapCalendarFreeBusyRead = ''calendar_free_busy_read''"
| "capability_str CapTaskRead = ''task_read''"
| "capability_str CapTaskCreate = ''task_create''"
| "capability_str CapDocxDocumentRead = ''docx_document_read''"
| "capability_str CapWikiNodeRead = ''wiki_node_read''"
| "capability_str CapMinutesBasicRead = ''minutes_basic_read''"
| "capability_str CapMinutesSearchRead = ''minutes_search_read''"
| "capability_str CapImMessageSend = ''im_message_send''"

datatype capability_action_type = ActOkrPeriodRead | ActOkrContentRead | ActOkrProgressRead
  | ActOkrProgressCreate | ActOkrProgressUpdate | ActOkrReviewRead | ActOkrSettingRead
  | ActCalendarRead | ActCalendarEventRead | ActCalendarFreeBusyRead | ActTaskRead
  | ActTaskCreate | ActDocxDocumentRead | ActWikiNodeRead | ActMinutesBasicRead
  | ActMinutesSearchRead | ActImMessageSend

fun action_type_str :: "capability_action_type \<Rightarrow> string" where
  "action_type_str ActOkrPeriodRead = ''okr.period.read''"
| "action_type_str ActOkrContentRead = ''okr.content.read''"
| "action_type_str ActOkrProgressRead = ''okr.progress.read''"
| "action_type_str ActOkrProgressCreate = ''okr.progress.create''"
| "action_type_str ActOkrProgressUpdate = ''okr.progress.update''"
| "action_type_str ActOkrReviewRead = ''okr.review.read''"
| "action_type_str ActOkrSettingRead = ''okr.setting.read''"
| "action_type_str ActCalendarRead = ''calendar.read''"
| "action_type_str ActCalendarEventRead = ''calendar.event.read''"
| "action_type_str ActCalendarFreeBusyRead = ''calendar.free_busy.read''"
| "action_type_str ActTaskRead = ''task.read''"
| "action_type_str ActTaskCreate = ''task.create''"
| "action_type_str ActDocxDocumentRead = ''docx.document.read''"
| "action_type_str ActWikiNodeRead = ''wiki.node.read''"
| "action_type_str ActMinutesBasicRead = ''minutes.basic.read''"
| "action_type_str ActMinutesSearchRead = ''minutes.search.read''"
| "action_type_str ActImMessageSend = ''im.message.send''"

datatype unknown_action_type = UnknownCapabilityActionType string

definition action_type_from_str ::
  "string \<Rightarrow> (capability_action_type, unknown_action_type) result" where
  "action_type_from_str value = (
     if value = ''okr.period.read'' then Ok ActOkrPeriodRead
     else if value = ''okr.content.read'' then Ok ActOkrContentRead
     else if value = ''okr.progress.read'' then Ok ActOkrProgressRead
     else if value = ''okr.progress.create'' then Ok ActOkrProgressCreate
     else if value = ''okr.progress.update'' then Ok ActOkrProgressUpdate
     else if value = ''okr.review.read'' then Ok ActOkrReviewRead
     else if value = ''okr.setting.read'' then Ok ActOkrSettingRead
     else if value = ''calendar.read'' then Ok ActCalendarRead
     else if value = ''calendar.event.read'' then Ok ActCalendarEventRead
     else if value = ''calendar.free_busy.read'' then Ok ActCalendarFreeBusyRead
     else if value = ''task.read'' then Ok ActTaskRead
     else if value = ''task.create'' then Ok ActTaskCreate
     else if value = ''docx.document.read'' then Ok ActDocxDocumentRead
     else if value = ''wiki.node.read'' then Ok ActWikiNodeRead
     else if value = ''minutes.basic.read'' then Ok ActMinutesBasicRead
     else if value = ''minutes.search.read'' then Ok ActMinutesSearchRead
     else if value = ''im.message.send'' then Ok ActImMessageSend
     else Err (UnknownCapabilityActionType value))"

datatype platform_adapter = Lark

datatype oar_required_scope = ScopeOkrPeriodRead | ScopeOkrContentRead | ScopeOkrProgressRead
  | ScopeOkrProgressWrite | ScopeOkrReviewRead | ScopeOkrSettingRead | ScopeCalendarRead
  | ScopeCalendarEventRead | ScopeCalendarFreeBusyRead | ScopeTaskRead | ScopeTaskWrite
  | ScopeDocxDocumentRead | ScopeWikiNodeRead | ScopeMinutesBasicRead | ScopeMinutesSearchRead
  | ScopeImMessageSendAsBot

fun required_scope_str :: "oar_required_scope \<Rightarrow> string" where
  "required_scope_str ScopeOkrPeriodRead = ''okr.period.read''"
| "required_scope_str ScopeOkrContentRead = ''okr.content.read''"
| "required_scope_str ScopeOkrProgressRead = ''okr.progress.read''"
| "required_scope_str ScopeOkrProgressWrite = ''okr.progress.write''"
| "required_scope_str ScopeOkrReviewRead = ''okr.review.read''"
| "required_scope_str ScopeOkrSettingRead = ''okr.setting.read''"
| "required_scope_str ScopeCalendarRead = ''calendar.read''"
| "required_scope_str ScopeCalendarEventRead = ''calendar.event.read''"
| "required_scope_str ScopeCalendarFreeBusyRead = ''calendar.free_busy.read''"
| "required_scope_str ScopeTaskRead = ''task.read''"
| "required_scope_str ScopeTaskWrite = ''task.write''"
| "required_scope_str ScopeDocxDocumentRead = ''docx.document.read''"
| "required_scope_str ScopeWikiNodeRead = ''wiki.node.read''"
| "required_scope_str ScopeMinutesBasicRead = ''minutes.basic.read''"
| "required_scope_str ScopeMinutesSearchRead = ''minutes.search.read''"
| "required_scope_str ScopeImMessageSendAsBot = ''im.message.send_as_bot''"

datatype capability_effect = EffectRead | EffectWrite

datatype capability_execution_mode = AutoRead | DraftOnly | ConfirmedWrite

fun execution_mode_str :: "capability_execution_mode \<Rightarrow> string" where
  "execution_mode_str AutoRead = ''auto_read''"
| "execution_mode_str DraftOnly = ''draft_only''"
| "execution_mode_str ConfirmedWrite = ''confirmed_write''"

datatype risk_level = RiskLow | RiskMedium | RiskHigh | RiskCritical

record capability_safety =
  cs_requires_dry_run :: bool
  cs_requires_human_confirmation :: bool
  cs_requires_audit :: bool

definition READ_ONLY :: capability_safety where
  "READ_ONLY = \<lparr>cs_requires_dry_run = False, cs_requires_human_confirmation = False,
     cs_requires_audit = True\<rparr>"

definition WRITE_GUARDED :: capability_safety where
  "WRITE_GUARDED = \<lparr>cs_requires_dry_run = True, cs_requires_human_confirmation = True,
     cs_requires_audit = True\<rparr>"

definition DRAFT_ONLY :: capability_safety where
  "DRAFT_ONLY = \<lparr>cs_requires_dry_run = False, cs_requires_human_confirmation = False,
     cs_requires_audit = True\<rparr>"

datatype feishu_scope = FsOkrPeriodRead | FsOkrContentRead | FsOkrProgressRead
  | FsOkrProgressWrite | FsOkrReviewRead | FsOkrSettingRead | FsCalendarRead
  | FsCalendarEventRead | FsCalendarFreeBusyRead | FsTaskRead | FsTaskWrite
  | FsDocxDocumentRead | FsWikiNodeRead | FsMinutesBasicRead | FsMinutesSearchRead
  | FsImMessageSendAsBot

fun feishu_scope_str :: "feishu_scope \<Rightarrow> string" where
  "feishu_scope_str FsOkrPeriodRead = ''okr:okr.period:readonly''"
| "feishu_scope_str FsOkrContentRead = ''okr:okr.content:readonly''"
| "feishu_scope_str FsOkrProgressRead = ''okr:okr.progress:readonly''"
| "feishu_scope_str FsOkrProgressWrite = ''okr:okr.progress:writeonly''"
| "feishu_scope_str FsOkrReviewRead = ''okr:okr.review:readonly''"
| "feishu_scope_str FsOkrSettingRead = ''okr:okr.setting:read''"
| "feishu_scope_str FsCalendarRead = ''calendar:calendar:read''"
| "feishu_scope_str FsCalendarEventRead = ''calendar:calendar.event:read''"
| "feishu_scope_str FsCalendarFreeBusyRead = ''calendar:calendar.free_busy:read''"
| "feishu_scope_str FsTaskRead = ''task:task:read''"
| "feishu_scope_str FsTaskWrite = ''task:task:writeonly''"
| "feishu_scope_str FsDocxDocumentRead = ''docx:document:readonly''"
| "feishu_scope_str FsWikiNodeRead = ''wiki:node:read''"
| "feishu_scope_str FsMinutesBasicRead = ''minutes:minutes.basic:read''"
| "feishu_scope_str FsMinutesSearchRead = ''minutes:minutes.search:read''"
| "feishu_scope_str FsImMessageSendAsBot = ''im:message:send_as_bot''"

definition FEISHU_OFFLINE_ACCESS_SCOPE :: string where
  "FEISHU_OFFLINE_ACCESS_SCOPE = ''offline_access''"

record capability_spec =
  sp_capability :: agent_capability
  sp_action_type :: capability_action_type
  sp_adapter :: platform_adapter
  sp_required_scope :: oar_required_scope
  sp_feishu_scopes :: "feishu_scope list"
  sp_effect :: capability_effect
  sp_execution_mode :: capability_execution_mode
  sp_risk :: risk_level
  sp_safety :: capability_safety

definition is_write :: "capability_spec \<Rightarrow> bool" where
  "is_write spec \<longleftrightarrow> sp_effect spec = EffectWrite"

definition enters_execution_allowlist :: "capability_spec \<Rightarrow> bool" where
  "enters_execution_allowlist spec \<longleftrightarrow>
     sp_effect spec = EffectWrite \<and> sp_execution_mode spec = ConfirmedWrite"

section \<open>The matrix\<close>

text \<open>One row, with the fields in the order of the source.\<close>

definition spec_row ::
  "agent_capability \<Rightarrow> capability_action_type \<Rightarrow> oar_required_scope \<Rightarrow> feishu_scope list
     \<Rightarrow> capability_effect \<Rightarrow> capability_execution_mode \<Rightarrow> risk_level \<Rightarrow> capability_safety
     \<Rightarrow> capability_spec" where
  "spec_row c a s fs e m r sf = \<lparr>sp_capability = c, sp_action_type = a, sp_adapter = Lark,
     sp_required_scope = s, sp_feishu_scopes = fs, sp_effect = e, sp_execution_mode = m,
     sp_risk = r, sp_safety = sf\<rparr>"

definition CAPABILITY_MATRIX :: "capability_spec list" where
  "CAPABILITY_MATRIX = [
    spec_row CapOkrPeriodRead ActOkrPeriodRead ScopeOkrPeriodRead [FsOkrPeriodRead]
      EffectRead AutoRead RiskLow READ_ONLY,
    spec_row CapOkrContentRead ActOkrContentRead ScopeOkrContentRead [FsOkrContentRead]
      EffectRead AutoRead RiskLow READ_ONLY,
    spec_row CapOkrProgressRead ActOkrProgressRead ScopeOkrProgressRead [FsOkrProgressRead]
      EffectRead AutoRead RiskLow READ_ONLY,
    spec_row CapOkrProgressCreate ActOkrProgressCreate ScopeOkrProgressWrite [FsOkrProgressWrite]
      EffectWrite ConfirmedWrite RiskHigh WRITE_GUARDED,
    spec_row CapOkrProgressUpdate ActOkrProgressUpdate ScopeOkrProgressWrite [FsOkrProgressWrite]
      EffectWrite ConfirmedWrite RiskHigh WRITE_GUARDED,
    spec_row CapOkrReviewRead ActOkrReviewRead ScopeOkrReviewRead [FsOkrReviewRead]
      EffectRead AutoRead RiskLow READ_ONLY,
    spec_row CapOkrSettingRead ActOkrSettingRead ScopeOkrSettingRead [FsOkrSettingRead]
      EffectRead AutoRead RiskLow READ_ONLY,
    spec_row CapCalendarRead ActCalendarRead ScopeCalendarRead [FsCalendarRead]
      EffectRead AutoRead RiskLow READ_ONLY,
    spec_row CapCalendarEventRead ActCalendarEventRead ScopeCalendarEventRead [FsCalendarEventRead]
      EffectRead AutoRead RiskLow READ_ONLY,
    spec_row CapCalendarFreeBusyRead ActCalendarFreeBusyRead ScopeCalendarFreeBusyRead [FsCalendarFreeBusyRead]
      EffectRead AutoRead RiskLow READ_ONLY,
    spec_row CapTaskRead ActTaskRead ScopeTaskRead [FsTaskRead]
      EffectRead AutoRead RiskLow READ_ONLY,
    spec_row CapTaskCreate ActTaskCreate ScopeTaskWrite [FsTaskWrite]
      EffectWrite DraftOnly RiskHigh DRAFT_ONLY,
    spec_row CapDocxDocumentRead ActDocxDocumentRead ScopeDocxDocumentRead [FsDocxDocumentRead]
      EffectRead AutoRead RiskLow READ_ONLY,
    spec_row CapWikiNodeRead ActWikiNodeRead ScopeWikiNodeRead [FsWikiNodeRead]
      EffectRead AutoRead RiskLow READ_ONLY,
    spec_row CapMinutesBasicRead ActMinutesBasicRead ScopeMinutesBasicRead [FsMinutesBasicRead]
      EffectRead AutoRead RiskLow READ_ONLY,
    spec_row CapMinutesSearchRead ActMinutesSearchRead ScopeMinutesSearchRead [FsMinutesSearchRead]
      EffectRead AutoRead RiskLow READ_ONLY,
    spec_row CapImMessageSend ActImMessageSend ScopeImMessageSendAsBot [FsImMessageSendAsBot]
      EffectWrite DraftOnly RiskHigh DRAFT_ONLY]"

definition find_by_capability :: "agent_capability \<Rightarrow> capability_spec option" where
  "find_by_capability c = find (\<lambda>spec. sp_capability spec = c) CAPABILITY_MATRIX"

definition find_by_action_type :: "capability_action_type \<Rightarrow> capability_spec option" where
  "find_by_action_type a = find (\<lambda>spec. sp_action_type spec = a) CAPABILITY_MATRIX"

definition find_by_action_type_str :: "string \<Rightarrow> capability_spec option" where
  "find_by_action_type_str s = find (\<lambda>spec. action_type_str (sp_action_type spec) = s) CAPABILITY_MATRIX"

section \<open>Scope derivation\<close>

definition DEFAULT_AGENT_FEISHU_OAUTH_ACTION_TYPES :: "capability_action_type list" where
  "DEFAULT_AGENT_FEISHU_OAUTH_ACTION_TYPES = [
    ActOkrPeriodRead, ActOkrContentRead, ActOkrProgressRead, ActOkrProgressCreate,
    ActOkrProgressUpdate, ActOkrReviewRead, ActOkrSettingRead, ActCalendarRead,
    ActCalendarEventRead, ActCalendarFreeBusyRead, ActTaskRead, ActTaskCreate,
    ActDocxDocumentRead, ActWikiNodeRead, ActMinutesBasicRead, ActMinutesSearchRead]"

datatype scope_derivation_error = CapabilityNotRegistered capability_action_type

text \<open>\<open>if !scopes.contains(x) { scopes.push(x) }\<close>.\<close>

definition push_new :: "'a \<Rightarrow> 'a list \<Rightarrow> 'a list" where
  "push_new x xs = (if x \<in> set xs then xs else xs @ [x])"

fun scopes_loop ::
  "feishu_scope list \<Rightarrow> capability_action_type list
     \<Rightarrow> (feishu_scope list, scope_derivation_error) result" where
  "scopes_loop scopes [] = Ok scopes"
| "scopes_loop scopes (a # as) = (case find_by_action_type a of
      None \<Rightarrow> Err (CapabilityNotRegistered a)
    | Some spec \<Rightarrow> scopes_loop (fold push_new (sp_feishu_scopes spec) scopes) as)"

definition try_feishu_scopes_for_action_types ::
  "capability_action_type list \<Rightarrow> (feishu_scope list, scope_derivation_error) result" where
  "try_feishu_scopes_for_action_types as = scopes_loop [] as"

text \<open>\<open>expect\<close> panics on an error: \<open>None\<close> is the panic.\<close>

definition feishu_scopes_for_action_types ::
  "capability_action_type list \<Rightarrow> feishu_scope list option" where
  "feishu_scopes_for_action_types as = (case try_feishu_scopes_for_action_types as of
      Inl _ \<Rightarrow> None
    | Inr scopes \<Rightarrow> Some scopes)"

definition feishu_oauth_scope_strings_for_action_types ::
  "capability_action_type list \<Rightarrow> string list option" where
  "feishu_oauth_scope_strings_for_action_types as =
     map_option (\<lambda>scopes. fold push_new (map feishu_scope_str scopes) [FEISHU_OFFLINE_ACCESS_SCOPE])
       (feishu_scopes_for_action_types as)"

definition default_agent_feishu_oauth_scope_strings :: "string list option" where
  "default_agent_feishu_oauth_scope_strings =
     feishu_oauth_scope_strings_for_action_types DEFAULT_AGENT_FEISHU_OAUTH_ACTION_TYPES"

section \<open>Lookups\<close>

lemma find_by_action_type_total:
  "\<exists>spec. find_by_action_type a = Some spec \<and> sp_action_type spec = a \<and>
     find_by_action_type_str (action_type_str a) = Some spec \<and>
     find_by_capability (sp_capability spec) = Some spec"
  by (cases a)
    (simp_all add: find_by_action_type_def find_by_action_type_str_def find_by_capability_def
      CAPABILITY_MATRIX_def spec_row_def)

lemma action_type_from_str_action_type_str [simp]:
  "action_type_from_str (action_type_str a) = Ok a"
  by (cases a) (simp_all add: action_type_from_str_def)

text \<open>
  Parsing and printing of action types are inverse: a text parses to an action type exactly
  when it is that type's text, and every other text is refused with the text itself.
\<close>

theorem action_type_from_str_iff:
  "(action_type_from_str s = Ok a \<longleftrightarrow> s = action_type_str a) \<and>
   (action_type_from_str s = Err e \<longleftrightarrow>
      s \<notin> range action_type_str \<and> e = UnknownCapabilityActionType s)"
proof -
  have ok: "s = action_type_str a" if "action_type_from_str s = Ok a" for a
    using that by (auto simp: action_type_from_str_def split: if_splits)
  have err: "e = UnknownCapabilityActionType s" if "action_type_from_str s = Err e" for e
    using that by (auto simp: action_type_from_str_def split: if_splits)
  show ?thesis
  proof (cases "action_type_from_str s")
    case (Inl e')
    then have "s \<noteq> action_type_str b" for b by auto
    with Inl err show ?thesis by auto
  next
    case (Inr b)
    with ok have "s = action_type_str b" by blast
    then show ?thesis by auto (metis action_type_from_str_action_type_str sum.inject(2))
  qed
qed

text \<open>
  The matrix has exactly one row for every action type, and the three lookups (by type, by
  text, by capability) find that same row.
\<close>

theorem capability_lookups_agree:
  "\<exists>!spec. find_by_action_type a = Some spec \<and> spec \<in> set CAPABILITY_MATRIX \<and>
     sp_action_type spec = a \<and> find_by_action_type_str (action_type_str a) = Some spec \<and>
     find_by_capability (sp_capability spec) = Some spec"
proof -
  obtain spec where spec: "find_by_action_type a = Some spec" "sp_action_type spec = a"
    "find_by_action_type_str (action_type_str a) = Some spec"
    "find_by_capability (sp_capability spec) = Some spec"
    using find_by_action_type_total by blast
  from spec(1) have "spec \<in> set CAPABILITY_MATRIX"
    by (auto simp: find_by_action_type_def find_Some_iff)
  with spec show ?thesis by auto
qed

section \<open>The execution allowlist\<close>

lemma allowlist_rows:
  "filter enters_execution_allowlist CAPABILITY_MATRIX =
     [spec_row CapOkrProgressCreate ActOkrProgressCreate ScopeOkrProgressWrite [FsOkrProgressWrite]
        EffectWrite ConfirmedWrite RiskHigh WRITE_GUARDED,
      spec_row CapOkrProgressUpdate ActOkrProgressUpdate ScopeOkrProgressWrite [FsOkrProgressWrite]
        EffectWrite ConfirmedWrite RiskHigh WRITE_GUARDED]"
  by (simp add: CAPABILITY_MATRIX_def enters_execution_allowlist_def spec_row_def)

text \<open>
  A row of the matrix enters the execution allowlist exactly when it is one of the two OKR
  progress writes, and every row that does requires a dry run, a human confirmation and an audit
  record.
\<close>

theorem allowlisted_capabilities_guarded:
  assumes "spec \<in> set CAPABILITY_MATRIX"
  shows "(enters_execution_allowlist spec \<longleftrightarrow>
      sp_action_type spec \<in> {ActOkrProgressCreate, ActOkrProgressUpdate}) \<and>
    (enters_execution_allowlist spec \<longrightarrow>
      cs_requires_dry_run (sp_safety spec) \<and> cs_requires_human_confirmation (sp_safety spec) \<and>
      cs_requires_audit (sp_safety spec))"
  using assms
  by (auto simp: CAPABILITY_MATRIX_def spec_row_def enters_execution_allowlist_def
      WRITE_GUARDED_def)

lemma allowlisted_capabilities_guarded_witness:
  "spec_row CapOkrProgressUpdate ActOkrProgressUpdate ScopeOkrProgressWrite [FsOkrProgressWrite]
     EffectWrite ConfirmedWrite RiskHigh WRITE_GUARDED \<in> set CAPABILITY_MATRIX \<and>
   cs_requires_dry_run (sp_safety (spec_row CapOkrProgressUpdate ActOkrProgressUpdate
     ScopeOkrProgressWrite [FsOkrProgressWrite] EffectWrite ConfirmedWrite RiskHigh WRITE_GUARDED))"
proof -
  have "spec_row CapOkrProgressUpdate ActOkrProgressUpdate ScopeOkrProgressWrite
      [FsOkrProgressWrite] EffectWrite ConfirmedWrite RiskHigh WRITE_GUARDED \<in> set CAPABILITY_MATRIX"
    by (simp add: CAPABILITY_MATRIX_def)
  from this allowlisted_capabilities_guarded [OF this] show ?thesis
    by (simp add: spec_row_def)
qed

section \<open>Scopes\<close>

lemma set_fold_push_new [simp]: "set (fold push_new xs ys) = set xs \<union> set ys"
  by (induction xs arbitrary: ys) (auto simp: push_new_def)

lemma distinct_fold_push_new [simp]: "distinct ys \<Longrightarrow> distinct (fold push_new xs ys)"
  by (induction xs arbitrary: ys) (auto simp: push_new_def)

lemma hd_fold_push_new: "ys \<noteq> [] \<Longrightarrow> hd (fold push_new xs ys) = hd ys \<and> fold push_new xs ys \<noteq> []"
  by (induction xs arbitrary: ys) (auto simp: push_new_def)

definition scopes_of :: "capability_action_type \<Rightarrow> feishu_scope set" where
  "scopes_of a = (case find_by_action_type a of None \<Rightarrow> {} | Some spec \<Rightarrow> set (sp_feishu_scopes spec))"

lemma scopes_loop_correct:
  "\<exists>out. scopes_loop scopes as = Ok out \<and> set out = set scopes \<union> (\<Union>a \<in> set as. scopes_of a) \<and>
     (distinct scopes \<longrightarrow> distinct out)"
proof (induction as arbitrary: scopes)
  case Nil
  show ?case by simp
next
  case (Cons a as)
  obtain spec where spec: "find_by_action_type a = Some spec"
    using find_by_action_type_total by blast
  with Cons.IH [of "fold push_new (sp_feishu_scopes spec) scopes"] show ?case
    by (auto simp: scopes_of_def)
qed

text \<open>
  The OAuth scopes derived for a list of action types never hit the panic of the source:
  the result starts with \<open>offline_access\<close>, has no duplicates and holds, beside it, exactly the
  scopes of the actions asked for.
\<close>

theorem oauth_scope_strings_correct:
  "\<exists>out. feishu_oauth_scope_strings_for_action_types as = Some out \<and>
     hd out = FEISHU_OFFLINE_ACCESS_SCOPE \<and> distinct out \<and>
     set out = insert FEISHU_OFFLINE_ACCESS_SCOPE
       (feishu_scope_str ` (\<Union>a \<in> set as. scopes_of a))"
proof -
  obtain scopes where scopes: "scopes_loop [] as = Ok scopes"
    "set scopes = (\<Union>a \<in> set as. scopes_of a)"
    using scopes_loop_correct [of "[]" as] by auto
  then show ?thesis
    by (simp add: feishu_oauth_scope_strings_for_action_types_def feishu_scopes_for_action_types_def
        try_feishu_scopes_for_action_types_def hd_fold_push_new)
qed

text \<open>The default authorisation never asks for the right to send messages as the bot.\<close>

lemma default_scopes_without_im:
  "\<exists>out. default_agent_feishu_oauth_scope_strings = Some out \<and>
     feishu_scope_str FsImMessageSendAsBot \<notin> set out"
proof -
  obtain out where out: "default_agent_feishu_oauth_scope_strings = Some out"
    "set out = insert FEISHU_OFFLINE_ACCESS_SCOPE (feishu_scope_str `
       (\<Union>a \<in> set DEFAULT_AGENT_FEISHU_OAUTH_ACTION_TYPES. scopes_of a))"
    using scopes_loop_correct [of "[]" DEFAULT_AGENT_FEISHU_OAUTH_ACTION_TYPES]
    by (auto simp: default_agent_feishu_oauth_scope_strings_def
        feishu_oauth_scope_strings_for_action_types_def feishu_scopes_for_action_types_def
        try_feishu_scopes_for_action_types_def)
  moreover from this(2) have "feishu_scope_str FsImMessageSendAsBot \<notin> set out"
    by (simp add: DEFAULT_AGENT_FEISHU_OAUTH_ACTION_TYPES_def scopes_of_def find_by_action_type_def
        CAPABILITY_MATRIX_def spec_row_def FEISHU_OFFLINE_ACCESS_SCOPE_def)
  ultimately show ?thesis by blast
qed

end
