(* ===== verification/Execution_Policy.thy ===== *)
theory Execution_Policy
  imports Confirmed_Action Capability
begin

text \<open>
  The execution policy (\<open>action/execution_policy.rs\<close>, \<open>action/executor/policy.rs\<close>): the guard in
  front of every write. The checks run in the order of the code, so the first failing one decides
  which denial is reported; the lemmas give the guard as a specification that does not depend on
  that order, and the allowlist that the capability table yields.
\<close>

section \<open>Data\<close>

record execution_policy =
  ep_allowlisted_action_types :: "string set"
  ep_allowed_actor_kinds :: "actor_kind list"

record action_actor_binding =
  ab_actor_user_id :: string
  ab_identity_id :: lark_identity_id

datatype execution_denied =
    TenantMismatch string string
  | ActorUserMismatch string string
  | IdentityMismatch string string string
  | ActionNotConfirmed action_status
  | ActionNotAllowlisted string
  | ActorKindNotAllowed actor_kind
  | GrantNotExecutable token_grant_state
  | MissingScope string

section \<open>Operations\<close>

definition execution_policy_new :: "string list \<Rightarrow> actor_kind list \<Rightarrow> execution_policy" where
  "execution_policy_new types kinds =
     \<lparr>ep_allowlisted_action_types = set types, ep_allowed_actor_kinds = kinds\<rparr>"

definition policy_from_capabilities ::
  "capability_spec list \<Rightarrow> actor_kind list \<Rightarrow> execution_policy" where
  "policy_from_capabilities capabilities kinds =
     execution_policy_new
       (map (\<lambda>c. action_type_str (sp_action_type c))
         (filter enters_execution_allowlist capabilities)) kinds"

definition policy_evaluate ::
  "execution_policy \<Rightarrow> confirmed_action \<Rightarrow> string \<Rightarrow> string \<Rightarrow> token_grant \<Rightarrow> action_actor_binding
     \<Rightarrow> (unit, execution_denied) result" where
  "policy_evaluate p action action_type required_scope grant binding =
     (if tenant_str (tg_tenant_id grant) \<noteq> ca_tenant_id action
      then Err (TenantMismatch (ca_tenant_id action) (tenant_str (tg_tenant_id grant)))
      else if ab_actor_user_id binding \<noteq> ca_actor_user_id action
      then Err (ActorUserMismatch (ca_actor_user_id action) (ab_actor_user_id binding))
      else if tg_identity_id grant \<noteq> ab_identity_id binding
      then Err (IdentityMismatch (ca_actor_user_id action) (identity_str (tg_identity_id grant))
             (identity_str (ab_identity_id binding)))
      else if ca_status action \<noteq> Confirmed
      then Err (ActionNotConfirmed (ca_status action))
      else if action_type \<notin> ep_allowlisted_action_types p
      then Err (ActionNotAllowlisted action_type)
      else if \<not> List.member (ep_allowed_actor_kinds p) (tg_actor_kind grant)
      then Err (ActorKindNotAllowed (tg_actor_kind grant))
      else if tg_state grant = Revoked \<or> tg_state grant = Expired \<or> tg_state grant = ReauthRequired
      then Err (GrantNotExecutable (tg_state grant))
      else if \<not> list_ex (\<lambda>scope. scope = required_scope) (tg_scopes grant)
      then Err (MissingScope required_scope)
      else Ok ())"

fun show_actor_kind :: "actor_kind \<Rightarrow> string" where
  "show_actor_kind ActorUser = ''User''"
| "show_actor_kind ActorBot = ''Bot''"
| "show_actor_kind ActorApp = ''App''"
| "show_actor_kind ActorService = ''Service''"

fun show_token_grant_state :: "token_grant_state \<Rightarrow> string" where
  "show_token_grant_state Valid = ''Valid''"
| "show_token_grant_state NeedsRefresh = ''NeedsRefresh''"
| "show_token_grant_state Expired = ''Expired''"
| "show_token_grant_state Revoked = ''Revoked''"
| "show_token_grant_state ReauthRequired = ''ReauthRequired''"

fun safe_denial_message :: "execution_denied \<Rightarrow> string" where
  "safe_denial_message (TenantMismatch _ _) =
     ''Execution denied by policy: action and token grant belong to different tenants''"
| "safe_denial_message (ActionNotConfirmed status) =
     ''Execution denied by policy: action status is '' @ show_action_status status
       @ '', not Confirmed''"
| "safe_denial_message (ActorUserMismatch _ _) =
     ''Execution denied by policy: action actor does not match bound actor''"
| "safe_denial_message (IdentityMismatch _ _ _) =
     ''Execution denied by policy: action actor is not authorized for token grant identity''"
| "safe_denial_message (ActionNotAllowlisted action_type) =
     ''Execution denied by policy: action type '' @ action_type @ '' is not allowlisted''"
| "safe_denial_message (ActorKindNotAllowed kind) =
     ''Execution denied by policy: actor kind '' @ show_actor_kind kind @ '' is not allowed''"
| "safe_denial_message (GrantNotExecutable state) =
     ''Execution denied by policy: token grant state '' @ show_token_grant_state state
       @ '' is not executable''"
| "safe_denial_message (MissingScope required_scope) =
     ''Execution denied by policy: missing required scope '' @ required_scope"

section \<open>Properties\<close>

text \<open>The eight conditions as one predicate.\<close>

definition execution_permitted ::
  "execution_policy \<Rightarrow> confirmed_action \<Rightarrow> string \<Rightarrow> string \<Rightarrow> token_grant \<Rightarrow> action_actor_binding
     \<Rightarrow> bool" where
  "execution_permitted p a action_type scope g b \<longleftrightarrow>
     ca_status a = Confirmed \<and>
     tg_tenant_id g = TenantId (ca_tenant_id a) \<and>
     b = \<lparr>ab_actor_user_id = ca_actor_user_id a, ab_identity_id = tg_identity_id g\<rparr> \<and>
     action_type \<in> ep_allowlisted_action_types p \<and>
     tg_actor_kind g \<in> set (ep_allowed_actor_kinds p) \<and>
     tg_state g \<in> {Valid, NeedsRefresh} \<and>
     scope \<in> set (tg_scopes g)"

lemma grant_state_executable_iff:
  "s \<in> {Valid, NeedsRefresh} \<longleftrightarrow> s \<noteq> Revoked \<and> s \<noteq> Expired \<and> s \<noteq> ReauthRequired"
  by (cases s) auto

lemma tenant_id_eq_iff: "t = TenantId s \<longleftrightarrow> tenant_str t = s"
  by (cases t) auto

lemma policy_evaluate_Ok_iff:
  "policy_evaluate p a action_type scope g b = Ok () \<longleftrightarrow>
   execution_permitted p a action_type scope g b"
  unfolding execution_permitted_def grant_state_executable_iff tenant_id_eq_iff
  by (cases b) (auto simp: policy_evaluate_def list_ex_iff)

lemma policy_evaluate_cases:
  "policy_evaluate p a ty scope g b = Ok () \<or> (\<exists>d. policy_evaluate p a ty scope g b = Err d)"
  by (cases "policy_evaluate p a ty scope g b") auto

text \<open>
  C4. The policy lets an action through exactly when the action is confirmed, the grant belongs
  to the action's tenant, the binding names the action's actor and the grant's identity, the
  action type is allowlisted, the grant's kind of actor is allowed, the grant is valid or due for
  refresh, and the grant carries the required scope.
\<close>

theorem policy_evaluate_correct:
  "policy_evaluate p a action_type scope g b = Ok () \<longleftrightarrow>
     ca_status a = Confirmed \<and>
     tg_tenant_id g = TenantId (ca_tenant_id a) \<and>
     b = \<lparr>ab_actor_user_id = ca_actor_user_id a, ab_identity_id = tg_identity_id g\<rparr> \<and>
     action_type \<in> ep_allowlisted_action_types p \<and>
     tg_actor_kind g \<in> set (ep_allowed_actor_kinds p) \<and>
     tg_state g \<in> {Valid, NeedsRefresh} \<and>
     scope \<in> set (tg_scopes g)"
  unfolding policy_evaluate_Ok_iff by (simp only: execution_permitted_def)

lemma capability_allowlist:
  "ep_allowlisted_action_types (policy_from_capabilities CAPABILITY_MATRIX kinds) =
     {''okr.progress.create'', ''okr.progress.update''}"
  by (simp add: policy_from_capabilities_def execution_policy_new_def allowlist_rows spec_row_def)

text \<open>
  Under a policy built from the capability table, nothing but the creation and the update of
  OKR progress is ever let through: every other action type is denied whatever the grant.
\<close>

theorem capability_policy_only_okr_progress:
  assumes "policy_evaluate (policy_from_capabilities CAPABILITY_MATRIX kinds) a ty scope g b = Ok ()"
  shows "ty \<in> {action_type_str ActOkrProgressCreate, action_type_str ActOkrProgressUpdate}"
  using assms unfolding policy_evaluate_Ok_iff execution_permitted_def capability_allowlist
  by simp

text \<open>The confirmed action and binding that go with \<open>sample_grant\<close>.\<close>

definition sample_confirmed :: confirmed_action where
  "sample_confirmed =
     confirm_action (proposed_confirmed_action ''a1'' ''t1'' ''u1'' ''k1'') 10"

definition sample_binding :: action_actor_binding where
  "sample_binding = \<lparr>ab_actor_user_id = ''u1'', ab_identity_id = LarkIdentityId ''i1''\<rparr>"

definition sample_policy :: execution_policy where
  "sample_policy = policy_from_capabilities CAPABILITY_MATRIX [ActorUser]"

lemma sample_permitted:
  "policy_evaluate sample_policy sample_confirmed ''okr.progress.update'' ''okr.progress.write''
     sample_grant sample_binding = Ok ()"
  unfolding policy_evaluate_Ok_iff execution_permitted_def sample_policy_def capability_allowlist
  by (simp add: sample_confirmed_def sample_grant_def sample_binding_def
      proposed_confirmed_action_def policy_from_capabilities_def execution_policy_new_def)

lemma capability_policy_only_okr_progress_witness:
  "policy_evaluate (policy_from_capabilities CAPABILITY_MATRIX [ActorUser]) sample_confirmed
     ''okr.progress.update'' ''okr.progress.write'' sample_grant sample_binding = Ok () \<and>
   ''okr.progress.update'' \<in>
     {action_type_str ActOkrProgressCreate, action_type_str ActOkrProgressUpdate}"
proof -
  note ok = sample_permitted [unfolded sample_policy_def]
  from ok capability_policy_only_okr_progress [OF ok] show ?thesis by blast
qed

end
