(* ===== verification/Operation_Ledger.thy ===== *)
theory Operation_Ledger
  imports Confirmed_Action
begin

text \<open>
  The operation ledger (\<open>action/operation_ledger.rs\<close>, \<open>action/operation_ledger_repository.rs\<close>):
  two maps, from idempotency keys to operation ids and from operation ids to records, and the
  status transitions of a record. The locale \<open>ledger_contract\<close> is the promise of the trait
  \<open>OperationLedgerRepository\<close> over an abstract view, a single map from idempotency keys to
  records; the in-memory repository is proved to keep it.
\<close>

section \<open>Data\<close>

record operation_record =
  op_operation_id :: string
  op_tenant_id :: string
  op_action_id :: string
  op_idempotency_key :: string
  op_status :: action_status
  op_last_error :: "string option"

datatype submit_result = Created operation_record | Existing operation_record

datatype ledger_error =
    LedgerActionNotConfirmed action_status
  | UnknownIdempotencyKey string
  | RepositoryFailure string
  | InvalidTransition action_status action_status

record operation_ledger =
  ol_records :: "string \<rightharpoonup> operation_record"
  ol_ids :: "string \<rightharpoonup> string"
  ol_sequence :: u64

section \<open>Operations of the ledger\<close>

definition ledger_new :: operation_ledger where
  "ledger_new = \<lparr>ol_records = Map.empty, ol_ids = Map.empty, ol_sequence = 0\<rparr>"

definition record_by_idempotency_key ::
  "operation_ledger \<Rightarrow> string \<Rightarrow> operation_record option" where
  "record_by_idempotency_key lg key = Option.bind (ol_ids lg key) (ol_records lg)"

definition submit_confirmed_action ::
  "operation_ledger \<Rightarrow> confirmed_action
     \<Rightarrow> (submit_result, ledger_error) result \<times> operation_ledger" where
  "submit_confirmed_action lg action =
     (if ca_status action \<noteq> Confirmed then (Err (LedgerActionNotConfirmed (ca_status action)), lg)
      else case record_by_idempotency_key lg (ca_idempotency_key action) of
        Some existing \<Rightarrow> (Ok (Existing existing), lg)
      | None \<Rightarrow>
         (let seq = ol_sequence lg + 1;
              operation_id = ''op-'' @ show_u64 seq;
              rec = \<lparr>op_operation_id = operation_id, op_tenant_id = ca_tenant_id action,
                 op_action_id = ca_action_id action,
                 op_idempotency_key = ca_idempotency_key action,
                 op_status = Confirmed, op_last_error = None\<rparr>
          in (Ok (Created rec),
              lg\<lparr>ol_sequence := seq,
                 ol_ids := (ol_ids lg)(ca_idempotency_key action \<mapsto> operation_id),
                 ol_records := (ol_records lg)(operation_id \<mapsto> rec)\<rparr>)))"

fun transition_allowed :: "action_status \<Rightarrow> action_status \<Rightarrow> bool" where
  "transition_allowed Confirmed Executing = True"
| "transition_allowed Executing Succeeded = True"
| "transition_allowed Executing Failed = True"
| "transition_allowed _ _ = False"

definition ledger_lookup ::
  "operation_ledger \<Rightarrow> string \<Rightarrow> (string \<times> operation_record, ledger_error) result" where
  "ledger_lookup lg key =
     try_then (ok_or (UnknownIdempotencyKey key) (ol_ids lg key)) (\<lambda>operation_id.
     try_then (ok_or (UnknownIdempotencyKey key) (ol_records lg operation_id)) (\<lambda>rec.
       Ok (operation_id, rec)))"

definition ledger_transition ::
  "operation_ledger \<Rightarrow> string \<Rightarrow> action_status
     \<Rightarrow> (operation_record, ledger_error) result \<times> operation_ledger" where
  "ledger_transition lg key to = (case ledger_lookup lg key of
      Inl e \<Rightarrow> (Err e, lg)
    | Inr (operation_id, rec) \<Rightarrow>
       (if op_status rec = to then (Ok rec, lg)
        else if \<not> transition_allowed (op_status rec) to
        then (Err (InvalidTransition (op_status rec) to), lg)
        else let rec' = rec\<lparr>op_status := to,
                   op_last_error := (if to \<noteq> Failed then None else op_last_error rec)\<rparr>
             in (Ok rec', lg\<lparr>ol_records := (ol_records lg)(operation_id \<mapsto> rec')\<rparr>)))"

definition mark_executing ::
  "operation_ledger \<Rightarrow> string \<Rightarrow> (operation_record, ledger_error) result \<times> operation_ledger" where
  "mark_executing lg key = ledger_transition lg key Executing"

definition mark_succeeded ::
  "operation_ledger \<Rightarrow> string \<Rightarrow> (operation_record, ledger_error) result \<times> operation_ledger" where
  "mark_succeeded lg key = ledger_transition lg key Succeeded"

definition mark_failed ::
  "operation_ledger \<Rightarrow> string \<Rightarrow> string
     \<Rightarrow> (operation_record, ledger_error) result \<times> operation_ledger" where
  "mark_failed lg key error = (case ledger_lookup lg key of
      Inl e \<Rightarrow> (Err e, lg)
    | Inr (_, rec) \<Rightarrow>
       (if op_status rec = Failed then (Ok rec, lg)
        else if op_status rec \<noteq> Executing
        then (Err (InvalidTransition (op_status rec) Failed), lg)
        else let rec' = rec\<lparr>op_status := Failed, op_last_error := Some error\<rparr>
             in (Ok rec',
                 lg\<lparr>ol_records := (ol_records lg)(op_operation_id rec' \<mapsto> rec')\<rparr>)))"

section \<open>The in-memory repository\<close>

text \<open>
  \<open>Arc<Mutex<OperationLedger>>\<close>: the lock is poisoned once a thread panicked while holding it;
  every later call fails closed.
\<close>

record in_memory_ledger_repository =
  im_poisoned :: bool
  im_ledger :: operation_ledger

definition in_memory_ledger_new :: in_memory_ledger_repository where
  "in_memory_ledger_new = \<lparr>im_poisoned = False, im_ledger = ledger_new\<rparr>"

definition with_ledger ::
  "in_memory_ledger_repository
     \<Rightarrow> (operation_ledger \<Rightarrow> ('t, ledger_error) result \<times> operation_ledger)
     \<Rightarrow> ('t, ledger_error) result \<times> in_memory_ledger_repository" where
  "with_ledger m f =
     (if im_poisoned m then (Err (RepositoryFailure ''operation ledger unavailable''), m)
      else case f (im_ledger m) of (r, lg) \<Rightarrow> (r, m\<lparr>im_ledger := lg\<rparr>))"

text \<open>The trait \<open>OperationLedgerRepository\<close> as a record of its methods.\<close>

record 'l ledger_ops =
  lo_submit :: "'l \<Rightarrow> confirmed_action \<Rightarrow> (submit_result, ledger_error) result \<times> 'l"
  lo_mark_executing :: "'l \<Rightarrow> string \<Rightarrow> (operation_record, ledger_error) result \<times> 'l"
  lo_mark_succeeded :: "'l \<Rightarrow> string \<Rightarrow> (operation_record, ledger_error) result \<times> 'l"
  lo_mark_failed :: "'l \<Rightarrow> string \<Rightarrow> string \<Rightarrow> (operation_record, ledger_error) result \<times> 'l"
  lo_get :: "'l \<Rightarrow> string \<Rightarrow> operation_record option"

definition in_memory_ledger_ops :: "in_memory_ledger_repository ledger_ops" where
  "in_memory_ledger_ops = \<lparr>
     lo_submit = (\<lambda>m action. with_ledger m (\<lambda>lg. submit_confirmed_action lg action)),
     lo_mark_executing = (\<lambda>m key. with_ledger m (\<lambda>lg. mark_executing lg key)),
     lo_mark_succeeded = (\<lambda>m key. with_ledger m (\<lambda>lg. mark_succeeded lg key)),
     lo_mark_failed = (\<lambda>m key error. with_ledger m (\<lambda>lg. mark_failed lg key error)),
     lo_get = (\<lambda>m key. if im_poisoned m then None
                else record_by_idempotency_key (im_ledger m) key)\<rparr>"

section \<open>The ledger invariant\<close>

text \<open>
  The two maps mirror each other, every operation id was allocated from the sequence, a record
  has a status the ledger can produce and an error text exactly when it failed.
\<close>

definition record_wf :: "operation_ledger \<Rightarrow> string \<Rightarrow> operation_record \<Rightarrow> bool" where
  "record_wf lg oid rec \<longleftrightarrow>
     op_operation_id rec = oid \<and> ol_ids lg (op_idempotency_key rec) = Some oid \<and>
     (\<exists>n \<le> unat (ol_sequence lg). oid = ''op-'' @ show_nat n) \<and>
     op_status rec \<in> {Confirmed, Executing, Succeeded, Failed} \<and>
     (op_last_error rec \<noteq> None \<longleftrightarrow> op_status rec = Failed)"

definition ledger_wf :: "operation_ledger \<Rightarrow> bool" where
  "ledger_wf lg \<longleftrightarrow>
     (\<forall>key oid. ol_ids lg key = Some oid \<longrightarrow>
        (\<exists>rec. ol_records lg oid = Some rec \<and> op_idempotency_key rec = key)) \<and>
     (\<forall>oid rec. ol_records lg oid = Some rec \<longrightarrow> record_wf lg oid rec)"

lemma ledger_wf_new: "ledger_wf ledger_new"
  by (simp add: ledger_wf_def ledger_new_def)

lemma ledger_wf_idD:
  assumes "ledger_wf lg" and "ol_ids lg key = Some oid"
  obtains rec where "ol_records lg oid = Some rec" "op_idempotency_key rec = key"
    "op_operation_id rec = oid" "record_by_idempotency_key lg key = Some rec"
  using assms unfolding ledger_wf_def record_wf_def record_by_idempotency_key_def by fastforce

lemma ledger_wf_recordD:
  assumes "ledger_wf lg" and "ol_records lg oid = Some rec"
  shows "record_wf lg oid rec"
    and "op_operation_id rec = oid" and "ol_ids lg (op_idempotency_key rec) = Some oid"
    and "op_status rec \<in> {Confirmed, Executing, Succeeded, Failed}"
    and "op_last_error rec \<noteq> None \<longleftrightarrow> op_status rec = Failed"
    and "\<exists>n \<le> unat (ol_sequence lg). oid = ''op-'' @ show_nat n"
  using assms unfolding ledger_wf_def record_wf_def by blast+

text \<open>Lookup through both maps, seen through the single view.\<close>

lemma ledger_lookup_view:
  assumes "ledger_wf lg"
  shows "ledger_lookup lg key = (case record_by_idempotency_key lg key of
      None \<Rightarrow> Err (UnknownIdempotencyKey key)
    | Some rec \<Rightarrow> Ok (op_operation_id rec, rec))"
proof (cases "ol_ids lg key")
  case None
  then show ?thesis by (simp add: ledger_lookup_def record_by_idempotency_key_def)
next
  case (Some oid)
  with assms obtain rec where "ol_records lg oid = Some rec" "op_operation_id rec = oid"
    "record_by_idempotency_key lg key = Some rec"
    by (blast elim: ledger_wf_idD)
  with Some show ?thesis by (simp add: ledger_lookup_def)
qed

lemma view_recordD:
  assumes "ledger_wf lg" and "record_by_idempotency_key lg key = Some rec"
  shows "ol_ids lg key = Some (op_operation_id rec)"
    and "ol_records lg (op_operation_id rec) = Some rec"
    and "op_idempotency_key rec = key"
  using assms
  by (auto simp: record_by_idempotency_key_def bind_eq_Some_conv elim: ledger_wf_idD)

lemma fresh_operation_id:
  assumes "ledger_wf lg" and "unat (ol_sequence lg) < 2 ^ 64 - 1"
  shows "ol_records lg (''op-'' @ show_u64 (ol_sequence lg + 1)) = None"
proof (rule ccontr)
  assume "ol_records lg (''op-'' @ show_u64 (ol_sequence lg + 1)) \<noteq> None"
  then obtain rec where "ol_records lg (''op-'' @ show_u64 (ol_sequence lg + 1)) = Some rec" by auto
  from ledger_wf_recordD(6) [OF assms(1) this] obtain n where
    "n \<le> unat (ol_sequence lg)" and "''op-'' @ show_u64 (ol_sequence lg + 1) = ''op-'' @ show_nat n"
    by blast
  then show False using assms(2) by (simp add: show_u64_def unat_u64_Suc)
qed

lemma record_wf_replace:
  assumes "record_wf lg oid rec" and "op_operation_id rec' = op_operation_id rec"
    and "op_idempotency_key rec' = op_idempotency_key rec"
    and "op_status rec' \<in> {Confirmed, Executing, Succeeded, Failed}"
    and "op_last_error rec' \<noteq> None \<longleftrightarrow> op_status rec' = Failed"
  shows "record_wf lg oid rec'"
  using assms unfolding record_wf_def by (intro conjI) (simp_all only:)

text \<open>Replacing a record in place: the one shape of update every transition makes.\<close>

lemma ledger_update_record:
  assumes wf: "ledger_wf lg" and rec: "record_by_idempotency_key lg key = Some rec"
    and same: "op_operation_id rec' = op_operation_id rec"
      "op_idempotency_key rec' = op_idempotency_key rec"
    and ok: "op_status rec' \<in> {Confirmed, Executing, Succeeded, Failed}"
      "op_last_error rec' \<noteq> None \<longleftrightarrow> op_status rec' = Failed"
  defines "lg' \<equiv> lg\<lparr>ol_records := (ol_records lg)(op_operation_id rec \<mapsto> rec')\<rparr>"
  shows "ledger_wf lg'"
    and "record_by_idempotency_key lg' = (record_by_idempotency_key lg)(key \<mapsto> rec')"
proof -
  note view = view_recordD [OF wf rec]
  show "ledger_wf lg'"
    unfolding ledger_wf_def
  proof (intro conjI allI impI, goal_cases)
    case (1 k oid)
    then have "ol_ids lg k = Some oid" by (simp add: lg'_def)
    with wf obtain r where "ol_records lg oid = Some r" "op_idempotency_key r = k"
      by (blast elim: ledger_wf_idD)
    with view same show ?case by (auto simp: lg'_def)
  next
    case (2 oid r)
    have "ol_ids lg' = ol_ids lg" and "ol_sequence lg' = ol_sequence lg"
      by (simp_all add: lg'_def)
    then have ids: "record_wf lg' o' r' = record_wf lg o' r'" for o' r'
      by (simp only: record_wf_def)
    have lookup: "ol_records lg' oid =
        (if oid = op_operation_id rec then Some rec' else ol_records lg oid)"
      by (simp add: lg'_def)
    show ?case
    proof (cases "oid = op_operation_id rec")
      case True
      with 2 lookup have "r = rec'" by simp
      with True record_wf_replace [OF ledger_wf_recordD(1) [OF wf view(2)] same ok] show ?thesis
        unfolding ids by simp
    next
      case False
      with 2 lookup have "ol_records lg oid = Some r" by simp
      with wf show ?thesis unfolding ids by (rule ledger_wf_recordD)
    qed
  qed
  show "record_by_idempotency_key lg' = (record_by_idempotency_key lg)(key \<mapsto> rec')"
  proof
    fix k
    show "record_by_idempotency_key lg' k = ((record_by_idempotency_key lg)(key \<mapsto> rec')) k"
    proof (cases "ol_ids lg k")
      case None
      then show ?thesis using view by (auto simp: record_by_idempotency_key_def lg'_def)
    next
      case (Some oid)
      with wf obtain r where "ol_records lg oid = Some r" "op_idempotency_key r = k"
        by (blast elim: ledger_wf_idD)
      with Some view show ?thesis
        by (auto simp: record_by_idempotency_key_def lg'_def)
    qed
  qed
qed

section \<open>Refinement to the single view\<close>

text \<open>
  What a repository promises, over the view that maps an idempotency key to its record. A failed
  call leaves the view as it is.
\<close>

definition submit_spec ::
  "(string \<rightharpoonup> operation_record) \<Rightarrow> confirmed_action \<Rightarrow> (submit_result, ledger_error) result
     \<Rightarrow> (string \<rightharpoonup> operation_record) \<Rightarrow> bool" where
  "submit_spec v a r v' = (case r of
      Inl _ \<Rightarrow> v' = v
    | Inr (Existing rec) \<Rightarrow>
        ca_status a = Confirmed \<and> v (ca_idempotency_key a) = Some rec \<and> v' = v
    | Inr (Created rec) \<Rightarrow>
        ca_status a = Confirmed \<and> v (ca_idempotency_key a) = None \<and>
        v' = v(ca_idempotency_key a \<mapsto> rec) \<and>
        op_tenant_id rec = ca_tenant_id a \<and> op_action_id rec = ca_action_id a \<and>
        op_idempotency_key rec = ca_idempotency_key a \<and>
        op_status rec = Confirmed \<and> op_last_error rec = None)"

definition mark_spec ::
  "(string \<rightharpoonup> operation_record) \<Rightarrow> string \<Rightarrow> action_status \<Rightarrow> string option
     \<Rightarrow> (operation_record, ledger_error) result \<Rightarrow> (string \<rightharpoonup> operation_record) \<Rightarrow> bool" where
  "mark_spec v key to err r v' = (case r of
      Inl _ \<Rightarrow> v' = v
    | Inr rec \<Rightarrow> (\<exists>old. v key = Some old \<and>
        (op_status old = to \<and> rec = old \<and> v' = v \<or>
         transition_allowed (op_status old) to \<and>
         rec = old\<lparr>op_status := to, op_last_error := err\<rparr> \<and> v' = v(key \<mapsto> rec))))"

text \<open>The insertion a first submission makes.\<close>

definition new_record :: "operation_ledger \<Rightarrow> confirmed_action \<Rightarrow> operation_record" where
  "new_record lg a = \<lparr>op_operation_id = ''op-'' @ show_u64 (ol_sequence lg + 1),
     op_tenant_id = ca_tenant_id a, op_action_id = ca_action_id a,
     op_idempotency_key = ca_idempotency_key a, op_status = Confirmed, op_last_error = None\<rparr>"

definition ledger_insert :: "operation_ledger \<Rightarrow> operation_record \<Rightarrow> operation_ledger" where
  "ledger_insert lg rec = lg\<lparr>ol_sequence := ol_sequence lg + 1,
     ol_ids := (ol_ids lg)(op_idempotency_key rec \<mapsto> op_operation_id rec),
     ol_records := (ol_records lg)(op_operation_id rec \<mapsto> rec)\<rparr>"

lemma submit_cases:
  "submit_confirmed_action lg a =
     (if ca_status a \<noteq> Confirmed then (Err (LedgerActionNotConfirmed (ca_status a)), lg)
      else case record_by_idempotency_key lg (ca_idempotency_key a) of
        Some rec \<Rightarrow> (Ok (Existing rec), lg)
      | None \<Rightarrow> (Ok (Created (new_record lg a)), ledger_insert lg (new_record lg a)))"
  by (simp add: submit_confirmed_action_def new_record_def ledger_insert_def Let_def
      split: option.split)

lemma view_None_iff: "ledger_wf lg \<Longrightarrow> record_by_idempotency_key lg key = None \<longleftrightarrow> ol_ids lg key = None"
  by (cases "ol_ids lg key")
    (auto simp: record_by_idempotency_key_def elim: ledger_wf_idD)

lemma record_wf_insert:
  assumes "record_wf lg oid r" and "ol_ids lg (op_idempotency_key rec) = None"
    and "unat (ol_sequence lg) < 2 ^ 64 - 1"
  shows "record_wf (ledger_insert lg rec) oid r"
proof -
  have "unat (ol_sequence (ledger_insert lg rec)) = Suc (unat (ol_sequence lg))"
    using assms(3) by (simp add: ledger_insert_def unat_u64_Suc)
  moreover have "ol_ids (ledger_insert lg rec) (op_idempotency_key r) = Some oid"
    using assms(1,2) by (auto simp: ledger_insert_def record_wf_def)
  ultimately show ?thesis
    using assms(1) unfolding record_wf_def by (metis le_SucI)
qed

lemma record_wf_new_record:
  "record_wf (ledger_insert lg (new_record lg a)) (op_operation_id (new_record lg a))
     (new_record lg a)"
  unfolding record_wf_def by (auto simp: new_record_def ledger_insert_def show_u64_def)

lemma ledger_insert_wf:
  assumes wf: "ledger_wf lg" and room: "unat (ol_sequence lg) < 2 ^ 64 - 1"
    and new: "ol_ids lg (ca_idempotency_key a) = None"
  shows "ledger_wf (ledger_insert lg (new_record lg a))" (is "ledger_wf ?lg'")
proof -
  let ?rec = "new_record lg a"
  have fresh: "ol_records lg (op_operation_id ?rec) = None"
    using fresh_operation_id [OF wf room] by (simp add: new_record_def)
  have key: "op_idempotency_key ?rec = ca_idempotency_key a" by (simp add: new_record_def)
  have ids: "\<exists>r. ol_records ?lg' oid = Some r \<and> op_idempotency_key r = k"
    if "ol_ids ?lg' k = Some oid" for k oid
  proof (cases "k = ca_idempotency_key a")
    case True
    with that show ?thesis by (simp add: ledger_insert_def key)
  next
    case False
    with that have "ol_ids lg k = Some oid" by (simp add: ledger_insert_def key)
    with wf obtain r where "ol_records lg oid = Some r" "op_idempotency_key r = k"
      by (blast elim: ledger_wf_idD)
    with fresh show ?thesis by (auto simp: ledger_insert_def)
  qed
  have recs: "record_wf ?lg' oid r" if "ol_records ?lg' oid = Some r" for oid r
  proof (cases "oid = op_operation_id ?rec")
    case True
    with that show ?thesis
      using record_wf_new_record [of lg a] by (simp add: ledger_insert_def)
  next
    case False
    with that have "ol_records lg oid = Some r" by (simp add: ledger_insert_def)
    from ledger_wf_recordD(1) [OF wf this] new room show ?thesis
      unfolding key [symmetric] by (rule record_wf_insert)
  qed
  show ?thesis unfolding ledger_wf_def using ids recs by blast
qed

lemma ledger_insert_view:
  assumes wf: "ledger_wf lg" and room: "unat (ol_sequence lg) < 2 ^ 64 - 1"
    and new: "ol_ids lg (ca_idempotency_key a) = None"
  shows "record_by_idempotency_key (ledger_insert lg (new_record lg a)) =
     (record_by_idempotency_key lg)(ca_idempotency_key a \<mapsto> new_record lg a)"
proof
  fix k
  have fresh: "ol_records lg (op_operation_id (new_record lg a)) = None"
    using fresh_operation_id [OF wf room] by (simp add: new_record_def)
  have key: "op_idempotency_key (new_record lg a) = ca_idempotency_key a"
    by (simp add: new_record_def)
  show "record_by_idempotency_key (ledger_insert lg (new_record lg a)) k =
      ((record_by_idempotency_key lg)(ca_idempotency_key a \<mapsto> new_record lg a)) k"
  proof (cases "ol_ids lg k")
    case None
    then show ?thesis by (simp add: record_by_idempotency_key_def ledger_insert_def key)
  next
    case (Some oid)
    with wf obtain r where "ol_records lg oid = Some r" by (blast elim: ledger_wf_idD)
    with Some fresh show ?thesis
      by (auto simp: record_by_idempotency_key_def ledger_insert_def key)
  qed
qed

lemma submit_refines:
  assumes "ledger_wf lg" and "unat (ol_sequence lg) < 2 ^ 64 - 1"
    and "submit_confirmed_action lg a = (r, lg')"
  shows "ledger_wf lg'"
    and "submit_spec (record_by_idempotency_key lg) a r (record_by_idempotency_key lg')"
    and "unat (ol_sequence lg') \<le> Suc (unat (ol_sequence lg))"
  using assms view_None_iff [OF assms(1), of "ca_idempotency_key a"]
    ledger_insert_wf [OF assms(1,2), of a] ledger_insert_view [OF assms(1,2), of a]
  by (auto simp: submit_cases submit_spec_def new_record_def ledger_insert_def unat_u64_Suc
      split: if_splits option.splits)

text \<open>The three marking operations are one update of the view.\<close>

definition ledger_mark ::
  "operation_ledger \<Rightarrow> string \<Rightarrow> action_status \<Rightarrow> string option
     \<Rightarrow> (operation_record, ledger_error) result \<times> operation_ledger" where
  "ledger_mark lg key to err = (case record_by_idempotency_key lg key of
      None \<Rightarrow> (Err (UnknownIdempotencyKey key), lg)
    | Some rec \<Rightarrow>
       (if op_status rec = to then (Ok rec, lg)
        else if \<not> transition_allowed (op_status rec) to
        then (Err (InvalidTransition (op_status rec) to), lg)
        else (Ok (rec\<lparr>op_status := to, op_last_error := err\<rparr>),
              lg\<lparr>ol_records := (ol_records lg)(op_operation_id rec \<mapsto>
                 rec\<lparr>op_status := to, op_last_error := err\<rparr>)\<rparr>)))"

lemma transition_allowed_Failed_iff [simp]:
  "transition_allowed s Failed \<longleftrightarrow> s = Executing"
  by (cases s) auto

lemma mark_eq_ledger_mark:
  assumes "ledger_wf lg"
  shows "mark_executing lg key = ledger_mark lg key Executing None"
    and "mark_succeeded lg key = ledger_mark lg key Succeeded None"
    and "mark_failed lg key error = ledger_mark lg key Failed (Some error)"
  by (simp_all add: mark_executing_def mark_succeeded_def mark_failed_def ledger_transition_def
      ledger_mark_def ledger_lookup_view [OF assms] Let_def split: option.split)

lemma ledger_mark_refines:
  assumes wf: "ledger_wf lg" and to: "to \<in> {Executing, Succeeded, Failed}"
    and err: "err \<noteq> None \<longleftrightarrow> to = Failed"
    and step: "ledger_mark lg key to err = (r, lg')"
  shows "ledger_wf lg' \<and> ol_sequence lg' = ol_sequence lg \<and>
    mark_spec (record_by_idempotency_key lg) key to err r (record_by_idempotency_key lg')"
proof (cases "record_by_idempotency_key lg key")
  case None
  with step wf show ?thesis by (auto simp: ledger_mark_def mark_spec_def)
next
  case (Some rec)
  let ?rec = "rec\<lparr>op_status := to, op_last_error := err\<rparr>"
  have "ledger_wf (lg\<lparr>ol_records := (ol_records lg)(op_operation_id rec \<mapsto> ?rec)\<rparr>)"
    and "record_by_idempotency_key (lg\<lparr>ol_records := (ol_records lg)(op_operation_id rec \<mapsto> ?rec)\<rparr>)
      = (record_by_idempotency_key lg)(key \<mapsto> ?rec)"
    using to err by (auto intro!: ledger_update_record [OF wf Some])
  with step wf Some show ?thesis
    by (auto simp: ledger_mark_def mark_spec_def split: if_splits)
qed

lemma mark_refines:
  assumes wf: "ledger_wf lg"
  shows "mark_executing lg key = (r, lg') \<Longrightarrow>
      ledger_wf lg' \<and> ol_sequence lg' = ol_sequence lg \<and>
      mark_spec (record_by_idempotency_key lg) key Executing None r (record_by_idempotency_key lg')"
    and "mark_succeeded lg key = (r, lg') \<Longrightarrow>
      ledger_wf lg' \<and> ol_sequence lg' = ol_sequence lg \<and>
      mark_spec (record_by_idempotency_key lg) key Succeeded None r (record_by_idempotency_key lg')"
    and "mark_failed lg key error = (r, lg') \<Longrightarrow>
      ledger_wf lg' \<and> ol_sequence lg' = ol_sequence lg \<and>
      mark_spec (record_by_idempotency_key lg) key Failed (Some error) r
        (record_by_idempotency_key lg')"
  unfolding mark_eq_ledger_mark [OF wf]
  by (rule ledger_mark_refines [OF wf]; simp)+

section \<open>The repository contract\<close>

text \<open>
  The promise of the trait to its clients. \<open>room\<close> counts the operations that can still be
  created before the 64-bit sequence is exhausted.
\<close>

locale ledger_contract =
  fixes L :: "'l ledger_ops"
    and view :: "'l \<Rightarrow> string \<Rightarrow> operation_record option"
    and invar :: "'l \<Rightarrow> bool"
    and room :: "'l \<Rightarrow> nat"
  assumes submit_law: "invar l \<Longrightarrow> 0 < room l \<Longrightarrow> lo_submit L l a = (r, l') \<Longrightarrow>
      invar l' \<and> room l \<le> Suc (room l') \<and> submit_spec (view l) a r (view l')"
    and executing_law: "invar l \<Longrightarrow> lo_mark_executing L l key = (s, l') \<Longrightarrow>
      invar l' \<and> room l' = room l \<and> mark_spec (view l) key Executing None s (view l')"
    and succeeded_law: "invar l \<Longrightarrow> lo_mark_succeeded L l key = (s, l') \<Longrightarrow>
      invar l' \<and> room l' = room l \<and> mark_spec (view l) key Succeeded None s (view l')"
    and failed_law: "invar l \<Longrightarrow> lo_mark_failed L l key error = (s, l') \<Longrightarrow>
      invar l' \<and> room l' = room l \<and> mark_spec (view l) key Failed (Some error) s (view l')"
    and get_law: "invar l \<Longrightarrow> lo_get L l key = view l key"
begin

lemma resubmit_existing:
  assumes "invar l" and "0 < room l" and "lo_submit L l a = (Ok s, l1)"
    and "0 < room l1" and "ca_idempotency_key b = ca_idempotency_key a"
    and "lo_submit L l1 b = (Ok t, l2)"
  shows "t = Existing (case s of Created rec \<Rightarrow> rec | Existing rec \<Rightarrow> rec) \<and> view l2 = view l1"
  using submit_law [OF assms(1-3)] submit_law [OF _ assms(4,6)] assms(5)
  by (auto simp: submit_spec_def split: submit_result.splits)

end

definition im_view :: "in_memory_ledger_repository \<Rightarrow> string \<Rightarrow> operation_record option" where
  "im_view m key = (if im_poisoned m then None else record_by_idempotency_key (im_ledger m) key)"

definition im_invar :: "in_memory_ledger_repository \<Rightarrow> bool" where
  "im_invar m \<longleftrightarrow> ledger_wf (im_ledger m)"

definition im_room :: "in_memory_ledger_repository \<Rightarrow> nat" where
  "im_room m = 2 ^ 64 - 1 - unat (ol_sequence (im_ledger m))"

lemma with_ledger_cases:
  assumes "with_ledger m f = (r, m')"
  shows "im_poisoned m' = im_poisoned m \<and>
    (if im_poisoned m then (\<exists>e. r = Err e) \<and> m' = m else f (im_ledger m) = (r, im_ledger m'))"
  using assms by (auto simp: with_ledger_def split: if_splits prod.splits)

lemma im_mark_law:
  assumes "im_invar l" and w: "with_ledger l f = (s, l')"
    and "\<And>lg'. ledger_wf (im_ledger l) \<Longrightarrow> f (im_ledger l) = (s, lg') \<Longrightarrow>
      ledger_wf lg' \<and> ol_sequence lg' = ol_sequence (im_ledger l) \<and>
      mark_spec (record_by_idempotency_key (im_ledger l)) key to err s
        (record_by_idempotency_key lg')"
  shows "im_invar l' \<and> im_room l' = im_room l \<and> mark_spec (im_view l) key to err s (im_view l')"
  using with_ledger_cases [OF w] assms(1,3)
  by (cases "im_poisoned l")
    (auto simp: im_invar_def im_room_def im_view_def [abs_def] mark_spec_def)

lemma im_submit_law:
  assumes "im_invar l" and "0 < im_room l"
    and w: "with_ledger l (\<lambda>lg. submit_confirmed_action lg a) = (r, l')"
  shows "im_invar l' \<and> im_room l \<le> Suc (im_room l') \<and> submit_spec (im_view l) a r (im_view l')"
proof (cases "im_poisoned l")
  case True
  with with_ledger_cases [OF w] assms(1) show ?thesis by (auto simp: submit_spec_def)
next
  case False
  with with_ledger_cases [OF w]
  have s: "submit_confirmed_action (im_ledger l) a = (r, im_ledger l')" and "\<not> im_poisoned l'"
    by auto
  with False assms submit_refines [OF _ _ s] show ?thesis
    by (auto simp: im_invar_def im_room_def im_view_def [abs_def])
qed

interpretation im_ledger_repo: ledger_contract in_memory_ledger_ops im_view im_invar im_room
  by unfold_locales
    (auto simp: in_memory_ledger_ops_def im_view_def
      dest: im_submit_law im_mark_law [OF _ _ mark_refines(1)]
        im_mark_law [OF _ _ mark_refines(2)] im_mark_law [OF _ _ mark_refines(3)])

section \<open>The ledger over time\<close>

text \<open>
  One call on a ledger whose sequence is not exhausted. A call that fails is a step that changes
  nothing.
\<close>

inductive ledger_step :: "operation_ledger \<Rightarrow> operation_ledger \<Rightarrow> bool" where
  submit: "unat (ol_sequence lg) < 2 ^ 64 - 1 \<Longrightarrow> submit_confirmed_action lg a = (r, lg') \<Longrightarrow>
     ledger_step lg lg'"
| executing: "mark_executing lg key = (r, lg') \<Longrightarrow> ledger_step lg lg'"
| succeeded: "mark_succeeded lg key = (r, lg') \<Longrightarrow> ledger_step lg lg'"
| failed: "mark_failed lg key error = (r, lg') \<Longrightarrow> ledger_step lg lg'"

inductive_cases ledger_stepE: "ledger_step lg lg'"

lemma ledger_step_wf [oar_inv]: "ledger_step lg lg' \<Longrightarrow> ledger_wf lg \<Longrightarrow> ledger_wf lg'"
  by (auto elim!: ledger_stepE dest: submit_refines mark_refines)

text \<open>A record keeps its identity and its status only moves along the allowed transitions.\<close>

definition record_evolves :: "operation_record \<Rightarrow> operation_record \<Rightarrow> bool" where
  "record_evolves rec rec' \<longleftrightarrow>
     op_operation_id rec' = op_operation_id rec \<and> op_tenant_id rec' = op_tenant_id rec \<and>
     op_action_id rec' = op_action_id rec \<and> op_idempotency_key rec' = op_idempotency_key rec \<and>
     transition_allowed\<^sup>*\<^sup>* (op_status rec) (op_status rec') \<and>
     (op_status rec' = op_status rec \<longrightarrow> rec' = rec)"

lemma transition_rank:
  assumes "transition_allowed\<^sup>*\<^sup>* s t"
  shows "s = t \<or> s = Confirmed \<and> t \<in> {Executing, Succeeded, Failed} \<or>
    s = Executing \<and> t \<in> {Succeeded, Failed}"
  using assms
proof (induction rule: rtranclp_induct)
  case (step t u)
  then show ?case by (cases t; cases u) auto
qed simp

lemma record_evolves_refl [simp]: "record_evolves rec rec"
  by (simp add: record_evolves_def)

lemma record_evolves_trans:
  assumes "record_evolves a b" and "record_evolves b c"
  shows "record_evolves a c"
proof -
  have tr: "transition_allowed\<^sup>*\<^sup>* (op_status a) (op_status b)"
    "transition_allowed\<^sup>*\<^sup>* (op_status b) (op_status c)"
    using assms by (auto simp: record_evolves_def)
  have "c = a" if "op_status c = op_status a"
  proof -
    from tr that have "op_status b = op_status a"
      using transition_rank [of "op_status a" "op_status b"]
        transition_rank [of "op_status b" "op_status c"] by auto
    with assms that show ?thesis by (simp add: record_evolves_def)
  qed
  with assms tr show ?thesis by (auto simp: record_evolves_def)
qed

lemma ledger_step_evolves:
  assumes "ledger_step lg lg'" and wf: "ledger_wf lg"
    and rec: "record_by_idempotency_key lg key = Some rec"
  shows "\<exists>rec'. record_by_idempotency_key lg' key = Some rec' \<and> record_evolves rec rec'"
proof -
  have mark: ?thesis
    if "mark_spec (record_by_idempotency_key lg) k to err r (record_by_idempotency_key lg')" for k to err r
  proof -
    have "\<not> transition_allowed to to" by (cases to) auto
    with that rec show ?thesis
      by (cases "k = key") (auto simp: mark_spec_def record_evolves_def split: sum.splits)
  qed
  from assms(1) show ?thesis
  proof (cases rule: ledger_step.cases)
    case (submit a r)
    from submit_refines(2) [OF wf submit] rec show ?thesis
      by (auto simp: submit_spec_def split: sum.splits submit_result.splits)
  qed (use mark_refines [OF wf] mark in blast)+
qed

lemma ledger_steps_evolve:
  assumes "ledger_step\<^sup>*\<^sup>* lg lg'" and "ledger_wf lg"
    and "record_by_idempotency_key lg key = Some rec"
  shows "ledger_wf lg' \<and>
    (\<exists>rec'. record_by_idempotency_key lg' key = Some rec' \<and> record_evolves rec rec')"
  using assms
proof (induction rule: rtranclp_induct)
  case (step m n)
  then obtain rec' where "ledger_wf m" "record_by_idempotency_key m key = Some rec'"
    "record_evolves rec rec'" by blast
  with step.hyps show ?case
    using ledger_step_evolves [of m n key rec'] ledger_step_wf [of m n] record_evolves_trans by blast
qed auto

text \<open>
  Once an idempotency key is in the ledger it stays there: after any sequence of ledger
  calls the key still has the same operation, tenant and action, its status has only moved
  forward, and a record that succeeded or failed is unchanged in every field.
\<close>

theorem ledger_record_persists:
  assumes "ledger_wf lg" and "ledger_step\<^sup>*\<^sup>* lg lg'"
    and "record_by_idempotency_key lg key = Some rec"
  shows "\<exists>rec'. record_by_idempotency_key lg' key = Some rec' \<and> record_evolves rec rec' \<and>
    (is_terminal_status (op_status rec) \<longrightarrow> rec' = rec)"
proof -
  from ledger_steps_evolve [OF assms(2,1,3)] obtain rec' where
    rec': "record_by_idempotency_key lg' key = Some rec'" "record_evolves rec rec'" by blast
  have "rec' = rec" if "is_terminal_status (op_status rec)"
    using rec'(2) transition_rank [of "op_status rec" "op_status rec'"] that
    by (auto simp: record_evolves_def is_terminal_status_iff)
  with rec' show ?thesis by blast
qed

definition sample_action :: confirmed_action where
  "sample_action = \<lparr>ca_action_id = ''a1'', ca_tenant_id = ''t1'', ca_actor_user_id = ''u1'',
     ca_idempotency_key = ''k1'', ca_status = Confirmed, ca_confirmed_at = Some 0\<rparr>"

definition sample_ledger :: operation_ledger where
  "sample_ledger = snd (submit_confirmed_action ledger_new sample_action)"

lemma sample_ledger_wf: "ledger_wf sample_ledger"
  using submit_refines(1) [OF ledger_wf_new, of sample_action] unfolding sample_ledger_def
  by (metis ledger_new_def operation_ledger.select_convs(3) prod.collapse unat_0 zero_less_diff
      one_less_power zero_less_numeral one_less_numeral_iff semiring_norm(76))

lemma sample_ledger_view:
  "record_by_idempotency_key sample_ledger ''k1'' = Some (new_record ledger_new sample_action)"
  by (simp add: sample_ledger_def submit_cases sample_action_def ledger_new_def
      record_by_idempotency_key_def ledger_insert_def new_record_def)

lemma ledger_record_persists_witness:
  "\<exists>rec'. record_by_idempotency_key (snd (mark_executing sample_ledger ''k1'')) ''k1'' = Some rec' \<and>
     record_evolves (new_record ledger_new sample_action) rec'"
proof -
  have "ledger_step\<^sup>*\<^sup>* sample_ledger (snd (mark_executing sample_ledger ''k1''))"
    by (rule r_into_rtranclp, rule ledger_step.executing, rule prod.collapse [symmetric])
  from ledger_record_persists [OF sample_ledger_wf this sample_ledger_view] show ?thesis by blast
qed

text \<open>
  Resubmission is idempotent: on the in-memory repository, submitting again under a key that
  was accepted before returns the record of the first submission and leaves the ledger view
  as it is, whatever the second action's other fields are.
\<close>

theorem ledger_resubmission_returns_existing:
  assumes "im_invar m" and "1 < im_room m"
    and "lo_submit in_memory_ledger_ops m a = (Ok s, m1)"
    and "ca_idempotency_key b = ca_idempotency_key a"
    and "lo_submit in_memory_ledger_ops m1 b = (Ok t, m2)"
  shows "t = Existing (case s of Created rec \<Rightarrow> rec | Existing rec \<Rightarrow> rec) \<and> im_view m2 = im_view m1"
proof (rule im_ledger_repo.resubmit_existing [OF assms(1) _ assms(3) _ assms(4,5)])
  show "0 < im_room m" using assms(2) by simp
  then show "0 < im_room m1" using im_ledger_repo.submit_law [OF assms(1) _ assms(3)] assms(2) by simp
qed

lemma ledger_resubmission_returns_existing_witness:
  "\<exists>rec m1 m2. lo_submit in_memory_ledger_ops in_memory_ledger_new sample_action = (Ok (Created rec), m1) \<and>
     lo_submit in_memory_ledger_ops m1 sample_action = (Ok (Existing rec), m2) \<and>
     im_view m2 = im_view m1"
proof -
  define m1 where "m1 = in_memory_ledger_new\<lparr>im_ledger := sample_ledger\<rparr>"
  let ?rec = "new_record ledger_new sample_action"
  have first: "lo_submit in_memory_ledger_ops in_memory_ledger_new sample_action = (Ok (Created ?rec), m1)"
    by (simp add: in_memory_ledger_ops_def with_ledger_def in_memory_ledger_new_def m1_def
        sample_ledger_def submit_cases ledger_new_def record_by_idempotency_key_def sample_action_def)
  have second: "lo_submit in_memory_ledger_ops m1 sample_action = (Ok (Existing ?rec), m1)"
    using sample_ledger_view
    by (simp add: in_memory_ledger_ops_def with_ledger_def m1_def in_memory_ledger_new_def
        submit_cases sample_action_def)
  have "im_invar in_memory_ledger_new" and "1 < im_room in_memory_ledger_new"
    using ledger_wf_new by (auto simp: im_invar_def im_room_def in_memory_ledger_new_def ledger_new_def)
  from ledger_resubmission_returns_existing [OF this first refl second] first second
  show ?thesis by auto
qed

end
