(* ===== verification/Audit_Log.thy ===== *)
theory Audit_Log
  imports Confirmed_Action "HOL-Library.Multiset"
begin

text \<open>
  Audit events, traces and the append-only event store (\<open>action/audit_event.rs\<close>,
  \<open>action/audit_trace.rs\<close>, \<open>action/audit_repository.rs\<close>, \<open>action/executor/trace.rs\<close>).
  A trace numbers the events of one action from 1; the store refuses a second event with the
  same id. The locale \<open>audit_contract\<close> is the promise of the trait
  \<open>AuditEventRepository\<close>: the log only grows at its end, and never by an event id it holds.
\<close>

section \<open>Events\<close>

datatype audit_event_type =
    ProposedActionDecisionRecorded | ConfirmedActionRecorded | DryRunExecuted | ExecutionDenied
  | ExecutionSucceeded | ExecutionFailed

datatype audit_actor_kind = AuditUser | AuditBot | AuditApp | AuditSystem | AuditService

record audit_actor =
  aa_kind :: audit_actor_kind
  aa_actor_id :: string
  aa_display_name :: "string option"

record audit_scope =
  as_tenant_id :: string
  as_workspace_id :: "string option"

record audit_target =
  at_resource_type :: string
  at_resource_id :: string
  at_action_type :: string

record audit_subject =
  asb_actor :: audit_actor
  asb_scope :: audit_scope
  asb_target :: audit_target

record audit_event_context =
  ac_event_id :: string
  ac_trace_id :: string
  ac_sequence :: u64
  ac_occurred_at_ms :: u64
  ac_subject :: audit_subject

record audit_state_summary =
  ss_summary :: string
  ss_reference_ids :: "string list"
  ss_content_hash :: "string option"

datatype execution_status = StatusSucceeded | StatusFailed | StatusDryRun | StatusDenied

record execution_result =
  er_status :: execution_status
  er_adapter_operation_id :: "string option"
  er_error_code :: "string option"
  er_message :: "string option"

record audit_event =
  ae_event_id :: string
  ae_trace_id :: string
  ae_sequence :: u64
  ae_occurred_at_ms :: u64
  ae_event_type :: audit_event_type
  ae_actor :: audit_actor
  ae_scope :: audit_scope
  ae_target :: audit_target
  ae_before :: "audit_state_summary option"
  ae_after :: "audit_state_summary option"
  ae_execution :: "execution_result option"

text \<open>The fields every constructor of \<open>AuditEvent\<close> takes from its context.\<close>

definition event_of_context ::
  "audit_event_context \<Rightarrow> audit_event_type \<Rightarrow> audit_state_summary option
     \<Rightarrow> audit_state_summary option \<Rightarrow> execution_result option \<Rightarrow> audit_event" where
  "event_of_context c ty before after execution = \<lparr>
     ae_event_id = ac_event_id c, ae_trace_id = ac_trace_id c, ae_sequence = ac_sequence c,
     ae_occurred_at_ms = ac_occurred_at_ms c, ae_event_type = ty,
     ae_actor = asb_actor (ac_subject c), ae_scope = asb_scope (ac_subject c),
     ae_target = asb_target (ac_subject c), ae_before = before, ae_after = after,
     ae_execution = execution\<rparr>"

definition proposed_action_decision_event ::
  "audit_event_context \<Rightarrow> audit_state_summary \<Rightarrow> audit_event" where
  "proposed_action_decision_event c after =
     event_of_context c ProposedActionDecisionRecorded None (Some after) None"

definition confirmed_action_event :: "audit_event_context \<Rightarrow> audit_state_summary \<Rightarrow> audit_event" where
  "confirmed_action_event c after =
     event_of_context c ConfirmedActionRecorded None (Some after) None"

definition dry_run_event ::
  "audit_event_context \<Rightarrow> audit_state_summary option \<Rightarrow> audit_state_summary option \<Rightarrow> audit_event" where
  "dry_run_event c before after = event_of_context c DryRunExecuted before after
     (Some \<lparr>er_status = StatusDryRun, er_adapter_operation_id = None, er_error_code = None,
       er_message = None\<rparr>)"

definition execution_succeeded_event ::
  "audit_event_context \<Rightarrow> audit_state_summary option \<Rightarrow> audit_state_summary option \<Rightarrow> string
     \<Rightarrow> audit_event" where
  "execution_succeeded_event c before after adapter_operation_id =
     event_of_context c ExecutionSucceeded before after
       (Some \<lparr>er_status = StatusSucceeded, er_adapter_operation_id = Some adapter_operation_id,
         er_error_code = None, er_message = None\<rparr>)"

definition execution_denied_event ::
  "audit_event_context \<Rightarrow> string \<Rightarrow> string \<Rightarrow> audit_event" where
  "execution_denied_event c error_code message =
     event_of_context c ExecutionDenied None None
       (Some \<lparr>er_status = StatusDenied, er_adapter_operation_id = None,
         er_error_code = Some error_code, er_message = Some message\<rparr>)"

definition execution_failed_event ::
  "audit_event_context \<Rightarrow> audit_state_summary option \<Rightarrow> audit_state_summary option \<Rightarrow> string
     \<Rightarrow> string \<Rightarrow> audit_event" where
  "execution_failed_event c before after error_code message =
     event_of_context c ExecutionFailed before after
       (Some \<lparr>er_status = StatusFailed, er_adapter_operation_id = None,
         er_error_code = Some error_code, er_message = Some message\<rparr>)"

lemmas event_defs = proposed_action_decision_event_def confirmed_action_event_def
  dry_run_event_def execution_succeeded_event_def execution_denied_event_def
  execution_failed_event_def event_of_context_def

section \<open>Traces\<close>

record audit_trace =
  tr_trace_id :: string
  tr_subject :: audit_subject
  tr_next_sequence :: u64

definition audit_trace_new :: "string \<Rightarrow> audit_subject \<Rightarrow> audit_trace" where
  "audit_trace_new trace_id subject =
     \<lparr>tr_trace_id = trace_id, tr_subject = subject, tr_next_sequence = 1\<rparr>"

definition allocate_sequence :: "audit_trace \<Rightarrow> u64 \<times> audit_trace" where
  "allocate_sequence tr =
     (tr_next_sequence tr, tr\<lparr>tr_next_sequence := tr_next_sequence tr + 1\<rparr>)"

definition event_id_for :: "audit_trace \<Rightarrow> u64 \<Rightarrow> string" where
  "event_id_for tr sequence = tr_trace_id tr @ ''-evt-'' @ show_u64 sequence"

definition trace_context :: "audit_trace \<Rightarrow> u64 \<Rightarrow> audit_event_context \<times> audit_trace" where
  "trace_context tr occurred_at_ms =
     (let (sequence, tr') = allocate_sequence tr in
      (\<lparr>ac_event_id = event_id_for tr' sequence, ac_trace_id = tr_trace_id tr',
        ac_sequence = sequence, ac_occurred_at_ms = occurred_at_ms,
        ac_subject = tr_subject tr'\<rparr>, tr'))"

definition trace_confirmed_action ::
  "audit_trace \<Rightarrow> u64 \<Rightarrow> audit_state_summary \<Rightarrow> audit_event \<times> audit_trace" where
  "trace_confirmed_action tr ms after =
     (let (c, tr') = trace_context tr ms in (confirmed_action_event c after, tr'))"

definition trace_dry_run ::
  "audit_trace \<Rightarrow> u64 \<Rightarrow> audit_state_summary option \<Rightarrow> audit_state_summary option
     \<Rightarrow> audit_event \<times> audit_trace" where
  "trace_dry_run tr ms before after =
     (let (c, tr') = trace_context tr ms in (dry_run_event c before after, tr'))"

definition trace_execution_succeeded ::
  "audit_trace \<Rightarrow> u64 \<Rightarrow> audit_state_summary option \<Rightarrow> audit_state_summary option \<Rightarrow> string
     \<Rightarrow> audit_event \<times> audit_trace" where
  "trace_execution_succeeded tr ms before after adapter_operation_id =
     (let (c, tr') = trace_context tr ms
      in (execution_succeeded_event c before after adapter_operation_id, tr'))"

definition trace_execution_denied ::
  "audit_trace \<Rightarrow> u64 \<Rightarrow> string \<Rightarrow> string \<Rightarrow> audit_event \<times> audit_trace" where
  "trace_execution_denied tr ms error_code message =
     (let (c, tr') = trace_context tr ms in (execution_denied_event c error_code message, tr'))"

definition trace_execution_failed ::
  "audit_trace \<Rightarrow> u64 \<Rightarrow> audit_state_summary option \<Rightarrow> audit_state_summary option \<Rightarrow> string
     \<Rightarrow> string \<Rightarrow> audit_event \<times> audit_trace" where
  "trace_execution_failed tr ms before after error_code message =
     (let (c, tr') = trace_context tr ms
      in (execution_failed_event c before after error_code message, tr'))"

lemmas trace_defs = trace_confirmed_action_def trace_dry_run_def trace_execution_succeeded_def
  trace_execution_denied_def trace_execution_failed_def trace_context_def allocate_sequence_def
  event_id_for_def event_defs

definition action_trace_id :: "confirmed_action \<Rightarrow> string" where
  "action_trace_id a = ''trace-'' @ ca_tenant_id a @ ''-'' @ ca_idempotency_key a"

definition action_audit_subject :: "confirmed_action \<Rightarrow> audit_subject" where
  "action_audit_subject a = \<lparr>
     asb_actor = \<lparr>aa_kind = AuditUser, aa_actor_id = ca_actor_user_id a, aa_display_name = None\<rparr>,
     asb_scope = \<lparr>as_tenant_id = ca_tenant_id a, as_workspace_id = None\<rparr>,
     asb_target = \<lparr>at_resource_type = ''confirmed_action'', at_resource_id = ca_action_id a,
       at_action_type = ''execute''\<rparr>\<rparr>"

definition action_audit_trace :: "confirmed_action \<Rightarrow> audit_trace" where
  "action_audit_trace a = audit_trace_new (action_trace_id a) (action_audit_subject a)"

section \<open>The in-memory event store\<close>

datatype audit_repository_error = DuplicateEventId string | StoreUnavailable

record in_memory_audit_repository =
  ia_poisoned :: bool
  ia_events :: "audit_event list"

definition in_memory_audit_new :: in_memory_audit_repository where
  "in_memory_audit_new = \<lparr>ia_poisoned = False, ia_events = []\<rparr>"

definition audit_append ::
  "in_memory_audit_repository \<Rightarrow> audit_event
     \<Rightarrow> (unit, audit_repository_error) result \<times> in_memory_audit_repository" where
  "audit_append m event =
     (if ia_poisoned m then (Err StoreUnavailable, m)
      else if list_ex (\<lambda>existing. ae_event_id existing = ae_event_id event) (ia_events m)
      then (Err (DuplicateEventId (ae_event_id event)), m)
      else (Ok (), m\<lparr>ia_events := ia_events m @ [event]\<rparr>))"

definition audit_find_by_trace_id ::
  "in_memory_audit_repository \<Rightarrow> string \<Rightarrow> audit_event list" where
  "audit_find_by_trace_id m trace_id =
     (if ia_poisoned m then []
      else sort_key ae_sequence (filter (\<lambda>event. ae_trace_id event = trace_id) (ia_events m)))"

text \<open>The trait \<open>AuditEventRepository\<close> as a record of its methods.\<close>

record 'r audit_ops =
  ao_append :: "'r \<Rightarrow> audit_event \<Rightarrow> (unit, audit_repository_error) result \<times> 'r"
  ao_find :: "'r \<Rightarrow> string \<Rightarrow> audit_event list"

definition in_memory_audit_ops :: "in_memory_audit_repository audit_ops" where
  "in_memory_audit_ops = \<lparr>ao_append = audit_append, ao_find = audit_find_by_trace_id\<rparr>"

section \<open>The store contract\<close>

text \<open>A run of appends, ignoring which of them failed.\<close>

fun append_all :: "'r audit_ops \<Rightarrow> 'r \<Rightarrow> audit_event list \<Rightarrow> 'r" where
  "append_all A s [] = s"
| "append_all A s (e # es) = append_all A (snd (ao_append A s e)) es"

locale audit_contract =
  fixes A :: "'r audit_ops"
    and log :: "'r \<Rightarrow> audit_event list"
  assumes append_law: "ao_append A s e = (r, s') \<Longrightarrow>
      (case r of Inl _ \<Rightarrow> log s' = log s
       | Inr _ \<Rightarrow> log s' = log s @ [e] \<and> ae_event_id e \<notin> ae_event_id ` set (log s))"
begin

lemma append_grows:
  assumes "ao_append A s e = (r, s')"
  shows "\<exists>new. log s' = log s @ new \<and> set new \<subseteq> {e} \<and>
    (distinct (map ae_event_id (log s)) \<longrightarrow> distinct (map ae_event_id (log s')))"
  using append_law [OF assms] by (cases r) auto

lemma append_all_grows:
  "\<exists>new. log (append_all A s es) = log s @ new \<and> set new \<subseteq> set es \<and>
    (distinct (map ae_event_id (log s)) \<longrightarrow> distinct (map ae_event_id (log (append_all A s es))))"
proof (induction es arbitrary: s)
  case Nil
  show ?case by simp
next
  case (Cons e es)
  obtain r s1 where step: "ao_append A s e = (r, s1)" by fastforce
  from append_grows [OF this] Cons.IH [of s1] step show ?case by fastforce
qed

end

interpretation im_audit_repo: audit_contract in_memory_audit_ops ia_events
  by unfold_locales
    (fastforce simp: in_memory_audit_ops_def audit_append_def list_ex_iff split: if_splits)

section \<open>Properties\<close>

text \<open>
  C15. The in-memory audit log is append-only: whatever events are offered, the old log is a
  prefix of the new one, every added event is one that was offered, and event ids stay unique.
\<close>

theorem audit_log_append_only:
  assumes "distinct (map ae_event_id (ia_events m))"
  shows "\<exists>new. ia_events (append_all in_memory_audit_ops m es) = ia_events m @ new \<and>
    set new \<subseteq> set es \<and>
    distinct (map ae_event_id (ia_events (append_all in_memory_audit_ops m es)))"
  using im_audit_repo.append_all_grows [of m es] assms by blast

definition sample_event :: audit_event where
  "sample_event = fst (trace_confirmed_action (audit_trace_new ''t'' (action_audit_subject
     (proposed_confirmed_action ''a'' ''t'' ''u'' ''k''))) 7
     \<lparr>ss_summary = ''s'', ss_reference_ids = [], ss_content_hash = None\<rparr>)"

lemma audit_log_append_only_witness:
  "distinct (map ae_event_id (ia_events in_memory_audit_new)) \<and>
   distinct (map ae_event_id
     (ia_events (append_all in_memory_audit_ops in_memory_audit_new [sample_event, sample_event]))) \<and>
   ia_events (append_all in_memory_audit_ops in_memory_audit_new [sample_event, sample_event]) =
     [sample_event]"
  using audit_log_append_only [of in_memory_audit_new "[sample_event, sample_event]"]
  by (auto simp: in_memory_audit_new_def in_memory_audit_ops_def audit_append_def)

text \<open>
  A query by trace id returns exactly the stored events of that trace, each as often as it
  is stored, in the order of their sequence numbers.
\<close>

theorem audit_find_by_trace_id_complete:
  "sorted (map ae_sequence (audit_find_by_trace_id m trace_id)) \<and>
   mset (audit_find_by_trace_id m trace_id) =
     (if ia_poisoned m then {#}
      else filter_mset (\<lambda>e. ae_trace_id e = trace_id) (mset (ia_events m)))"
  by (simp add: audit_find_by_trace_id_def)

text \<open>Contexts that a trace hands out one after the other.\<close>

fun trace_contexts :: "audit_trace \<Rightarrow> u64 list \<Rightarrow> audit_event_context list" where
  "trace_contexts tr [] = []"
| "trace_contexts tr (ms # mss) =
     (let (c, tr') = trace_context tr ms in c # trace_contexts tr' mss)"

lemma trace_contexts_nth:
  "i < length mss \<Longrightarrow>
   ac_sequence (trace_contexts tr mss ! i) = tr_next_sequence tr + word_of_nat i \<and>
   ac_event_id (trace_contexts tr mss ! i) =
     tr_trace_id tr @ ''-evt-'' @ show_u64 (tr_next_sequence tr + word_of_nat i) \<and>
   ac_occurred_at_ms (trace_contexts tr mss ! i) = mss ! i"
proof (induction mss arbitrary: tr i)
  case Nil
  then show ?case by simp
next
  case (Cons ms mss)
  then show ?case
    by (cases i) (auto simp: trace_context_def allocate_sequence_def event_id_for_def ac_simps)
qed

lemma length_trace_contexts [simp]: "length (trace_contexts tr mss) = length mss"
  by (induction mss arbitrary: tr) (auto simp: trace_context_def allocate_sequence_def)

text \<open>
  A new trace numbers its events 1, 2, 3 and so on, and as long as it hands out fewer than
  2 to the 64 events no two of them share an event id.
\<close>

theorem trace_event_ids_distinct:
  assumes "length mss < 2 ^ 64"
  shows "(\<forall>i < length mss. ac_sequence (trace_contexts (audit_trace_new tid sub) mss ! i) =
      1 + word_of_nat i) \<and>
    distinct (map ac_event_id (trace_contexts (audit_trace_new tid sub) mss))"
proof -
  let ?cs = "trace_contexts (audit_trace_new tid sub) mss"
  note nth = trace_contexts_nth [of _ mss "audit_trace_new tid sub"]
  have "ac_event_id (?cs ! i) \<noteq> ac_event_id (?cs ! j)"
    if "i < length mss" "j < length mss" "i \<noteq> j" for i j
  proof -
    have "unat (word_of_nat i :: u64) = i" "unat (word_of_nat j :: u64) = j"
      using that assms by (simp_all add: unat_of_nat)
    then have "(word_of_nat i :: u64) \<noteq> word_of_nat j" using that(3) by metis
    then show ?thesis using that nth by simp
  qed
  then have "distinct (map ac_event_id ?cs)" by (simp add: distinct_conv_nth)
  then show ?thesis using nth by (simp add: audit_trace_new_def)
qed

lemma trace_event_ids_distinct_witness:
  "length [5, 6, 7 :: u64] < 2 ^ 64 \<and>
   distinct (map ac_event_id (trace_contexts (audit_trace_new ''t''
     (action_audit_subject (proposed_confirmed_action ''a'' ''t'' ''u'' ''k''))) [5, 6, 7]))"
  using trace_event_ids_distinct [of "[5, 6, 7]" "''t''"
      "action_audit_subject (proposed_confirmed_action ''a'' ''t'' ''u'' ''k'')"]
  by simp

end
