(* ===== verification/Proposed_Action.thy ===== *)
theory Proposed_Action
  imports Confirmed_Action
begin

text \<open>
  Proposed actions (\<open>domain/proposed_action.rs\<close>) and the execution request built from a
  decision (\<open>action/execution_request.rs\<close>). A draft is published, then withdrawn, superseded or
  decided once; a confirming decision yields the confirmed action the executor works on. The JSON
  payload is opaque here: its type is the parameter \<open>'v\<close>.
\<close>

section \<open>Data\<close>

datatype proposed_action_id = ProposedActionId (proposed_action_str: string)

datatype proposed_action_status = Draft | Published | Superseded | Withdrawn

datatype proposed_action_kind =
    CreateKrProgress | UpdateKrProgress | DeleteKrProgressDryRun | Custom string

datatype risk_severity = SeverityLow | SeverityMedium | SeverityHigh | SeverityCritical

datatype 'v proposed_action_decision = Confirm | EditThenConfirm 'v | Reject

record 'v proposed_action =
  pa_id :: proposed_action_id
  pa_tenant_id :: tenant_id
  pa_actor_user_id :: workspace_user_id
  pa_target_user_id :: "workspace_user_id option"
  pa_owner_user_id :: "workspace_user_id option"
  pa_version :: u64
  pa_status :: proposed_action_status
  pa_kind :: proposed_action_kind
  pa_risk_severity :: risk_severity
  pa_evidence_ids :: "string list"
  pa_suggested_payload :: 'v
  pa_decision :: "'v proposed_action_decision option"

datatype proposed_action_error =
    EmptyEvidence
  | InvalidEvidenceId
  | InvalidVersion u64
  | InvalidStatusForPublish proposed_action_status
  | InvalidStatusForWithdraw proposed_action_status
  | InvalidStatusForSupersede proposed_action_status
  | InvalidStatusForDecision proposed_action_status
  | DecisionAlreadyFinalized

datatype confirmed_execution_decision = ExecConfirm | ExecEditThenConfirm

record 'v confirmed_execution_request =
  cr_confirmed_action :: confirmed_action
  cr_proposed_action_id :: string
  cr_proposed_action_version :: u64
  cr_action_kind :: proposed_action_kind
  cr_target_user_id :: "string option"
  cr_owner_user_id :: "string option"
  cr_evidence_ids :: "string list"
  cr_effective_payload :: 'v
  cr_decision :: confirmed_execution_decision

abbreviation request_action :: "'v confirmed_execution_request \<Rightarrow> confirmed_action" where
  "request_action \<equiv> cr_confirmed_action"

section \<open>Operations\<close>

fun normalize_evidence_loop ::
  "string set \<Rightarrow> string list \<Rightarrow> string list \<Rightarrow> (string list, proposed_action_error) result" where
  "normalize_evidence_loop seen normalized [] = Ok normalized"
| "normalize_evidence_loop seen normalized (raw # raws) =
     (let evidence_id = trim raw in
      if evidence_id = [] then Err InvalidEvidenceId
      else if evidence_id \<notin> seen
      then normalize_evidence_loop (insert evidence_id seen) (normalized @ [evidence_id]) raws
      else normalize_evidence_loop seen normalized raws)"

definition normalize_evidence_ids ::
  "string list \<Rightarrow> (string list, proposed_action_error) result" where
  "normalize_evidence_ids evidence_ids =
     (if evidence_ids = [] then Err EmptyEvidence
      else try_then (normalize_evidence_loop {} [] evidence_ids) (\<lambda>normalized.
        if normalized = [] then Err EmptyEvidence else Ok normalized))"

definition has_valid_evidence_chain :: "string list \<Rightarrow> bool" where
  "has_valid_evidence_chain ids = list_all (\<lambda>i. trim i \<noteq> []) ids"

definition draft_action ::
  "proposed_action_id \<Rightarrow> tenant_id \<Rightarrow> workspace_user_id \<Rightarrow> workspace_user_id option
     \<Rightarrow> workspace_user_id option \<Rightarrow> u64 \<Rightarrow> proposed_action_kind \<Rightarrow> risk_severity
     \<Rightarrow> string list \<Rightarrow> 'v \<Rightarrow> ('v proposed_action, proposed_action_error) result" where
  "draft_action i tenant actor target owner version kind risk evidence_ids payload =
     (if version = 0 then Err (InvalidVersion version)
      else try_then (normalize_evidence_ids evidence_ids) (\<lambda>ids. Ok \<lparr>
        pa_id = i, pa_tenant_id = tenant, pa_actor_user_id = actor, pa_target_user_id = target,
        pa_owner_user_id = owner, pa_version = version, pa_status = Draft, pa_kind = kind,
        pa_risk_severity = risk, pa_evidence_ids = ids, pa_suggested_payload = payload,
        pa_decision = None\<rparr>))"

definition ensure_publishable :: "'v proposed_action \<Rightarrow> (unit, proposed_action_error) result" where
  "ensure_publishable pa =
     (if pa_version pa = 0 then Err (InvalidVersion (pa_version pa))
      else if pa_evidence_ids pa = [] then Err EmptyEvidence
      else if \<not> has_valid_evidence_chain (pa_evidence_ids pa) then Err InvalidEvidenceId
      else if pa_status pa \<noteq> Draft then Err (InvalidStatusForPublish (pa_status pa))
      else Ok ())"

definition ensure_decidable :: "'v proposed_action \<Rightarrow> (unit, proposed_action_error) result" where
  "ensure_decidable pa =
     (if pa_version pa = 0 then Err (InvalidVersion (pa_version pa))
      else if pa_evidence_ids pa = [] then Err EmptyEvidence
      else if \<not> has_valid_evidence_chain (pa_evidence_ids pa) then Err InvalidEvidenceId
      else if pa_status pa \<noteq> Published then Err (InvalidStatusForDecision (pa_status pa))
      else if pa_decision pa \<noteq> None then Err DecisionAlreadyFinalized
      else Ok ())"

definition publish ::
  "'v proposed_action \<Rightarrow> (unit, proposed_action_error) result \<times> 'v proposed_action" where
  "publish pa = try_st (ensure_publishable pa, pa) (\<lambda>_ pa. (Ok (), pa\<lparr>pa_status := Published\<rparr>))"

definition withdraw_action ::
  "'v proposed_action \<Rightarrow> (unit, proposed_action_error) result \<times> 'v proposed_action" where
  "withdraw_action pa =
     (if pa_decision pa \<noteq> None then (Err DecisionAlreadyFinalized, pa)
      else if pa_status pa \<notin> {Draft, Published}
      then (Err (InvalidStatusForWithdraw (pa_status pa)), pa)
      else (Ok (), pa\<lparr>pa_status := Withdrawn\<rparr>))"

definition supersede ::
  "'v proposed_action \<Rightarrow> (unit, proposed_action_error) result \<times> 'v proposed_action" where
  "supersede pa =
     (if pa_decision pa \<noteq> None then (Err DecisionAlreadyFinalized, pa)
      else if pa_status pa \<noteq> Published
      then (Err (InvalidStatusForSupersede (pa_status pa)), pa)
      else (Ok (), pa\<lparr>pa_status := Superseded\<rparr>))"

definition version_chain :: "proposed_action_id \<Rightarrow> u64 \<Rightarrow> string" where
  "version_chain i version = proposed_action_str i @ '':v'' @ show_u64 version"

definition action_id_of :: "proposed_action_id \<Rightarrow> u64 \<Rightarrow> string \<Rightarrow> string" where
  "action_id_of i version decision_kind = ''pa:'' @ version_chain i version @ '':'' @ decision_kind"

definition idempotency_key_of ::
  "tenant_id \<Rightarrow> proposed_action_id \<Rightarrow> u64 \<Rightarrow> string \<Rightarrow> string" where
  "idempotency_key_of tenant i version decision_kind =
     ''tenant:'' @ tenant_str tenant @ '':pa:'' @ version_chain i version @ '':'' @ decision_kind"

definition build_confirmed_action ::
  "'v proposed_action \<Rightarrow> string \<Rightarrow> system_time \<Rightarrow> confirmed_action" where
  "build_confirmed_action pa decision_kind confirmed_at =
     confirm_action (proposed_confirmed_action
       (action_id_of (pa_id pa) (pa_version pa) decision_kind)
       (tenant_str (pa_tenant_id pa)) (user_str (pa_actor_user_id pa))
       (idempotency_key_of (pa_tenant_id pa) (pa_id pa) (pa_version pa) decision_kind))
     confirmed_at"

definition decide ::
  "'v proposed_action \<Rightarrow> 'v proposed_action_decision \<Rightarrow> system_time
     \<Rightarrow> (confirmed_action option, proposed_action_error) result \<times> 'v proposed_action" where
  "decide pa decision confirmed_at =
     try_st (ensure_decidable pa, pa) (\<lambda>_ pa.
       let pa' = pa\<lparr>pa_decision := Some decision\<rparr> in
       (case decision of
          Confirm \<Rightarrow> (Ok (Some (build_confirmed_action pa' ''confirm'' confirmed_at)), pa')
        | EditThenConfirm _ \<Rightarrow>
            (Ok (Some (build_confirmed_action pa' ''edit_then_confirm'' confirmed_at)), pa')
        | Reject \<Rightarrow> (Ok None, pa')))"

lemmas proposed_op_defs = publish_def withdraw_action_def supersede_def decide_def
  ensure_publishable_def ensure_decidable_def

section \<open>Evidence ids\<close>

lemma normalize_loop_correct:
  assumes "seen = set normalized" and "distinct normalized"
  shows "normalize_evidence_loop seen normalized raws =
     (if list_all (\<lambda>r. trim r \<noteq> []) raws
      then Ok (fold (\<lambda>x xs. if x \<in> set xs then xs else xs @ [x]) (map trim raws) normalized)
      else Err InvalidEvidenceId)"
  using assms
proof (induction seen normalized raws rule: normalize_evidence_loop.induct)
  case (2 seen normalized raw raws)
  then show ?case by (auto simp: Let_def)
qed simp

lemma fold_push_props:
  "set (fold (\<lambda>x xs. if x \<in> set xs then xs else xs @ [x]) ys xs) = set xs \<union> set ys \<and>
   (distinct xs \<longrightarrow> distinct (fold (\<lambda>x xs. if x \<in> set xs then xs else xs @ [x]) ys xs))"
  by (induction ys arbitrary: xs) auto

lemma normalize_evidence_ids_eq:
  "normalize_evidence_ids raws =
     (if raws = [] then Err EmptyEvidence
      else if list_all (\<lambda>r. trim r \<noteq> []) raws
      then Ok (fold (\<lambda>x xs. if x \<in> set xs then xs else xs @ [x]) (map trim raws) [])
      else Err InvalidEvidenceId)"
proof -
  have "fold (\<lambda>x xs. if x \<in> set xs then xs else xs @ [x]) (map trim raws) [] \<noteq> []" if "raws \<noteq> []"
    using fold_push_props [of "map trim raws" "[]"] that by (metis (no_types) Un_empty_left
        image_is_empty list.set(1) list.set_map set_empty)
  then show ?thesis
    using normalize_loop_correct [of "{}" "[]" raws] by (auto simp: normalize_evidence_ids_def)
qed

lemma normalize_evidence_ids_OkD:
  assumes "normalize_evidence_ids raws = Ok ids"
  shows "ids \<noteq> [] \<and> distinct ids \<and> set ids = trim ` set raws \<and> [] \<notin> set ids \<and>
    has_valid_evidence_chain ids"
proof -
  have raws: "raws \<noteq> []" "\<forall>r \<in> set raws. trim r \<noteq> []"
    and ids: "ids = fold (\<lambda>x xs. if x \<in> set xs then xs else xs @ [x]) (map trim raws) []"
    using assms by (auto simp: normalize_evidence_ids_eq list_all_iff split: if_splits)
  have set: "set ids = trim ` set raws" and "distinct ids"
    using fold_push_props [of "map trim raws" "[]"] ids by auto
  moreover have "ids \<noteq> []" using raws(1) set by auto
  ultimately show ?thesis
    using raws(2) unfolding has_valid_evidence_chain_def list_all_iff by auto
qed

text \<open>
  Normalising evidence ids fails exactly on an empty list or a blank id; otherwise the
  result holds the trimmed ids, each once, and none of them is blank.
\<close>

theorem normalize_evidence_ids_correct:
  "case normalize_evidence_ids raws of
     Inl e \<Rightarrow> raws = [] \<and> e = EmptyEvidence \<or> [] \<in> trim ` set raws \<and> e = InvalidEvidenceId
   | Inr ids \<Rightarrow> ids \<noteq> [] \<and> distinct ids \<and> set ids = trim ` set raws \<and> [] \<notin> set ids"
proof (cases "normalize_evidence_ids raws")
  case (Inl e)
  then show ?thesis
    by (auto simp: normalize_evidence_ids_eq list_all_iff image_iff split: if_splits) metis
next
  case (Inr ids)
  with normalize_evidence_ids_OkD [OF Inr] show ?thesis
    by (simp only: sum.case) blast
qed

section \<open>The life cycle\<close>

inductive proposed_step :: "'v proposed_action \<Rightarrow> 'v proposed_action \<Rightarrow> bool" where
  publish: "publish pa = (r, pa') \<Longrightarrow> proposed_step pa pa'"
| withdraw: "withdraw_action pa = (r, pa') \<Longrightarrow> proposed_step pa pa'"
| supersede: "supersede pa = (r, pa') \<Longrightarrow> proposed_step pa pa'"
| decide: "decide pa d at = (q, pa') \<Longrightarrow> proposed_step pa pa'"

inductive_cases proposed_stepE: "proposed_step pa pa'"

definition proposed_wf :: "'v proposed_action \<Rightarrow> bool" where
  "proposed_wf pa \<longleftrightarrow> pa_version pa \<noteq> 0 \<and> pa_evidence_ids pa \<noteq> [] \<and>
     distinct (pa_evidence_ids pa) \<and> has_valid_evidence_chain (pa_evidence_ids pa) \<and>
     (pa_decision pa \<noteq> None \<longrightarrow> pa_status pa = Published)"

lemma draft_action_wf:
  "draft_action i t a tg ow v k rs ev p = Ok pa \<Longrightarrow> proposed_wf pa \<and> pa_status pa = Draft"
  by (auto simp: draft_action_def proposed_wf_def try_then_Ok_iff split: if_splits
      dest: normalize_evidence_ids_OkD)

lemma proposed_step_wf [oar_inv]: "proposed_step pa pa' \<Longrightarrow> proposed_wf pa \<Longrightarrow> proposed_wf pa'"
  by (auto elim!: proposed_stepE simp: proposed_op_defs proposed_wf_def Let_def
      split: if_splits proposed_action_decision.splits)

lemma decided_step:
  "proposed_step pa pa' \<Longrightarrow> proposed_wf pa \<Longrightarrow> pa_decision pa \<noteq> None \<Longrightarrow> pa' = pa"
  by (auto elim!: proposed_stepE simp: proposed_op_defs proposed_wf_def split: if_splits)

lemma decided_steps:
  assumes "proposed_step\<^sup>*\<^sup>* pa pa'" and "proposed_wf pa" and "pa_decision pa \<noteq> None"
  shows "pa' = pa"
  using assms by (induction rule: rtranclp_induct) (auto dest: decided_step)

lemma decide_OkD:
  assumes "decide pa d at = (Ok c, pa')"
  shows "pa_decision pa = None \<and> pa_status pa = Published \<and> pa' = pa\<lparr>pa_decision := Some d\<rparr> \<and>
    c = (case d of
        Confirm \<Rightarrow> Some (build_confirmed_action pa ''confirm'' at)
      | EditThenConfirm _ \<Rightarrow> Some (build_confirmed_action pa ''edit_then_confirm'' at)
      | Reject \<Rightarrow> None)"
  using assms
  by (auto simp: decide_def ensure_decidable_def Let_def build_confirmed_action_def
      split: if_splits proposed_action_decision.splits)

text \<open>
  A decision is final: after a well-formed proposal has been decided, no further sequence of
  publish, withdraw, supersede and decide calls changes it, and every further decision is refused.
\<close>

theorem decision_is_final:
  assumes "proposed_wf pa" and "decide pa d at = (Ok c, pa')" and "proposed_step\<^sup>*\<^sup>* pa' pa''"
  shows "pa'' = pa' \<and> pa_decision pa'' = Some d \<and>
    decide pa'' d' at' = (Err DecisionAlreadyFinalized, pa'')"
proof -
  from assms(1,2) have wf: "proposed_wf pa'" using proposed_step_wf proposed_step.decide by blast
  from decide_OkD [OF assms(2)] have dec: "pa_decision pa' = Some d" by simp
  with decided_steps [OF assms(3) wf] have "pa'' = pa'" by simp
  moreover have "decide pa' d' at' = (Err DecisionAlreadyFinalized, pa')"
    using wf dec by (auto simp: decide_def ensure_decidable_def proposed_wf_def)
  ultimately show ?thesis using dec by simp
qed

definition sample_proposal :: "nat proposed_action" where
  "sample_proposal = \<lparr>pa_id = ProposedActionId ''p1'', pa_tenant_id = TenantId ''t1'',
     pa_actor_user_id = WorkspaceUserId ''u1'', pa_target_user_id = None, pa_owner_user_id = None,
     pa_version = 1, pa_status = Published, pa_kind = UpdateKrProgress,
     pa_risk_severity = SeverityHigh, pa_evidence_ids = [''e1''], pa_suggested_payload = 0,
     pa_decision = None\<rparr>"

lemma trim_e1: "trim ''e1'' = ''e1''"
  by (rule trim_ascii) (simp_all add: is_whitespace_def)

lemma decision_is_final_witness:
  "proposed_wf sample_proposal \<and>
   (\<exists>c pa'. decide sample_proposal Confirm 9 = (Ok c, pa') \<and>
      decide pa' Reject 10 = (Err DecisionAlreadyFinalized, pa'))"
proof -
  have wf: "proposed_wf sample_proposal"
    by (simp add: proposed_wf_def sample_proposal_def has_valid_evidence_chain_def trim_e1)
  have "\<exists>c pa'. decide sample_proposal Confirm 9 = (Ok c, pa')"
    by (simp add: decide_def ensure_decidable_def sample_proposal_def has_valid_evidence_chain_def
        trim_e1 Let_def)
  then obtain c pa' where "decide sample_proposal Confirm 9 = (Ok c, pa')" by blast
  with decision_is_final [OF wf this rtranclp.rtrancl_refl] wf show ?thesis by blast
qed

text \<open>
  A decision that confirms yields a confirmed action of the same tenant and the same acting
  user, stamped with the given time; a rejection yields none.
\<close>

theorem decide_confirmed_action:
  assumes "decide pa d at = (Ok c, pa')"
  shows "(c = None \<longleftrightarrow> d = Reject) \<and>
    (\<forall>a. c = Some a \<longrightarrow> ca_status a = Confirmed \<and> ca_confirmed_at a = Some at \<and>
       ca_tenant_id a = tenant_str (pa_tenant_id pa) \<and>
       ca_actor_user_id a = user_str (pa_actor_user_id pa))"
  using decide_OkD [OF assms]
  by (auto simp: build_confirmed_action_def confirm_action_def proposed_confirmed_action_def
      split: proposed_action_decision.splits)

lemma decide_confirmed_action_witness:
  "\<exists>a pa'. decide sample_proposal Confirm 9 = (Ok (Some a), pa') \<and> ca_tenant_id a = ''t1''"
proof -
  let ?a = "build_confirmed_action sample_proposal ''confirm'' 9"
  have "decide sample_proposal Confirm 9 =
      (Ok (Some ?a), sample_proposal\<lparr>pa_decision := Some Confirm\<rparr>)"
    by (simp add: decide_def ensure_decidable_def sample_proposal_def has_valid_evidence_chain_def
        trim_e1 Let_def build_confirmed_action_def)
  with decide_confirmed_action [OF this] show ?thesis by (simp add: sample_proposal_def)
qed

section \<open>Idempotency keys\<close>

lemma split_first_sep:
  assumes "x @ c # y = x' @ c # y'" and "c \<notin> set x" and "c \<notin> set x'"
  shows "x = x' \<and> y = y'"
proof -
  have "takeWhile (\<lambda>d. d \<noteq> c) (x @ c # y) = x" and "takeWhile (\<lambda>d. d \<noteq> c) (x' @ c # y') = x'"
    using assms(2,3) by (auto simp: takeWhile_append)
  with assms(1) show ?thesis by simp
qed

lemma split_last_sep:
  assumes "x @ c # y = x' @ c # y'" and "c \<notin> set y" and "c \<notin> set y'"
  shows "x = x' \<and> y = y'"
proof -
  have "rev y @ c # rev x = rev y' @ c # rev x'" using arg_cong [OF assms(1), of rev] by simp
  from split_first_sep [OF this] assms(2,3) show ?thesis by simp
qed

lemma show_u64_no_colon: "CHR '':'' \<notin> set (show_u64 n)"
proof (rule show_u64_no_char)
  have "(of_char (CHR '':'') :: nat) = 58" by simp
  moreover have "(of_char (digit_char d) :: nat) \<noteq> 58" if "d < 10" for d
    using that by (simp add: of_char_digit_char)
  ultimately show "CHR '':'' \<notin> digit_char ` {..<10}"
    by (metis imageE lessThan_iff)
qed

lemma version_chain_inject:
  "version_chain i v = version_chain i' v' \<longleftrightarrow> i = i' \<and> v = v'"
proof
  assume "version_chain i v = version_chain i' v'"
  then have "proposed_action_str i @ CHR '':'' # ''v'' @ show_u64 v =
      proposed_action_str i' @ CHR '':'' # ''v'' @ show_u64 v'"
    by (simp add: version_chain_def)
  from split_last_sep [OF this] show_u64_no_colon show "i = i' \<and> v = v'"
    by (cases i; cases i') auto
qed simp



end
