(* ===== verification/Security.thy ===== *)
theory Security
  imports OAR_Prelude
begin

text \<open>
  Redaction (\<open>security.rs\<close>, \<open>action/safety.rs\<close>, \<open>domain/token_refresh/sanitize.rs\<close>): the
  detector of credential markers and the sanitisers every error text passes before it reaches
  the ledger, the audit trail or a report. The lemmas bound the length and the alphabet of what
  leaves a sanitiser and show that no text with a credential marker does.
\<close>

section \<open>Definitions\<close>

definition GENERIC_SENSITIVE_SEGMENTS :: "string list" where
  "GENERIC_SENSITIVE_SEGMENTS =
    [''token'', ''secret'', ''password'', ''cookie'', ''oauth'', ''credential'']"

definition DIRECT_SENSITIVE_MARKERS :: "string list" where
  "DIRECT_SENSITIVE_MARKERS =
    [''access token'', ''access_token'', ''accesstoken'', ''refresh token'', ''refresh_token'',
     ''refreshtoken'', ''authorization:'', ''authorization code'', ''authorization_code'',
     ''authorizationcode'', ''auth code'', ''auth_code'', ''bearer '', ''client_secret'',
     ''oauth_grant'', ''stdout'', ''stderr'']"

definition contains_sensitive_marker :: "string \<Rightarrow> bool" where
  "contains_sensitive_marker input = (let lowered = to_ascii_lowercase input in
     if list_ex (\<lambda>needle. str_contains lowered needle) DIRECT_SENSITIVE_MARKERS then True
     else list_ex (\<lambda>segment. segment \<in> set GENERIC_SENSITIVE_SEGMENTS)
            (filter (\<lambda>segment. segment \<noteq> [])
              (split_on (\<lambda>ch. \<not> is_ascii_alphanumeric ch) lowered)))"

definition SAFE_ADAPTER_ERROR_MESSAGE :: string where
  "SAFE_ADAPTER_ERROR_MESSAGE = ''adapter execution failed''"

definition FALLBACK_ADAPTER_ERROR_CODE :: string where
  "FALLBACK_ADAPTER_ERROR_CODE = ''adapter_error''"

definition MAX_SAFE_ERROR_MESSAGE_CHARS :: nat where
  "MAX_SAFE_ERROR_MESSAGE_CHARS = 240"

definition MAX_ERROR_CODE_CHARS :: nat where
  "MAX_ERROR_CODE_CHARS = 64"

definition sanitize_adapter_error_message :: "string \<Rightarrow> string" where
  "sanitize_adapter_error_message message = (let trimmed = trim message in
     if trimmed = [] \<or> contains_sensitive_marker trimmed then SAFE_ADAPTER_ERROR_MESSAGE
     else let normalized = concat (take MAX_SAFE_ERROR_MESSAGE_CHARS
                (map (\<lambda>c. if is_control c then '' '' else c) (chars trimmed))) in
       if trim normalized = [] \<or> contains_sensitive_marker normalized
       then SAFE_ADAPTER_ERROR_MESSAGE else normalized)"

definition error_code_char :: "string \<Rightarrow> bool" where
  "error_code_char g = (case g of
      [c] \<Rightarrow> is_ascii_alphanumeric c \<or> c = CHR ''_'' \<or> c = CHR ''-'' \<or> c = CHR ''.''
    | _ \<Rightarrow> False)"

definition sanitize_adapter_error_code :: "string \<Rightarrow> string" where
  "sanitize_adapter_error_code code = (let trimmed = trim code in
     if trimmed = [] then FALLBACK_ADAPTER_ERROR_CODE
     else let normalized = concat (take MAX_ERROR_CODE_CHARS
                (map (\<lambda>c. if error_code_char c then c else ''_'') (chars trimmed))) in
       if normalized = [] then FALLBACK_ADAPTER_ERROR_CODE else normalized)"

definition REDACTED_REFRESH_ERROR :: string where
  "REDACTED_REFRESH_ERROR = ''<redacted refresh error>''"

definition sanitize_refresh_error_for_report :: "string \<Rightarrow> string" where
  "sanitize_refresh_error_for_report reason = (let r = trim reason in
     if r = ''invalid_grant'' then ''invalid_grant''
     else if r = ''refresh_config_required'' then ''refresh_config_required''
     else if r = ''temporarily unavailable'' then ''temporarily unavailable''
     else if r = ''auth_refresh_parse_failed'' then ''auth_refresh_parse_failed''
     else if r = ''auth_refresh_oversized_response'' then ''auth_refresh_oversized_response''
     else REDACTED_REFRESH_ERROR)"

text \<open>The texts the report sanitiser can produce.\<close>

definition refresh_error_reports :: "string list" where
  "refresh_error_reports =
    [''invalid_grant'', ''refresh_config_required'', ''temporarily unavailable'',
     ''auth_refresh_parse_failed'', ''auth_refresh_oversized_response'', REDACTED_REFRESH_ERROR]"

lemmas security_consts = GENERIC_SENSITIVE_SEGMENTS_def DIRECT_SENSITIVE_MARKERS_def
  SAFE_ADAPTER_ERROR_MESSAGE_def FALLBACK_ADAPTER_ERROR_CODE_def
  MAX_SAFE_ERROR_MESSAGE_CHARS_def MAX_ERROR_CODE_CHARS_def REDACTED_REFRESH_ERROR_def

section \<open>The adapter error message\<close>

lemma safe_adapter_error_message_clean:
  "\<not> contains_sensitive_marker SAFE_ADAPTER_ERROR_MESSAGE"
  by code_simp

lemma sanitize_message_cases:
  "sanitize_adapter_error_message m = SAFE_ADAPTER_ERROR_MESSAGE \<or>
   (\<not> contains_sensitive_marker (sanitize_adapter_error_message m) \<and>
    trim (sanitize_adapter_error_message m) \<noteq> [] \<and>
    sanitize_adapter_error_message m = concat (take MAX_SAFE_ERROR_MESSAGE_CHARS
                (map (\<lambda>c. if is_control c then '' '' else c) (chars (trim m)))))"
  by (auto simp: sanitize_adapter_error_message_def Let_def)

lemma char_group_space [simp]: "char_group '' ''"
  by (simp add: char_group_def)

lemma not_cont_space [simp]: "\<not> is_cont (CHR '' '')"
  by (simp add: is_cont_def)

lemma char_groups_map_if:
  assumes "char_groups gs" and "char_group r" and "\<not> is_cont (hd r)"
  shows "char_groups (map (\<lambda>g. if P g then r else g) gs)"
  using assms by (cases gs) (auto simp: char_groups_def list_all_iff)

lemma chars_normalized_message:
  "chars (concat (take n (map (\<lambda>c. if is_control c then '' '' else c) (chars s)))) =
   take n (map (\<lambda>c. if is_control c then '' '' else c) (chars s))"
  by (intro chars_concat char_groups_take char_groups_map_if) auto

lemma not_control_space [simp]: "\<not> is_control '' ''"
  by (simp add: is_control_def)

lemma safe_message_chars:
  "chars SAFE_ADAPTER_ERROR_MESSAGE = map (\<lambda>c. [c]) SAFE_ADAPTER_ERROR_MESSAGE"
  by code_simp

lemma safe_message_shape:
  "length (chars SAFE_ADAPTER_ERROR_MESSAGE) \<le> MAX_SAFE_ERROR_MESSAGE_CHARS \<and>
   list_all (\<lambda>c. \<not> is_control c) (chars SAFE_ADAPTER_ERROR_MESSAGE) \<and>
   SAFE_ADAPTER_ERROR_MESSAGE \<noteq> []"
  by code_simp

text \<open>
  Whatever text an adapter reports, the message that is stored carries no credential
  marker, has at most 240 characters, holds no control character and is not empty.
\<close>

theorem sanitize_adapter_error_message_safe:
  "\<not> contains_sensitive_marker (sanitize_adapter_error_message m) \<and>
   length (chars (sanitize_adapter_error_message m)) \<le> MAX_SAFE_ERROR_MESSAGE_CHARS \<and>
   list_all (\<lambda>c. \<not> is_control c) (chars (sanitize_adapter_error_message m)) \<and>
   sanitize_adapter_error_message m \<noteq> []"
proof (cases "sanitize_adapter_error_message m = SAFE_ADAPTER_ERROR_MESSAGE")
  case True
  then show ?thesis
    using safe_message_shape safe_adapter_error_message_clean by simp
next
  case False
  define gs where "gs = take MAX_SAFE_ERROR_MESSAGE_CHARS
    (map (\<lambda>c. if is_control c then '' '' else c) (chars (trim m)))"
  from False sanitize_message_cases [of m]
  have clean: "\<not> contains_sensitive_marker (sanitize_adapter_error_message m)"
    and nonempty: "trim (sanitize_adapter_error_message m) \<noteq> []"
    and eq: "sanitize_adapter_error_message m = concat gs"
    by (auto simp: gs_def)
  have chars_eq: "chars (sanitize_adapter_error_message m) = gs"
    unfolding eq gs_def by (rule chars_normalized_message)
  have "list_all (\<lambda>c. \<not> is_control c) gs" and "length gs \<le> MAX_SAFE_ERROR_MESSAGE_CHARS"
    by (auto simp: gs_def list_all_iff dest!: in_set_takeD)
  with clean nonempty chars_eq show ?thesis
    by (auto simp: trim_def)
qed

section \<open>The adapter error code\<close>

lemma error_code_char_iff:
  "error_code_char g \<longleftrightarrow> (\<exists>c. g = [c] \<and>
     (is_ascii_alphanumeric c \<or> c \<in> set ''_-.''))"
  by (auto simp: error_code_char_def split: list.splits)

lemma concat_singletons_length: "list_all (\<lambda>g. length g = 1) gs \<Longrightarrow> length (concat gs) = length gs"
  by (induction gs) auto

text \<open>
  A sanitised error code is a non-empty text of at most 64 bytes over letters, digits,
  underscore, hyphen and full stop.
\<close>

theorem sanitize_adapter_error_code_alphabet:
  "list_all (\<lambda>c. is_ascii_alphanumeric c \<or> c \<in> set ''_-.'') (sanitize_adapter_error_code code) \<and>
   length (sanitize_adapter_error_code code) \<le> MAX_ERROR_CODE_CHARS \<and>
   sanitize_adapter_error_code code \<noteq> []"
proof -
  define gs where "gs = take MAX_ERROR_CODE_CHARS
    (map (\<lambda>c. if error_code_char c then c else ''_'') (chars (trim code)))"
  have gs: "g \<in> set gs \<Longrightarrow> error_code_char g" for g
    by (auto simp: gs_def error_code_char_def dest!: in_set_takeD split: if_splits)
  then have "list_all (\<lambda>g. length g = 1) gs"
    by (fastforce simp: list_all_iff error_code_char_iff)
  then have len: "length (concat gs) \<le> MAX_ERROR_CODE_CHARS"
    by (subst concat_singletons_length) (auto simp: gs_def)
  have alpha: "list_all (\<lambda>c. is_ascii_alphanumeric c \<or> c \<in> set ''_-.'') (concat gs)"
    using gs by (fastforce simp: list_all_iff error_code_char_iff)
  have fallback:
    "list_all (\<lambda>c. is_ascii_alphanumeric c \<or> c \<in> set ''_-.'') FALLBACK_ADAPTER_ERROR_CODE \<and>
     length FALLBACK_ADAPTER_ERROR_CODE \<le> MAX_ERROR_CODE_CHARS \<and>
     FALLBACK_ADAPTER_ERROR_CODE \<noteq> []"
    by code_simp
  have "sanitize_adapter_error_code code = FALLBACK_ADAPTER_ERROR_CODE \<or>
    (sanitize_adapter_error_code code = concat gs \<and> concat gs \<noteq> [])"
    by (auto simp: sanitize_adapter_error_code_def gs_def Let_def)
  with len alpha fallback show ?thesis by auto
qed

section \<open>The marker detector\<close>

lemma split_on_nonempty: "split_on sep s \<noteq> []"
  by (induction s) (auto split: list.splits)

text \<open>A piece of a split is a maximal run without separators.\<close>

definition is_piece :: "(char \<Rightarrow> bool) \<Rightarrow> string \<Rightarrow> string \<Rightarrow> bool" where
  "is_piece sep s w \<longleftrightarrow> (\<exists>p q. s = p @ w @ q \<and> list_all (\<lambda>c. \<not> sep c) w \<and>
     (p = [] \<or> sep (last p)) \<and> (q = [] \<or> sep (hd q)))"

lemma hd_split_on: "hd (split_on sep s) = takeWhile (\<lambda>c. \<not> sep c) s"
  by (induction s) (auto simp: split_on_nonempty split: list.splits)

lemma tl_split_on_Cons:
  "tl (split_on sep (c # cs)) = (if sep c then split_on sep cs else tl (split_on sep cs))"
  by (auto simp: split_on_nonempty split: list.splits)

lemma takeWhile_iff_piece:
  "w = takeWhile (\<lambda>c. \<not> sep c) s \<longleftrightarrow>
   (\<exists>q. s = w @ q \<and> list_all (\<lambda>c. \<not> sep c) w \<and> (q = [] \<or> sep (hd q)))" (is "?l \<longleftrightarrow> ?r")
proof
  assume ?l
  then have "s = w @ dropWhile (\<lambda>c. \<not> sep c) s" by simp
  moreover have "list_all (\<lambda>c. \<not> sep c) w"
    using \<open>?l\<close> by (auto simp: list_all_iff dest: set_takeWhileD)
  ultimately show ?r using hd_dropWhile [of "\<lambda>c. \<not> sep c" s] by blast
next
  assume ?r
  then obtain q where "s = w @ q" "list_all (\<lambda>c. \<not> sep c) w" "q = [] \<or> sep (hd q)" by blast
  moreover from this have "takeWhile (\<lambda>c. \<not> sep c) (w @ q) = w"
    by (cases q) (auto simp: list_all_iff takeWhile_append takeWhile_eq_all_conv)
  ultimately show ?l by simp
qed

lemma uncons_last:
  "(\<exists>p q. c # cs = p @ w @ q \<and> P w q \<and> p \<noteq> [] \<and> sep (last p)) \<longleftrightarrow>
     (sep c \<and> (\<exists>q. cs = w @ q \<and> P w q)) \<or>
     (\<exists>p q. cs = p @ w @ q \<and> P w q \<and> p \<noteq> [] \<and> sep (last p))" (is "?l \<longleftrightarrow> ?r")
proof
  assume ?l
  then obtain p q where *: "c # cs = p @ w @ q" "P w q" "p \<noteq> []" "sep (last p)" by blast
  then obtain p' where p: "p = c # p'" by (cases p) auto
  show ?r
  proof (cases "p' = []")
    case True
    with * p show ?r by auto
  next
    case False
    with * p have "cs = p' @ w @ q \<and> P w q \<and> p' \<noteq> [] \<and> sep (last p')" by simp
    then show ?r by blast
  qed
next
  assume ?r
  then show ?l
  proof
    assume "sep c \<and> (\<exists>q. cs = w @ q \<and> P w q)"
    then obtain q where "sep c" "cs = w @ q" "P w q" by blast
    then show ?l by (intro exI [of _ "[c]"] exI [of _ q]) auto
  next
    assume "\<exists>p q. cs = p @ w @ q \<and> P w q \<and> p \<noteq> [] \<and> sep (last p)"
    then obtain p q where "cs = p @ w @ q" "P w q" "p \<noteq> []" "sep (last p)" by blast
    then show ?l by (intro exI [of _ "c # p"] exI [of _ q]) auto
  qed
qed

lemma set_tl_split_on:
  "w \<in> set (tl (split_on sep s)) \<longleftrightarrow>
   (\<exists>p q. s = p @ w @ q \<and> list_all (\<lambda>c. \<not> sep c) w \<and> p \<noteq> [] \<and> sep (last p) \<and>
     (q = [] \<or> sep (hd q)))"
proof (induction s)
  case Nil
  show ?case by simp
next
  case (Cons c cs)
  have split: "set (split_on sep cs) =
      insert (takeWhile (\<lambda>c. \<not> sep c) cs) (set (tl (split_on sep cs)))"
    using hd_split_on [of sep cs] split_on_nonempty [of sep cs]
    by (metis list.collapse list.simps(15))
  have uncons: "(\<exists>p q. c # cs = p @ w @ q \<and> P w q \<and> p \<noteq> [] \<and> sep (last p)) \<longleftrightarrow>
      (sep c \<and> (\<exists>q. cs = w @ q \<and> P w q)) \<or>
      (\<exists>p q. cs = p @ w @ q \<and> P w q \<and> p \<noteq> [] \<and> sep (last p))" for P
    by (rule uncons_last)
  show ?case
    using Cons.IH split takeWhile_iff_piece [of w sep cs]
      uncons [of "\<lambda>w q. list_all (\<lambda>c. \<not> sep c) w \<and> (q = [] \<or> sep (hd q))"]
    by (simp only: tl_split_on_Cons split: if_split) blast
qed

lemma set_split_on: "w \<in> set (split_on sep s) \<longleftrightarrow> is_piece sep s w"
proof -
  have "w \<in> set (split_on sep s) \<longleftrightarrow>
      w = takeWhile (\<lambda>c. \<not> sep c) s \<or> w \<in> set (tl (split_on sep s))"
    using hd_split_on [of sep s] split_on_nonempty [of sep s]
    by (metis list.collapse list.set_intros(1,2) set_ConsD)
  also have "\<dots> \<longleftrightarrow> is_piece sep s w"
    unfolding takeWhile_iff_piece set_tl_split_on is_piece_def by blast
  finally show ?thesis .
qed

lemma generic_segments_nonempty: "[] \<notin> set GENERIC_SENSITIVE_SEGMENTS"
  by (simp add: security_consts)

text \<open>
  The detector answers exactly whether the text, read in lower case, contains one of the
  direct markers as a substring, or one of the generic credential words as a whole word, that is
  as a maximal run of letters and digits.
\<close>

theorem contains_sensitive_marker_iff:
  "contains_sensitive_marker s \<longleftrightarrow>
     (\<exists>m \<in> set DIRECT_SENSITIVE_MARKERS. sublist m (to_ascii_lowercase s)) \<or>
     (\<exists>w \<in> set GENERIC_SENSITIVE_SEGMENTS.
        is_piece (\<lambda>ch. \<not> is_ascii_alphanumeric ch) (to_ascii_lowercase s) w)"
  using generic_segments_nonempty
  by (auto simp: contains_sensitive_marker_def Let_def list_ex_iff str_contains_iff_sublist
      set_split_on)

section \<open>The refresh error report\<close>

text \<open>
  A quick test for literals: every marker and every credential word contains one of eleven short
  texts, so a text in lower case without them is clean.
\<close>

definition marker_hints :: "string list" where
  "marker_hints = [''token'', ''secret'', ''password'', ''cookie'', ''oauth'', ''auth code'', ''auth_code'', ''authorization'',
     ''credential'', ''bearer'', ''std'']"

definition plain_alphabet :: string where
  "plain_alphabet = ''abcdefghijklmnopqrstuvwxyz0123456789_ :-.<>''"

definition quiet_text :: "string \<Rightarrow> bool" where
  "quiet_text s \<longleftrightarrow> list_all (\<lambda>c. c \<in> set plain_alphabet) s \<and> list_all (\<lambda>h. \<not> str_contains s h) marker_hints"

lemma plain_lower: "c \<in> set plain_alphabet \<Longrightarrow> ascii_lower c = c"
  by (auto simp: plain_alphabet_def ascii_lower_def)

lemma markers_have_hints:
  "list_all (\<lambda>m. list_ex (str_contains m) marker_hints) (DIRECT_SENSITIVE_MARKERS @ GENERIC_SENSITIVE_SEGMENTS)"
  by (simp add: marker_hints_def security_consts)

lemma quiet_text_clean: "quiet_text s \<Longrightarrow> \<not> contains_sensitive_marker s"
proof
  assume quiet: "quiet_text s" and "contains_sensitive_marker s"
  from quiet have "to_ascii_lowercase s = s"
    by (simp add: quiet_text_def to_ascii_lowercase_def list_all_iff plain_lower map_idI)
  with \<open>contains_sensitive_marker s\<close> obtain m where
    "m \<in> set (DIRECT_SENSITIVE_MARKERS @ GENERIC_SENSITIVE_SEGMENTS)" "sublist m s"
    by (auto simp: contains_sensitive_marker_iff is_piece_def)
  moreover with markers_have_hints obtain h where "h \<in> set marker_hints" "sublist h m"
    by (auto simp only: list_all_iff list_ex_iff str_contains_iff_sublist)
  ultimately show False
    using quiet by (auto simp: quiet_text_def list_all_iff str_contains_iff_sublist dest: sublist_order.order_trans)
qed

lemmas quiet_eval = quiet_text_def marker_hints_def plain_alphabet_def

lemma refresh_error_reports_quiet: "list_all quiet_text refresh_error_reports"
  by (simp add: refresh_error_reports_def REDACTED_REFRESH_ERROR_def quiet_eval)

lemma refresh_error_reports_clean:
  "list_all (\<lambda>s. \<not> contains_sensitive_marker s) refresh_error_reports"
  using refresh_error_reports_quiet by (auto simp only: list_all_iff dest: quiet_text_clean)

lemma sanitize_refresh_error_range:
  "sanitize_refresh_error_for_report r \<in> set refresh_error_reports"
  by (simp add: sanitize_refresh_error_for_report_def refresh_error_reports_def Let_def)

lemma refresh_error_reports_fixed:
  "list_all (\<lambda>s. sanitize_refresh_error_for_report s = s) refresh_error_reports"
  by (simp add: refresh_error_reports_def sanitize_refresh_error_for_report_def security_consts
      trim_ascii is_whitespace_def)

lemma sanitize_refresh_error_idem [simp]:
  "sanitize_refresh_error_for_report (sanitize_refresh_error_for_report r) =
   sanitize_refresh_error_for_report r"
  using refresh_error_reports_fixed sanitize_refresh_error_range [of r]
  by (simp add: list_all_iff)

lemma sanitize_refresh_error_clean:
  "\<not> contains_sensitive_marker (sanitize_refresh_error_for_report r)"
  using refresh_error_reports_clean sanitize_refresh_error_range [of r]
  by (simp add: list_all_iff)

end
