(* ===== verification/Executor.thy ===== *)
theory Executor
  imports Execution_Policy Operation_Ledger Audit_Log Proposed_Action Security
begin

text \<open>
  The action executor (\<open>action/executor/\<close>): submit a confirmed action to the ledger, record its
  confirmation, ask the adapter for a dry run, mark the operation as executing, call the adapter,
  and record the outcome in the ledger and the audit log. The three collaborators are records of
  the methods of their traits, so every theorem holds for any adapter and any clock; the locale
  \<open>executor_client\<close> states what the executor relies on from its two repositories.
\<close>

section \<open>The adapter interface\<close>

record adapter_error =
  aerr_code :: string
  aerr_safe_message :: string

definition adapter_error_from_safe_message :: "string \<Rightarrow> string \<Rightarrow> adapter_error" where
  "adapter_error_from_safe_message code safe_message =
     \<lparr>aerr_code = sanitize_adapter_error_code code,
      aerr_safe_message = sanitize_adapter_error_message safe_message\<rparr>"

record adapter_dry_run =
  dr_before :: "audit_state_summary option"
  dr_after :: "audit_state_summary option"

record adapter_execution =
  ax_adapter_operation_id :: string
  ax_before :: "audit_state_summary option"
  ax_after :: "audit_state_summary option"

record ('v, 'a) adapter_ops =
  ad_dry_run ::
    "'a \<Rightarrow> 'v confirmed_execution_request \<Rightarrow> (adapter_dry_run, adapter_error) result \<times> 'a"
  ad_execute ::
    "'a \<Rightarrow> 'v confirmed_execution_request \<Rightarrow> (adapter_execution, adapter_error) result \<times> 'a"

section \<open>Results\<close>

record execution_report =
  rep_operation :: operation_record
  rep_events :: "audit_event list"
  rep_duplicate :: bool

record policy_denial_report =
  pd_denial :: execution_denied
  pd_events :: "audit_event list"

datatype execution_error =
    LedgerErr ledger_error
  | AdapterErr adapter_error
  | AuditErr audit_repository_error
  | PolicyDenied policy_denial_report

section \<open>Events\<close>

definition confirmed_action_record ::
  "u64 \<Rightarrow> audit_trace \<Rightarrow> confirmed_action \<Rightarrow> audit_event \<times> audit_trace" where
  "confirmed_action_record ms tr action = trace_confirmed_action tr ms
     \<lparr>ss_summary = ''confirmed action '' @ ca_action_id action,
      ss_reference_ids = [ca_idempotency_key action], ss_content_hash = None\<rparr>"

definition dry_run_record ::
  "u64 \<Rightarrow> audit_trace \<Rightarrow> audit_state_summary option \<Rightarrow> audit_state_summary option
     \<Rightarrow> audit_event \<times> audit_trace" where
  "dry_run_record ms tr before after = trace_dry_run tr ms before after"

definition execution_succeeded_record ::
  "u64 \<Rightarrow> audit_trace \<Rightarrow> audit_state_summary option \<Rightarrow> audit_state_summary option \<Rightarrow> string
     \<Rightarrow> audit_event \<times> audit_trace" where
  "execution_succeeded_record ms tr before after adapter_operation_id =
     trace_execution_succeeded tr ms before after adapter_operation_id"

definition execution_failed_record ::
  "u64 \<Rightarrow> audit_trace \<Rightarrow> string \<Rightarrow> string \<Rightarrow> audit_event \<times> audit_trace" where
  "execution_failed_record ms tr error_code message =
     trace_execution_failed tr ms None None error_code message"

definition execution_denied_record ::
  "u64 \<Rightarrow> audit_trace \<Rightarrow> execution_denied \<Rightarrow> audit_event \<times> audit_trace" where
  "execution_denied_record ms tr denial =
     trace_execution_denied tr ms ''policy_denied'' (safe_denial_message denial)"

section \<open>The executor\<close>

record ('l, 'r, 'a, 'c) executor =
  ex_ledger :: 'l
  ex_audit :: 'r
  ex_adapter :: 'a
  ex_clock :: 'c

record ('v, 'l, 'r, 'a, 'c) executor_ops =
  eo_ledger :: "'l ledger_ops"
  eo_audit :: "'r audit_ops"
  eo_adapter :: "('v, 'a) adapter_ops"
  eo_clock :: "'c \<Rightarrow> u64 \<times> 'c"

text \<open>
  The locals of one execution next to the executor itself: the trace, which numbers the events,
  and the events recorded so far.
\<close>

type_synonym ('l, 'r, 'a, 'c) frame =
  "('l, 'r, 'a, 'c) executor \<times> audit_trace \<times> audit_event list"

definition with_repositories :: "'a \<Rightarrow> 'c \<Rightarrow> 'l \<Rightarrow> 'r \<Rightarrow> ('l, 'r, 'a, 'c) executor" where
  "with_repositories adapter clock ledger audit =
     \<lparr>ex_ledger = ledger, ex_audit = audit, ex_adapter = adapter, ex_clock = clock\<rparr>"

definition executor_with_clock ::
  "'a \<Rightarrow> 'c
     \<Rightarrow> (in_memory_ledger_repository, in_memory_audit_repository, 'a, 'c) executor" where
  "executor_with_clock adapter clock =
     with_repositories adapter clock in_memory_ledger_new in_memory_audit_new"

definition executor_now_ms ::
  "('v, 'l, 'r, 'a, 'c) executor_ops \<Rightarrow> ('l, 'r, 'a, 'c) executor
     \<Rightarrow> u64 \<times> ('l, 'r, 'a, 'c) executor" where
  "executor_now_ms E x = (case eo_clock E (ex_clock x) of (ms, c) \<Rightarrow> (ms, x\<lparr>ex_clock := c\<rparr>))"

definition record_event ::
  "('v, 'l, 'r, 'a, 'c) executor_ops \<Rightarrow> audit_event \<Rightarrow> ('l, 'r, 'a, 'c) frame
     \<Rightarrow> (unit, execution_error) result \<times> ('l, 'r, 'a, 'c) frame" where
  "record_event E event fr = (case fr of (x, tr, evs) \<Rightarrow>
     (case ao_append (eo_audit E) (ex_audit x) event of (r, au) \<Rightarrow>
        try_st (map_err AuditErr r, (x\<lparr>ex_audit := au\<rparr>, tr, evs)) (\<lambda>_ (x, tr, evs).
          (Ok (), (x, tr, evs @ [event])))))"

definition record_confirmed ::
  "('v, 'l, 'r, 'a, 'c) executor_ops \<Rightarrow> confirmed_action \<Rightarrow> ('l, 'r, 'a, 'c) frame
     \<Rightarrow> (unit, execution_error) result \<times> ('l, 'r, 'a, 'c) frame" where
  "record_confirmed E action fr = (case fr of (x, tr, evs) \<Rightarrow>
     (let (ms, x) = executor_now_ms E x;
          (event, tr) = confirmed_action_record ms tr action
      in record_event E event (x, tr, evs)))"

definition record_dry_run ::
  "('v, 'l, 'r, 'a, 'c) executor_ops \<Rightarrow> 'v confirmed_execution_request \<Rightarrow> ('l, 'r, 'a, 'c) frame
     \<Rightarrow> (unit, execution_error) result \<times> ('l, 'r, 'a, 'c) frame" where
  "record_dry_run E request fr = (case fr of (x, tr, evs) \<Rightarrow>
     (case ad_dry_run (eo_adapter E) (ex_adapter x) request of (r, ad) \<Rightarrow>
        try_st (map_err AdapterErr r, (x\<lparr>ex_adapter := ad\<rparr>, tr, evs)) (\<lambda>dry_run (x, tr, evs).
          let (ms, x) = executor_now_ms E x;
              (event, tr) = dry_run_record ms tr (dr_before dry_run) (dr_after dry_run)
          in record_event E event (x, tr, evs))))"

text \<open>A call of one of the ledger's marking operations, \<open>self.ledger.mark(...)?\<close>.\<close>

definition ledger_call ::
  "('l \<Rightarrow> (operation_record, ledger_error) result \<times> 'l) \<Rightarrow> ('l, 'r, 'a, 'c) frame
     \<Rightarrow> (operation_record, execution_error) result \<times> ('l, 'r, 'a, 'c) frame" where
  "ledger_call f fr = (case fr of (x, tr, evs) \<Rightarrow>
     (case f (ex_ledger x) of (r, lg) \<Rightarrow> (map_err LedgerErr r, (x\<lparr>ex_ledger := lg\<rparr>, tr, evs))))"

definition record_outcome ::
  "('v, 'l, 'r, 'a, 'c) executor_ops \<Rightarrow> string \<Rightarrow> (adapter_execution, adapter_error) result
     \<Rightarrow> ('l, 'r, 'a, 'c) frame
     \<Rightarrow> (operation_record, execution_error) result \<times> ('l, 'r, 'a, 'c) frame" where
  "record_outcome E key execute_result fr = (case execute_result of
      Inr execution \<Rightarrow>
        try_st (ledger_call (\<lambda>lg. lo_mark_succeeded (eo_ledger E) lg key) fr)
          (\<lambda>record (x, tr, evs).
            let (ms, x) = executor_now_ms E x;
                (event, tr) = execution_succeeded_record ms tr (ax_before execution)
                   (ax_after execution) (ax_adapter_operation_id execution)
            in try_st (record_event E event (x, tr, evs)) (\<lambda>_ fr. (Ok record, fr)))
    | Inl error \<Rightarrow>
        try_st (ledger_call (\<lambda>lg. lo_mark_failed (eo_ledger E) lg key (aerr_safe_message error)) fr)
          (\<lambda>record (x, tr, evs).
            let (ms, x) = executor_now_ms E x;
                (event, tr) = execution_failed_record ms tr (aerr_code error)
                   (aerr_safe_message error)
            in try_st (record_event E event (x, tr, evs)) (\<lambda>_ fr. (Ok record, fr))))"

definition run_from_submitted ::
  "('v, 'l, 'r, 'a, 'c) executor_ops \<Rightarrow> ('l, 'r, 'a, 'c) executor
     \<Rightarrow> 'v confirmed_execution_request \<Rightarrow> operation_record
     \<Rightarrow> (execution_report, execution_error) result \<times> ('l, 'r, 'a, 'c) executor" where
  "run_from_submitted E x request submitted =
     (let action = request_action request;
          key = ca_idempotency_key action;
          prepared =
            (if op_status submitted = Confirmed
             then try_st (record_confirmed E action (x, action_audit_trace action, [])) (\<lambda>_ fr.
                  try_st (record_dry_run E request fr) (\<lambda>_ fr.
                  try_st (ledger_call (\<lambda>lg. lo_mark_executing (eo_ledger E) lg key) fr) (\<lambda>_ fr.
                    (Ok (), fr))))
             else (Ok (), (x, action_audit_trace action, [])));
          outcome = try_st prepared (\<lambda>_ (x, tr, evs).
            case ad_execute (eo_adapter E) (ex_adapter x) request of (execute_result, ad) \<Rightarrow>
              record_outcome E key execute_result (x\<lparr>ex_adapter := ad\<rparr>, tr, evs))
      in case outcome of (r, (x, tr, evs)) \<Rightarrow>
           (try_then r (\<lambda>operation.
              Ok \<lparr>rep_operation = operation, rep_events = evs, rep_duplicate = False\<rparr>), x))"

definition duplicate_report :: "operation_record \<Rightarrow> execution_report" where
  "duplicate_report operation =
     \<lparr>rep_operation = operation, rep_events = [], rep_duplicate = True\<rparr>"

definition execute_confirmed_request ::
  "('v, 'l, 'r, 'a, 'c) executor_ops \<Rightarrow> ('l, 'r, 'a, 'c) executor
     \<Rightarrow> 'v confirmed_execution_request
     \<Rightarrow> (execution_report, execution_error) result \<times> ('l, 'r, 'a, 'c) executor" where
  "execute_confirmed_request E x request =
     (case lo_submit (eo_ledger E) (ex_ledger x) (request_action request) of (r, lg) \<Rightarrow>
        try_st (map_err LedgerErr r, x\<lparr>ex_ledger := lg\<rparr>) (\<lambda>submitted x.
          case submitted of
            Created created \<Rightarrow> run_from_submitted E x request created
          | Existing existing \<Rightarrow>
              (if is_terminal_status (op_status existing) then (Ok (duplicate_report existing), x)
               else if op_status existing = Executing then (Ok (duplicate_report existing), x)
               else run_from_submitted E x request existing)))"

definition execute_confirmed_request_with_policy ::
  "('v, 'l, 'r, 'a, 'c) executor_ops \<Rightarrow> ('l, 'r, 'a, 'c) executor
     \<Rightarrow> 'v confirmed_execution_request \<Rightarrow> string \<Rightarrow> string \<Rightarrow> action_actor_binding \<Rightarrow> token_grant
     \<Rightarrow> execution_policy
     \<Rightarrow> (execution_report, execution_error) result \<times> ('l, 'r, 'a, 'c) executor" where
  "execute_confirmed_request_with_policy E x request action_type required_scope binding grant policy =
     (let action = request_action request in
      case policy_evaluate policy action action_type required_scope grant binding of
        Inl denial \<Rightarrow>
          (let (ms, x) = executor_now_ms E x;
               (event, _) = execution_denied_record ms (action_audit_trace action) denial
           in case ao_append (eo_audit E) (ex_audit x) event of (r, au) \<Rightarrow>
                try_st (map_err AuditErr r, x\<lparr>ex_audit := au\<rparr>) (\<lambda>_ x.
                  (Err (PolicyDenied \<lparr>pd_denial = denial, pd_events = [event]\<rparr>), x)))
      | Inr _ \<Rightarrow> execute_confirmed_request E x request)"

section \<open>The adapter seen from outside\<close>

text \<open>
  Any adapter can be wrapped so that it remembers the calls it received. The wrapper changes no
  result, so what holds of the remembered calls holds of the calls the plain adapter receives.
\<close>

datatype 'v adapter_call =
  DryRunCall "'v confirmed_execution_request" | ExecuteCall "'v confirmed_execution_request"

definition logged_adapter ::
  "('v, 'a) adapter_ops \<Rightarrow> ('v, 'a \<times> 'v adapter_call list) adapter_ops" where
  "logged_adapter Ad = \<lparr>
     ad_dry_run = (\<lambda>(a, calls) q.
       case ad_dry_run Ad a q of (r, a') \<Rightarrow> (r, (a', calls @ [DryRunCall q]))),
     ad_execute = (\<lambda>(a, calls) q.
       case ad_execute Ad a q of (r, a') \<Rightarrow> (r, (a', calls @ [ExecuteCall q])))\<rparr>"

abbreviation ex_calls :: "('l, 'r, 'a \<times> 'v adapter_call list, 'c) executor \<Rightarrow> 'v adapter_call list" where
  "ex_calls x \<equiv> snd (ex_adapter x)"

abbreviation request_key :: "'v confirmed_execution_request \<Rightarrow> string" where
  "request_key q \<equiv> ca_idempotency_key (request_action q)"

lemmas executor_defs = record_event_def record_confirmed_def record_dry_run_def ledger_call_def
  record_outcome_def executor_now_ms_def Let_def

lemma logged_adapter_calls [simp]:
  "snd (snd (ad_dry_run (logged_adapter Ad) a q)) = snd a @ [DryRunCall q]"
  "snd (snd (ad_execute (logged_adapter Ad) a q)) = snd a @ [ExecuteCall q]"
  by (simp_all add: logged_adapter_def split: prod.splits)

section \<open>Which part of the executor each piece touches\<close>

lemma record_event_frame [simp]:
  "ex_ledger (fst (snd (record_event E ev fr))) = ex_ledger (fst fr)"
  "ex_adapter (fst (snd (record_event E ev fr))) = ex_adapter (fst fr)"
  by (auto simp: record_event_def split: prod.splits try_st_split)

lemma record_confirmed_frame [simp]:
  "ex_ledger (fst (snd (record_confirmed E action fr))) = ex_ledger (fst fr)"
  "ex_adapter (fst (snd (record_confirmed E action fr))) = ex_adapter (fst fr)"
  by (auto simp: record_confirmed_def executor_now_ms_def split: prod.splits)

lemma record_dry_run_frame [simp]:
  "ex_ledger (fst (snd (record_dry_run E q fr))) = ex_ledger (fst fr)"
  "ex_adapter (fst (snd (record_dry_run E q fr))) =
     snd (ad_dry_run (eo_adapter E) (ex_adapter (fst fr)) q)"
  by (auto simp: record_dry_run_def executor_now_ms_def split: prod.splits try_st_split)

lemma ledger_call_frame [simp]:
  "ex_ledger (fst (snd (ledger_call f fr))) = snd (f (ex_ledger (fst fr)))"
  "ex_adapter (fst (snd (ledger_call f fr))) = ex_adapter (fst fr)"
  "ex_audit (fst (snd (ledger_call f fr))) = ex_audit (fst fr)"
  "fst (ledger_call f fr) = map_err LedgerErr (fst (f (ex_ledger (fst fr))))"
  by (auto simp: ledger_call_def split: prod.splits)

text \<open>The marking call that an outcome of the adapter leads to.\<close>

definition outcome_mark ::
  "'l ledger_ops \<Rightarrow> string \<Rightarrow> (adapter_execution, adapter_error) result \<Rightarrow> 'l
     \<Rightarrow> (operation_record, ledger_error) result \<times> 'l" where
  "outcome_mark L key res lg = (case res of
      Inr _ \<Rightarrow> lo_mark_succeeded L lg key
    | Inl error \<Rightarrow> lo_mark_failed L lg key (aerr_safe_message error))"

lemma snd_try_st_return [simp]: "snd (try_st r (\<lambda>_ s. (Ok v, s))) = snd r"
  by (cases r; cases "fst r") simp_all

lemma executor_now_ms_frame [simp]:
  "ex_ledger (snd (executor_now_ms E x)) = ex_ledger x"
  "ex_audit (snd (executor_now_ms E x)) = ex_audit x"
  "ex_adapter (snd (executor_now_ms E x)) = ex_adapter x"
  by (simp_all add: executor_now_ms_def split: prod.split)

lemma ledger_call_eq:
  "ledger_call f (x, tr, evs) =
     (map_err LedgerErr (fst (f (ex_ledger x))), (x\<lparr>ex_ledger := snd (f (ex_ledger x))\<rparr>, tr, evs))"
  by (simp add: ledger_call_def split: prod.split)

lemma record_outcome_frame [simp]:
  "ex_ledger (fst (snd (record_outcome E key res fr))) =
     snd (outcome_mark (eo_ledger E) key res (ex_ledger (fst fr)))"
  "ex_adapter (fst (snd (record_outcome E key res fr))) = ex_adapter (fst fr)"
proof -
  obtain x tr evs where fr: "fr = (x, tr, evs)" by (cases fr)
  let ?m = "fst (outcome_mark (eo_ledger E) key res (ex_ledger x))"
  show "ex_ledger (fst (snd (record_outcome E key res fr))) =
        snd (outcome_mark (eo_ledger E) key res (ex_ledger (fst fr)))"
    and "ex_adapter (fst (snd (record_outcome E key res fr))) = ex_adapter (fst fr)"
    unfolding record_outcome_def fr
    by (cases res; cases ?m; simp add: outcome_mark_def ledger_call_eq Let_def case_prod_beta)+
qed

text \<open>
  The ways an execution of a record that is still \<open>Confirmed\<close> can go: it stops before the
  ledger is touched, it cannot mark the operation as executing, or it calls the adapter.
\<close>

lemma run_from_submitted_cases [consumes 2, case_names stopped not_marked executed]:
  assumes "run_from_submitted E x q sub = (r, x')" and "op_status sub = Confirmed"
  obtains
    "\<exists>e. r = Err e" and "ex_ledger x' = ex_ledger x"
      and "ex_adapter x' \<in> {ex_adapter x, snd (ad_dry_run (eo_adapter E) (ex_adapter x) q)}"
  | e where "lo_mark_executing (eo_ledger E) (ex_ledger x) (request_key q) = (Err e, ex_ledger x')"
      and "r = Err (LedgerErr e)"
      and "ex_adapter x' = snd (ad_dry_run (eo_adapter E) (ex_adapter x) q)"
  | rec lg res ad where
      "lo_mark_executing (eo_ledger E) (ex_ledger x) (request_key q) = (Ok rec, lg)"
      and "ad_execute (eo_adapter E) (snd (ad_dry_run (eo_adapter E) (ex_adapter x) q)) q =
        (res, ad)"
      and "ex_adapter x' = ad"
      and "ex_ledger x' = snd (outcome_mark (eo_ledger E) (request_key q) res lg)"
proof -
  let ?fr = "(x, action_audit_trace (request_action q), [])"
  obtain r1 x1 t1 v1 where 1: "record_confirmed E (request_action q) ?fr = (r1, (x1, t1, v1))"
    by (metis prod.exhaust)
  obtain r2 x2 t2 v2 where 2: "record_dry_run E q (x1, t1, v1) = (r2, (x2, t2, v2))"
    by (metis prod.exhaust)
  obtain r3 lg where 3: "lo_mark_executing (eo_ledger E) (ex_ledger x2) (request_key q) = (r3, lg)"
    by (metis prod.exhaust)
  obtain res ad where 4: "ad_execute (eo_adapter E) (ex_adapter x2) q = (res, ad)"
    by (metis prod.exhaust)
  let ?x3 = "x2\<lparr>ex_ledger := lg, ex_adapter := ad\<rparr>"
  obtain r5 x5 t5 v5 where
    5: "record_outcome E (request_key q) res (?x3, t2, v2) = (r5, (x5, t5, v5))"
    by (metis prod.exhaust)
  have f1: "ex_ledger x1 = ex_ledger x" "ex_adapter x1 = ex_adapter x"
    using record_confirmed_frame [of E "request_action q" ?fr] 1 by simp_all
  have f2: "ex_ledger x2 = ex_ledger x"
    "ex_adapter x2 = snd (ad_dry_run (eo_adapter E) (ex_adapter x) q)"
    using record_dry_run_frame [of E q "(x1, t1, v1)"] 2 f1 by simp_all
  have f5: "ex_ledger x5 = snd (outcome_mark (eo_ledger E) (request_key q) res lg)"
    "ex_adapter x5 = ad"
    using record_outcome_frame [of E "request_key q" res "(?x3, t2, v2)"] 5 by simp_all
  note run = assms(1) [unfolded run_from_submitted_def Let_def]
  show thesis
  proof (cases r1)
    case (Inl e)
    with run assms(2) 1 f1 show thesis by (intro that(1)) auto
  next
    case r1: (Inr u)
    show thesis
    proof (cases r2)
      case (Inl e)
      with run assms(2) 1 r1 2 f2 show thesis by (intro that(1)) auto
    next
      case r2: (Inr u')
      show thesis
      proof (cases r3)
        case (Inl e)
        with run assms(2) 1 r1 2 r2 3 f2 show thesis
          by (intro that(2)) (auto simp: ledger_call_eq)
      next
        case (Inr rec)
        with run assms(2) 1 r1 2 r2 3 4 5 f2 f5 show thesis
          by (intro that(3) [of rec lg res ad]) (auto simp: ledger_call_eq)
      qed
    qed
  qed
qed

text \<open>The one way an execution of a \<open>Confirmed\<close> record can return a report.\<close>

lemma run_from_submitted_OkE [consumes 2, case_names run]:
  assumes "run_from_submitted E x q sub = (Ok rep, x')" and "op_status sub = Confirmed"
  obtains x1 t1 v1 x2 t2 v2 rec lg res ad rec' t3 v3 where
    "record_confirmed E (request_action q) (x, action_audit_trace (request_action q), []) =
       (Ok (), (x1, t1, v1))"
    and "record_dry_run E q (x1, t1, v1) = (Ok (), (x2, t2, v2))"
    and "lo_mark_executing (eo_ledger E) (ex_ledger x2) (request_key q) = (Ok rec, lg)"
    and "ad_execute (eo_adapter E) (ex_adapter x2) q = (res, ad)"
    and "record_outcome E (request_key q) res (x2\<lparr>ex_ledger := lg, ex_adapter := ad\<rparr>, t2, v2) =
       (Ok rec', (x', t3, v3))"
    and "rep = \<lparr>rep_operation = rec', rep_events = v3, rep_duplicate = False\<rparr>"
proof -
  let ?a = "request_action q" and ?fr = "(x, action_audit_trace (request_action q), [])"
  obtain r1 x1 t1 v1 where 1: "record_confirmed E ?a ?fr = (r1, (x1, t1, v1))"
    by (metis prod.exhaust)
  obtain r2 x2 t2 v2 where 2: "record_dry_run E q (x1, t1, v1) = (r2, (x2, t2, v2))"
    by (metis prod.exhaust)
  obtain r3 lg where 3: "lo_mark_executing (eo_ledger E) (ex_ledger x2) (request_key q) = (r3, lg)"
    by (metis prod.exhaust)
  obtain res ad where 4: "ad_execute (eo_adapter E) (ex_adapter x2) q = (res, ad)"
    by (metis prod.exhaust)
  obtain r5 x5 t5 v5 where
    5: "record_outcome E (request_key q) res (x2\<lparr>ex_ledger := lg, ex_adapter := ad\<rparr>, t2, v2) =
      (r5, (x5, t5, v5))"
    by (metis prod.exhaust)
  note run = assms(1) [unfolded run_from_submitted_def Let_def if_P [OF assms(2)] 1]
  show thesis
  proof (cases r1)
    case r1: (Inr u)
    show thesis
    proof (cases r2)
      case r2: (Inr u')
      show thesis
      proof (cases r3)
        case r3: (Inr rec)
        show thesis
        proof (cases r5)
          case (Inr rec')
          with run 1 2 3 4 5 r1 r2 r3 show thesis by (intro that) (auto simp: ledger_call_eq)
        qed (use run 2 3 4 5 r1 r2 r3 in \<open>simp add: ledger_call_eq\<close>)
      qed (use run 2 3 r1 r2 in \<open>simp add: ledger_call_eq\<close>)
    qed (use run 2 r1 in simp)
  qed (use run in simp)
qed

section \<open>Sequences of requests\<close>

datatype 'v executor_call =
    PlainCall "'v confirmed_execution_request"
  | PolicyCall "'v confirmed_execution_request" string string action_actor_binding token_grant
      execution_policy

fun executor_apply ::
  "('v, 'l, 'r, 'a, 'c) executor_ops \<Rightarrow> ('l, 'r, 'a, 'c) executor \<Rightarrow> 'v executor_call
     \<Rightarrow> (execution_report, execution_error) result \<times> ('l, 'r, 'a, 'c) executor" where
  "executor_apply E x (PlainCall q) = execute_confirmed_request E x q"
| "executor_apply E x (PolicyCall q ty scope b g p) =
     execute_confirmed_request_with_policy E x q ty scope b g p"

fun executor_run ::
  "('v, 'l, 'r, 'a, 'c) executor_ops \<Rightarrow> ('l, 'r, 'a, 'c) executor \<Rightarrow> 'v executor_call list
     \<Rightarrow> ('l, 'r, 'a, 'c) executor" where
  "executor_run E x [] = x"
| "executor_run E x (c # cs) = executor_run E (snd (executor_apply E x c)) cs"

fun call_request :: "'v executor_call \<Rightarrow> 'v confirmed_execution_request" where
  "call_request (PlainCall q) = q"
| "call_request (PolicyCall q _ _ _ _ _) = q"

fun call_permitted :: "'v executor_call \<Rightarrow> bool" where
  "call_permitted (PlainCall q) = True"
| "call_permitted (PolicyCall q ty scope b g p) =
     execution_permitted p (request_action q) ty scope g b"

definition executed_keys :: "'v adapter_call list \<Rightarrow> string list" where
  "executed_keys calls = concat (map (\<lambda>c. case c of
     DryRunCall _ \<Rightarrow> [] | ExecuteCall q \<Rightarrow> [request_key q]) calls)"

lemma executed_keys_simps [simp]:
  "executed_keys [] = []"
  "executed_keys (DryRunCall q # cs) = executed_keys cs"
  "executed_keys (ExecuteCall q # cs) = request_key q # executed_keys cs"
  "executed_keys (cs @ ds) = executed_keys cs @ executed_keys ds"
  by (simp_all add: executed_keys_def)

text \<open>An operation is past the point of no return once its record left \<open>Confirmed\<close>.\<close>

definition past_confirmed :: "(string \<rightharpoonup> operation_record) \<Rightarrow> string \<Rightarrow> bool" where
  "past_confirmed v k \<longleftrightarrow> (\<exists>rec. v k = Some rec \<and> op_status rec \<in> {Executing, Succeeded, Failed})"

lemma mark_spec_past_confirmed:
  assumes "mark_spec v key to err r v'" and "to \<in> {Executing, Succeeded, Failed}"
    and "past_confirmed v k"
  shows "past_confirmed v' k"
  using assms by (cases r) (auto simp: mark_spec_def past_confirmed_def)

lemma submit_spec_past_confirmed:
  assumes "submit_spec v a r v'" and "past_confirmed v k"
  shows "past_confirmed v' k"
  using assms
  by (cases r) (auto simp: submit_spec_def past_confirmed_def split: submit_result.splits)

text \<open>
  What the executor needs from its ledger beyond the ledger's own contract: a record has one of
  the four statuses that a ledger produces.
\<close>

locale executor_client = ledger_contract L view invar room
  for L :: "'l ledger_ops" and view invar room +
  assumes status_law: "invar l \<Longrightarrow> view l key = Some rec \<Longrightarrow>
      op_status rec \<in> {Confirmed, Executing, Succeeded, Failed}"
begin

lemma outcome_mark_law:
  assumes "invar l"
  shows "invar (snd (outcome_mark L key res l)) \<and> room (snd (outcome_mark L key res l)) = room l \<and>
    (past_confirmed (view l) k \<longrightarrow> past_confirmed (view (snd (outcome_mark L key res l))) k)"
proof (cases res)
  case (Inl error)
  obtain s l' where "lo_mark_failed L l key (aerr_safe_message error) = (s, l')" by fastforce
  with failed_law [OF assms this] Inl show ?thesis
    by (auto simp: outcome_mark_def dest: mark_spec_past_confirmed)
next
  case (Inr execution)
  obtain s l' where "lo_mark_succeeded L l key = (s, l')" by fastforce
  with succeeded_law [OF assms this] Inr show ?thesis
    by (auto simp: outcome_mark_def dest: mark_spec_past_confirmed)
qed

text \<open>Running a confirmed record: the adapter sees a dry run first, and an execution only after
  the record has been marked as executing.\<close>

lemma run_law:
  assumes "run_from_submitted E x q sub = (r, x')" and "op_status sub = Confirmed"
    and "eo_ledger E = L" and "eo_adapter E = logged_adapter Ad" and "invar (ex_ledger x)"
  shows "invar (ex_ledger x') \<and> room (ex_ledger x') = room (ex_ledger x) \<and>
    (\<forall>k. past_confirmed (view (ex_ledger x)) k \<longrightarrow> past_confirmed (view (ex_ledger x')) k) \<and>
    (\<exists>new. ex_calls x' = ex_calls x @ new \<and>
       (new = [] \<or> new = [DryRunCall q] \<or>
        new = [DryRunCall q, ExecuteCall q] \<and> past_confirmed (view (ex_ledger x')) (request_key q)))"
  using assms(1,2)
proof (cases rule: run_from_submitted_cases)
  case stopped
  with assms(3-) show ?thesis by auto
next
  case (not_marked e)
  with assms(3-) executing_law [of "ex_ledger x" "request_key q" "Err e" "ex_ledger x'"] show ?thesis
    by (auto simp: mark_spec_def)
next
  case (executed rec lg res ad)
  with assms(3) have mark: "lo_mark_executing L (ex_ledger x) (request_key q) = (Ok rec, lg)" by simp
  note law = executing_law [OF assms(5) mark]
  have "past_confirmed (view lg) (request_key q)"
    using law by (auto simp: mark_spec_def past_confirmed_def)
  moreover have "past_confirmed (view lg) k" if "past_confirmed (view (ex_ledger x)) k" for k
    using law that by (auto intro: mark_spec_past_confirmed)
  moreover have "ex_calls x' = ex_calls x @ [DryRunCall q, ExecuteCall q]"
    using executed(3) assms(4) logged_adapter_calls(2) [of Ad _ q, folded assms(4)] executed(2)
    by (metis append.assoc append_Cons append_Nil logged_adapter_calls(1) snd_conv)
  ultimately show ?thesis
    using law outcome_mark_law [of lg "request_key q" res] executed(4) assms(3) by auto
qed

lemma execute_law:
  assumes "execute_confirmed_request E x q = (r, x')"
    and "eo_ledger E = L" and "eo_adapter E = logged_adapter Ad"
    and "invar (ex_ledger x)" and "0 < room (ex_ledger x)"
  shows "invar (ex_ledger x') \<and> room (ex_ledger x) \<le> Suc (room (ex_ledger x')) \<and>
    (\<forall>k. past_confirmed (view (ex_ledger x)) k \<longrightarrow> past_confirmed (view (ex_ledger x')) k) \<and>
    (\<exists>new. ex_calls x' = ex_calls x @ new \<and>
       (new = [] \<or> new = [DryRunCall q] \<or>
        new = [DryRunCall q, ExecuteCall q] \<and>
        \<not> past_confirmed (view (ex_ledger x)) (request_key q) \<and>
        past_confirmed (view (ex_ledger x')) (request_key q)))"
proof -
  obtain rs lg where sub: "lo_submit L (ex_ledger x) (request_action q) = (rs, lg)" by fastforce
  note law = submit_law [OF assms(4,5) sub]
  have mono: "past_confirmed (view lg) k" if "past_confirmed (view (ex_ledger x)) k" for k
    using law that by (auto intro: submit_spec_past_confirmed)
  have finished: ?thesis if "x' = x\<lparr>ex_ledger := lg\<rparr>"
    using that law mono by auto
  have running: ?thesis if "run_from_submitted E (x\<lparr>ex_ledger := lg\<rparr>) q rec = (r, x')"
    and "op_status rec = Confirmed" and "\<not> past_confirmed (view (ex_ledger x)) (request_key q)" for rec
    using run_law [OF that(1,2) assms(2,3)] law mono that(3) by auto
  show ?thesis
  proof (cases rs)
    case (Inl e)
    with assms(1,2) sub show ?thesis
      by (intro finished) (simp add: execute_confirmed_request_def)
  next
    case (Inr s)
    show ?thesis
    proof (cases s)
      case (Created rec)
      with law Inr have "op_status rec = Confirmed" "view (ex_ledger x) (request_key q) = None"
        by (auto simp: submit_spec_def)
      with assms(1,2) sub Inr Created show ?thesis
        by (intro running [of rec]) (simp_all add: execute_confirmed_request_def past_confirmed_def)
    next
      case (Existing rec)
      with law Inr have rec: "view (ex_ledger x) (request_key q) = Some rec"
        by (auto simp: submit_spec_def)
      show ?thesis
      proof (cases "op_status rec = Confirmed")
        case True
        with rec assms(1,2) sub Inr Existing show ?thesis
          by (intro running [of rec]) (simp_all add: execute_confirmed_request_def past_confirmed_def)
      next
        case False
        with status_law [OF assms(4) rec] assms(1,2) sub Inr Existing show ?thesis
          by (intro finished) (auto simp: execute_confirmed_request_def)
      qed
    qed
  qed
qed

lemma denied_law:
  assumes "execute_confirmed_request_with_policy E x q ty scope b g p = (r, x')"
    and "\<not> execution_permitted p (request_action q) ty scope g b"
  shows "ex_ledger x' = ex_ledger x \<and> ex_adapter x' = ex_adapter x"
proof -
  from assms(2) obtain d where "policy_evaluate p (request_action q) ty scope g b = Inl d"
    using policy_evaluate_cases policy_evaluate_Ok_iff by blast
  with assms(1) show ?thesis
    by (auto simp: execute_confirmed_request_with_policy_def executor_now_ms_def Let_def try_st_def
        split: prod.splits sum.splits)
qed

lemma apply_law:
  assumes "executor_apply E x c = (r, x')"
    and "eo_ledger E = L" and "eo_adapter E = logged_adapter Ad"
    and "invar (ex_ledger x)" and "0 < room (ex_ledger x)"
  shows "invar (ex_ledger x') \<and> room (ex_ledger x) \<le> Suc (room (ex_ledger x')) \<and>
    (\<forall>k. past_confirmed (view (ex_ledger x)) k \<longrightarrow> past_confirmed (view (ex_ledger x')) k) \<and>
    (\<exists>new. ex_calls x' = ex_calls x @ new \<and>
       (new = [] \<or> call_permitted c \<and>
         (new = [DryRunCall (call_request c)] \<or>
          new = [DryRunCall (call_request c), ExecuteCall (call_request c)] \<and>
          \<not> past_confirmed (view (ex_ledger x)) (request_key (call_request c)) \<and>
          past_confirmed (view (ex_ledger x')) (request_key (call_request c)))))"
proof (cases "call_permitted c")
  case True
  have "execute_confirmed_request E x (call_request c) = (r, x')"
    using assms(1) True
    by (cases c) (auto simp: execute_confirmed_request_with_policy_def
        policy_evaluate_Ok_iff [symmetric])
  from execute_law [OF this assms(2-)] True show ?thesis by auto
next
  case False
  then obtain q ty scope b g p where c: "c = PolicyCall q ty scope b g p" by (cases c) auto
  with denied_law [of E x q ty scope b g p] assms False show ?thesis by auto
qed

text \<open>The invariant of a run: no key was executed twice, and every executed key is past the
  point of no return in the ledger.\<close>

definition at_most_once :: "('l, 'r, 'a \<times> 'v adapter_call list, 'c) executor \<Rightarrow> bool" where
  "at_most_once x \<longleftrightarrow> distinct (executed_keys (ex_calls x)) \<and>
     (\<forall>k \<in> set (executed_keys (ex_calls x)). past_confirmed (view (ex_ledger x)) k)"

lemma run_at_most_once:
  assumes "eo_ledger E = L" and "eo_adapter E = logged_adapter Ad"
    and "invar (ex_ledger x)" and "length cs \<le> room (ex_ledger x)" and "at_most_once x"
  shows "at_most_once (executor_run E x cs) \<and>
    (\<forall>q. ExecuteCall q \<in> set (ex_calls (executor_run E x cs)) \<longrightarrow>
       ExecuteCall q \<in> set (ex_calls x) \<or> (\<exists>c \<in> set cs. call_request c = q \<and> call_permitted c))"
  using assms(3-)
proof (induction cs arbitrary: x)
  case Nil
  then show ?case by simp
next
  case (Cons c cs)
  obtain r x' where step: "executor_apply E x c = (r, x')" by fastforce
  have pos: "0 < room (ex_ledger x)" using Cons.prems(2) by simp
  note law = apply_law [OF step assms(1,2) Cons.prems(1) pos]
  have "at_most_once x'" using law Cons.prems(3) by (auto simp: at_most_once_def)
  moreover have "length cs \<le> room (ex_ledger x')" using law Cons.prems(2) by auto
  ultimately have IH: "at_most_once (executor_run E x' cs) \<and>
    (\<forall>q. ExecuteCall q \<in> set (ex_calls (executor_run E x' cs)) \<longrightarrow>
       ExecuteCall q \<in> set (ex_calls x') \<or> (\<exists>c \<in> set cs. call_request c = q \<and> call_permitted c))"
    using Cons.IH law by blast
  moreover have "ExecuteCall q \<in> set (ex_calls x') \<Longrightarrow>
      ExecuteCall q \<in> set (ex_calls x) \<or> call_request c = q \<and> call_permitted c" for q
    using law by auto
  ultimately show ?case using step by auto
qed

end

lemma im_status_law:
  assumes "im_invar m" and "im_view m key = Some rec"
  shows "op_status rec \<in> {Confirmed, Executing, Succeeded, Failed}"
proof -
  from assms(2) have "record_by_idempotency_key (im_ledger m) key = Some rec"
    by (auto simp: im_view_def split: if_splits)
  with assms(1) have "ol_records (im_ledger m) (op_operation_id rec) = Some rec"
    by (auto simp: im_invar_def intro: view_recordD)
  with assms(1) show ?thesis using ledger_wf_recordD(4) by (auto simp: im_invar_def)
qed

interpretation im_executor: executor_client in_memory_ledger_ops im_view im_invar im_room
  by unfold_locales (rule im_status_law)

section \<open>What a report says\<close>

text \<open>The event that records the outcome of an operation.\<close>

definition outcome_type :: "operation_record \<Rightarrow> audit_event_type" where
  "outcome_type rec = (if op_status rec = Succeeded then ExecutionSucceeded else ExecutionFailed)"

locale executor_audit = executor_client L view invar room + audit_contract A log
  for L :: "'l ledger_ops" and view invar room and A :: "'r audit_ops" and log
begin

lemma record_event_OkD:
  assumes "record_event E ev (x, tr, evs) = (Ok u, (x', tr', evs'))" and "eo_audit E = A"
  shows "log (ex_audit x') = log (ex_audit x) @ [ev] \<and> tr' = tr \<and> evs' = evs @ [ev]"
proof -
  obtain r au where "ao_append A (ex_audit x) ev = (r, au)" by fastforce
  with assms append_law [OF this] show ?thesis
    by (cases r) (auto simp: record_event_def)
qed

lemma record_confirmed_OkD:
  assumes "record_confirmed E a (x, tr, evs) = (Ok u, (x', tr', evs'))" and "eo_audit E = A"
  shows "\<exists>ev. log (ex_audit x') = log (ex_audit x) @ [ev] \<and> evs' = evs @ [ev] \<and>
    tr' = tr\<lparr>tr_next_sequence := tr_next_sequence tr + 1\<rparr> \<and>
    ae_event_type ev = ConfirmedActionRecorded \<and> ae_sequence ev = tr_next_sequence tr \<and>
    ae_trace_id ev = tr_trace_id tr"
  using assms
  by (auto simp: record_confirmed_def Let_def case_prod_beta confirmed_action_record_def trace_defs
      dest!: record_event_OkD)

lemma record_dry_run_OkD:
  assumes "record_dry_run E q (x, tr, evs) = (Ok u, (x', tr', evs'))" and "eo_audit E = A"
  shows "\<exists>ev. log (ex_audit x') = log (ex_audit x) @ [ev] \<and> evs' = evs @ [ev] \<and>
    tr' = tr\<lparr>tr_next_sequence := tr_next_sequence tr + 1\<rparr> \<and>
    ae_event_type ev = DryRunExecuted \<and> ae_sequence ev = tr_next_sequence tr \<and>
    ae_trace_id ev = tr_trace_id tr"
proof -
  obtain r ad where "ad_dry_run (eo_adapter E) (ex_adapter x) q = (r, ad)" by fastforce
  with assms show ?thesis
    by (cases r) (auto simp: record_dry_run_def Let_def case_prod_beta dry_run_record_def trace_defs
        dest!: record_event_OkD)
qed

lemma record_outcome_OkD:
  assumes "record_outcome E key res (x, tr, evs) = (Ok rec, (x', tr', evs'))"
    and "eo_audit E = A" and "eo_ledger E = L" and "invar (ex_ledger x)"
  shows "view (ex_ledger x') key = Some rec \<and> op_status rec \<in> {Succeeded, Failed} \<and>
    (\<exists>ev. log (ex_audit x') = log (ex_audit x) @ [ev] \<and> evs' = evs @ [ev] \<and>
      ae_event_type ev = outcome_type rec \<and> ae_sequence ev = tr_next_sequence tr \<and>
      ae_trace_id ev = tr_trace_id tr)"
proof (cases res)
  case (Inl error)
  let ?m = "lo_mark_failed L (ex_ledger x) key (aerr_safe_message error)"
  obtain r lg where m: "?m = (r, lg)" by fastforce
  have led: "ex_ledger x' = lg"
    using record_outcome_frame(1) [of E key res "(x, tr, evs)"] unfolding assms(1,3)
    by (simp add: outcome_mark_def Inl m)
  from assms(1) m Inl assms(3) have "r = Ok rec"
    by (cases r) (auto simp: record_outcome_def ledger_call_eq Let_def case_prod_beta
        elim!: try_st_OkE)
  with m failed_law [OF assms(4) m] led have "view (ex_ledger x') key = Some rec \<and> op_status rec = Failed"
    by (auto simp: mark_spec_def)
  moreover from this assms m \<open>r = Ok rec\<close> Inl show ?thesis
    by (auto simp: record_outcome_def ledger_call_eq Let_def case_prod_beta outcome_type_def
        execution_failed_record_def trace_defs elim!: try_st_OkE dest!: record_event_OkD)
next
  case (Inr execution)
  let ?m = "lo_mark_succeeded L (ex_ledger x) key"
  obtain r lg where m: "?m = (r, lg)" by fastforce
  have led: "ex_ledger x' = lg"
    using record_outcome_frame(1) [of E key res "(x, tr, evs)"] unfolding assms(1,3)
    by (simp add: outcome_mark_def Inr m)
  from assms(1) m Inr assms(3) have "r = Ok rec"
    by (cases r) (auto simp: record_outcome_def ledger_call_eq Let_def case_prod_beta
        elim!: try_st_OkE)
  with m succeeded_law [OF assms(4) m] led
  have "view (ex_ledger x') key = Some rec \<and> op_status rec = Succeeded"
    by (auto simp: mark_spec_def)
  moreover from this assms m \<open>r = Ok rec\<close> Inr show ?thesis
    by (auto simp: record_outcome_def ledger_call_eq Let_def case_prod_beta outcome_type_def
        execution_succeeded_record_def trace_defs elim!: try_st_OkE dest!: record_event_OkD)
qed

text \<open>The complete record that a finished, non-duplicate execution leaves.\<close>

definition report_recorded ::
  "('l, 'r, 'a, 'c) executor \<Rightarrow> confirmed_action \<Rightarrow> execution_report
     \<Rightarrow> ('l, 'r, 'a, 'c) executor \<Rightarrow> bool" where
  "report_recorded x a rep x' \<longleftrightarrow>
     view (ex_ledger x') (ca_idempotency_key a) = Some (rep_operation rep) \<and>
     op_status (rep_operation rep) \<in> {Succeeded, Failed} \<and>
     log (ex_audit x') = log (ex_audit x) @ rep_events rep \<and>
     map ae_event_type (rep_events rep) =
       [ConfirmedActionRecorded, DryRunExecuted, outcome_type (rep_operation rep)] \<and>
     map ae_sequence (rep_events rep) = [1, 2, 3] \<and>
     (\<forall>ev \<in> set (rep_events rep). ae_trace_id ev = action_trace_id a)"

lemma run_OkD:
  assumes "run_from_submitted E x q sub = (Ok rep, x')" and "op_status sub = Confirmed"
    and "eo_audit E = A" and "eo_ledger E = L" and "invar (ex_ledger x)"
  shows "\<not> rep_duplicate rep \<and> report_recorded x (request_action q) rep x'"
  using assms(1,2)
proof (cases rule: run_from_submitted_OkE)
  case (run x1 t1 v1 x2 t2 v2 rec lg res ad rec' t3 v3)
  note conf = record_confirmed_OkD [OF run(1) assms(3)]
  note dry = record_dry_run_OkD [OF run(2) assms(3)]
  have led: "ex_ledger x2 = ex_ledger x"
    using record_confirmed_frame(1) [of E "request_action q" "(x, action_audit_trace (request_action q), [])"]
      record_dry_run_frame(1) [of E q "(x1, t1, v1)"] unfolding run(1,2) by simp
  with run(3) assms(4) have mark: "lo_mark_executing L (ex_ledger x) (request_key q) = (Ok rec, lg)"
    by simp
  have inv: "invar (ex_ledger (x2\<lparr>ex_ledger := lg, ex_adapter := ad\<rparr>))"
    using executing_law [OF assms(5) mark] by simp
  note out = record_outcome_OkD [OF run(5) assms(3,4) inv]
  show ?thesis
    using conf dry out run(6)
    by (auto simp: report_recorded_def action_audit_trace_def audit_trace_new_def)
qed

lemma execute_OkD:
  assumes "execute_confirmed_request E x q = (Ok rep, x')"
    and "eo_audit E = A" and "eo_ledger E = L" and "invar (ex_ledger x)" and "0 < room (ex_ledger x)"
  shows "if rep_duplicate rep
    then rep_events rep = [] \<and> view (ex_ledger x) (request_key q) = Some (rep_operation rep) \<and>
      op_status (rep_operation rep) \<noteq> Confirmed \<and> view (ex_ledger x') = view (ex_ledger x) \<and>
      ex_audit x' = ex_audit x \<and> ex_adapter x' = ex_adapter x
    else report_recorded x (request_action q) rep x'"
proof -
  obtain rs lg where sub: "lo_submit L (ex_ledger x) (request_action q) = (rs, lg)" by fastforce
  note law = submit_law [OF assms(4,5) sub]
  have run: ?thesis if "run_from_submitted E (x\<lparr>ex_ledger := lg\<rparr>) q rec = (Ok rep, x')"
    and "op_status rec = Confirmed" for rec
    using run_OkD [OF that assms(2,3)] law by (simp add: report_recorded_def)
  show ?thesis
  proof (cases rs)
    case (Inl e)
    with assms(1,3) sub show ?thesis by (simp add: execute_confirmed_request_def)
  next
    case (Inr s)
    show ?thesis
    proof (cases s)
      case (Created rec)
      with law Inr assms(1,3) sub show ?thesis
        by (intro run [of rec]) (simp_all add: execute_confirmed_request_def submit_spec_def)
    next
      case (Existing rec)
      with law Inr have rec: "view (ex_ledger x) (request_key q) = Some rec" "view lg = view (ex_ledger x)"
        by (auto simp: submit_spec_def)
      show ?thesis
      proof (cases "op_status rec = Confirmed")
        case True
        with assms(1,3) sub Inr Existing show ?thesis
          by (intro run [of rec]) (simp_all add: execute_confirmed_request_def)
      next
        case False
        with status_law [OF assms(4) rec(1)] assms(1,3) sub Inr Existing rec show ?thesis
          by (auto simp: execute_confirmed_request_def duplicate_report_def)
      qed
    qed
  qed
qed

end

interpretation im_executor_audit:
  executor_audit in_memory_ledger_ops im_view im_invar im_room in_memory_audit_ops ia_events
  by unfold_locales

section \<open>Reuse of the first event id\<close>

text \<open>
  Every execution numbers its events from 1 again, and the store refuses an id it holds. So once
  the first event id of an action is in the log, a further execution of that action stops at its
  first event.
\<close>

definition first_event_id :: "confirmed_action \<Rightarrow> string" where
  "first_event_id a = action_trace_id a @ ''-evt-1''"

definition holds_event_id :: "in_memory_audit_repository \<Rightarrow> string \<Rightarrow> bool" where
  "holds_event_id m eid \<longleftrightarrow> \<not> ia_poisoned m \<and> eid \<in> ae_event_id ` set (ia_events m)"

lemma show_u64_1: "show_u64 1 = ''1''"
  by code_simp

lemma audit_append_held:
  assumes "holds_event_id m (ae_event_id ev)"
  shows "ao_append in_memory_audit_ops m ev = (Err (DuplicateEventId (ae_event_id ev)), m)"
  using assms
  by (auto simp: in_memory_audit_ops_def audit_append_def holds_event_id_def list_ex_iff)

lemma run_blocked:
  assumes "eo_audit E = in_memory_audit_ops" and "op_status sub = Confirmed"
    and "holds_event_id (ex_audit x) (first_event_id (request_action q))"
  shows "\<exists>c. run_from_submitted E x q sub =
    (Err (AuditErr (DuplicateEventId (first_event_id (request_action q)))), x\<lparr>ex_clock := c\<rparr>)"
proof -
  let ?a = "request_action q"
  obtain ms c where clock: "eo_clock E (ex_clock x) = (ms, c)" by fastforce
  define ev where "ev = fst (confirmed_action_record ms (action_audit_trace ?a) ?a)"
  have ev: "ae_event_id ev = first_event_id ?a"
    by (simp add: ev_def confirmed_action_record_def trace_defs action_audit_trace_def
        audit_trace_new_def first_event_id_def show_u64_1)
  have "ao_append (eo_audit E) (ex_audit x) ev = (Err (DuplicateEventId (first_event_id ?a)), ex_audit x)"
    using audit_append_held [of "ex_audit x" ev] assms(1,3) ev by simp
  then have "record_confirmed E ?a (x, action_audit_trace ?a, []) =
      (Err (AuditErr (DuplicateEventId (first_event_id ?a))),
       (x\<lparr>ex_clock := c\<rparr>, snd (confirmed_action_record ms (action_audit_trace ?a) ?a), []))"
    by (simp add: record_confirmed_def executor_now_ms_def clock record_event_def Let_def
        case_prod_beta ev_def)
  then show ?thesis using assms(2) by (auto simp: run_from_submitted_def Let_def)
qed

lemma execute_blocked:
  assumes "eo_ledger E = in_memory_ledger_ops" and "eo_audit E = in_memory_audit_ops"
    and "im_invar (ex_ledger x)" and "0 < im_room (ex_ledger x)" and "\<not> im_poisoned (ex_ledger x)"
    and "ca_status (request_action q) = Confirmed"
    and "\<not> past_confirmed (im_view (ex_ledger x)) (request_key q)"
    and "holds_event_id (ex_audit x) (first_event_id (request_action q))"
  shows "\<exists>x'. execute_confirmed_request E x q =
      (Err (AuditErr (DuplicateEventId (first_event_id (request_action q)))), x') \<and>
    ex_adapter x' = ex_adapter x \<and> ex_audit x' = ex_audit x"
proof -
  obtain rs lg where sub: "lo_submit in_memory_ledger_ops (ex_ledger x) (request_action q) = (rs, lg)"
    by fastforce
  note law = im_ledger_repo.submit_law [OF assms(3,4) sub]
  obtain s where s: "rs = Ok s"
    using sub assms(5,6)
    by (auto simp: in_memory_ledger_ops_def with_ledger_def submit_cases split: option.splits)
  define rec where "rec = (case s of Created r \<Rightarrow> r | Existing r \<Rightarrow> r)"
  have "op_status rec = Confirmed"
  proof (cases s)
    case (Created r)
    with law s show ?thesis by (simp add: submit_spec_def rec_def)
  next
    case (Existing r)
    with law s have r: "im_view (ex_ledger x) (request_key q) = Some r" by (simp add: submit_spec_def)
    with assms(7) im_executor.status_law [OF assms(3) r] Existing show ?thesis
      by (auto simp: past_confirmed_def rec_def)
  qed
  moreover from this run_blocked [OF assms(2), of rec "x\<lparr>ex_ledger := lg\<rparr>" q] assms(8)
  obtain c where "run_from_submitted E (x\<lparr>ex_ledger := lg\<rparr>) q rec =
    (Err (AuditErr (DuplicateEventId (first_event_id (request_action q)))),
     (x\<lparr>ex_ledger := lg\<rparr>)\<lparr>ex_clock := c\<rparr>)" by auto
  ultimately show ?thesis
    using sub s assms(1)
    by (cases s) (auto simp: execute_confirmed_request_def rec_def)
qed

lemma record_event_holds:
  assumes "record_event E ev (x, tr, evs) = (Ok u, (x', tr', evs'))"
    and "eo_audit E = in_memory_audit_ops"
  shows "holds_event_id (ex_audit x') (ae_event_id ev) \<and> tr' = tr"
  using assms
  by (auto simp: record_event_def in_memory_audit_ops_def audit_append_def holds_event_id_def
      split: if_splits)

lemma record_confirmed_holds:
  assumes "record_confirmed E a (x, action_audit_trace a, evs) = (Ok u, (x', tr', evs'))"
    and "eo_audit E = in_memory_audit_ops"
  shows "holds_event_id (ex_audit x') (first_event_id a)"
  using assms
  by (auto simp: record_confirmed_def Let_def case_prod_beta confirmed_action_record_def trace_defs
      action_audit_trace_def audit_trace_new_def first_event_id_def show_u64_1
      dest!: record_event_holds)

lemma error_kinds:
  "fst (record_event E ev fr) \<noteq> Err (AdapterErr e)"
  "fst (record_confirmed E a fr) \<noteq> Err (AdapterErr e)"
  "fst (ledger_call f fr) \<noteq> Err (AdapterErr e)"
proof -
  show event: "fst (record_event E ev fr) \<noteq> Err (AdapterErr e)" for ev fr
    by (auto simp: record_event_def map_err_def try_st_def split: prod.splits sum.splits)
  show "fst (record_confirmed E a fr) \<noteq> Err (AdapterErr e)"
    by (cases fr) (simp add: record_confirmed_def Let_def case_prod_beta event)
  show "fst (ledger_call f fr) \<noteq> Err (AdapterErr e)"
    by (cases "fst (f (ex_ledger (fst fr)))") simp_all
qed

lemma record_outcome_error_kind: "fst (record_outcome E key res fr) \<noteq> Err (AdapterErr e)"
proof -
  obtain x tr evs where fr: "fr = (x, tr, evs)" by (cases fr)
  let ?m = "fst (outcome_mark (eo_ledger E) key res (ex_ledger x))"
  have ret: "fst (try_st (record_event E ev f) (\<lambda>_ fr. (Ok v, fr))) \<noteq> Err (AdapterErr e)"
    for ev f and v :: operation_record
    using error_kinds(1) [of E ev f e]
    by (cases "record_event E ev f"; cases "fst (record_event E ev f)") auto
  show ?thesis
    unfolding record_outcome_def fr
    by (cases res; cases ?m; simp add: outcome_mark_def ledger_call_eq Let_def case_prod_beta ret)
qed

lemma record_dry_run_AdapterErr:
  assumes "record_dry_run E q (x, tr, evs) = (Err (AdapterErr e), (x', tr', evs'))"
  shows "ex_audit x' = ex_audit x \<and> (\<exists>ad. ad_dry_run (eo_adapter E) (ex_adapter x) q = (Err e, ad))"
proof -
  obtain r ad where "ad_dry_run (eo_adapter E) (ex_adapter x) q = (r, ad)" by fastforce
  with assms show ?thesis
    by (cases r) (auto simp: record_dry_run_def Let_def case_prod_beta
        dest!: arg_cong [where f = fst] simp: error_kinds)
qed

lemma run_AdapterErr:
  assumes "run_from_submitted E x q sub = (Err (AdapterErr e), x')" and "op_status sub = Confirmed"
    and "eo_audit E = in_memory_audit_ops"
  shows "ex_ledger x' = ex_ledger x \<and> holds_event_id (ex_audit x') (first_event_id (request_action q)) \<and>
    (\<exists>ad. ad_dry_run (eo_adapter E) (ex_adapter x) q = (Err e, ad))"
proof -
  let ?a = "request_action q" and ?fr = "(x, action_audit_trace (request_action q), [])"
  obtain r1 x1 t1 v1 where 1: "record_confirmed E ?a ?fr = (r1, (x1, t1, v1))"
    by (metis prod.exhaust)
  obtain r2 x2 t2 v2 where 2: "record_dry_run E q (x1, t1, v1) = (r2, (x2, t2, v2))"
    by (metis prod.exhaust)
  have "r1 \<noteq> Err (AdapterErr e)" using error_kinds(2) [of E ?a ?fr e] 1 by simp
  note run = assms(1) [unfolded run_from_submitted_def Let_def if_P [OF assms(2)] 1]
  from run \<open>r1 \<noteq> _\<close> obtain u where r1: "r1 = Ok u" by (cases r1) auto
  have r2: "r2 = Err (AdapterErr e) \<and> x' = x2"
  proof (cases r2)
    case (Inl e')
    with run r1 2 show ?thesis by simp
  next
    case (Inr u')
    let ?m = "lo_mark_executing (eo_ledger E) (ex_ledger x2) (request_key q)"
    from run r1 2 Inr show ?thesis
      using record_outcome_error_kind [of E "request_key q"]
      by (cases "fst ?m") (auto simp: ledger_call_eq try_then_def split: prod.splits sum.splits
          dest!: arg_cong [where f = fst])
  qed
  have "ex_ledger x' = ex_ledger x" "ex_adapter x1 = ex_adapter x"
    using record_confirmed_frame [of E ?a ?fr] record_dry_run_frame(1) [of E q "(x1, t1, v1)"] r2
    unfolding 1 2 by simp_all
  moreover note record_confirmed_holds [OF 1 [unfolded r1] assms(3)]
  moreover note record_dry_run_AdapterErr [of E q x1 t1 v1 e x2 t2 v2] 2 r2
  ultimately show ?thesis by auto
qed

lemma execute_AdapterErr:
  assumes "execute_confirmed_request E x q = (Err (AdapterErr e), x')"
    and "eo_ledger E = in_memory_ledger_ops" and "eo_audit E = in_memory_audit_ops"
    and "im_invar (ex_ledger x)" and "0 < im_room (ex_ledger x)"
  shows "im_invar (ex_ledger x') \<and> im_room (ex_ledger x) \<le> Suc (im_room (ex_ledger x')) \<and>
    \<not> im_poisoned (ex_ledger x') \<and> ca_status (request_action q) = Confirmed \<and>
    \<not> past_confirmed (im_view (ex_ledger x')) (request_key q) \<and>
    holds_event_id (ex_audit x') (first_event_id (request_action q))"
proof -
  obtain rs lg where sub: "lo_submit in_memory_ledger_ops (ex_ledger x) (request_action q) = (rs, lg)"
    by fastforce
  note law = im_ledger_repo.submit_law [OF assms(4,5) sub]
  from assms(1,2) sub obtain s where s: "rs = Ok s"
    by (cases rs) (auto simp: execute_confirmed_request_def)
  have live: "\<not> im_poisoned lg"
    using sub s by (auto simp: in_memory_ledger_ops_def dest!: with_ledger_cases split: if_splits)
  have run: ?thesis if "run_from_submitted E (x\<lparr>ex_ledger := lg\<rparr>) q rec = (Err (AdapterErr e), x')"
    and "op_status rec = Confirmed" and "im_view lg (request_key q) = Some rec" for rec
    using run_AdapterErr [OF that(1,2) assms(3)] law that(2,3) live s
    by (auto simp: past_confirmed_def submit_spec_def split: submit_result.splits)
  show ?thesis
  proof (cases s)
    case (Created rec)
    with law s assms(1,2) sub show ?thesis
      by (intro run [of rec]) (simp_all add: execute_confirmed_request_def submit_spec_def)
  next
    case (Existing rec)
    with law s have rec: "im_view (ex_ledger x) (request_key q) = Some rec"
      "im_view lg (request_key q) = Some rec" by (auto simp: submit_spec_def)
    from im_executor.status_law [OF assms(4) rec(1)] assms(1,2) sub s Existing
    have "op_status rec = Confirmed" by (auto simp: execute_confirmed_request_def)
    with Existing s assms(1,2) sub rec show ?thesis
      by (intro run [of rec]) (simp_all add: execute_confirmed_request_def)
  qed
qed

lemma denied_cases:
  assumes "policy_evaluate p (request_action q) ty scope g b = Err denial"
    and "eo_audit E = in_memory_audit_ops"
    and "execute_confirmed_request_with_policy E x q ty scope b g p = (r, x')"
  shows "ex_ledger x' = ex_ledger x \<and> ex_adapter x' = ex_adapter x \<and>
    (if ia_poisoned (ex_audit x) \<or> holds_event_id (ex_audit x) (first_event_id (request_action q))
     then (\<exists>e. r = Err (AuditErr e)) \<and> ex_audit x' = ex_audit x
     else \<exists>ev. r = Err (PolicyDenied \<lparr>pd_denial = denial, pd_events = [ev]\<rparr>) \<and>
       ex_audit x' = (ex_audit x)\<lparr>ia_events := ia_events (ex_audit x) @ [ev]\<rparr> \<and>
       ae_event_id ev = first_event_id (request_action q) \<and>
       ae_trace_id ev = action_trace_id (request_action q) \<and> ae_event_type ev = ExecutionDenied)"
proof -
  let ?a = "request_action q"
  obtain ms c where clock: "eo_clock E (ex_clock x) = (ms, c)" by fastforce
  define ev where "ev = fst (execution_denied_record ms (action_audit_trace ?a) denial)"
  have ev: "ae_event_id ev = first_event_id ?a" "ae_trace_id ev = action_trace_id ?a"
    "ae_event_type ev = ExecutionDenied"
    by (simp_all add: ev_def execution_denied_record_def trace_defs action_audit_trace_def
        audit_trace_new_def first_event_id_def show_u64_1)
  have run: "(r, x') = (case audit_append (ex_audit x) ev of (s, au) \<Rightarrow>
      try_st (map_err AuditErr s, x\<lparr>ex_clock := c, ex_audit := au\<rparr>) (\<lambda>_ x.
        (Err (PolicyDenied \<lparr>pd_denial = denial, pd_events = [ev]\<rparr>), x)))"
    using assms
    by (simp add: execute_confirmed_request_with_policy_def executor_now_ms_def clock Let_def
        case_prod_beta ev_def in_memory_audit_ops_def)
  show ?thesis
  proof (cases "ia_poisoned (ex_audit x) \<or> holds_event_id (ex_audit x) (first_event_id ?a)")
    case True
    then have "\<exists>e. audit_append (ex_audit x) ev = (Err e, ex_audit x)"
      using ev(1) by (auto simp: audit_append_def holds_event_id_def list_ex_iff)
    with run True show ?thesis by auto
  next
    case False
    then have "audit_append (ex_audit x) ev =
        (Ok (), (ex_audit x)\<lparr>ia_events := ia_events (ex_audit x) @ [ev]\<rparr>)"
      using ev(1) by (auto simp: audit_append_def holds_event_id_def list_ex_iff)
        (metis image_eqI)
    with run False ev show ?thesis by auto
  qed
qed

section \<open>Properties\<close>

text \<open>
  C1. At most once: starting from an empty in-memory ledger, whatever requests are executed in
  whatever order, with or without the policy guard, and whatever the adapter answers, the adapter
  is asked to execute at most one request per idempotency key; and every request it is asked to
  execute came from a call whose policy, if it had one, permitted it.
\<close>

theorem executor_at_most_once:
  assumes "eo_ledger E = in_memory_ledger_ops" and "eo_adapter E = logged_adapter Ad"
    and "x = with_repositories (a, []) clock in_memory_ledger_new audit" and "length cs < 2 ^ 64"
  shows "distinct (executed_keys (ex_calls (executor_run E x cs))) \<and>
    (\<forall>q. ExecuteCall q \<in> set (ex_calls (executor_run E x cs)) \<longrightarrow>
       (\<exists>c \<in> set cs. call_request c = q \<and> call_permitted c))"
proof -
  have "im_invar (ex_ledger x)" and "length cs \<le> im_room (ex_ledger x)"
    and "im_executor.at_most_once x" and "ex_calls x = []"
    using assms(3,4) ledger_wf_new
    by (auto simp: with_repositories_def im_invar_def im_room_def in_memory_ledger_new_def
        ledger_new_def im_executor.at_most_once_def)
  from im_executor.run_at_most_once [OF assms(1,2) this(1-3)] this(4) show ?thesis
    by (auto simp: im_executor.at_most_once_def)
qed

text \<open>
  A small configuration for the witnesses: an adapter whose dry run fails while its state is
  \<open>False\<close> and succeeds afterwards, and a clock that counts.
\<close>

definition sample_adapter :: "(unit, bool) adapter_ops" where
  "sample_adapter = \<lparr>
     ad_dry_run = (\<lambda>ready _.
       (if ready then Ok \<lparr>dr_before = None, dr_after = None\<rparr>
        else Err (adapter_error_from_safe_message ''unavailable'' ''try again''), ready)),
     ad_execute = (\<lambda>ready _.
       (Ok \<lparr>ax_adapter_operation_id = ''op'', ax_before = None, ax_after = None\<rparr>, ready))\<rparr>"

definition sample_request :: "unit confirmed_execution_request" where
  "sample_request = \<lparr>cr_confirmed_action = sample_confirmed, cr_proposed_action_id = ''pa1'',
     cr_proposed_action_version = 1, cr_action_kind = UpdateKrProgress, cr_target_user_id = None,
     cr_owner_user_id = None, cr_evidence_ids = [''e1''], cr_effective_payload = (),
     cr_decision = ExecConfirm\<rparr>"

definition sample_executor_ops ::
  "(unit, in_memory_ledger_repository, in_memory_audit_repository,
    bool \<times> unit adapter_call list, u64) executor_ops" where
  "sample_executor_ops = \<lparr>eo_ledger = in_memory_ledger_ops, eo_audit = in_memory_audit_ops,
     eo_adapter = logged_adapter sample_adapter, eo_clock = (\<lambda>n. (n, n + 1))\<rparr>"

definition sample_executor ::
  "bool \<Rightarrow> (in_memory_ledger_repository, in_memory_audit_repository,
    bool \<times> unit adapter_call list, u64) executor" where
  "sample_executor ready = executor_with_clock (ready, []) 1"

lemma sample_ops_simps [simp]:
  "eo_ledger sample_executor_ops = in_memory_ledger_ops"
  "eo_audit sample_executor_ops = in_memory_audit_ops"
  "eo_adapter sample_executor_ops = logged_adapter sample_adapter"
  by (simp_all add: sample_executor_ops_def)

lemma sample_executor_ready:
  "im_invar (ex_ledger (sample_executor ready))" "1 < im_room (ex_ledger (sample_executor ready))"
  "\<not> im_poisoned (ex_ledger (sample_executor ready))"
  "\<not> past_confirmed (im_view (ex_ledger (sample_executor ready))) k"
  using ledger_wf_new
  by (simp_all add: sample_executor_def executor_with_clock_def with_repositories_def im_invar_def
      im_room_def in_memory_ledger_new_def ledger_new_def past_confirmed_def im_view_def
      record_by_idempotency_key_def)

lemma sample_executed:
  "executed_keys (ex_calls (executor_run sample_executor_ops (sample_executor True)
     [PlainCall sample_request, PlainCall sample_request])) = [''k1'']"
  by code_simp

lemma executor_at_most_once_witness:
  "executed_keys (ex_calls (executor_run sample_executor_ops (sample_executor True)
     [PlainCall sample_request, PlainCall sample_request])) = [''k1''] \<and>
   distinct (executed_keys (ex_calls (executor_run sample_executor_ops (sample_executor True)
     [PlainCall sample_request, PlainCall sample_request])))"
  using executor_at_most_once [of sample_executor_ops sample_adapter "sample_executor True" True 1
      in_memory_audit_new "[PlainCall sample_request, PlainCall sample_request]"] sample_executed
  by (simp add: sample_executor_def executor_with_clock_def)

text \<open>
  What a report means, for the in-memory repositories and any adapter and clock. A duplicate
  report carries the record of an operation that was already under way or finished, no events,
  and leaves the ledger view, the audit log and the adapter alone. Any other report means that
  the ledger holds the reported operation as succeeded or failed under the action's key, and that
  the audit log was extended by exactly the reported events: confirmation, dry run and the
  outcome that matches the ledger, numbered 1 to 3 under the action's trace.
\<close>

theorem executor_report_faithful:
  assumes "eo_ledger E = in_memory_ledger_ops" and "eo_audit E = in_memory_audit_ops"
    and "im_invar (ex_ledger x)" and "0 < im_room (ex_ledger x)"
    and "execute_confirmed_request E x q = (Ok rep, x')"
  shows "if rep_duplicate rep
    then rep_events rep = [] \<and> im_view (ex_ledger x) (request_key q) = Some (rep_operation rep) \<and>
      op_status (rep_operation rep) \<noteq> Confirmed \<and> im_view (ex_ledger x') = im_view (ex_ledger x) \<and>
      ex_audit x' = ex_audit x \<and> ex_adapter x' = ex_adapter x
    else im_view (ex_ledger x') (request_key q) = Some (rep_operation rep) \<and>
      op_status (rep_operation rep) \<in> {Succeeded, Failed} \<and>
      ia_events (ex_audit x') = ia_events (ex_audit x) @ rep_events rep \<and>
      map ae_event_type (rep_events rep) =
        [ConfirmedActionRecorded, DryRunExecuted, outcome_type (rep_operation rep)] \<and>
      map ae_sequence (rep_events rep) = [1, 2, 3] \<and>
      (\<forall>ev \<in> set (rep_events rep). ae_trace_id ev = action_trace_id (request_action q))"
  using im_executor_audit.execute_OkD [OF assms(5,2,1,3,4)]
  unfolding im_executor_audit.report_recorded_def .

lemma sample_report:
  "\<exists>rep x'. execute_confirmed_request sample_executor_ops (sample_executor True) sample_request =
     (Ok rep, x') \<and> \<not> rep_duplicate rep"
proof -
  have "(case fst (execute_confirmed_request sample_executor_ops (sample_executor True) sample_request)
      of Inl _ \<Rightarrow> False | Inr rep \<Rightarrow> \<not> rep_duplicate rep)"
    by code_simp
  then show ?thesis
    by (cases "execute_confirmed_request sample_executor_ops (sample_executor True) sample_request")
      (auto split: sum.splits)
qed

lemma executor_report_faithful_witness:
  "\<exists>rep x'. execute_confirmed_request sample_executor_ops (sample_executor True) sample_request =
     (Ok rep, x') \<and> map ae_sequence (rep_events rep) = [1, 2, 3] \<and>
     im_view (ex_ledger x') ''k1'' = Some (rep_operation rep)"
proof -
  obtain rep x' where run: "execute_confirmed_request sample_executor_ops (sample_executor True)
      sample_request = (Ok rep, x')" and "\<not> rep_duplicate rep"
    using sample_report by blast
  have "0 < im_room (ex_ledger (sample_executor True))" using sample_executor_ready(2) [of True] by simp
  from executor_report_faithful [OF _ _ sample_executor_ready(1) this run] \<open>\<not> rep_duplicate rep\<close> run
  show ?thesis
    by (auto simp: sample_request_def sample_confirmed_def confirm_action_def
        proposed_confirmed_action_def)
qed

text \<open>
  A denied request never reaches the ledger or the adapter. Unless the audit store refuses
  it, exactly one event is added to the log, a denial under the action's trace, and the denial is
  returned with that event; if the store refuses it, the log is unchanged and the store's error is
  returned.
\<close>

theorem policy_denial_isolated:
  assumes "policy_evaluate p (request_action q) ty scope g b = Err denial"
    and "eo_audit E = in_memory_audit_ops"
    and "execute_confirmed_request_with_policy E x q ty scope b g p = (r, x')"
  shows "ex_ledger x' = ex_ledger x \<and> ex_adapter x' = ex_adapter x \<and>
    (if ia_poisoned (ex_audit x) \<or> holds_event_id (ex_audit x) (first_event_id (request_action q))
     then (\<exists>e. r = Err (AuditErr e)) \<and> ia_events (ex_audit x') = ia_events (ex_audit x)
     else \<exists>ev. r = Err (PolicyDenied \<lparr>pd_denial = denial, pd_events = [ev]\<rparr>) \<and>
       ia_events (ex_audit x') = ia_events (ex_audit x) @ [ev] \<and>
       ae_trace_id ev = action_trace_id (request_action q) \<and> ae_event_type ev = ExecutionDenied)"
  using denied_cases [OF assms] by (auto split: if_splits)

lemma sample_denied:
  "policy_evaluate sample_policy (request_action sample_request) ''okr.progress.update'' ''other''
     sample_grant sample_binding = Err (MissingScope ''other'')"
  using capability_allowlist [of "[ActorUser]"]
  by (simp add: policy_evaluate_def sample_request_def sample_confirmed_def sample_grant_def
      sample_binding_def proposed_confirmed_action_def sample_policy_def
      policy_from_capabilities_def execution_policy_new_def)

lemma policy_denial_isolated_witness:
  "ex_adapter (snd (execute_confirmed_request_with_policy sample_executor_ops (sample_executor True)
     sample_request ''okr.progress.update'' ''other'' sample_binding sample_grant sample_policy)) =
   (True, [])"
proof -
  let ?run = "execute_confirmed_request_with_policy sample_executor_ops (sample_executor True)
     sample_request ''okr.progress.update'' ''other'' sample_binding sample_grant sample_policy"
  have "?run = (fst ?run, snd ?run)" by simp
  from policy_denial_isolated [OF sample_denied _ this] show ?thesis
    by (simp add: sample_executor_def executor_with_clock_def with_repositories_def)
qed


lemma sample_dry_run_failure:
  "\<exists>e x1. execute_confirmed_request sample_executor_ops (sample_executor False) sample_request =
     (Err (AdapterErr e), x1)"
proof -
  have "(case fst (execute_confirmed_request sample_executor_ops (sample_executor False) sample_request)
      of Inl (AdapterErr _) \<Rightarrow> True | _ \<Rightarrow> False)"
    by code_simp
  then show ?thesis
    by (cases "execute_confirmed_request sample_executor_ops (sample_executor False) sample_request")
      (auto split: sum.splits execution_error.splits)
qed


text \<open>
  A policy denial uses up the action: the denial event takes the event id that the
  confirmation event would have, so after one denial every later execution of that action, with
  the obstacle removed, fails with a duplicate event id before the adapter is called.
\<close>

theorem policy_denial_blocks_execution:
  assumes "eo_ledger E = in_memory_ledger_ops" and "eo_audit E = in_memory_audit_ops"
    and "im_invar (ex_ledger x)" and "0 < im_room (ex_ledger x)" and "\<not> im_poisoned (ex_ledger x)"
    and "ca_status (request_action q) = Confirmed"
    and "\<not> past_confirmed (im_view (ex_ledger x)) (request_key q)"
    and "policy_evaluate p (request_action q) ty scope g b = Err denial"
    and "execute_confirmed_request_with_policy E x q ty scope b g p = (Err (PolicyDenied d), x1)"
    and "policy_evaluate p' (request_action q) ty' scope' g' b' = Ok ()"
  shows "\<exists>x2. execute_confirmed_request_with_policy E x1 q ty' scope' b' g' p' =
      (Err (AuditErr (DuplicateEventId (first_event_id (request_action q)))), x2) \<and>
    ex_adapter x2 = ex_adapter x"
proof -
  from denied_cases [OF assms(8,2,9)]
  have held: "holds_event_id (ex_audit x1) (first_event_id (request_action q))"
    and same: "ex_ledger x1 = ex_ledger x" "ex_adapter x1 = ex_adapter x"
    by (auto simp: holds_event_id_def split: if_splits)
  have "\<exists>x2. execute_confirmed_request E x1 q =
      (Err (AuditErr (DuplicateEventId (first_event_id (request_action q)))), x2) \<and>
    ex_adapter x2 = ex_adapter x1 \<and> ex_audit x2 = ex_audit x1"
    using same held assms(3-7) by (intro execute_blocked [OF assms(1,2)]) auto
  with same assms(10) show ?thesis by (auto simp: execute_confirmed_request_with_policy_def)
qed

lemma policy_denial_blocks_execution_witness:
  "\<exists>d x1 x2. execute_confirmed_request_with_policy sample_executor_ops (sample_executor True)
      sample_request ''okr.progress.update'' ''other'' sample_binding sample_grant sample_policy =
      (Err (PolicyDenied d), x1) \<and>
    execute_confirmed_request_with_policy sample_executor_ops x1
      sample_request ''okr.progress.update'' ''okr.progress.write'' sample_binding sample_grant
      sample_policy =
      (Err (AuditErr (DuplicateEventId (first_event_id (request_action sample_request)))), x2)"
proof -
  let ?run = "execute_confirmed_request_with_policy sample_executor_ops (sample_executor True)
     sample_request ''okr.progress.update'' ''other'' sample_binding sample_grant sample_policy"
  have "?run = (fst ?run, snd ?run)" by simp
  from denied_cases [OF sample_denied _ this] obtain d where
    run: "?run = (Err (PolicyDenied d), snd ?run)"
    by (auto simp: sample_executor_def executor_with_clock_def with_repositories_def
        in_memory_audit_new_def holds_event_id_def prod_eq_iff)
  have action: "request_action sample_request = sample_confirmed" "ca_status sample_confirmed = Confirmed"
    by (simp_all add: sample_request_def sample_confirmed_def)
  have "0 < im_room (ex_ledger (sample_executor True))" using sample_executor_ready(2) [of True] by simp
  with run policy_denial_blocks_execution [OF _ _ sample_executor_ready(1) this
      sample_executor_ready(3) _ sample_executor_ready(4) sample_denied run]
    sample_permitted action show ?thesis
    by (metis sample_ops_simps(1,2))
qed

end
