(* ===== verification/Evidence.thy ===== *)
theory Evidence
  imports OAR_Prelude
begin

text \<open>
  Evidence (\<open>domain/evidence.rs\<close>): references to tenant data with a summary and a content hash.
  Construction is the only operation; it trims its texts and checks the hash format.
\<close>

section \<open>Data and construction\<close>

datatype evidence_id = EvidenceId (evidence_str: string)

datatype evidence_source_kind = OkrProgress | LarkMinutes | LarkDoc | LarkTask | LarkCalendar
  | LarkIm | ManualReviewNote | AuditEventSource

datatype evidence_visibility_scope = VisibleTenant | VisibleTeam | VisibleUser

record evidence_ref =
  ref_source_kind :: evidence_source_kind
  ref_source_id :: string
  ref_locator :: "string option"

record evidence_item =
  ev_id :: evidence_id
  ev_summary :: string
  ev_reference :: evidence_ref
  ev_content_hash :: string
  ev_visibility :: evidence_visibility_scope
  ev_observed_at :: system_time
  ev_recorded_at :: system_time

datatype evidence_error = MissingSummary | MissingReferenceId | MissingHash | InvalidHashFormat

definition evidence_ref_new ::
  "evidence_source_kind \<Rightarrow> string \<Rightarrow> string option \<Rightarrow> (evidence_ref, evidence_error) result" where
  "evidence_ref_new kind source_id locator = (let source_id = trim source_id in
     if source_id = [] then Err MissingReferenceId
     else Ok \<lparr>ref_source_kind = kind, ref_source_id = source_id, ref_locator = locator\<rparr>)"

definition validate_sha256_hash :: "string \<Rightarrow> (unit, evidence_error) result" where
  "validate_sha256_hash value =
     (if value = [] then Err MissingHash
      else case strip_prefix value ''sha256:'' of
        None \<Rightarrow> Err InvalidHashFormat
      | Some digest \<Rightarrow>
         (if length digest \<noteq> 64 \<or> \<not> list_all is_ascii_hexdigit digest
          then Err InvalidHashFormat else Ok ()))"

definition evidence_item_new ::
  "evidence_id \<Rightarrow> string \<Rightarrow> evidence_ref \<Rightarrow> string \<Rightarrow> evidence_visibility_scope
     \<Rightarrow> system_time \<Rightarrow> system_time \<Rightarrow> (evidence_item, evidence_error) result" where
  "evidence_item_new i summary reference content_hash visibility observed_at recorded_at =
     (let summary = trim summary in
      if summary = [] then Err MissingSummary
      else let content_hash = trim content_hash in
        try_then (validate_sha256_hash content_hash) (\<lambda>_. Ok \<lparr>
          ev_id = i, ev_summary = summary, ev_reference = reference,
          ev_content_hash = content_hash, ev_visibility = visibility,
          ev_observed_at = observed_at, ev_recorded_at = recorded_at\<rparr>))"

section \<open>Properties\<close>

text \<open>What a stored hash looks like.\<close>

definition sha256_text :: "string \<Rightarrow> bool" where
  "sha256_text h \<longleftrightarrow> (\<exists>digest. h = ''sha256:'' @ digest \<and> length digest = 64 \<and>
     list_all is_ascii_hexdigit digest)"

lemma validate_sha256_hash_Ok_iff: "validate_sha256_hash h = Ok () \<longleftrightarrow> sha256_text h"
proof
  assume "validate_sha256_hash h = Ok ()"
  then show "sha256_text h"
    by (auto simp: validate_sha256_hash_def sha256_text_def strip_prefix_Some_iff
        split: if_splits option.splits)
next
  assume "sha256_text h"
  then obtain digest where "h = ''sha256:'' @ digest" "length digest = 64"
    "list_all is_ascii_hexdigit digest"
    by (auto simp: sha256_text_def)
  moreover from this(1) have "strip_prefix h ''sha256:'' = Some digest"
    by (simp add: strip_prefix_Some_iff)
  ultimately show "validate_sha256_hash h = Ok ()"
    by (simp add: validate_sha256_hash_def)
qed

text \<open>
  An evidence item is built exactly when its summary is not blank and its trimmed hash is
  the text \<open>sha256:\<close> followed by 64 hexadecimal digits; the item stores both trimmed. A blank
  summary is reported before anything about the hash, a blank hash before a malformed one.
\<close>

theorem evidence_item_new_correct:
  "case evidence_item_new i summary reference h visibility observed recorded of
     Inr item \<Rightarrow> trim summary \<noteq> [] \<and> sha256_text (trim h) \<and>
       item = \<lparr>ev_id = i, ev_summary = trim summary, ev_reference = reference,
         ev_content_hash = trim h, ev_visibility = visibility, ev_observed_at = observed,
         ev_recorded_at = recorded\<rparr>
   | Inl MissingSummary \<Rightarrow> trim summary = []
   | Inl MissingHash \<Rightarrow> trim summary \<noteq> [] \<and> trim h = []
   | Inl InvalidHashFormat \<Rightarrow> trim summary \<noteq> [] \<and> trim h \<noteq> [] \<and> \<not> sha256_text (trim h)
   | Inl MissingReferenceId \<Rightarrow> False"
proof (cases "validate_sha256_hash (trim h)")
  case (Inl e)
  then have "\<not> sha256_text (trim h)"
    by (metis Inl_Inr_False validate_sha256_hash_Ok_iff)
  moreover from Inl have "e = MissingHash \<and> trim h = [] \<or> e = InvalidHashFormat \<and> trim h \<noteq> []"
    by (auto simp: validate_sha256_hash_def split: if_splits option.splits)
  ultimately show ?thesis using Inl by (auto simp: evidence_item_new_def Let_def)
next
  case (Inr u)
  then have "sha256_text (trim h)" by (simp add: validate_sha256_hash_Ok_iff [symmetric])
  with Inr show ?thesis by (simp add: evidence_item_new_def Let_def)
qed

end
