(* ===== verification/Device_Sync.thy ===== *)
theory Device_Sync
  imports Identity
begin

text \<open>
  Device sessions (\<open>domain/device_sync.rs\<close>): each signed-in device holds a cursor into a stream.
  The cursor and the time of last contact only move forward, and only while the session is active.
\<close>

section \<open>Data and operations\<close>

datatype device_entry_point = MacOs | Ios | Web | LarkEntry

datatype session_state = SessionActive | SessionRevokedState | SessionExpiredState

record sync_cursor =
  cu_stream :: string
  cu_value :: u64
  cu_updated_at :: system_time

record device_session =
  ds_id :: device_session_id
  ds_tenant_id :: tenant_id
  ds_user_id :: workspace_user_id
  ds_entry_point :: device_entry_point
  ds_state :: session_state
  ds_cursor :: sync_cursor
  ds_last_seen_at :: system_time
  ds_revoked_at :: "system_time option"
  ds_expired_at :: "system_time option"

datatype device_sync_error =
    SessionRevoked
  | SessionExpired
  | StaleCursor u64 u64
  | LastSeenWentBackwards system_time system_time

definition device_session_new ::
  "device_session_id \<Rightarrow> tenant_id \<Rightarrow> workspace_user_id \<Rightarrow> device_entry_point \<Rightarrow> string \<Rightarrow> u64
     \<Rightarrow> system_time \<Rightarrow> device_session" where
  "device_session_new i tenant user entry stream initial_cursor now = \<lparr>
     ds_id = i, ds_tenant_id = tenant, ds_user_id = user, ds_entry_point = entry,
     ds_state = SessionActive,
     ds_cursor = \<lparr>cu_stream = stream, cu_value = initial_cursor, cu_updated_at = now\<rparr>,
     ds_last_seen_at = now, ds_revoked_at = None, ds_expired_at = None\<rparr>"

definition ensure_active :: "device_session \<Rightarrow> (unit, device_sync_error) result" where
  "ensure_active s = (case ds_state s of
      SessionActive \<Rightarrow> Ok ()
    | SessionRevokedState \<Rightarrow> Err SessionRevoked
    | SessionExpiredState \<Rightarrow> Err SessionExpired)"

definition ensure_non_decreasing_last_seen ::
  "device_session \<Rightarrow> system_time \<Rightarrow> (unit, device_sync_error) result" where
  "ensure_non_decreasing_last_seen s now =
     (if now < ds_last_seen_at s then Err (LastSeenWentBackwards (ds_last_seen_at s) now)
      else Ok ())"

definition advance_cursor ::
  "device_session \<Rightarrow> u64 \<Rightarrow> system_time \<Rightarrow> (unit, device_sync_error) result \<times> device_session" where
  "advance_cursor s next_cursor now =
     try_st (ensure_active s, s) (\<lambda>_ s.
     try_st (ensure_non_decreasing_last_seen s now, s) (\<lambda>_ s.
       if next_cursor \<le> cu_value (ds_cursor s)
       then (Err (StaleCursor (cu_value (ds_cursor s)) next_cursor), s)
       else (Ok (), s\<lparr>
          ds_cursor := (ds_cursor s)\<lparr>cu_value := next_cursor, cu_updated_at := now\<rparr>,
          ds_last_seen_at := now\<rparr>)))"

definition update_last_seen ::
  "device_session \<Rightarrow> system_time \<Rightarrow> (unit, device_sync_error) result \<times> device_session" where
  "update_last_seen s now =
     try_st (ensure_active s, s) (\<lambda>_ s.
     try_st (ensure_non_decreasing_last_seen s now, s) (\<lambda>_ s.
       (Ok (), s\<lparr>ds_last_seen_at := now\<rparr>)))"

definition revoke_session :: "device_session \<Rightarrow> system_time \<Rightarrow> device_session" where
  "revoke_session s now = s\<lparr>ds_state := SessionRevokedState, ds_revoked_at := Some now\<rparr>"

definition expire_session :: "device_session \<Rightarrow> system_time \<Rightarrow> device_session" where
  "expire_session s now = s\<lparr>ds_state := SessionExpiredState, ds_expired_at := Some now\<rparr>"

lemmas session_op_defs = advance_cursor_def update_last_seen_def revoke_session_def
  expire_session_def ensure_active_def ensure_non_decreasing_last_seen_def

section \<open>Sessions over time\<close>

inductive session_step :: "device_session \<Rightarrow> device_session \<Rightarrow> bool" where
  advance: "advance_cursor s c now = (r, s') \<Longrightarrow> session_step s s'"
| seen: "update_last_seen s now = (r, s') \<Longrightarrow> session_step s s'"
| revoke: "session_step s (revoke_session s now)"
| expire: "session_step s (expire_session s now)"

lemma advance_cursor_cases:
  assumes "advance_cursor s c now = (r, s')"
  shows "r = Ok () \<and> ds_state s = SessionActive \<and> ds_last_seen_at s \<le> now \<and>
      cu_value (ds_cursor s) < c \<and>
      s' = s\<lparr>ds_cursor := (ds_cursor s)\<lparr>cu_value := c, cu_updated_at := now\<rparr>, ds_last_seen_at := now\<rparr>
    \<or> (\<exists>e. r = Err e) \<and> s' = s"
  using assms by (auto simp: session_op_defs split: session_state.splits if_splits)

lemma update_last_seen_cases:
  assumes "update_last_seen s now = (r, s')"
  shows "r = Ok () \<and> ds_state s = SessionActive \<and> ds_last_seen_at s \<le> now \<and>
      s' = s\<lparr>ds_last_seen_at := now\<rparr> \<or> (\<exists>e. r = Err e) \<and> s' = s"
  using assms by (auto simp: session_op_defs split: session_state.splits if_splits)

definition session_evolves :: "device_session \<Rightarrow> device_session \<Rightarrow> bool" where
  "session_evolves s s' \<longleftrightarrow>
     cu_value (ds_cursor s) \<le> cu_value (ds_cursor s') \<and> ds_last_seen_at s \<le> ds_last_seen_at s' \<and>
     cu_stream (ds_cursor s') = cu_stream (ds_cursor s) \<and> ds_tenant_id s' = ds_tenant_id s \<and>
     ds_user_id s' = ds_user_id s \<and>
     (ds_state s \<noteq> SessionActive \<longrightarrow>
        ds_state s' \<noteq> SessionActive \<and> ds_cursor s' = ds_cursor s \<and>
        ds_last_seen_at s' = ds_last_seen_at s)"

lemma session_step_evolves: "session_step s s' \<Longrightarrow> session_evolves s s'"
  by (induction rule: session_step.induct)
    (auto simp: session_evolves_def revoke_session_def expire_session_def
      dest!: advance_cursor_cases update_last_seen_cases)

lemma session_evolves_trans:
  "session_evolves a b \<Longrightarrow> session_evolves b c \<Longrightarrow> session_evolves a c"
  by (auto simp: session_evolves_def)

lemma session_steps_evolve: "session_step\<^sup>*\<^sup>* s s' \<Longrightarrow> session_evolves s s'"
  by (induction rule: rtranclp_induct)
    (auto simp: session_evolves_def [of s s] intro: session_evolves_trans session_step_evolves)

text \<open>
  Over any sequence of calls a session's cursor and last contact never move backwards, its
  stream, tenant and user stay the same, and once the session is revoked or expired it never
  becomes active again and neither its cursor nor its last contact changes.
\<close>

theorem device_session_monotone:
  assumes "session_step\<^sup>*\<^sup>* s s'"
  shows "cu_value (ds_cursor s) \<le> cu_value (ds_cursor s') \<and>
    ds_last_seen_at s \<le> ds_last_seen_at s' \<and>
    cu_stream (ds_cursor s') = cu_stream (ds_cursor s) \<and>
    ds_tenant_id s' = ds_tenant_id s \<and> ds_user_id s' = ds_user_id s \<and>
    (ds_state s \<noteq> SessionActive \<longrightarrow>
       ds_state s' \<noteq> SessionActive \<and> ds_cursor s' = ds_cursor s \<and>
       ds_last_seen_at s' = ds_last_seen_at s)"
  using session_steps_evolve [OF assms] by (simp add: session_evolves_def)

definition sample_session :: device_session where
  "sample_session = device_session_new (DeviceSessionId ''s1'') (TenantId ''t1'')
     (WorkspaceUserId ''u1'') MacOs ''inbox'' 3 100"

lemma device_session_monotone_witness:
  "session_step\<^sup>*\<^sup>* sample_session (snd (advance_cursor sample_session 5 120)) \<and>
   cu_value (ds_cursor (snd (advance_cursor sample_session 5 120))) = 5 \<and>
   ds_last_seen_at sample_session \<le> ds_last_seen_at (snd (advance_cursor sample_session 5 120))"
proof -
  have "session_step\<^sup>*\<^sup>* sample_session (snd (advance_cursor sample_session 5 120))"
    by (rule r_into_rtranclp, rule session_step.advance, rule prod.collapse [symmetric])
  from this device_session_monotone [OF this] show ?thesis
    by (simp add: sample_session_def device_session_new_def session_op_defs)
qed

end
