(* ===== verification/Review_Inbox.thy ===== *)
theory Review_Inbox
  imports Identity "HOL-Library.Product_Lexorder"
begin

text \<open>
  The review inbox (\<open>domain/review_inbox.rs\<close>): the queue in which a user sees proposals and the
  progress of what was confirmed. An item has a status with a fixed set of transitions, a sync
  cursor that every change must advance, and the order in which a client lists the inbox.
\<close>

section \<open>Data\<close>

datatype review_inbox_item_id = ReviewInboxItemId (inbox_item_str: string)

datatype review_inbox_item_status =
    InboxOpen | InboxConfirmed | InboxRejected | InboxExecuting | InboxSucceeded | InboxFailed
  | InboxWithdrawn

fun inbox_is_terminal :: "review_inbox_item_status \<Rightarrow> bool" where
  "inbox_is_terminal InboxRejected = True"
| "inbox_is_terminal InboxSucceeded = True"
| "inbox_is_terminal InboxFailed = True"
| "inbox_is_terminal InboxWithdrawn = True"
| "inbox_is_terminal _ = False"

record review_inbox_item =
  ri_id :: review_inbox_item_id
  ri_tenant_id :: tenant_id
  ri_user_id :: workspace_user_id
  ri_proposed_action_id :: string
  ri_proposed_action_version :: u64
  ri_risk_score :: u32
  ri_priority :: u32
  ri_status :: review_inbox_item_status
  ri_sort_key :: i64
  ri_sync_cursor :: u64
  ri_updated_at :: system_time
  ri_ledger_status :: "string option"
  ri_operation_id :: "string option"

datatype review_inbox_error =
    StaleSyncCursor u64 u64
  | InvalidStatusTransition review_inbox_item_status review_inbox_item_status
  | InvalidLedgerProjection review_inbox_item_status review_inbox_item_status

section \<open>Operations\<close>

definition inbox_item_new ::
  "review_inbox_item_id \<Rightarrow> tenant_id \<Rightarrow> workspace_user_id \<Rightarrow> string \<Rightarrow> u64 \<Rightarrow> u32 \<Rightarrow> u32 \<Rightarrow> i64
     \<Rightarrow> u64 \<Rightarrow> system_time \<Rightarrow> review_inbox_item" where
  "inbox_item_new i tenant user action_id version risk priority sort_by cursor updated = \<lparr>
     ri_id = i, ri_tenant_id = tenant, ri_user_id = user, ri_proposed_action_id = action_id,
     ri_proposed_action_version = version, ri_risk_score = risk, ri_priority = priority,
     ri_status = InboxOpen, ri_sort_key = sort_by, ri_sync_cursor = cursor, ri_updated_at = updated,
     ri_ledger_status = None, ri_operation_id = None\<rparr>"

definition ensure_sync_cursor_advances ::
  "review_inbox_item \<Rightarrow> u64 \<Rightarrow> (unit, review_inbox_error) result" where
  "ensure_sync_cursor_advances it proposed =
     (if proposed \<le> ri_sync_cursor it then Err (StaleSyncCursor (ri_sync_cursor it) proposed)
      else Ok ())"

fun inbox_transition_allowed ::
  "review_inbox_item_status \<Rightarrow> review_inbox_item_status \<Rightarrow> bool" where
  "inbox_transition_allowed InboxOpen InboxConfirmed = True"
| "inbox_transition_allowed InboxOpen InboxRejected = True"
| "inbox_transition_allowed InboxOpen InboxWithdrawn = True"
| "inbox_transition_allowed InboxConfirmed InboxExecuting = True"
| "inbox_transition_allowed InboxConfirmed InboxSucceeded = True"
| "inbox_transition_allowed InboxConfirmed InboxFailed = True"
| "inbox_transition_allowed InboxConfirmed InboxWithdrawn = True"
| "inbox_transition_allowed InboxExecuting InboxSucceeded = True"
| "inbox_transition_allowed InboxExecuting InboxFailed = True"
| "inbox_transition_allowed _ _ = False"

definition transition_status ::
  "review_inbox_item \<Rightarrow> review_inbox_item_status \<Rightarrow> u64 \<Rightarrow> system_time
     \<Rightarrow> (unit, review_inbox_error) result \<times> review_inbox_item" where
  "transition_status it next_status next_cursor now =
     (if ri_status it = next_status
      then try_st (ensure_sync_cursor_advances it next_cursor, it) (\<lambda>_ it.
             (Ok (), it\<lparr>ri_sync_cursor := next_cursor, ri_updated_at := now\<rparr>))
      else if \<not> inbox_transition_allowed (ri_status it) next_status
      then (Err (InvalidStatusTransition (ri_status it) next_status), it)
      else try_st (ensure_sync_cursor_advances it next_cursor, it) (\<lambda>_ it.
             (Ok (), it\<lparr>ri_status := next_status, ri_sync_cursor := next_cursor,
                ri_updated_at := now\<rparr>)))"

definition inbox_confirm ::
  "review_inbox_item \<Rightarrow> u64 \<Rightarrow> system_time \<Rightarrow> (unit, review_inbox_error) result \<times> review_inbox_item" where
  "inbox_confirm it cursor now = transition_status it InboxConfirmed cursor now"

definition inbox_reject ::
  "review_inbox_item \<Rightarrow> u64 \<Rightarrow> system_time \<Rightarrow> (unit, review_inbox_error) result \<times> review_inbox_item" where
  "inbox_reject it cursor now = transition_status it InboxRejected cursor now"

definition inbox_withdraw ::
  "review_inbox_item \<Rightarrow> u64 \<Rightarrow> system_time \<Rightarrow> (unit, review_inbox_error) result \<times> review_inbox_item" where
  "inbox_withdraw it cursor now = transition_status it InboxWithdrawn cursor now"

definition advance_sync_cursor ::
  "review_inbox_item \<Rightarrow> u64 \<Rightarrow> system_time \<Rightarrow> (unit, review_inbox_error) result \<times> review_inbox_item" where
  "advance_sync_cursor it next_cursor now =
     try_st (ensure_sync_cursor_advances it next_cursor, it) (\<lambda>_ it.
       (Ok (), it\<lparr>ri_sync_cursor := next_cursor, ri_updated_at := now\<rparr>))"

fun ledger_projection_allowed ::
  "review_inbox_item_status \<Rightarrow> review_inbox_item_status \<Rightarrow> bool" where
  "ledger_projection_allowed InboxConfirmed InboxExecuting = True"
| "ledger_projection_allowed InboxConfirmed InboxSucceeded = True"
| "ledger_projection_allowed InboxConfirmed InboxFailed = True"
| "ledger_projection_allowed InboxExecuting InboxSucceeded = True"
| "ledger_projection_allowed InboxExecuting InboxFailed = True"
| "ledger_projection_allowed _ _ = False"

definition apply_ledger_projection ::
  "review_inbox_item \<Rightarrow> review_inbox_item_status \<Rightarrow> string \<Rightarrow> string option \<Rightarrow> u64 \<Rightarrow> system_time
     \<Rightarrow> (unit, review_inbox_error) result \<times> review_inbox_item" where
  "apply_ledger_projection it next_status ledger_status operation_id next_cursor now =
     (if \<not> ledger_projection_allowed (ri_status it) next_status
      then (Err (InvalidLedgerProjection (ri_status it) next_status), it)
      else try_st (transition_status it next_status next_cursor now) (\<lambda>_ it.
             (Ok (), it\<lparr>ri_ledger_status := Some ledger_status, ri_operation_id := operation_id\<rparr>)))"

datatype ordering = OrdLess | OrdEqual | OrdGreater

definition ord_cmp :: "'a::linorder \<Rightarrow> 'a \<Rightarrow> ordering" where
  "ord_cmp a b = (if a < b then OrdLess else if a = b then OrdEqual else OrdGreater)"

fun then_with :: "ordering \<Rightarrow> ordering \<Rightarrow> ordering" where
  "then_with OrdEqual b = b"
| "then_with a b = a"

definition cmp_for_inbox :: "review_inbox_item \<Rightarrow> review_inbox_item \<Rightarrow> ordering" where
  "cmp_for_inbox a b =
     then_with (then_with
       (ord_cmp (sint (ri_sort_key b)) (sint (ri_sort_key a)))
       (ord_cmp (ri_updated_at b) (ri_updated_at a)))
       (ord_cmp (inbox_item_str (ri_id a)) (inbox_item_str (ri_id b)))"

lemmas inbox_op_defs = inbox_confirm_def inbox_reject_def inbox_withdraw_def
  advance_sync_cursor_def apply_ledger_projection_def transition_status_def
  ensure_sync_cursor_advances_def

section \<open>Items over time\<close>

datatype inbox_call =
    CallConfirm u64 system_time
  | CallReject u64 system_time
  | CallWithdraw u64 system_time
  | CallAdvance u64 system_time
  | CallProject review_inbox_item_status string "string option" u64 system_time

fun inbox_apply ::
  "review_inbox_item \<Rightarrow> inbox_call \<Rightarrow> (unit, review_inbox_error) result \<times> review_inbox_item" where
  "inbox_apply it (CallConfirm c now) = inbox_confirm it c now"
| "inbox_apply it (CallReject c now) = inbox_reject it c now"
| "inbox_apply it (CallWithdraw c now) = inbox_withdraw it c now"
| "inbox_apply it (CallAdvance c now) = advance_sync_cursor it c now"
| "inbox_apply it (CallProject st ls oid c now) = apply_ledger_projection it st ls oid c now"

fun inbox_run :: "review_inbox_item \<Rightarrow> inbox_call list \<Rightarrow> review_inbox_item" where
  "inbox_run it [] = it"
| "inbox_run it (c # cs) = inbox_run (snd (inbox_apply it c)) cs"

lemma terminal_no_transition: "inbox_is_terminal s \<Longrightarrow> \<not> inbox_transition_allowed s t"
  by (cases s) simp_all

lemma projection_is_transition: "ledger_projection_allowed s t \<Longrightarrow> inbox_transition_allowed s t \<and> s \<noteq> t"
  by (cases s; cases t) simp_all

lemma transition_status_cases:
  assumes "transition_status it st c now = (r, it')"
  shows "(\<exists>e. r = Err e) \<and> it' = it \<or>
    r = Ok () \<and> ri_sync_cursor it < c \<and>
    (ri_status it = st \<or> inbox_transition_allowed (ri_status it) st) \<and>
    it' = it\<lparr>ri_status := st, ri_sync_cursor := c, ri_updated_at := now\<rparr>"
  using assms
  by (auto simp: transition_status_def ensure_sync_cursor_advances_def split: if_splits)

text \<open>The one law behind every property of the life cycle.\<close>

definition inbox_evolves :: "review_inbox_item \<Rightarrow> review_inbox_item \<Rightarrow> bool" where
  "inbox_evolves it it' \<longleftrightarrow>
     (it' = it \<or> ri_sync_cursor it < ri_sync_cursor it') \<and>
     (inbox_is_terminal (ri_status it) \<longrightarrow> ri_status it' = ri_status it \<and>
        ri_ledger_status it' = ri_ledger_status it \<and> ri_operation_id it' = ri_operation_id it) \<and>
     (ri_status it \<noteq> InboxOpen \<longrightarrow> ri_status it' \<noteq> InboxOpen) \<and>
     ri_id it' = ri_id it \<and> ri_tenant_id it' = ri_tenant_id it \<and> ri_user_id it' = ri_user_id it \<and>
     ri_proposed_action_id it' = ri_proposed_action_id it"

lemma transition_not_to_open: "inbox_transition_allowed s t \<Longrightarrow> t \<noteq> InboxOpen"
  by (cases s; cases t) simp_all

lemma transition_status_evolves:
  assumes "transition_status it st c now = (r, it')"
  shows "inbox_evolves it it' \<and>
    (case r of Inl _ \<Rightarrow> it' = it | Inr _ \<Rightarrow> ri_sync_cursor it' = c \<and> ri_sync_cursor it < c)"
  using transition_status_cases [OF assms]
  by (auto simp: inbox_evolves_def dest: terminal_no_transition transition_not_to_open)

lemma projection_evolves:
  assumes "apply_ledger_projection it st ls oid c now = (r, it')"
  shows "inbox_evolves it it' \<and>
    (case r of Inl _ \<Rightarrow> it' = it | Inr _ \<Rightarrow> ri_sync_cursor it' = c \<and> ri_sync_cursor it < c)"
proof (cases "ledger_projection_allowed (ri_status it) st")
  case False
  with assms show ?thesis by (auto simp: apply_ledger_projection_def inbox_evolves_def)
next
  case True
  note step = projection_is_transition [OF this]
  then have "\<not> inbox_is_terminal (ri_status it)" using terminal_no_transition by blast
  with True step assms transition_not_to_open show ?thesis
    by (auto simp: apply_ledger_projection_def transition_status_def inbox_evolves_def
        ensure_sync_cursor_advances_def split: if_splits)
qed

lemma inbox_apply_evolves:
  assumes "inbox_apply it call = (r, it')"
  shows "inbox_evolves it it' \<and>
    (case r of Inl _ \<Rightarrow> it' = it | Inr _ \<Rightarrow> ri_sync_cursor it < ri_sync_cursor it')"
proof (cases call)
  case (CallAdvance c now)
  with assms show ?thesis
    by (auto simp: advance_sync_cursor_def ensure_sync_cursor_advances_def inbox_evolves_def
        split: if_splits)
next
  case (CallProject st ls oid c now)
  with assms have "apply_ledger_projection it st ls oid c now = (r, it')" by simp
  from projection_evolves [OF this] show ?thesis by (auto split: sum.splits)
qed (use assms in \<open>auto simp: inbox_confirm_def inbox_reject_def inbox_withdraw_def
  split: sum.splits dest!: transition_status_evolves\<close>)

lemma inbox_evolves_trans: "inbox_evolves a b \<Longrightarrow> inbox_evolves b c \<Longrightarrow> inbox_evolves a c"
  by (auto simp: inbox_evolves_def dest: less_trans)

lemma inbox_run_evolves: "inbox_evolves it (inbox_run it calls)"
proof (induction calls arbitrary: it)
  case Nil
  show ?case by (simp add: inbox_evolves_def)
next
  case (Cons call calls)
  have "inbox_evolves it (snd (inbox_apply it call))"
    using inbox_apply_evolves by (metis prod.collapse)
  with Cons.IH show ?case by (auto intro: inbox_evolves_trans)
qed

section \<open>Properties\<close>

text \<open>
  Over any sequence of calls the sync cursor of an inbox item moves strictly forward
  whenever anything about the item changes, an item that left the open state never reopens, and
  the status, ledger status and operation id of an item in a terminal state never change again.
\<close>

theorem inbox_item_monotone:
  "let it' = inbox_run it calls in
   (it' = it \<or> ri_sync_cursor it < ri_sync_cursor it') \<and>
   (ri_status it \<noteq> InboxOpen \<longrightarrow> ri_status it' \<noteq> InboxOpen) \<and>
   (inbox_is_terminal (ri_status it) \<longrightarrow> ri_status it' = ri_status it \<and>
      ri_ledger_status it' = ri_ledger_status it \<and> ri_operation_id it' = ri_operation_id it)"
  using inbox_run_evolves [of it calls] by (simp add: inbox_evolves_def Let_def)

definition sample_inbox_item :: review_inbox_item where
  "sample_inbox_item = inbox_item_new (ReviewInboxItemId ''i1'') (TenantId ''t1'')
     (WorkspaceUserId ''u1'') ''pa1'' 1 10 2 (-5) 7 100"

lemma inbox_item_monotone_witness:
  "ri_status (inbox_run sample_inbox_item [CallReject 8 110]) = InboxRejected \<and>
   ri_status (inbox_run (inbox_run sample_inbox_item [CallReject 8 110])
     [CallConfirm 9 120, CallWithdraw 10 130, CallAdvance 11 140]) = InboxRejected"
proof -
  have "ri_status (inbox_run sample_inbox_item [CallReject 8 110]) = InboxRejected"
    by (simp add: sample_inbox_item_def inbox_item_new_def inbox_op_defs)
  with inbox_item_monotone [of "inbox_run sample_inbox_item [CallReject 8 110]"
      "[CallConfirm 9 120, CallWithdraw 10 130, CallAdvance 11 140]"]
  show ?thesis by (simp only: Let_def inbox_is_terminal.simps)
qed

text \<open>The key the inbox is listed by: higher sort keys first, then newer items, then ids.\<close>

definition inbox_key :: "review_inbox_item \<Rightarrow> int \<times> int \<times> string" where
  "inbox_key it = (- sint (ri_sort_key it), - ri_updated_at it, inbox_item_str (ri_id it))"

text \<open>
  The comparison used to list the inbox is the lexicographic order of descending sort key,
  descending update time and ascending item id: a total order in which only items with equal
  keys compare as equal.
\<close>

theorem cmp_for_inbox_correct: "cmp_for_inbox a b = ord_cmp (inbox_key a) (inbox_key b)"
  by (simp add: cmp_for_inbox_def inbox_key_def ord_cmp_def less_prod_simp)

end
