(* ===== verification/Token_Refresh.thy ===== *)
theory Token_Refresh
  imports Identity Security
begin

text \<open>
  Token refresh in \<open>oar-core\<close> (\<open>domain/token_refresh/\<close>): from a snapshot of a grant and the answer
  of the authorisation adapter to a decision, from the decision to a command for the grant
  repository, and the service that runs the three steps. The adapter and the command sink are
  records of the methods of their traits.
\<close>

section \<open>Data\<close>

record encrypted_grant_material =
  gm_encrypted_primary :: "u8 list"
  gm_encrypted_renewal :: "u8 list"

datatype encrypted_grant_blob = EncryptedGrantBlob (blob_bytes: "u8 list")

datatype refresh_outcome =
    RefreshSuccess encrypted_grant_material string string system_time "system_time option"
  | TransientFailure string
  | ReauthFailure string
  | ConfigRequired string

record token_refresh_attempt =
  at_grant_id :: token_grant_id
  at_tenant_id :: tenant_id
  at_expected_fingerprint :: string
  at_outcome :: refresh_outcome

datatype token_refresh_decision =
    DecideRotateGrantCas token_grant_id tenant_id string encrypted_grant_material string string
      system_time "system_time option"
  | DecideMarkNeedsRefresh token_grant_id tenant_id string string
  | DecideMarkReauthRequired token_grant_id tenant_id string string
  | DecideMarkConfigRequired token_grant_id tenant_id string string

datatype token_refresh_command =
    RotateGrantCas (cmd_grant_id: token_grant_id) (cmd_tenant_id: tenant_id)
      (cmd_expected_fingerprint: string) (cmd_expires_at_ms: "u64 option")
      (cmd_refreshed_at_ms: u64) (cmd_blob: encrypted_grant_blob) (cmd_key_id: string)
      (cmd_new_fingerprint: string)
  | MarkNeedsRefresh (cmd_grant_id: token_grant_id) (cmd_tenant_id: tenant_id)
      (cmd_expected_fingerprint: string) (cmd_refreshed_at_ms: u64) (cmd_safe_error: string)
  | MarkReauthRequired (cmd_grant_id: token_grant_id) (cmd_tenant_id: tenant_id)
      (cmd_expected_fingerprint: string) (cmd_reauth_required_at_ms: u64) (cmd_safe_error: string)
  | MarkConfigRequired (cmd_grant_id: token_grant_id) (cmd_tenant_id: tenant_id)
      (cmd_expected_fingerprint: string) (cmd_refreshed_at_ms: u64) (cmd_safe_error: string)

datatype refresh_kind = KindRotateGrantCas | KindMarkNeedsRefresh | KindMarkReauthRequired
  | KindMarkConfigRequired

datatype token_refresh_short_circuit_reason = ScRevoked | ScReauthRequired | ScMissingRefreshMaterial

datatype refresh_report_status =
  ReportSucceeded | ReportConflictNoop | ShortCircuited token_refresh_short_circuit_reason

record token_refresh_service_report =
  sr_grant_id :: token_grant_id
  sr_tenant_id :: tenant_id
  sr_status :: refresh_report_status
  sr_adapter_called :: bool
  sr_sink_called :: bool
  sr_decision :: "refresh_kind option"
  sr_command :: "refresh_kind option"
  sr_safe_error :: "string option"

record token_refresh_audit_summary =
  su_grant_id :: token_grant_id
  su_tenant_id :: tenant_id
  su_status :: refresh_report_status
  su_decision :: "refresh_kind option"
  su_command :: "refresh_kind option"
  su_safe_error :: "string option"

record token_refresh_command_report =
  cp_grant_id :: token_grant_id
  cp_tenant_id :: tenant_id
  cp_decision_kind :: refresh_kind
  cp_command_kind :: refresh_kind
  cp_safe_error :: "string option"

record token_refresh_planned_command =
  pc_command :: token_refresh_command
  pc_report :: token_refresh_command_report

record token_refresh_grant_snapshot =
  sn_grant_id :: token_grant_id
  sn_tenant_id :: tenant_id
  sn_expected_fingerprint :: string
  sn_state :: token_grant_state
  sn_has_refresh_material :: bool
  sn_revoked_at :: "system_time option"
  sn_reauth_required_at :: "system_time option"

record token_refresh_apply_result =
  ar_grant_id :: token_grant_id
  ar_tenant_id :: tenant_id
  ar_state :: token_grant_state
  ar_fingerprint :: string

datatype bridge_error = TimestampBeforeUnixEpoch

datatype 'e refresh_service_error = DecisionBridge bridge_error | CommandSink 'e

section \<open>Snapshots\<close>

definition snapshot_from_grant :: "token_grant \<Rightarrow> string \<Rightarrow> token_refresh_grant_snapshot" where
  "snapshot_from_grant g fingerprint = \<lparr>
     sn_grant_id = tg_id g, sn_tenant_id = tg_tenant_id g, sn_expected_fingerprint = fingerprint,
     sn_state = tg_state g,
     sn_has_refresh_material = (ot_refresh_token (tg_tokens g) \<noteq> None),
     sn_revoked_at = tg_revoked_at g, sn_reauth_required_at = tg_reauth_required_at g\<rparr>"

definition short_circuit_reason ::
  "token_refresh_grant_snapshot \<Rightarrow> token_refresh_short_circuit_reason option" where
  "short_circuit_reason s =
     (if sn_state s = Revoked \<or> sn_revoked_at s \<noteq> None then Some ScRevoked
      else if sn_state s = ReauthRequired \<or> sn_reauth_required_at s \<noteq> None
      then Some ScReauthRequired
      else if \<not> sn_has_refresh_material s then Some ScMissingRefreshMaterial
      else None)"

section \<open>The grant blob\<close>

text \<open>\<open>u32::to_be_bytes\<close>, and \<open>len() as u32\<close>, which keeps the low 32 bits.\<close>

definition to_be_bytes :: "u32 \<Rightarrow> u8 list" where
  "to_be_bytes w = [ucast (drop_bit 24 w), ucast (drop_bit 16 w), ucast (drop_bit 8 w), ucast w]"

definition into_blob :: "encrypted_grant_material \<Rightarrow> encrypted_grant_blob" where
  "into_blob m =
     (let primary_len = (word_of_nat (length (gm_encrypted_primary m)) :: u32);
          renewal_len = (word_of_nat (length (gm_encrypted_renewal m)) :: u32)
      in EncryptedGrantBlob (to_be_bytes primary_len @ gm_encrypted_primary m @
           to_be_bytes renewal_len @ gm_encrypted_renewal m))"

section \<open>Decisions and commands\<close>

definition decide_token_refresh :: "token_refresh_attempt \<Rightarrow> token_refresh_decision" where
  "decide_token_refresh a = (case at_outcome a of
      RefreshSuccess material key_id new_fingerprint refreshed_at expires_at \<Rightarrow>
        DecideRotateGrantCas (at_grant_id a) (at_tenant_id a) (at_expected_fingerprint a)
          material key_id new_fingerprint refreshed_at expires_at
    | TransientFailure e \<Rightarrow>
        DecideMarkNeedsRefresh (at_grant_id a) (at_tenant_id a) (at_expected_fingerprint a)
          (sanitize_refresh_error_for_report e)
    | ReauthFailure e \<Rightarrow>
        DecideMarkReauthRequired (at_grant_id a) (at_tenant_id a) (at_expected_fingerprint a)
          (sanitize_refresh_error_for_report e)
    | ConfigRequired e \<Rightarrow>
        DecideMarkConfigRequired (at_grant_id a) (at_tenant_id a) (at_expected_fingerprint a)
          (sanitize_refresh_error_for_report e))"

fun decision_kind :: "token_refresh_decision \<Rightarrow> refresh_kind" where
  "decision_kind (DecideRotateGrantCas _ _ _ _ _ _ _ _) = KindRotateGrantCas"
| "decision_kind (DecideMarkNeedsRefresh _ _ _ _) = KindMarkNeedsRefresh"
| "decision_kind (DecideMarkReauthRequired _ _ _ _) = KindMarkReauthRequired"
| "decision_kind (DecideMarkConfigRequired _ _ _ _) = KindMarkConfigRequired"

fun decision_safe_error :: "token_refresh_decision \<Rightarrow> string option" where
  "decision_safe_error (DecideRotateGrantCas _ _ _ _ _ _ _ _) = None"
| "decision_safe_error (DecideMarkNeedsRefresh _ _ _ e) = Some e"
| "decision_safe_error (DecideMarkReauthRequired _ _ _ e) = Some e"
| "decision_safe_error (DecideMarkConfigRequired _ _ _ e) = Some e"

fun command_kind :: "token_refresh_command \<Rightarrow> refresh_kind" where
  "command_kind (RotateGrantCas _ _ _ _ _ _ _ _) = KindRotateGrantCas"
| "command_kind (MarkNeedsRefresh _ _ _ _ _) = KindMarkNeedsRefresh"
| "command_kind (MarkReauthRequired _ _ _ _ _) = KindMarkReauthRequired"
| "command_kind (MarkConfigRequired _ _ _ _ _) = KindMarkConfigRequired"

definition system_time_to_ms :: "system_time \<Rightarrow> (u64, bridge_error) result" where
  "system_time_to_ms t = ok_or TimestampBeforeUnixEpoch (millis_since_epoch t)"

text \<open>\<open>opt.map(f).transpose()?\<close>.\<close>

definition transpose_map :: "('a \<Rightarrow> ('b, 'e) result) \<Rightarrow> 'a option \<Rightarrow> ('b option, 'e) result" where
  "transpose_map f x = (case x of None \<Rightarrow> Ok None | Some v \<Rightarrow> try_then (f v) (\<lambda>w. Ok (Some w)))"

fun into_repository_command_at ::
  "token_refresh_decision \<Rightarrow> system_time \<Rightarrow> (token_refresh_command, bridge_error) result" where
  "into_repository_command_at
     (DecideRotateGrantCas gid tid fp material key_id new_fp refreshed_at expires_at) now =
     try_then (transpose_map system_time_to_ms expires_at) (\<lambda>expires_at_ms.
     try_then (system_time_to_ms refreshed_at) (\<lambda>refreshed_at_ms.
       Ok (RotateGrantCas gid tid fp expires_at_ms refreshed_at_ms (into_blob material) key_id
         new_fp)))"
| "into_repository_command_at (DecideMarkNeedsRefresh gid tid fp e) now =
     try_then (system_time_to_ms now) (\<lambda>ms. Ok (MarkNeedsRefresh gid tid fp ms e))"
| "into_repository_command_at (DecideMarkReauthRequired gid tid fp e) now =
     try_then (system_time_to_ms now) (\<lambda>ms. Ok (MarkReauthRequired gid tid fp ms e))"
| "into_repository_command_at (DecideMarkConfigRequired gid tid fp e) now =
     try_then (system_time_to_ms now) (\<lambda>ms. Ok (MarkConfigRequired gid tid fp ms e))"

definition plan_token_refresh_command ::
  "token_refresh_grant_snapshot \<Rightarrow> refresh_outcome \<Rightarrow> system_time
     \<Rightarrow> (token_refresh_planned_command, bridge_error) result" where
  "plan_token_refresh_command s outcome now =
     (let attempt = \<lparr>at_grant_id = sn_grant_id s, at_tenant_id = sn_tenant_id s,
            at_expected_fingerprint = sn_expected_fingerprint s, at_outcome = outcome\<rparr>;
          decision = decide_token_refresh attempt
      in try_then (into_repository_command_at decision now) (\<lambda>command.
           Ok \<lparr>pc_command = command,
               pc_report = \<lparr>cp_grant_id = sn_grant_id s, cp_tenant_id = sn_tenant_id s,
                 cp_decision_kind = decision_kind decision, cp_command_kind = command_kind command,
                 cp_safe_error = decision_safe_error decision\<rparr>\<rparr>))"

section \<open>Reports\<close>

definition service_report_audit_summary ::
  "token_refresh_service_report \<Rightarrow> token_refresh_audit_summary" where
  "service_report_audit_summary r = \<lparr>su_grant_id = sr_grant_id r, su_tenant_id = sr_tenant_id r,
     su_status = sr_status r, su_decision = sr_decision r, su_command = sr_command r,
     su_safe_error = sr_safe_error r\<rparr>"

definition command_report_audit_summary ::
  "token_refresh_command_report \<Rightarrow> refresh_report_status \<Rightarrow> token_refresh_audit_summary" where
  "command_report_audit_summary r status = \<lparr>su_grant_id = cp_grant_id r,
     su_tenant_id = cp_tenant_id r, su_status = status, su_decision = Some (cp_decision_kind r),
     su_command = Some (cp_command_kind r),
     su_safe_error = map_option sanitize_refresh_error_for_report (cp_safe_error r)\<rparr>"

definition into_service_report ::
  "token_refresh_command_report \<Rightarrow> bool \<Rightarrow> token_refresh_service_report" where
  "into_service_report r applied = \<lparr>sr_grant_id = cp_grant_id r, sr_tenant_id = cp_tenant_id r,
     sr_status = (if applied then ReportSucceeded else ReportConflictNoop),
     sr_adapter_called = True, sr_sink_called = True, sr_decision = Some (cp_decision_kind r),
     sr_command = Some (cp_command_kind r),
     sr_safe_error = map_option sanitize_refresh_error_for_report (cp_safe_error r)\<rparr>"

definition token_refresh_short_circuit_report ::
  "token_refresh_grant_snapshot \<Rightarrow> token_refresh_service_report option" where
  "token_refresh_short_circuit_report s = map_option (\<lambda>reason. \<lparr>
     sr_grant_id = sn_grant_id s, sr_tenant_id = sn_tenant_id s, sr_status = ShortCircuited reason,
     sr_adapter_called = False, sr_sink_called = False, sr_decision = None, sr_command = None,
     sr_safe_error = None\<rparr>) (short_circuit_reason s)"

section \<open>The service\<close>

record ('a, 's, 'e) refresh_ops =
  rf_refresh :: "'a \<Rightarrow> token_refresh_grant_snapshot \<Rightarrow> refresh_outcome \<times> 'a"
  rf_apply :: "'s \<Rightarrow> token_refresh_command
     \<Rightarrow> (token_refresh_apply_result option, 'e) result \<times> 's"

record ('a, 's) refresh_service =
  rs_adapter :: 'a
  rs_sink :: 's

definition refresh_grant_at ::
  "('a, 's, 'e) refresh_ops \<Rightarrow> ('a, 's) refresh_service \<Rightarrow> token_refresh_grant_snapshot
     \<Rightarrow> system_time
     \<Rightarrow> (token_refresh_service_report, 'e refresh_service_error) result
         \<times> ('a, 's) refresh_service" where
  "refresh_grant_at R sv snapshot now =
     (case token_refresh_short_circuit_report snapshot of
        Some report \<Rightarrow> (Ok report, sv)
      | None \<Rightarrow>
         (let (outcome, ad) = rf_refresh R (rs_adapter sv) snapshot; sv = sv\<lparr>rs_adapter := ad\<rparr>
          in try_st (map_err DecisionBridge (plan_token_refresh_command snapshot outcome now), sv)
            (\<lambda>planned sv.
              let (applied, sink) = rf_apply R (rs_sink sv) (pc_command planned)
              in try_st (map_err CommandSink applied, sv\<lparr>rs_sink := sink\<rparr>) (\<lambda>apply_result sv.
                (Ok (into_service_report (pc_report planned) (apply_result \<noteq> None)), sv)))))"

section \<open>Lemmas\<close>

lemma short_circuit_iff:
  "short_circuit_reason (snapshot_from_grant g fp) = None \<longleftrightarrow> is_refreshable g"
  by (cases "tg_state g")
    (auto simp: short_circuit_reason_def snapshot_from_grant_def is_refreshable_def)

text \<open>A command carries the snapshot's identity and fingerprint, whatever the outcome.\<close>

lemma plan_command_bound:
  assumes "plan_token_refresh_command s outcome now = Ok planned"
  shows "cmd_grant_id (pc_command planned) = sn_grant_id s"
    and "cmd_tenant_id (pc_command planned) = sn_tenant_id s"
    and "cmd_expected_fingerprint (pc_command planned) = sn_expected_fingerprint s"
    and "command_kind (pc_command planned) = cp_command_kind (pc_report planned)"
    and "cp_decision_kind (pc_report planned) = cp_command_kind (pc_report planned)"
    and "cp_grant_id (pc_report planned) = sn_grant_id s"
    and "cp_tenant_id (pc_report planned) = sn_tenant_id s"
  using assms
  by (cases outcome; auto simp: plan_token_refresh_command_def decide_token_refresh_def Let_def
      try_then_Ok_iff)+

lemma plan_command_safe_error:
  assumes "plan_token_refresh_command s outcome now = Ok planned"
  shows "\<forall>e. cp_safe_error (pc_report planned) = Some e \<longrightarrow> e \<in> set refresh_error_reports"
  using assms sanitize_refresh_error_range
  by (cases outcome) (auto simp: plan_token_refresh_command_def decide_token_refresh_def Let_def
      try_then_Ok_iff)

lemma plan_command_error_iff:
  "(\<exists>e. plan_token_refresh_command s outcome now = Err e) \<longleftrightarrow>
   (case outcome of
      RefreshSuccess _ _ _ refreshed_at expires_at \<Rightarrow>
        refreshed_at < 0 \<or> (\<exists>t. expires_at = Some t \<and> t < 0)
    | _ \<Rightarrow> now < 0)"
  by (cases outcome)
    (auto simp: plan_token_refresh_command_def decide_token_refresh_def Let_def try_then_def
      system_time_to_ms_def transpose_map_def ok_or_def millis_since_epoch_def
      split: sum.splits option.splits if_splits)

fun outcome_kind :: "refresh_outcome \<Rightarrow> refresh_kind" where
  "outcome_kind (RefreshSuccess _ _ _ _ _) = KindRotateGrantCas"
| "outcome_kind (TransientFailure _) = KindMarkNeedsRefresh"
| "outcome_kind (ReauthFailure _) = KindMarkReauthRequired"
| "outcome_kind (ConfigRequired _) = KindMarkConfigRequired"

lemma plan_command_kind:
  assumes "plan_token_refresh_command s outcome now = Ok planned"
  shows "command_kind (pc_command planned) = outcome_kind outcome"
  using assms
  by (cases outcome) (auto simp: plan_token_refresh_command_def decide_token_refresh_def Let_def
      try_then_Ok_iff)

lemma refresh_short_circuited:
  assumes "short_circuit_reason s = Some reason"
  shows "\<exists>rep. refresh_grant_at R sv s now = (Ok rep, sv) \<and> sr_status rep = ShortCircuited reason \<and>
    \<not> sr_adapter_called rep \<and> \<not> sr_sink_called rep"
  using assms by (simp add: refresh_grant_at_def token_refresh_short_circuit_report_def)

text \<open>The one way to a report when nothing short-circuits.\<close>

lemma refresh_grant_at_OkE:
  assumes "refresh_grant_at R sv s now = (Ok rep, sv')" and "short_circuit_reason s = None"
  obtains outcome ad planned res sink where
    "rf_refresh R (rs_adapter sv) s = (outcome, ad)"
    and "plan_token_refresh_command s outcome now = Ok planned"
    and "rf_apply R (rs_sink sv) (pc_command planned) = (Ok res, sink)"
    and "sv' = sv\<lparr>rs_adapter := ad, rs_sink := sink\<rparr>"
    and "rep = into_service_report (pc_report planned) (res \<noteq> None)"
proof -
  obtain outcome ad where 1: "rf_refresh R (rs_adapter sv) s = (outcome, ad)" by fastforce
  obtain planned where 2: "plan_token_refresh_command s outcome now = Ok planned"
    using assms 1 by (cases "plan_token_refresh_command s outcome now")
      (auto simp: refresh_grant_at_def token_refresh_short_circuit_report_def Let_def)
  obtain res sink where 3: "rf_apply R (rs_sink sv) (pc_command planned) = (res, sink)" by fastforce
  show thesis
  proof (cases res)
    case (Inl e)
    with assms 1 2 3 show thesis
      by (simp add: refresh_grant_at_def token_refresh_short_circuit_report_def Let_def)
  next
    case (Inr v)
    with assms 1 2 3 show thesis
      by (intro that [of outcome ad planned v sink])
        (auto simp: refresh_grant_at_def token_refresh_short_circuit_report_def Let_def)
  qed
qed

section \<open>Properties\<close>

text \<open>
  A grant that is not refreshable (revoked, waiting for reauthorisation, or without a refresh
  token) is reported as short-circuited without calling the authorisation adapter or touching the
  grant repository; and for a refreshable grant the service never reports a short circuit.
\<close>

theorem refresh_short_circuit_exact:
  assumes "refresh_grant_at R sv (snapshot_from_grant g fp) now = (r, sv')"
  shows "if is_refreshable g
    then \<forall>rep reason. r = Ok rep \<longrightarrow> sr_status rep \<noteq> ShortCircuited reason \<and> sr_adapter_called rep
    else sv' = sv \<and> (\<exists>rep reason. r = Ok rep \<and> sr_status rep = ShortCircuited reason \<and>
      \<not> sr_adapter_called rep \<and> \<not> sr_sink_called rep)"
proof (cases "short_circuit_reason (snapshot_from_grant g fp)")
  case None
  then have "is_refreshable g" by (simp add: short_circuit_iff)
  moreover have "sr_status rep \<noteq> ShortCircuited reason \<and> sr_adapter_called rep"
    if "r = Ok rep" for rep reason
    using assms unfolding that
    by (rule refresh_grant_at_OkE [OF _ None]) (simp add: into_service_report_def)
  ultimately show ?thesis by simp
next
  case (Some reason)
  then have "\<not> is_refreshable g" by (metis short_circuit_iff option.distinct(1))
  with refresh_short_circuited [OF Some, of R sv now] assms show ?thesis by auto
qed

definition sample_refresh_ops :: "(nat, nat, unit) refresh_ops" where
  "sample_refresh_ops = \<lparr>rf_refresh = (\<lambda>n _. (TransientFailure '' temporarily unavailable '', n + 1)),
     rf_apply = (\<lambda>n c. (Ok (Some \<lparr>ar_grant_id = cmd_grant_id c, ar_tenant_id = cmd_tenant_id c,
       ar_state = NeedsRefresh, ar_fingerprint = cmd_expected_fingerprint c\<rparr>), n + 1))\<rparr>"

definition sample_service :: "(nat, nat) refresh_service" where
  "sample_service = \<lparr>rs_adapter = 0, rs_sink = 0\<rparr>"

lemma refresh_short_circuit_exact_witness:
  "\<not> is_refreshable (sample_grant\<lparr>tg_state := Revoked\<rparr>) \<and>
   snd (refresh_grant_at sample_refresh_ops sample_service
     (snapshot_from_grant (sample_grant\<lparr>tg_state := Revoked\<rparr>) ''fp'') 5) = sample_service"
proof -
  have "\<not> is_refreshable (sample_grant\<lparr>tg_state := Revoked\<rparr>)" by (simp add: is_refreshable_def)
  with refresh_short_circuit_exact [where R = sample_refresh_ops and sv = sample_service
      and g = "sample_grant\<lparr>tg_state := Revoked\<rparr>" and fp = "''fp''" and now = 5,
      OF prod.collapse [symmetric]]
  show ?thesis by simp
qed

text \<open>
  When the service reports anything other than a short circuit, the adapter was asked about
  exactly this snapshot, one command was applied, of the kind that the adapter's answer calls for
  and bound to the snapshot's grant, tenant and fingerprint; the report says success exactly when
  the repository changed a row; and an error text in the report is one of the six fixed texts and
  contains no sensitive marker.
\<close>

theorem refresh_report_faithful:
  assumes "refresh_grant_at R sv s now = (Ok rep, sv')" and "short_circuit_reason s = None"
  shows "\<exists>outcome ad cmd res sink. rf_refresh R (rs_adapter sv) s = (outcome, ad) \<and>
    rf_apply R (rs_sink sv) cmd = (Ok res, sink) \<and> sv' = sv\<lparr>rs_adapter := ad, rs_sink := sink\<rparr> \<and>
    cmd_grant_id cmd = sn_grant_id s \<and> cmd_tenant_id cmd = sn_tenant_id s \<and>
    cmd_expected_fingerprint cmd = sn_expected_fingerprint s \<and>
    command_kind cmd = outcome_kind outcome \<and> sr_command rep = Some (outcome_kind outcome) \<and>
    sr_status rep = (if res = None then ReportConflictNoop else ReportSucceeded) \<and>
    sr_grant_id rep = sn_grant_id s \<and> sr_tenant_id rep = sn_tenant_id s \<and>
    (\<forall>e. sr_safe_error rep = Some e \<longrightarrow>
       e \<in> set refresh_error_reports \<and> \<not> contains_sensitive_marker e)"
proof (rule refresh_grant_at_OkE [OF assms])
  fix outcome ad planned res sink
  assume run: "rf_refresh R (rs_adapter sv) s = (outcome, ad)"
    "rf_apply R (rs_sink sv) (pc_command planned) = (Ok res, sink)"
    "sv' = sv\<lparr>rs_adapter := ad, rs_sink := sink\<rparr>"
    and plan: "plan_token_refresh_command s outcome now = Ok planned"
    and rep: "rep = into_service_report (pc_report planned) (res \<noteq> None)"
  note bound = plan_command_bound [OF plan] plan_command_kind [OF plan]
  have "\<forall>e. sr_safe_error rep = Some e \<longrightarrow> e \<in> set refresh_error_reports \<and> \<not> contains_sensitive_marker e"
    using rep sanitize_refresh_error_range sanitize_refresh_error_clean
    by (auto simp: into_service_report_def)
  moreover have "sr_command rep = Some (outcome_kind outcome)"
    "sr_status rep = (if res = None then ReportConflictNoop else ReportSucceeded)"
    "sr_grant_id rep = sn_grant_id s" "sr_tenant_id rep = sn_tenant_id s"
    using rep bound by (simp_all add: into_service_report_def)
  ultimately show ?thesis using run bound by (intro exI conjI)
qed

lemma refresh_report_faithful_witness:
  "\<exists>rep. refresh_grant_at sample_refresh_ops sample_service (snapshot_from_grant sample_grant ''fp'') 5 =
     (Ok rep, \<lparr>rs_adapter = 1, rs_sink = 1\<rparr>) \<and> sr_command rep = Some KindMarkNeedsRefresh \<and>
     sr_status rep = ReportSucceeded"
proof -
  let ?s = "snapshot_from_grant sample_grant ''fp''"
  have none: "short_circuit_reason ?s = None"
    by (simp add: short_circuit_reason_def snapshot_from_grant_def sample_grant_def sample_tokens_def)
  then obtain rep where run: "refresh_grant_at sample_refresh_ops sample_service ?s 5 =
      (Ok rep, \<lparr>rs_adapter = 1, rs_sink = 1\<rparr>)"
    by (simp add: refresh_grant_at_def token_refresh_short_circuit_report_def sample_refresh_ops_def
        sample_service_def plan_token_refresh_command_def decide_token_refresh_def
        system_time_to_ms_def millis_since_epoch_def)
  from refresh_report_faithful [OF this none] run show ?thesis
    by (auto simp: sample_refresh_ops_def sample_service_def)
qed

end
