(* ===== verification/Token_Refresh_Audit.thy ===== *)
theory Token_Refresh_Audit
  imports Token_Refresh Audit_Log
begin

text \<open>
  Audit events of token refresh (\<open>action/token_refresh_audit.rs\<close>): how a refresh summary becomes
  an event of the audit log.
\<close>

record token_refresh_audit_context =
  tc_trace_id :: string
  tc_sequence :: u64
  tc_occurred_at_ms :: u64
  tc_actor :: audit_actor
  tc_workspace_id :: "string option"

definition refresh_action_type :: "token_refresh_audit_summary \<Rightarrow> string" where
  "refresh_action_type s = (case su_status s of
      ReportSucceeded \<Rightarrow> (case su_command s of
          Some KindRotateGrantCas \<Rightarrow> ''token_refresh.rotate''
        | Some KindMarkNeedsRefresh \<Rightarrow> ''token_refresh.mark_needs_refresh''
        | Some KindMarkReauthRequired \<Rightarrow> ''token_refresh.mark_reauth_required''
        | Some KindMarkConfigRequired \<Rightarrow> ''token_refresh.mark_config_required''
        | None \<Rightarrow> ''token_refresh.refresh'')
    | ReportConflictNoop \<Rightarrow> ''token_refresh.conflict_noop''
    | ShortCircuited _ \<Rightarrow> ''token_refresh.short_circuit'')"

definition token_refresh_target :: "token_refresh_audit_summary \<Rightarrow> audit_target" where
  "token_refresh_target s = \<lparr>at_resource_type = ''token_grant'',
     at_resource_id = grant_str (su_grant_id s), at_action_type = refresh_action_type s\<rparr>"

definition before_summary :: "token_refresh_audit_summary \<Rightarrow> audit_state_summary" where
  "before_summary s = \<lparr>ss_summary = ''token_refresh_before'',
     ss_reference_ids = [grant_str (su_grant_id s)], ss_content_hash = None\<rparr>"

definition refresh_detail :: "string option \<Rightarrow> string" where
  "refresh_detail safe_error = (case safe_error of
      None \<Rightarrow> []
    | Some safe \<Rightarrow> if trim safe = [] then [] else '' ('' @ safe @ '')'')"

definition after_summary :: "token_refresh_audit_summary \<Rightarrow> audit_state_summary" where
  "after_summary s =
     (let outcome = (case su_status s of
            ReportSucceeded \<Rightarrow> ''succeeded''
          | ReportConflictNoop \<Rightarrow> ''conflict_noop''
          | ShortCircuited _ \<Rightarrow> ''short_circuited'')
      in \<lparr>ss_summary = ''token_refresh_after:'' @ outcome @ refresh_detail (su_safe_error s),
          ss_reference_ids = [grant_str (su_grant_id s)], ss_content_hash = None\<rparr>)"

fun short_circuit_message :: "token_refresh_short_circuit_reason \<Rightarrow> string" where
  "short_circuit_message ScRevoked = ''grant denied: revoked''"
| "short_circuit_message ScReauthRequired = ''grant denied: reauthentication required''"
| "short_circuit_message ScMissingRefreshMaterial = ''grant denied: missing renewal material''"

fun short_circuit_code :: "token_refresh_short_circuit_reason \<Rightarrow> string" where
  "short_circuit_code ScRevoked = ''token_refresh_revoked''"
| "short_circuit_code ScReauthRequired = ''token_refresh_reauth_required''"
| "short_circuit_code ScMissingRefreshMaterial = ''token_refresh_missing_refresh_material''"

definition token_refresh_audit_event ::
  "token_refresh_audit_context \<Rightarrow> token_refresh_audit_summary \<Rightarrow> audit_event" where
  "token_refresh_audit_event c s =
     (let event_context = \<lparr>
            ac_event_id = tc_trace_id c @ ''-evt-'' @ show_u64 (tc_sequence c),
            ac_trace_id = tc_trace_id c, ac_sequence = tc_sequence c,
            ac_occurred_at_ms = tc_occurred_at_ms c,
            ac_subject = \<lparr>asb_actor = tc_actor c,
              asb_scope = \<lparr>as_tenant_id = tenant_str (su_tenant_id s),
                as_workspace_id = tc_workspace_id c\<rparr>,
              asb_target = token_refresh_target s\<rparr>\<rparr>;
          adapter_operation_id = ''token-refresh:'' @ grant_str (su_grant_id s)
      in case su_status s of
           ReportSucceeded \<Rightarrow> execution_succeeded_event event_context (Some (before_summary s))
             (Some (after_summary s)) adapter_operation_id
         | ReportConflictNoop \<Rightarrow> execution_failed_event event_context (Some (before_summary s))
             (Some (after_summary s)) ''token_refresh_conflict_noop'' ''state conflict noop''
         | ShortCircuited reason \<Rightarrow> execution_denied_event event_context
             (short_circuit_code reason) (short_circuit_message reason))"

section \<open>Properties\<close>

text \<open>The texts that can follow the outcome in an event: nothing, or one of the fixed reports.\<close>

definition refresh_details :: "string set" where
  "refresh_details = insert [] ((\<lambda>e. '' ('' @ e @ '')'') ` set refresh_error_reports)"

lemma service_report_detail:
  assumes "refresh_grant_at R sv s now = (Ok rep, sv')"
  shows "refresh_detail (sr_safe_error rep) \<in> refresh_details"
proof (cases "short_circuit_reason s")
  case (Some reason)
  with assms show ?thesis
    by (auto simp: refresh_grant_at_def token_refresh_short_circuit_report_def refresh_detail_def
        refresh_details_def)
next
  case None
  from assms show ?thesis
  proof (rule refresh_grant_at_OkE [OF _ None])
    fix planned and res :: "token_refresh_apply_result option"
    assume "rep = into_service_report (pc_report planned) (res \<noteq> None)"
    then show ?thesis
      using sanitize_refresh_error_range
      by (auto simp: into_service_report_def refresh_detail_def refresh_details_def
          split: option.splits)
  qed
qed

text \<open>
  The audit event of a refresh report says what happened and nothing the adapter said: a
  short circuit is recorded as a denial, a lost compare-and-swap as a failure and an applied
  command as a success, always under the report's tenant and grant, and whatever the adapter
  answered the summary text after the outcome is one of seven fixed texts.
\<close>

theorem refresh_audit_event_faithful:
  assumes "refresh_grant_at R sv s now = (Ok rep, sv')"
    and "ev = token_refresh_audit_event c (service_report_audit_summary rep)"
  shows "ae_event_type ev = (case sr_status rep of ReportSucceeded \<Rightarrow> ExecutionSucceeded
      | ReportConflictNoop \<Rightarrow> ExecutionFailed | ShortCircuited _ \<Rightarrow> ExecutionDenied) \<and>
    as_tenant_id (ae_scope ev) = tenant_str (sn_tenant_id s) \<and>
    at_resource_id (ae_target ev) = grant_str (sn_grant_id s) \<and>
    (\<forall>after. ae_after ev = Some after \<longrightarrow> (\<exists>detail \<in> refresh_details.
       ss_summary after = ''token_refresh_after:succeeded'' @ detail \<or>
       ss_summary after = ''token_refresh_after:conflict_noop'' @ detail))"
proof -
  have ids: "sr_tenant_id rep = sn_tenant_id s \<and> sr_grant_id rep = sn_grant_id s"
  proof (cases "short_circuit_reason s")
    case (Some reason)
    with assms(1) show ?thesis
      by (auto simp: refresh_grant_at_def token_refresh_short_circuit_report_def)
  next
    case None
    with assms(1) show ?thesis
      by (rule refresh_grant_at_OkE) (simp add: into_service_report_def plan_command_bound)
  qed
  with service_report_detail [OF assms(1)] show ?thesis
    by (cases "sr_status rep")
      (auto simp: assms(2) token_refresh_audit_event_def service_report_audit_summary_def event_defs
        token_refresh_target_def after_summary_def Let_def)
qed

lemma refresh_audit_event_faithful_witness:
  "ae_event_type (token_refresh_audit_event
     \<lparr>tc_trace_id = ''t'', tc_sequence = 1, tc_occurred_at_ms = 5,
      tc_actor = \<lparr>aa_kind = AuditSystem, aa_actor_id = ''s'', aa_display_name = None\<rparr>,
      tc_workspace_id = None\<rparr>
     (service_report_audit_summary (projr (fst (refresh_grant_at sample_refresh_ops sample_service
       (snapshot_from_grant (sample_grant\<lparr>tg_state := Revoked\<rparr>) ''fp'') 5))))) = ExecutionDenied"
proof -
  let ?s = "snapshot_from_grant (sample_grant\<lparr>tg_state := Revoked\<rparr>) ''fp''"
  have "short_circuit_reason ?s = Some ScRevoked"
    by (simp add: short_circuit_reason_def snapshot_from_grant_def)
  from refresh_short_circuited [OF this, of sample_refresh_ops sample_service 5] obtain rep where
    run: "refresh_grant_at sample_refresh_ops sample_service ?s 5 = (Ok rep, sample_service)"
    and "sr_status rep = ShortCircuited ScRevoked" by blast
  with refresh_audit_event_faithful [OF run refl] show ?thesis by simp
qed

end
