(* ===== verification/Json.thy ===== *)
theory Json
  imports OAR_Prelude
begin

text \<open>
  JSON values as \<open>serde_json::Value\<close> documents them: its enum of values, its three kinds of number,
  and the accessors the sources call. Reading a value from text is library code; components that
  do so take the reader as an argument.
\<close>

datatype json_number = PosInt u64 | NegInt int | FloatNum string

datatype json =
    JNull
  | JBool bool
  | JNumber json_number
  | JString string
  | JArray "json list"
  | JObject "(string \<times> json) list"

fun as_object :: "json \<Rightarrow> (string \<times> json) list option" where
  "as_object (JObject kvs) = Some kvs"
| "as_object _ = None"

fun as_array :: "json \<Rightarrow> json list option" where
  "as_array (JArray vs) = Some vs"
| "as_array _ = None"

fun as_str :: "json \<Rightarrow> string option" where
  "as_str (JString s) = Some s"
| "as_str _ = None"

fun as_u64 :: "json \<Rightarrow> u64 option" where
  "as_u64 (JNumber (PosInt n)) = Some n"
| "as_u64 _ = None"

definition obj_get :: "(string \<times> json) list \<Rightarrow> string \<Rightarrow> json option" where
  "obj_get kvs key = map_of kvs key"

text \<open>\<open>value.get(key)\<close> on a value: the member of an object, nothing for any other value.\<close>

definition json_get :: "json \<Rightarrow> string \<Rightarrow> json option" where
  "json_get v key = Option.bind (as_object v) (\<lambda>kvs. obj_get kvs key)"

lemma as_str_Some_iff [simp]: "as_str v = Some s \<longleftrightarrow> v = JString s"
  by (cases v) auto

lemma as_u64_Some_iff [simp]: "as_u64 v = Some n \<longleftrightarrow> v = JNumber (PosInt n)"
  by (cases v rule: as_u64.cases) auto

lemma as_array_Some_iff [simp]: "as_array v = Some vs \<longleftrightarrow> v = JArray vs"
  by (cases v) auto

lemma as_object_Some_iff [simp]: "as_object v = Some kvs \<longleftrightarrow> v = JObject kvs"
  by (cases v) auto

text \<open>The strings and keys that occur anywhere in a value.\<close>

fun json_texts :: "json \<Rightarrow> string list" where
  "json_texts (JString s) = [s]"
| "json_texts (JArray vs) = concat (map json_texts vs)"
| "json_texts (JObject kvs) = concat (map (\<lambda>kv. fst kv # json_texts (snd kv)) kvs)"
| "json_texts _ = []"

end
