(* ===== verification/Lark_Auth.thy ===== *)
theory Lark_Auth
  imports Token_Refresh Json
begin

text \<open>
  Feishu token refresh at the boundary of \<open>oar-core\<close> (\<open>lark/auth/\<close>): the request built from a
  snapshot, the client that bounds and screens the response, the parser of the response envelope
  and the adapter that turns it into a refresh outcome. The transport, the JSON reader and the
  dynamic downcast of a client error are arguments.
\<close>

section \<open>Data\<close>

datatype lark_auth_grant_state = LarkValid | LarkExpired | LarkNeedsRefresh | LarkRevoked
  | LarkReauthRequired

fun map_grant_state :: "token_grant_state \<Rightarrow> lark_auth_grant_state" where
  "map_grant_state Valid = LarkValid"
| "map_grant_state Expired = LarkExpired"
| "map_grant_state NeedsRefresh = LarkNeedsRefresh"
| "map_grant_state Revoked = LarkRevoked"
| "map_grant_state ReauthRequired = LarkReauthRequired"

record feishu_auth_refresh_request =
  fr_grant_id :: string
  fr_tenant_id :: string
  fr_expected_fingerprint :: string
  fr_grant_state :: lark_auth_grant_state
  fr_has_refresh_material :: bool
  fr_is_revoked :: bool
  fr_reauth_marked :: bool

definition request_from_snapshot :: "token_refresh_grant_snapshot \<Rightarrow> feishu_auth_refresh_request" where
  "request_from_snapshot s = \<lparr>fr_grant_id = grant_str (sn_grant_id s),
     fr_tenant_id = tenant_str (sn_tenant_id s),
     fr_expected_fingerprint = sn_expected_fingerprint s, fr_grant_state = map_grant_state (sn_state s),
     fr_has_refresh_material = sn_has_refresh_material s,
     fr_is_revoked = (sn_revoked_at s \<noteq> None),
     fr_reauth_marked = (sn_reauth_required_at s \<noteq> None)\<rparr>"

record feishu_auth_refresh_success =
  fs_encrypted_primary :: "u8 list"
  fs_encrypted_renewal :: "u8 list"
  fs_key_id :: string
  fs_new_fingerprint :: string
  fs_refreshed_at_ms :: u64
  fs_expires_at_ms :: "u64 option"

datatype feishu_auth_refresh_failure =
  AuthTransient string | AuthReauthRequired string | AuthConfigRequired string

datatype feishu_auth_refresh_response =
  AuthSuccess feishu_auth_refresh_success | AuthFailure feishu_auth_refresh_failure

datatype auth_parse_error = InvalidEnvelope | SensitiveContentDetected

datatype auth_client_error = TransportError | OversizedResponse nat | ParseError

section \<open>Safety\<close>

definition SAFE_TRANSIENT_ERROR :: string where
  "SAFE_TRANSIENT_ERROR = ''temporarily unavailable''"

definition SAFE_REAUTH_ERROR :: string where
  "SAFE_REAUTH_ERROR = ''reauthentication required''"

definition SAFE_CONFIG_ERROR :: string where
  "SAFE_CONFIG_ERROR = ''refresh_config_required''"

definition SAFE_AUTH_REFRESH_PARSE_FAILED :: string where
  "SAFE_AUTH_REFRESH_PARSE_FAILED = ''auth_refresh_parse_failed''"

definition SAFE_AUTH_REFRESH_OVERSIZED_RESPONSE :: string where
  "SAFE_AUTH_REFRESH_OVERSIZED_RESPONSE = ''auth_refresh_oversized_response''"

lemmas safe_error_defs = SAFE_TRANSIENT_ERROR_def SAFE_REAUTH_ERROR_def SAFE_CONFIG_ERROR_def
  SAFE_AUTH_REFRESH_PARSE_FAILED_def SAFE_AUTH_REFRESH_OVERSIZED_RESPONSE_def

definition sanitize_safe_error :: "string \<Rightarrow> string \<Rightarrow> string" where
  "sanitize_safe_error value fallback =
     (let trimmed = trim value in
      if trimmed = [] \<or> contains_sensitive_marker trimmed then fallback
      else if trimmed \<in> {''invalid_grant'', SAFE_TRANSIENT_ERROR, SAFE_REAUTH_ERROR,
        SAFE_CONFIG_ERROR, SAFE_AUTH_REFRESH_PARSE_FAILED, SAFE_AUTH_REFRESH_OVERSIZED_RESPONSE}
      then trimmed else fallback)"

fun reject_sensitive_json :: "json \<Rightarrow> (unit, auth_parse_error) result" where
  "reject_sensitive_json (JObject kvs) =
     foldr (\<lambda>kv rest.
       if contains_sensitive_marker (fst kv) then Err SensitiveContentDetected
       else try_then (reject_sensitive_json (snd kv)) (\<lambda>_. rest)) kvs (Ok ())"
| "reject_sensitive_json (JArray items) =
     foldr (\<lambda>item rest. try_then (reject_sensitive_json item) (\<lambda>_. rest)) items (Ok ())"
| "reject_sensitive_json (JString text) =
     (if contains_sensitive_marker text then Err SensitiveContentDetected else Ok ())"
| "reject_sensitive_json _ = Ok ()"

section \<open>The response parser\<close>

definition parse_string :: "json option \<Rightarrow> (string, auth_parse_error) result" where
  "parse_string v = ok_or InvalidEnvelope (Option.bind v as_str)"

definition parse_u64 :: "json option \<Rightarrow> (u64, auth_parse_error) result" where
  "parse_u64 v = ok_or InvalidEnvelope (Option.bind v as_u64)"

definition u8_try_from :: "u64 \<Rightarrow> u8 option" where
  "u8_try_from n = (if n < 256 then Some (ucast n) else None)"

fun parse_byte_loop :: "json list \<Rightarrow> u8 list \<Rightarrow> (u8 list, auth_parse_error) result" where
  "parse_byte_loop [] out = Ok out"
| "parse_byte_loop (item # items) out =
     try_then (ok_or InvalidEnvelope (as_u64 item)) (\<lambda>n.
     try_then (ok_or InvalidEnvelope (u8_try_from n)) (\<lambda>byte.
       parse_byte_loop items (out @ [byte])))"

definition parse_byte_vec :: "json option \<Rightarrow> (u8 list, auth_parse_error) result" where
  "parse_byte_vec v =
     try_then (ok_or InvalidEnvelope (Option.bind v as_array)) (\<lambda>arr. parse_byte_loop arr [])"

definition parse_safe_envelope ::
  "json \<Rightarrow> (feishu_auth_refresh_response, auth_parse_error) result" where
  "parse_safe_envelope value =
     try_then (ok_or InvalidEnvelope (as_object value)) (\<lambda>obj.
     try_then (ok_or InvalidEnvelope (Option.bind (obj_get obj ''outcome'') as_str)) (\<lambda>outcome.
       if outcome = ''success'' then
         try_then (parse_byte_vec (obj_get obj ''encrypted_primary'')) (\<lambda>primary.
         try_then (parse_byte_vec (obj_get obj ''encrypted_renewal'')) (\<lambda>renewal.
         try_then (parse_string (obj_get obj ''key_id'')) (\<lambda>key_id.
         try_then (parse_string (obj_get obj ''new_fingerprint'')) (\<lambda>fingerprint.
         try_then (parse_u64 (obj_get obj ''refreshed_at_ms'')) (\<lambda>refreshed.
         try_then (case obj_get obj ''expires_at_ms'' of
                None \<Rightarrow> Ok None
              | Some JNull \<Rightarrow> Ok None
              | Some v \<Rightarrow> try_then (parse_u64 (Some v)) (\<lambda>n. Ok (Some n))) (\<lambda>expires.
           Ok (AuthSuccess \<lparr>fs_encrypted_primary = primary, fs_encrypted_renewal = renewal,
             fs_key_id = key_id, fs_new_fingerprint = fingerprint,
             fs_refreshed_at_ms = refreshed, fs_expires_at_ms = expires\<rparr>)))))))
       else if outcome = ''transient_failure'' then
         try_then (parse_string (obj_get obj ''safe_error'')) (\<lambda>e. Ok (AuthFailure (AuthTransient e)))
       else if outcome = ''reauth_required'' then
         try_then (parse_string (obj_get obj ''safe_error''))
           (\<lambda>e. Ok (AuthFailure (AuthReauthRequired e)))
       else if outcome = ''config_required'' then
         try_then (parse_string (obj_get obj ''safe_error''))
           (\<lambda>e. Ok (AuthFailure (AuthConfigRequired e)))
       else Err InvalidEnvelope))"

definition parse_feishu_auth_refresh_response ::
  "(string \<Rightarrow> json option) \<Rightarrow> string \<Rightarrow> (feishu_auth_refresh_response, auth_parse_error) result" where
  "parse_feishu_auth_refresh_response from_str raw =
     (if contains_sensitive_marker raw then Err SensitiveContentDetected
      else try_then (ok_or InvalidEnvelope (from_str raw)) (\<lambda>value.
           try_then (reject_sensitive_json value) (\<lambda>_. parse_safe_envelope value)))"

section \<open>The safe client\<close>

definition DEFAULT_MAX_RESPONSE_BYTES :: nat where
  "DEFAULT_MAX_RESPONSE_BYTES = 64 * 1024"

record 't auth_safe_client =
  sc_transport :: 't
  sc_max_response_bytes :: nat

type_synonym ('t, 'e) auth_transport =
  "'t \<Rightarrow> feishu_auth_refresh_request \<Rightarrow> (string, 'e) result \<times> 't"

definition safe_client_new :: "'t \<Rightarrow> 't auth_safe_client" where
  "safe_client_new t = \<lparr>sc_transport = t, sc_max_response_bytes = DEFAULT_MAX_RESPONSE_BYTES\<rparr>"

definition safe_client_refresh ::
  "('t, 'e) auth_transport \<Rightarrow> (string \<Rightarrow> json option) \<Rightarrow> 't auth_safe_client
     \<Rightarrow> feishu_auth_refresh_request
     \<Rightarrow> (feishu_auth_refresh_response, auth_client_error) result \<times> 't auth_safe_client" where
  "safe_client_refresh execute from_str c request =
     (case execute (sc_transport c) request of (r, t) \<Rightarrow>
        try_st (map_err (\<lambda>_. TransportError) r, c\<lparr>sc_transport := t\<rparr>) (\<lambda>envelope c.
          if length envelope > sc_max_response_bytes c
          then (Err (OversizedResponse (sc_max_response_bytes c)), c)
          else (map_err (\<lambda>_. ParseError) (parse_feishu_auth_refresh_response from_str envelope), c)))"

section \<open>The adapter\<close>

definition map_error_to_outcome :: "('e \<Rightarrow> auth_client_error option) \<Rightarrow> 'e \<Rightarrow> refresh_outcome" where
  "map_error_to_outcome downcast error = (case downcast error of
      Some TransportError \<Rightarrow> TransientFailure SAFE_TRANSIENT_ERROR
    | Some (OversizedResponse _) \<Rightarrow> ConfigRequired SAFE_AUTH_REFRESH_OVERSIZED_RESPONSE
    | Some ParseError \<Rightarrow> ConfigRequired SAFE_AUTH_REFRESH_PARSE_FAILED
    | None \<Rightarrow> TransientFailure SAFE_TRANSIENT_ERROR)"

definition response_to_outcome ::
  "('e \<Rightarrow> auth_client_error option) \<Rightarrow> (feishu_auth_refresh_response, 'e) result
     \<Rightarrow> refresh_outcome" where
  "response_to_outcome downcast response = (case response of
      Inr (AuthSuccess s) \<Rightarrow>
        RefreshSuccess \<lparr>gm_encrypted_primary = fs_encrypted_primary s,
            gm_encrypted_renewal = fs_encrypted_renewal s\<rparr>
          (fs_key_id s) (fs_new_fingerprint s) (ms_to_system_time (fs_refreshed_at_ms s))
          (map_option ms_to_system_time (fs_expires_at_ms s))
    | Inr (AuthFailure (AuthTransient e)) \<Rightarrow>
        TransientFailure (sanitize_safe_error e SAFE_TRANSIENT_ERROR)
    | Inr (AuthFailure (AuthReauthRequired e)) \<Rightarrow>
        ReauthFailure (sanitize_safe_error e SAFE_REAUTH_ERROR)
    | Inr (AuthFailure (AuthConfigRequired e)) \<Rightarrow>
        ConfigRequired (sanitize_safe_error e SAFE_CONFIG_ERROR)
    | Inl error \<Rightarrow> map_error_to_outcome downcast error)"

definition auth_adapter_refresh ::
  "('c \<Rightarrow> feishu_auth_refresh_request \<Rightarrow> (feishu_auth_refresh_response, 'e) result \<times> 'c)
     \<Rightarrow> ('e \<Rightarrow> auth_client_error option) \<Rightarrow> 'c \<Rightarrow> token_refresh_grant_snapshot
     \<Rightarrow> refresh_outcome \<times> 'c" where
  "auth_adapter_refresh refresh downcast client snapshot =
     (let (response, client) = refresh client (request_from_snapshot snapshot)
      in (response_to_outcome downcast response, client))"

section \<open>Lemmas\<close>

lemma reject_items:
  assumes "foldr (\<lambda>item rest. try_then (f item) (\<lambda>_. rest)) items (Ok ()) = Ok ()"
    and "item \<in> set items"
  shows "f item = Ok ()"
  using assms by (induction items) (auto simp: try_then_Ok_iff)

lemma reject_members:
  assumes "foldr (\<lambda>kv rest. if P (fst kv) then Err e else try_then (f (snd kv)) (\<lambda>_. rest)) kvs (Ok ()) =
      Ok ()"
    and "kv \<in> set kvs"
  shows "\<not> P (fst kv) \<and> f (snd kv) = Ok ()"
  using assms by (induction kvs) (auto simp: try_then_Ok_iff split: if_splits)

lemma reject_sensitive_json_sound:
  "reject_sensitive_json v = Ok () \<Longrightarrow> t \<in> set (json_texts v) \<Longrightarrow> \<not> contains_sensitive_marker t"
proof (induction v rule: reject_sensitive_json.induct)
  case (1 kvs)
  from "1.prems"(2) obtain kv where kv: "kv \<in> set kvs" "t = fst kv \<or> t \<in> set (json_texts (snd kv))"
    by auto
  from reject_members [OF "1.prems"(1) [unfolded reject_sensitive_json.simps] kv(1)] kv "1.IH"
  show ?case by (cases kv) auto
next
  case (2 items)
  from "2.prems"(2) obtain item where item: "item \<in> set items" "t \<in> set (json_texts item)" by auto
  from reject_items [OF "2.prems"(1) [unfolded reject_sensitive_json.simps] item(1)] item "2.IH"
  show ?case by auto
qed (auto split: if_splits)

lemma parse_response_OkD:
  assumes "parse_feishu_auth_refresh_response from_str raw = Ok resp"
  shows "\<not> contains_sensitive_marker raw \<and> (\<exists>value. from_str raw = Some value \<and>
    (\<forall>t \<in> set (json_texts value). \<not> contains_sensitive_marker t) \<and>
    parse_safe_envelope value = Ok resp)"
  using assms reject_sensitive_json_sound
  by (auto simp: parse_feishu_auth_refresh_response_def try_then_Ok_iff split: if_splits)

definition safe_auth_errors :: "string list" where
  "safe_auth_errors = [''invalid_grant'', SAFE_TRANSIENT_ERROR, SAFE_REAUTH_ERROR,
     SAFE_CONFIG_ERROR, SAFE_AUTH_REFRESH_PARSE_FAILED, SAFE_AUTH_REFRESH_OVERSIZED_RESPONSE]"

lemma safe_auth_errors_members [simp]:
  "SAFE_TRANSIENT_ERROR \<in> set safe_auth_errors" "SAFE_REAUTH_ERROR \<in> set safe_auth_errors"
  "SAFE_CONFIG_ERROR \<in> set safe_auth_errors"
  "SAFE_AUTH_REFRESH_PARSE_FAILED \<in> set safe_auth_errors"
  "SAFE_AUTH_REFRESH_OVERSIZED_RESPONSE \<in> set safe_auth_errors"
  by (simp_all add: safe_auth_errors_def)

lemma sanitize_safe_error_range:
  "fallback \<in> set safe_auth_errors \<Longrightarrow> sanitize_safe_error v fallback \<in> set safe_auth_errors"
  by (auto simp: sanitize_safe_error_def safe_auth_errors_def Let_def)

fun outcome_error :: "refresh_outcome \<Rightarrow> string option" where
  "outcome_error (RefreshSuccess _ _ _ _ _) = None"
| "outcome_error (TransientFailure e) = Some e"
| "outcome_error (ReauthFailure e) = Some e"
| "outcome_error (ConfigRequired e) = Some e"

lemma outcome_error_range:
  "outcome_error (response_to_outcome downcast r) = Some e \<Longrightarrow> e \<in> set safe_auth_errors"
  by (auto simp: response_to_outcome_def map_error_to_outcome_def
      split: sum.splits feishu_auth_refresh_response.splits feishu_auth_refresh_failure.splits
        option.splits auth_client_error.splits
      intro!: sanitize_safe_error_range)

section \<open>Properties\<close>

text \<open>
  A response that the safe client accepts is at most as long as the configured bound, holds
  no sensitive marker in its raw text, and no string or member name anywhere in the parsed value
  holds one either; everything else is refused with an error that carries no response text.
\<close>

theorem safe_client_screens_response:
  assumes "safe_client_refresh execute from_str c request = (Ok resp, c')"
  shows "\<exists>envelope t value. execute (sc_transport c) request = (Ok envelope, t) \<and>
    c' = c\<lparr>sc_transport := t\<rparr> \<and> length envelope \<le> sc_max_response_bytes c \<and>
    \<not> contains_sensitive_marker envelope \<and> from_str envelope = Some value \<and>
    (\<forall>text \<in> set (json_texts value). \<not> contains_sensitive_marker text) \<and>
    parse_safe_envelope value = Ok resp"
proof -
  obtain r t where run: "execute (sc_transport c) request = (r, t)" by fastforce
  show ?thesis
  proof (cases r)
    case (Inl e)
    with assms run show ?thesis by (simp add: safe_client_refresh_def)
  next
    case (Inr envelope)
    with assms run have "parse_feishu_auth_refresh_response from_str envelope = Ok resp"
      and "length envelope \<le> sc_max_response_bytes c" and "c' = c\<lparr>sc_transport := t\<rparr>"
      by (auto simp: safe_client_refresh_def map_err_def split: if_splits sum.splits)
    with parse_response_OkD [OF this(1)] run Inr show ?thesis by auto
  qed
qed

definition sample_envelope :: json where
  "sample_envelope = JObject [(''outcome'', JString ''transient_failure''),
     (''safe_error'', JString ''temporarily unavailable'')]"

definition sample_transport :: "(unit, unit) auth_transport" where
  "sample_transport t q = (Ok ''transient'', t)"

definition sample_from_str :: "string \<Rightarrow> json option" where
  "sample_from_str raw = (if raw = ''transient'' then Some sample_envelope else None)"

lemma sample_envelope_clean:
  "\<not> contains_sensitive_marker ''transient''" "\<not> contains_sensitive_marker ''outcome''"
  "\<not> contains_sensitive_marker ''transient_failure''" "\<not> contains_sensitive_marker ''safe_error''"
  "\<not> contains_sensitive_marker ''temporarily unavailable''"
  by (simp_all add: quiet_text_clean quiet_eval)

lemma sample_refresh:
  "safe_client_refresh sample_transport sample_from_str (safe_client_new ())
     (request_from_snapshot (snapshot_from_grant sample_grant ''fp'')) =
   (Ok (AuthFailure (AuthTransient ''temporarily unavailable'')), safe_client_new ())"
  by (simp add: safe_client_refresh_def sample_transport_def safe_client_new_def
      DEFAULT_MAX_RESPONSE_BYTES_def parse_feishu_auth_refresh_response_def sample_from_str_def
      sample_envelope_def sample_envelope_clean parse_safe_envelope_def parse_string_def obj_get_def)

lemma safe_client_screens_response_witness:
  "\<exists>value. sample_from_str ''transient'' = Some value \<and>
    (\<forall>text \<in> set (json_texts value). \<not> contains_sensitive_marker text)"
  using safe_client_screens_response [OF sample_refresh]
  by (auto simp: sample_transport_def)

text \<open>
  Whatever the client answers or fails with, the error text of a refresh outcome is one of
  six fixed texts: no text of the remote service or of the transport gets through the adapter.
\<close>

theorem auth_adapter_errors_fixed:
  assumes "auth_adapter_refresh refresh downcast client snapshot = (outcome, client')"
    and "outcome_error outcome = Some e"
  shows "e \<in> {''invalid_grant'', ''temporarily unavailable'', ''reauthentication required'',
    ''refresh_config_required'', ''auth_refresh_parse_failed'', ''auth_refresh_oversized_response''}"
proof -
  obtain r where "outcome = response_to_outcome downcast r"
    using assms(1) by (auto simp: auth_adapter_refresh_def split: prod.splits)
  with assms(2) have "e \<in> set safe_auth_errors" by (auto intro: outcome_error_range)
  then show ?thesis by (simp only: safe_auth_errors_def safe_error_defs set_simps)
qed

lemma auth_adapter_errors_fixed_witness:
  "outcome_error (fst (auth_adapter_refresh
     (safe_client_refresh sample_transport sample_from_str) Some (safe_client_new ())
     (snapshot_from_grant sample_grant ''fp''))) \<noteq> None \<and>
   the (outcome_error (fst (auth_adapter_refresh
     (safe_client_refresh sample_transport sample_from_str) Some (safe_client_new ())
     (snapshot_from_grant sample_grant ''fp'')))) \<in>
   {''invalid_grant'', ''temporarily unavailable'', ''reauthentication required'',
    ''refresh_config_required'', ''auth_refresh_parse_failed'', ''auth_refresh_oversized_response''}"
proof -
  let ?run = "auth_adapter_refresh (safe_client_refresh sample_transport sample_from_str) Some
    (safe_client_new ()) (snapshot_from_grant sample_grant ''fp'')"
  have "outcome_error (fst ?run) \<noteq> None"
    by (simp add: auth_adapter_refresh_def sample_refresh response_to_outcome_def)
  with auth_adapter_errors_fixed [OF prod.collapse [symmetric, of ?run]] show ?thesis by auto
qed

text \<open>
  The text that the adapter falls back to when reauthorisation is needed never reaches the
  grant repository or a report: the report sanitiser does not know it and replaces it.
\<close>

theorem reauth_fallback_redacted:
  "decision_safe_error (decide_token_refresh \<lparr>at_grant_id = gid, at_tenant_id = tid,
     at_expected_fingerprint = fp,
     at_outcome = ReauthFailure (sanitize_safe_error [] SAFE_REAUTH_ERROR)\<rparr>) =
   Some ''<redacted refresh error>''"
proof -
  have "sanitize_refresh_error_for_report SAFE_REAUTH_ERROR = ''<redacted refresh error>''"
    by (simp add: sanitize_refresh_error_for_report_def SAFE_REAUTH_ERROR_def trim_ascii
        is_whitespace_def REDACTED_REFRESH_ERROR_def Let_def)
  then show ?thesis
    by (simp add: decide_token_refresh_def sanitize_safe_error_def trim_def)
qed

end
