(* ===== verification/Grant_Material.thy ===== *)
theory Grant_Material
  imports Lark_Auth
begin

text \<open>
  Encrypted grant material (\<open>oar-lark-adapter/src/material/\<close>, \<open>oar-lark-adapter/src/crypto/\<close>):
  the byte layout that \<open>oar-core\<close> writes and the adapter reads, the versioned AEAD envelope
  inside it, and the checks before a refresh token is handed out. AES-256-GCM and SHA-256 are
  library code: they are arguments of the definitions, and a theorem that needs more than their
  type states it as the hypothesis \<open>aead_law\<close>.
\<close>

section \<open>Bytes and UTF-8\<close>

type_synonym bytes = "u8 list"

definition string_of_bytes :: "bytes \<Rightarrow> string" where
  "string_of_bytes bs = map (\<lambda>b. char_of (unat b)) bs"

definition bytes_of_string :: "string \<Rightarrow> bytes" where
  "bytes_of_string s = map (\<lambda>c. word_of_nat (of_char c)) s"

abbreviation in_range :: "u8 \<Rightarrow> u8 \<Rightarrow> u8 \<Rightarrow> bool" where
  "in_range lo b hi \<equiv> lo \<le> b \<and> b \<le> hi"

text \<open>The well-formed byte sequences of \<open>String::from_utf8\<close>.\<close>

fun utf8_valid :: "bytes \<Rightarrow> bool" where
  "utf8_valid [] = True"
| "utf8_valid (a # rest) =
     (if a < 0x80 then utf8_valid rest
      else case rest of
        [] \<Rightarrow> False
      | b # rest1 \<Rightarrow>
         if in_range 0xC2 a 0xDF then in_range 0x80 b 0xBF \<and> utf8_valid rest1
         else case rest1 of
           [] \<Rightarrow> False
         | c # rest2 \<Rightarrow>
            if in_range 0xE0 a 0xEF
            then (if a = 0xE0 then in_range 0xA0 b 0xBF
                  else if a = 0xED then in_range 0x80 b 0x9F
                  else in_range 0x80 b 0xBF) \<and>
                 in_range 0x80 c 0xBF \<and> utf8_valid rest2
            else case rest2 of
              [] \<Rightarrow> False
            | d # rest3 \<Rightarrow>
               if in_range 0xF0 a 0xF4
               then (if a = 0xF0 then in_range 0x90 b 0xBF
                     else if a = 0xF4 then in_range 0x80 b 0x8F
                     else in_range 0x80 b 0xBF) \<and>
                    in_range 0x80 c 0xBF \<and> in_range 0x80 d 0xBF \<and> utf8_valid rest3
               else False)"

definition from_utf8 :: "bytes \<Rightarrow> string option" where
  "from_utf8 bs = (if utf8_valid bs then Some (string_of_bytes bs) else None)"

lemma length_bytes_of_string [simp]: "length (bytes_of_string s) = length s"
  by (simp add: bytes_of_string_def)

lemma string_of_bytes_of_string [simp]: "string_of_bytes (bytes_of_string s) = s"
proof -
  have "char_of (unat (word_of_nat (of_char c) :: u8)) = c" for c
  proof -
    have "unat (word_of_nat (of_char c) :: u8) = of_char c"
      using nat_of_char_less_256 [of c] by (simp add: unat_of_nat)
    then show ?thesis by simp
  qed
  then show ?thesis by (simp add: string_of_bytes_def bytes_of_string_def comp_def)
qed

section \<open>The grant blob\<close>

datatype blob_parse_error = BlobInvalid

text \<open>\<open>slice.get(a..b)\<close> and \<open>usize::checked_add\<close> on a 64-bit target.\<close>

definition get_range :: "'a list \<Rightarrow> nat \<Rightarrow> nat \<Rightarrow> 'a list option" where
  "get_range xs a b = (if a \<le> b \<and> b \<le> length xs then Some (take (b - a) (drop a xs)) else None)"

definition checked_add :: "nat \<Rightarrow> nat \<Rightarrow> nat option" where
  "checked_add a b = (if a + b < 2 ^ 64 then Some (a + b) else None)"

text \<open>\<open>u32::from_be_bytes\<close> on four bytes.\<close>

definition from_be_bytes :: "bytes \<Rightarrow> u32" where
  "from_be_bytes bs = word_of_nat (((unat (bs ! 0) * 256 + unat (bs ! 1)) * 256 + unat (bs ! 2)) * 256
     + unat (bs ! 3))"

definition parse_encrypted_grant_blob :: "bytes \<Rightarrow> (bytes \<times> bytes, blob_parse_error) result" where
  "parse_encrypted_grant_blob blob =
     try_then (ok_or BlobInvalid (get_range blob 0 4)) (\<lambda>primary_len_bytes.
     let primary_len = unat (from_be_bytes primary_len_bytes); primary_start = 4 in
     try_then (ok_or BlobInvalid (checked_add primary_start primary_len)) (\<lambda>primary_end.
     try_then (ok_or BlobInvalid (get_range blob primary_start primary_end)) (\<lambda>primary.
     let renewal_len_start = primary_end in
     try_then (ok_or BlobInvalid (checked_add renewal_len_start 4)) (\<lambda>renewal_len_end.
     try_then (ok_or BlobInvalid (get_range blob renewal_len_start renewal_len_end))
       (\<lambda>renewal_len_bytes.
     let renewal_len = unat (from_be_bytes renewal_len_bytes); renewal_start = renewal_len_end in
     try_then (ok_or BlobInvalid (checked_add renewal_start renewal_len)) (\<lambda>renewal_end.
     try_then (ok_or BlobInvalid (get_range blob renewal_start renewal_end)) (\<lambda>renewal.
       if renewal_end \<noteq> length blob then Err BlobInvalid else Ok (primary, renewal))))))))"

definition compose_encrypted_grant_blob :: "bytes \<Rightarrow> bytes \<Rightarrow> bytes" where
  "compose_encrypted_grant_blob primary renewal =
     to_be_bytes (word_of_nat (length primary)) @ primary @
     to_be_bytes (word_of_nat (length renewal)) @ renewal"

lemma compose_eq_into_blob:
  "compose_encrypted_grant_blob (gm_encrypted_primary m) (gm_encrypted_renewal m) =
   blob_bytes (into_blob m)"
  by (simp add: compose_encrypted_grant_blob_def into_blob_def Let_def)

lemma length_to_be_bytes [simp]: "length (to_be_bytes w) = 4"
  by (simp add: to_be_bytes_def)

lemma pow_256:
  "n div 2 ^ 24 = n div 256 div 256 div (256::nat)" "n div 2 ^ 16 = n div 256 div (256::nat)"
  "n div 2 ^ 8 = n div (256::nat)"
  by (simp_all add: div_mult2_eq [symmetric])

lemma horner_256: "d < 256 \<Longrightarrow> (m * 256 + d) div 256 = (m::nat)" "d < 256 \<Longrightarrow> (m * 256 + d) mod 256 = (d::nat)"
  by simp_all

lemma base_256_digits:
  assumes "(n::nat) < 2 ^ 32"
  shows "((n div 2 ^ 24 mod 256 * 256 + n div 2 ^ 16 mod 256) * 256 + n div 2 ^ 8 mod 256) * 256 +
    n mod 256 = n"
proof -
  have "n div 256 div 256 div 256 mod 256 = n div 256 div 256 div 256"
    using assms by (simp add: div_mult2_eq [symmetric] less_mult_imp_div_less)
  then show ?thesis unfolding pow_256 by (simp only: div_mult_mod_eq)
qed

lemma unat_byte:
  fixes w :: u32
  shows "unat (ucast w :: u8) = unat w mod 256" and "unat (drop_bit n w) = unat w div 2 ^ n"
proof -
  show "unat (ucast w :: u8) = unat w mod 256"
    by (simp add: unsigned_ucast_eq take_bit_eq_mod)
  show "unat (drop_bit n w) = unat w div 2 ^ n"
    by (simp only: unat_drop_bit_eq) (simp only: drop_bit_eq_div)
qed

lemma from_be_bytes_of_nat:
  "from_be_bytes [a, b, c, d] =
     word_of_nat (((unat a * 256 + unat b) * 256 + unat c) * 256 + unat d)"
  by (simp only: from_be_bytes_def nth_Cons_0 nth_Cons_Suc One_nat_def numeral_2_eq_2 numeral_3_eq_3)

lemma from_to_be_bytes [simp]: "from_be_bytes (to_be_bytes w) = w"
proof -
  have "unat w < 2 ^ 32" using unsigned_less [of w, where 'a = nat] by simp
  then show ?thesis
    unfolding to_be_bytes_def from_be_bytes_of_nat unat_byte by (simp only: base_256_digits) simp
qed

lemma to_from_be_bytes:
  assumes "length bs = 4"
  shows "to_be_bytes (from_be_bytes bs) = bs"
proof -
  obtain a b c d where bs: "bs = [a, b, c, d]"
    using assms by (auto simp: length_Suc_conv numeral_eq_Suc)
  define n where "n = ((unat a * 256 + unat b) * 256 + unat c) * 256 + unat d"
  have byte: "unat x < 256" for x :: u8 using unsigned_less [of x, where 'a = nat] by simp
  have "n < 2 ^ 32" using byte [of a] byte [of b] byte [of c] byte [of d] by (simp add: n_def)
  then have n: "unat (from_be_bytes bs) = n"
    unfolding bs from_be_bytes_of_nat n_def [symmetric] by (simp add: unat_of_nat)
  have "n div 2 ^ 24 mod 256 = unat a" "n div 2 ^ 16 mod 256 = unat b"
    "n div 2 ^ 8 mod 256 = unat c" "n mod 256 = unat d"
    unfolding pow_256 n_def using byte [of a] byte [of b] byte [of c] byte [of d]
    by (simp_all only: horner_256 mod_less)
  then have "map unat (to_be_bytes (from_be_bytes bs)) = map unat bs"
    unfolding to_be_bytes_def list.map unat_byte n by (simp only: bs list.map)
  then show ?thesis by (rule map_injective) (rule inj_unsigned)
qed

section \<open>Blob round trip\<close>

lemma get_range_append:
  assumes "a = length xs" and "b = length xs + length ys"
  shows "get_range (xs @ ys @ zs) a b = Some ys"
  using assms by (simp add: get_range_def)

lemma parse_compose:
  assumes "length primary < 2 ^ 32" and "length renewal < 2 ^ 32"
  shows "parse_encrypted_grant_blob (compose_encrypted_grant_blob primary renewal) =
    Ok (primary, renewal)"
proof -
  let ?h1 = "to_be_bytes (word_of_nat (length primary))"
  let ?h2 = "to_be_bytes (word_of_nat (length renewal))"
  let ?blob = "compose_encrypted_grant_blob primary renewal"
  have len: "unat (word_of_nat (length primary) :: u32) = length primary"
    "unat (word_of_nat (length renewal) :: u32) = length renewal"
    using assms by (simp_all add: unat_of_nat)
  have blob: "?blob = ?h1 @ primary @ ?h2 @ renewal"
    by (simp add: compose_encrypted_grant_blob_def)
  have 1: "get_range ?blob 0 4 = Some ?h1"
    using get_range_append [of 0 "[]" 4 ?h1] by (simp add: blob)
  have 2: "get_range ?blob 4 (4 + length primary) = Some primary"
    using get_range_append [of 4 ?h1 _ primary] by (simp add: blob)
  have 3: "get_range ?blob (4 + length primary) (4 + length primary + 4) = Some ?h2"
    using get_range_append [of _ "?h1 @ primary" _ ?h2 renewal] by (simp add: blob)
  have 4: "get_range ?blob (4 + length primary + 4) (4 + length primary + 4 + length renewal) =
      Some renewal"
    using get_range_append [of _ "?h1 @ primary @ ?h2" _ renewal "[]"] by (simp add: blob)
  have add: "checked_add 4 (length primary) = Some (4 + length primary)"
    "checked_add (4 + length primary) 4 = Some (4 + length primary + 4)"
    "checked_add (4 + length primary + 4) (length renewal) = Some (4 + length primary + 4 + length renewal)"
    using assms by (auto simp: checked_add_def)
  have "length ?blob = 4 + length primary + 4 + length renewal" by (simp add: blob)
  then show ?thesis
    unfolding parse_encrypted_grant_blob_def Let_def
    by (simp only: 1 2 3 4 add ok_or_simps try_then_simps from_to_be_bytes len) simp
qed

lemma get_range_SomeD: "get_range xs a b = Some ys \<Longrightarrow> a \<le> b \<and> b \<le> length xs \<and> ys = take (b - a) (drop a xs) \<and> length ys = b - a"
  by (auto simp: get_range_def split: if_splits)

lemma parse_Ok_compose:
  assumes "parse_encrypted_grant_blob blob = Ok (primary, renewal)"
  shows "blob = compose_encrypted_grant_blob primary renewal \<and>
    length primary < 2 ^ 32 \<and> length renewal < 2 ^ 32"
proof -
  have u32: "unat w < 2 ^ 32" for w :: u32 using unsigned_less [of w, where 'a = nat] by simp
  from assms obtain h1 pe h2 re where
    1: "get_range blob 0 4 = Some h1" and pe: "pe = 4 + unat (from_be_bytes h1)"
    and 2: "get_range blob 4 pe = Some primary"
    and 3: "get_range blob pe (pe + 4) = Some h2"
    and re: "re = pe + 4 + unat (from_be_bytes h2)"
    and 4: "get_range blob (pe + 4) re = Some renewal" and full: "re = length blob"
    unfolding parse_encrypted_grant_blob_def Let_def try_then_Ok_iff ok_or_Ok_iff
    by (auto simp: checked_add_def split: if_splits)
  note r = 1 [THEN get_range_SomeD] 2 [THEN get_range_SomeD] 3 [THEN get_range_SomeD]
    4 [THEN get_range_SomeD]
  have lens: "length h1 = 4" "length h2 = 4" "length primary = unat (from_be_bytes h1)"
    "length renewal = unat (from_be_bytes h2)"
    using r pe re by auto
  have "blob = h1 @ primary @ h2 @ renewal"
  proof -
    have "drop 4 (drop pe blob) = drop (pe + 4) blob" by (simp add: add.commute)
    then have 1: "take 4 (drop pe blob) @ drop (pe + 4) blob = drop pe blob"
      by (metis append_take_drop_id)
    have "pe - 4 + 4 = pe" using pe by simp
    then have "drop (pe - 4) (drop 4 blob) = drop pe blob" by (simp only: drop_drop)
    then have 2: "take (pe - 4) (drop 4 blob) @ drop pe blob = drop 4 blob"
      by (metis append_take_drop_id)
    have parts: "h1 = take 4 blob" "primary = take (pe - 4) (drop 4 blob)"
      "h2 = take 4 (drop pe blob)" "renewal = drop (pe + 4) blob"
      using r full by (simp_all add: get_range_def)
    show ?thesis unfolding parts by (simp only: 1 2 append_take_drop_id)
  qed
  moreover have "to_be_bytes (word_of_nat (length primary)) = h1"
    and "to_be_bytes (word_of_nat (length renewal)) = h2"
    unfolding lens(3,4) using lens(1,2) by (simp_all add: to_from_be_bytes)
  ultimately have "blob = compose_encrypted_grant_blob primary renewal"
    by (simp only: compose_encrypted_grant_blob_def)
  then show ?thesis unfolding lens(3,4) using u32 by blast
qed

section \<open>The envelope\<close>

definition ENVELOPE_VERSION_V1 :: u8 where
  "ENVELOPE_VERSION_V1 = 1"

definition NONCE_LEN_V1 :: nat where
  "NONCE_LEN_V1 = 12"

datatype decrypt_error = InvalidGrantEnvelope | DecryptionFailed

text \<open>\<open>Aes256Gcm\<close>: key, nonce and plaintext or ciphertext to a result that may fail.\<close>

type_synonym aead = "bytes \<Rightarrow> bytes \<Rightarrow> bytes \<Rightarrow> bytes option"

definition build_v1_envelope :: "bytes \<Rightarrow> bytes \<Rightarrow> bytes" where
  "build_v1_envelope nonce ciphertext =
     [ENVELOPE_VERSION_V1, word_of_nat NONCE_LEN_V1] @ nonce @ ciphertext"

definition decrypt_v1_envelope :: "aead \<Rightarrow> bytes \<Rightarrow> bytes \<Rightarrow> (bytes, decrypt_error) result" where
  "decrypt_v1_envelope decrypt key envelope =
     (if length envelope < 2 + NONCE_LEN_V1 then Err InvalidGrantEnvelope
      else if envelope ! 0 \<noteq> ENVELOPE_VERSION_V1 then Err InvalidGrantEnvelope
      else if unat (envelope ! 1) \<noteq> NONCE_LEN_V1 then Err InvalidGrantEnvelope
      else let nonce = take NONCE_LEN_V1 (drop 2 envelope);
               ciphertext = drop (2 + NONCE_LEN_V1) envelope
           in if ciphertext = [] then Err InvalidGrantEnvelope
              else ok_or DecryptionFailed (decrypt key nonce ciphertext))"

section \<open>The encryptor\<close>

record grant_encryption_input =
  gi_access_token :: secret_string
  gi_refresh_token :: secret_string
  gi_expires_in_seconds :: u64

record grant_envelope =
  ge_encrypted_primary :: bytes
  ge_encrypted_renewal :: bytes
  ge_key_id :: string
  ge_new_fingerprint :: string
  ge_refreshed_at_ms :: u64
  ge_expires_at_ms :: "u64 option"

datatype encryptor_error = EncryptionFailed

text \<open>One sealing; the nonce is the one that \<open>OsRng\<close> yields.\<close>

definition seal_bytes :: "aead \<Rightarrow> bytes \<Rightarrow> bytes \<Rightarrow> bytes \<Rightarrow> (bytes, encryptor_error) result" where
  "seal_bytes encrypt key nonce plaintext =
     try_then (ok_or EncryptionFailed (encrypt key nonce plaintext)) (\<lambda>ciphertext.
       Ok (build_v1_envelope nonce ciphertext))"

definition encrypt_grant ::
  "aead \<Rightarrow> (bytes \<Rightarrow> string) \<Rightarrow> string \<Rightarrow> bytes \<Rightarrow> u64 \<Rightarrow> bytes \<Rightarrow> bytes \<Rightarrow> grant_encryption_input
     \<Rightarrow> (grant_envelope, encryptor_error) result" where
  "encrypt_grant encrypt sha256_hex key_id key now_ms nonce1 nonce2 input =
     try_then (seal_bytes encrypt key nonce1
       (bytes_of_string (expose_secret (gi_access_token input)))) (\<lambda>primary.
     try_then (seal_bytes encrypt key nonce2
       (bytes_of_string (expose_secret (gi_refresh_token input)))) (\<lambda>renewal.
       let refreshed_at_ms = now_ms;
           expires_at_ms = Some (saturating_add refreshed_at_ms
             (saturating_mul (gi_expires_in_seconds input) 1000));
           new_fingerprint = sha256_hex (bytes_of_string key_id @ renewal)
       in Ok \<lparr>ge_encrypted_primary = primary, ge_encrypted_renewal = renewal, ge_key_id = key_id,
              ge_new_fingerprint = new_fingerprint, ge_refreshed_at_ms = refreshed_at_ms,
              ge_expires_at_ms = expires_at_ms\<rparr>))"

section \<open>Reading a stored grant\<close>

datatype access_token_read_error = InvalidBlob | DecryptFailed | InvalidUtf8

definition read_access_token_from_encrypted_grant ::
  "aead \<Rightarrow> bytes \<Rightarrow> bytes \<Rightarrow> (secret_string, access_token_read_error) result" where
  "read_access_token_from_encrypted_grant decrypt blob key =
     try_then (map_err (\<lambda>_. InvalidBlob) (parse_encrypted_grant_blob blob)) (\<lambda>(primary, _).
     try_then (map_err (\<lambda>_. DecryptFailed) (decrypt_v1_envelope decrypt key primary)) (\<lambda>token.
     try_then (ok_or InvalidUtf8 (from_utf8 token)) (\<lambda>token. Ok (SecretString token))))"

record stored_feishu_grant_material =
  sg_grant_id :: string
  sg_tenant_id :: string
  sg_encrypted_oauth_grant :: bytes
  sg_oauth_grant_key_id :: string
  sg_oauth_grant_fingerprint :: string
  sg_scope :: "string option"

record decrypted_feishu_grant_material =
  dg_refresh_token :: secret_string
  dg_scope :: "string option"

datatype ('s, 'k) material_error =
    MaterialStore 's
  | MaterialKeyResolver 'k
  | GrantMismatch
  | FingerprintMismatch
  | MalformedGrantMaterial
  | MaterialDecryptFailed

definition validate_stored_request ::
  "feishu_auth_refresh_request \<Rightarrow> stored_feishu_grant_material
     \<Rightarrow> (unit, ('s, 'k) material_error) result" where
  "validate_stored_request request stored =
     (if fr_grant_id request \<noteq> sg_grant_id stored \<or> fr_tenant_id request \<noteq> sg_tenant_id stored
      then Err GrantMismatch
      else if fr_expected_fingerprint request \<noteq> sg_oauth_grant_fingerprint stored
      then Err FingerprintMismatch
      else Ok ())"

definition decrypt_renewal_material ::
  "aead \<Rightarrow> bytes \<Rightarrow> stored_feishu_grant_material
     \<Rightarrow> (decrypted_feishu_grant_material, ('s, 'k) material_error) result" where
  "decrypt_renewal_material decrypt key stored =
     try_then (map_err (\<lambda>_. MalformedGrantMaterial)
       (parse_encrypted_grant_blob (sg_encrypted_oauth_grant stored))) (\<lambda>(_, renewal).
     try_then (map_err (\<lambda>_. MaterialDecryptFailed) (decrypt_v1_envelope decrypt key renewal))
       (\<lambda>refresh_token.
     try_then (ok_or MaterialDecryptFailed (from_utf8 refresh_token)) (\<lambda>refresh_token.
       Ok \<lparr>dg_refresh_token = SecretString refresh_token, dg_scope = sg_scope stored\<rparr>)))"

definition decrypt_and_validate ::
  "aead \<Rightarrow> (string \<Rightarrow> (bytes, 'k) result) \<Rightarrow> feishu_auth_refresh_request
     \<Rightarrow> stored_feishu_grant_material
     \<Rightarrow> (decrypted_feishu_grant_material, ('s, 'k) material_error) result" where
  "decrypt_and_validate decrypt key_for request stored =
     try_then (validate_stored_request request stored) (\<lambda>_.
     try_then (map_err MaterialKeyResolver (key_for (sg_oauth_grant_key_id stored))) (\<lambda>key.
       decrypt_renewal_material decrypt key stored))"

definition decrypted_grant_material ::
  "aead \<Rightarrow> (feishu_auth_refresh_request \<Rightarrow> (stored_feishu_grant_material, 's) result)
     \<Rightarrow> (string \<Rightarrow> (bytes, 'k) result) \<Rightarrow> feishu_auth_refresh_request
     \<Rightarrow> (decrypted_feishu_grant_material, ('s, 'k) material_error) result" where
  "decrypted_grant_material decrypt load key_for request =
     try_then (map_err MaterialStore (load request)) (\<lambda>stored.
       decrypt_and_validate decrypt key_for request stored)"

section \<open>Lemmas\<close>

text \<open>What AES-256-GCM documents: decryption inverts encryption, and a ciphertext carries a tag,
  so it is never empty.\<close>

definition aead_law :: "aead \<Rightarrow> aead \<Rightarrow> bool" where
  "aead_law encrypt decrypt \<longleftrightarrow> (\<forall>key nonce plaintext ciphertext.
     length nonce = NONCE_LEN_V1 \<longrightarrow> encrypt key nonce plaintext = Some ciphertext \<longrightarrow>
     ciphertext \<noteq> [] \<and> decrypt key nonce ciphertext = Some plaintext)"

lemma decrypt_seal:
  assumes "aead_law encrypt decrypt" and "length nonce = NONCE_LEN_V1"
    and "seal_bytes encrypt key nonce plaintext = Ok envelope"
  shows "decrypt_v1_envelope decrypt key envelope = Ok plaintext"
proof -
  from assms(3) obtain c where c: "encrypt key nonce plaintext = Some c"
    and env: "envelope = build_v1_envelope nonce c"
    by (auto simp: seal_bytes_def try_then_Ok_iff)
  with assms(1,2) have "c \<noteq> []" "decrypt key nonce c = Some plaintext"
    by (auto simp: aead_law_def)
  with assms(2) show ?thesis
    by (simp add: env decrypt_v1_envelope_def build_v1_envelope_def NONCE_LEN_V1_def Let_def)
qed

lemma envelope_layout:
  assumes "decrypt_v1_envelope decrypt key envelope = Ok plaintext"
  shows "\<exists>nonce ciphertext. envelope = build_v1_envelope nonce ciphertext \<and>
    length nonce = NONCE_LEN_V1 \<and> ciphertext \<noteq> [] \<and> decrypt key nonce ciphertext = Some plaintext"
proof -
  define nonce where "nonce = take 12 (drop 2 envelope)"
  define ciphertext where "ciphertext = drop 14 envelope"
  from assms have len: "14 \<le> length envelope" and "envelope ! 0 = 1" and "unat (envelope ! 1) = 12"
    and "ciphertext \<noteq> []" and "decrypt key nonce ciphertext = Some plaintext"
    by (auto simp: decrypt_v1_envelope_def ENVELOPE_VERSION_V1_def NONCE_LEN_V1_def Let_def
        nonce_def ciphertext_def split: if_splits)
  moreover have "envelope ! 1 = 12" using \<open>unat (envelope ! 1) = 12\<close>
    by (simp add: word_eq_iff_unsigned [where 'a = nat])
  moreover obtain a b rest where "envelope = a # b # rest"
    using len by (cases envelope; cases "tl envelope") auto
  ultimately have "envelope = build_v1_envelope nonce ciphertext" "length nonce = NONCE_LEN_V1"
    by (simp_all add: build_v1_envelope_def ENVELOPE_VERSION_V1_def NONCE_LEN_V1_def nonce_def
        ciphertext_def)
  with \<open>ciphertext \<noteq> []\<close> \<open>decrypt key nonce ciphertext = Some plaintext\<close> show ?thesis by blast
qed

section \<open>Properties\<close>

text \<open>
  The reader of the grant blob inverts its writer and accepts nothing else: a blob parses to
  two parts exactly when it is the composition of these parts, and the parts fit the 32-bit length
  fields.
\<close>

theorem grant_blob_parse_iff:
  "parse_encrypted_grant_blob blob = Ok (primary, renewal) \<longleftrightarrow>
   blob = compose_encrypted_grant_blob primary renewal \<and>
   length primary < 2 ^ 32 \<and> length renewal < 2 ^ 32"
  using parse_Ok_compose parse_compose by blast

text \<open>
  C36. Tokens survive storage: what the encryptor seals and the blob composes, the readers give
  back. For any authenticated cipher that inverts itself, the access token and the refresh token
  read from the stored blob with the same key are the ones that were sealed, provided they are
  UTF-8 and the sealed forms fit the length fields.
\<close>

theorem sealed_grant_roundtrip:
  assumes "aead_law encrypt decrypt"
    and "length nonce1 = NONCE_LEN_V1" and "length nonce2 = NONCE_LEN_V1"
    and "encrypt_grant encrypt sha256_hex key_id key now_ms nonce1 nonce2 input = Ok env"
    and "length (ge_encrypted_primary env) < 2 ^ 32" and "length (ge_encrypted_renewal env) < 2 ^ 32"
    and "blob = compose_encrypted_grant_blob (ge_encrypted_primary env) (ge_encrypted_renewal env)"
    and "utf8_valid (bytes_of_string (expose_secret (gi_access_token input)))"
    and "utf8_valid (bytes_of_string (expose_secret (gi_refresh_token input)))"
    and "sg_encrypted_oauth_grant stored = blob"
  shows "read_access_token_from_encrypted_grant decrypt blob key = Ok (gi_access_token input) \<and>
    decrypt_renewal_material decrypt key stored =
      Ok \<lparr>dg_refresh_token = gi_refresh_token input, dg_scope = sg_scope stored\<rparr>"
proof -
  from assms(4) have
    1: "seal_bytes encrypt key nonce1 (bytes_of_string (expose_secret (gi_access_token input))) =
      Ok (ge_encrypted_primary env)" and
    2: "seal_bytes encrypt key nonce2 (bytes_of_string (expose_secret (gi_refresh_token input))) =
      Ok (ge_encrypted_renewal env)"
    by (auto simp: encrypt_grant_def try_then_Ok_iff Let_def)
  from decrypt_seal [OF assms(1,2) 1] decrypt_seal [OF assms(1,3) 2]
    parse_compose [OF assms(5,6)] assms(7-10) show ?thesis
    by (simp add: read_access_token_from_encrypted_grant_def decrypt_renewal_material_def from_utf8_def)
qed

text \<open>A cipher for the witness: the tag is one byte and the key and nonce are not used.\<close>

definition sample_encrypt :: aead where
  "sample_encrypt key nonce plaintext = Some (plaintext @ [7])"

definition sample_decrypt :: aead where
  "sample_decrypt key nonce ciphertext =
     (if ciphertext \<noteq> [] \<and> last ciphertext = 7 then Some (butlast ciphertext) else None)"

definition sample_input :: grant_encryption_input where
  "sample_input = \<lparr>gi_access_token = SecretString ''at'', gi_refresh_token = SecretString ''rt'',
     gi_expires_in_seconds = 60\<rparr>"

lemma sample_aead: "aead_law sample_encrypt sample_decrypt"
  by (simp add: aead_law_def sample_encrypt_def sample_decrypt_def)

lemma sealed_grant_roundtrip_witness:
  "\<exists>env. encrypt_grant sample_encrypt (\<lambda>_. ''fp'') ''key'' [] 5 (replicate 12 0) (replicate 12 1)
      sample_input = Ok env \<and>
    read_access_token_from_encrypted_grant sample_decrypt
      (compose_encrypted_grant_blob (ge_encrypted_primary env) (ge_encrypted_renewal env)) [] =
    Ok (SecretString ''at'')"
proof -
  define p where "p = build_v1_envelope (replicate 12 0) (bytes_of_string ''at'' @ [7])"
  define r where "r = build_v1_envelope (replicate 12 1) (bytes_of_string ''rt'' @ [7])"
  define env where "env = \<lparr>ge_encrypted_primary = p, ge_encrypted_renewal = r, ge_key_id = ''key'',
    ge_new_fingerprint = ''fp'', ge_refreshed_at_ms = 5,
    ge_expires_at_ms = Some (saturating_add 5 (saturating_mul 60 1000))\<rparr>"
  have run: "encrypt_grant sample_encrypt (\<lambda>_. ''fp'') ''key'' [] 5 (replicate 12 0) (replicate 12 1)
      sample_input = Ok env"
    by (simp add: encrypt_grant_def seal_bytes_def sample_encrypt_def sample_input_def env_def
        p_def r_def Let_def)
  have len: "length (ge_encrypted_primary env) < 2 ^ 32" "length (ge_encrypted_renewal env) < 2 ^ 32"
    by (simp_all add: env_def p_def r_def build_v1_envelope_def bytes_of_string_def)
  have nonce: "length (replicate 12 0 :: bytes) = NONCE_LEN_V1" "length (replicate 12 1 :: bytes) = NONCE_LEN_V1"
    by (simp_all add: NONCE_LEN_V1_def)
  have utf8: "utf8_valid (bytes_of_string (expose_secret (gi_access_token sample_input)))"
    "utf8_valid (bytes_of_string (expose_secret (gi_refresh_token sample_input)))"
    by (simp_all add: sample_input_def bytes_of_string_def)
  let ?blob = "compose_encrypted_grant_blob (ge_encrypted_primary env) (ge_encrypted_renewal env)"
  from sealed_grant_roundtrip [OF sample_aead nonce run len refl utf8,
      of "\<lparr>sg_grant_id = [], sg_tenant_id = [], sg_encrypted_oauth_grant = ?blob,
        sg_oauth_grant_key_id = [], sg_oauth_grant_fingerprint = [], sg_scope = None\<rparr>"] run
  show ?thesis by (auto simp: sample_input_def)
qed

text \<open>
  Stored material is only decrypted for the grant, tenant and fingerprint that the refresh
  was planned with, and only after these checks is the key looked up.
\<close>

theorem stored_material_bound_to_request:
  fixes load :: "feishu_auth_refresh_request \<Rightarrow> (stored_feishu_grant_material, 's) result"
    and key_for :: "string \<Rightarrow> (bytes, 'k) result"
  assumes "decrypted_grant_material decrypt load key_for request = Ok material"
  shows "\<exists>stored key. load request = Ok stored \<and> key_for (sg_oauth_grant_key_id stored) = Ok key \<and>
    sg_grant_id stored = fr_grant_id request \<and> sg_tenant_id stored = fr_tenant_id request \<and>
    sg_oauth_grant_fingerprint stored = fr_expected_fingerprint request \<and>
    dg_scope material = sg_scope stored \<and>
    (\<exists>primary nonce ciphertext plaintext.
       sg_encrypted_oauth_grant stored =
         compose_encrypted_grant_blob primary (build_v1_envelope nonce ciphertext) \<and>
       decrypt key nonce ciphertext = Some plaintext \<and> utf8_valid plaintext \<and>
       dg_refresh_token material = SecretString (string_of_bytes plaintext))"
proof -
  from assms obtain stored key where s: "load request = Ok stored"
    "validate_stored_request request stored = (Ok () :: (unit, ('s, 'k) material_error) result)"
    "key_for (sg_oauth_grant_key_id stored) = Ok key"
    and d: "decrypt_renewal_material decrypt key stored =
      (Ok material :: (decrypted_feishu_grant_material, ('s, 'k) material_error) result)"
    by (auto simp: decrypted_grant_material_def decrypt_and_validate_def try_then_Ok_iff)
  from d obtain primary renewal plaintext where
    p: "parse_encrypted_grant_blob (sg_encrypted_oauth_grant stored) = Ok (primary, renewal)"
    and e: "decrypt_v1_envelope decrypt key renewal = Ok plaintext" and u: "utf8_valid plaintext"
    and m: "material = \<lparr>dg_refresh_token = SecretString (string_of_bytes plaintext),
      dg_scope = sg_scope stored\<rparr>"
    by (auto simp: decrypt_renewal_material_def try_then_Ok_iff from_utf8_def split: if_splits)
  from envelope_layout [OF e] obtain nonce ciphertext where
    "renewal = build_v1_envelope nonce ciphertext" "decrypt key nonce ciphertext = Some plaintext" by blast
  moreover have "sg_encrypted_oauth_grant stored = compose_encrypted_grant_blob primary renewal"
    using parse_Ok_compose [OF p] by blast
  moreover have "sg_grant_id stored = fr_grant_id request" "sg_tenant_id stored = fr_tenant_id request"
    "sg_oauth_grant_fingerprint stored = fr_expected_fingerprint request"
    using s(2) by (auto simp: validate_stored_request_def split: if_splits)
  ultimately show ?thesis using s(1,3) m u by auto
qed

definition sample_stored :: stored_feishu_grant_material where
  "sample_stored = \<lparr>sg_grant_id = ''g1'', sg_tenant_id = ''t1'',
     sg_encrypted_oauth_grant = compose_encrypted_grant_blob []
       (build_v1_envelope (replicate 12 1) (bytes_of_string ''rt'' @ [7])),
     sg_oauth_grant_key_id = ''key'', sg_oauth_grant_fingerprint = ''fp'', sg_scope = None\<rparr>"

lemma sample_stored_read:
  "decrypt_renewal_material sample_decrypt [] sample_stored =
     Ok \<lparr>dg_refresh_token = SecretString ''rt'', dg_scope = None\<rparr>"
proof -
  have "seal_bytes sample_encrypt [] (replicate 12 1) (bytes_of_string ''rt'') =
      Ok (build_v1_envelope (replicate 12 1) (bytes_of_string ''rt'' @ [7]))"
    by (simp add: seal_bytes_def sample_encrypt_def)
  moreover have "length (replicate 12 1 :: bytes) = NONCE_LEN_V1" by (simp add: NONCE_LEN_V1_def)
  ultimately have "decrypt_v1_envelope sample_decrypt []
      (build_v1_envelope (replicate 12 1) (bytes_of_string ''rt'' @ [7])) = Ok (bytes_of_string ''rt'')"
    using decrypt_seal [OF sample_aead] by blast
  moreover have "utf8_valid (bytes_of_string ''rt'')" by (simp add: bytes_of_string_def)
  ultimately show ?thesis
    using parse_compose [of "[]" "build_v1_envelope (replicate 12 1) (bytes_of_string ''rt'' @ [7])"]
    by (simp add: decrypt_renewal_material_def sample_stored_def from_utf8_def)
       (simp add: build_v1_envelope_def from_utf8_def)
qed

lemma stored_material_bound_to_request_witness:
  "\<exists>stored. (Ok sample_stored :: (stored_feishu_grant_material, unit) result) = Ok stored \<and>
     sg_grant_id stored = ''g1'' \<and> sg_oauth_grant_fingerprint stored = ''fp''"
proof -
  let ?q = "request_from_snapshot (snapshot_from_grant sample_grant ''fp'')"
  let ?load = "\<lambda>_ :: feishu_auth_refresh_request. (Ok sample_stored :: (_, unit) result)"
  let ?key = "\<lambda>_ :: string. (Ok [] :: (bytes, unit) result)"
  have q: "fr_grant_id ?q = ''g1''" "fr_tenant_id ?q = ''t1''" "fr_expected_fingerprint ?q = ''fp''"
    by (simp_all add: request_from_snapshot_def snapshot_from_grant_def sample_grant_def)
  have "validate_stored_request ?q sample_stored = (Ok () :: (unit, (unit, unit) material_error) result)"
    by (simp add: validate_stored_request_def q) (simp add: sample_stored_def)
  then have "decrypted_grant_material sample_decrypt ?load ?key ?q =
      Ok \<lparr>dg_refresh_token = SecretString ''rt'', dg_scope = None\<rparr>"
    by (simp add: decrypted_grant_material_def decrypt_and_validate_def sample_stored_read)
  from stored_material_bound_to_request [OF this] q show ?thesis by auto
qed

text \<open>
  A successful refresh reaches the grant repository unchanged: the command planned from the
  adapter's answer is a compare-and-swap on the snapshot's fingerprint that carries the answer's
  key id, new fingerprint and times to the millisecond, and a blob from which the reader gets back
  the two encrypted parts of the answer.
\<close>

theorem refresh_success_reaches_repository:
  assumes "length (fs_encrypted_primary s) < 2 ^ 32" and "length (fs_encrypted_renewal s) < 2 ^ 32"
  shows "\<exists>planned. plan_token_refresh_command snapshot
      (response_to_outcome downcast (Ok (AuthSuccess s))) now = Ok planned \<and>
    pc_command planned = RotateGrantCas (sn_grant_id snapshot) (sn_tenant_id snapshot)
      (sn_expected_fingerprint snapshot) (fs_expires_at_ms s) (fs_refreshed_at_ms s)
      (cmd_blob (pc_command planned)) (fs_key_id s) (fs_new_fingerprint s) \<and>
    parse_encrypted_grant_blob (blob_bytes (cmd_blob (pc_command planned))) =
      Ok (fs_encrypted_primary s, fs_encrypted_renewal s)"
proof -
  let ?m = "\<lparr>gm_encrypted_primary = fs_encrypted_primary s, gm_encrypted_renewal = fs_encrypted_renewal s\<rparr>"
  have "transpose_map system_time_to_ms (map_option ms_to_system_time (fs_expires_at_ms s)) =
      Ok (fs_expires_at_ms s)"
    by (cases "fs_expires_at_ms s") (simp_all add: transpose_map_def system_time_to_ms_def)
  moreover have "parse_encrypted_grant_blob (blob_bytes (into_blob ?m)) =
      Ok (fs_encrypted_primary s, fs_encrypted_renewal s)"
    using parse_compose [OF assms] compose_eq_into_blob [of ?m] by simp
  ultimately show ?thesis
    by (simp add: plan_token_refresh_command_def response_to_outcome_def decide_token_refresh_def
        system_time_to_ms_def Let_def)
qed

definition sample_success :: feishu_auth_refresh_success where
  "sample_success = \<lparr>fs_encrypted_primary = [1, 2], fs_encrypted_renewal = [3],
     fs_key_id = ''key'', fs_new_fingerprint = ''fp2'', fs_refreshed_at_ms = 10,
     fs_expires_at_ms = Some 20\<rparr>"

lemma refresh_success_reaches_repository_witness:
  "\<exists>planned. plan_token_refresh_command (snapshot_from_grant sample_grant ''fp'')
      (response_to_outcome Some (Ok (AuthSuccess sample_success))) 5 = Ok planned \<and>
    parse_encrypted_grant_blob (blob_bytes (cmd_blob (pc_command planned))) = Ok ([1, 2], [3])"
  using refresh_success_reaches_repository [of sample_success
      "snapshot_from_grant sample_grant ''fp''" Some 5]
  by (auto simp: sample_success_def)

end
