(* ===== verification/Postgres_Base.thy ===== *)
theory Postgres_Base
  imports Token_Refresh Confirmed_Action Json "HOL-Library.Product_Lexorder"
begin

text \<open>
  What the Postgres repositories share (\<open>storage/postgres/repository_sqlx/error.rs\<close> and
  \<open>util.rs\<close>): the repository error, the casts between the program's unsigned and the database's
  signed integers, and the way a statement is run. A table is a list of rows and a statement a
  function from a database to a result and a database; a statement that fails changes nothing.

  A \<open>timestamptz\<close> is its number of microseconds since the Unix epoch. The conversion
  \<open>to_timestamp(ms::double precision / 1000.0)\<close> goes through a floating point number and is an
  argument \<open>to_ts\<close> of the statements that use it (\<open>None\<close>: timestamp out of range);
  \<open>exact_timestamps\<close> states that it is exact for the dates up to the year 9999, whose
  milliseconds have at most the 15 digits a \<open>double precision\<close> keeps. Reading back,
  \<open>floor(extract(epoch from t) * 1000)\<close>, is the division of \<open>epoch_ms\<close>.
\<close>

section \<open>Errors\<close>

datatype sqlx_error = RowNotFound | DatabaseError string

datatype postgres_repository_error =
    Sqlx sqlx_error
  | UnknownActionStatus string
  | UnknownAuditActorKind string
  | UnknownAuditEventType string
  | UnknownExecutionStatus string
  | UnknownDeviceEntryPoint string
  | UnknownDeviceSessionState string
  | UnknownTokenGrantState string
  | UnknownTenantStatus string
  | UnknownWorkspaceUserStatus string
  | UnknownIdentityActorKind string
  | UnknownScopeBoundary string
  | UnknownEvidenceSourceKind string
  | UnknownEvidenceVisibilityScope string
  | UnknownProposedActionStatus string
  | UnknownProposedActionKind string
  | UnknownRiskSeverity string
  | UnknownProposedActionDecision string
  | UnknownReviewInboxLedgerStage string
  | UnknownReviewInboxLedgerStatus string
  | UnknownReviewInboxItemStatus string
  | UnknownSchedulerJobKind string
  | UnknownSchedulerJobStatus string
  | UnsafeSchedulerJobErrorCode
  | UnsafeAuditOutboxPayload
  | ActionNotConfirmed action_status
  | TenantMismatch string string string
  | LarkIdentityActorExternalBindingConflict string actor_kind string
  | NegativeInteger string int
  | JsonError
  | TokenRefreshDecisionBridge bridge_error
  | InvalidOperationStatusTransition action_status action_status
  | InvalidExecutionQueueRow string string
  | UnknownOperationIdempotencyKey string
  | TokenRefreshPlanMismatch string string string
  | ReviewDecisionRequestMismatch string string string
  | MissingConfirmedActionForDecision
  | MissingConfirmedAtForDecision
  | MissingOperationIdForDecision
  | UnexpectedConfirmedActionForDecision
  | UnexpectedOperationIdForDecision

section \<open>Integers\<close>

text \<open>\<open>x as i64\<close> and \<open>x as i32\<close> keep the bits; the value is the signed one.\<close>

definition u64_as_i64 :: "u64 \<Rightarrow> int" where
  "u64_as_i64 w = sint w"

definition u32_as_i32 :: "u32 \<Rightarrow> int" where
  "u32_as_i32 w = sint w"

definition non_negative_i64_to_u64 :: "int \<Rightarrow> string \<Rightarrow> (u64, postgres_repository_error) result" where
  "non_negative_i64_to_u64 value field =
     (if value < 0 then Err (NegativeInteger field value) else Ok (word_of_int value))"

definition optional_non_negative_i64_to_u64 ::
  "int option \<Rightarrow> string \<Rightarrow> (u64 option, postgres_repository_error) result" where
  "optional_non_negative_i64_to_u64 value field =
     transpose_map (\<lambda>v. non_negative_i64_to_u64 v field) value"

section \<open>Timestamps\<close>

type_synonym timestamptz = int

definition epoch_ms :: "timestamptz \<Rightarrow> int" where
  "epoch_ms t = t div 1000"

definition sql_timestamp ::
  "(int \<Rightarrow> timestamptz option) \<Rightarrow> int \<Rightarrow> (timestamptz, postgres_repository_error) result" where
  "sql_timestamp to_ts ms = ok_or (Sqlx (DatabaseError ''timestamp out of range'')) (to_ts ms)"

definition MAX_EXACT_MS :: int where
  "MAX_EXACT_MS = 253402300799999"

definition exact_timestamps :: "(int \<Rightarrow> timestamptz option) \<Rightarrow> bool" where
  "exact_timestamps to_ts \<longleftrightarrow> (\<forall>ms. 0 \<le> ms \<and> ms \<le> MAX_EXACT_MS \<longrightarrow> to_ts ms = Some (1000 * ms))"

text \<open>A conversion with the range of Postgres, from 4713 BC to the year 294276.\<close>

definition pg_to_timestamp :: "int \<Rightarrow> timestamptz option" where
  "pg_to_timestamp ms =
     (if -210866803200000 \<le> ms \<and> ms < 9224318016000000 then Some (1000 * ms) else None)"

definition pg_system_time_to_ms :: "system_time \<Rightarrow> (u64, postgres_repository_error) result" where
  "pg_system_time_to_ms t = ok_or (NegativeInteger ''system_time'' (- 1)) (millis_since_epoch t)"

section \<open>Statements\<close>

definition exec_sql :: "'db \<Rightarrow> ('a \<times> 'db, 'e) result \<Rightarrow> ('a, 'e) result \<times> 'db" where
  "exec_sql db r = (case r of Inl e \<Rightarrow> (Err e, db) | Inr (a, db') \<Rightarrow> (Ok a, db'))"

text \<open>\<open>begin\<close>, a body with the question-mark operator, \<open>commit\<close>: an error rolls the body back.\<close>

definition in_tx :: "'db \<Rightarrow> ('a, 'e) result \<times> 'db \<Rightarrow> ('a, 'e) result \<times> 'db" where
  "in_tx db body = (case body of (Inl e, _) \<Rightarrow> (Err e, db) | (Inr x, db') \<Rightarrow> (Ok x, db'))"

text \<open>
  \<open>UPDATE t SET f WHERE P\<close>, and the two ways JSON columns are written and read: serde's writer
  and reader of a type are arguments.
\<close>

definition map_where :: "('r \<Rightarrow> bool) \<Rightarrow> ('r \<Rightarrow> 'r) \<Rightarrow> 'r list \<Rightarrow> 'r list" where
  "map_where P f rows = map (\<lambda>r. if P r then f r else r) rows"

definition json_option ::
  "('a \<Rightarrow> json option) \<Rightarrow> 'a option \<Rightarrow> (json option, postgres_repository_error) result" where
  "json_option to_value v = transpose_map (\<lambda>x. ok_or JsonError (to_value x)) v"

definition json_value_option ::
  "(json \<Rightarrow> 'a option) \<Rightarrow> json option \<Rightarrow> ('a option, postgres_repository_error) result" where
  "json_value_option from_value v = transpose_map (\<lambda>x. ok_or JsonError (from_value x)) v"

text \<open>\<open>rows.iter().map(f).collect()\<close>: the first error ends the conversion.\<close>

fun collect_results :: "('a \<Rightarrow> ('b, 'e) result) \<Rightarrow> 'a list \<Rightarrow> ('b list, 'e) result" where
  "collect_results f [] = Ok []"
| "collect_results f (x # xs) =
     try_then (f x) (\<lambda>y. try_then (collect_results f xs) (\<lambda>ys. Ok (y # ys)))"

section \<open>Lemmas\<close>

lemma in_tx_Err: "in_tx db body = (Inl e, db') \<Longrightarrow> db' = db"
  by (auto simp: in_tx_def split: prod.splits sum.splits)

lemma exec_sql_simps [simp]:
  "exec_sql db (Inl e) = (Inl e, db)"
  "exec_sql db (Inr (a, db')) = (Inr a, db')"
  by (simp_all add: exec_sql_def)

lemma in_tx_simps [simp]:
  "in_tx db (Inl e, db') = (Inl e, db)" "in_tx db (Inr x, db') = (Inr x, db')"
  by (simp_all add: in_tx_def)

lemma pg_to_timestamp_exact [simp]: "exact_timestamps pg_to_timestamp"
  by (simp add: exact_timestamps_def pg_to_timestamp_def MAX_EXACT_MS_def)

lemma sql_timestamp_exact:
  "exact_timestamps to_ts \<Longrightarrow> 0 \<le> ms \<Longrightarrow> ms \<le> MAX_EXACT_MS \<Longrightarrow> sql_timestamp to_ts ms = Ok (1000 * ms)"
  by (simp add: exact_timestamps_def sql_timestamp_def)

lemma sql_timestamp_Ok_iff [simp]: "sql_timestamp to_ts ms = Inr t \<longleftrightarrow> to_ts ms = Some t"
  by (simp add: sql_timestamp_def)

lemma sql_timestamp_Some [simp]: "to_ts ms = Some t \<Longrightarrow> sql_timestamp to_ts ms = Inr t"
  by simp

lemma epoch_ms_exact [simp]: "epoch_ms (1000 * ms) = ms"
  by (simp add: epoch_ms_def)

lemma u64_as_i64_small:
  assumes "uint (w :: u64) \<le> MAX_EXACT_MS"
  shows "u64_as_i64 w = uint w"
proof -
  have "uint w < 2 ^ 63" using assms by (simp add: MAX_EXACT_MS_def)
  moreover have "- (2 ^ 63) \<le> uint w" by (rule order_trans [of _ 0]) simp_all
  ultimately show ?thesis by (simp add: u64_as_i64_def sint_uint signed_take_bit_int_eq_self_iff)
qed

lemma u32_as_i32_of_int:
  assumes "0 \<le> n" and "n \<le> 2147483647"
  shows "u32_as_i32 (word_of_int n) = n"
  using assms by (simp add: u32_as_i32_def signed_take_bit_int_eq_self_iff sint_sbintrunc')

lemma non_negative_simps [simp]:
  "0 \<le> v \<Longrightarrow> non_negative_i64_to_u64 v f = Inr (word_of_int v)"
  "v < 0 \<Longrightarrow> non_negative_i64_to_u64 v f = Inl (NegativeInteger f v)"
  "optional_non_negative_i64_to_u64 None f = Inr None"
  "0 \<le> v \<Longrightarrow> optional_non_negative_i64_to_u64 (Some v) f = Inr (Some (word_of_int v))"
  "v < 0 \<Longrightarrow> optional_non_negative_i64_to_u64 (Some v) f = Inl (NegativeInteger f v)"
  by (simp_all add: non_negative_i64_to_u64_def optional_non_negative_i64_to_u64_def
      transpose_map_def)

lemma try_then_assoc: "try_then (try_then r k) h = try_then r (\<lambda>x. try_then (k x) h)"
  by (cases r) simp_all

lemma try_st_keeps_state: "snd (try_st p (\<lambda>x s. (g x s, s))) = snd p"
  by (cases p; cases "fst p") auto

lemma snd_exec_sql: "snd (exec_sql db r) = (case r of Inl _ \<Rightarrow> db | Inr (_, db') \<Rightarrow> db')"
  by (simp add: exec_sql_def split: sum.split prod.split)

lemma map_where_simps [simp]:
  "map_where P f [] = []"
  "map_where P f (r # rs) = (if P r then f r else r) # map_where P f rs"
  "length (map_where P f rs) = length rs"
  by (simp_all add: map_where_def)

lemma map_where_none: "\<forall>r \<in> set rows. \<not> P r \<Longrightarrow> map_where P f rows = rows"
  by (induction rows) auto

lemma set_map_where: "set (map_where P f rows) = (\<lambda>r. if P r then f r else r) ` set rows"
  by (simp add: map_where_def)

lemma map_map_where:
  "(\<And>r. k (f r) = k r) \<Longrightarrow> map k (map_where P f rows) = map k rows"
  by (induction rows) auto

lemma find_map_where:
  assumes "\<And>r. K (f r) = K r"
  shows "find K (map_where P f rows) = map_option (\<lambda>r. if P r then f r else r) (find K rows)"
  by (induction rows) (simp_all add: assms)

lemma find_SomeD: "find P xs = Some x \<Longrightarrow> x \<in> set xs \<and> P x"
  by (induction xs) (auto split: if_splits)

lemma find_append: "find P (xs @ ys) = (case find P xs of None \<Rightarrow> find P ys | Some x \<Rightarrow> Some x)"
  by (induction xs) auto

lemma collect_results_map:
  "\<forall>x \<in> set xs. f x = Inr (g x) \<Longrightarrow> collect_results f xs = Inr (map g xs)"
  by (induction xs) auto

lemma collect_results_OkD:
  "collect_results f xs = Inr ys \<Longrightarrow> \<forall>x \<in> set xs. \<exists>y. f x = Inr y"
  by (induction xs arbitrary: ys) (auto simp: try_then_Ok_iff)

section \<open>Rows with an attempt counter\<close>

text \<open>
  A table whose rows count their attempts: every call keeps the table's invariant, keeps a row
  that is there and never lowers its count. Over any sequence of calls the count then only grows,
  which is what a holder of an earlier attempt is fenced off by.
\<close>

locale counted_rows =
  fixes inv :: "'db \<Rightarrow> bool"
    and apply_op :: "'op \<Rightarrow> 'db \<Rightarrow> 'db"
    and attempts :: "'k \<Rightarrow> 'db \<Rightarrow> int option"
  assumes inv_apply: "inv db \<Longrightarrow> inv (apply_op op db)"
    and attempts_apply: "inv db \<Longrightarrow> attempts k db = Some a \<Longrightarrow>
      \<exists>a'. attempts k (apply_op op db) = Some a' \<and> a \<le> a'"
begin

lemma inv_fold: "inv db \<Longrightarrow> inv (fold apply_op ops db)"
  by (induction ops arbitrary: db) (auto simp: inv_apply)

lemma attempts_fold:
  assumes "inv db" and "attempts k db = Some a"
  shows "\<exists>a'. attempts k (fold apply_op ops db) = Some a' \<and> a \<le> a'"
  using assms
proof (induction ops arbitrary: db a)
  case (Cons op ops)
  from attempts_apply [OF Cons.prems, of op] obtain a1 where
    "attempts k (apply_op op db) = Some a1" and "a \<le> a1" by blast
  with Cons.IH [of "apply_op op db" a1] inv_apply [OF Cons.prems(1)] show ?case
    by (auto intro: order_trans)
qed simp

end

end
