(* ===== verification/Grant_Store.thy ===== *)
theory Grant_Store
  imports Postgres_Base
begin

text \<open>
  The Postgres token grant repository (\<open>storage/postgres/token_grant_sql.rs\<close>,
  \<open>repository_sqlx/identity/token_grant.rs\<close>, \<open>repository_sqlx/token_refresh/command_executor.rs\<close>,
  the row reader and codec of grants, and the table of
  \<open>migrations/0001_phase_0_6_identity_action_audit.sql\<close>). Every refresh command is one guarded
  \<open>UPDATE\<close>: it names the tenant, the grant and the fingerprint of the grant material it was
  computed from, and does nothing when the row has moved on.

  The order of texts in \<open>ORDER BY id\<close> depends on the collation of the database; its sort key is
  an argument.
\<close>

section \<open>Data\<close>

record token_grant_row =
  gr_id :: string
  gr_tenant_id :: string
  gr_identity_id :: string
  gr_actor_kind :: string
  gr_scope_boundary :: string
  gr_scopes :: "string list"
  gr_state :: string
  gr_issued_at :: timestamptz
  gr_expires_at :: "timestamptz option"
  gr_refreshed_at :: "timestamptz option"
  gr_revoked_at :: "timestamptz option"
  gr_reauth_required_at :: "timestamptz option"
  gr_last_refresh_error :: "string option"
  gr_encrypted_oauth_grant :: "u8 list"
  gr_oauth_grant_key_id :: string
  gr_oauth_grant_fingerprint :: string
  gr_revocation_reason :: "string option"

record grant_db =
  gd_tenants :: "string list"
  gd_identities :: "(string \<times> string) list"
  gd_grants :: "token_grant_row list"

record encrypted_token_grant_record =
  eg_id :: string
  eg_tenant_id :: string
  eg_identity_id :: string
  eg_actor_kind :: actor_kind
  eg_scope_boundary :: scope_boundary
  eg_scopes :: "string list"
  eg_state :: token_grant_state
  eg_issued_at_ms :: u64
  eg_expires_at_ms :: "u64 option"
  eg_refreshed_at_ms :: "u64 option"
  eg_revoked_at_ms :: "u64 option"
  eg_reauth_required_at_ms :: "u64 option"
  eg_last_refresh_error :: "string option"
  eg_encrypted_oauth_grant :: "u8 list"
  eg_oauth_grant_key_id :: string
  eg_oauth_grant_fingerprint :: string
  eg_revocation_reason :: "string option"

section \<open>Codec\<close>

fun actor_kind_to_db :: "actor_kind \<Rightarrow> string" where
  "actor_kind_to_db ActorUser = ''user''"
| "actor_kind_to_db ActorBot = ''bot''"
| "actor_kind_to_db ActorApp = ''app''"
| "actor_kind_to_db ActorService = ''service''"

definition identity_actor_kind_from_db ::
  "string \<Rightarrow> (actor_kind, postgres_repository_error) result" where
  "identity_actor_kind_from_db value =
     (if value = ''user'' then Ok ActorUser
      else if value = ''bot'' then Ok ActorBot
      else if value = ''app'' then Ok ActorApp
      else if value = ''service'' then Ok ActorService
      else Err (UnknownIdentityActorKind value))"

fun scope_boundary_to_db :: "scope_boundary \<Rightarrow> string" where
  "scope_boundary_to_db BoundaryTenant = ''tenant''"
| "scope_boundary_to_db BoundaryUser = ''user''"
| "scope_boundary_to_db BoundaryAdmin = ''admin''"
| "scope_boundary_to_db BoundaryBot = ''bot''"
| "scope_boundary_to_db BoundaryService = ''service''"

definition scope_boundary_from_db ::
  "string \<Rightarrow> (scope_boundary, postgres_repository_error) result" where
  "scope_boundary_from_db value =
     (if value = ''tenant'' then Ok BoundaryTenant
      else if value = ''user'' then Ok BoundaryUser
      else if value = ''admin'' then Ok BoundaryAdmin
      else if value = ''bot'' then Ok BoundaryBot
      else if value = ''service'' then Ok BoundaryService
      else Err (UnknownScopeBoundary value))"

fun token_grant_state_to_db :: "token_grant_state \<Rightarrow> string" where
  "token_grant_state_to_db Valid = ''valid''"
| "token_grant_state_to_db NeedsRefresh = ''needs_refresh''"
| "token_grant_state_to_db Expired = ''expired''"
| "token_grant_state_to_db Revoked = ''revoked''"
| "token_grant_state_to_db ReauthRequired = ''reauth_required''"

definition token_grant_state_from_db ::
  "string \<Rightarrow> (token_grant_state, postgres_repository_error) result" where
  "token_grant_state_from_db value =
     (if value = ''valid'' then Ok Valid
      else if value = ''needs_refresh'' then Ok NeedsRefresh
      else if value = ''expired'' then Ok Expired
      else if value = ''revoked'' then Ok Revoked
      else if value = ''reauth_required'' then Ok ReauthRequired
      else Err (UnknownTokenGrantState value))"

definition MAX_REFRESH_ERROR_CHARS :: nat where
  "MAX_REFRESH_ERROR_CHARS = 256"

definition sanitize_refresh_error_for_storage :: "string \<Rightarrow> string" where
  "sanitize_refresh_error_for_storage reason =
     (if contains_sensitive_marker reason then REDACTED_REFRESH_ERROR
      else concat (take MAX_REFRESH_ERROR_CHARS
        (map (\<lambda>c. if is_control c then '' '' else c) (chars (trim reason)))))"

definition encrypted_token_grant_from_row ::
  "token_grant_row \<Rightarrow> (encrypted_token_grant_record, postgres_repository_error) result" where
  "encrypted_token_grant_from_row r =
     try_then (identity_actor_kind_from_db (gr_actor_kind r)) (\<lambda>actor_kind.
     try_then (scope_boundary_from_db (gr_scope_boundary r)) (\<lambda>scope_boundary.
     try_then (token_grant_state_from_db (gr_state r)) (\<lambda>state.
     try_then (non_negative_i64_to_u64 (epoch_ms (gr_issued_at r)) ''issued_at_ms'') (\<lambda>issued.
     try_then (optional_non_negative_i64_to_u64 (map_option epoch_ms (gr_expires_at r))
       ''expires_at_ms'') (\<lambda>expires.
     try_then (optional_non_negative_i64_to_u64 (map_option epoch_ms (gr_refreshed_at r))
       ''refreshed_at_ms'') (\<lambda>refreshed.
     try_then (optional_non_negative_i64_to_u64 (map_option epoch_ms (gr_revoked_at r))
       ''revoked_at_ms'') (\<lambda>revoked.
     try_then (optional_non_negative_i64_to_u64 (map_option epoch_ms (gr_reauth_required_at r))
       ''reauth_required_at_ms'') (\<lambda>reauth.
       Ok \<lparr>eg_id = gr_id r, eg_tenant_id = gr_tenant_id r, eg_identity_id = gr_identity_id r,
          eg_actor_kind = actor_kind, eg_scope_boundary = scope_boundary, eg_scopes = gr_scopes r,
          eg_state = state, eg_issued_at_ms = issued, eg_expires_at_ms = expires,
          eg_refreshed_at_ms = refreshed, eg_revoked_at_ms = revoked,
          eg_reauth_required_at_ms = reauth, eg_last_refresh_error = gr_last_refresh_error r,
          eg_encrypted_oauth_grant = gr_encrypted_oauth_grant r,
          eg_oauth_grant_key_id = gr_oauth_grant_key_id r,
          eg_oauth_grant_fingerprint = gr_oauth_grant_fingerprint r,
          eg_revocation_reason = gr_revocation_reason r\<rparr>))))))))"

section \<open>Statements\<close>

definition token_grant_row_check :: "grant_db \<Rightarrow> token_grant_row \<Rightarrow> bool" where
  "token_grant_row_check db r \<longleftrightarrow>
     gr_tenant_id r \<in> set (gd_tenants db) \<and>
     (gr_tenant_id r, gr_identity_id r) \<in> set (gd_identities db) \<and>
     gr_actor_kind r \<in> {''user'', ''bot'', ''app'', ''service''} \<and>
     gr_scope_boundary r \<in> {''tenant'', ''user'', ''admin'', ''bot'', ''service''} \<and>
     gr_state r \<in> {''valid'', ''needs_refresh'', ''expired'', ''revoked'', ''reauth_required''}"

definition sql_timestamp_option ::
  "(int \<Rightarrow> timestamptz option) \<Rightarrow> int option
     \<Rightarrow> (timestamptz option, postgres_repository_error) result" where
  "sql_timestamp_option to_ts ms = transpose_map (sql_timestamp to_ts) ms"

definition option_u64_to_i64 :: "u64 option \<Rightarrow> int option" where
  "option_u64_to_i64 v = map_option u64_as_i64 v"

text \<open>
  The row that an upsert inserts. \<open>ON CONFLICT (id)\<close> overwrites only the columns listed in its
  \<open>SET\<close>, and only in a row of the same tenant; otherwise no row is returned and \<open>fetch_one\<close>
  fails.
\<close>

definition upserted_grant_row :: "token_grant_row \<Rightarrow> token_grant_row \<Rightarrow> token_grant_row" where
  "upserted_grant_row excluded r = r\<lparr>gr_state := gr_state excluded, gr_scopes := gr_scopes excluded,
     gr_expires_at := gr_expires_at excluded, gr_refreshed_at := gr_refreshed_at excluded,
     gr_revoked_at := gr_revoked_at excluded,
     gr_reauth_required_at := gr_reauth_required_at excluded,
     gr_last_refresh_error := gr_last_refresh_error excluded,
     gr_encrypted_oauth_grant := gr_encrypted_oauth_grant excluded,
     gr_oauth_grant_key_id := gr_oauth_grant_key_id excluded,
     gr_oauth_grant_fingerprint := gr_oauth_grant_fingerprint excluded,
     gr_revocation_reason := gr_revocation_reason excluded\<rparr>"

definition UPSERT_TOKEN_GRANT ::
  "grant_db \<Rightarrow> token_grant_row \<Rightarrow> (token_grant_row \<times> grant_db, postgres_repository_error) result" where
  "UPSERT_TOKEN_GRANT db excluded =
     (if \<not> token_grant_row_check db excluded
      then Err (Sqlx (DatabaseError ''constraint violation''))
      else case find (\<lambda>r. gr_id r = gr_id excluded) (gd_grants db) of
          None \<Rightarrow> Ok (excluded, db\<lparr>gd_grants := gd_grants db @ [excluded]\<rparr>)
        | Some r \<Rightarrow>
            if gr_tenant_id r = gr_tenant_id excluded
            then Ok (upserted_grant_row excluded r, db\<lparr>gd_grants :=
              map_where (\<lambda>r. gr_id r = gr_id excluded) (upserted_grant_row excluded) (gd_grants db)\<rparr>)
            else Err (Sqlx RowNotFound))"

definition GET_TOKEN_GRANT_BY_ID :: "grant_db \<Rightarrow> string \<Rightarrow> string \<Rightarrow> token_grant_row option" where
  "GET_TOKEN_GRANT_BY_ID db tenant grant_id =
     find (\<lambda>r. gr_tenant_id r = tenant \<and> gr_id r = grant_id) (gd_grants db)"

text \<open>\<open>UPDATE token_grants SET f WHERE P RETURNING ...\<close> with a condition that pins the id.\<close>

definition update_grant ::
  "(token_grant_row \<Rightarrow> bool) \<Rightarrow> (token_grant_row \<Rightarrow> token_grant_row) \<Rightarrow> grant_db
     \<Rightarrow> token_grant_row option \<times> grant_db" where
  "update_grant P f db =
     (map_option f (find P (gd_grants db)), db\<lparr>gd_grants := map_where P f (gd_grants db)\<rparr>)"

text \<open>The condition that the three refresh statements share.\<close>

definition refresh_guard :: "string \<Rightarrow> string \<Rightarrow> string \<Rightarrow> token_grant_row \<Rightarrow> bool" where
  "refresh_guard tenant grant_id expected_fingerprint r \<longleftrightarrow>
     gr_tenant_id r = tenant \<and> gr_id r = grant_id \<and>
     gr_oauth_grant_fingerprint r = expected_fingerprint \<and>
     gr_state r \<in> {''valid'', ''needs_refresh'', ''expired''} \<and>
     gr_revoked_at r = None \<and> gr_reauth_required_at r = None"

definition rotated_row ::
  "timestamptz option \<Rightarrow> timestamptz \<Rightarrow> u8 list \<Rightarrow> string \<Rightarrow> string \<Rightarrow> token_grant_row \<Rightarrow> token_grant_row" where
  "rotated_row expires_at refreshed_at blob key_id fingerprint r = r\<lparr>
     gr_state := ''valid'', gr_expires_at := expires_at, gr_refreshed_at := Some refreshed_at,
     gr_last_refresh_error := None, gr_encrypted_oauth_grant := blob,
     gr_oauth_grant_key_id := key_id, gr_oauth_grant_fingerprint := fingerprint\<rparr>"

definition ROTATE_TOKEN_GRANT ::
  "(int \<Rightarrow> timestamptz option) \<Rightarrow> grant_db \<Rightarrow> string \<Rightarrow> string \<Rightarrow> string \<Rightarrow> int option \<Rightarrow> int \<Rightarrow> u8 list
     \<Rightarrow> string \<Rightarrow> string \<Rightarrow> (token_grant_row option \<times> grant_db, postgres_repository_error) result" where
  "ROTATE_TOKEN_GRANT to_ts db tenant grant_id expected_fingerprint expires_at_ms refreshed_at_ms blob
       key_id fingerprint =
     try_then (sql_timestamp_option to_ts expires_at_ms) (\<lambda>expires_at.
     try_then (sql_timestamp to_ts refreshed_at_ms) (\<lambda>refreshed_at.
       Ok (update_grant (refresh_guard tenant grant_id expected_fingerprint)
         (rotated_row expires_at refreshed_at blob key_id fingerprint) db)))"

definition refresh_failed_row :: "timestamptz \<Rightarrow> string \<Rightarrow> token_grant_row \<Rightarrow> token_grant_row" where
  "refresh_failed_row refreshed_at error r = r\<lparr>gr_state := ''needs_refresh'',
     gr_refreshed_at := Some refreshed_at, gr_last_refresh_error := Some error\<rparr>"

definition MARK_TOKEN_GRANT_REFRESH_FAILED ::
  "(int \<Rightarrow> timestamptz option) \<Rightarrow> grant_db \<Rightarrow> string \<Rightarrow> string \<Rightarrow> string \<Rightarrow> int \<Rightarrow> string
     \<Rightarrow> (token_grant_row option \<times> grant_db, postgres_repository_error) result" where
  "MARK_TOKEN_GRANT_REFRESH_FAILED to_ts db tenant grant_id expected_fingerprint refreshed_at_ms error =
     try_then (sql_timestamp to_ts refreshed_at_ms) (\<lambda>refreshed_at.
       Ok (update_grant (refresh_guard tenant grant_id expected_fingerprint)
         (refresh_failed_row refreshed_at error) db))"

definition reauth_required_row :: "timestamptz \<Rightarrow> string \<Rightarrow> token_grant_row \<Rightarrow> token_grant_row" where
  "reauth_required_row reauth_at error r = r\<lparr>gr_state := ''reauth_required'',
     gr_reauth_required_at := Some reauth_at, gr_last_refresh_error := Some error\<rparr>"

definition MARK_TOKEN_GRANT_REAUTH_REQUIRED ::
  "(int \<Rightarrow> timestamptz option) \<Rightarrow> grant_db \<Rightarrow> string \<Rightarrow> string \<Rightarrow> string \<Rightarrow> int \<Rightarrow> string
     \<Rightarrow> (token_grant_row option \<times> grant_db, postgres_repository_error) result" where
  "MARK_TOKEN_GRANT_REAUTH_REQUIRED to_ts db tenant grant_id expected_fingerprint reauth_at_ms error =
     try_then (sql_timestamp to_ts reauth_at_ms) (\<lambda>reauth_at.
       Ok (update_grant (refresh_guard tenant grant_id expected_fingerprint)
         (reauth_required_row reauth_at error) db))"

definition revoked_row :: "timestamptz \<Rightarrow> string \<Rightarrow> token_grant_row \<Rightarrow> token_grant_row" where
  "revoked_row revoked_at reason r = r\<lparr>gr_state := ''revoked'', gr_revoked_at := Some revoked_at,
     gr_revocation_reason := Some reason\<rparr>"

definition REVOKE_TOKEN_GRANT ::
  "(int \<Rightarrow> timestamptz option) \<Rightarrow> grant_db \<Rightarrow> string \<Rightarrow> string \<Rightarrow> int \<Rightarrow> string
     \<Rightarrow> (token_grant_row option \<times> grant_db, postgres_repository_error) result" where
  "REVOKE_TOKEN_GRANT to_ts db tenant grant_id revoked_at_ms reason =
     try_then (sql_timestamp to_ts revoked_at_ms) (\<lambda>revoked_at.
       Ok (update_grant
         (\<lambda>r. gr_tenant_id r = tenant \<and> gr_id r = grant_id \<and> gr_state r \<noteq> ''revoked'')
         (revoked_row revoked_at reason) db))"

definition PAUSED_REFRESH_ERRORS :: "string list" where
  "PAUSED_REFRESH_ERRORS =
     [''refresh_config_required'', ''auth_refresh_parse_failed'', ''auth_refresh_oversized_response'']"

definition refresh_candidate :: "string \<Rightarrow> timestamptz \<Rightarrow> token_grant_row \<Rightarrow> bool" where
  "refresh_candidate tenant due_before r \<longleftrightarrow>
     gr_tenant_id r = tenant \<and> gr_state r \<in> {''valid'', ''needs_refresh'', ''expired''} \<and>
     gr_revoked_at r = None \<and> gr_reauth_required_at r = None \<and>
     (case gr_last_refresh_error r of None \<Rightarrow> '''' | Some e \<Rightarrow> e) \<notin> set PAUSED_REFRESH_ERRORS \<and>
     0 < length (gr_encrypted_oauth_grant r) \<and>
     (gr_state r \<in> {''needs_refresh'', ''expired''} \<or>
      (\<exists>t \<in> set_option (gr_expires_at r). t \<le> due_before))"

definition candidate_order :: "(string \<Rightarrow> 'k::linorder) \<Rightarrow> token_grant_row \<Rightarrow> int \<times> (int \<times> int) \<times> 'k" where
  "candidate_order collate r =
     ((if gr_state r \<in> {''needs_refresh'', ''expired''} then 0 else 1),
      (case gr_expires_at r of None \<Rightarrow> (0, 0) | Some t \<Rightarrow> (1, t)), collate (gr_id r))"

definition LIST_TOKEN_REFRESH_CANDIDATE_SNAPSHOTS ::
  "(int \<Rightarrow> timestamptz option) \<Rightarrow> (string \<Rightarrow> 'k::linorder) \<Rightarrow> grant_db \<Rightarrow> string \<Rightarrow> int \<Rightarrow> int
     \<Rightarrow> (token_grant_row list, postgres_repository_error) result" where
  "LIST_TOKEN_REFRESH_CANDIDATE_SNAPSHOTS to_ts collate db tenant due_before_ms limit =
     try_then (sql_timestamp to_ts due_before_ms) (\<lambda>due_before.
       if limit < 0 then Err (Sqlx (DatabaseError ''LIMIT must not be negative''))
       else Ok (take (nat limit) (sort_key (candidate_order collate)
         (filter (refresh_candidate tenant due_before) (gd_grants db)))))"

section \<open>The repository\<close>

definition grant_row_of_record ::
  "(int \<Rightarrow> timestamptz option) \<Rightarrow> encrypted_token_grant_record
     \<Rightarrow> (token_grant_row, postgres_repository_error) result" where
  "grant_row_of_record to_ts g =
     try_then (sql_timestamp to_ts (u64_as_i64 (eg_issued_at_ms g))) (\<lambda>issued.
     try_then (sql_timestamp_option to_ts (option_u64_to_i64 (eg_expires_at_ms g))) (\<lambda>expires.
     try_then (sql_timestamp_option to_ts (option_u64_to_i64 (eg_refreshed_at_ms g))) (\<lambda>refreshed.
     try_then (sql_timestamp_option to_ts (option_u64_to_i64 (eg_revoked_at_ms g))) (\<lambda>revoked.
     try_then (sql_timestamp_option to_ts (option_u64_to_i64 (eg_reauth_required_at_ms g))) (\<lambda>reauth.
       Ok \<lparr>gr_id = eg_id g, gr_tenant_id = eg_tenant_id g, gr_identity_id = eg_identity_id g,
          gr_actor_kind = actor_kind_to_db (eg_actor_kind g),
          gr_scope_boundary = scope_boundary_to_db (eg_scope_boundary g), gr_scopes = eg_scopes g,
          gr_state = token_grant_state_to_db (eg_state g), gr_issued_at = issued,
          gr_expires_at = expires, gr_refreshed_at = refreshed, gr_revoked_at = revoked,
          gr_reauth_required_at = reauth, gr_last_refresh_error = eg_last_refresh_error g,
          gr_encrypted_oauth_grant = eg_encrypted_oauth_grant g,
          gr_oauth_grant_key_id = eg_oauth_grant_key_id g,
          gr_oauth_grant_fingerprint = eg_oauth_grant_fingerprint g,
          gr_revocation_reason = eg_revocation_reason g\<rparr>)))))"

definition upsert_encrypted_grant ::
  "(int \<Rightarrow> timestamptz option) \<Rightarrow> grant_db \<Rightarrow> encrypted_token_grant_record
     \<Rightarrow> (encrypted_token_grant_record, postgres_repository_error) result \<times> grant_db" where
  "upsert_encrypted_grant to_ts db g =
     try_st (exec_sql db (try_then (grant_row_of_record to_ts g) (UPSERT_TOKEN_GRANT db)))
       (\<lambda>row db. (encrypted_token_grant_from_row row, db))"

definition grant_get_by_id ::
  "grant_db \<Rightarrow> string \<Rightarrow> string
     \<Rightarrow> (encrypted_token_grant_record option, postgres_repository_error) result" where
  "grant_get_by_id db tenant_id grant_id =
     transpose_map encrypted_token_grant_from_row (GET_TOKEN_GRANT_BY_ID db tenant_id grant_id)"

text \<open>\<open>row.as_ref().map(encrypted_token_grant_from_row).transpose()\<close> after a statement.\<close>

definition returned_grant ::
  "grant_db \<Rightarrow> (token_grant_row option \<times> grant_db, postgres_repository_error) result
     \<Rightarrow> (encrypted_token_grant_record option, postgres_repository_error) result \<times> grant_db" where
  "returned_grant db stmt = try_st (exec_sql db stmt)
     (\<lambda>row db. (transpose_map encrypted_token_grant_from_row row, db))"

fun refresh_command_statement ::
  "(int \<Rightarrow> timestamptz option) \<Rightarrow> grant_db \<Rightarrow> token_refresh_command
     \<Rightarrow> (token_grant_row option \<times> grant_db, postgres_repository_error) result" where
  "refresh_command_statement to_ts db (RotateGrantCas gid tid fp expires_at_ms refreshed_at_ms blob key_id new_fp) =
     ROTATE_TOKEN_GRANT to_ts db (tenant_str tid) (grant_str gid) fp (option_u64_to_i64 expires_at_ms)
       (u64_as_i64 refreshed_at_ms) (blob_bytes blob) key_id new_fp"
| "refresh_command_statement to_ts db (MarkNeedsRefresh gid tid fp refreshed_at_ms safe_error) =
     MARK_TOKEN_GRANT_REFRESH_FAILED to_ts db (tenant_str tid) (grant_str gid) fp
       (u64_as_i64 refreshed_at_ms) (sanitize_refresh_error_for_storage safe_error)"
| "refresh_command_statement to_ts db (MarkReauthRequired gid tid fp reauth_required_at_ms safe_error) =
     MARK_TOKEN_GRANT_REAUTH_REQUIRED to_ts db (tenant_str tid) (grant_str gid) fp
       (u64_as_i64 reauth_required_at_ms) (sanitize_refresh_error_for_storage safe_error)"
| "refresh_command_statement to_ts db (MarkConfigRequired gid tid fp refreshed_at_ms safe_error) =
     MARK_TOKEN_GRANT_REFRESH_FAILED to_ts db (tenant_str tid) (grant_str gid) fp
       (u64_as_i64 refreshed_at_ms) (sanitize_refresh_error_for_storage safe_error)"

definition apply_refresh_command_with_executor ::
  "(int \<Rightarrow> timestamptz option) \<Rightarrow> grant_db \<Rightarrow> token_refresh_command
     \<Rightarrow> (encrypted_token_grant_record option, postgres_repository_error) result \<times> grant_db" where
  "apply_refresh_command_with_executor to_ts db command =
     returned_grant db (refresh_command_statement to_ts db command)"

definition token_refresh_apply_result_from_record ::
  "encrypted_token_grant_record \<Rightarrow> token_refresh_apply_result" where
  "token_refresh_apply_result_from_record g = \<lparr>ar_grant_id = TokenGrantId (eg_id g),
     ar_tenant_id = TenantId (eg_tenant_id g), ar_state = eg_state g,
     ar_fingerprint = eg_oauth_grant_fingerprint g\<rparr>"

definition apply_refresh_command_in_tx ::
  "(int \<Rightarrow> timestamptz option) \<Rightarrow> grant_db \<Rightarrow> token_refresh_command
     \<Rightarrow> (token_refresh_apply_result option, postgres_repository_error) result \<times> grant_db" where
  "apply_refresh_command_in_tx to_ts db command =
     try_st (apply_refresh_command_with_executor to_ts db command)
       (\<lambda>record db. (Ok (map_option token_refresh_apply_result_from_record record), db))"

record rotate_encrypted_grant_request =
  rq_tenant_id :: string
  rq_id :: string
  rq_expected_fingerprint :: string
  rq_expires_at_ms :: "u64 option"
  rq_refreshed_at_ms :: u64
  rq_encrypted_oauth_grant :: "u8 list"
  rq_oauth_grant_key_id :: string
  rq_oauth_grant_fingerprint :: string

definition rotate_encrypted_grant ::
  "(int \<Rightarrow> timestamptz option) \<Rightarrow> grant_db \<Rightarrow> rotate_encrypted_grant_request
     \<Rightarrow> (encrypted_token_grant_record option, postgres_repository_error) result \<times> grant_db" where
  "rotate_encrypted_grant to_ts db q = returned_grant db (ROTATE_TOKEN_GRANT to_ts db (rq_tenant_id q)
     (rq_id q) (rq_expected_fingerprint q) (option_u64_to_i64 (rq_expires_at_ms q))
     (u64_as_i64 (rq_refreshed_at_ms q)) (rq_encrypted_oauth_grant q) (rq_oauth_grant_key_id q)
     (rq_oauth_grant_fingerprint q))"

definition grant_mark_refresh_failed ::
  "(int \<Rightarrow> timestamptz option) \<Rightarrow> grant_db \<Rightarrow> string \<Rightarrow> string \<Rightarrow> string \<Rightarrow> u64 \<Rightarrow> string
     \<Rightarrow> (encrypted_token_grant_record option, postgres_repository_error) result \<times> grant_db" where
  "grant_mark_refresh_failed to_ts db tenant_id grant_id expected_fingerprint refreshed_at_ms reason =
     returned_grant db (MARK_TOKEN_GRANT_REFRESH_FAILED to_ts db tenant_id grant_id
       expected_fingerprint (u64_as_i64 refreshed_at_ms) (sanitize_refresh_error_for_storage reason))"

definition grant_mark_reauth_required ::
  "(int \<Rightarrow> timestamptz option) \<Rightarrow> grant_db \<Rightarrow> string \<Rightarrow> string \<Rightarrow> string \<Rightarrow> u64 \<Rightarrow> string
     \<Rightarrow> (encrypted_token_grant_record option, postgres_repository_error) result \<times> grant_db" where
  "grant_mark_reauth_required to_ts db tenant_id grant_id expected_fingerprint reauth_required_at_ms reason =
     returned_grant db (MARK_TOKEN_GRANT_REAUTH_REQUIRED to_ts db tenant_id grant_id
       expected_fingerprint (u64_as_i64 reauth_required_at_ms)
       (sanitize_refresh_error_for_storage reason))"

definition grant_revoke ::
  "(int \<Rightarrow> timestamptz option) \<Rightarrow> grant_db \<Rightarrow> string \<Rightarrow> string \<Rightarrow> u64 \<Rightarrow> string
     \<Rightarrow> (encrypted_token_grant_record option, postgres_repository_error) result \<times> grant_db" where
  "grant_revoke to_ts db tenant_id grant_id revoked_at_ms reason =
     returned_grant db (REVOKE_TOKEN_GRANT to_ts db tenant_id grant_id (u64_as_i64 revoked_at_ms) reason)"

definition token_refresh_snapshot_from_row ::
  "token_grant_row \<Rightarrow> (token_refresh_grant_snapshot, postgres_repository_error) result" where
  "token_refresh_snapshot_from_row r =
     try_then (token_grant_state_from_db (gr_state r)) (\<lambda>state.
     try_then (optional_non_negative_i64_to_u64 (map_option epoch_ms (gr_revoked_at r))
       ''revoked_at_ms'') (\<lambda>revoked.
     try_then (optional_non_negative_i64_to_u64 (map_option epoch_ms (gr_reauth_required_at r))
       ''reauth_required_at_ms'') (\<lambda>reauth.
       Ok \<lparr>sn_grant_id = TokenGrantId (gr_id r), sn_tenant_id = TenantId (gr_tenant_id r),
          sn_expected_fingerprint = gr_oauth_grant_fingerprint r, sn_state = state,
          sn_has_refresh_material = (0 < length (gr_encrypted_oauth_grant r)),
          sn_revoked_at = map_option ms_to_system_time revoked,
          sn_reauth_required_at = map_option ms_to_system_time reauth\<rparr>)))"

definition list_refresh_candidate_snapshots ::
  "(int \<Rightarrow> timestamptz option) \<Rightarrow> (string \<Rightarrow> 'k::linorder) \<Rightarrow> grant_db \<Rightarrow> string \<Rightarrow> system_time \<Rightarrow> u32
     \<Rightarrow> (token_refresh_grant_snapshot list, postgres_repository_error) result" where
  "list_refresh_candidate_snapshots to_ts collate db tenant_id due_before limit =
     (if limit = 0 then Ok []
      else try_then (pg_system_time_to_ms due_before) (\<lambda>due_before_ms.
           try_then (LIST_TOKEN_REFRESH_CANDIDATE_SNAPSHOTS to_ts collate db tenant_id
             (u64_as_i64 due_before_ms) (uint limit)) (\<lambda>rows.
             collect_results token_refresh_snapshot_from_row rows)))"

section \<open>Lemmas\<close>

definition grants_ok :: "grant_db \<Rightarrow> bool" where
  "grants_ok db \<longleftrightarrow> distinct (map gr_id (gd_grants db))"

lemma grant_row_unique:
  "grants_ok db \<Longrightarrow> r \<in> set (gd_grants db) \<Longrightarrow> r' \<in> set (gd_grants db) \<Longrightarrow> gr_id r = gr_id r' \<Longrightarrow> r = r'"
  by (auto simp: grants_ok_def distinct_map inj_on_def)

lemma GET_grant_Some_iff:
  assumes "grants_ok db"
  shows "GET_TOKEN_GRANT_BY_ID db tenant gid = Some r \<longleftrightarrow>
    r \<in> set (gd_grants db) \<and> gr_tenant_id r = tenant \<and> gr_id r = gid"
proof
  assume "GET_TOKEN_GRANT_BY_ID db tenant gid = Some r"
  then show "r \<in> set (gd_grants db) \<and> gr_tenant_id r = tenant \<and> gr_id r = gid"
    by (auto simp: GET_TOKEN_GRANT_BY_ID_def dest!: find_SomeD)
next
  assume r: "r \<in> set (gd_grants db) \<and> gr_tenant_id r = tenant \<and> gr_id r = gid"
  then obtain r' where r': "GET_TOKEN_GRANT_BY_ID db tenant gid = Some r'"
    by (cases "GET_TOKEN_GRANT_BY_ID db tenant gid") (auto simp: GET_TOKEN_GRANT_BY_ID_def find_None_iff)
  then have "r' = r" using grant_row_unique [OF assms, of r' r] r
    by (auto simp: GET_TOKEN_GRANT_BY_ID_def dest!: find_SomeD)
  with r' show "GET_TOKEN_GRANT_BY_ID db tenant gid = Some r" by simp
qed

text \<open>An update whose condition pins tenant and id touches the row found under them or none.\<close>

lemma update_grant_eq:
  assumes "grants_ok db" and "\<And>r. P r \<Longrightarrow> gr_tenant_id r = tenant \<and> gr_id r = gid"
    and "\<And>r. gr_tenant_id (f r) = gr_tenant_id r \<and> gr_id (f r) = gr_id r"
  shows "case GET_TOKEN_GRANT_BY_ID db tenant gid of
      None \<Rightarrow> update_grant P f db = (None, db)
    | Some r \<Rightarrow> if P r
        then fst (update_grant P f db) = Some (f r) \<and>
          GET_TOKEN_GRANT_BY_ID (snd (update_grant P f db)) tenant gid = Some (f r)
        else update_grant P f db = (None, db)"
proof -
  have none: "update_grant P f db = (None, db)" if "\<forall>r \<in> set (gd_grants db). \<not> P r"
    using that map_where_none [OF that] by (auto simp: update_grant_def find_None_iff)
  show ?thesis
  proof (cases "GET_TOKEN_GRANT_BY_ID db tenant gid")
    case None
    then have "\<forall>r \<in> set (gd_grants db). \<not> P r" using assms(2) by (auto simp: GET_TOKEN_GRANT_BY_ID_def find_None_iff)
    with None none show ?thesis by simp
  next
    case (Some r)
    then have r: "r \<in> set (gd_grants db)" "gr_id r = gid" using assms(1) by (auto simp: GET_grant_Some_iff)
    show ?thesis
    proof (cases "P r")
      case True
      then obtain r' where r': "find P (gd_grants db) = Some r'"
        using r by (cases "find P (gd_grants db)") (auto simp: find_None_iff)
      then have "r' = r" using find_SomeD [OF r'] grant_row_unique [OF assms(1) _ r(1)] assms(2) r(2) by blast
      moreover have "GET_TOKEN_GRANT_BY_ID (snd (update_grant P f db)) tenant gid = Some (f r)"
        using Some True find_map_where [of "\<lambda>r. gr_tenant_id r = tenant \<and> gr_id r = gid" f P "gd_grants db"] assms(3)
        by (simp add: GET_TOKEN_GRANT_BY_ID_def update_grant_def)
      ultimately show ?thesis using Some True r' by (simp add: update_grant_def)
    next
      case False
      then have "\<forall>r' \<in> set (gd_grants db). \<not> P r'" using grant_row_unique [OF assms(1) _ r(1)] assms(2) r(2) by blast
      with Some False none show ?thesis by simp
    qed
  qed
qed

lemma update_grant_ok: "grants_ok db \<Longrightarrow> (\<And>r. gr_id (f r) = gr_id r) \<Longrightarrow> grants_ok (snd (update_grant P f db))"
  by (simp add: grants_ok_def update_grant_def map_map_where)

lemma update_grant_other:
  assumes "\<And>r. P r \<Longrightarrow> gr_id r = gid" and "\<And>r. gr_tenant_id (f r) = gr_tenant_id r \<and> gr_id (f r) = gr_id r"
    and "gid' \<noteq> gid"
  shows "GET_TOKEN_GRANT_BY_ID (snd (update_grant P f db)) tenant gid' = GET_TOKEN_GRANT_BY_ID db tenant gid'"
proof -
  let ?K = "\<lambda>r. gr_tenant_id r = tenant \<and> gr_id r = gid'"
  have *: "find ?K (map_where P f (gd_grants db)) =
      map_option (\<lambda>r. if P r then f r else r) (find ?K (gd_grants db))"
    by (rule find_map_where) (simp add: assms(2))
  show ?thesis
  proof (cases "find ?K (gd_grants db)")
    case None
    with * show ?thesis by (simp add: GET_TOKEN_GRANT_BY_ID_def update_grant_def)
  next
    case (Some r)
    then have "\<not> P r" using assms(1,3) find_SomeD [OF Some] by blast
    with * Some show ?thesis by (simp add: GET_TOKEN_GRANT_BY_ID_def update_grant_def)
  qed
qed

lemma grant_row_changes [simp]:
  "gr_id (rotated_row e t b k fp r) = gr_id r" "gr_tenant_id (rotated_row e t b k fp r) = gr_tenant_id r"
  "gr_id (refresh_failed_row t x r) = gr_id r" "gr_tenant_id (refresh_failed_row t x r) = gr_tenant_id r"
  "gr_id (reauth_required_row t x r) = gr_id r" "gr_tenant_id (reauth_required_row t x r) = gr_tenant_id r"
  "gr_id (revoked_row t x r) = gr_id r" "gr_tenant_id (revoked_row t x r) = gr_tenant_id r"
  by (simp_all add: rotated_row_def refresh_failed_row_def reauth_required_row_def revoked_row_def)

text \<open>
  Every refresh command runs one update under the shared guard; which change it makes depends on
  the command and on the converted times.
\<close>

fun command_change :: "(int \<Rightarrow> timestamptz option) \<Rightarrow> token_refresh_command \<Rightarrow> (token_grant_row \<Rightarrow> token_grant_row, postgres_repository_error) result" where
  "command_change to_ts (RotateGrantCas gid tid fp expires refreshed blob key_id new_fp) =
     try_then (sql_timestamp_option to_ts (option_u64_to_i64 expires)) (\<lambda>e.
     try_then (sql_timestamp to_ts (u64_as_i64 refreshed)) (\<lambda>t. Ok (rotated_row e t (blob_bytes blob) key_id new_fp)))"
| "command_change to_ts (MarkNeedsRefresh gid tid fp ms x) =
     try_then (sql_timestamp to_ts (u64_as_i64 ms)) (\<lambda>t. Ok (refresh_failed_row t (sanitize_refresh_error_for_storage x)))"
| "command_change to_ts (MarkReauthRequired gid tid fp ms x) =
     try_then (sql_timestamp to_ts (u64_as_i64 ms)) (\<lambda>t. Ok (reauth_required_row t (sanitize_refresh_error_for_storage x)))"
| "command_change to_ts (MarkConfigRequired gid tid fp ms x) =
     try_then (sql_timestamp to_ts (u64_as_i64 ms)) (\<lambda>t. Ok (refresh_failed_row t (sanitize_refresh_error_for_storage x)))"

abbreviation command_guard :: "token_refresh_command \<Rightarrow> token_grant_row \<Rightarrow> bool" where
  "command_guard c \<equiv> refresh_guard (tenant_str (cmd_tenant_id c)) (grant_str (cmd_grant_id c)) (cmd_expected_fingerprint c)"

lemma refresh_command_statement_eq:
  "refresh_command_statement to_ts db c =
     try_then (command_change to_ts c) (\<lambda>f. Ok (update_grant (command_guard c) f db))"
  by (cases c) (simp_all add: ROTATE_TOKEN_GRANT_def MARK_TOKEN_GRANT_REFRESH_FAILED_def
      MARK_TOKEN_GRANT_REAUTH_REQUIRED_def try_then_assoc)

lemma command_change_key:
  "command_change to_ts c = Inr f \<Longrightarrow> gr_tenant_id (f r) = gr_tenant_id r \<and> gr_id (f r) = gr_id r"
  by (cases c) (auto simp: try_then_Ok_iff)

lemma refresh_guard_key: "refresh_guard tenant gid fp r \<Longrightarrow> gr_tenant_id r = tenant \<and> gr_id r = gid"
  by (simp add: refresh_guard_def)

text \<open>The effect of a command on the table, whatever becomes of the row it returns.\<close>

definition refresh_command_effect :: "(int \<Rightarrow> timestamptz option) \<Rightarrow> grant_db \<Rightarrow> token_refresh_command \<Rightarrow> grant_db" where
  "refresh_command_effect to_ts db c = snd (apply_refresh_command_with_executor to_ts db c)"

lemma refresh_command_effect_eq:
  "refresh_command_effect to_ts db c =
     (case command_change to_ts c of Inl _ \<Rightarrow> db | Inr f \<Rightarrow> snd (update_grant (command_guard c) f db))"
  by (simp add: refresh_command_effect_def apply_refresh_command_with_executor_def returned_grant_def
      try_st_keeps_state refresh_command_statement_eq snd_exec_sql try_then_def update_grant_def split: sum.split)

lemma refresh_command_effect_ok: "grants_ok db \<Longrightarrow> grants_ok (refresh_command_effect to_ts db c)"
  using command_change_key
  by (auto simp: refresh_command_effect_eq split: sum.split intro!: update_grant_ok)

lemma refresh_command_miss:
  assumes "grants_ok db" and "GET_TOKEN_GRANT_BY_ID db (tenant_str (cmd_tenant_id c)) (grant_str (cmd_grant_id c)) = Some r"
    and "\<not> command_guard c r" and "command_change to_ts c = Inr f"
  shows "apply_refresh_command_with_executor to_ts db c = (Ok None, db)"
proof -
  have "update_grant (command_guard c) f db = (None, db)"
    using update_grant_eq [OF assms(1), where P = "command_guard c" and f = f] refresh_guard_key
      command_change_key [OF assms(4)] assms(2,3) by fastforce
  with assms(4) show ?thesis
    by (simp add: apply_refresh_command_with_executor_def returned_grant_def refresh_command_statement_eq transpose_map_def)
qed

lemma refresh_command_effect_miss:
  assumes "grants_ok db" and "GET_TOKEN_GRANT_BY_ID db (tenant_str (cmd_tenant_id c)) (grant_str (cmd_grant_id c)) = Some r"
    and "\<not> command_guard c r"
  shows "refresh_command_effect to_ts db c = db"
proof (cases "command_change to_ts c")
  case (Inr f)
  with refresh_command_miss [OF assms] show ?thesis by (simp add: refresh_command_effect_def)
qed (simp add: refresh_command_effect_eq)

lemma refresh_command_effect_other:
  assumes "grant_str (cmd_grant_id c) \<noteq> gid"
  shows "GET_TOKEN_GRANT_BY_ID (refresh_command_effect to_ts db c) tenant gid = GET_TOKEN_GRANT_BY_ID db tenant gid"
proof (cases "command_change to_ts c")
  case (Inr f)
  then show ?thesis
    using update_grant_other [of "command_guard c" "grant_str (cmd_grant_id c)" f gid db tenant] command_change_key [OF Inr]
      refresh_guard_key assms by (auto simp: refresh_command_effect_eq)
qed (simp add: refresh_command_effect_eq)


lemma refresh_command_effect_hit:
  assumes "grants_ok db" and "GET_TOKEN_GRANT_BY_ID db (tenant_str (cmd_tenant_id c)) (grant_str (cmd_grant_id c)) = Some r"
    and "command_guard c r" and "command_change to_ts c = Inr f"
  shows "GET_TOKEN_GRANT_BY_ID (refresh_command_effect to_ts db c) (tenant_str (cmd_tenant_id c)) (grant_str (cmd_grant_id c))
      = Some (f r) \<and>
    fst (apply_refresh_command_with_executor to_ts db c) = transpose_map encrypted_token_grant_from_row (Some (f r))"
proof -
  have *: "fst (update_grant (command_guard c) f db) = Some (f r) \<and>
      GET_TOKEN_GRANT_BY_ID (snd (update_grant (command_guard c) f db)) (tenant_str (cmd_tenant_id c)) (grant_str (cmd_grant_id c))
        = Some (f r)"
    using update_grant_eq [OF assms(1), where P = "command_guard c" and f = f] refresh_guard_key
      command_change_key [OF assms(4)] assms(2,3) by fastforce
  then show ?thesis using assms(4)
    by (cases "update_grant (command_guard c) f db")
      (simp add: refresh_command_effect_eq apply_refresh_command_with_executor_def returned_grant_def
        refresh_command_statement_eq)
qed

section \<open>Refresh commands refine the grant life cycle\<close>

text \<open>
  A row stands for a grant of \<open>domain/token_grant.rs\<close> whose tokens are \<open>toks\<close>: the row keeps
  microseconds, the domain nanoseconds.
\<close>

abbreviation row_time :: "timestamptz \<Rightarrow> system_time" where
  "row_time t \<equiv> 1000 * t"

definition represents_grant :: "oauth_tokens \<Rightarrow> token_grant_row \<Rightarrow> token_grant \<Rightarrow> bool" where
  "represents_grant toks r g \<longleftrightarrow>
     gr_actor_kind r = actor_kind_to_db (tg_actor_kind g) \<and>
     gr_scope_boundary r = scope_boundary_to_db (tg_scope_boundary g) \<and>
     gr_state r = token_grant_state_to_db (tg_state g) \<and>
     tg_id g = TokenGrantId (gr_id r) \<and> tg_tenant_id g = TenantId (gr_tenant_id r) \<and>
     tg_identity_id g = LarkIdentityId (gr_identity_id r) \<and> tg_scopes g = gr_scopes r \<and>
     tg_issued_at g = row_time (gr_issued_at r) \<and>
     tg_expires_at g = map_option row_time (gr_expires_at r) \<and>
     tg_refreshed_at g = map_option row_time (gr_refreshed_at r) \<and>
     tg_revoked_at g = map_option row_time (gr_revoked_at r) \<and>
     tg_reauth_required_at g = map_option row_time (gr_reauth_required_at r) \<and>
     tg_last_refresh_error g = gr_last_refresh_error r \<and> tg_tokens g = toks \<and>
     tg_revocation_reason g = gr_revocation_reason r"

text \<open>What a command asks of the grant, in the words of the domain.\<close>

fun grant_command_spec ::
  "oauth_tokens \<Rightarrow> token_refresh_command \<Rightarrow> token_grant \<Rightarrow> (token_grant, token_grant_error) result" where
  "grant_command_spec new (RotateGrantCas _ _ _ expires refreshed _ _ _) g =
     refresh_succeeded_with_rotation g (ms_to_system_time refreshed) (ot_access_token new)
       (the (ot_refresh_token new)) (map_option ms_to_system_time expires)"
| "grant_command_spec new (MarkNeedsRefresh _ _ _ ms e) g =
     refresh_failed_transient g (ms_to_system_time ms) (sanitize_refresh_error_for_storage e)"
| "grant_command_spec new (MarkReauthRequired _ _ _ ms e) g =
     refresh_failed_reauth_required g (ms_to_system_time ms) (sanitize_refresh_error_for_storage e)"
| "grant_command_spec new (MarkConfigRequired _ _ _ ms e) g =
     refresh_failed_transient g (ms_to_system_time ms) (sanitize_refresh_error_for_storage e)"

fun command_times :: "token_refresh_command \<Rightarrow> u64 list" where
  "command_times (RotateGrantCas _ _ _ expires refreshed _ _ _) =
     (case expires of None \<Rightarrow> [refreshed] | Some e \<Rightarrow> [e, refreshed])"
| "command_times (MarkNeedsRefresh _ _ _ ms _) = [ms]"
| "command_times (MarkReauthRequired _ _ _ ms _) = [ms]"
| "command_times (MarkConfigRequired _ _ _ ms _) = [ms]"

text \<open>The material fingerprint a command leaves behind.\<close>

fun command_fingerprint :: "token_refresh_command \<Rightarrow> string" where
  "command_fingerprint (RotateGrantCas _ _ _ _ _ _ _ new_fp) = new_fp"
| "command_fingerprint c = cmd_expected_fingerprint c"

lemma sql_timestamp_u64:
  "exact_timestamps to_ts \<Longrightarrow> uint ms \<le> MAX_EXACT_MS \<Longrightarrow> sql_timestamp to_ts (u64_as_i64 ms) = Inr (1000 * uint ms)"
  by (simp add: u64_as_i64_small sql_timestamp_exact)

lemma ms_to_system_time_eq: "ms_to_system_time = (\<lambda>ms. 1000000 * uint ms)"
  by (simp add: ms_to_system_time_def fun_eq_iff)

lemma state_to_db_inj [simp]: "token_grant_state_to_db s = token_grant_state_to_db t \<longleftrightarrow> s = t"
  by (cases s; cases t) simp_all

lemma guard_of_represented:
  assumes "represents_grant toks r g" and "grant_wf g" and "ot_refresh_token toks \<noteq> None"
  shows "refresh_guard (gr_tenant_id r) (gr_id r) (gr_oauth_grant_fingerprint r) r \<longleftrightarrow> ensure_refreshable g = Inr ()"
  using assms by (cases "tg_state g") (auto simp: refresh_guard_def represents_grant_def ensure_refreshable_def grant_wf_def)

lemma represented_change:
  assumes "represents_grant toks r g" and "exact_timestamps to_ts" and "\<forall>ms \<in> set (command_times c). uint ms \<le> MAX_EXACT_MS"
    and "ensure_refreshable g = Inr ()" and "ot_refresh_token new \<noteq> None"
  shows "\<exists>f g'. command_change to_ts c = Inr f \<and> grant_command_spec new c g = Inr g' \<and>
    represents_grant (tg_tokens g') (f r) g' \<and>
    (gr_oauth_grant_fingerprint r = cmd_expected_fingerprint c \<longrightarrow> gr_oauth_grant_fingerprint (f r) = command_fingerprint c) \<and>
    (tg_tokens g' = toks \<or> tg_tokens g' = new)"
proof -
  have state: "tg_state g \<noteq> Revoked" "tg_state g \<noteq> ReauthRequired"
    using assms(4) by (auto simp: ensure_refreshable_def)
  note ts = sql_timestamp_u64 [OF assms(2)]
  show ?thesis
  proof (cases c)
    case (RotateGrantCas gid tid fp e t b k fp')
    then have e: "sql_timestamp_option to_ts (option_u64_to_i64 e) = Inr (map_option (\<lambda>ms. 1000 * uint ms) e)"
      and t: "sql_timestamp to_ts (u64_as_i64 t) = Inr (1000 * uint t)"
      using assms(3) by (auto simp: sql_timestamp_option_def option_u64_to_i64_def transpose_map_def ts split: option.splits)
    then have "command_change to_ts c = Inr (rotated_row (map_option (\<lambda>ms. 1000 * uint ms) e) (1000 * uint t) (blob_bytes b) k fp')"
      using RotateGrantCas by (simp del: sql_timestamp_Ok_iff)
    with RotateGrantCas assms(1,4,5) show ?thesis
      by (auto simp: represents_grant_def ms_to_system_time_eq refresh_succeeded_with_rotation_def rotated_row_def option.map_comp comp_def
          intro!: oauth_tokens.equality)
  next
    case (MarkNeedsRefresh gid tid fp t x)
    with assms ts show ?thesis by (simp add: represents_grant_def ms_to_system_time_eq refresh_failed_transient_def refresh_failed_row_def
        del: sql_timestamp_Ok_iff)
  next
    case (MarkReauthRequired gid tid fp t x)
    with assms ts state show ?thesis
      by (auto simp: represents_grant_def ms_to_system_time_eq refresh_failed_reauth_required_def reauth_required_row_def
          simp del: sql_timestamp_Ok_iff split: token_grant_state.splits)
  next
    case (MarkConfigRequired gid tid fp t x)
    with assms ts show ?thesis by (simp add: represents_grant_def ms_to_system_time_eq refresh_failed_transient_def refresh_failed_row_def
        del: sql_timestamp_Ok_iff)
  qed
qed

lemma command_change_exact:
  assumes "exact_timestamps to_ts" and "\<forall>ms \<in> set (command_times c). uint ms \<le> MAX_EXACT_MS"
  shows "\<exists>f. command_change to_ts c = Inr f"
  using assms(2) sql_timestamp_u64 [OF assms(1)]
  by (cases c) (auto simp: sql_timestamp_option_def option_u64_to_i64_def transpose_map_def
      simp del: sql_timestamp_Ok_iff split: option.splits)

lemma unrefreshable_spec_fails:
  assumes "ensure_refreshable g \<noteq> Inr ()" and "ot_refresh_token (tg_tokens g) \<noteq> None"
  shows "\<exists>e. grant_command_spec new c g = Inl e"
  using assms
  by (cases c; cases "tg_state g")
    (auto simp: grant_op_defs)


definition sample_grant_row :: token_grant_row where
  "sample_grant_row = \<lparr>gr_id = ''g1'', gr_tenant_id = ''t1'', gr_identity_id = ''i1'', gr_actor_kind = ''user'',
     gr_scope_boundary = ''user'', gr_scopes = [''okr.progress.write''], gr_state = ''valid'', gr_issued_at = 0,
     gr_expires_at = None, gr_refreshed_at = None, gr_revoked_at = None, gr_reauth_required_at = None,
     gr_last_refresh_error = None, gr_encrypted_oauth_grant = [1], gr_oauth_grant_key_id = ''k1'',
     gr_oauth_grant_fingerprint = ''fp1'', gr_revocation_reason = None\<rparr>"

definition sample_grant_db :: grant_db where
  "sample_grant_db = \<lparr>gd_tenants = [''t1''], gd_identities = [(''t1'', ''i1'')], gd_grants = [sample_grant_row]\<rparr>"

definition sample_rotation :: token_refresh_command where
  "sample_rotation = RotateGrantCas (TokenGrantId ''g1'') (TenantId ''t1'') ''fp1'' (Some 9000) 5000
     (EncryptedGrantBlob [2]) ''k2'' ''fp2''"

lemma sample_grants_ok [simp]: "grants_ok sample_grant_db"
  by (simp add: grants_ok_def sample_grant_db_def)

lemma sample_grant_found [simp]: "GET_TOKEN_GRANT_BY_ID sample_grant_db ''t1'' ''g1'' = Some sample_grant_row"
  by (simp add: GET_TOKEN_GRANT_BY_ID_def sample_grant_db_def sample_grant_row_def)


section \<open>A rotation has one winner\<close>

lemma refresh_command_after:
  assumes "grants_ok db" and "GET_TOKEN_GRANT_BY_ID db tenant gid = Some r"
    and "grant_str (cmd_grant_id c) = gid \<Longrightarrow> cmd_expected_fingerprint c \<noteq> gr_oauth_grant_fingerprint r"
  shows "GET_TOKEN_GRANT_BY_ID (refresh_command_effect to_ts db c) tenant gid = Some r"
proof (cases "grant_str (cmd_grant_id c) = gid")
  case same: True
  have r: "r \<in> set (gd_grants db)" "gr_tenant_id r = tenant" "gr_id r = gid" using assms(1,2) by (simp_all add: GET_grant_Some_iff)
  have "refresh_command_effect to_ts db c = db"
  proof (cases "tenant_str (cmd_tenant_id c) = tenant")
    case True
    with refresh_command_effect_miss [OF assms(1), of c r] assms(2,3) same show ?thesis by (simp add: refresh_guard_def)
  next
    case False
    have "\<not> command_guard c r'" if "r' \<in> set (gd_grants db)" for r'
      using grant_row_unique [OF assms(1) that r(1)] r(2,3) same False by (auto simp: refresh_guard_def)
    then show ?thesis by (simp add: refresh_command_effect_eq update_grant_def map_where_none split: sum.split)
  qed
  with assms(2) show ?thesis by simp
qed (simp add: refresh_command_effect_other assms(2))

text \<open>
  C22. A rotation of the grant material has one winner. Once a rotation to a new fingerprint has
  changed the row, no sequence of refresh commands that were planned from the old material, mixed
  with any commands for other grants, changes the row again: the new material, its expiry and the
  state survive every late failure report and every late second rotation.
\<close>

theorem rotation_single_winner:
  assumes "grants_ok db"
    and "GET_TOKEN_GRANT_BY_ID db (tenant_str tid) (grant_str gid) = Some r"
    and "GET_TOKEN_GRANT_BY_ID (refresh_command_effect to_ts db (RotateGrantCas gid tid fp e t b k new_fp))
      (tenant_str tid) (grant_str gid) = Some r'" and "r' \<noteq> r" and "new_fp \<noteq> fp"
    and "\<forall>c \<in> set cs. cmd_grant_id c = gid \<longrightarrow> cmd_expected_fingerprint c = fp"
  shows "GET_TOKEN_GRANT_BY_ID
      (fold (\<lambda>c db. refresh_command_effect to_ts db c) cs (refresh_command_effect to_ts db (RotateGrantCas gid tid fp e t b k new_fp)))
      (tenant_str tid) (grant_str gid) = Some r' \<and>
    gr_oauth_grant_fingerprint r' = new_fp \<and> gr_encrypted_oauth_grant r' = blob_bytes b \<and> gr_state r' = ''valid''"
proof -
  let ?c = "RotateGrantCas gid tid fp e t b k new_fp"
  have guard: "command_guard ?c r"
  proof (rule ccontr)
    assume "\<not> command_guard ?c r"
    with refresh_command_effect_miss [OF assms(1), of ?c r to_ts] assms(2-4) show False by simp
  qed
  obtain f where f: "command_change to_ts ?c = Inr f"
    using assms(2-4) by (cases "command_change to_ts ?c") (auto simp: refresh_command_effect_eq)
  have r': "r' = f r" using refresh_command_effect_hit [OF assms(1), of ?c r to_ts f] assms(2,3) guard f by simp
  with f have fp: "gr_oauth_grant_fingerprint r' = new_fp \<and> gr_encrypted_oauth_grant r' = blob_bytes b \<and> gr_state r' = ''valid''"
    by (auto simp: try_then_Ok_iff rotated_row_def)
  have "GET_TOKEN_GRANT_BY_ID (fold (\<lambda>c db. refresh_command_effect to_ts db c) cs db') (tenant_str tid) (grant_str gid) = Some r'"
    if "grants_ok db'" and "GET_TOKEN_GRANT_BY_ID db' (tenant_str tid) (grant_str gid) = Some r'" for db'
    using that assms(6)
  proof (induction cs arbitrary: db')
    case (Cons c cs)
    have "GET_TOKEN_GRANT_BY_ID (refresh_command_effect to_ts db' c) (tenant_str tid) (grant_str gid) = Some r'"
      by (rule refresh_command_after [OF Cons.prems(1,2)])
        (use Cons.prems(3) fp assms(5) in \<open>auto simp: token_grant_id.expand\<close>)
    with Cons show ?case by (simp add: refresh_command_effect_ok)
  qed simp
  with assms(3) fp refresh_command_effect_ok [OF assms(1)] show ?thesis by blast
qed

lemma rotation_single_winner_witness:
  "\<exists>r'. GET_TOKEN_GRANT_BY_ID
      (fold (\<lambda>c db. refresh_command_effect pg_to_timestamp db c)
        [MarkReauthRequired (TokenGrantId ''g1'') (TenantId ''t1'') ''fp1'' 6000 ''revoked'', sample_rotation]
        (refresh_command_effect pg_to_timestamp sample_grant_db sample_rotation)) ''t1'' ''g1'' = Some r' \<and>
    gr_oauth_grant_fingerprint r' = ''fp2'' \<and> gr_state r' = ''valid''"
proof -
  define r' where "r' = rotated_row (Some 9000000) 5000000 [2] ''k2'' ''fp2'' sample_grant_row"
  have "GET_TOKEN_GRANT_BY_ID (refresh_command_effect pg_to_timestamp sample_grant_db sample_rotation) ''t1'' ''g1'' = Some r'"
    using refresh_command_effect_hit [OF sample_grants_ok, of sample_rotation sample_grant_row pg_to_timestamp]
    by (simp add: sample_rotation_def r'_def refresh_guard_def sample_grant_row_def sql_timestamp_u64 MAX_EXACT_MS_def
        sql_timestamp_option_def option_u64_to_i64_def transpose_map_def)
  moreover have "r' \<noteq> sample_grant_row" by (simp add: r'_def rotated_row_def sample_grant_row_def)
  ultimately show ?thesis
    using rotation_single_winner [OF sample_grants_ok, of "TenantId ''t1''" "TokenGrantId ''g1''" sample_grant_row pg_to_timestamp
        "''fp1''" "Some 9000" 5000 "EncryptedGrantBlob [2]" "''k2''" "''fp2''" r'
        "[MarkReauthRequired (TokenGrantId ''g1'') (TenantId ''t1'') ''fp1'' 6000 ''revoked'', sample_rotation]"]
    by (auto simp: sample_rotation_def)
qed

section \<open>Refresh candidates\<close>

lemma snapshot_from_row_Ok:
  "token_refresh_snapshot_from_row r = Inr s \<Longrightarrow>
    sn_grant_id s = TokenGrantId (gr_id r) \<and> sn_tenant_id s = TenantId (gr_tenant_id r) \<and>
    sn_expected_fingerprint s = gr_oauth_grant_fingerprint r \<and> gr_state r = token_grant_state_to_db (sn_state s) \<and>
    sn_has_refresh_material s = (gr_encrypted_oauth_grant r \<noteq> []) \<and>
    (sn_revoked_at s = None \<longleftrightarrow> gr_revoked_at r = None) \<and>
    (sn_reauth_required_at s = None \<longleftrightarrow> gr_reauth_required_at r = None)"
  by (auto simp: token_refresh_snapshot_from_row_def try_then_Ok_iff token_grant_state_from_db_def
      optional_non_negative_i64_to_u64_def transpose_map_def split: if_splits option.splits)

lemma candidate_not_short_circuited:
  "refresh_candidate tenant due r \<Longrightarrow> token_refresh_snapshot_from_row r = Inr s \<Longrightarrow> short_circuit_reason s = None"
  using snapshot_from_row_Ok [of r s]
  by (cases "sn_state s") (auto simp: refresh_candidate_def short_circuit_reason_def)

lemma collect_results_image:
  "collect_results f xs = Inr ys \<Longrightarrow> list_all2 (\<lambda>x y. f x = Inr y) xs ys"
  by (induction xs arbitrary: ys) (auto simp: try_then_Ok_iff)

lemma take_sort_key_least:
  assumes "x \<in> set (take n (sort_key k xs))" and "y \<in> set xs" and "y \<notin> set (take n (sort_key k xs))"
  shows "k x \<le> k y"
proof -
  have "y \<in> set (drop n (sort_key k xs))"
    using assms(2,3) set_append [of "take n (sort_key k xs)" "drop n (sort_key k xs)"] by simp
  moreover have "sorted (map k (take n (sort_key k xs)) @ map k (drop n (sort_key k xs)))"
    by (simp only: map_append [symmetric] append_take_drop_id sorted_sort_key)
  ultimately show ?thesis using assms(1) unfolding sorted_append by auto
qed

lemma candidate_snapshots:
  fixes collate :: "string \<Rightarrow> 'k::linorder"
  assumes "to_ts (u64_as_i64 due_ms) = Some due_at" and "pg_system_time_to_ms due_before = Ok due_ms"
    and "list_refresh_candidate_snapshots to_ts collate db tenant due_before limit = Ok snaps"
  shows "list_all2 (\<lambda>r s. token_refresh_snapshot_from_row r = Inr s)
    (take (unat limit) (sort_key (candidate_order collate)
      (filter (refresh_candidate tenant due_at) (gd_grants db)))) snaps"
  using assms
  by (cases "limit = 0") (auto intro!: collect_results_image
      simp: list_refresh_candidate_snapshots_def LIST_TOKEN_REFRESH_CANDIDATE_SNAPSHOTS_def sql_timestamp_def)

lemma candidate_ids:
  fixes collate :: "string \<Rightarrow> 'k::linorder"
  assumes "grants_ok db"
    and "list_all2 (\<lambda>r s. token_refresh_snapshot_from_row r = Inr s)
      (take n (sort_key (candidate_order collate) (filter P (gd_grants db)))) snaps"
  shows "map sn_grant_id snaps = map (\<lambda>r. TokenGrantId (gr_id r))
      (take n (sort_key (candidate_order collate) (filter P (gd_grants db))))"
    and "distinct (map sn_grant_id snaps)" and "length snaps = min n (length (filter P (gd_grants db)))"
proof -
  let ?rows = "take n (sort_key (candidate_order collate) (filter P (gd_grants db)))"
  show ids: "map sn_grant_id snaps = map (\<lambda>r. TokenGrantId (gr_id r)) ?rows"
    using assms(2) snapshot_from_row_Ok by (induction rule: list_all2_induct) auto
  have "distinct (map gr_id (sort_key (candidate_order collate) (filter P (gd_grants db))))"
    using assms(1) by (simp add: grants_ok_def distinct_map inj_on_def)
  then have "distinct (map gr_id ?rows)" by (simp add: take_map [symmetric] distinct_take)
  then show "distinct (map sn_grant_id snaps)" unfolding ids by (auto simp: distinct_map inj_on_def)
  show "length snaps = min n (length (filter P (gd_grants db)))"
    using list_all2_lengthD [OF assms(2)] by simp
qed

text \<open>
  C23. The refresh candidates of a tenant are at most as many as asked for, never the same grant
  twice, all of that tenant and all fit for a refresh (none would be short circuited by the
  service), each with the fingerprint of its current material. A candidate that is left out is
  left out because of the limit, and never in favour of one that sorts after it: grants that are
  already expired or need a refresh come first, then those that expire soonest.
\<close>

theorem refresh_candidates_correct:
  fixes collate :: "string \<Rightarrow> 'k::linorder"
  assumes "grants_ok db" and "to_ts (u64_as_i64 due_ms) = Some due_at" and "pg_system_time_to_ms due_before = Ok due_ms"
    and "list_refresh_candidate_snapshots to_ts collate db tenant due_before limit = Ok snaps"
  shows "length snaps \<le> unat limit \<and> distinct (map sn_grant_id snaps) \<and>
    (\<forall>s \<in> set snaps. short_circuit_reason s = None \<and> sn_tenant_id s = TenantId tenant \<and>
      (\<exists>r \<in> set (gd_grants db). refresh_candidate tenant due_at r \<and> sn_grant_id s = TokenGrantId (gr_id r) \<and>
        sn_expected_fingerprint s = gr_oauth_grant_fingerprint r)) \<and>
    (\<forall>r \<in> set (gd_grants db). refresh_candidate tenant due_at r \<and> TokenGrantId (gr_id r) \<notin> sn_grant_id ` set snaps \<longrightarrow>
      length snaps = unat limit \<and>
      (\<forall>r' \<in> set (gd_grants db). TokenGrantId (gr_id r') \<in> sn_grant_id ` set snaps \<longrightarrow>
        candidate_order collate r' \<le> candidate_order collate r))"
proof -
  let ?c = "filter (refresh_candidate tenant due_at) (gd_grants db)"
  let ?rows = "take (unat limit) (sort_key (candidate_order collate) ?c)"
  note coll = candidate_snapshots [OF assms(2-4)]
  note ids = candidate_ids(1) [OF assms(1) coll] and dist = candidate_ids(2) [OF assms(1) coll]
    and len = candidate_ids(3) [OF assms(1) coll]
  have rows: "set ?rows \<subseteq> set ?c" using set_take_subset [of "unat limit" "sort_key (candidate_order collate) ?c"] by simp
  have snap: "\<exists>r \<in> set ?rows. token_refresh_snapshot_from_row r = Inr s" if "s \<in> set snaps" for s
    using coll that by (induction rule: list_all2_induct) auto
  have listed: "r' \<in> set ?rows \<longleftrightarrow> TokenGrantId (gr_id r') \<in> sn_grant_id ` set snaps" if "r' \<in> set (gd_grants db)" for r'
  proof -
    have "sn_grant_id ` set snaps = (\<lambda>r. TokenGrantId (gr_id r)) ` set ?rows" using ids by (metis list.set_map)
    then show ?thesis using grant_row_unique [OF assms(1) that] rows by auto
  qed
  have out: "length snaps = unat limit \<and>
      (\<forall>r' \<in> set (gd_grants db). TokenGrantId (gr_id r') \<in> sn_grant_id ` set snaps \<longrightarrow>
        candidate_order collate r' \<le> candidate_order collate r)"
    if r: "r \<in> set (gd_grants db)" "refresh_candidate tenant due_at r" "TokenGrantId (gr_id r) \<notin> sn_grant_id ` set snaps" for r
  proof -
    have "r \<notin> set ?rows" and "r \<in> set ?c" using r listed by auto
    then have "unat limit < length ?c" by (metis linorder_not_less length_sort set_sort take_all)
    moreover have "candidate_order collate r' \<le> candidate_order collate r" if "r' \<in> set ?rows" for r'
      by (rule take_sort_key_least [OF that \<open>r \<in> set ?c\<close> \<open>r \<notin> set ?rows\<close>])
    ultimately show ?thesis using len listed by simp
  qed
  have "short_circuit_reason s = None \<and> sn_tenant_id s = TenantId tenant \<and>
      (\<exists>r \<in> set (gd_grants db). refresh_candidate tenant due_at r \<and> sn_grant_id s = TokenGrantId (gr_id r) \<and>
        sn_expected_fingerprint s = gr_oauth_grant_fingerprint r)" if "s \<in> set snaps" for s
  proof -
    from snap [OF that] rows obtain r where r: "r \<in> set (gd_grants db)" "refresh_candidate tenant due_at r"
      "token_refresh_snapshot_from_row r = Inr s" by auto
    then show ?thesis using candidate_not_short_circuited [OF r(2,3)] snapshot_from_row_Ok [OF r(3)]
      by (auto simp: refresh_candidate_def)
  qed
  with out dist len show ?thesis by simp
qed

lemma refresh_candidates_correct_witness:
  "\<exists>snaps. list_refresh_candidate_snapshots pg_to_timestamp (\<lambda>_. 0 :: nat)
      (sample_grant_db\<lparr>gd_grants := [sample_grant_row\<lparr>gr_expires_at := Some 7000\<rparr>]\<rparr>) ''t1'' 9000000 1 = Ok snaps \<and>
    length snaps = 1 \<and> (\<forall>s \<in> set snaps. short_circuit_reason s = None)"
proof -
  let ?db = "sample_grant_db\<lparr>gd_grants := [sample_grant_row\<lparr>gr_expires_at := Some 7000\<rparr>]\<rparr>"
  have ok: "grants_ok ?db" by (simp add: grants_ok_def)
  have due: "pg_system_time_to_ms 9000000 = Ok 9" "pg_to_timestamp (u64_as_i64 9) = Some 9000"
    by (simp_all add: pg_system_time_to_ms_def millis_since_epoch_def u64_as_i64_small MAX_EXACT_MS_def pg_to_timestamp_def)
  obtain s where run: "list_refresh_candidate_snapshots pg_to_timestamp (\<lambda>_. 0 :: nat) ?db ''t1'' 9000000 1 = Ok [s]"
    by (simp add: list_refresh_candidate_snapshots_def LIST_TOKEN_REFRESH_CANDIDATE_SNAPSHOTS_def due sql_timestamp_def
        refresh_candidate_def sample_grant_row_def PAUSED_REFRESH_ERRORS_def token_refresh_snapshot_from_row_def
        token_grant_state_from_db_def)
  from refresh_candidates_correct [OF ok due(2) due(1) run] run show ?thesis by auto
qed

end
