(* ===== verification/Audit_Store.thy ===== *)
theory Audit_Store
  imports Postgres_Base Audit_Log "HOL-Library.Multiset"
begin

text \<open>
  The Postgres audit store (\<open>storage/postgres/audit_sql.rs\<close>, \<open>repository_sqlx/audit.rs\<close> with its
  row readers and codec, \<open>audit_outbox_payload.rs\<close>, and the two tables of
  \<open>migrations/0001_phase_0_6_identity_action_audit.sql\<close>): the append-only table of events and the
  outbox, from which workers claim messages for delivery.

  A claimed message stays \<open>pending\<close>; its \<open>next_attempt_at\<close> is the end of the claim, and its
  attempt count tells one claim from the next. The predicate \<open>locked\<close> of a claim says which rows
  other transactions hold at that moment (\<open>FOR UPDATE SKIP LOCKED\<close>). The serde writers and readers
  of the JSON columns are arguments.
\<close>

section \<open>Payload safety\<close>

definition MAX_AUDIT_OUTBOX_PAYLOAD_TEXT_LEN :: nat where
  "MAX_AUDIT_OUTBOX_PAYLOAD_TEXT_LEN = 256"

record safe_audit_outbox_payload =
  sp_event_id :: "string option"
  sp_trace_id :: "string option"
  sp_event_type :: "string option"
  sp_sequence :: "u64 option"
  sp_tenant_id :: "string option"
  sp_kind :: "string option"

datatype audit_outbox_payload_safety_error = AuditOutboxPayloadSafetyError

text \<open>The loop over the segments with a look at the one that follows.\<close>

fun sensitive_segments :: "string list \<Rightarrow> bool" where
  "sensitive_segments [] = False"
| "sensitive_segments (segment # rest) \<longleftrightarrow>
     segment \<in> {''secret'', ''password'', ''credential''} \<or>
     segment = ''token'' \<and> (case rest of [] \<Rightarrow> True | following # _ \<Rightarrow> following \<noteq> ''refresh'') \<or>
     sensitive_segments rest"

definition contains_sensitive_audit_outbox_segments :: "string \<Rightarrow> bool" where
  "contains_sensitive_audit_outbox_segments value =
     sensitive_segments (filter (\<lambda>segment. segment \<noteq> [])
       (split_on (\<lambda>ch. \<not> is_ascii_alphanumeric ch) value))"

definition OUTBOX_DIRECT_MARKERS :: "string list" where
  "OUTBOX_DIRECT_MARKERS = [''access token'', ''access_token'', ''accesstoken'', ''refresh token'',
     ''refresh_token'', ''refreshtoken'', ''authorization:'', ''authorization code'',
     ''authorization_code'', ''authorization-code'', ''authorizationcode'', ''auth code'',
     ''auth_code'', ''auth-code'', ''bearer '', ''client_secret'', ''oauth_grant'', ''stdout'',
     ''stderr'']"

definition contains_sensitive_audit_outbox_direct_marker :: "string \<Rightarrow> bool" where
  "contains_sensitive_audit_outbox_direct_marker value \<longleftrightarrow>
     list_ex (str_contains value) OUTBOX_DIRECT_MARKERS \<or>
     contains_sensitive_audit_outbox_segments value"

definition contains_sensitive_audit_outbox_marker :: "string \<Rightarrow> bool" where
  "contains_sensitive_audit_outbox_marker value =
     (let lowered = to_ascii_lowercase value
      in contains_sensitive_audit_outbox_direct_marker lowered \<or>
         str_contains lowered ''encrypted'' \<or> str_contains lowered ''fingerprint'')"

definition validate_audit_outbox_text ::
  "string \<Rightarrow> (unit, audit_outbox_payload_safety_error) result" where
  "validate_audit_outbox_text value =
     (if trim value = [] \<or> MAX_AUDIT_OUTBOX_PAYLOAD_TEXT_LEN < length value \<or>
         contains_sensitive_audit_outbox_marker value
      then Err AuditOutboxPayloadSafetyError else Ok ())"

definition validate_audit_outbox_payload_text ::
  "json \<Rightarrow> (string, audit_outbox_payload_safety_error) result" where
  "validate_audit_outbox_payload_text value =
     try_then (ok_or AuditOutboxPayloadSafetyError (as_str value)) (\<lambda>text.
     try_then (validate_audit_outbox_text text) (\<lambda>_. Ok text))"

definition safe_payload_field ::
  "string \<Rightarrow> json \<Rightarrow> safe_audit_outbox_payload
     \<Rightarrow> (safe_audit_outbox_payload, audit_outbox_payload_safety_error) result" where
  "safe_payload_field key value safe =
     (if key = ''event_id'' then
        try_then (validate_audit_outbox_payload_text value) (\<lambda>t. Ok (safe\<lparr>sp_event_id := Some t\<rparr>))
      else if key = ''trace_id'' then
        try_then (validate_audit_outbox_payload_text value) (\<lambda>t. Ok (safe\<lparr>sp_trace_id := Some t\<rparr>))
      else if key = ''event_type'' then
        try_then (validate_audit_outbox_payload_text value) (\<lambda>t. Ok (safe\<lparr>sp_event_type := Some t\<rparr>))
      else if key = ''tenant_id'' then
        try_then (validate_audit_outbox_payload_text value) (\<lambda>t. Ok (safe\<lparr>sp_tenant_id := Some t\<rparr>))
      else if key = ''kind'' then
        try_then (validate_audit_outbox_payload_text value) (\<lambda>t. Ok (safe\<lparr>sp_kind := Some t\<rparr>))
      else if key = ''sequence'' then
        try_then (ok_or AuditOutboxPayloadSafetyError (as_u64 value))
          (\<lambda>n. Ok (safe\<lparr>sp_sequence := Some n\<rparr>))
      else Err AuditOutboxPayloadSafetyError)"

fun safe_payload_fields ::
  "(string \<times> json) list \<Rightarrow> safe_audit_outbox_payload
     \<Rightarrow> (safe_audit_outbox_payload, audit_outbox_payload_safety_error) result" where
  "safe_payload_fields [] safe = Ok safe"
| "safe_payload_fields ((key, value) # members) safe =
     try_then (safe_payload_field key value safe) (safe_payload_fields members)"

definition safe_payload_try_from ::
  "json \<Rightarrow> (safe_audit_outbox_payload, audit_outbox_payload_safety_error) result" where
  "safe_payload_try_from payload =
     try_then (ok_or AuditOutboxPayloadSafetyError (as_object payload)) (\<lambda>members.
       if members = [] then Err AuditOutboxPayloadSafetyError
       else safe_payload_fields members
         \<lparr>sp_event_id = None, sp_trace_id = None, sp_event_type = None, sp_sequence = None,
          sp_tenant_id = None, sp_kind = None\<rparr>)"

definition validate_audit_outbox_payload ::
  "json \<Rightarrow> (unit, audit_outbox_payload_safety_error) result" where
  "validate_audit_outbox_payload payload = try_then (safe_payload_try_from payload) (\<lambda>_. Ok ())"

section \<open>Codec\<close>

fun audit_actor_kind_to_db :: "audit_actor_kind \<Rightarrow> string" where
  "audit_actor_kind_to_db AuditUser = ''user''"
| "audit_actor_kind_to_db AuditBot = ''bot''"
| "audit_actor_kind_to_db AuditApp = ''app''"
| "audit_actor_kind_to_db AuditSystem = ''system''"
| "audit_actor_kind_to_db AuditService = ''service''"

definition audit_actor_kind_from_db ::
  "string \<Rightarrow> (audit_actor_kind, postgres_repository_error) result" where
  "audit_actor_kind_from_db value =
     (if value = ''user'' then Ok AuditUser
      else if value = ''bot'' then Ok AuditBot
      else if value = ''app'' then Ok AuditApp
      else if value = ''system'' then Ok AuditSystem
      else if value = ''service'' then Ok AuditService
      else Err (UnknownAuditActorKind value))"

fun audit_event_type_to_db :: "audit_event_type \<Rightarrow> string" where
  "audit_event_type_to_db ProposedActionDecisionRecorded = ''proposed_action_decision_recorded''"
| "audit_event_type_to_db ConfirmedActionRecorded = ''confirmed_action_recorded''"
| "audit_event_type_to_db DryRunExecuted = ''dry_run_executed''"
| "audit_event_type_to_db ExecutionDenied = ''execution_denied''"
| "audit_event_type_to_db ExecutionSucceeded = ''execution_succeeded''"
| "audit_event_type_to_db ExecutionFailed = ''execution_failed''"

definition audit_event_type_from_db ::
  "string \<Rightarrow> (audit_event_type, postgres_repository_error) result" where
  "audit_event_type_from_db value =
     (if value = ''proposed_action_decision_recorded'' then Ok ProposedActionDecisionRecorded
      else if value = ''confirmed_action_recorded'' then Ok ConfirmedActionRecorded
      else if value = ''dry_run_executed'' then Ok DryRunExecuted
      else if value = ''execution_denied'' then Ok ExecutionDenied
      else if value = ''execution_succeeded'' then Ok ExecutionSucceeded
      else if value = ''execution_failed'' then Ok ExecutionFailed
      else Err (UnknownAuditEventType value))"

section \<open>Tables\<close>

record audit_event_row =
  ar_event_id :: string
  ar_trace_id :: string
  ar_sequence :: int
  ar_occurred_at_ms :: int
  ar_row_tenant_id :: string
  ar_actor_kind :: string
  ar_actor_id :: string
  ar_actor_display_name :: "string option"
  ar_target_resource_type :: string
  ar_target_resource_id :: string
  ar_target_action_type :: string
  ar_event_type :: string
  ar_before_summary :: "json option"
  ar_after_summary :: "json option"
  ar_execution_result :: "json option"
  ar_operation_id :: "string option"

record outbox_row =
  ob_id :: int
  ob_tenant_id :: string
  ob_stream :: string
  ob_aggregate_id :: string
  ob_payload :: json
  ob_status :: string
  ob_attempt_count :: int
  ob_next_attempt_at :: "timestamptz option"
  ob_created_at :: timestamptz
  ob_sent_at :: "timestamptz option"

text \<open>
  The part of the database in use here: the tenants, the keys of \<open>operation_ledger\<close> that the
  foreign key of an event refers to, the two tables and the next value of the outbox sequence.
\<close>

record audit_db =
  ad_tenants :: "string list"
  ad_operations :: "(string \<times> string) list"
  ad_events :: "audit_event_row list"
  ad_outbox :: "outbox_row list"
  ad_outbox_id_seq :: int

definition audit_event_row_check :: "audit_db \<Rightarrow> audit_event_row \<Rightarrow> bool" where
  "audit_event_row_check db r \<longleftrightarrow>
     0 < ar_sequence r \<and> 0 \<le> ar_occurred_at_ms r \<and>
     ar_row_tenant_id r \<in> set (ad_tenants db) \<and>
     ar_actor_kind r \<in> {''user'', ''bot'', ''app'', ''system'', ''service''} \<and>
     ar_event_type r \<in> {''proposed_action_decision_recorded'', ''confirmed_action_recorded'',
       ''dry_run_executed'', ''execution_denied'', ''execution_succeeded'', ''execution_failed''} \<and>
     (case ar_operation_id r of None \<Rightarrow> True
      | Some operation_id \<Rightarrow> (ar_row_tenant_id r, operation_id) \<in> set (ad_operations db))"

definition same_event_key :: "audit_event_row \<Rightarrow> audit_event_row \<Rightarrow> bool" where
  "same_event_key r r' \<longleftrightarrow>
     ar_event_id r = ar_event_id r' \<or>
     ar_row_tenant_id r = ar_row_tenant_id r' \<and> ar_trace_id r = ar_trace_id r' \<and>
     ar_sequence r = ar_sequence r'"

section \<open>Events\<close>

record audit_json =
  aj_summary_to_value :: "audit_state_summary \<Rightarrow> json option"
  aj_summary_from_value :: "json \<Rightarrow> audit_state_summary option"
  aj_execution_to_value :: "execution_result \<Rightarrow> json option"
  aj_execution_from_value :: "json \<Rightarrow> execution_result option"

definition APPEND_AUDIT_EVENT ::
  "audit_db \<Rightarrow> audit_event_row \<Rightarrow> (unit \<times> audit_db, postgres_repository_error) result" where
  "APPEND_AUDIT_EVENT db r =
     (if list_ex (same_event_key r) (ad_events db)
      then Err (Sqlx (DatabaseError ''unique violation''))
      else if \<not> audit_event_row_check db r
      then Err (Sqlx (DatabaseError ''constraint violation''))
      else Ok ((), db\<lparr>ad_events := ad_events db @ [r]\<rparr>))"

definition FIND_AUDIT_EVENTS_BY_TRACE_ID :: "audit_db \<Rightarrow> string \<Rightarrow> string \<Rightarrow> audit_event_row list" where
  "FIND_AUDIT_EVENTS_BY_TRACE_ID db tenant trace =
     sort_key ar_sequence (filter (\<lambda>r. ar_row_tenant_id r = tenant \<and> ar_trace_id r = trace)
       (ad_events db))"

definition append_audit_event_query ::
  "audit_json \<Rightarrow> audit_event \<Rightarrow> string option \<Rightarrow> (audit_event_row, postgres_repository_error) result" where
  "append_audit_event_query J event operation_id =
     try_then (json_option (aj_summary_to_value J) (ae_before event)) (\<lambda>before.
     try_then (json_option (aj_summary_to_value J) (ae_after event)) (\<lambda>after.
     try_then (json_option (aj_execution_to_value J) (ae_execution event)) (\<lambda>execution.
       Ok \<lparr>ar_event_id = ae_event_id event, ar_trace_id = ae_trace_id event,
          ar_sequence = u64_as_i64 (ae_sequence event),
          ar_occurred_at_ms = u64_as_i64 (ae_occurred_at_ms event),
          ar_row_tenant_id = as_tenant_id (ae_scope event),
          ar_actor_kind = audit_actor_kind_to_db (aa_kind (ae_actor event)),
          ar_actor_id = aa_actor_id (ae_actor event),
          ar_actor_display_name = aa_display_name (ae_actor event),
          ar_target_resource_type = at_resource_type (ae_target event),
          ar_target_resource_id = at_resource_id (ae_target event),
          ar_target_action_type = at_action_type (ae_target event),
          ar_event_type = audit_event_type_to_db (ae_event_type event),
          ar_before_summary = before, ar_after_summary = after, ar_execution_result = execution,
          ar_operation_id = operation_id\<rparr>)))"

definition audit_event_from_row ::
  "audit_json \<Rightarrow> audit_event_row \<Rightarrow> (audit_event, postgres_repository_error) result" where
  "audit_event_from_row J r =
     try_then (non_negative_i64_to_u64 (ar_sequence r) ''sequence'') (\<lambda>sequence.
     try_then (non_negative_i64_to_u64 (ar_occurred_at_ms r) ''occurred_at_ms'') (\<lambda>occurred_at_ms.
     try_then (audit_event_type_from_db (ar_event_type r)) (\<lambda>event_type.
     try_then (audit_actor_kind_from_db (ar_actor_kind r)) (\<lambda>actor_kind.
     try_then (json_value_option (aj_summary_from_value J) (ar_before_summary r)) (\<lambda>before.
     try_then (json_value_option (aj_summary_from_value J) (ar_after_summary r)) (\<lambda>after.
     try_then (json_value_option (aj_execution_from_value J) (ar_execution_result r)) (\<lambda>execution.
       Ok \<lparr>ae_event_id = ar_event_id r, ae_trace_id = ar_trace_id r, ae_sequence = sequence,
          ae_occurred_at_ms = occurred_at_ms, ae_event_type = event_type,
          ae_actor = \<lparr>aa_kind = actor_kind, aa_actor_id = ar_actor_id r,
            aa_display_name = ar_actor_display_name r\<rparr>,
          ae_scope = \<lparr>as_tenant_id = ar_row_tenant_id r, as_workspace_id = None\<rparr>,
          ae_target = \<lparr>at_resource_type = ar_target_resource_type r,
            at_resource_id = ar_target_resource_id r, at_action_type = ar_target_action_type r\<rparr>,
          ae_before = before, ae_after = after, ae_execution = execution\<rparr>)))))))"

text \<open>\<open>append\<close> on the pool and \<open>append_audit_event_in_tx\<close> run the same statement.\<close>

definition pg_audit_append ::
  "audit_json \<Rightarrow> audit_db \<Rightarrow> audit_event \<Rightarrow> string option
     \<Rightarrow> (unit, postgres_repository_error) result \<times> audit_db" where
  "pg_audit_append J db event operation_id =
     try_st (append_audit_event_query J event operation_id, db)
       (\<lambda>row db. exec_sql db (APPEND_AUDIT_EVENT db row))"

lemma pg_audit_append_OkE:
  assumes "pg_audit_append J db event operation_id = (Inr u, db')"
  obtains row where "append_audit_event_query J event operation_id = Inr row"
    and "db' = db\<lparr>ad_events := ad_events db @ [row]\<rparr>" and "\<not> list_ex (same_event_key row) (ad_events db)"
    and "audit_event_row_check db row"
  using assms
  by (auto simp: pg_audit_append_def APPEND_AUDIT_EVENT_def elim!: try_st_OkE split: if_splits)

lemma pg_audit_append_Err:
  "fst (pg_audit_append J db event operation_id) = Inl e \<Longrightarrow> snd (pg_audit_append J db event operation_id) = db"
  by (auto simp: pg_audit_append_def exec_sql_def try_st_def split: sum.splits prod.splits if_splits)

definition find_by_tenant_and_trace_id ::
  "audit_json \<Rightarrow> audit_db \<Rightarrow> string \<Rightarrow> string \<Rightarrow> (audit_event list, postgres_repository_error) result" where
  "find_by_tenant_and_trace_id J db tenant_id trace_id =
     collect_results (audit_event_from_row J) (FIND_AUDIT_EVENTS_BY_TRACE_ID db tenant_id trace_id)"

section \<open>The outbox\<close>

record audit_outbox_message =
  om_id :: int
  om_tenant_id :: string
  om_stream :: string
  om_aggregate_id :: string
  om_payload :: json
  om_attempt_count :: int
  om_next_attempt_at_ms :: "int option"

definition ENQUEUE_AUDIT_OUTBOX ::
  "(int \<Rightarrow> timestamptz option) \<Rightarrow> timestamptz \<Rightarrow> audit_db \<Rightarrow> string \<Rightarrow> string \<Rightarrow> string \<Rightarrow> json \<Rightarrow> int
     \<Rightarrow> (int \<times> audit_db, postgres_repository_error) result" where
  "ENQUEUE_AUDIT_OUTBOX to_ts db_now db tenant stream aggregate_id payload next_attempt_at_ms =
     try_then (sql_timestamp to_ts next_attempt_at_ms) (\<lambda>next_attempt_at.
       if tenant \<notin> set (ad_tenants db) then Err (Sqlx (DatabaseError ''constraint violation''))
       else Ok (ad_outbox_id_seq db, db\<lparr>
         ad_outbox := ad_outbox db @ [\<lparr>ob_id = ad_outbox_id_seq db, ob_tenant_id = tenant,
           ob_stream = stream, ob_aggregate_id = aggregate_id, ob_payload = payload,
           ob_status = ''pending'', ob_attempt_count = 0, ob_next_attempt_at = Some next_attempt_at,
           ob_created_at = db_now, ob_sent_at = None\<rparr>],
         ad_outbox_id_seq := ad_outbox_id_seq db + 1\<rparr>))"

text \<open>\<open>ORDER BY next_attempt_at NULLS FIRST, created_at ASC, id ASC\<close>.\<close>

definition outbox_order :: "outbox_row \<Rightarrow> (int \<times> int) \<times> int \<times> int" where
  "outbox_order r =
     ((case ob_next_attempt_at r of None \<Rightarrow> (0, 0) | Some t \<Rightarrow> (1, t)), ob_created_at r, ob_id r)"

definition outbox_claimable :: "string \<Rightarrow> string \<Rightarrow> timestamptz \<Rightarrow> outbox_row \<Rightarrow> bool" where
  "outbox_claimable tenant stream now r \<longleftrightarrow>
     ob_tenant_id r = tenant \<and> ob_stream r = stream \<and> ob_status r = ''pending'' \<and>
     (case ob_next_attempt_at r of None \<Rightarrow> True | Some t \<Rightarrow> t \<le> now)"

definition outbox_candidates ::
  "(int \<Rightarrow> bool) \<Rightarrow> audit_db \<Rightarrow> string \<Rightarrow> string \<Rightarrow> timestamptz \<Rightarrow> int \<Rightarrow> int list" where
  "outbox_candidates locked db tenant stream now limit =
     map ob_id (take (nat limit) (sort_key outbox_order
       (filter (\<lambda>r. outbox_claimable tenant stream now r \<and> \<not> locked (ob_id r)) (ad_outbox db))))"

definition outbox_claimed_row :: "timestamptz \<Rightarrow> outbox_row \<Rightarrow> outbox_row" where
  "outbox_claimed_row lease_until r =
     r\<lparr>ob_attempt_count := ob_attempt_count r + 1, ob_next_attempt_at := Some lease_until\<rparr>"

definition CLAIM_AUDIT_OUTBOX ::
  "(int \<Rightarrow> timestamptz option) \<Rightarrow> (int \<Rightarrow> bool) \<Rightarrow> audit_db \<Rightarrow> string \<Rightarrow> string \<Rightarrow> int \<Rightarrow> int \<Rightarrow> int
     \<Rightarrow> (outbox_row list \<times> audit_db, postgres_repository_error) result" where
  "CLAIM_AUDIT_OUTBOX to_ts locked db tenant stream now_ms limit lease_until_ms =
     try_then (sql_timestamp to_ts now_ms) (\<lambda>now.
     try_then (sql_timestamp to_ts lease_until_ms) (\<lambda>lease_until.
       if limit < 0 then Err (Sqlx (DatabaseError ''LIMIT must not be negative''))
       else let candidate = outbox_candidates locked db tenant stream now limit;
                chosen = (\<lambda>r. ob_id r \<in> set candidate)
            in if list_ex (\<lambda>r. chosen r \<and> 2147483647 < ob_attempt_count r + 1) (ad_outbox db)
               then Err (Sqlx (DatabaseError ''integer out of range''))
               else Ok (sort_key ob_id (map (outbox_claimed_row lease_until)
                          (filter chosen (ad_outbox db))),
                        db\<lparr>ad_outbox := map_where chosen (outbox_claimed_row lease_until)
                          (ad_outbox db)\<rparr>)))"

text \<open>
  The statements that mark a message answer whether a row was returned. \<open>outbox_attempt\<close> is the
  condition of the three variants that name the attempt.
\<close>

definition update_outbox ::
  "(outbox_row \<Rightarrow> bool) \<Rightarrow> (outbox_row \<Rightarrow> outbox_row) \<Rightarrow> audit_db \<Rightarrow> bool \<times> audit_db" where
  "update_outbox P f db =
     (list_ex P (ad_outbox db), db\<lparr>ad_outbox := map_where P f (ad_outbox db)\<rparr>)"

definition outbox_attempt :: "string \<Rightarrow> int \<Rightarrow> int \<Rightarrow> timestamptz \<Rightarrow> outbox_row \<Rightarrow> bool" where
  "outbox_attempt tenant message_id attempt_count lease_until r \<longleftrightarrow>
     ob_tenant_id r = tenant \<and> ob_id r = message_id \<and> ob_attempt_count r = attempt_count \<and>
     ob_next_attempt_at r = Some lease_until \<and> ob_status r = ''pending''"

definition outbox_sent_row :: "timestamptz \<Rightarrow> outbox_row \<Rightarrow> outbox_row" where
  "outbox_sent_row sent_at r = r\<lparr>ob_status := ''sent'',
     ob_sent_at := (case ob_sent_at r of None \<Rightarrow> Some sent_at | Some t \<Rightarrow> Some t)\<rparr>"

definition outbox_retry_row :: "timestamptz \<Rightarrow> outbox_row \<Rightarrow> outbox_row" where
  "outbox_retry_row next_attempt_at r =
     r\<lparr>ob_status := ''pending'', ob_next_attempt_at := Some next_attempt_at\<rparr>"

definition outbox_failed_row :: "outbox_row \<Rightarrow> outbox_row" where
  "outbox_failed_row r = r\<lparr>ob_status := ''failed'', ob_next_attempt_at := None\<rparr>"

definition MARK_AUDIT_OUTBOX_SENT ::
  "(int \<Rightarrow> timestamptz option) \<Rightarrow> audit_db \<Rightarrow> string \<Rightarrow> int \<Rightarrow> int
     \<Rightarrow> (bool \<times> audit_db, postgres_repository_error) result" where
  "MARK_AUDIT_OUTBOX_SENT to_ts db tenant message_id sent_at_ms =
     try_then (sql_timestamp to_ts sent_at_ms) (\<lambda>sent_at. Ok (update_outbox
       (\<lambda>r. ob_tenant_id r = tenant \<and> ob_id r = message_id \<and> ob_status r \<in> {''pending'', ''sent''})
       (outbox_sent_row sent_at) db))"

definition MARK_AUDIT_OUTBOX_SENT_FOR_ATTEMPT ::
  "(int \<Rightarrow> timestamptz option) \<Rightarrow> audit_db \<Rightarrow> string \<Rightarrow> int \<Rightarrow> int \<Rightarrow> int \<Rightarrow> int
     \<Rightarrow> (bool \<times> audit_db, postgres_repository_error) result" where
  "MARK_AUDIT_OUTBOX_SENT_FOR_ATTEMPT to_ts db tenant message_id attempt_count lease_until_ms
       sent_at_ms =
     try_then (sql_timestamp to_ts lease_until_ms) (\<lambda>lease_until.
     try_then (sql_timestamp to_ts sent_at_ms) (\<lambda>sent_at. Ok (update_outbox
       (outbox_attempt tenant message_id attempt_count lease_until) (outbox_sent_row sent_at) db)))"

definition MARK_AUDIT_OUTBOX_RETRYABLE ::
  "(int \<Rightarrow> timestamptz option) \<Rightarrow> audit_db \<Rightarrow> string \<Rightarrow> int \<Rightarrow> int
     \<Rightarrow> (bool \<times> audit_db, postgres_repository_error) result" where
  "MARK_AUDIT_OUTBOX_RETRYABLE to_ts db tenant message_id next_attempt_at_ms =
     try_then (sql_timestamp to_ts next_attempt_at_ms) (\<lambda>next_attempt_at. Ok (update_outbox
       (\<lambda>r. ob_tenant_id r = tenant \<and> ob_id r = message_id \<and> ob_status r = ''pending'')
       (outbox_retry_row next_attempt_at) db))"

definition MARK_AUDIT_OUTBOX_RETRYABLE_FOR_ATTEMPT ::
  "(int \<Rightarrow> timestamptz option) \<Rightarrow> audit_db \<Rightarrow> string \<Rightarrow> int \<Rightarrow> int \<Rightarrow> int \<Rightarrow> int
     \<Rightarrow> (bool \<times> audit_db, postgres_repository_error) result" where
  "MARK_AUDIT_OUTBOX_RETRYABLE_FOR_ATTEMPT to_ts db tenant message_id attempt_count lease_until_ms
       next_attempt_at_ms =
     try_then (sql_timestamp to_ts lease_until_ms) (\<lambda>lease_until.
     try_then (sql_timestamp to_ts next_attempt_at_ms) (\<lambda>next_attempt_at. Ok (update_outbox
       (outbox_attempt tenant message_id attempt_count lease_until)
       (outbox_retry_row next_attempt_at) db)))"

definition MARK_AUDIT_OUTBOX_FAILED ::
  "audit_db \<Rightarrow> string \<Rightarrow> int \<Rightarrow> (bool \<times> audit_db, postgres_repository_error) result" where
  "MARK_AUDIT_OUTBOX_FAILED db tenant message_id = Ok (update_outbox
     (\<lambda>r. ob_tenant_id r = tenant \<and> ob_id r = message_id \<and> ob_status r \<in> {''pending'', ''failed''})
     outbox_failed_row db)"

definition MARK_AUDIT_OUTBOX_FAILED_FOR_ATTEMPT ::
  "(int \<Rightarrow> timestamptz option) \<Rightarrow> audit_db \<Rightarrow> string \<Rightarrow> int \<Rightarrow> int \<Rightarrow> int
     \<Rightarrow> (bool \<times> audit_db, postgres_repository_error) result" where
  "MARK_AUDIT_OUTBOX_FAILED_FOR_ATTEMPT to_ts db tenant message_id attempt_count lease_until_ms =
     try_then (sql_timestamp to_ts lease_until_ms) (\<lambda>lease_until. Ok (update_outbox
       (outbox_attempt tenant message_id attempt_count lease_until) outbox_failed_row db))"

definition audit_outbox_message_from_row :: "outbox_row \<Rightarrow> audit_outbox_message" where
  "audit_outbox_message_from_row r = \<lparr>om_id = ob_id r, om_tenant_id = ob_tenant_id r,
     om_stream = ob_stream r, om_aggregate_id = ob_aggregate_id r, om_payload = ob_payload r,
     om_attempt_count = ob_attempt_count r,
     om_next_attempt_at_ms = map_option epoch_ms (ob_next_attempt_at r)\<rparr>"

definition enqueue_outbox ::
  "(int \<Rightarrow> timestamptz option) \<Rightarrow> timestamptz \<Rightarrow> audit_db \<Rightarrow> string \<Rightarrow> string \<Rightarrow> string \<Rightarrow> json \<Rightarrow> u64
     \<Rightarrow> (int, postgres_repository_error) result \<times> audit_db" where
  "enqueue_outbox to_ts db_now db tenant_id stream aggregate_id payload next_attempt_at_ms =
     try_st (map_err (\<lambda>_. UnsafeAuditOutboxPayload) (validate_audit_outbox_payload payload), db)
       (\<lambda>_ db. exec_sql db (ENQUEUE_AUDIT_OUTBOX to_ts db_now db tenant_id stream aggregate_id payload
         (u64_as_i64 next_attempt_at_ms)))"

definition claim_outbox ::
  "(int \<Rightarrow> timestamptz option) \<Rightarrow> (int \<Rightarrow> bool) \<Rightarrow> audit_db \<Rightarrow> string \<Rightarrow> string \<Rightarrow> u64 \<Rightarrow> int \<Rightarrow> u64
     \<Rightarrow> (audit_outbox_message list, postgres_repository_error) result \<times> audit_db" where
  "claim_outbox to_ts locked db tenant_id stream now_ms limit lease_until_ms =
     try_st (exec_sql db (CLAIM_AUDIT_OUTBOX to_ts locked db tenant_id stream (u64_as_i64 now_ms)
       limit (u64_as_i64 lease_until_ms)))
       (\<lambda>rows db. (Ok (map audit_outbox_message_from_row rows), db))"

definition mark_outbox_sent ::
  "(int \<Rightarrow> timestamptz option) \<Rightarrow> audit_db \<Rightarrow> string \<Rightarrow> int \<Rightarrow> u64
     \<Rightarrow> (bool, postgres_repository_error) result \<times> audit_db" where
  "mark_outbox_sent to_ts db tenant_id message_id sent_at_ms =
     exec_sql db (MARK_AUDIT_OUTBOX_SENT to_ts db tenant_id message_id (u64_as_i64 sent_at_ms))"

definition mark_outbox_sent_for_attempt ::
  "(int \<Rightarrow> timestamptz option) \<Rightarrow> audit_db \<Rightarrow> string \<Rightarrow> int \<Rightarrow> int \<Rightarrow> u64 \<Rightarrow> u64
     \<Rightarrow> (bool, postgres_repository_error) result \<times> audit_db" where
  "mark_outbox_sent_for_attempt to_ts db tenant_id message_id attempt_count lease_until_ms sent_at_ms =
     exec_sql db (MARK_AUDIT_OUTBOX_SENT_FOR_ATTEMPT to_ts db tenant_id message_id attempt_count
       (u64_as_i64 lease_until_ms) (u64_as_i64 sent_at_ms))"

definition mark_outbox_retryable ::
  "(int \<Rightarrow> timestamptz option) \<Rightarrow> audit_db \<Rightarrow> string \<Rightarrow> int \<Rightarrow> u64
     \<Rightarrow> (bool, postgres_repository_error) result \<times> audit_db" where
  "mark_outbox_retryable to_ts db tenant_id message_id next_attempt_at_ms =
     exec_sql db (MARK_AUDIT_OUTBOX_RETRYABLE to_ts db tenant_id message_id
       (u64_as_i64 next_attempt_at_ms))"

definition mark_outbox_retryable_for_attempt ::
  "(int \<Rightarrow> timestamptz option) \<Rightarrow> audit_db \<Rightarrow> string \<Rightarrow> int \<Rightarrow> int \<Rightarrow> u64 \<Rightarrow> u64
     \<Rightarrow> (bool, postgres_repository_error) result \<times> audit_db" where
  "mark_outbox_retryable_for_attempt to_ts db tenant_id message_id attempt_count lease_until_ms
       next_attempt_at_ms =
     exec_sql db (MARK_AUDIT_OUTBOX_RETRYABLE_FOR_ATTEMPT to_ts db tenant_id message_id attempt_count
       (u64_as_i64 lease_until_ms) (u64_as_i64 next_attempt_at_ms))"

definition mark_outbox_failed ::
  "audit_db \<Rightarrow> string \<Rightarrow> int \<Rightarrow> (bool, postgres_repository_error) result \<times> audit_db" where
  "mark_outbox_failed db tenant_id message_id =
     exec_sql db (MARK_AUDIT_OUTBOX_FAILED db tenant_id message_id)"

definition mark_outbox_failed_for_attempt ::
  "(int \<Rightarrow> timestamptz option) \<Rightarrow> audit_db \<Rightarrow> string \<Rightarrow> int \<Rightarrow> int \<Rightarrow> u64
     \<Rightarrow> (bool, postgres_repository_error) result \<times> audit_db" where
  "mark_outbox_failed_for_attempt to_ts db tenant_id message_id attempt_count lease_until_ms =
     exec_sql db (MARK_AUDIT_OUTBOX_FAILED_FOR_ATTEMPT to_ts db tenant_id message_id attempt_count
       (u64_as_i64 lease_until_ms))"

section \<open>Lemmas on the outbox\<close>

definition outbox_row_ok :: "outbox_row \<Rightarrow> bool" where
  "outbox_row_ok r \<longleftrightarrow>
     ob_status r \<in> {''pending'', ''sent'', ''failed''} \<and> 0 \<le> ob_attempt_count r \<and>
     (ob_status r = ''sent'' \<longrightarrow> ob_sent_at r \<noteq> None) \<and>
     (ob_status r = ''failed'' \<longrightarrow> ob_next_attempt_at r = None)"

definition outbox_ok :: "audit_db \<Rightarrow> bool" where
  "outbox_ok db \<longleftrightarrow>
     distinct (map ob_id (ad_outbox db)) \<and>
     (\<forall>r \<in> set (ad_outbox db). ob_id r < ad_outbox_id_seq db \<and> outbox_row_ok r)"

definition outbox_get :: "int \<Rightarrow> audit_db \<Rightarrow> outbox_row option" where
  "outbox_get message_id db = find (\<lambda>r. ob_id r = message_id) (ad_outbox db)"

lemma outbox_get_Some_iff:
  assumes "outbox_ok db"
  shows "outbox_get k db = Some r \<longleftrightarrow> r \<in> set (ad_outbox db) \<and> ob_id r = k"
proof
  assume "outbox_get k db = Some r"
  then show "r \<in> set (ad_outbox db) \<and> ob_id r = k"
    by (auto simp: outbox_get_def find_Some_iff)
next
  assume r: "r \<in> set (ad_outbox db) \<and> ob_id r = k"
  then obtain r' where r': "outbox_get k db = Some r'"
    by (cases "outbox_get k db") (auto simp: outbox_get_def find_None_iff)
  then have "r' \<in> set (ad_outbox db)" and "ob_id r' = k" by (auto simp: outbox_get_def find_Some_iff)
  with r assms have "r' = r" by (auto simp: outbox_ok_def distinct_map inj_on_def)
  with r' show "outbox_get k db = Some r" by simp
qed

text \<open>The row changes keep the id and, but for the claim, the count.\<close>

lemma outbox_row_changes [simp]:
  "ob_id (outbox_claimed_row u r) = ob_id r" "ob_id (outbox_sent_row t r) = ob_id r"
  "ob_id (outbox_retry_row t r) = ob_id r" "ob_id (outbox_failed_row r) = ob_id r"
  "ob_attempt_count (outbox_claimed_row u r) = ob_attempt_count r + 1"
  "ob_attempt_count (outbox_sent_row t r) = ob_attempt_count r"
  "ob_attempt_count (outbox_retry_row t r) = ob_attempt_count r"
  "ob_attempt_count (outbox_failed_row r) = ob_attempt_count r"
  by (simp_all add: outbox_claimed_row_def outbox_sent_row_def outbox_retry_row_def outbox_failed_row_def)

lemma outbox_row_changes_ok:
  "outbox_row_ok r \<Longrightarrow> ob_status r = ''pending'' \<Longrightarrow> outbox_row_ok (outbox_claimed_row u r)"
  "outbox_row_ok r \<Longrightarrow> outbox_row_ok (outbox_sent_row t r)"
  "outbox_row_ok r \<Longrightarrow> outbox_row_ok (outbox_retry_row t r)"
  "outbox_row_ok r \<Longrightarrow> outbox_row_ok (outbox_failed_row r)"
  by (auto simp: outbox_row_ok_def outbox_claimed_row_def outbox_sent_row_def outbox_retry_row_def
      outbox_failed_row_def split: option.splits)

text \<open>
  The effect every call has on the outbox: a row is added at the end, or the rows that satisfy a
  condition, all of them pending or left as they are, change by a function that keeps id and
  invariant and never lowers the count.
\<close>

definition outbox_change :: "(outbox_row \<Rightarrow> bool) \<Rightarrow> (outbox_row \<Rightarrow> outbox_row) \<Rightarrow> audit_db \<Rightarrow> audit_db \<Rightarrow> bool" where
  "outbox_change P f db db' \<longleftrightarrow> db' = db\<lparr>ad_outbox := map_where P f (ad_outbox db)\<rparr> \<and>
     (\<forall>r. ob_id (f r) = ob_id r \<and> ob_attempt_count r \<le> ob_attempt_count (f r)) \<and>
     (\<forall>r \<in> set (ad_outbox db). P r \<longrightarrow> outbox_row_ok (f r) \<and> (ob_status r = ''pending'' \<or> f r = r))"

lemma outbox_change_get:
  assumes "outbox_change P f db db'"
  shows "outbox_get k db' = map_option (\<lambda>r. if P r then f r else r) (outbox_get k db)"
  using assms find_map_where [of "\<lambda>r. ob_id r = k" f P] by (simp add: outbox_change_def outbox_get_def)

lemma outbox_change_ok: "outbox_change P f db db' \<Longrightarrow> outbox_ok db \<Longrightarrow> outbox_ok db'"
  by (auto simp: outbox_change_def outbox_ok_def map_map_where set_map_where)

lemma update_outbox_change:
  assumes "outbox_ok db" and "\<And>r. ob_id (f r) = ob_id r \<and> ob_attempt_count (f r) = ob_attempt_count r"
    and "\<And>r. r \<in> set (ad_outbox db) \<Longrightarrow> P r \<Longrightarrow> outbox_row_ok (f r) \<and> (ob_status r = ''pending'' \<or> f r = r)"
  shows "outbox_change P f db (snd (update_outbox P f db))"
  using assms by (simp add: outbox_change_def update_outbox_def)

lemma outbox_row_ok_member: "outbox_ok db \<Longrightarrow> r \<in> set (ad_outbox db) \<Longrightarrow> outbox_row_ok r"
  by (simp add: outbox_ok_def)

lemma sent_row_idem: "outbox_row_ok r \<Longrightarrow> ob_status r = ''sent'' \<Longrightarrow> outbox_sent_row t r = r"
  by (cases r) (auto simp: outbox_row_ok_def outbox_sent_row_def)

lemma failed_row_idem: "outbox_row_ok r \<Longrightarrow> ob_status r = ''failed'' \<Longrightarrow> outbox_failed_row r = r"
  by (cases r) (auto simp: outbox_row_ok_def outbox_failed_row_def)

section \<open>Histories of the outbox\<close>

datatype outbox_op =
    ObEnqueue timestamptz string string string json u64
  | ObClaim "int \<Rightarrow> bool" string string u64 int u64
  | ObSent string int u64
  | ObSentForAttempt string int int u64 u64
  | ObRetryable string int u64
  | ObRetryableForAttempt string int int u64 u64
  | ObFailed string int
  | ObFailedForAttempt string int int u64

fun outbox_apply :: "(int \<Rightarrow> timestamptz option) \<Rightarrow> outbox_op \<Rightarrow> audit_db \<Rightarrow> audit_db" where
  "outbox_apply to_ts (ObEnqueue now t s a p nxt) db = snd (enqueue_outbox to_ts now db t s a p nxt)"
| "outbox_apply to_ts (ObClaim locked t s now limit until) db =
     snd (claim_outbox to_ts locked db t s now limit until)"
| "outbox_apply to_ts (ObSent t k ms) db = snd (mark_outbox_sent to_ts db t k ms)"
| "outbox_apply to_ts (ObSentForAttempt t k a u ms) db =
     snd (mark_outbox_sent_for_attempt to_ts db t k a u ms)"
| "outbox_apply to_ts (ObRetryable t k ms) db = snd (mark_outbox_retryable to_ts db t k ms)"
| "outbox_apply to_ts (ObRetryableForAttempt t k a u ms) db =
     snd (mark_outbox_retryable_for_attempt to_ts db t k a u ms)"
| "outbox_apply to_ts (ObFailed t k) db = snd (mark_outbox_failed db t k)"
| "outbox_apply to_ts (ObFailedForAttempt t k a u) db = snd (mark_outbox_failed_for_attempt to_ts db t k a u)"

definition outbox_run :: "(int \<Rightarrow> timestamptz option) \<Rightarrow> outbox_op list \<Rightarrow> audit_db \<Rightarrow> audit_db" where
  "outbox_run to_ts ops db = fold (outbox_apply to_ts) ops db"

lemma snd_claim_outbox:
  "snd (claim_outbox to_ts locked db t s now limit until) =
   snd (exec_sql db (CLAIM_AUDIT_OUTBOX to_ts locked db t s (u64_as_i64 now) limit (u64_as_i64 until)))"
  using try_st_keeps_state [of _ "\<lambda>rows db. Ok (map audit_outbox_message_from_row rows)"]
  by (simp add: claim_outbox_def)

lemma candidates_claimable:
  assumes "outbox_ok db" and "r \<in> set (ad_outbox db)" and "ob_id r \<in> set (outbox_candidates locked db t s now limit)"
  shows "outbox_claimable t s now r \<and> \<not> locked (ob_id r)"
proof -
  from assms(3) obtain r' where r': "r' \<in> set (ad_outbox db)" "ob_id r' = ob_id r" "outbox_claimable t s now r'" "\<not> locked (ob_id r')"
    by (auto simp: outbox_candidates_def dest!: in_set_takeD)
  then have "r' = r" using assms(1,2) by (auto simp: outbox_ok_def distinct_map inj_on_def)
  with r' show ?thesis by simp
qed

lemma CLAIM_Ok_iff:
  "CLAIM_AUDIT_OUTBOX to_ts locked db t s now limit until = Inr (rows, db') \<longleftrightarrow> (\<exists>n u.
     to_ts now = Some n \<and> to_ts until = Some u \<and> 0 \<le> limit \<and>
     (let chosen = (\<lambda>r. ob_id r \<in> set (outbox_candidates locked db t s n limit)) in
      (\<forall>r \<in> set (ad_outbox db). chosen r \<longrightarrow> ob_attempt_count r < 2147483647) \<and>
      rows = sort_key ob_id (map (outbox_claimed_row u) (filter chosen (ad_outbox db))) \<and>
      db' = db\<lparr>ad_outbox := map_where chosen (outbox_claimed_row u) (ad_outbox db)\<rparr>))"
  by (fastforce simp: CLAIM_AUDIT_OUTBOX_def try_then_Ok_iff Let_def list_ex_iff not_le split: if_splits)

definition outbox_effect :: "audit_db \<Rightarrow> audit_db \<Rightarrow> bool" where
  "outbox_effect db db' \<longleftrightarrow> db' = db \<or>
     (\<exists>r. db' = db\<lparr>ad_outbox := ad_outbox db @ [r], ad_outbox_id_seq := ad_outbox_id_seq db + 1\<rparr> \<and>
        ob_id r = ad_outbox_id_seq db \<and> outbox_row_ok r) \<or>
     (\<exists>P f. outbox_change P f db db')"

lemma enqueue_effect:
  "outbox_effect db (snd (exec_sql db (ENQUEUE_AUDIT_OUTBOX to_ts now db t s a p nxt)))"
proof (cases "to_ts nxt")
  case (Some n)
  show ?thesis
  proof (cases "t \<in> set (ad_tenants db)")
    case True
    let ?r = "\<lparr>ob_id = ad_outbox_id_seq db, ob_tenant_id = t, ob_stream = s, ob_aggregate_id = a, ob_payload = p,
      ob_status = ''pending'', ob_attempt_count = 0, ob_next_attempt_at = Some n, ob_created_at = now, ob_sent_at = None\<rparr>"
    have "snd (exec_sql db (ENQUEUE_AUDIT_OUTBOX to_ts now db t s a p nxt)) =
        db\<lparr>ad_outbox := ad_outbox db @ [?r], ad_outbox_id_seq := ad_outbox_id_seq db + 1\<rparr>"
      using Some True by (simp add: ENQUEUE_AUDIT_OUTBOX_def sql_timestamp_def)
    moreover have "ob_id ?r = ad_outbox_id_seq db" and "outbox_row_ok ?r" by (simp_all add: outbox_row_ok_def)
    ultimately show ?thesis unfolding outbox_effect_def by blast
  qed (simp add: Some ENQUEUE_AUDIT_OUTBOX_def sql_timestamp_def outbox_effect_def)
qed (simp add: ENQUEUE_AUDIT_OUTBOX_def sql_timestamp_def outbox_effect_def)

lemma claim_effect:
  assumes "outbox_ok db"
  shows "outbox_effect db (snd (exec_sql db (CLAIM_AUDIT_OUTBOX to_ts locked db t s now limit until)))"
proof (cases "CLAIM_AUDIT_OUTBOX to_ts locked db t s now limit until")
  case (Inr p)
  obtain rows db' where p: "p = (rows, db')" by (cases p)
  with Inr obtain n u where db': "db' = db\<lparr>ad_outbox := map_where
      (\<lambda>r. ob_id r \<in> set (outbox_candidates locked db t s n limit)) (outbox_claimed_row u) (ad_outbox db)\<rparr>"
    by (auto simp: CLAIM_Ok_iff Let_def)
  then have "outbox_change (\<lambda>r. ob_id r \<in> set (outbox_candidates locked db t s n limit)) (outbox_claimed_row u) db db'"
    using candidates_claimable [OF assms] outbox_row_ok_member [OF assms]
    by (auto simp: outbox_change_def outbox_claimable_def intro: outbox_row_changes_ok)
  with Inr p show ?thesis by (auto simp: outbox_effect_def)
qed (simp add: outbox_effect_def)

text \<open>A statement that fails or updates rows.\<close>

lemma mark_effect:
  assumes "outbox_ok db" and "(\<exists>e. stmt = Inl e) \<or> (\<exists>t. stmt = Inr (update_outbox P (f t) db))"
    and "\<And>t r. ob_id (f t r) = ob_id r \<and> ob_attempt_count (f t r) = ob_attempt_count r"
    and "\<And>t r. outbox_row_ok r \<Longrightarrow> P r \<Longrightarrow> outbox_row_ok (f t r) \<and> (ob_status r = ''pending'' \<or> f t r = r)"
  shows "outbox_effect db (snd (exec_sql db stmt))"
  using assms(2)
proof
  assume "\<exists>t. stmt = Inr (update_outbox P (f t) db)"
  then obtain t where "stmt = Inr (update_outbox P (f t) db)" ..
  moreover have "outbox_change P (f t) db (snd (update_outbox P (f t) db))"
    using assms by (intro update_outbox_change) (auto simp: outbox_row_ok_member)
  ultimately show ?thesis by (auto simp: outbox_effect_def snd_exec_sql update_outbox_def)
qed (auto simp: outbox_effect_def)

lemmas mark_defs = mark_outbox_sent_def mark_outbox_sent_for_attempt_def mark_outbox_retryable_def
  mark_outbox_retryable_for_attempt_def mark_outbox_failed_def mark_outbox_failed_for_attempt_def

lemmas MARK_defs = MARK_AUDIT_OUTBOX_SENT_def MARK_AUDIT_OUTBOX_SENT_FOR_ATTEMPT_def
  MARK_AUDIT_OUTBOX_RETRYABLE_def MARK_AUDIT_OUTBOX_RETRYABLE_FOR_ATTEMPT_def
  MARK_AUDIT_OUTBOX_FAILED_def MARK_AUDIT_OUTBOX_FAILED_FOR_ATTEMPT_def

lemma attempt_pending: "outbox_attempt t k a u r \<Longrightarrow> ob_status r = ''pending''"
  by (simp add: outbox_attempt_def)

lemma outbox_apply_effect:
  assumes ok: "outbox_ok db"
  shows "outbox_effect db (outbox_apply to_ts op db)"
proof (cases op)
  case (ObEnqueue now t s a p nxt)
  with enqueue_effect [of db to_ts now t s a p "u64_as_i64 nxt"] show ?thesis
    by (cases "validate_audit_outbox_payload p") (simp_all add: enqueue_outbox_def outbox_effect_def)
next
  case (ObClaim locked t s now limit until)
  with claim_effect [OF ok] show ?thesis by (simp add: snd_claim_outbox)
next
  case (ObSent t k ms)
  show ?thesis unfolding ObSent outbox_apply.simps mark_defs
    by (rule mark_effect [OF ok, where f = outbox_sent_row and
          P = "\<lambda>r. ob_tenant_id r = t \<and> ob_id r = k \<and> ob_status r \<in> {''pending'', ''sent''}"])
      (auto simp: MARK_defs sql_timestamp_def ok_or_def outbox_row_changes_ok sent_row_idem split: option.split)
next
  case (ObSentForAttempt t k a u ms)
  show ?thesis
  proof (cases "to_ts (u64_as_i64 u)")
    case (Some until)
    show ?thesis unfolding ObSentForAttempt outbox_apply.simps mark_defs
      by (rule mark_effect [OF ok, where f = outbox_sent_row and P = "outbox_attempt t k a until"])
        (auto simp: MARK_defs Some sql_timestamp_def ok_or_def outbox_row_changes_ok attempt_pending split: option.split)
  qed (simp add: ObSentForAttempt mark_defs MARK_defs sql_timestamp_def outbox_effect_def)
next
  case (ObRetryable t k ms)
  show ?thesis unfolding ObRetryable outbox_apply.simps mark_defs
    by (rule mark_effect [OF ok, where f = outbox_retry_row and
          P = "\<lambda>r. ob_tenant_id r = t \<and> ob_id r = k \<and> ob_status r = ''pending''"])
      (auto simp: MARK_defs sql_timestamp_def ok_or_def outbox_row_changes_ok split: option.split)
next
  case (ObRetryableForAttempt t k a u ms)
  show ?thesis
  proof (cases "to_ts (u64_as_i64 u)")
    case (Some until)
    show ?thesis unfolding ObRetryableForAttempt outbox_apply.simps mark_defs
      by (rule mark_effect [OF ok, where f = outbox_retry_row and P = "outbox_attempt t k a until"])
        (auto simp: MARK_defs Some sql_timestamp_def ok_or_def outbox_row_changes_ok attempt_pending split: option.split)
  qed (simp add: ObRetryableForAttempt mark_defs MARK_defs sql_timestamp_def outbox_effect_def)
next
  case (ObFailed t k)
  show ?thesis unfolding ObFailed outbox_apply.simps mark_defs
    by (rule mark_effect [OF ok, where f = "\<lambda>_ :: unit. outbox_failed_row" and
          P = "\<lambda>r. ob_tenant_id r = t \<and> ob_id r = k \<and> ob_status r \<in> {''pending'', ''failed''}"])
      (auto simp: MARK_defs outbox_row_changes_ok failed_row_idem)
next
  case (ObFailedForAttempt t k a u)
  show ?thesis
  proof (cases "to_ts (u64_as_i64 u)")
    case (Some until)
    show ?thesis unfolding ObFailedForAttempt outbox_apply.simps mark_defs
      by (rule mark_effect [OF ok, where f = "\<lambda>_ :: unit. outbox_failed_row" and P = "outbox_attempt t k a until"])
        (auto simp: MARK_defs Some sql_timestamp_def outbox_row_changes_ok attempt_pending)
  qed (simp add: ObFailedForAttempt mark_defs MARK_defs sql_timestamp_def outbox_effect_def)
qed

text \<open>What an effect keeps: the invariant, every row, its count, and a row that is settled.\<close>

lemma outbox_effect_keeps:
  assumes "outbox_ok db" and "outbox_effect db db'"
  shows "outbox_ok db'"
    and "outbox_get k db = Some r \<Longrightarrow> \<exists>r'. outbox_get k db' = Some r' \<and>
      ob_attempt_count r \<le> ob_attempt_count r' \<and> (ob_status r \<noteq> ''pending'' \<longrightarrow> r' = r)"
proof -
  consider (none) "db' = db"
    | (insert) r where "db' = db\<lparr>ad_outbox := ad_outbox db @ [r], ad_outbox_id_seq := ad_outbox_id_seq db + 1\<rparr>"
        "ob_id r = ad_outbox_id_seq db" "outbox_row_ok r"
    | (change) P f where "outbox_change P f db db'"
    using assms(2) by (auto simp: outbox_effect_def)
  then have "outbox_ok db' \<and> (\<forall>k r. outbox_get k db = Some r \<longrightarrow> (\<exists>r'. outbox_get k db' = Some r' \<and>
      ob_attempt_count r \<le> ob_attempt_count r' \<and> (ob_status r \<noteq> ''pending'' \<longrightarrow> r' = r)))"
  proof cases
    case none
    with assms(1) show ?thesis by simp
  next
    case (insert r)
    with assms(1) show ?thesis by (fastforce simp: outbox_ok_def outbox_get_def find_append)
  next
    case (change P f)
    have "outbox_get k db' = Some (if P r then f r else r) \<and> (P r \<longrightarrow> ob_status r = ''pending'' \<or> f r = r)"
      if "outbox_get k db = Some r" for k r
      using that change outbox_change_get [OF change] by (auto simp: outbox_change_def outbox_get_Some_iff [OF assms(1)])
    moreover have "ob_attempt_count r \<le> ob_attempt_count (f r)" for r using change by (simp add: outbox_change_def)
    ultimately show ?thesis using outbox_change_ok [OF change assms(1)] by fastforce
  qed
  then show "outbox_ok db'" and "outbox_get k db = Some r \<Longrightarrow> \<exists>r'. outbox_get k db' = Some r' \<and>
      ob_attempt_count r \<le> ob_attempt_count r' \<and> (ob_status r \<noteq> ''pending'' \<longrightarrow> r' = r)" by blast+
qed

definition message_attempts :: "int \<Rightarrow> audit_db \<Rightarrow> int option" where
  "message_attempts k db = map_option ob_attempt_count (outbox_get k db)"

interpretation outbox: counted_rows outbox_ok "outbox_apply to_ts" message_attempts for to_ts
proof
  fix db op k a
  assume ok: "outbox_ok db"
  show "outbox_ok (outbox_apply to_ts op db)" using outbox_effect_keeps(1) [OF ok outbox_apply_effect [OF ok]] .
  assume "message_attempts k db = Some a"
  then show "\<exists>a'. message_attempts k (outbox_apply to_ts op db) = Some a' \<and> a \<le> a'"
    using outbox_effect_keeps(2) [OF ok outbox_apply_effect [OF ok, of to_ts op], of k] by (auto simp: message_attempts_def)
qed

lemma outbox_run_Nil [simp]: "outbox_run to_ts [] db = db"
  by (simp add: outbox_run_def)

lemma outbox_run_ok [simp]: "outbox_ok db \<Longrightarrow> outbox_ok (outbox_run to_ts ops db)"
  unfolding outbox_run_def by (rule outbox.inv_fold)

lemma outbox_run_attempts:
  assumes "outbox_ok db" and "outbox_get k db = Some r"
  shows "\<exists>r'. outbox_get k (outbox_run to_ts ops db) = Some r' \<and> ob_attempt_count r \<le> ob_attempt_count r'"
  using outbox.attempts_fold [OF assms(1), of k "ob_attempt_count r" to_ts ops] assms(2)
  by (auto simp: message_attempts_def outbox_run_def)

lemma outbox_run_settled:
  assumes "outbox_ok db" and "outbox_get k db = Some r" and "ob_status r \<noteq> ''pending''"
  shows "outbox_get k (outbox_run to_ts ops db) = Some r"
  using assms(1,2)
proof (induction ops arbitrary: db)
  case (Cons op ops)
  have "outbox_get k (outbox_apply to_ts op db) = Some r"
    using outbox_effect_keeps(2) [OF Cons.prems(1) outbox_apply_effect [OF Cons.prems(1)] Cons.prems(2)] assms(3) by blast
  with Cons.IH Cons.prems(1) outbox.inv_apply show ?case by (simp add: outbox_run_def)
qed simp

text \<open>The messages a claim hands out.\<close>

lemma claim_outbox_OkE:
  assumes "claim_outbox to_ts locked db t s now limit until = (Ok msgs, db')"
  obtains n u where "to_ts (u64_as_i64 now) = Some n" and "to_ts (u64_as_i64 until) = Some u" and "0 \<le> limit"
    and "msgs = map audit_outbox_message_from_row (sort_key ob_id (map (outbox_claimed_row u)
      (filter (\<lambda>r. ob_id r \<in> set (outbox_candidates locked db t s n limit)) (ad_outbox db))))"
    and "db' = db\<lparr>ad_outbox := map_where (\<lambda>r. ob_id r \<in> set (outbox_candidates locked db t s n limit))
      (outbox_claimed_row u) (ad_outbox db)\<rparr>"
proof -
  let ?c = "CLAIM_AUDIT_OUTBOX to_ts locked db t s (u64_as_i64 now) limit (u64_as_i64 until)"
  from assms obtain rows where "?c = Inr (rows, db')" and "msgs = map audit_outbox_message_from_row rows"
    by (cases ?c) (auto simp: claim_outbox_def)
  with that show thesis by (auto simp: CLAIM_Ok_iff Let_def)
qed

lemma message_of_claimed_row [simp]:
  "om_id (audit_outbox_message_from_row r) = ob_id r"
  "om_tenant_id (audit_outbox_message_from_row r) = ob_tenant_id r"
  "om_attempt_count (audit_outbox_message_from_row r) = ob_attempt_count r"
  by (simp_all add: audit_outbox_message_from_row_def)

lemma claimed_message:
  assumes "outbox_ok db" and "claim_outbox to_ts locked db t s now limit until = (Ok msgs, db')" and "m \<in> set msgs"
  obtains n u r where "to_ts (u64_as_i64 now) = Some n" and "to_ts (u64_as_i64 until) = Some u"
    and "outbox_get (om_id m) db = Some r" and "outbox_claimable t s n r" and "\<not> locked (om_id m)"
    and "outbox_get (om_id m) db' = Some (outbox_claimed_row u r)" and "om_attempt_count m = ob_attempt_count r + 1"
    and "om_tenant_id m = ob_tenant_id r"
proof -
  from claim_outbox_OkE [OF assms(2)] obtain n u where nu: "to_ts (u64_as_i64 now) = Some n" "to_ts (u64_as_i64 until) = Some u"
    and msgs: "msgs = map audit_outbox_message_from_row (sort_key ob_id (map (outbox_claimed_row u)
      (filter (\<lambda>r. ob_id r \<in> set (outbox_candidates locked db t s n limit)) (ad_outbox db))))"
    and db': "db' = db\<lparr>ad_outbox := map_where (\<lambda>r. ob_id r \<in> set (outbox_candidates locked db t s n limit))
      (outbox_claimed_row u) (ad_outbox db)\<rparr>" .
  from assms(3) msgs obtain r where r: "r \<in> set (ad_outbox db)" "ob_id r \<in> set (outbox_candidates locked db t s n limit)"
    "m = audit_outbox_message_from_row (outbox_claimed_row u r)" by auto
  have get: "outbox_get (om_id m) db = Some r" using r assms(1) by (simp add: outbox_get_Some_iff)
  moreover have "outbox_get (om_id m) db' = Some (outbox_claimed_row u r)"
    using get r(2) find_map_where [of "\<lambda>r. ob_id r = om_id m" "outbox_claimed_row u"] by (simp add: outbox_get_def db')
  ultimately show thesis
    using that [OF nu get] candidates_claimable [OF assms(1) r(1,2)] r(3) by (simp add: outbox_claimed_row_def)
qed

lemma claim_outbox_messages:
  assumes "outbox_ok db" and "claim_outbox to_ts locked db tenant stream now limit lease_until = (Ok msgs, db')"
    and "to_ts (u64_as_i64 now) = Some n"
  shows "distinct (map om_id msgs) \<and> int (length msgs) \<le> limit \<and>
    (\<forall>m \<in> set msgs. \<exists>r. outbox_get (om_id m) db = Some r \<and> outbox_claimable tenant stream n r \<and>
       \<not> locked (om_id m) \<and> om_attempt_count m = ob_attempt_count r + 1 \<and>
       map_option ob_attempt_count (outbox_get (om_id m) db') = Some (om_attempt_count m)) \<and>
    (int (length msgs) < limit \<longrightarrow> (\<forall>r \<in> set (ad_outbox db).
       outbox_claimable tenant stream n r \<and> \<not> locked (ob_id r) \<longrightarrow> ob_id r \<in> om_id ` set msgs))"
proof -
  from claim_outbox_OkE [OF assms(2)] assms(3) obtain u where "0 \<le> limit"
    and msgs: "msgs = map audit_outbox_message_from_row (sort_key ob_id (map (outbox_claimed_row u)
      (filter (\<lambda>r. ob_id r \<in> set (outbox_candidates locked db tenant stream n limit)) (ad_outbox db))))"
    by fastforce
  let ?avail = "filter (\<lambda>r. outbox_claimable tenant stream n r \<and> \<not> locked (ob_id r)) (ad_outbox db)"
  let ?ids = "outbox_candidates locked db tenant stream n limit"
  have ids: "?ids = map ob_id (take (nat limit) (sort_key outbox_order ?avail))"
    by (simp add: outbox_candidates_def)
  have dist: "distinct (map ob_id (ad_outbox db))" using assms(1) by (simp add: outbox_ok_def)
  have om: "om_id \<circ> audit_outbox_message_from_row = ob_id" "ob_id \<circ> outbox_claimed_row u = ob_id"
    by (simp_all add: fun_eq_iff)
  have mset: "mset (map om_id msgs) = mset (map ob_id (filter (\<lambda>r. ob_id r \<in> set ?ids) (ad_outbox db)))"
    by (simp add: msgs om image_mset.compositionality)
  then have set_msgs: "om_id ` set msgs = ob_id ` {r \<in> set (ad_outbox db). ob_id r \<in> set ?ids}"
    by (metis list.set_map set_filter set_mset_mset)
  have "set ?ids \<subseteq> ob_id ` set (ad_outbox db)" by (auto simp: ids dest!: in_set_takeD)
  with set_msgs have set_ids: "om_id ` set msgs = set ?ids" by auto
  have "distinct (map ob_id (filter (\<lambda>r. ob_id r \<in> set ?ids) (ad_outbox db)))"
    using dist by (simp add: distinct_map_filter)
  with mset have dm: "distinct (map om_id msgs)" by (metis mset_eq_imp_distinct_iff)
  have "distinct ?ids"
  proof -
    have "distinct (map ob_id (sort_key outbox_order ?avail)) = distinct (map ob_id ?avail)"
      by (rule mset_eq_imp_distinct_iff) simp
    then have "distinct (map ob_id (sort_key outbox_order ?avail))"
      using dist by (simp add: distinct_map_filter)
    then show ?thesis by (simp add: ids take_map [symmetric])
  qed
  with dm set_ids have len: "length msgs = length ?ids"
    by (metis distinct_card length_map list.set_map)
  have "int (length msgs) \<le> limit" using \<open>0 \<le> limit\<close> by (simp add: len ids)
  moreover have "ob_id r \<in> om_id ` set msgs"
    if "int (length msgs) < limit" "r \<in> set (ad_outbox db)" "outbox_claimable tenant stream n r \<and> \<not> locked (ob_id r)" for r
  proof -
    have "take (nat limit) (sort_key outbox_order ?avail) = sort_key outbox_order ?avail"
      using that(1) by (simp add: len ids)
    then show ?thesis using that(2,3) by (simp add: set_ids ids)
  qed
  moreover have "\<exists>r. outbox_get (om_id m) db = Some r \<and> outbox_claimable tenant stream n r \<and> \<not> locked (om_id m) \<and>
      om_attempt_count m = ob_attempt_count r + 1 \<and>
      map_option ob_attempt_count (outbox_get (om_id m) db') = Some (om_attempt_count m)" if "m \<in> set msgs" for m
    by (rule claimed_message [OF assms(1,2) that]) (use assms(3) in auto)
  ultimately show ?thesis using dm by blast
qed

section \<open>Properties of the outbox\<close>


lemma mark_for_attempt_miss:
  assumes "\<And>u. \<forall>r \<in> set (ad_outbox db). \<not> outbox_attempt tenant k a u r"
  shows "fst (mark_outbox_sent_for_attempt to_ts db tenant k a until ms) \<noteq> Ok True \<and>
      snd (mark_outbox_sent_for_attempt to_ts db tenant k a until ms) = db"
    and "fst (mark_outbox_retryable_for_attempt to_ts db tenant k a until ms) \<noteq> Ok True \<and>
      snd (mark_outbox_retryable_for_attempt to_ts db tenant k a until ms) = db"
    and "fst (mark_outbox_failed_for_attempt to_ts db tenant k a until) \<noteq> Ok True \<and>
      snd (mark_outbox_failed_for_attempt to_ts db tenant k a until) = db"
proof -
  have miss: "update_outbox (outbox_attempt tenant k a u) f db = (False, db)" for u f
    using map_where_none [OF assms] assms by (auto simp: update_outbox_def list_ex_iff)
  show "fst (mark_outbox_sent_for_attempt to_ts db tenant k a until ms) \<noteq> Ok True \<and>
      snd (mark_outbox_sent_for_attempt to_ts db tenant k a until ms) = db"
    by (cases "to_ts (u64_as_i64 until)"; cases "to_ts (u64_as_i64 ms)")
      (simp_all add: mark_defs MARK_defs sql_timestamp_def miss)
  show "fst (mark_outbox_retryable_for_attempt to_ts db tenant k a until ms) \<noteq> Ok True \<and>
      snd (mark_outbox_retryable_for_attempt to_ts db tenant k a until ms) = db"
    by (cases "to_ts (u64_as_i64 until)"; cases "to_ts (u64_as_i64 ms)")
      (simp_all add: mark_defs MARK_defs sql_timestamp_def miss)
  show "fst (mark_outbox_failed_for_attempt to_ts db tenant k a until) \<noteq> Ok True \<and>
      snd (mark_outbox_failed_for_attempt to_ts db tenant k a until) = db"
    by (cases "to_ts (u64_as_i64 until)") (simp_all add: mark_defs MARK_defs sql_timestamp_def miss)
qed

text \<open>
  A delivery attempt that has been overtaken has no effect: once another claim has handed out the
  message again, the first worker can mark it neither sent nor retryable nor failed, whatever
  other calls run before, between and after.
\<close>

theorem outbox_attempt_fenced:
  assumes "outbox_ok db"
    and "claim_outbox to_ts locked db tenant stream now limit lease_until = (Ok msgs, db1)" and "m \<in> set msgs"
    and "claim_outbox to_ts locked' (outbox_run to_ts ops db1) tenant' stream' now' limit' lease_until' = (Ok msgs', db2)"
    and "m' \<in> set msgs'" and "om_id m' = om_id m"
    and "db3 = outbox_run to_ts ops' db2"
  shows "om_attempt_count m < om_attempt_count m' \<and>
    fst (mark_outbox_sent_for_attempt to_ts db3 t (om_id m) (om_attempt_count m) until ms) \<noteq> Ok True \<and>
    snd (mark_outbox_sent_for_attempt to_ts db3 t (om_id m) (om_attempt_count m) until ms) = db3 \<and>
    fst (mark_outbox_retryable_for_attempt to_ts db3 t (om_id m) (om_attempt_count m) until ms) \<noteq> Ok True \<and>
    snd (mark_outbox_retryable_for_attempt to_ts db3 t (om_id m) (om_attempt_count m) until ms) = db3 \<and>
    fst (mark_outbox_failed_for_attempt to_ts db3 t (om_id m) (om_attempt_count m) until) \<noteq> Ok True \<and>
    snd (mark_outbox_failed_for_attempt to_ts db3 t (om_id m) (om_attempt_count m) until) = db3"
proof -
  let ?k = "om_id m"
  have db1: "db1 = outbox_apply to_ts (ObClaim locked tenant stream now limit lease_until) db"
    using assms(2) by simp
  have ok1: "outbox_ok db1" unfolding db1 using assms(1) by (rule outbox.inv_apply)
  have db2: "db2 = outbox_apply to_ts (ObClaim locked' tenant' stream' now' limit' lease_until') (outbox_run to_ts ops db1)"
    using assms(4) by simp
  have ok2: "outbox_ok db2" unfolding db2 using ok1 by (intro outbox.inv_apply outbox_run_ok)
  from claimed_message [OF assms(1,2,3)] obtain u r where
    r: "outbox_get ?k db1 = Some (outbox_claimed_row u r)" "om_attempt_count m = ob_attempt_count r + 1" by metis
  from outbox_run_attempts [OF ok1 r(1), of to_ts ops] obtain r1 where
    r1: "outbox_get ?k (outbox_run to_ts ops db1) = Some r1" "om_attempt_count m \<le> ob_attempt_count r1"
    using r(2) by auto
  from claimed_message [OF outbox_run_ok [OF ok1] assms(4,5)] assms(6) obtain u' r' where
    r': "outbox_get ?k (outbox_run to_ts ops db1) = Some r'" "outbox_get ?k db2 = Some (outbox_claimed_row u' r')"
      "om_attempt_count m' = ob_attempt_count r' + 1" by metis
  have lt: "om_attempt_count m < om_attempt_count m'" using r1 r' by simp
  from outbox_run_attempts [OF ok2 r'(2), of to_ts ops'] assms(7) obtain r3 where
    r3: "outbox_get ?k db3 = Some r3" "om_attempt_count m < ob_attempt_count r3" using lt r'(3) by fastforce
  have "\<forall>row \<in> set (ad_outbox db3). \<not> outbox_attempt t ?k (om_attempt_count m) v row" for v
  proof (intro ballI notI)
    fix row assume row: "row \<in> set (ad_outbox db3)" "outbox_attempt t ?k (om_attempt_count m) v row"
    then have "outbox_get ?k db3 = Some row"
      using ok2 assms(7) by (simp add: outbox_get_Some_iff outbox_attempt_def)
    with r3 row(2) show False by (simp add: outbox_attempt_def)
  qed
  from mark_for_attempt_miss [OF this] lt show ?thesis by simp
qed

text \<open>
  A message that was sent, or has failed for good, is settled: no call changes its row again, and
  no claim hands it out.
\<close>

theorem outbox_settled_final:
  assumes "outbox_ok db" and "outbox_get k db = Some r" and "ob_status r \<noteq> ''pending''"
  shows "outbox_get k (outbox_run to_ts ops db) = Some r \<and>
    (claim_outbox to_ts locked (outbox_run to_ts ops db) tenant stream now limit lease_until = (Ok msgs, db') \<longrightarrow>
     k \<notin> om_id ` set msgs)"
proof -
  have get: "outbox_get k (outbox_run to_ts ops db) = Some r" using assms by (rule outbox_run_settled)
  moreover have "k \<noteq> om_id m"
    if "claim_outbox to_ts locked (outbox_run to_ts ops db) tenant stream now limit lease_until = (Ok msgs, db')" "m \<in> set msgs" for m
    by (rule claimed_message [OF outbox_run_ok [OF assms(1)] that]) (use get assms(3) in \<open>auto simp: outbox_claimable_def\<close>)
  ultimately show ?thesis by blast
qed

section \<open>Properties of payloads and events\<close>

definition safe_text :: "string \<Rightarrow> bool" where
  "safe_text t \<longleftrightarrow> trim t \<noteq> [] \<and> length t \<le> 256 \<and> \<not> contains_sensitive_audit_outbox_marker t"

lemma validate_text_Ok_iff:
  "validate_audit_outbox_payload_text v = Inr t \<longleftrightarrow> v = JString t \<and> safe_text t"
  by (auto simp: validate_audit_outbox_payload_text_def validate_audit_outbox_text_def try_then_Ok_iff
      safe_text_def MAX_AUDIT_OUTBOX_PAYLOAD_TEXT_LEN_def)

definition safe_member :: "string \<times> json \<Rightarrow> bool" where
  "safe_member m \<longleftrightarrow>
     fst m \<in> {''event_id'', ''trace_id'', ''event_type'', ''tenant_id'', ''kind''} \<and> (\<exists>t. snd m = JString t \<and> safe_text t) \<or>
     fst m = ''sequence'' \<and> (\<exists>n. snd m = JNumber (PosInt n))"

lemma safe_payload_field_Ok_iff: "(\<exists>safe'. safe_payload_field key value safe = Inr safe') \<longleftrightarrow> safe_member (key, value)"
  by (auto simp: safe_payload_field_def safe_member_def try_then_Ok_iff validate_text_Ok_iff)

lemma safe_payload_fields_Ok_iff:
  "(\<exists>safe'. safe_payload_fields members safe = Inr safe') \<longleftrightarrow> (\<forall>m \<in> set members. safe_member m)"
proof (induction members arbitrary: safe)
  case (Cons m members)
  obtain key v where m: "m = (key, v)" by (cases m)
  show ?case
    using safe_payload_field_Ok_iff [of key v safe] Cons.IH by (auto simp: m try_then_Ok_iff)
qed simp

text \<open>
  The outbox accepts exactly the payloads that are non-empty objects whose members are among six
  known names, the five texts non-blank, at most 256 bytes long and free of credential markers,
  the sequence an unsigned integer; nothing else, and in particular no nested value, is ever
  enqueued.
\<close>

theorem outbox_payload_accepted_iff:
  "validate_audit_outbox_payload payload = Ok () \<longleftrightarrow>
   (\<exists>members. payload = JObject members \<and> members \<noteq> [] \<and> (\<forall>m \<in> set members. safe_member m))"
  using safe_payload_fields_Ok_iff
  by (auto simp: validate_audit_outbox_payload_def safe_payload_try_from_def try_then_Ok_iff) fastforce

theorem outbox_payload_accepted_iff_witness:
  "validate_audit_outbox_payload (JObject [(''sequence'', JNumber (PosInt 1))]) = Ok () \<and>
   validate_audit_outbox_payload (JObject [(''sequence'', JNull)]) \<noteq> Ok ()"
  using outbox_payload_accepted_iff [of "JObject [(''sequence'', JNumber (PosInt 1))]"]
    outbox_payload_accepted_iff [of "JObject [(''sequence'', JNull)]"]
  by (simp add: safe_member_def)

text \<open>serde's derived writers and readers are inverse.\<close>

definition serde_inverse :: "audit_json \<Rightarrow> bool" where
  "serde_inverse J \<longleftrightarrow>
     (\<forall>x. \<exists>j. aj_summary_to_value J x = Some j \<and> aj_summary_from_value J j = Some x) \<and>
     (\<forall>x. \<exists>j. aj_execution_to_value J x = Some j \<and> aj_execution_from_value J j = Some x)"

text \<open>An event as the table keeps it: there is no column for the workspace.\<close>

definition stored_event :: "audit_event \<Rightarrow> audit_event" where
  "stored_event e = e\<lparr>ae_scope := (ae_scope e)\<lparr>as_workspace_id := None\<rparr>\<rparr>"

lemma audit_codec_inverse [simp]:
  "audit_actor_kind_from_db (audit_actor_kind_to_db k) = Inr k"
  "audit_event_type_from_db (audit_event_type_to_db ty) = Inr ty"
  by (cases k; simp add: audit_actor_kind_from_db_def) (cases ty; simp add: audit_event_type_from_db_def)

lemma json_option_inverse:
  assumes "\<forall>x. \<exists>j. to_value x = Some j \<and> from_value j = Some x" and "json_option to_value v = Inr w"
  shows "json_value_option from_value w = Inr v"
  using assms(2) assms(1) [rule_format, of "the v"]
  by (cases v) (auto simp: json_option_def json_value_option_def transpose_map_def)

lemma event_row_roundtrip:
  assumes "serde_inverse J" and "append_audit_event_query J e operation_id = Inr r"
    and "0 < ar_sequence r" and "0 \<le> ar_occurred_at_ms r"
  shows "audit_event_from_row J r = Inr (stored_event e)"
proof -
  from assms(2) obtain b a x where
    cols: "json_option (aj_summary_to_value J) (ae_before e) = Inr b" "json_option (aj_summary_to_value J) (ae_after e) = Inr a"
      "json_option (aj_execution_to_value J) (ae_execution e) = Inr x"
    and r: "r = \<lparr>ar_event_id = ae_event_id e, ar_trace_id = ae_trace_id e,
          ar_sequence = u64_as_i64 (ae_sequence e), ar_occurred_at_ms = u64_as_i64 (ae_occurred_at_ms e),
          ar_row_tenant_id = as_tenant_id (ae_scope e),
          ar_actor_kind = audit_actor_kind_to_db (aa_kind (ae_actor e)), ar_actor_id = aa_actor_id (ae_actor e),
          ar_actor_display_name = aa_display_name (ae_actor e),
          ar_target_resource_type = at_resource_type (ae_target e),
          ar_target_resource_id = at_resource_id (ae_target e), ar_target_action_type = at_action_type (ae_target e),
          ar_event_type = audit_event_type_to_db (ae_event_type e),
          ar_before_summary = b, ar_after_summary = a, ar_execution_result = x, ar_operation_id = operation_id\<rparr>"
    by (auto simp: append_audit_event_query_def try_then_Ok_iff)
  have read: "json_value_option (aj_summary_from_value J) b = Inr (ae_before e)"
      "json_value_option (aj_summary_from_value J) a = Inr (ae_after e)"
      "json_value_option (aj_execution_from_value J) x = Inr (ae_execution e)"
    using json_option_inverse cols assms(1) unfolding serde_inverse_def by blast+
  show ?thesis
    using assms(3,4) by (simp add: r audit_event_from_row_def read stored_event_def u64_as_i64_def)
qed

lemma event_sequence_decoded: "audit_event_from_row J r = Inr e \<Longrightarrow> 0 \<le> ar_sequence r \<and> ae_sequence e = word_of_int (ar_sequence r)"
  by (auto simp: audit_event_from_row_def try_then_Ok_iff non_negative_i64_to_u64_def split: if_splits)


section \<open>Witnesses\<close>

definition sample_message_row :: "int \<Rightarrow> int \<Rightarrow> outbox_row" where
  "sample_message_row attempts next_attempt_at = \<lparr>ob_id = 1, ob_tenant_id = ''t'', ob_stream = ''audit-events'',
     ob_aggregate_id = ''a'', ob_payload = JObject [(''kind'', JString ''k'')], ob_status = ''pending'',
     ob_attempt_count = attempts, ob_next_attempt_at = Some next_attempt_at, ob_created_at = 0, ob_sent_at = None\<rparr>"

definition sample_audit_db :: "outbox_row list \<Rightarrow> audit_db" where
  "sample_audit_db rows = \<lparr>ad_tenants = [''t''], ad_operations = [], ad_events = [], ad_outbox = rows, ad_outbox_id_seq = 2\<rparr>"

lemmas outbox_eval = claim_outbox_def CLAIM_AUDIT_OUTBOX_def u64_as_i64_def pg_to_timestamp_def sql_timestamp_def
  outbox_candidates_def outbox_claimable_def outbox_claimed_row_def audit_outbox_message_from_row_def epoch_ms_def
  sample_message_row_def sample_audit_db_def Let_def

lemma sample_outbox_ok [simp]: "0 \<le> a \<Longrightarrow> outbox_ok (sample_audit_db [sample_message_row a n])"
  by (simp add: outbox_ok_def outbox_row_ok_def sample_audit_db_def sample_message_row_def)

definition sample_message :: "int \<Rightarrow> int \<Rightarrow> audit_outbox_message" where
  "sample_message attempts until = \<lparr>om_id = 1, om_tenant_id = ''t'', om_stream = ''audit-events'', om_aggregate_id = ''a'',
     om_payload = JObject [(''kind'', JString ''k'')], om_attempt_count = attempts, om_next_attempt_at_ms = Some until\<rparr>"

lemma sample_claim:
  "claim_outbox pg_to_timestamp (\<lambda>_. False) (sample_audit_db [sample_message_row 0 0]) ''t'' ''audit-events'' 1000 10 2000 =
   (Ok [sample_message 1 2000], sample_audit_db [sample_message_row 1 2000000])"
  by (simp add: outbox_eval sample_message_def)

lemma sample_claim_again:
  "claim_outbox pg_to_timestamp (\<lambda>_. False) (sample_audit_db [sample_message_row 1 2000000]) ''t'' ''audit-events'' 3000 10 4000 =
   (Ok [sample_message 2 4000], sample_audit_db [sample_message_row 2 4000000])"
  by (simp add: outbox_eval sample_message_def)


theorem outbox_attempt_fenced_witness:
  "fst (mark_outbox_sent_for_attempt pg_to_timestamp (sample_audit_db [sample_message_row 2 4000000]) ''t'' 1 1 2000 3500) \<noteq> Ok True"
  using outbox_attempt_fenced [OF sample_outbox_ok sample_claim, of "sample_message 1 2000" "\<lambda>_. False" "[]" "''t''"
      "''audit-events''" 3000 10 4000 "[sample_message 2 4000]" "sample_audit_db [sample_message_row 2 4000000]"
      "sample_message 2 4000" "sample_audit_db [sample_message_row 2 4000000]" "[]" "''t''" 2000 3500]
    sample_claim_again
  by (simp add: sample_message_def)

theorem outbox_settled_final_witness:
  "outbox_get 1 (outbox_run pg_to_timestamp [ObSent ''t'' 1 9000, ObClaim (\<lambda>_. False) ''t'' ''audit-events'' 9000 5 9500]
     (sample_audit_db [outbox_failed_row (sample_message_row 3 0)])) = Some (outbox_failed_row (sample_message_row 3 0))"
proof -
  let ?db = "sample_audit_db [outbox_failed_row (sample_message_row 3 0)]"
  have "outbox_ok ?db" and "outbox_get 1 ?db = Some (outbox_failed_row (sample_message_row 3 0))"
    and "ob_status (outbox_failed_row (sample_message_row 3 0)) \<noteq> ''pending''"
    by (simp_all add: outbox_ok_def outbox_row_ok_def sample_audit_db_def sample_message_row_def outbox_failed_row_def outbox_get_def)
  from outbox_settled_final [OF this] show ?thesis by blast
qed

text \<open>A writer and reader for the JSON columns.\<close>

definition option_json :: "string option \<Rightarrow> json" where
  "option_json v = (case v of None \<Rightarrow> JNull | Some s \<Rightarrow> JString s)"

fun json_strings :: "json list \<Rightarrow> string list" where
  "json_strings (JString s # vs) = s # json_strings vs"
| "json_strings _ = []"

fun sample_summary_from :: "json \<Rightarrow> audit_state_summary option" where
  "sample_summary_from (JArray [JString summary, JArray refs, hash]) =
     Some \<lparr>ss_summary = summary, ss_reference_ids = json_strings refs, ss_content_hash = as_str hash\<rparr>"
| "sample_summary_from _ = None"

fun sample_execution_from :: "json \<Rightarrow> execution_result option" where
  "sample_execution_from (JArray [JString status, op, code, msg]) =
     Some \<lparr>er_status = (if status = ''succeeded'' then StatusSucceeded else if status = ''failed'' then StatusFailed
        else if status = ''dry_run'' then StatusDryRun else StatusDenied),
        er_adapter_operation_id = as_str op, er_error_code = as_str code, er_message = as_str msg\<rparr>"
| "sample_execution_from _ = None"

definition sample_json :: audit_json where
  "sample_json = \<lparr>
     aj_summary_to_value = (\<lambda>s. Some (JArray [JString (ss_summary s), JArray (map JString (ss_reference_ids s)),
       option_json (ss_content_hash s)])),
     aj_summary_from_value = sample_summary_from,
     aj_execution_to_value = (\<lambda>x. Some (JArray [JString (case er_status x of StatusSucceeded \<Rightarrow> ''succeeded''
         | StatusFailed \<Rightarrow> ''failed'' | StatusDryRun \<Rightarrow> ''dry_run'' | StatusDenied \<Rightarrow> ''denied''),
       option_json (er_adapter_operation_id x), option_json (er_error_code x), option_json (er_message x)])),
     aj_execution_from_value = sample_execution_from\<rparr>"

lemma sample_json_inverse [simp]: "serde_inverse sample_json"
proof -
  have [simp]: "json_strings (map JString ss) = ss" for ss by (induction ss) auto
  have [simp]: "as_str (option_json v) = v" for v by (cases v) (simp_all add: option_json_def)
  show ?thesis
    by (auto simp: serde_inverse_def sample_json_def split: execution_status.split)
qed


end
