(* ===== verification/Scheduler_Store.thy ===== *)
theory Scheduler_Store
  imports Postgres_Base
begin

text \<open>
  The scheduler's job table and its leases (\<open>domain/scheduler.rs\<close>,
  \<open>storage/postgres/scheduler_sql.rs\<close>, \<open>repository_sqlx/scheduler.rs\<close> with its row reader and
  codec, and the table of \<open>migrations/0002_review_inbox_domain.sql\<close>). Workers of several
  processes claim the job of a tenant, run it and give it back through the lease they were
  handed; the statements are the only synchronisation between them.

  Each method of the repository runs at most one statement that writes, and Postgres runs a
  statement as a whole, so an interleaving of workers is a sequence of these methods. The flag
  \<open>locked\<close> of \<open>try_acquire\<close> says that another transaction holds the row's lock at that moment,
  which \<open>FOR UPDATE SKIP LOCKED\<close> passes over. \<open>created_at\<close> and \<open>updated_at\<close> are written and
  never read and are left out. Failures of the connection are not modelled.
\<close>

section \<open>Data\<close>

datatype scheduler_job_kind = TokenRefreshSweep

datatype scheduler_job_status = JobPending | JobRunning

record scheduler_job_lease =
  le_id :: string
  le_tenant_id :: string
  le_job_kind :: scheduler_job_kind
  le_status :: scheduler_job_status
  le_attempt_count :: u32
  le_lease_id :: string
  le_lease_until_ms :: u64

datatype scheduler_lease_acquire =
    Acquired scheduler_job_lease
  | Busy u64
  | NotDue u64

record stored_scheduler_job =
  so_id :: string
  so_tenant_id :: string
  so_job_kind :: scheduler_job_kind
  so_status :: scheduler_job_status
  so_next_run_at_ms :: u64
  so_lease_id :: "string option"
  so_lease_until_ms :: "u64 option"
  so_attempt_count :: u32
  so_last_started_at_ms :: "u64 option"
  so_last_finished_at_ms :: "u64 option"
  so_last_safe_error_code :: "string option"

text \<open>A row of \<open>scheduler_jobs\<close> and the part of the database the statements touch.\<close>

record scheduler_row =
  sj_id :: string
  sj_tenant_id :: string
  sj_job_kind :: string
  sj_status :: string
  sj_next_run_at :: timestamptz
  sj_lease_id :: "string option"
  sj_lease_until :: "timestamptz option"
  sj_attempt_count :: int
  sj_last_started_at :: "timestamptz option"
  sj_last_finished_at :: "timestamptz option"
  sj_last_safe_error_code :: "string option"

record scheduler_db =
  sd_tenants :: "string list"
  sd_jobs :: "scheduler_row list"

section \<open>The table's constraints\<close>

text \<open>
  The check on the error code: the regular expression \<open>^[a-z0-9_:.-]{1,64}$\<close> and, without
  regard to case, none of the alternatives of the second one.
\<close>

definition error_code_char_ok :: "char \<Rightarrow> bool" where
  "error_code_char_ok c \<longleftrightarrow>
     (97 \<le> (of_char c :: nat) \<and> (of_char c :: nat) \<le> 122) \<or>
     (48 \<le> (of_char c :: nat) \<and> (of_char c :: nat) \<le> 57) \<or> c \<in> set ''_:.-''"

definition error_code_shape :: "string \<Rightarrow> bool" where
  "error_code_shape s \<longleftrightarrow> s \<noteq> [] \<and> length s \<le> 64 \<and> list_all error_code_char_ok s"

definition db_sensitive_codes :: "string list" where
  "db_sensitive_codes =
     concat (map (\<lambda>w. map (\<lambda>sep. w @ sep @ ''token'') ['''', ''_'', '' '', ''-'']) [''access'', ''refresh'']) @
     [''authorization'', ''bearer'', ''client_secret'', ''authorization_code'', ''oauth_grant'',
      ''fingerprint'', ''encrypted'']"

definition error_code_check :: "string option \<Rightarrow> bool" where
  "error_code_check code = (case code of
      None \<Rightarrow> True
    | Some s \<Rightarrow> error_code_shape s \<and>
        \<not> list_ex (str_contains (to_ascii_lowercase s)) db_sensitive_codes)"

definition scheduler_row_check :: "scheduler_row \<Rightarrow> bool" where
  "scheduler_row_check r \<longleftrightarrow>
     sj_job_kind r \<in> {''token_refresh_sweep''} \<and>
     sj_status r \<in> {''pending'', ''running''} \<and>
     0 \<le> sj_attempt_count r \<and>
     error_code_check (sj_last_safe_error_code r) \<and>
     (sj_status r = ''running'' \<and> sj_lease_id r \<noteq> None \<and> sj_lease_until r \<noteq> None \<or>
      sj_status r \<noteq> ''running'' \<and> sj_lease_id r = None \<and> sj_lease_until r = None)"

definition scheduler_constraints :: "scheduler_db \<Rightarrow> bool" where
  "scheduler_constraints db \<longleftrightarrow>
     list_all scheduler_row_check (sd_jobs db) \<and>
     list_all (\<lambda>r. sj_tenant_id r \<in> set (sd_tenants db)) (sd_jobs db) \<and>
     distinct (map (\<lambda>r. (sj_tenant_id r, sj_job_kind r)) (sd_jobs db)) \<and>
     distinct (map (\<lambda>r. (sj_tenant_id r, sj_id r)) (sd_jobs db))"

text \<open>A statement's effect is kept only if every constraint holds afterwards.\<close>

definition store_jobs ::
  "scheduler_db \<Rightarrow> scheduler_row list \<Rightarrow> (scheduler_db, postgres_repository_error) result" where
  "store_jobs db rows =
     (let db' = db\<lparr>sd_jobs := rows\<rparr> in
      if scheduler_constraints db' then Ok db'
      else Err (Sqlx (DatabaseError ''constraint violation'')))"

definition update_jobs ::
  "(scheduler_row \<Rightarrow> bool) \<Rightarrow> (scheduler_row \<Rightarrow> scheduler_row) \<Rightarrow> scheduler_db
     \<Rightarrow> (scheduler_db, postgres_repository_error) result" where
  "update_jobs P f db = store_jobs db (map_where P f (sd_jobs db))"

section \<open>The statements\<close>

definition is_job :: "string \<Rightarrow> string \<Rightarrow> scheduler_row \<Rightarrow> bool" where
  "is_job tenant kind r \<longleftrightarrow> sj_tenant_id r = tenant \<and> sj_job_kind r = kind"

definition new_job_row :: "string \<Rightarrow> string \<Rightarrow> string \<Rightarrow> timestamptz \<Rightarrow> scheduler_row" where
  "new_job_row job_id tenant kind next_run_at = \<lparr>
     sj_id = job_id, sj_tenant_id = tenant, sj_job_kind = kind, sj_status = ''pending'',
     sj_next_run_at = next_run_at, sj_lease_id = None, sj_lease_until = None,
     sj_attempt_count = 0, sj_last_started_at = None, sj_last_finished_at = None,
     sj_last_safe_error_code = None\<rparr>"

definition GET_SCHEDULER_JOB :: "scheduler_db \<Rightarrow> string \<Rightarrow> string \<Rightarrow> scheduler_row option" where
  "GET_SCHEDULER_JOB db tenant kind = find (is_job tenant kind) (sd_jobs db)"

definition INSERT_SCHEDULER_JOB_IF_MISSING ::
  "(int \<Rightarrow> timestamptz option) \<Rightarrow> scheduler_db \<Rightarrow> string \<Rightarrow> string \<Rightarrow> string \<Rightarrow> int
     \<Rightarrow> (scheduler_row option \<times> scheduler_db, postgres_repository_error) result" where
  "INSERT_SCHEDULER_JOB_IF_MISSING to_ts db job_id tenant kind next_run_at_ms =
     try_then (sql_timestamp to_ts next_run_at_ms) (\<lambda>next_run_at.
       case GET_SCHEDULER_JOB db tenant kind of
         Some _ \<Rightarrow> Ok (None, db)
       | None \<Rightarrow>
           let r = new_job_row job_id tenant kind next_run_at
           in try_then (store_jobs db (sd_jobs db @ [r])) (\<lambda>db'. Ok (Some r, db')))"

text \<open>
  The row that is returned is the inserted or updated one, or the one found running.
\<close>

definition UPSERT_SCHEDULER_JOB ::
  "(int \<Rightarrow> timestamptz option) \<Rightarrow> scheduler_db \<Rightarrow> string \<Rightarrow> string \<Rightarrow> string \<Rightarrow> int
     \<Rightarrow> (scheduler_row \<times> scheduler_db, postgres_repository_error) result" where
  "UPSERT_SCHEDULER_JOB to_ts db job_id tenant kind next_run_at_ms =
     try_then (sql_timestamp to_ts next_run_at_ms) (\<lambda>next_run_at.
       case GET_SCHEDULER_JOB db tenant kind of
         None \<Rightarrow>
           let r = new_job_row job_id tenant kind next_run_at
           in try_then (store_jobs db (sd_jobs db @ [r])) (\<lambda>db'. Ok (r, db'))
       | Some r \<Rightarrow>
           if sj_status r = ''running'' then Ok (r, db)
           else let set = (\<lambda>r. r\<lparr>sj_id := job_id, sj_next_run_at := next_run_at\<rparr>)
                in try_then (update_jobs (is_job tenant kind) set db) (\<lambda>db'. Ok (set r, db')))"

definition claimable :: "timestamptz \<Rightarrow> scheduler_row \<Rightarrow> bool" where
  "claimable now r \<longleftrightarrow>
     sj_status r = ''pending'' \<and> sj_next_run_at r \<le> now \<or>
     sj_status r = ''running'' \<and> (\<exists>t \<in> set_option (sj_lease_until r). t \<le> now)"

definition claimed_row :: "timestamptz \<Rightarrow> string \<Rightarrow> timestamptz \<Rightarrow> scheduler_row \<Rightarrow> scheduler_row" where
  "claimed_row now lease_id lease_until r = r\<lparr>
     sj_status := ''running'', sj_lease_id := Some lease_id, sj_lease_until := Some lease_until,
     sj_attempt_count := sj_attempt_count r + 1, sj_last_started_at := Some now,
     sj_last_safe_error_code := None\<rparr>"

definition CLAIM_SCHEDULER_JOB ::
  "(int \<Rightarrow> timestamptz option) \<Rightarrow> bool \<Rightarrow> scheduler_db \<Rightarrow> string \<Rightarrow> string \<Rightarrow> int \<Rightarrow> string \<Rightarrow> int
     \<Rightarrow> (scheduler_row option \<times> scheduler_db, postgres_repository_error) result" where
  "CLAIM_SCHEDULER_JOB to_ts locked db tenant kind now_ms lease_id lease_until_ms =
     try_then (sql_timestamp to_ts now_ms) (\<lambda>now.
     try_then (sql_timestamp to_ts lease_until_ms) (\<lambda>lease_until.
       case find (\<lambda>r. is_job tenant kind r \<and> claimable now r \<and> \<not> locked) (sd_jobs db) of
         None \<Rightarrow> Ok (None, db)
       | Some r \<Rightarrow>
           if 2147483647 < sj_attempt_count r + 1
           then Err (Sqlx (DatabaseError ''integer out of range''))
           else try_then
             (update_jobs (is_job tenant kind) (claimed_row now lease_id lease_until) db)
             (\<lambda>db'. Ok (Some (claimed_row now lease_id lease_until r), db'))))"

definition held_under ::
  "string \<Rightarrow> string \<Rightarrow> string \<Rightarrow> int \<Rightarrow> timestamptz \<Rightarrow> scheduler_row \<Rightarrow> bool" where
  "held_under tenant job_id lease_id attempt_count lease_until r \<longleftrightarrow>
     sj_tenant_id r = tenant \<and> sj_id r = job_id \<and> sj_lease_id r = Some lease_id \<and>
     sj_attempt_count r = attempt_count \<and> sj_lease_until r = Some lease_until \<and>
     sj_status r = ''running''"

definition released_row ::
  "timestamptz \<Rightarrow> timestamptz \<Rightarrow> string option \<Rightarrow> scheduler_row \<Rightarrow> scheduler_row" where
  "released_row finished_at next_run_at code r = r\<lparr>
     sj_status := ''pending'', sj_lease_id := None, sj_lease_until := None,
     sj_next_run_at := next_run_at, sj_last_finished_at := Some finished_at,
     sj_last_safe_error_code := code\<rparr>"

text \<open>
  \<open>COMPLETE_SCHEDULER_JOB_FOR_LEASE\<close> and \<open>FAIL_SCHEDULER_JOB_FOR_LEASE\<close> differ in the code they
  store, \<open>NULL\<close> or \<open>$7\<close>. The answer says whether a row was returned.
\<close>

definition RELEASE_SCHEDULER_JOB_FOR_LEASE ::
  "(int \<Rightarrow> timestamptz option) \<Rightarrow> scheduler_db \<Rightarrow> string \<Rightarrow> string \<Rightarrow> string \<Rightarrow> int \<Rightarrow> int \<Rightarrow> int
     \<Rightarrow> string option \<Rightarrow> int \<Rightarrow> (bool \<times> scheduler_db, postgres_repository_error) result" where
  "RELEASE_SCHEDULER_JOB_FOR_LEASE to_ts db tenant job_id lease_id attempt_count lease_until_ms
       finished_at_ms code next_run_at_ms =
     try_then (sql_timestamp to_ts lease_until_ms) (\<lambda>lease_until.
     try_then (sql_timestamp to_ts finished_at_ms) (\<lambda>finished_at.
     try_then (sql_timestamp to_ts next_run_at_ms) (\<lambda>next_run_at.
       let held = held_under tenant job_id lease_id attempt_count lease_until
       in try_then (update_jobs held (released_row finished_at next_run_at code) db)
            (\<lambda>db'. Ok (list_ex held (sd_jobs db), db')))))"

definition COMPLETE_SCHEDULER_JOB_FOR_LEASE ::
  "(int \<Rightarrow> timestamptz option) \<Rightarrow> scheduler_db \<Rightarrow> string \<Rightarrow> string \<Rightarrow> string \<Rightarrow> int \<Rightarrow> int \<Rightarrow> int
     \<Rightarrow> int \<Rightarrow> (bool \<times> scheduler_db, postgres_repository_error) result" where
  "COMPLETE_SCHEDULER_JOB_FOR_LEASE to_ts db tenant job_id lease_id attempt_count lease_until_ms
       finished_at_ms next_run_at_ms =
     RELEASE_SCHEDULER_JOB_FOR_LEASE to_ts db tenant job_id lease_id attempt_count lease_until_ms
       finished_at_ms None next_run_at_ms"

definition FAIL_SCHEDULER_JOB_FOR_LEASE ::
  "(int \<Rightarrow> timestamptz option) \<Rightarrow> scheduler_db \<Rightarrow> string \<Rightarrow> string \<Rightarrow> string \<Rightarrow> int \<Rightarrow> int \<Rightarrow> int
     \<Rightarrow> string \<Rightarrow> int \<Rightarrow> (bool \<times> scheduler_db, postgres_repository_error) result" where
  "FAIL_SCHEDULER_JOB_FOR_LEASE to_ts db tenant job_id lease_id attempt_count lease_until_ms
       finished_at_ms code next_run_at_ms =
     RELEASE_SCHEDULER_JOB_FOR_LEASE to_ts db tenant job_id lease_id attempt_count lease_until_ms
       finished_at_ms (Some code) next_run_at_ms"

section \<open>The repository\<close>

fun scheduler_job_kind_to_db :: "scheduler_job_kind \<Rightarrow> string" where
  "scheduler_job_kind_to_db TokenRefreshSweep = ''token_refresh_sweep''"

definition scheduler_job_kind_from_db ::
  "string \<Rightarrow> (scheduler_job_kind, postgres_repository_error) result" where
  "scheduler_job_kind_from_db s =
     (if s = ''token_refresh_sweep'' then Ok TokenRefreshSweep
      else Err (UnknownSchedulerJobKind s))"

definition scheduler_job_status_from_db ::
  "string \<Rightarrow> (scheduler_job_status, postgres_repository_error) result" where
  "scheduler_job_status_from_db s =
     (if s = ''pending'' then Ok JobPending
      else if s = ''running'' then Ok JobRunning
      else Err (UnknownSchedulerJobStatus s))"

definition stored_scheduler_job_from_row ::
  "scheduler_row \<Rightarrow> (stored_scheduler_job, postgres_repository_error) result" where
  "stored_scheduler_job_from_row r =
     try_then (scheduler_job_kind_from_db (sj_job_kind r)) (\<lambda>kind.
     try_then (scheduler_job_status_from_db (sj_status r)) (\<lambda>status.
     try_then (non_negative_i64_to_u64 (epoch_ms (sj_next_run_at r)) ''next_run_at_ms'') (\<lambda>next.
     try_then (optional_non_negative_i64_to_u64 (map_option epoch_ms (sj_lease_until r))
       ''lease_until_ms'') (\<lambda>lease_until.
     try_then (non_negative_i64_to_u64 (sj_attempt_count r) ''attempt_count'') (\<lambda>attempts.
     try_then (optional_non_negative_i64_to_u64 (map_option epoch_ms (sj_last_started_at r))
       ''last_started_at_ms'') (\<lambda>started.
     try_then (optional_non_negative_i64_to_u64 (map_option epoch_ms (sj_last_finished_at r))
       ''last_finished_at_ms'') (\<lambda>finished.
       Ok \<lparr>so_id = sj_id r, so_tenant_id = sj_tenant_id r, so_job_kind = kind, so_status = status,
          so_next_run_at_ms = next, so_lease_id = sj_lease_id r, so_lease_until_ms = lease_until,
          so_attempt_count = ucast attempts, so_last_started_at_ms = started,
          so_last_finished_at_ms = finished,
          so_last_safe_error_code = sj_last_safe_error_code r\<rparr>)))))))"

definition scheduler_job_lease_from_stored ::
  "stored_scheduler_job \<Rightarrow> (scheduler_job_lease, postgres_repository_error) result" where
  "scheduler_job_lease_from_stored s =
     try_then (ok_or (UnknownSchedulerJobStatus ''running row missing lease_id'') (so_lease_id s))
       (\<lambda>lease_id.
     try_then (ok_or (UnknownSchedulerJobStatus ''running row missing lease_until'')
       (so_lease_until_ms s)) (\<lambda>lease_until_ms.
       Ok \<lparr>le_id = so_id s, le_tenant_id = so_tenant_id s, le_job_kind = so_job_kind s,
          le_status = so_status s, le_attempt_count = so_attempt_count s, le_lease_id = lease_id,
          le_lease_until_ms = lease_until_ms\<rparr>))"

definition SENSITIVE_CODE_NEEDLES :: "string list" where
  "SENSITIVE_CODE_NEEDLES = [''access token'', ''access_token'', ''refresh token'', ''refresh_token'',
     ''authorization'', ''bearer'', ''client_secret'', ''authorization_code'', ''oauth_grant'',
     ''fingerprint'', ''encrypted'']"

definition ensure_scheduler_safe_error_code ::
  "string \<Rightarrow> (unit, postgres_repository_error) result" where
  "ensure_scheduler_safe_error_code value =
     (if \<not> error_code_shape value then Err UnsafeSchedulerJobErrorCode
      else if list_ex (str_contains (to_ascii_lowercase value)) SENSITIVE_CODE_NEEDLES
      then Err UnsafeSchedulerJobErrorCode
      else Ok ())"

definition get_job ::
  "scheduler_db \<Rightarrow> string \<Rightarrow> scheduler_job_kind
     \<Rightarrow> (stored_scheduler_job option, postgres_repository_error) result" where
  "get_job db tenant kind =
     transpose_map stored_scheduler_job_from_row
       (GET_SCHEDULER_JOB db tenant (scheduler_job_kind_to_db kind))"

definition upsert_job ::
  "(int \<Rightarrow> timestamptz option) \<Rightarrow> scheduler_db \<Rightarrow> string \<Rightarrow> string \<Rightarrow> scheduler_job_kind \<Rightarrow> u64
     \<Rightarrow> (stored_scheduler_job, postgres_repository_error) result \<times> scheduler_db" where
  "upsert_job to_ts db job_id tenant kind next_run_at_ms =
     try_st (exec_sql db (UPSERT_SCHEDULER_JOB to_ts db job_id tenant (scheduler_job_kind_to_db kind)
       (u64_as_i64 next_run_at_ms))) (\<lambda>row db. (stored_scheduler_job_from_row row, db))"

definition insert_job_if_missing ::
  "(int \<Rightarrow> timestamptz option) \<Rightarrow> scheduler_db \<Rightarrow> string \<Rightarrow> string \<Rightarrow> scheduler_job_kind \<Rightarrow> u64
     \<Rightarrow> (stored_scheduler_job, postgres_repository_error) result \<times> scheduler_db" where
  "insert_job_if_missing to_ts db job_id tenant kind next_run_at_ms =
     try_st (exec_sql db (INSERT_SCHEDULER_JOB_IF_MISSING to_ts db job_id tenant
       (scheduler_job_kind_to_db kind) (u64_as_i64 next_run_at_ms))) (\<lambda>inserted db.
       case inserted of
         Some row \<Rightarrow> (stored_scheduler_job_from_row row, db)
       | None \<Rightarrow> (try_then (get_job db tenant kind) (ok_or (Sqlx RowNotFound)), db))"

definition saturating_sub :: "u64 \<Rightarrow> u64 \<Rightarrow> u64" where
  "saturating_sub a b = (if b \<le> a then a - b else 0)"

definition try_acquire ::
  "(int \<Rightarrow> timestamptz option) \<Rightarrow> bool \<Rightarrow> scheduler_db \<Rightarrow> string \<Rightarrow> scheduler_job_kind \<Rightarrow> u64
     \<Rightarrow> string \<Rightarrow> u64 \<Rightarrow> (scheduler_lease_acquire, postgres_repository_error) result \<times> scheduler_db" where
  "try_acquire to_ts locked db tenant kind now_ms lease_id lease_until_ms =
     try_st (exec_sql db (CLAIM_SCHEDULER_JOB to_ts locked db tenant
       (scheduler_job_kind_to_db kind) (u64_as_i64 now_ms) lease_id (u64_as_i64 lease_until_ms)))
       (\<lambda>row db. (case row of
          Some row \<Rightarrow>
            try_then (stored_scheduler_job_from_row row) (\<lambda>stored.
            try_then (scheduler_job_lease_from_stored stored) (\<lambda>lease. Ok (Acquired lease)))
        | None \<Rightarrow> try_then (get_job db tenant kind) (\<lambda>found. case found of
              None \<Rightarrow> Ok (NotDue now_ms)
            | Some stored \<Rightarrow> (case so_status stored of
                  JobRunning \<Rightarrow> Ok (Busy (saturating_sub
                    (case so_lease_until_ms stored of None \<Rightarrow> now_ms | Some t \<Rightarrow> t) now_ms))
                | JobPending \<Rightarrow> Ok (NotDue (so_next_run_at_ms stored)))), db))"

definition complete_for_lease ::
  "(int \<Rightarrow> timestamptz option) \<Rightarrow> scheduler_db \<Rightarrow> scheduler_job_lease \<Rightarrow> u64 \<Rightarrow> u64
     \<Rightarrow> (bool, postgres_repository_error) result \<times> scheduler_db" where
  "complete_for_lease to_ts db lease finished_at_ms next_run_at_ms =
     exec_sql db (COMPLETE_SCHEDULER_JOB_FOR_LEASE to_ts db (le_tenant_id lease) (le_id lease)
       (le_lease_id lease) (u32_as_i32 (le_attempt_count lease))
       (u64_as_i64 (le_lease_until_ms lease)) (u64_as_i64 finished_at_ms)
       (u64_as_i64 next_run_at_ms))"

definition fail_for_lease ::
  "(int \<Rightarrow> timestamptz option) \<Rightarrow> scheduler_db \<Rightarrow> scheduler_job_lease \<Rightarrow> u64 \<Rightarrow> string \<Rightarrow> u64
     \<Rightarrow> (bool, postgres_repository_error) result \<times> scheduler_db" where
  "fail_for_lease to_ts db lease finished_at_ms safe_error_code next_run_at_ms =
     try_st (ensure_scheduler_safe_error_code safe_error_code, db) (\<lambda>_ db.
       exec_sql db (FAIL_SCHEDULER_JOB_FOR_LEASE to_ts db (le_tenant_id lease) (le_id lease)
         (le_lease_id lease) (u32_as_i32 (le_attempt_count lease))
         (u64_as_i64 (le_lease_until_ms lease)) (u64_as_i64 finished_at_ms) safe_error_code
         (u64_as_i64 next_run_at_ms)))"

section \<open>Lemmas\<close>

lemma store_jobs_Ok_iff:
  "store_jobs db rows = Inr db' \<longleftrightarrow> db' = db\<lparr>sd_jobs := rows\<rparr> \<and> scheduler_constraints db'"
  by (auto simp: store_jobs_def Let_def)

lemma job_is_kind:
  "scheduler_constraints db \<Longrightarrow> r \<in> set (sd_jobs db) \<Longrightarrow> sj_job_kind r = scheduler_job_kind_to_db kind"
  by (cases kind) (auto simp: scheduler_constraints_def scheduler_row_check_def list_all_iff)

text \<open>The tables have one row per job, which is the row that a search by key finds.\<close>

lemma GET_Some_iff:
  assumes "scheduler_constraints db"
  shows "GET_SCHEDULER_JOB db tenant kind = Some r \<longleftrightarrow> r \<in> set (sd_jobs db) \<and> is_job tenant kind r"
proof
  assume "GET_SCHEDULER_JOB db tenant kind = Some r"
  then show "r \<in> set (sd_jobs db) \<and> is_job tenant kind r"
    by (auto simp: GET_SCHEDULER_JOB_def find_Some_iff)
next
  assume r: "r \<in> set (sd_jobs db) \<and> is_job tenant kind r"
  then obtain r' where r': "GET_SCHEDULER_JOB db tenant kind = Some r'"
    by (cases "GET_SCHEDULER_JOB db tenant kind") (auto simp: GET_SCHEDULER_JOB_def find_None_iff)
  then have "r' \<in> set (sd_jobs db)" and "is_job tenant kind r'"
    by (auto simp: GET_SCHEDULER_JOB_def find_Some_iff)
  with r have "r' = r"
    using assms by (auto simp: scheduler_constraints_def distinct_map is_job_def inj_on_def)
  with r' show "GET_SCHEDULER_JOB db tenant kind = Some r" by simp
qed

lemma GET_by_tenant:
  assumes "scheduler_constraints db" and "r \<in> set (sd_jobs db)" and "sj_tenant_id r = tenant"
  shows "GET_SCHEDULER_JOB db tenant (scheduler_job_kind_to_db kind) = Some r"
  using assms job_is_kind [OF assms(1,2)] by (simp add: GET_Some_iff is_job_def)

lemma find_job:
  assumes "scheduler_constraints db"
  shows "find (\<lambda>r. is_job tenant kind r \<and> P r) (sd_jobs db) =
    (case GET_SCHEDULER_JOB db tenant kind of
       None \<Rightarrow> None | Some r \<Rightarrow> if P r then Some r else None)"
proof (cases "find (\<lambda>r. is_job tenant kind r \<and> P r) (sd_jobs db)")
  case None
  then show ?thesis
    using assms by (auto simp: find_None_iff GET_Some_iff split: option.split)
next
  case (Some r)
  then have "GET_SCHEDULER_JOB db tenant kind = Some r" and "P r"
    using assms by (auto simp: GET_Some_iff find_Some_iff)
  with Some show ?thesis by simp
qed

text \<open>Reading after an update that keeps tenant and kind.\<close>

lemma GET_map_where:
  assumes "\<And>r. sj_tenant_id (f r) = sj_tenant_id r \<and> sj_job_kind (f r) = sj_job_kind r"
  shows "GET_SCHEDULER_JOB (db\<lparr>sd_jobs := map_where P f (sd_jobs db)\<rparr>) tenant kind =
    map_option (\<lambda>r. if P r then f r else r) (GET_SCHEDULER_JOB db tenant kind)"
  using find_map_where [of "is_job tenant kind" f P "sd_jobs db"] assms
  by (simp add: GET_SCHEDULER_JOB_def is_job_def)

lemma update_jobs_GET:
  assumes "update_jobs P f db = Inr db'"
    and "\<And>r. sj_tenant_id (f r) = sj_tenant_id r \<and> sj_job_kind (f r) = sj_job_kind r"
  shows "GET_SCHEDULER_JOB db' tenant kind =
    map_option (\<lambda>r. if P r then f r else r) (GET_SCHEDULER_JOB db tenant kind)"
  using assms(1) GET_map_where [OF assms(2), where db = db and P = P and tenant = tenant and kind = kind]
  by (simp add: update_jobs_def store_jobs_Ok_iff)

lemma insert_GET:
  assumes "store_jobs db (sd_jobs db @ [r]) = Inr db'"
  shows "GET_SCHEDULER_JOB db' tenant kind =
    (case GET_SCHEDULER_JOB db tenant kind of
       None \<Rightarrow> if is_job tenant kind r then Some r else None | Some r' \<Rightarrow> Some r')"
  using assms by (simp add: store_jobs_Ok_iff GET_SCHEDULER_JOB_def find_append split: option.split)

lemma row_changes_simps [simp]:
  "sj_tenant_id (claimed_row now l u r) = sj_tenant_id r"
  "sj_job_kind (claimed_row now l u r) = sj_job_kind r"
  "sj_id (claimed_row now l u r) = sj_id r"
  "sj_attempt_count (claimed_row now l u r) = sj_attempt_count r + 1"
  "sj_tenant_id (released_row t n c r) = sj_tenant_id r"
  "sj_job_kind (released_row t n c r) = sj_job_kind r"
  "sj_id (released_row t n c r) = sj_id r"
  "sj_attempt_count (released_row t n c r) = sj_attempt_count r"
  by (simp_all add: claimed_row_def released_row_def)

lemma constraint_check:
  "scheduler_constraints db \<Longrightarrow> r \<in> set (sd_jobs db) \<Longrightarrow> scheduler_row_check r"
  by (simp add: scheduler_constraints_def list_all_iff)

text \<open>A change of rows that keeps the keys and the checks never meets a constraint.\<close>

lemma update_jobs_keeps:
  assumes ok: "scheduler_constraints db"
    and key: "\<And>r. sj_tenant_id (f r) = sj_tenant_id r \<and> sj_job_kind (f r) = sj_job_kind r \<and> sj_id (f r) = sj_id r"
    and check: "\<And>r. r \<in> set (sd_jobs db) \<Longrightarrow> P r \<Longrightarrow> scheduler_row_check (f r)"
  shows "update_jobs P f db = Inr (db\<lparr>sd_jobs := map_where P f (sd_jobs db)\<rparr>)"
proof -
  have keys: "map (\<lambda>r. (sj_tenant_id r, sj_job_kind r)) (map_where P f rows) = map (\<lambda>r. (sj_tenant_id r, sj_job_kind r)) rows"
    "map (\<lambda>r. (sj_tenant_id r, sj_id r)) (map_where P f rows) = map (\<lambda>r. (sj_tenant_id r, sj_id r)) rows" for rows
    using key by (auto intro!: map_map_where)
  have "list_all scheduler_row_check (map_where P f (sd_jobs db))"
    using check constraint_check [OF ok] by (auto simp: list_all_iff set_map_where)
  moreover have "list_all (\<lambda>r. sj_tenant_id r \<in> set (sd_tenants db)) (map_where P f (sd_jobs db))"
    using ok key by (auto simp: scheduler_constraints_def list_all_iff set_map_where)
  ultimately have "scheduler_constraints (db\<lparr>sd_jobs := map_where P f (sd_jobs db)\<rparr>)"
    using ok by (simp add: scheduler_constraints_def keys)
  then show ?thesis by (simp add: update_jobs_def store_jobs_def Let_def)
qed

lemma claimed_row_check: "scheduler_row_check r \<Longrightarrow> scheduler_row_check (claimed_row now l u r)"
  by (simp add: scheduler_row_check_def claimed_row_def error_code_check_def)

lemma released_row_check:
  "scheduler_row_check r \<Longrightarrow> error_code_check code \<Longrightarrow> scheduler_row_check (released_row t n code r)"
  by (simp add: scheduler_row_check_def released_row_def)

text \<open>What a claim does, in one equation over the row of the job.\<close>

lemma CLAIM_eq:
  assumes "scheduler_constraints db" and "to_ts now = Some n" and "to_ts until = Some u"
  shows "CLAIM_SCHEDULER_JOB to_ts locked db tenant kind now lid until =
    (case GET_SCHEDULER_JOB db tenant kind of
       None \<Rightarrow> Ok (None, db)
     | Some r \<Rightarrow>
         if \<not> claimable n r \<or> locked then Ok (None, db)
         else if sj_attempt_count r = 2147483647 \<or> 2147483647 < sj_attempt_count r
         then Err (Sqlx (DatabaseError ''integer out of range''))
         else Ok (Some (claimed_row n lid u r), db\<lparr>sd_jobs :=
           map_where (is_job tenant kind) (claimed_row n lid u) (sd_jobs db)\<rparr>))"
  using assms find_job [OF assms(1), of tenant kind "\<lambda>r. claimable n r \<and> \<not> locked"]
    update_jobs_keeps [OF assms(1), of "claimed_row n lid u" "is_job tenant kind"]
  by (auto simp: CLAIM_SCHEDULER_JOB_def sql_timestamp_def claimed_row_check constraint_check
      split: option.split)

text \<open>What giving back does: the row is the tenant's, and it must be held under the lease.\<close>

lemma RELEASE_eq:
  assumes "scheduler_constraints db" and "error_code_check code"
    and "to_ts until = Some u" and "to_ts finished = Some f" and "to_ts next = Some n"
  shows "RELEASE_SCHEDULER_JOB_FOR_LEASE to_ts db tenant jid lid att until finished code next =
    Ok (list_ex (held_under tenant jid lid att u) (sd_jobs db), db\<lparr>sd_jobs :=
        map_where (held_under tenant jid lid att u) (released_row f n code) (sd_jobs db)\<rparr>)"
  using assms update_jobs_keeps [OF assms(1), of "released_row f n code" "held_under tenant jid lid att u"]
  by (simp add: RELEASE_SCHEDULER_JOB_FOR_LEASE_def sql_timestamp_def released_row_check constraint_check Let_def)

section \<open>Histories\<close>

text \<open>
  The calls that workers make, in the order in which their statements run, and the table after
  them.
\<close>

datatype scheduler_op =
    OpUpsert string string scheduler_job_kind u64
  | OpInsert string string scheduler_job_kind u64
  | OpAcquire bool string scheduler_job_kind u64 string u64
  | OpComplete scheduler_job_lease u64 u64
  | OpFail scheduler_job_lease u64 string u64

fun scheduler_apply :: "(int \<Rightarrow> timestamptz option) \<Rightarrow> scheduler_op \<Rightarrow> scheduler_db \<Rightarrow> scheduler_db" where
  "scheduler_apply to_ts (OpUpsert job_id tenant kind next) db = snd (upsert_job to_ts db job_id tenant kind next)"
| "scheduler_apply to_ts (OpInsert job_id tenant kind next) db =
     snd (insert_job_if_missing to_ts db job_id tenant kind next)"
| "scheduler_apply to_ts (OpAcquire locked tenant kind now lease_id lease_until) db =
     snd (try_acquire to_ts locked db tenant kind now lease_id lease_until)"
| "scheduler_apply to_ts (OpComplete lease finished_at next) db =
     snd (complete_for_lease to_ts db lease finished_at next)"
| "scheduler_apply to_ts (OpFail lease finished_at code next) db =
     snd (fail_for_lease to_ts db lease finished_at code next)"

definition scheduler_run :: "(int \<Rightarrow> timestamptz option) \<Rightarrow> scheduler_op list \<Rightarrow> scheduler_db \<Rightarrow> scheduler_db" where
  "scheduler_run to_ts ops db = fold (scheduler_apply to_ts) ops db"

lemma scheduler_run_Nil [simp]: "scheduler_run to_ts [] db = db"
  by (simp add: scheduler_run_def)

lemma snd_upsert_job: "snd (upsert_job to_ts db job_id tenant kind next) =
    snd (exec_sql db (UPSERT_SCHEDULER_JOB to_ts db job_id tenant (scheduler_job_kind_to_db kind) (u64_as_i64 next)))"
  by (simp add: upsert_job_def try_st_keeps_state)

lemma snd_insert_job: "snd (insert_job_if_missing to_ts db job_id tenant kind next) =
    snd (exec_sql db (INSERT_SCHEDULER_JOB_IF_MISSING to_ts db job_id tenant (scheduler_job_kind_to_db kind) (u64_as_i64 next)))"
  by (simp add: insert_job_if_missing_def try_st_def split: prod.split sum.split option.split)

lemma snd_try_acquire: "snd (try_acquire to_ts locked db tenant kind now lid until) =
    snd (exec_sql db (CLAIM_SCHEDULER_JOB to_ts locked db tenant (scheduler_job_kind_to_db kind) (u64_as_i64 now) lid (u64_as_i64 until)))"
  by (simp add: try_acquire_def try_st_keeps_state)

lemmas snd_ops = snd_upsert_job snd_insert_job snd_try_acquire snd_exec_sql

text \<open>
  Every call leaves the table, adds a row or updates rows by a function that keeps their keys and
  never lowers their attempt count; an updated row was not running, its lease was over or it was
  held under the lease given.
\<close>

definition may_touch :: "(int \<Rightarrow> timestamptz option) \<Rightarrow> scheduler_op \<Rightarrow> scheduler_row \<Rightarrow> bool" where
  "may_touch to_ts op r = (case op of
      OpUpsert job_id tenant kind next \<Rightarrow> sj_status r \<noteq> ''running''
    | OpInsert job_id tenant kind next \<Rightarrow> False
    | OpAcquire locked tenant kind now lid until \<Rightarrow>
        is_job tenant (scheduler_job_kind_to_db kind) r \<and>
        (\<exists>n \<in> set_option (to_ts (u64_as_i64 now)). claimable n r)
    | OpComplete l finished next \<Rightarrow>
        (\<exists>u \<in> set_option (to_ts (u64_as_i64 (le_lease_until_ms l))).
          held_under (le_tenant_id l) (le_id l) (le_lease_id l) (u32_as_i32 (le_attempt_count l)) u r)
    | OpFail l finished code next \<Rightarrow>
        (\<exists>u \<in> set_option (to_ts (u64_as_i64 (le_lease_until_ms l))).
          held_under (le_tenant_id l) (le_id l) (le_lease_id l) (u32_as_i32 (le_attempt_count l)) u r))"

definition tame_update :: "(scheduler_row \<Rightarrow> bool) \<Rightarrow> (scheduler_row \<Rightarrow> scheduler_row) \<Rightarrow>
  (scheduler_row \<Rightarrow> bool) \<Rightarrow> scheduler_db \<Rightarrow> scheduler_db \<Rightarrow> bool" where
  "tame_update P f Q db db' \<longleftrightarrow> update_jobs P f db = Inr db' \<and>
     (\<forall>r. sj_tenant_id (f r) = sj_tenant_id r \<and> sj_job_kind (f r) = sj_job_kind r \<and>
       sj_attempt_count r \<le> sj_attempt_count (f r)) \<and>
     (\<forall>r \<in> set (sd_jobs db). P r \<longrightarrow> Q r)"

lemma release_effect:
  obtains (none) "snd (exec_sql db (RELEASE_SCHEDULER_JOB_FOR_LEASE to_ts db tenant jid lid att until finished code next)) = db"
  | (update) P f where "tame_update P f (\<lambda>r. \<exists>u \<in> set_option (to_ts until). held_under tenant jid lid att u r) db
      (snd (exec_sql db (RELEASE_SCHEDULER_JOB_FOR_LEASE to_ts db tenant jid lid att until finished code next)))"
proof (cases "RELEASE_SCHEDULER_JOB_FOR_LEASE to_ts db tenant jid lid att until finished code next")
  case (Inl e)
  then show ?thesis using none by simp
next
  case (Inr p)
  then obtain b db' where p: "p = (b, db')" by (cases p)
  from Inr p obtain u f n where "to_ts until = Some u"
      and "update_jobs (held_under tenant jid lid att u) (released_row f n code) db = Inr db'"
    by (auto simp: RELEASE_SCHEDULER_JOB_FOR_LEASE_def try_then_Ok_iff Let_def)
  with Inr p show ?thesis
    by (intro update [of "held_under tenant jid lid att u" "released_row f n code"])
      (simp add: tame_update_def)
qed

lemma may_touch_release:
  "may_touch to_ts (OpComplete l finished nxt) = (\<lambda>r. \<exists>u \<in> set_option (to_ts (u64_as_i64 (le_lease_until_ms l))).
     held_under (le_tenant_id l) (le_id l) (le_lease_id l) (u32_as_i32 (le_attempt_count l)) u r)"
  "may_touch to_ts (OpFail l finished code nxt) = (\<lambda>r. \<exists>u \<in> set_option (to_ts (u64_as_i64 (le_lease_until_ms l))).
     held_under (le_tenant_id l) (le_id l) (le_lease_id l) (u32_as_i32 (le_attempt_count l)) u r)"
  by (simp_all add: fun_eq_iff may_touch_def)

lemma scheduler_apply_effect:
  assumes "scheduler_constraints db"
  obtains (none) "scheduler_apply to_ts op db = db"
  | (insert) r where "store_jobs db (sd_jobs db @ [r]) = Inr (scheduler_apply to_ts op db)"
  | (update) P f where "tame_update P f (may_touch to_ts op) db (scheduler_apply to_ts op db)"
proof (cases op)
  case (OpUpsert job_id tenant kind nxt)
  let ?u = "UPSERT_SCHEDULER_JOB to_ts db job_id tenant (scheduler_job_kind_to_db kind) (u64_as_i64 nxt)"
  show ?thesis
  proof (cases ?u)
    case (Inl e)
    then show ?thesis using none OpUpsert by (simp add: snd_ops)
  next
    case (Inr p)
    then obtain r db' where p: "p = (r, db')" by (cases p)
    with Inr OpUpsert have db': "scheduler_apply to_ts op db = db'" by (simp add: snd_ops)
    from Inr p consider "db' = db" | r where "store_jobs db (sd_jobs db @ [r]) = Inr db'"
      | n r where "update_jobs (is_job tenant (scheduler_job_kind_to_db kind)) (\<lambda>r. r\<lparr>sj_id := job_id, sj_next_run_at := n\<rparr>) db = Inr db'"
          and "GET_SCHEDULER_JOB db tenant (scheduler_job_kind_to_db kind) = Some r" and "sj_status r \<noteq> ''running''"
      by (auto simp: UPSERT_SCHEDULER_JOB_def try_then_Ok_iff Let_def split: option.splits if_splits)
    then show ?thesis
    proof cases
      case (3 n r)
      have "sj_status r' \<noteq> ''running''" if "r' \<in> set (sd_jobs db)" "is_job tenant (scheduler_job_kind_to_db kind) r'" for r'
        using that 3(2,3) GET_Some_iff [OF assms, of tenant "scheduler_job_kind_to_db kind" r'] by auto
      with 3(1) db' OpUpsert show ?thesis
        by (intro update [of "is_job tenant (scheduler_job_kind_to_db kind)" "\<lambda>r. r\<lparr>sj_id := job_id, sj_next_run_at := n\<rparr>"])
          (simp add: tame_update_def may_touch_def)
    qed (use none insert db' in auto)
  qed
next
  case (OpInsert job_id tenant kind nxt)
  let ?u = "INSERT_SCHEDULER_JOB_IF_MISSING to_ts db job_id tenant (scheduler_job_kind_to_db kind) (u64_as_i64 nxt)"
  show ?thesis
  proof (cases ?u)
    case (Inl e)
    then show ?thesis using none OpInsert by (simp add: snd_ops)
  next
    case (Inr p)
    then obtain b db' where p: "p = (b, db')" by (cases p)
    with Inr OpInsert have db': "scheduler_apply to_ts op db = db'" by (simp add: snd_ops)
    from Inr p consider "db' = db" | r where "store_jobs db (sd_jobs db @ [r]) = Inr db'"
      by (auto simp: INSERT_SCHEDULER_JOB_IF_MISSING_def try_then_Ok_iff Let_def split: option.splits)
    then show ?thesis using none insert db' by cases auto
  qed
next
  case (OpAcquire locked tenant kind now lid until)
  let ?k = "scheduler_job_kind_to_db kind"
  show ?thesis
  proof (cases "CLAIM_SCHEDULER_JOB to_ts locked db tenant ?k (u64_as_i64 now) lid (u64_as_i64 until)")
    case (Inl e)
    then show ?thesis using none OpAcquire by (simp add: snd_ops)
  next
    case (Inr p)
    then obtain b db' where p: "p = (b, db')" by (cases p)
    with Inr OpAcquire have db': "scheduler_apply to_ts op db = db'" by (simp add: snd_ops)
    from Inr p consider "db' = db"
      | n u r where "to_ts (u64_as_i64 now) = Some n" and "update_jobs (is_job tenant ?k) (claimed_row n lid u) db = Inr db'"
          and "find (\<lambda>r. is_job tenant ?k r \<and> claimable n r \<and> \<not> locked) (sd_jobs db) = Some r"
      by (auto simp: CLAIM_SCHEDULER_JOB_def try_then_Ok_iff split: option.splits if_splits)
    then show ?thesis
    proof cases
      case (2 n u r)
      then have "GET_SCHEDULER_JOB db tenant ?k = Some r" and "claimable n r"
        using find_job [OF assms, of tenant ?k "\<lambda>r. claimable n r \<and> \<not> locked"]
        by (auto split: option.splits if_splits)
      then have "claimable n r'" if "r' \<in> set (sd_jobs db)" "is_job tenant ?k r'" for r'
        using that GET_Some_iff [OF assms, of tenant ?k r'] by auto
      with 2(1,2) db' OpAcquire show ?thesis
        by (intro update [of "is_job tenant ?k" "claimed_row n lid u"])
          (simp add: tame_update_def may_touch_def)
    qed (use none db' in auto)
  qed
next
  case (OpComplete l finished nxt)
  show ?thesis
  proof (rule release_effect [of db to_ts "le_tenant_id l" "le_id l" "le_lease_id l" "u32_as_i32 (le_attempt_count l)"
        "u64_as_i64 (le_lease_until_ms l)" "u64_as_i64 finished" None "u64_as_i64 nxt"], goal_cases)
    case 1
    then show ?case using none OpComplete
      by (simp add: complete_for_lease_def COMPLETE_SCHEDULER_JOB_FOR_LEASE_def)
  next
    case (2 P f)
    then show ?case using update [of P f] OpComplete
      by (simp add: complete_for_lease_def COMPLETE_SCHEDULER_JOB_FOR_LEASE_def may_touch_release)
  qed
next
  case (OpFail l finished code nxt)
  show ?thesis
  proof (cases "ensure_scheduler_safe_error_code code")
    case (Inl e)
    then show ?thesis using none OpFail by (simp add: fail_for_lease_def)
  next
    case (Inr x)
    show ?thesis
    proof (rule release_effect [of db to_ts "le_tenant_id l" "le_id l" "le_lease_id l" "u32_as_i32 (le_attempt_count l)"
        "u64_as_i64 (le_lease_until_ms l)" "u64_as_i64 finished" "Some code" "u64_as_i64 nxt"], goal_cases)
      case 1
      then show ?case using none OpFail Inr by (simp add: fail_for_lease_def FAIL_SCHEDULER_JOB_FOR_LEASE_def)
    next
      case (2 P f)
      then show ?case using update [of P f] OpFail Inr
        by (simp add: fail_for_lease_def FAIL_SCHEDULER_JOB_FOR_LEASE_def may_touch_release)
    qed
  qed
qed

lemma scheduler_apply_constraints [simp]:
  "scheduler_constraints db \<Longrightarrow> scheduler_constraints (scheduler_apply to_ts op db)"
  by (rule scheduler_apply_effect [of db to_ts op])
    (auto simp: store_jobs_Ok_iff tame_update_def update_jobs_def)

lemma scheduler_apply_attempts:
  assumes "scheduler_constraints db" and "GET_SCHEDULER_JOB db tenant kind = Some r"
  shows "\<exists>r'. GET_SCHEDULER_JOB (scheduler_apply to_ts op db) tenant kind = Some r' \<and>
    sj_attempt_count r \<le> sj_attempt_count r'"
  using assms(1)
proof (rule scheduler_apply_effect [of db to_ts op])
  fix r' assume "store_jobs db (sd_jobs db @ [r']) = Inr (scheduler_apply to_ts op db)"
  from insert_GET [OF this] assms(2) show ?thesis by simp
next
  fix P f assume "tame_update P f (may_touch to_ts op) db (scheduler_apply to_ts op db)"
  then show ?thesis using assms(2) update_jobs_GET [of P f db "scheduler_apply to_ts op db" tenant kind]
    by (simp add: tame_update_def)
qed (use assms in auto)

lemma scheduler_apply_spares:
  assumes "scheduler_constraints db" and "GET_SCHEDULER_JOB db tenant kind = Some r"
    and "\<not> may_touch to_ts op r"
  shows "GET_SCHEDULER_JOB (scheduler_apply to_ts op db) tenant kind = Some r"
  using assms(1)
proof (rule scheduler_apply_effect [of db to_ts op])
  fix r' assume "store_jobs db (sd_jobs db @ [r']) = Inr (scheduler_apply to_ts op db)"
  from insert_GET [OF this] assms(2) show ?thesis by simp
next
  fix P f assume "tame_update P f (may_touch to_ts op) db (scheduler_apply to_ts op db)"
  moreover have "r \<in> set (sd_jobs db)" using assms(1,2) by (simp add: GET_Some_iff)
  ultimately show ?thesis using assms(2,3) update_jobs_GET [of P f db "scheduler_apply to_ts op db" tenant kind]
    by (auto simp: tame_update_def)
qed (use assms in auto)

definition job_attempts :: "string \<times> string \<Rightarrow> scheduler_db \<Rightarrow> int option" where
  "job_attempts job db = map_option sj_attempt_count (GET_SCHEDULER_JOB db (fst job) (snd job))"

interpretation scheduler: counted_rows scheduler_constraints "scheduler_apply to_ts" job_attempts for to_ts
proof
  fix db op job a
  assume "scheduler_constraints db" and "job_attempts job db = Some a"
  then show "\<exists>a'. job_attempts job (scheduler_apply to_ts op db) = Some a' \<and> a \<le> a'"
    using scheduler_apply_attempts [of db "fst job" "snd job" _ to_ts op] by (fastforce simp: job_attempts_def)
qed simp

lemma scheduler_run_constraints [simp]:
  "scheduler_constraints db \<Longrightarrow> scheduler_constraints (scheduler_run to_ts ops db)"
  unfolding scheduler_run_def by (rule scheduler.inv_fold)

lemma scheduler_run_attempts:
  assumes "scheduler_constraints db" and "GET_SCHEDULER_JOB db tenant kind = Some r"
  shows "\<exists>r'. GET_SCHEDULER_JOB (scheduler_run to_ts ops db) tenant kind = Some r' \<and>
    sj_attempt_count r \<le> sj_attempt_count r'"
  using scheduler.attempts_fold [OF assms(1), of "(tenant, kind)" "sj_attempt_count r" to_ts ops] assms(2)
  by (auto simp: job_attempts_def scheduler_run_def)

lemma scheduler_run_spares:
  assumes "scheduler_constraints db" and "GET_SCHEDULER_JOB db tenant kind = Some r"
    and "\<forall>op \<in> set ops. \<not> may_touch to_ts op r"
  shows "GET_SCHEDULER_JOB (scheduler_run to_ts ops db) tenant kind = Some r"
  using assms
  by (induction ops arbitrary: db) (auto simp: scheduler_apply_spares scheduler_run_def)

text \<open>Reading a row, without the chain of early returns.\<close>

lemma non_negative_Ok_iff: "non_negative_i64_to_u64 v f = Inr w \<longleftrightarrow> 0 \<le> v \<and> w = word_of_int v"
  by (auto simp: non_negative_i64_to_u64_def)

lemma optional_non_negative_Ok_iff:
  "optional_non_negative_i64_to_u64 v f = Inr w \<longleftrightarrow> pred_option (\<lambda>t. 0 \<le> t) v \<and> w = map_option word_of_int v"
  by (cases v) (auto simp: optional_non_negative_i64_to_u64_def transpose_map_def try_then_Ok_iff non_negative_Ok_iff)

lemma stored_from_row_Ok_iff:
  "stored_scheduler_job_from_row r = Inr s \<longleftrightarrow> (\<exists>kind status.
     scheduler_job_kind_from_db (sj_job_kind r) = Inr kind \<and>
     scheduler_job_status_from_db (sj_status r) = Inr status \<and>
     0 \<le> epoch_ms (sj_next_run_at r) \<and> pred_option (\<lambda>t. 0 \<le> epoch_ms t) (sj_lease_until r) \<and>
     0 \<le> sj_attempt_count r \<and> pred_option (\<lambda>t. 0 \<le> epoch_ms t) (sj_last_started_at r) \<and>
     pred_option (\<lambda>t. 0 \<le> epoch_ms t) (sj_last_finished_at r) \<and>
     \<lparr>so_id = sj_id r, so_tenant_id = sj_tenant_id r, so_job_kind = kind, so_status = status,
       so_next_run_at_ms = word_of_int (epoch_ms (sj_next_run_at r)), so_lease_id = sj_lease_id r,
       so_lease_until_ms = map_option (\<lambda>t. word_of_int (epoch_ms t)) (sj_lease_until r),
       so_attempt_count = ucast (word_of_int (sj_attempt_count r) :: u64),
       so_last_started_at_ms = map_option (\<lambda>t. word_of_int (epoch_ms t)) (sj_last_started_at r),
       so_last_finished_at_ms = map_option (\<lambda>t. word_of_int (epoch_ms t)) (sj_last_finished_at r),
       so_last_safe_error_code = sj_last_safe_error_code r\<rparr> = s)"
  by (simp add: stored_scheduler_job_from_row_def try_then_Ok_iff non_negative_Ok_iff
      optional_non_negative_Ok_iff option.pred_map option.map_comp comp_def)

lemma attempt_count_word:
  "ucast (word_of_int n :: u64) = (word_of_int n :: u32)"
  "ucast (word_of_int n + 1 :: u64) = (word_of_int n + 1 :: u32)"
proof -
  have low: "ucast (word_of_int m :: u64) = (word_of_int m :: u32)" for m
    by (rule bit_word_eqI) (simp add: bit_simps)
  show "ucast (word_of_int n :: u64) = (word_of_int n :: u32)" by (rule low)
  show "ucast (word_of_int n + 1 :: u64) = (word_of_int n + 1 :: u32)"
    using low [of "n + 1"] by simp
qed

text \<open>What a lease says of the table at the moment it is handed out.\<close>

lemma try_acquire_AcquiredE:
  assumes "try_acquire to_ts locked db tenant kind now lid until = (Ok (Acquired l), db')"
    and "scheduler_constraints db"
  obtains n u r where "to_ts (u64_as_i64 now) = Some n" and "to_ts (u64_as_i64 until) = Some u"
    and "GET_SCHEDULER_JOB db tenant (scheduler_job_kind_to_db kind) = Some r" and "claimable n r" and "\<not> locked"
    and "sj_attempt_count r < 2147483647" and "scheduler_row_check r"
    and "GET_SCHEDULER_JOB db' tenant (scheduler_job_kind_to_db kind) = Some (claimed_row n lid u r)"
    and "0 \<le> epoch_ms u" and "0 \<le> epoch_ms (sj_next_run_at r)" and "0 \<le> epoch_ms n"
    and "\<forall>t. sj_last_finished_at r = Some t \<longrightarrow> 0 \<le> epoch_ms t"
    and "l = \<lparr>le_id = sj_id r, le_tenant_id = tenant, le_job_kind = kind, le_status = JobRunning,
          le_attempt_count = word_of_int (sj_attempt_count r + 1), le_lease_id = lid,
          le_lease_until_ms = word_of_int (epoch_ms u)\<rparr>"
    and "scheduler_constraints db'"
proof -
  let ?k = "scheduler_job_kind_to_db kind"
  let ?claim = "CLAIM_SCHEDULER_JOB to_ts locked db tenant ?k (u64_as_i64 now) lid (u64_as_i64 until)"
  obtain row where claim: "?claim = Inr (Some row, db')"
    and lease: "try_then (stored_scheduler_job_from_row row) (\<lambda>stored.
      try_then (scheduler_job_lease_from_stored stored) (\<lambda>lease. Ok (Acquired lease))) = Inr (Acquired l)"
  proof (cases ?claim)
    case (Inr p)
    obtain row db'' where p: "p = (row, db'')" by (cases p)
    show thesis
    proof (cases row)
      case None
      note miss = assms(1) Inr p None
      show thesis
      proof (cases "get_job db'' tenant kind")
        case (Inr found)
        with miss show thesis
          by (cases found; cases "so_status (the found)") (simp_all add: try_acquire_def)
      qed (use miss in \<open>simp add: try_acquire_def\<close>)
    qed (use assms(1) Inr p that in \<open>auto simp: try_acquire_def\<close>)
  qed (use assms(1) in \<open>simp add: try_acquire_def\<close>)
  from claim obtain n u where nu: "to_ts (u64_as_i64 now) = Some n" "to_ts (u64_as_i64 until) = Some u"
    by (auto simp: CLAIM_SCHEDULER_JOB_def try_then_Ok_iff)
  from claim CLAIM_eq [OF assms(2) nu, of locked tenant ?k lid] obtain r where
    r: "GET_SCHEDULER_JOB db tenant ?k = Some r" "claimable n r" "\<not> locked" "sj_attempt_count r < 2147483647"
      "row = claimed_row n lid u r"
      "db' = db\<lparr>sd_jobs := map_where (is_job tenant ?k) (claimed_row n lid u) (sd_jobs db)\<rparr>"
    by (auto split: option.splits if_splits)
  have member: "r \<in> set (sd_jobs db)" and job: "is_job tenant ?k r"
    using r(1) assms(2) by (simp_all add: GET_Some_iff)
  have check: "scheduler_row_check r" using constraint_check [OF assms(2) member] .
  have get': "GET_SCHEDULER_JOB db' tenant ?k = Some (claimed_row n lid u r)"
    using r(1,6) GET_map_where [where f = "claimed_row n lid u" and db = db and P = "is_job tenant ?k" and tenant = tenant and kind = ?k] job by simp
  have kind: "sj_job_kind r = ''token_refresh_sweep''" and "kind = TokenRefreshSweep" and att: "0 \<le> sj_attempt_count r"
    using check by (auto simp: scheduler_row_check_def intro: scheduler_job_kind.exhaust)
  with lease r(5) job have facts: "0 \<le> epoch_ms u \<and> 0 \<le> epoch_ms (sj_next_run_at r) \<and> 0 \<le> epoch_ms n \<and>
      (\<forall>t. sj_last_finished_at r = Some t \<longrightarrow> 0 \<le> epoch_ms t) \<and>
      l = \<lparr>le_id = sj_id r, le_tenant_id = tenant, le_job_kind = kind, le_status = JobRunning,
          le_attempt_count = word_of_int (sj_attempt_count r + 1), le_lease_id = lid,
          le_lease_until_ms = word_of_int (epoch_ms u)\<rparr>"
    by (auto simp: stored_from_row_Ok_iff scheduler_job_lease_from_stored_def try_then_Ok_iff
        claimed_row_def scheduler_job_kind_from_db_def scheduler_job_status_from_db_def is_job_def
        attempt_count_word)
  have "scheduler_constraints db'"
    using scheduler_apply_constraints [OF assms(2), of to_ts "OpAcquire locked tenant kind now lid until"] assms(1) by simp
  with that nu r check get' facts show thesis by blast
qed

lemma claimed_row_reads:
  assumes "scheduler_row_check r" and "sj_attempt_count r < 2147483647" and "0 \<le> epoch_ms (sj_next_run_at r)"
    and "0 \<le> epoch_ms n" and "pred_option (\<lambda>t. 0 \<le> epoch_ms t) (sj_last_finished_at r)" and "0 \<le> epoch_ms u"
  obtains s where "stored_scheduler_job_from_row (claimed_row n lid u r) = Inr s" and "so_status s = JobRunning"
    and "so_lease_until_ms s = Some (word_of_int (epoch_ms u))"
  using assms
  by (simp add: stored_from_row_Ok_iff claimed_row_def scheduler_job_kind_from_db_def
      scheduler_job_status_from_db_def scheduler_row_check_def)

text \<open>Giving back under a lease that no row is held under.\<close>

definition held_by :: "(int \<Rightarrow> timestamptz option) \<Rightarrow> scheduler_job_lease \<Rightarrow> scheduler_row \<Rightarrow> bool" where
  "held_by to_ts l r \<longleftrightarrow> (\<exists>u \<in> set_option (to_ts (u64_as_i64 (le_lease_until_ms l))).
     held_under (le_tenant_id l) (le_id l) (le_lease_id l) (u32_as_i32 (le_attempt_count l)) u r)"

lemma may_touch_held_by:
  "may_touch to_ts (OpComplete l finished nxt) r \<longleftrightarrow> held_by to_ts l r"
  "may_touch to_ts (OpFail l finished code nxt) r \<longleftrightarrow> held_by to_ts l r"
  by (simp_all add: may_touch_release held_by_def)

lemma update_jobs_none:
  assumes "scheduler_constraints db" and "\<forall>r \<in> set (sd_jobs db). \<not> P r"
  shows "update_jobs P f db = Inr db"
proof -
  have "map_where P f (sd_jobs db) = sd_jobs db"
    using assms(2) by (rule map_where_none)
  then show ?thesis using assms(1) by (simp add: update_jobs_def store_jobs_def)
qed

lemma release_miss:
  assumes "scheduler_constraints db"
    and "\<forall>r \<in> set (sd_jobs db). \<forall>u. to_ts until = Some u \<longrightarrow> \<not> held_under tenant jid lid att u r"
  shows "fst (exec_sql db (RELEASE_SCHEDULER_JOB_FOR_LEASE to_ts db tenant jid lid att until finished code nxt)) \<noteq> Ok True \<and>
    snd (exec_sql db (RELEASE_SCHEDULER_JOB_FOR_LEASE to_ts db tenant jid lid att until finished code nxt)) = db"
proof (cases "RELEASE_SCHEDULER_JOB_FOR_LEASE to_ts db tenant jid lid att until finished code nxt")
  case (Inr p)
  obtain b db' where p: "p = (b, db')" by (cases p)
  from Inr p obtain u f n where u: "to_ts until = Some u"
      and upd: "update_jobs (held_under tenant jid lid att u) (released_row f n code) db = Inr db'"
      and b: "b = list_ex (held_under tenant jid lid att u) (sd_jobs db)"
    by (auto simp: RELEASE_SCHEDULER_JOB_FOR_LEASE_def try_then_Ok_iff Let_def)
  have none: "\<forall>r \<in> set (sd_jobs db). \<not> held_under tenant jid lid att u r" using assms(2) u by simp
  with upd update_jobs_none [OF assms(1) none] have "db' = db" by simp
  moreover have "\<not> b" using none b by (simp add: list_ex_iff)
  ultimately show ?thesis using Inr p by simp
qed simp

lemma lease_miss:
  assumes "scheduler_constraints db" and "\<forall>r \<in> set (sd_jobs db). \<not> held_by to_ts l r"
  shows "fst (complete_for_lease to_ts db l finished nxt) \<noteq> Ok True \<and> snd (complete_for_lease to_ts db l finished nxt) = db"
    and "fst (fail_for_lease to_ts db l finished code nxt) \<noteq> Ok True \<and> snd (fail_for_lease to_ts db l finished code nxt) = db"
proof -
  have free: "\<forall>r \<in> set (sd_jobs db). \<forall>u. to_ts (u64_as_i64 (le_lease_until_ms l)) = Some u \<longrightarrow>
      \<not> held_under (le_tenant_id l) (le_id l) (le_lease_id l) (u32_as_i32 (le_attempt_count l)) u r"
    using assms(2) by (auto simp: held_by_def)
  show "fst (complete_for_lease to_ts db l finished nxt) \<noteq> Ok True \<and> snd (complete_for_lease to_ts db l finished nxt) = db"
    using release_miss [where to_ts = to_ts and until = "u64_as_i64 (le_lease_until_ms l)", OF assms(1) free]
    by (simp add: complete_for_lease_def COMPLETE_SCHEDULER_JOB_FOR_LEASE_def)
  show "fst (fail_for_lease to_ts db l finished code nxt) \<noteq> Ok True \<and> snd (fail_for_lease to_ts db l finished code nxt) = db"
    using release_miss [where to_ts = to_ts and until = "u64_as_i64 (le_lease_until_ms l)", OF assms(1) free]
    by (cases "ensure_scheduler_safe_error_code code")
      (simp_all add: fail_for_lease_def FAIL_SCHEDULER_JOB_FOR_LEASE_def)
qed

lemma uint_u32_of_int: "0 \<le> n \<Longrightarrow> n \<le> 2147483647 \<Longrightarrow> uint (word_of_int n :: u32) = n"
  by (simp add: uint_word_of_int)

lemma u32_as_i32_SucD:
  assumes "n + 1 = u32_as_i32 w"
  shows "w = word_of_int n + 1"
proof -
  have "w = word_of_int (n + 1)" unfolding assms u32_as_i32_def by simp
  then show ?thesis by simp
qed

section \<open>Properties\<close>

text \<open>Two workers and one job, for the witnesses.\<close>

definition sample_row :: "int \<Rightarrow> int \<Rightarrow> string \<Rightarrow> int \<Rightarrow> scheduler_row" where
  "sample_row attempts started lid until = (new_job_row ''job'' ''t'' ''token_refresh_sweep'' 0)\<lparr>
     sj_status := ''running'', sj_lease_id := Some lid, sj_lease_until := Some until,
     sj_attempt_count := attempts, sj_last_started_at := Some started\<rparr>"

definition sample_db :: "scheduler_row \<Rightarrow> scheduler_db" where
  "sample_db r = \<lparr>sd_tenants = [''t''], sd_jobs = [r]\<rparr>"

definition sample_lease :: "u32 \<Rightarrow> string \<Rightarrow> u64 \<Rightarrow> scheduler_job_lease" where
  "sample_lease attempts lid until = \<lparr>le_id = ''job'', le_tenant_id = ''t'', le_job_kind = TokenRefreshSweep,
     le_status = JobRunning, le_attempt_count = attempts, le_lease_id = lid, le_lease_until_ms = until\<rparr>"

lemmas sample_defs = sample_row_def sample_db_def sample_lease_def new_job_row_def

lemma sample_constraints [simp]:
  "scheduler_constraints (sample_db (new_job_row ''job'' ''t'' ''token_refresh_sweep'' 0))"
  by (simp add: sample_defs scheduler_constraints_def scheduler_row_check_def error_code_check_def)

lemmas acquire_eval = try_acquire_def CLAIM_SCHEDULER_JOB_def u64_as_i64_def pg_to_timestamp_def sql_timestamp_def
  is_job_def claimable_def claimed_row_def update_jobs_def store_jobs_def scheduler_constraints_def
  scheduler_row_check_def error_code_check_def stored_scheduler_job_from_row_def scheduler_job_kind_from_db_def
  scheduler_job_status_from_db_def scheduler_job_lease_from_stored_def epoch_ms_def

lemma sample_acquire:
  "try_acquire pg_to_timestamp False (sample_db (new_job_row ''job'' ''t'' ''token_refresh_sweep'' 0)) ''t''
     TokenRefreshSweep 1000 ''w'' 2000 =
   (Ok (Acquired (sample_lease 1 ''w'' 2000)), sample_db (sample_row 1 1000000 ''w'' 2000000))"
  by (simp add: acquire_eval sample_defs)

lemma sample_acquire_again:
  "try_acquire pg_to_timestamp False (sample_db (sample_row 1 1000000 ''w'' 2000000)) ''t''
     TokenRefreshSweep 3000 ''w'' 4000 =
   (Ok (Acquired (sample_lease 2 ''w'' 4000)), sample_db (sample_row 2 3000000 ''w'' 4000000))"
  by (simp add: acquire_eval sample_defs)


text \<open>
  C26. A lease that has been taken over is dead: once the same job has been handed out again, whatever
  happened in between and happens after, its first holder can neither complete nor fail the job,
  even when both leases carry the same lease id.
\<close>

theorem stale_lease_fenced:
  assumes "scheduler_constraints db"
    and first: "try_acquire to_ts locked db tenant kind now lease_id lease_until = (Ok (Acquired l), db1)"
    and second: "try_acquire to_ts locked' (scheduler_run to_ts ops db1) tenant kind now' lease_id' lease_until' = (Ok (Acquired l'), db2)"
    and "db3 = scheduler_run to_ts ops' db2"
  shows "unat (le_attempt_count l) < unat (le_attempt_count l') \<and>
    fst (complete_for_lease to_ts db3 l finished_at next_run_at) \<noteq> Ok True \<and>
    snd (complete_for_lease to_ts db3 l finished_at next_run_at) = db3 \<and>
    fst (fail_for_lease to_ts db3 l finished_at code next_run_at) \<noteq> Ok True \<and>
    snd (fail_for_lease to_ts db3 l finished_at code next_run_at) = db3"
proof -
  let ?k = "scheduler_job_kind_to_db kind"
  from try_acquire_AcquiredE [OF first assms(1)] obtain n u r where
    r: "GET_SCHEDULER_JOB db1 tenant ?k = Some (claimed_row n lease_id u r)" "sj_attempt_count r < 2147483647"
      "scheduler_row_check r" and l: "le_attempt_count l = word_of_int (sj_attempt_count r + 1)" "le_tenant_id l = tenant"
      and ok1: "scheduler_constraints db1"
    by (metis scheduler_job_lease.select_convs(2,5))
  from scheduler_run_attempts [OF ok1 r(1), of to_ts ops] obtain r2 where
    r2: "GET_SCHEDULER_JOB (scheduler_run to_ts ops db1) tenant ?k = Some r2" "sj_attempt_count r + 1 \<le> sj_attempt_count r2"
    by auto
  from try_acquire_AcquiredE [OF second] ok1 obtain n' u' r' where
    r': "GET_SCHEDULER_JOB (scheduler_run to_ts ops db1) tenant ?k = Some r'"
      "GET_SCHEDULER_JOB db2 tenant ?k = Some (claimed_row n' lease_id' u' r')" "sj_attempt_count r' < 2147483647"
      "le_attempt_count l' = word_of_int (sj_attempt_count r' + 1)" and ok2: "scheduler_constraints db2"
    by (metis scheduler_run_constraints scheduler_job_lease.select_convs(5))
  have le: "sj_attempt_count r + 1 < sj_attempt_count r' + 1" using r2 r'(1) by simp
  have nonneg: "0 \<le> sj_attempt_count r" using r(3) by (simp add: scheduler_row_check_def)
  have "uint (le_attempt_count l) = sj_attempt_count r + 1"
    using uint_u32_of_int [of "sj_attempt_count r + 1"] l(1) nonneg r(2) by simp
  moreover have "uint (le_attempt_count l') = sj_attempt_count r' + 1"
    using uint_u32_of_int [of "sj_attempt_count r' + 1"] r'(3,4) nonneg le by simp
  ultimately have "unat (le_attempt_count l) < unat (le_attempt_count l')"
    using le nonneg by (simp add: unat_eq_nat_uint)
  from scheduler_run_attempts [OF ok2 r'(2), of to_ts ops'] obtain r3 where
    r3: "GET_SCHEDULER_JOB db3 tenant ?k = Some r3" "sj_attempt_count r + 1 < sj_attempt_count r3"
    using le assms(4) by fastforce
  have ok3: "scheduler_constraints db3" using ok2 assms(4) by simp
  have att: "u32_as_i32 (le_attempt_count l) = sj_attempt_count r + 1"
    using l(1) nonneg r(2) by (simp add: u32_as_i32_of_int del: of_int_add)
  have "\<not> held_by to_ts l row" if "row \<in> set (sd_jobs db3)" for row
    using GET_by_tenant [OF ok3 that, of tenant kind] r3 att l(2) by (auto simp: held_by_def held_under_def)
  with \<open>unat (le_attempt_count l) < unat (le_attempt_count l')\<close> show ?thesis
    using lease_miss [OF ok3] by blast
qed

theorem stale_lease_fenced_witness:
  "fst (complete_for_lease pg_to_timestamp (sample_db (sample_row 2 3000000 ''w'' 4000000))
     (sample_lease 1 ''w'' 2000) 3500 9000) \<noteq> Ok True"
  using stale_lease_fenced [OF sample_constraints sample_acquire, of False "[]" 3000 "''w''" 4000 "sample_lease 2 ''w'' 4000"
      "sample_db (sample_row 2 3000000 ''w'' 4000000)" _ "[]" 3500 9000 "''e''"] sample_acquire_again
  by simp

definition lease_key :: "scheduler_job_lease \<Rightarrow> string \<times> string \<times> string \<times> u32" where
  "lease_key l = (le_tenant_id l, le_id l, le_lease_id l, le_attempt_count l)"

text \<open>A call that respects a lease: no claim of its job after its end, no return under it.\<close>

fun respects_lease :: "scheduler_job_lease \<Rightarrow> scheduler_op \<Rightarrow> bool" where
  "respects_lease l (OpAcquire locked tenant kind now lease_id lease_until) =
     (tenant = le_tenant_id l \<longrightarrow> now < le_lease_until_ms l)"
| "respects_lease l (OpComplete l' finished_at nxt) = (lease_key l' \<noteq> lease_key l)"
| "respects_lease l (OpFail l' finished_at code nxt) = (lease_key l' \<noteq> lease_key l)"
| "respects_lease l op = True"

lemma respects_lease_spares:
  assumes "exact_timestamps to_ts" and "uint until \<le> MAX_EXACT_MS"
    and row: "sj_tenant_id r = le_tenant_id l" "sj_id r = le_id l"
      "le_attempt_count l = word_of_int (sj_attempt_count r + 1)" "le_lease_id l = lid" "le_lease_until_ms l = until"
    and resp: "respects_lease l op"
  shows "\<not> may_touch to_ts op (claimed_row n lid (1000 * uint until) r)"
proof (cases op)
  case (OpAcquire locked tenant kind now lid' until')
  have "\<not> claimable n' (claimed_row n lid (1000 * uint until) r)"
    if "tenant = le_tenant_id l" and n': "to_ts (u64_as_i64 now) = Some n'" for n'
  proof -
    have "uint now < uint until" using that resp OpAcquire row(5) by (simp add: word_less_def)
    then have "n' = 1000 * uint now" and "n' < 1000 * uint until"
      using n' assms(1,2) by (auto simp: exact_timestamps_def u64_as_i64_small)
    then show ?thesis by (simp add: claimable_def claimed_row_def)
  qed
  with OpAcquire row(1) show ?thesis by (auto simp: may_touch_def is_job_def)
next
  case (OpComplete l' finished nxt)
  with resp row show ?thesis
    by (auto simp: may_touch_held_by held_by_def held_under_def lease_key_def claimed_row_def dest: u32_as_i32_SucD)
next
  case (OpFail l' finished code nxt)
  with resp row show ?thesis
    by (auto simp: may_touch_held_by held_by_def held_under_def lease_key_def claimed_row_def dest: u32_as_i32_SucD)
qed (simp_all add: may_touch_def claimed_row_def)

text \<open>The row of a job that was handed out, after any calls that respect the lease.\<close>

lemma lease_keeps_row:
  assumes "scheduler_constraints db" and "exact_timestamps to_ts" and "uint lease_until \<le> MAX_EXACT_MS"
    and acq: "try_acquire to_ts locked db tenant kind now lease_id lease_until = (Ok (Acquired l), db1)"
    and "\<forall>op \<in> set ops. respects_lease l op"
  obtains n r where "GET_SCHEDULER_JOB db1 tenant (scheduler_job_kind_to_db kind) = Some (claimed_row n lease_id (1000 * uint lease_until) r)"
    and "GET_SCHEDULER_JOB (scheduler_run to_ts ops db1) tenant (scheduler_job_kind_to_db kind) = Some (claimed_row n lease_id (1000 * uint lease_until) r)"
    and "scheduler_constraints (scheduler_run to_ts ops db1)" and "scheduler_row_check r"
    and "sj_attempt_count r < 2147483647" and "0 \<le> epoch_ms (sj_next_run_at r)" and "0 \<le> epoch_ms n"
    and "pred_option (\<lambda>t. 0 \<le> epoch_ms t) (sj_last_finished_at r)" and "sj_tenant_id r = tenant"
    and "l = \<lparr>le_id = sj_id r, le_tenant_id = tenant, le_job_kind = kind, le_status = JobRunning,
          le_attempt_count = word_of_int (sj_attempt_count r + 1), le_lease_id = lease_id,
          le_lease_until_ms = lease_until\<rparr>"
proof -
  let ?k = "scheduler_job_kind_to_db kind"
  from try_acquire_AcquiredE [OF acq assms(1)] obtain n u r where
    u: "to_ts (u64_as_i64 lease_until) = Some u" and
    r: "GET_SCHEDULER_JOB db tenant ?k = Some r" "GET_SCHEDULER_JOB db1 tenant ?k = Some (claimed_row n lease_id u r)"
      "sj_attempt_count r < 2147483647" "scheduler_row_check r" "0 \<le> epoch_ms (sj_next_run_at r)" "0 \<le> epoch_ms n"
      "\<forall>t. sj_last_finished_at r = Some t \<longrightarrow> 0 \<le> epoch_ms t"
    and l: "l = \<lparr>le_id = sj_id r, le_tenant_id = tenant, le_job_kind = kind, le_status = JobRunning,
          le_attempt_count = word_of_int (sj_attempt_count r + 1), le_lease_id = lease_id,
          le_lease_until_ms = word_of_int (epoch_ms u)\<rparr>"
    and ok: "scheduler_constraints db1" by metis
  have u': "u = 1000 * uint lease_until"
    using u assms(2,3) by (simp add: exact_timestamps_def u64_as_i64_small)
  then have until: "le_lease_until_ms l = lease_until" using l by simp
  have tenant: "sj_tenant_id r = tenant" using r(1) by (auto simp: GET_SCHEDULER_JOB_def find_Some_iff is_job_def)
  have "\<forall>op \<in> set ops. \<not> may_touch to_ts op (claimed_row n lease_id (1000 * uint lease_until) r)"
    by (intro ballI respects_lease_spares [OF assms(2,3), where l = l]) (use assms(5) l until tenant in simp_all)
  from scheduler_run_spares [OF ok r(2) [unfolded u'] this] that [of n r] r u' ok l until tenant
  show thesis by (simp add: option.pred_set)
qed





text \<open>
  A lease length that overflows: \<open>saturating_add\<close> yields \<open>u64::MAX\<close>, which is bound as the
  64-bit integer -1. The claim is stored with an end before the epoch, and reading it back fails;
  the caller gets an error, the job counts as running and one attempt is used up.
\<close>

theorem saturated_lease_breaks_acquire:
  assumes "scheduler_constraints db" and "to_ts (u64_as_i64 now) = Some n" and "to_ts (- 1) = Some (- 1000)"
    and "GET_SCHEDULER_JOB db tenant (scheduler_job_kind_to_db kind) = Some r" and "claimable n r"
    and "sj_attempt_count r < 2147483647" and "0 \<le> epoch_ms (sj_next_run_at r)"
    and "2 ^ 64 \<le> unat now + unat lease_ms"
  shows "\<exists>db'. try_acquire to_ts False db tenant kind now lease_id (saturating_add now lease_ms) =
      (Err (NegativeInteger ''lease_until_ms'' (- 1)), db') \<and>
    GET_SCHEDULER_JOB db' tenant (scheduler_job_kind_to_db kind) = Some (claimed_row n lease_id (- 1000) r)"
proof -
  let ?k = "scheduler_job_kind_to_db kind"
  have until: "saturating_add now lease_ms = - 1" and minus: "u64_as_i64 (- 1) = - 1"
    using assms(8) by (simp_all add: saturating_add_def u64_as_i64_def)
  let ?db' = "db\<lparr>sd_jobs := map_where (is_job tenant ?k) (claimed_row n lease_id (- 1000)) (sd_jobs db)\<rparr>"
  have job: "is_job tenant ?k r" and check: "scheduler_row_check r"
    using assms(1,4) constraint_check by (auto simp: GET_Some_iff)
  have "CLAIM_SCHEDULER_JOB to_ts False db tenant ?k (u64_as_i64 now) lease_id (- 1) =
      Inr (Some (claimed_row n lease_id (- 1000) r), ?db')"
    using CLAIM_eq [OF assms(1,2,3)] assms(4,5,6) by simp
  moreover have "GET_SCHEDULER_JOB ?db' tenant ?k = Some (claimed_row n lease_id (- 1000) r)"
    using GET_map_where [where f = "claimed_row n lease_id (- 1000)" and db = db and P = "is_job tenant ?k" and tenant = tenant and kind = ?k] assms(4) job by simp
  moreover have "stored_scheduler_job_from_row (claimed_row n lease_id (- 1000) r) =
      Err (NegativeInteger ''lease_until_ms'' (- 1))"
    using check assms(7)
    by (simp add: stored_scheduler_job_from_row_def claimed_row_def scheduler_job_kind_from_db_def
        scheduler_job_status_from_db_def scheduler_row_check_def epoch_ms_def)
  ultimately show ?thesis by (simp add: try_acquire_def until minus)
qed

theorem saturated_lease_breaks_acquire_witness:
  "\<exists>db'. try_acquire pg_to_timestamp False (sample_db (new_job_row ''job'' ''t'' ''token_refresh_sweep'' 0)) ''t''
     TokenRefreshSweep 1000 ''w'' (saturating_add 1000 (- 1)) = (Err (NegativeInteger ''lease_until_ms'' (- 1)), db')"
proof -
  let ?r = "new_job_row ''job'' ''t'' ''token_refresh_sweep'' 0"
  have "GET_SCHEDULER_JOB (sample_db ?r) ''t'' (scheduler_job_kind_to_db TokenRefreshSweep) = Some ?r"
    and "claimable 1000000 ?r" and "0 \<le> epoch_ms (sj_next_run_at ?r)" and "sj_attempt_count ?r < 2147483647"
    by (simp_all add: GET_SCHEDULER_JOB_def sample_defs is_job_def claimable_def epoch_ms_def)
  moreover have "pg_to_timestamp (u64_as_i64 1000) = Some 1000000" "pg_to_timestamp (- 1) = Some (- 1000)"
    by (simp_all add: pg_to_timestamp_def u64_as_i64_def)
  ultimately show ?thesis
    using saturated_lease_breaks_acquire [OF sample_constraints, of pg_to_timestamp 1000 1000000 "''t''"
      TokenRefreshSweep ?r "- 1" "''w''"] by (auto simp: unsigned_minus_1_eq_mask mask_eq_exp_minus_1)
qed

end
