(* ===== verification/Token_Refresh_Sweep.thy ===== *)
theory Token_Refresh_Sweep
  imports Grant_Store Audit_Store Scheduler_Store Token_Refresh_Audit
begin

text \<open>
  Refreshing the grants of a tenant (\<open>repository_sqlx/token_refresh.rs\<close>, the plan check of
  \<open>repository_sqlx/token_refresh/command_executor.rs\<close>, and \<open>token_refresh_scheduler.rs\<close>): the
  recorder that applies a command and appends its audit event in one transaction, the
  orchestrator that asks the adapter first, the sweep over the refresh candidates and the
  scheduled sweep that runs it under a lease.

  The adapter and the clock are arguments with states of their own. Asking the adapter takes
  time, in which other processes act on the database: the adapter's function also yields the
  database as it is when the call is over.
\<close>

section \<open>Data\<close>

record refresh_db =
  rd_grants :: grant_db
  rd_audit :: audit_db
  rd_jobs :: scheduler_db

record token_refresh_recorder_report =
  rr_apply_result :: "token_refresh_apply_result option"
  rr_event :: audit_event

record token_refresh_orchestrator_report =
  oo_service_report :: token_refresh_service_report
  oo_event :: audit_event

record token_refresh_sweep_request =
  wq_tenant_id :: string
  wq_due_before :: system_time
  wq_limit :: u32
  wq_now :: system_time
  wq_audit_trace_id :: string
  wq_audit_sequence_start :: u64
  wq_occurred_at_ms :: u64
  wq_actor :: audit_actor
  wq_workspace_id :: "string option"

record token_refresh_sweep_report =
  wr_candidate_count :: nat
  wr_attempted_count :: nat
  wr_has_more :: bool
  wr_reports :: "token_refresh_orchestrator_report list"

record token_refresh_scheduled_sweep_config =
  cf_tenant_id :: string
  cf_lease_id :: string
  cf_lease_ms :: u64
  cf_retry_delay_ms :: u64
  cf_next_run_delay_ms :: u64
  cf_backlog_next_run_delay_ms :: u64
  cf_due_before_ms :: u64
  cf_limit :: u32
  cf_audit_trace_id :: string
  cf_audit_sequence_start :: u64
  cf_actor :: audit_actor
  cf_workspace_id :: "string option"

datatype scheduler_job_outcome =
  JobSucceeded | JobNoop | JobFailedSafe | JobLeaseLost | JobSkippedBusy | JobSkippedNotDue

record scheduler_job_attempt_report =
  jr_tenant_id :: string
  jr_job_kind :: scheduler_job_kind
  jr_lease_id :: "string option"
  jr_started_at_ms :: u64
  jr_finished_at_ms :: u64
  jr_outcome :: scheduler_job_outcome
  jr_safe_error_code :: "string option"

record token_refresh_scheduled_sweep_report =
  ws_acquire :: scheduler_lease_acquire
  ws_attempt :: scheduler_job_attempt_report
  ws_sweep :: "token_refresh_sweep_report option"

record ('a, 'c) sweep_ops =
  so_refresh :: "'a \<Rightarrow> token_refresh_grant_snapshot \<Rightarrow> refresh_db \<Rightarrow> refresh_outcome \<times> 'a \<times> refresh_db"
  so_clock_ms :: "'c \<Rightarrow> u64 \<times> 'c"

record ('a, 'c) sweep_state =
  sw_db :: refresh_db
  sw_adapter :: 'a
  sw_clock :: 'c

section \<open>The recorder\<close>

fun kind_debug :: "refresh_kind \<Rightarrow> string" where
  "kind_debug KindRotateGrantCas = ''RotateGrantCas''"
| "kind_debug KindMarkNeedsRefresh = ''MarkNeedsRefresh''"
| "kind_debug KindMarkReauthRequired = ''MarkReauthRequired''"
| "kind_debug KindMarkConfigRequired = ''MarkConfigRequired''"

definition validate_token_refresh_plan ::
  "token_refresh_planned_command \<Rightarrow> (unit, postgres_repository_error) result" where
  "validate_token_refresh_plan planned =
     (let expected_command_kind = command_kind (pc_command planned) in
      if cp_command_kind (pc_report planned) \<noteq> expected_command_kind
      then Err (TokenRefreshPlanMismatch ''command_kind'' (kind_debug expected_command_kind)
        (kind_debug (cp_command_kind (pc_report planned))))
      else if cp_tenant_id (pc_report planned) \<noteq> cmd_tenant_id (pc_command planned)
      then Err (TokenRefreshPlanMismatch ''tenant_id'' (tenant_str (cmd_tenant_id (pc_command planned)))
        (tenant_str (cp_tenant_id (pc_report planned))))
      else if cp_grant_id (pc_report planned) \<noteq> cmd_grant_id (pc_command planned)
      then Err (TokenRefreshPlanMismatch ''grant_id'' (grant_str (cmd_grant_id (pc_command planned)))
        (grant_str (cp_grant_id (pc_report planned))))
      else Ok ())"

definition on_grants ::
  "refresh_db \<Rightarrow> ('a, 'e) result \<times> grant_db \<Rightarrow> ('a, 'e) result \<times> refresh_db" where
  "on_grants db r = (fst r, db\<lparr>rd_grants := snd r\<rparr>)"

definition on_audit ::
  "refresh_db \<Rightarrow> ('a, 'e) result \<times> audit_db \<Rightarrow> ('a, 'e) result \<times> refresh_db" where
  "on_audit db r = (fst r, db\<lparr>rd_audit := snd r\<rparr>)"

definition on_jobs ::
  "refresh_db \<Rightarrow> ('a, 'e) result \<times> scheduler_db \<Rightarrow> ('a, 'e) result \<times> refresh_db" where
  "on_jobs db r = (fst r, db\<lparr>rd_jobs := snd r\<rparr>)"

definition apply_command_with_summary ::
  "(int \<Rightarrow> timestamptz option) \<Rightarrow> audit_json \<Rightarrow> refresh_db \<Rightarrow> token_refresh_command
     \<Rightarrow> token_refresh_audit_summary \<Rightarrow> token_refresh_audit_context
     \<Rightarrow> (token_refresh_recorder_report, postgres_repository_error) result \<times> refresh_db" where
  "apply_command_with_summary to_ts J db command summary audit_context =
     in_tx db (try_st (on_grants db (apply_refresh_command_in_tx to_ts (rd_grants db) command))
       (\<lambda>apply_result db'.
         let summary = summary\<lparr>su_status :=
               if apply_result \<noteq> None then ReportSucceeded else ReportConflictNoop\<rparr>;
             event = token_refresh_audit_event audit_context summary
         in try_st (on_audit db' (pg_audit_append J (rd_audit db') event None)) (\<lambda>_ db''.
              (Ok \<lparr>rr_apply_result = apply_result, rr_event = event\<rparr>, db''))))"

definition apply_planned_command_with_audit ::
  "(int \<Rightarrow> timestamptz option) \<Rightarrow> audit_json \<Rightarrow> refresh_db \<Rightarrow> token_refresh_planned_command
     \<Rightarrow> token_refresh_audit_context
     \<Rightarrow> (token_refresh_recorder_report, postgres_repository_error) result \<times> refresh_db" where
  "apply_planned_command_with_audit to_ts J db planned audit_context =
     try_st (validate_token_refresh_plan planned, db) (\<lambda>_ db.
       apply_command_with_summary to_ts J db (pc_command planned)
         (command_report_audit_summary (pc_report planned) ReportConflictNoop) audit_context)"

section \<open>The orchestrator\<close>

text \<open>A database call of a component whose state holds the database.\<close>

definition on_sweep_db ::
  "('a, 'c) sweep_state \<Rightarrow> (refresh_db \<Rightarrow> ('r, 'e) result \<times> refresh_db)
     \<Rightarrow> ('r, 'e) result \<times> ('a, 'c) sweep_state" where
  "on_sweep_db s call = (let (r, db) = call (sw_db s) in (r, s\<lparr>sw_db := db\<rparr>))"

definition refresh_grant_with_audit ::
  "(int \<Rightarrow> timestamptz option) \<Rightarrow> audit_json \<Rightarrow> ('a, 'c) sweep_ops \<Rightarrow> ('a, 'c) sweep_state
     \<Rightarrow> token_refresh_grant_snapshot \<Rightarrow> system_time \<Rightarrow> token_refresh_audit_context
     \<Rightarrow> (token_refresh_orchestrator_report, postgres_repository_error) result
        \<times> ('a, 'c) sweep_state" where
  "refresh_grant_with_audit to_ts J W s snapshot now audit_context =
     (case token_refresh_short_circuit_report snapshot of
        Some service_report \<Rightarrow>
         (let event = token_refresh_audit_event audit_context
                (service_report_audit_summary service_report)
          in try_st (on_sweep_db s (\<lambda>db. on_audit db (pg_audit_append J (rd_audit db) event None)))
               (\<lambda>_ s. (Ok \<lparr>oo_service_report = service_report, oo_event = event\<rparr>, s)))
      | None \<Rightarrow>
         (let (outcome, ad, db) = so_refresh W (sw_adapter s) snapshot (sw_db s);
              s = s\<lparr>sw_adapter := ad, sw_db := db\<rparr>
          in try_st (map_err TokenRefreshDecisionBridge
                 (plan_token_refresh_command snapshot outcome now), s) (\<lambda>planned s.
             try_st (on_sweep_db s (\<lambda>db.
                 apply_planned_command_with_audit to_ts J db planned audit_context))
               (\<lambda>recorder_report s.
                 (Ok \<lparr>oo_service_report = into_service_report (pc_report planned)
                        (rr_apply_result recorder_report \<noteq> None),
                      oo_event = rr_event recorder_report\<rparr>, s)))))"

section \<open>The sweep\<close>

text \<open>
  \<open>audit_sequence_start + index as u64\<close> is the addition of 64-bit words: a build with overflow
  checks panics where it wraps.
\<close>

definition sweep_audit_context ::
  "token_refresh_sweep_request \<Rightarrow> nat \<Rightarrow> token_refresh_audit_context" where
  "sweep_audit_context q index = \<lparr>tc_trace_id = wq_audit_trace_id q,
     tc_sequence = wq_audit_sequence_start q + of_nat index,
     tc_occurred_at_ms = wq_occurred_at_ms q, tc_actor = wq_actor q,
     tc_workspace_id = wq_workspace_id q\<rparr>"

fun sweep_candidates ::
  "(int \<Rightarrow> timestamptz option) \<Rightarrow> audit_json \<Rightarrow> ('a, 'c) sweep_ops \<Rightarrow> token_refresh_sweep_request
     \<Rightarrow> nat \<Rightarrow> token_refresh_grant_snapshot list \<Rightarrow> token_refresh_orchestrator_report list
     \<Rightarrow> ('a, 'c) sweep_state
     \<Rightarrow> (token_refresh_orchestrator_report list, postgres_repository_error) result
        \<times> ('a, 'c) sweep_state" where
  "sweep_candidates to_ts J W q index [] reports s = (Ok reports, s)"
| "sweep_candidates to_ts J W q index (snapshot # snapshots) reports s =
     try_st (refresh_grant_with_audit to_ts J W s snapshot (wq_now q) (sweep_audit_context q index))
       (\<lambda>report s. sweep_candidates to_ts J W q (index + 1) snapshots (reports @ [report]) s)"

definition u32_saturating_add :: "u32 \<Rightarrow> u32 \<Rightarrow> u32" where
  "u32_saturating_add a b = (if unat a + unat b < 2 ^ 32 then a + b else - 1)"

definition run_once_for_tenant ::
  "(int \<Rightarrow> timestamptz option) \<Rightarrow> audit_json \<Rightarrow> (string \<Rightarrow> 'k::linorder) \<Rightarrow> ('a, 'c) sweep_ops
     \<Rightarrow> ('a, 'c) sweep_state \<Rightarrow> token_refresh_sweep_request
     \<Rightarrow> (token_refresh_sweep_report, postgres_repository_error) result \<times> ('a, 'c) sweep_state" where
  "run_once_for_tenant to_ts J collate W s q =
     (if wq_limit q = 0
      then (Ok \<lparr>wr_candidate_count = 0, wr_attempted_count = 0, wr_has_more = False,
              wr_reports = []\<rparr>, s)
      else
        let query_limit = u32_saturating_add (wq_limit q) 1
        in try_st (list_refresh_candidate_snapshots to_ts collate (rd_grants (sw_db s))
             (wq_tenant_id q) (wq_due_before q) query_limit, s) (\<lambda>candidates s.
           let has_more = unat (wq_limit q) < length candidates;
               candidates = (if has_more then take (unat (wq_limit q)) candidates else candidates)
           in try_st (sweep_candidates to_ts J W q 0 candidates [] s) (\<lambda>reports s.
                (Ok \<lparr>wr_candidate_count = length candidates, wr_attempted_count = length reports,
                     wr_has_more = has_more, wr_reports = reports\<rparr>, s))))"

section \<open>The scheduled sweep\<close>

definition MIN_AUDIT_SEQUENCE_WINDOW :: u64 where
  "MIN_AUDIT_SEQUENCE_WINDOW = 1000000"

definition TOKEN_REFRESH_SWEEP_SCHEDULER_JOB_ID :: string where
  "TOKEN_REFRESH_SWEEP_SCHEDULER_JOB_ID = ''token_refresh_sweep''"

definition scheduled_sweep_audit_sequence_start :: "u64 \<Rightarrow> u32 \<Rightarrow> u32 \<Rightarrow> u64" where
  "scheduled_sweep_audit_sequence_start base attempt_count limit =
     (let attempt_index = (ucast (if 1 \<le> attempt_count then attempt_count - 1 else 0) :: u64);
          sequence_window = max (ucast limit) MIN_AUDIT_SEQUENCE_WINDOW
      in saturating_add base (saturating_mul attempt_index sequence_window))"

definition sweep_now_ms ::
  "('a, 'c) sweep_ops \<Rightarrow> ('a, 'c) sweep_state \<Rightarrow> u64 \<times> ('a, 'c) sweep_state" where
  "sweep_now_ms W s = (let (ms, c) = so_clock_ms W (sw_clock s) in (ms, s\<lparr>sw_clock := c\<rparr>))"

definition attempt_report ::
  "token_refresh_scheduled_sweep_config \<Rightarrow> string option \<Rightarrow> u64 \<Rightarrow> u64 \<Rightarrow> scheduler_job_outcome
     \<Rightarrow> string option \<Rightarrow> scheduler_job_attempt_report" where
  "attempt_report cfg lease_id started_at_ms finished_at_ms outcome safe_error_code =
     \<lparr>jr_tenant_id = cf_tenant_id cfg, jr_job_kind = TokenRefreshSweep, jr_lease_id = lease_id,
      jr_started_at_ms = started_at_ms, jr_finished_at_ms = finished_at_ms, jr_outcome = outcome,
      jr_safe_error_code = safe_error_code\<rparr>"

definition scheduled_sweep_request ::
  "token_refresh_scheduled_sweep_config \<Rightarrow> u64 \<Rightarrow> scheduler_job_lease \<Rightarrow> token_refresh_sweep_request" where
  "scheduled_sweep_request cfg started_at_ms lease =
     \<lparr>wq_tenant_id = cf_tenant_id cfg, wq_due_before = ms_to_system_time (cf_due_before_ms cfg),
      wq_limit = cf_limit cfg, wq_now = ms_to_system_time started_at_ms,
      wq_audit_trace_id = cf_audit_trace_id cfg,
      wq_audit_sequence_start = scheduled_sweep_audit_sequence_start (cf_audit_sequence_start cfg)
        (le_attempt_count lease) (cf_limit cfg),
      wq_occurred_at_ms = started_at_ms, wq_actor = cf_actor cfg,
      wq_workspace_id = cf_workspace_id cfg\<rparr>"

text \<open>The two ends of an attempt: the sweep returned a report, or an error.\<close>

definition finish_sweep ::
  "(int \<Rightarrow> timestamptz option) \<Rightarrow> ('a, 'c) sweep_ops \<Rightarrow> token_refresh_scheduled_sweep_config
     \<Rightarrow> scheduler_lease_acquire \<Rightarrow> scheduler_job_lease \<Rightarrow> u64 \<Rightarrow> token_refresh_sweep_report
     \<Rightarrow> ('a, 'c) sweep_state
     \<Rightarrow> (token_refresh_scheduled_sweep_report, postgres_repository_error) result
        \<times> ('a, 'c) sweep_state" where
  "finish_sweep to_ts W cfg acquire lease started_at_ms sweep_report s =
     (let (finished_at_ms, s) = sweep_now_ms W s;
          delay_ms = (if wr_has_more sweep_report then cf_backlog_next_run_delay_ms cfg
            else cf_next_run_delay_ms cfg);
          next_run_at_ms = saturating_add finished_at_ms delay_ms
      in try_st (on_sweep_db s (\<lambda>db. on_jobs db
             (complete_for_lease to_ts (rd_jobs db) lease finished_at_ms next_run_at_ms)))
           (\<lambda>finalized s.
             let outcome = (if finalized
                   then if wr_attempted_count sweep_report = 0 then JobNoop else JobSucceeded
                   else JobLeaseLost)
             in (Ok \<lparr>ws_acquire = acquire,
                     ws_attempt = attempt_report cfg (Some (le_lease_id lease)) started_at_ms
                       finished_at_ms outcome None,
                     ws_sweep = Some sweep_report\<rparr>, s)))"

definition fail_sweep ::
  "(int \<Rightarrow> timestamptz option) \<Rightarrow> ('a, 'c) sweep_ops \<Rightarrow> token_refresh_scheduled_sweep_config
     \<Rightarrow> scheduler_lease_acquire \<Rightarrow> scheduler_job_lease \<Rightarrow> u64 \<Rightarrow> ('a, 'c) sweep_state
     \<Rightarrow> (token_refresh_scheduled_sweep_report, postgres_repository_error) result
        \<times> ('a, 'c) sweep_state" where
  "fail_sweep to_ts W cfg acquire lease started_at_ms s =
     (let (finished_at_ms, s) = sweep_now_ms W s;
          next_run_at_ms = saturating_add finished_at_ms (cf_retry_delay_ms cfg)
      in try_st (on_sweep_db s (\<lambda>db. on_jobs db
             (fail_for_lease to_ts (rd_jobs db) lease finished_at_ms
               ''token_refresh_sweep_failed'' next_run_at_ms)))
           (\<lambda>finalized s.
             (Ok \<lparr>ws_acquire = acquire,
                  ws_attempt = attempt_report cfg (Some (le_lease_id lease)) started_at_ms
                    finished_at_ms (if finalized then JobFailedSafe else JobLeaseLost)
                    (Some ''token_refresh_sweep_failed''),
                  ws_sweep = None\<rparr>, s)))"

definition skip_sweep ::
  "('a, 'c) sweep_ops \<Rightarrow> token_refresh_scheduled_sweep_config \<Rightarrow> scheduler_lease_acquire \<Rightarrow> u64
     \<Rightarrow> scheduler_job_outcome \<Rightarrow> ('a, 'c) sweep_state
     \<Rightarrow> (token_refresh_scheduled_sweep_report, postgres_repository_error) result
        \<times> ('a, 'c) sweep_state" where
  "skip_sweep W cfg acquire started_at_ms outcome s =
     (let (finished_at_ms, s) = sweep_now_ms W s
      in (Ok \<lparr>ws_acquire = acquire,
              ws_attempt = attempt_report cfg None started_at_ms finished_at_ms outcome None,
              ws_sweep = None\<rparr>, s))"

definition scheduled_run_once ::
  "(int \<Rightarrow> timestamptz option) \<Rightarrow> audit_json \<Rightarrow> (string \<Rightarrow> 'k::linorder) \<Rightarrow> bool \<Rightarrow> ('a, 'c) sweep_ops
     \<Rightarrow> token_refresh_scheduled_sweep_config \<Rightarrow> ('a, 'c) sweep_state
     \<Rightarrow> (token_refresh_scheduled_sweep_report, postgres_repository_error) result
        \<times> ('a, 'c) sweep_state" where
  "scheduled_run_once to_ts J collate locked W cfg s =
     (let (started_at_ms, s) = sweep_now_ms W s in
      try_st (on_sweep_db s (\<lambda>db. on_jobs db (insert_job_if_missing to_ts (rd_jobs db)
          TOKEN_REFRESH_SWEEP_SCHEDULER_JOB_ID (cf_tenant_id cfg) TokenRefreshSweep started_at_ms)))
        (\<lambda>_ s.
      let lease_until_ms = saturating_add started_at_ms (cf_lease_ms cfg) in
      try_st (on_sweep_db s (\<lambda>db. on_jobs db (try_acquire to_ts locked (rd_jobs db)
          (cf_tenant_id cfg) TokenRefreshSweep started_at_ms (cf_lease_id cfg) lease_until_ms)))
        (\<lambda>acquire s. case acquire of
           Busy _ \<Rightarrow> skip_sweep W cfg acquire started_at_ms JobSkippedBusy s
         | NotDue _ \<Rightarrow> skip_sweep W cfg acquire started_at_ms JobSkippedNotDue s
         | Acquired lease \<Rightarrow>
            (case run_once_for_tenant to_ts J collate W s
                (scheduled_sweep_request cfg started_at_ms lease) of
               (Inr sweep_report, s) \<Rightarrow> finish_sweep to_ts W cfg acquire lease started_at_ms sweep_report s
             | (Inl _, s) \<Rightarrow> fail_sweep to_ts W cfg acquire lease started_at_ms s))))"

section \<open>Lemmas\<close>

lemma token_refresh_audit_event_sequence: "ae_sequence (token_refresh_audit_event c s) = tc_sequence c"
  by (simp add: token_refresh_audit_event_def event_defs Let_def split: refresh_report_status.split)

lemma plan_is_valid:
  "plan_token_refresh_command s outcome now = Ok planned \<Longrightarrow> validate_token_refresh_plan planned = Ok ()"
  using plan_command_bound [of s outcome now planned] by (simp add: validate_token_refresh_plan_def)

text \<open>A command applied in the transaction returns nothing exactly when the table stays as it is.\<close>

lemma apply_in_tx_None:
  assumes "apply_refresh_command_in_tx to_ts db c = (Inr None, db')"
  shows "db' = db"
proof -
  from assms have stm: "apply_refresh_command_with_executor to_ts db c = (Inr None, db')"
    by (auto simp: apply_refresh_command_in_tx_def elim!: try_st_OkE)
  then obtain f where f: "command_change to_ts c = Inr f"
    by (cases "command_change to_ts c")
      (auto simp: apply_refresh_command_with_executor_def returned_grant_def refresh_command_statement_eq)
  with stm have "find (command_guard c) (gd_grants db) = None" and "db' = snd (update_grant (command_guard c) f db)"
    by (auto simp: apply_refresh_command_with_executor_def returned_grant_def refresh_command_statement_eq
        update_grant_def transpose_map_def try_then_Ok_iff split: option.splits)
  then show ?thesis by (auto simp: update_grant_def find_None_iff map_where_none)
qed

lemma apply_in_tx_Some:
  assumes "apply_refresh_command_in_tx to_ts db c = (Inr (Some a), db')"
  shows "\<exists>r \<in> set (gd_grants db). command_guard c r"
proof -
  from assms obtain rec where stm: "apply_refresh_command_with_executor to_ts db c = (Inr (Some rec), db')"
    by (auto simp: apply_refresh_command_in_tx_def elim!: try_st_OkE)
  then obtain f where "command_change to_ts c = Inr f"
    by (cases "command_change to_ts c")
      (auto simp: apply_refresh_command_with_executor_def returned_grant_def refresh_command_statement_eq)
  with stm have "find (command_guard c) (gd_grants db) \<noteq> None"
    by (auto simp: apply_refresh_command_with_executor_def returned_grant_def refresh_command_statement_eq
        update_grant_def transpose_map_def split: option.splits)
  then show ?thesis by (auto simp: find_None_iff)
qed

lemma recorder_OkE:
  assumes "apply_planned_command_with_audit to_ts J db planned ctx = (Inr rep, db')"
  obtains gdb row where "apply_refresh_command_in_tx to_ts (rd_grants db) (pc_command planned) = (Inr (rr_apply_result rep), gdb)"
    and "append_audit_event_query J (rr_event rep) None = Inr row"
    and "db' = db\<lparr>rd_grants := gdb, rd_audit := (rd_audit db)\<lparr>ad_events := ad_events (rd_audit db) @ [row]\<rparr>\<rparr>"
    and "rr_event rep = token_refresh_audit_event ctx ((command_report_audit_summary (pc_report planned) ReportConflictNoop)
      \<lparr>su_status := if rr_apply_result rep \<noteq> None then ReportSucceeded else ReportConflictNoop\<rparr>)"
proof -
  from assms have run: "apply_command_with_summary to_ts J db (pc_command planned)
      (command_report_audit_summary (pc_report planned) ReportConflictNoop) ctx = (Inr rep, db')"
    by (auto simp: apply_planned_command_with_audit_def elim!: try_st_OkE)
  obtain res gdb where ap: "apply_refresh_command_in_tx to_ts (rd_grants db) (pc_command planned) = (res, gdb)" by fastforce
  with run obtain a where res: "res = Inr a"
    by (cases res) (auto simp: apply_command_with_summary_def on_grants_def)
  define ev where "ev = token_refresh_audit_event ctx ((command_report_audit_summary (pc_report planned) ReportConflictNoop)
      \<lparr>su_status := if a \<noteq> None then ReportSucceeded else ReportConflictNoop\<rparr>)"
  obtain q adb where app: "pg_audit_append J (rd_audit db) ev None = (q, adb)" by fastforce
  with run ap res obtain u where q: "q = Inr u"
    by (cases q) (auto simp: apply_command_with_summary_def on_grants_def on_audit_def ev_def)
  with run ap res app have rep: "rep = \<lparr>rr_apply_result = a, rr_event = ev\<rparr>" and db': "db' = db\<lparr>rd_grants := gdb, rd_audit := adb\<rparr>"
    by (auto simp: apply_command_with_summary_def on_grants_def on_audit_def ev_def)
  from app q obtain row where "append_audit_event_query J ev None = Inr row"
    and "adb = (rd_audit db)\<lparr>ad_events := ad_events (rd_audit db) @ [row]\<rparr>"
    by (auto elim!: pg_audit_append_OkE)
  with that [of gdb row] ap res rep db' ev_def show thesis by simp
qed

lemma recorder_Err:
  assumes "apply_planned_command_with_audit to_ts J db planned ctx = (Inl e, db')"
  shows "db' = db"
  using assms
  by (auto simp: apply_planned_command_with_audit_def apply_command_with_summary_def in_tx_def try_st_def
      split: sum.splits prod.splits)

section \<open>Every change of a grant is audited\<close>

text \<open>The database in which the orchestrator records: what the adapter call left, if there was one.\<close>

definition adapter_db :: "('a, 'c) sweep_ops \<Rightarrow> ('a, 'c) sweep_state \<Rightarrow> token_refresh_grant_snapshot \<Rightarrow> refresh_db" where
  "adapter_db W s snapshot =
     (if short_circuit_reason snapshot = None then snd (snd (so_refresh W (sw_adapter s) snapshot (sw_db s)))
      else sw_db s)"

text \<open>What one recorded refresh leaves behind.\<close>

definition refresh_recorded ::
  "audit_json \<Rightarrow> token_refresh_grant_snapshot \<Rightarrow> refresh_db \<Rightarrow> token_refresh_orchestrator_report \<Rightarrow> refresh_db \<Rightarrow> bool" where
  "refresh_recorded J snapshot db rep db' \<longleftrightarrow>
     (\<exists>row. append_audit_event_query J (oo_event rep) None = Ok row \<and>
       rd_audit db' = (rd_audit db)\<lparr>ad_events := ad_events (rd_audit db) @ [row]\<rparr>) \<and>
     rd_jobs db' = rd_jobs db \<and>
     (rd_grants db' \<noteq> rd_grants db \<longrightarrow> sr_status (oo_service_report rep) = ReportSucceeded) \<and>
     (sr_status (oo_service_report rep) = ReportSucceeded \<longrightarrow>
       (\<exists>r \<in> set (gd_grants (rd_grants db)). refresh_guard (tenant_str (sn_tenant_id snapshot))
          (grant_str (sn_grant_id snapshot)) (sn_expected_fingerprint snapshot) r))"

lemma refresh_with_audit_OkE:
  assumes "refresh_grant_with_audit to_ts J W s snapshot now ctx = (Inr rep, s')"
  shows "refresh_recorded J snapshot (adapter_db W s snapshot) rep (sw_db s') \<and>
    oo_event rep = token_refresh_audit_event ctx (service_report_audit_summary (oo_service_report rep)) \<and>
    sr_grant_id (oo_service_report rep) = sn_grant_id snapshot \<and>
    sr_tenant_id (oo_service_report rep) = sn_tenant_id snapshot"
proof (cases "short_circuit_reason snapshot")
  case (Some reason)
  define sr where "sr = \<lparr>sr_grant_id = sn_grant_id snapshot, sr_tenant_id = sn_tenant_id snapshot,
    sr_status = ShortCircuited reason, sr_adapter_called = False, sr_sink_called = False, sr_decision = None,
    sr_command = None, sr_safe_error = None\<rparr>"
  define ev where "ev = token_refresh_audit_event ctx (service_report_audit_summary sr)"
  obtain q adb where app: "pg_audit_append J (rd_audit (sw_db s)) ev None = (q, adb)" by fastforce
  have run: "refresh_grant_with_audit to_ts J W s snapshot now ctx =
      try_st (q, s\<lparr>sw_db := (sw_db s)\<lparr>rd_audit := adb\<rparr>\<rparr>) (\<lambda>_ s. (Ok \<lparr>oo_service_report = sr, oo_event = ev\<rparr>, s))"
    using Some app by (simp add: refresh_grant_with_audit_def token_refresh_short_circuit_report_def Let_def
        on_sweep_db_def on_audit_def sr_def [symmetric] ev_def [symmetric])
  with assms obtain u where q: "q = Inr u" and rep: "rep = \<lparr>oo_service_report = sr, oo_event = ev\<rparr>"
      and s': "s' = s\<lparr>sw_db := (sw_db s)\<lparr>rd_audit := adb\<rparr>\<rparr>"
    by (cases q) auto
  from app q obtain row where "append_audit_event_query J ev None = Inr row"
      and "adb = (rd_audit (sw_db s))\<lparr>ad_events := ad_events (rd_audit (sw_db s)) @ [row]\<rparr>"
    by (auto elim!: pg_audit_append_OkE)
  with rep s' Some show ?thesis by (simp add: refresh_recorded_def adapter_db_def sr_def ev_def)
next
  case None
  obtain outcome ad db where ask: "so_refresh W (sw_adapter s) snapshot (sw_db s) = (outcome, ad, db)"
    using prod_cases3 by blast
  from assms None ask obtain planned where plan: "plan_token_refresh_command snapshot outcome now = Inr planned"
    by (cases "plan_token_refresh_command snapshot outcome now")
      (auto simp: refresh_grant_with_audit_def token_refresh_short_circuit_report_def)
  obtain q db' where rec: "apply_planned_command_with_audit to_ts J db planned ctx = (q, db')" by fastforce
  with assms None ask plan obtain rr where q: "q = Inr rr"
      and rep: "rep = \<lparr>oo_service_report = into_service_report (pc_report planned) (rr_apply_result rr \<noteq> None), oo_event = rr_event rr\<rparr>"
      and s': "sw_db s' = db'"
    by (cases q) (auto simp: refresh_grant_with_audit_def token_refresh_short_circuit_report_def on_sweep_db_def)
  from rec q have "apply_planned_command_with_audit to_ts J db planned ctx = (Inr rr, db')" by simp
  then obtain gdb row where app: "apply_refresh_command_in_tx to_ts (rd_grants db) (pc_command planned) = (Inr (rr_apply_result rr), gdb)"
    and row: "append_audit_event_query J (rr_event rr) None = Inr row"
    and db': "db' = db\<lparr>rd_grants := gdb, rd_audit := (rd_audit db)\<lparr>ad_events := ad_events (rd_audit db) @ [row]\<rparr>\<rparr>"
    and ev: "rr_event rr = token_refresh_audit_event ctx ((command_report_audit_summary (pc_report planned) ReportConflictNoop)
      \<lparr>su_status := if rr_apply_result rr \<noteq> None then ReportSucceeded else ReportConflictNoop\<rparr>)"
    by (rule recorder_OkE)
  note bound = plan_command_bound [OF plan]
  have hit: "\<exists>r \<in> set (gd_grants (rd_grants db)). refresh_guard (tenant_str (sn_tenant_id snapshot))
      (grant_str (sn_grant_id snapshot)) (sn_expected_fingerprint snapshot) r" if "rr_apply_result rr \<noteq> None"
    using apply_in_tx_Some app that bound by fastforce
  have miss: "gdb = rd_grants db" if "rr_apply_result rr = None" using apply_in_tx_None app that by metis
  have "refresh_recorded J snapshot db rep db'"
    using row db' hit miss by (auto simp: refresh_recorded_def rep into_service_report_def)
  moreover have "oo_event rep = token_refresh_audit_event ctx (service_report_audit_summary (oo_service_report rep))"
    by (simp add: rep ev service_report_audit_summary_def command_report_audit_summary_def into_service_report_def)
  ultimately show ?thesis using None ask s' bound by (simp add: adapter_db_def rep into_service_report_def)
qed

lemma refresh_with_audit_Err:
  assumes "refresh_grant_with_audit to_ts J W s snapshot now ctx = (Inl e, s')"
  shows "sw_db s' = adapter_db W s snapshot"
proof (cases "short_circuit_reason snapshot")
  case (Some reason)
  with assms show ?thesis
    by (auto simp: refresh_grant_with_audit_def token_refresh_short_circuit_report_def on_sweep_db_def on_audit_def
        adapter_db_def try_st_def Let_def split: prod.splits sum.splits dest!: pg_audit_append_Err)
next
  case None
  obtain outcome ad db where ask: "so_refresh W (sw_adapter s) snapshot (sw_db s) = (outcome, ad, db)"
    using prod_cases3 by blast
  with assms None show ?thesis
    by (cases "plan_token_refresh_command snapshot outcome now")
      (auto simp: refresh_grant_with_audit_def token_refresh_short_circuit_report_def on_sweep_db_def adapter_db_def
        try_st_def split: prod.splits sum.splits dest!: recorder_Err)
qed

text \<open>
  C24. No change of a grant without its audit event. A refresh that ends with an error leaves the
  database as the adapter call left it. A refresh that ends with a report has appended exactly
  one event, the event of that report; it has changed the grants only if the report says that it
  succeeded, and then the grant still had the fingerprint and the state that the snapshot was
  taken with.
\<close>

theorem refresh_change_always_audited:
  assumes "refresh_grant_with_audit to_ts J W s snapshot now ctx = (r, s')"
  shows "case r of
      Inl e \<Rightarrow> sw_db s' = adapter_db W s snapshot
    | Inr rep \<Rightarrow> refresh_recorded J snapshot (adapter_db W s snapshot) rep (sw_db s') \<and>
        oo_event rep = token_refresh_audit_event ctx (service_report_audit_summary (oo_service_report rep)) \<and>
        sr_grant_id (oo_service_report rep) = sn_grant_id snapshot \<and>
        sr_tenant_id (oo_service_report rep) = sn_tenant_id snapshot"
  using refresh_with_audit_OkE [of to_ts J W s snapshot now ctx _ s'] refresh_with_audit_Err [of to_ts J W s snapshot now ctx _ s'] assms
  by (cases r) auto


section \<open>The sweep accounts for every candidate\<close>

text \<open>
  Other processes append to the audit log and never remove or change an event: no statement of
  the repositories does.
\<close>

definition keeps_events :: "('a, 'c) sweep_ops \<Rightarrow> bool" where
  "keeps_events W \<longleftrightarrow> (\<forall>a snapshot db. set (ad_events (rd_audit db)) \<subseteq>
     set (ad_events (rd_audit (snd (snd (so_refresh W a snapshot db))))))"

definition event_stored :: "audit_json \<Rightarrow> audit_event \<Rightarrow> refresh_db \<Rightarrow> bool" where
  "event_stored J event db \<longleftrightarrow>
     (\<exists>row \<in> set (ad_events (rd_audit db)). append_audit_event_query J event None = Ok row)"

text \<open>A report belongs to a snapshot at a position of the sweep.\<close>

definition report_for :: "token_refresh_sweep_request \<Rightarrow> nat \<Rightarrow> token_refresh_grant_snapshot \<Rightarrow> token_refresh_orchestrator_report \<Rightarrow> bool" where
  "report_for q index snapshot rep \<longleftrightarrow>
     sr_grant_id (oo_service_report rep) = sn_grant_id snapshot \<and>
     oo_event rep = token_refresh_audit_event (sweep_audit_context q index)
       (service_report_audit_summary (oo_service_report rep))"

lemma refresh_keeps_stored:
  assumes "keeps_events W" and "refresh_grant_with_audit to_ts J W s snapshot now ctx = (Inr rep, s')"
  shows "event_stored J ev (sw_db s) \<Longrightarrow> event_stored J ev (sw_db s')" and "event_stored J (oo_event rep) (sw_db s')"
proof -
  from refresh_with_audit_OkE [OF assms(2)] obtain row where "append_audit_event_query J (oo_event rep) None = Ok row"
      and "ad_events (rd_audit (sw_db s')) = ad_events (rd_audit (adapter_db W s snapshot)) @ [row]"
    by (auto simp: refresh_recorded_def)
  moreover have "set (ad_events (rd_audit (sw_db s))) \<subseteq> set (ad_events (rd_audit (adapter_db W s snapshot)))"
    using assms(1) by (simp add: keeps_events_def adapter_db_def)
  ultimately show "event_stored J ev (sw_db s) \<Longrightarrow> event_stored J ev (sw_db s')"
    and "event_stored J (oo_event rep) (sw_db s')" by (auto simp: event_stored_def)
qed

lemma sweep_candidates_Ok:
  assumes "keeps_events W" and "sweep_candidates to_ts J W q k snaps reports s = (Inr reports', s')"
    and "\<forall>rep \<in> set reports. event_stored J (oo_event rep) (sw_db s)"
  shows "\<exists>new. reports' = reports @ new \<and> length new = length snaps \<and>
    (\<forall>i < length snaps. report_for q (k + i) (snaps ! i) (new ! i)) \<and>
    (\<forall>rep \<in> set reports'. event_stored J (oo_event rep) (sw_db s'))"
  using assms(2,3)
proof (induction snaps arbitrary: k reports s)
  case (Cons snap snaps)
  from Cons.prems(1) obtain rep s1 where
    run: "refresh_grant_with_audit to_ts J W s snap (wq_now q) (sweep_audit_context q k) = (Inr rep, s1)"
    and rest: "sweep_candidates to_ts J W q (Suc k) snaps (reports @ [rep]) s1 = (Inr reports', s')"
    by (auto elim!: try_st_OkE)
  have stored: "\<forall>x \<in> set (reports @ [rep]). event_stored J (oo_event x) (sw_db s1)"
    using Cons.prems(2) refresh_keeps_stored [OF assms(1) run] by auto
  from Cons.IH [OF rest stored] obtain new where new: "reports' = (reports @ [rep]) @ new" "length new = length snaps"
      "\<forall>i < length snaps. report_for q (Suc k + i) (snaps ! i) (new ! i)"
      "\<forall>rep \<in> set reports'. event_stored J (oo_event rep) (sw_db s')" by blast
  have here: "report_for q k snap rep" using refresh_with_audit_OkE [OF run] by (simp add: report_for_def)
  have "\<forall>i < length (snap # snaps). report_for q (k + i) ((snap # snaps) ! i) ((rep # new) ! i)"
    using here new(3) by (auto simp: nth_Cons split: nat.split)
  then show ?case using new by (intro exI [of _ "rep # new"]) simp
qed simp

lemma u32_saturating_add_1: "unat (u32_saturating_add a 1) = min (2 ^ 32 - 1) (unat a + 1)"
proof (cases "unat a + 1 < 2 ^ 32")
  case True
  then have "unat (a + 1) = unat a + 1" by (simp add: unat_word_ariths)
  with True show ?thesis by (simp add: u32_saturating_add_def)
next
  case False
  moreover have "unat a < 2 ^ LENGTH(32)" by (rule unsigned_less)
  ultimately show ?thesis by (simp add: u32_saturating_add_def unsigned_minus_1_eq_mask mask_eq_exp_minus_1)
qed

text \<open>
  A sweep that returns a report has made one attempt per candidate, in the order of the
  candidates and at most as many as the limit allows, on grants that are all different, each
  numbered with the next sequence number of the sweep's window, and the event of each is in the
  audit log. It reports a backlog exactly when the candidates in the database were more than the
  limit.
\<close>

theorem sweep_accounts_for_candidates:
  fixes collate :: "string \<Rightarrow> 'k::linorder"
  assumes "keeps_events W" and "grants_ok (rd_grants (sw_db s))" and "unat (wq_limit q) < 2 ^ 32 - 1"
    and "pg_system_time_to_ms (wq_due_before q) = Ok due_ms" and "to_ts (u64_as_i64 due_ms) = Some due_at"
    and "run_once_for_tenant to_ts J collate W s q = (Ok rep, s')"
  shows "wr_attempted_count rep = wr_candidate_count rep \<and> length (wr_reports rep) = wr_candidate_count rep \<and>
    wr_candidate_count rep \<le> unat (wq_limit q) \<and>
    distinct (map (sr_grant_id \<circ> oo_service_report) (wr_reports rep)) \<and>
    (\<forall>i < length (wr_reports rep). ae_sequence (oo_event (wr_reports rep ! i)) = wq_audit_sequence_start q + of_nat i \<and>
      event_stored J (oo_event (wr_reports rep ! i)) (sw_db s')) \<and>
    (wr_has_more rep \<longleftrightarrow> 0 < unat (wq_limit q) \<and>
      unat (wq_limit q) < length (filter (refresh_candidate (wq_tenant_id q) due_at) (gd_grants (rd_grants (sw_db s)))))"
proof (cases "wq_limit q = 0")
  case True
  with assms(6) show ?thesis by (auto simp: run_once_for_tenant_def)
next
  case False
  let ?q = "u32_saturating_add (wq_limit q) 1"
  let ?c = "filter (refresh_candidate (wq_tenant_id q) due_at) (gd_grants (rd_grants (sw_db s)))"
  from assms(6) False obtain cands where
    list: "list_refresh_candidate_snapshots to_ts collate (rd_grants (sw_db s)) (wq_tenant_id q) (wq_due_before q) ?q = Inr cands"
    by (cases "list_refresh_candidate_snapshots to_ts collate (rd_grants (sw_db s)) (wq_tenant_id q) (wq_due_before q) ?q")
      (auto simp: run_once_for_tenant_def Let_def)
  define snaps where "snaps = (if unat (wq_limit q) < length cands then take (unat (wq_limit q)) cands else cands)"
  from assms(6) False list obtain reports where sweep: "sweep_candidates to_ts J W q 0 snaps [] s = (Inr reports, s')"
      and rep: "rep = \<lparr>wr_candidate_count = length snaps, wr_attempted_count = length reports,
        wr_has_more = (unat (wq_limit q) < length cands), wr_reports = reports\<rparr>"
    by (auto simp: run_once_for_tenant_def Let_def snaps_def elim!: try_st_OkE)
  from sweep_candidates_Ok [OF assms(1) sweep] have len: "length reports = length snaps"
      and each: "\<forall>i < length snaps. report_for q i (snaps ! i) (reports ! i)"
      and stored: "\<forall>x \<in> set reports. event_stored J (oo_event x) (sw_db s')" by auto
  have ids: "map (sr_grant_id \<circ> oo_service_report) reports = map sn_grant_id snaps"
    using len each by (intro nth_equalityI) (auto simp: report_for_def)
  have cands: "length cands = min (unat ?q) (length ?c) \<and> distinct (map sn_grant_id cands)"
    using candidate_ids(2,3) [OF assms(2) candidate_snapshots [OF assms(5,4) list]] by blast
  then have dist: "distinct (map sn_grant_id snaps)" by (auto simp: snaps_def take_map [symmetric] intro: distinct_take)
  have seq: "ae_sequence (oo_event (reports ! i)) = wq_audit_sequence_start q + of_nat i" if "i < length reports" for i
    using each that len by (auto simp: report_for_def token_refresh_audit_event_sequence sweep_audit_context_def)
  have "unat ?q = unat (wq_limit q) + 1" using assms(3) by (simp add: u32_saturating_add_1)
  moreover have "0 < unat (wq_limit q)" using False by (simp add: unat_gt_0)
  ultimately have "unat (wq_limit q) < length cands \<longleftrightarrow> 0 < unat (wq_limit q) \<and> unat (wq_limit q) < length ?c"
    using cands by auto
  moreover have "length snaps \<le> unat (wq_limit q)" by (simp add: snaps_def)
  ultimately show ?thesis using rep len dist ids stored seq by auto
qed


section \<open>Audit sequence windows\<close>

lemma unat_saturating:
  "unat (saturating_add a b) = min (2 ^ 64 - 1) (unat a + unat b)"
  "unat (saturating_mul a b) = min (2 ^ 64 - 1) (unat a * unat b)"
proof -
  show "unat (saturating_add a b) = min (2 ^ 64 - 1) (unat a + unat b)"
  proof (cases "unat a + unat b < 2 ^ 64")
    case True
    then show ?thesis by (simp add: saturating_add_def unat_word_ariths)
  qed (simp add: saturating_add_def unsigned_minus_1_eq_mask mask_eq_exp_minus_1)
  show "unat (saturating_mul a b) = min (2 ^ 64 - 1) (unat a * unat b)"
  proof (cases "unat a * unat b < 2 ^ 64")
    case True
    then show ?thesis by (simp add: saturating_mul_def unat_word_ariths)
  qed (simp add: saturating_mul_def unsigned_minus_1_eq_mask mask_eq_exp_minus_1)
qed

lemma unat_ucast_u32: "unat (ucast (w :: u32) :: u64) = unat w"
proof -
  have "unat w < 2 ^ LENGTH(32)" by (rule unsigned_less)
  then show ?thesis by (simp add: unsigned_ucast_eq take_bit_nat_eq_self_iff)
qed

lemma sequence_start_eq:
  assumes "1 \<le> attempt" and "unat base + (unat attempt - 1) * max (unat limit) 1000000 < 2 ^ 64"
  shows "unat (scheduled_sweep_audit_sequence_start base attempt limit) =
    unat base + (unat attempt - 1) * max (unat limit) 1000000"
proof -
  have "unat (attempt - 1) = unat attempt - 1" using assms(1) by (simp add: unat_sub_if' word_le_nat_alt)
  moreover have "unat (max (ucast limit) MIN_AUDIT_SEQUENCE_WINDOW) = max (unat limit) 1000000"
    by (simp add: max_def MIN_AUDIT_SEQUENCE_WINDOW_def word_le_nat_alt unat_ucast_u32)
  ultimately show ?thesis using assms
    by (simp add: scheduled_sweep_audit_sequence_start_def Let_def unat_saturating unat_ucast_u32)
qed

text \<open>
  C25. The windows of sequence numbers of different attempts of the scheduled sweep do not overlap
  as long as they fit into 64 bits: the number of any attempt's \<open>i\<close>-th event, for \<open>i\<close> below the
  limit, differs from the number of every event of every other attempt. A retried sweep therefore
  never runs into the unique keys of the audit log because of an earlier attempt.
\<close>

theorem attempt_windows_disjoint:
  assumes "1 \<le> a" and "a < b" and "i < unat limit" and "j < unat limit"
    and "unat base + unat b * max (unat limit) 1000000 < 2 ^ 64"
  shows "scheduled_sweep_audit_sequence_start base a limit + of_nat i <
    scheduled_sweep_audit_sequence_start base b limit + of_nat j"
proof -
  let ?w = "max (unat limit) 1000000"
  let ?A = "scheduled_sweep_audit_sequence_start base a limit" and ?B = "scheduled_sweep_audit_sequence_start base b limit"
  have ab: "unat a < unat b" "1 \<le> unat a" using assms(1,2) by (simp_all add: word_less_nat_alt word_le_nat_alt)
  have mono: "(unat b - 1) * ?w + ?w = unat b * ?w" using ab by (cases "unat b") simp_all
  have step: "(unat a - 1) * ?w + ?w \<le> (unat b - 1) * ?w"
  proof -
    have "Suc (unat a - 1) * ?w \<le> (unat b - 1) * ?w" using ab by (intro mult_le_mono1) simp
    then show ?thesis by simp
  qed
  have A: "unat ?A = unat base + (unat a - 1) * ?w"
    by (rule sequence_start_eq) (use assms(1,5) mono step in simp_all)
  have B: "unat ?B = unat base + (unat b - 1) * ?w"
    by (rule sequence_start_eq) (use assms(1,2,5) mono in simp_all)
  have ij: "i < ?w" "j < ?w" using assms(3,4) by simp_all
  have iA: "unat (?A + of_nat i) = unat ?A + i"
    using A B ij mono step assms(5) by (simp add: unat_word_ariths unat_of_nat)
  have jB: "unat (?B + of_nat j) = unat ?B + j"
    using B ij mono assms(5) by (simp add: unat_word_ariths unat_of_nat)
  show ?thesis using A B ij step by (simp add: word_less_nat_alt iA jB)
qed


section \<open>Outcomes of the scheduled sweep\<close>

text \<open>The job was given back: pending again, due at the given time, with the given error code.\<close>

definition job_released ::
  "(int \<Rightarrow> timestamptz option) \<Rightarrow> scheduler_job_lease \<Rightarrow> u64 \<Rightarrow> string option \<Rightarrow> scheduler_db \<Rightarrow> bool" where
  "job_released to_ts l next_run_at_ms code jobs \<longleftrightarrow>
     (\<exists>r \<in> set (sd_jobs jobs). sj_tenant_id r = le_tenant_id l \<and> sj_id r = le_id l \<and> sj_status r = ''pending'' \<and>
       sj_lease_id r = None \<and> to_ts (u64_as_i64 next_run_at_ms) = Some (sj_next_run_at r) \<and>
       sj_last_safe_error_code r = code)"

lemma release_answers:
  assumes "RELEASE_SCHEDULER_JOB_FOR_LEASE to_ts db (le_tenant_id l) (le_id l) (le_lease_id l) (u32_as_i32 (le_attempt_count l))
      (u64_as_i64 (le_lease_until_ms l)) finished code (u64_as_i64 next_run_at_ms) = Inr (b, db')"
  shows "if b then job_released to_ts l next_run_at_ms code db' else db' = db \<and> (\<forall>r \<in> set (sd_jobs db'). \<not> held_by to_ts l r)"
proof -
  let ?held = "held_under (le_tenant_id l) (le_id l) (le_lease_id l) (u32_as_i32 (le_attempt_count l))"
  from assms obtain u f n where u: "to_ts (u64_as_i64 (le_lease_until_ms l)) = Some u" and n: "to_ts (u64_as_i64 next_run_at_ms) = Some n"
    and upd: "update_jobs (?held u) (released_row f n code) db = Inr db'" and b: "b = list_ex (?held u) (sd_jobs db)"
    by (auto simp: RELEASE_SCHEDULER_JOB_FOR_LEASE_def try_then_Ok_iff Let_def)
  from upd have db': "db' = db\<lparr>sd_jobs := map_where (?held u) (released_row f n code) (sd_jobs db)\<rparr>"
    by (simp add: update_jobs_def store_jobs_Ok_iff)
  show ?thesis
  proof (cases b)
    case True
    then obtain r where r: "r \<in> set (sd_jobs db)" "?held u r" using b by (auto simp: list_ex_iff)
    then have "released_row f n code r \<in> set (sd_jobs db')" by (auto simp: db' set_map_where)
    moreover have "sj_tenant_id r = le_tenant_id l" "sj_id r = le_id l" using r(2) by (simp_all add: held_under_def)
    ultimately have "job_released to_ts l next_run_at_ms code db'"
      unfolding job_released_def by (intro bexI [of _ "released_row f n code r"]) (simp_all add: released_row_def n)
    with True show ?thesis by simp
  next
    case False
    then have none: "\<forall>r \<in> set (sd_jobs db). \<not> ?held u r" using b by (simp add: list_ex_iff)
    then have "db' = db" using db' map_where_none [OF none] by simp
    with False none u show ?thesis by (simp add: held_by_def)
  qed
qed

lemma complete_answers:
  "complete_for_lease to_ts db l finished nxt = (Inr b, db') \<Longrightarrow>
    (if b then job_released to_ts l nxt None db' else db' = db \<and> (\<forall>r \<in> set (sd_jobs db'). \<not> held_by to_ts l r))"
  using release_answers [of to_ts db l "u64_as_i64 finished" None nxt b db']
  by (auto simp: complete_for_lease_def COMPLETE_SCHEDULER_JOB_FOR_LEASE_def exec_sql_def split: sum.splits)

lemma fail_answers:
  "fail_for_lease to_ts db l finished code nxt = (Inr b, db') \<Longrightarrow>
    (if b then job_released to_ts l nxt (Some code) db' else db' = db \<and> (\<forall>r \<in> set (sd_jobs db'). \<not> held_by to_ts l r))"
  using release_answers [of to_ts db l "u64_as_i64 finished" "Some code" nxt b db']
  by (auto simp: fail_for_lease_def FAIL_SCHEDULER_JOB_FOR_LEASE_def exec_sql_def elim!: try_st_OkE split: sum.splits)

definition sweep_delay :: "token_refresh_scheduled_sweep_config \<Rightarrow> token_refresh_sweep_report \<Rightarrow> u64" where
  "sweep_delay cfg sweep = (if wr_has_more sweep then cf_backlog_next_run_delay_ms cfg else cf_next_run_delay_ms cfg)"

text \<open>What an attempt report promises of the database afterwards.\<close>

definition outcome_backed ::
  "(int \<Rightarrow> timestamptz option) \<Rightarrow> token_refresh_scheduled_sweep_config \<Rightarrow> token_refresh_scheduled_sweep_report
     \<Rightarrow> ('a, 'c) sweep_state \<Rightarrow> ('a, 'c) sweep_state \<Rightarrow> bool" where
  "outcome_backed to_ts cfg rep s s' \<longleftrightarrow> (case jr_outcome (ws_attempt rep) of
      JobSkippedBusy \<Rightarrow> ws_sweep rep = None \<and> (\<exists>t. ws_acquire rep = Busy t) \<and> sw_adapter s' = sw_adapter s \<and>
        rd_grants (sw_db s') = rd_grants (sw_db s) \<and> rd_audit (sw_db s') = rd_audit (sw_db s)
    | JobSkippedNotDue \<Rightarrow> ws_sweep rep = None \<and> (\<exists>t. ws_acquire rep = NotDue t) \<and> sw_adapter s' = sw_adapter s \<and>
        rd_grants (sw_db s') = rd_grants (sw_db s) \<and> rd_audit (sw_db s') = rd_audit (sw_db s)
    | JobLeaseLost \<Rightarrow> (\<exists>l. ws_acquire rep = Acquired l \<and> (\<forall>r \<in> set (sd_jobs (rd_jobs (sw_db s'))). \<not> held_by to_ts l r))
    | JobFailedSafe \<Rightarrow> ws_sweep rep = None \<and> (\<exists>l. ws_acquire rep = Acquired l \<and>
        job_released to_ts l (saturating_add (jr_finished_at_ms (ws_attempt rep)) (cf_retry_delay_ms cfg))
          (Some ''token_refresh_sweep_failed'') (rd_jobs (sw_db s')))
    | JobNoop \<Rightarrow> (\<exists>l sweep. ws_acquire rep = Acquired l \<and> ws_sweep rep = Some sweep \<and> wr_attempted_count sweep = 0 \<and>
        job_released to_ts l (saturating_add (jr_finished_at_ms (ws_attempt rep)) (sweep_delay cfg sweep)) None
          (rd_jobs (sw_db s')))
    | JobSucceeded \<Rightarrow> (\<exists>l sweep. ws_acquire rep = Acquired l \<and> ws_sweep rep = Some sweep \<and> 0 < wr_attempted_count sweep \<and>
        job_released to_ts l (saturating_add (jr_finished_at_ms (ws_attempt rep)) (sweep_delay cfg sweep)) None
          (rd_jobs (sw_db s'))))"

lemma finish_sweep_backed:
  assumes "finish_sweep to_ts W cfg (Acquired l) l started sweep s1 = (Inr rep, s')"
  shows "outcome_backed to_ts cfg rep s s'"
proof -
  obtain finished c where now: "so_clock_ms W (sw_clock s1) = (finished, c)" by fastforce
  obtain b jobs where run: "complete_for_lease to_ts (rd_jobs (sw_db s1)) l finished (saturating_add finished (sweep_delay cfg sweep)) = (b, jobs)"
    by fastforce
  with assms now obtain fin where b: "b = Inr fin" and s': "rd_jobs (sw_db s') = jobs"
      and rep: "rep = \<lparr>ws_acquire = Acquired l, ws_attempt = attempt_report cfg (Some (le_lease_id l)) started finished
        (if fin then if wr_attempted_count sweep = 0 then JobNoop else JobSucceeded else JobLeaseLost) None, ws_sweep = Some sweep\<rparr>"
    by (cases b) (auto simp: finish_sweep_def sweep_now_ms_def on_sweep_db_def on_jobs_def sweep_delay_def Let_def)
  from complete_answers [OF run [unfolded b]] show ?thesis
    by (auto simp: outcome_backed_def rep attempt_report_def s')
qed

lemma fail_sweep_backed:
  assumes "fail_sweep to_ts W cfg (Acquired l) l started s1 = (Inr rep, s')"
  shows "outcome_backed to_ts cfg rep s s'"
proof -
  obtain finished c where now: "so_clock_ms W (sw_clock s1) = (finished, c)" by fastforce
  obtain b jobs where run: "fail_for_lease to_ts (rd_jobs (sw_db s1)) l finished ''token_refresh_sweep_failed''
      (saturating_add finished (cf_retry_delay_ms cfg)) = (b, jobs)"
    by fastforce
  with assms now obtain fin where b: "b = Inr fin" and s': "rd_jobs (sw_db s') = jobs"
      and rep: "rep = \<lparr>ws_acquire = Acquired l, ws_attempt = attempt_report cfg (Some (le_lease_id l)) started finished
        (if fin then JobFailedSafe else JobLeaseLost) (Some ''token_refresh_sweep_failed''), ws_sweep = None\<rparr>"
    by (cases b) (auto simp: fail_sweep_def sweep_now_ms_def on_sweep_db_def on_jobs_def Let_def)
  from fail_answers [OF run [unfolded b]] show ?thesis
    by (auto simp: outcome_backed_def rep attempt_report_def s')
qed

lemma skip_sweep_eq:
  "skip_sweep W cfg acquire started outcome s =
    (Ok \<lparr>ws_acquire = acquire, ws_attempt = attempt_report cfg None started (fst (so_clock_ms W (sw_clock s))) outcome None,
       ws_sweep = None\<rparr>, s\<lparr>sw_clock := snd (so_clock_ms W (sw_clock s))\<rparr>)"
  by (simp add: skip_sweep_def sweep_now_ms_def split: prod.split)

text \<open>
  The outcome of a scheduled sweep is backed by the database. A skipped run has asked the
  adapter nothing and changed neither grants nor audit log. A run that reports success, a no-op or
  a safe failure held its lease to the end and has given the job back, due after the delay for
  that case (the shorter backlog delay when candidates were left) and with the error code of that
  case. A run that lost its lease holds no job.
\<close>

theorem scheduled_sweep_outcome_backed:
  assumes "scheduled_run_once to_ts J collate locked W cfg s = (Ok rep, s')"
  shows "outcome_backed to_ts cfg rep s s'"
proof -
  obtain started c where now: "so_clock_ms W (sw_clock s) = (started, c)" by fastforce
  obtain q jobs where ins: "insert_job_if_missing to_ts (rd_jobs (sw_db s)) TOKEN_REFRESH_SWEEP_SCHEDULER_JOB_ID
      (cf_tenant_id cfg) TokenRefreshSweep started = (q, jobs)" by fastforce
  obtain a jobs' where acq: "try_acquire to_ts locked jobs (cf_tenant_id cfg) TokenRefreshSweep started (cf_lease_id cfg)
      (saturating_add started (cf_lease_ms cfg)) = (a, jobs')" by fastforce
  define s3 where "s3 = s\<lparr>sw_clock := c, sw_db := (sw_db s)\<lparr>rd_jobs := jobs'\<rparr>\<rparr>"
  have same: "sw_adapter s3 = sw_adapter s" "rd_grants (sw_db s3) = rd_grants (sw_db s)" "rd_audit (sw_db s3) = rd_audit (sw_db s)"
    by (simp_all add: s3_def)
  from assms now ins obtain u where q: "q = Inr u"
    by (cases q) (auto simp: scheduled_run_once_def sweep_now_ms_def on_sweep_db_def on_jobs_def Let_def)
  from assms now ins q acq obtain acquire where a: "a = Inr acquire"
    by (cases a) (auto simp: scheduled_run_once_def sweep_now_ms_def on_sweep_db_def on_jobs_def Let_def)
  have run: "(case acquire of
           Busy _ \<Rightarrow> skip_sweep W cfg acquire started JobSkippedBusy s3
         | NotDue _ \<Rightarrow> skip_sweep W cfg acquire started JobSkippedNotDue s3
         | Acquired lease \<Rightarrow>
            (case run_once_for_tenant to_ts J collate W s3 (scheduled_sweep_request cfg started lease) of
               (Inr sweep_report, s) \<Rightarrow> finish_sweep to_ts W cfg acquire lease started sweep_report s
             | (Inl _, s) \<Rightarrow> fail_sweep to_ts W cfg acquire lease started s)) = (Inr rep, s')"
    using assms now ins q acq a
    by (simp add: scheduled_run_once_def sweep_now_ms_def on_sweep_db_def on_jobs_def Let_def s3_def [symmetric])
  show ?thesis
  proof (cases acquire)
    case (Acquired l)
    obtain r s4 where sweep: "run_once_for_tenant to_ts J collate W s3 (scheduled_sweep_request cfg started l) = (r, s4)" by fastforce
    show ?thesis
      using run Acquired sweep finish_sweep_backed [of to_ts W cfg l started _ s4 rep s' s]
        fail_sweep_backed [of to_ts W cfg l started s4 rep s' s]
      by (cases r) auto
  qed (use run same in \<open>auto simp: outcome_backed_def skip_sweep_eq attempt_report_def\<close>)
qed

section \<open>Witnesses\<close>

definition quiet_ops :: "(unit, unit) sweep_ops" where
  "quiet_ops = \<lparr>so_refresh = (\<lambda>a snapshot db.
       (RefreshSuccess \<lparr>gm_encrypted_primary = [1], gm_encrypted_renewal = [2]\<rparr> ''k2'' ''fp2'' 9000000 None, a, db)),
     so_clock_ms = (\<lambda>c. (9, c))\<rparr>"

definition sample_due_row :: token_grant_row where
  "sample_due_row = sample_grant_row\<lparr>gr_expires_at := Some 7000\<rparr>"

definition sample_refresh_db :: refresh_db where
  "sample_refresh_db = \<lparr>rd_grants = sample_grant_db\<lparr>gd_grants := [sample_due_row]\<rparr>,
     rd_audit = \<lparr>ad_tenants = [''t1''], ad_operations = [], ad_events = [], ad_outbox = [], ad_outbox_id_seq = 1\<rparr>,
     rd_jobs = \<lparr>sd_tenants = [''t1''], sd_jobs = []\<rparr>\<rparr>"

definition sample_state :: "(unit, unit) sweep_state" where
  "sample_state = \<lparr>sw_db = sample_refresh_db, sw_adapter = (), sw_clock = ()\<rparr>"

definition sample_request :: token_refresh_sweep_request where
  "sample_request = \<lparr>wq_tenant_id = ''t1'', wq_due_before = 9000000, wq_limit = 4, wq_now = 9000000,
     wq_audit_trace_id = ''sweep'', wq_audit_sequence_start = 1, wq_occurred_at_ms = 9,
     wq_actor = \<lparr>aa_kind = AuditService, aa_actor_id = ''svc'', aa_display_name = None\<rparr>, wq_workspace_id = None\<rparr>"

definition sample_snapshot :: token_refresh_grant_snapshot where
  "sample_snapshot = \<lparr>sn_grant_id = TokenGrantId ''g1'', sn_tenant_id = TenantId ''t1'',
     sn_expected_fingerprint = ''fp1'', sn_state = Valid, sn_has_refresh_material = True, sn_revoked_at = None,
     sn_reauth_required_at = None\<rparr>"

abbreviation sample_blob :: "u8 list" where
  "sample_blob \<equiv> blob_bytes (into_blob \<lparr>gm_encrypted_primary = [1], gm_encrypted_renewal = [2]\<rparr>)"

lemma sample_plan:
  "\<exists>planned. plan_token_refresh_command sample_snapshot
      (RefreshSuccess \<lparr>gm_encrypted_primary = [1], gm_encrypted_renewal = [2]\<rparr> ''k2'' ''fp2'' 9000000 None) 9000000 = Ok planned \<and>
    pc_command planned = RotateGrantCas (TokenGrantId ''g1'') (TenantId ''t1'') ''fp1'' None 9
      (into_blob \<lparr>gm_encrypted_primary = [1], gm_encrypted_renewal = [2]\<rparr>) ''k2'' ''fp2''"
  by (simp add: plan_token_refresh_command_def decide_token_refresh_def sample_snapshot_def Let_def transpose_map_def
      system_time_to_ms_def millis_since_epoch_def)

lemma sample_rotate:
  "\<exists>a gdb. apply_refresh_command_in_tx pg_to_timestamp (sample_grant_db\<lparr>gd_grants := [sample_due_row]\<rparr>)
     (RotateGrantCas (TokenGrantId ''g1'') (TenantId ''t1'') ''fp1'' None 9
      (into_blob \<lparr>gm_encrypted_primary = [1], gm_encrypted_renewal = [2]\<rparr>) ''k2'' ''fp2'') = (Ok (Some a), gdb) \<and>
     gdb = sample_grant_db\<lparr>gd_grants := [rotated_row None 9000 sample_blob ''k2'' ''fp2'' sample_due_row]\<rparr>"
proof -
  have ts: "sql_timestamp pg_to_timestamp (u64_as_i64 9) = Inr 9000"
    by (simp add: u64_as_i64_small MAX_EXACT_MS_def pg_to_timestamp_def)
  show ?thesis
    by (simp add: apply_refresh_command_in_tx_def apply_refresh_command_with_executor_def returned_grant_def
        ROTATE_TOKEN_GRANT_def sql_timestamp_option_def option_u64_to_i64_def transpose_map_def ts update_grant_def
        refresh_guard_def sample_due_row_def sample_grant_row_def rotated_row_def encrypted_token_grant_from_row_def
        identity_actor_kind_from_db_def scope_boundary_from_db_def token_grant_state_from_db_def epoch_ms_def
        optional_non_negative_i64_to_u64_def)
qed

lemma sample_append:
  assumes "su_tenant_id s = TenantId ''t1''"
  shows "\<exists>adb. pg_audit_append sample_json (rd_audit sample_refresh_db)
    (token_refresh_audit_event (sweep_audit_context sample_request 0) s) None = (Ok (), adb)"
proof -
  have num: "u64_as_i64 1 = 1" "u64_as_i64 9 = 9" by (simp_all add: u64_as_i64_small MAX_EXACT_MS_def)
  show ?thesis using assms num
    by (cases "su_status s")
      (simp_all add: pg_audit_append_def append_audit_event_query_def token_refresh_audit_event_def event_defs Let_def
        json_option_def transpose_map_def sample_json_def APPEND_AUDIT_EVENT_def audit_event_row_check_def
        sample_refresh_db_def sample_request_def sweep_audit_context_def)
qed

lemma sample_record:
  assumes "cp_command_kind (pc_report planned) = command_kind (pc_command planned)"
    and "cp_tenant_id (pc_report planned) = TenantId ''t1''" and "cp_grant_id (pc_report planned) = TokenGrantId ''g1''"
    and "pc_command planned = RotateGrantCas (TokenGrantId ''g1'') (TenantId ''t1'') ''fp1'' None 9
      (into_blob \<lparr>gm_encrypted_primary = [1], gm_encrypted_renewal = [2]\<rparr>) ''k2'' ''fp2''"
  shows "\<exists>rr db'. apply_planned_command_with_audit pg_to_timestamp sample_json sample_refresh_db planned
      (sweep_audit_context sample_request 0) = (Ok rr, db')"
proof -
  obtain a gdb where rot: "apply_refresh_command_in_tx pg_to_timestamp (rd_grants sample_refresh_db) (pc_command planned) = (Ok (Some a), gdb)"
    using sample_rotate assms(4) by (auto simp: sample_refresh_db_def)
  let ?su = "(command_report_audit_summary (pc_report planned) ReportConflictNoop)\<lparr>su_status := ReportSucceeded\<rparr>"
  have "su_tenant_id ?su = TenantId ''t1''" using assms(2) by (simp add: command_report_audit_summary_def)
  from sample_append [OF this] obtain adb where "pg_audit_append sample_json (rd_audit sample_refresh_db)
      (token_refresh_audit_event (sweep_audit_context sample_request 0) ?su) None = (Ok (), adb)" ..
  with rot assms show ?thesis
    by (simp add: apply_planned_command_with_audit_def validate_token_refresh_plan_def apply_command_with_summary_def
        on_grants_def on_audit_def Let_def)
qed

lemma sample_sweep_refresh:
  "\<exists>rep s'. refresh_grant_with_audit pg_to_timestamp sample_json quiet_ops sample_state sample_snapshot 9000000
      (sweep_audit_context sample_request 0) = (Ok rep, s')"
proof -
  from sample_plan obtain planned where plan: "plan_token_refresh_command sample_snapshot
      (RefreshSuccess \<lparr>gm_encrypted_primary = [1], gm_encrypted_renewal = [2]\<rparr> ''k2'' ''fp2'' 9000000 None) 9000000 = Ok planned"
    and cmd: "pc_command planned = RotateGrantCas (TokenGrantId ''g1'') (TenantId ''t1'') ''fp1'' None 9
      (into_blob \<lparr>gm_encrypted_primary = [1], gm_encrypted_renewal = [2]\<rparr>) ''k2'' ''fp2''" by blast
  note bound = plan_command_bound [OF plan]
  obtain rr db' where "apply_planned_command_with_audit pg_to_timestamp sample_json sample_refresh_db planned
      (sweep_audit_context sample_request 0) = (Ok rr, db')"
    using sample_record [OF _ _ _ cmd] bound by (auto simp: sample_snapshot_def)
  moreover have "short_circuit_reason sample_snapshot = None" by (simp add: short_circuit_reason_def sample_snapshot_def)
  ultimately show ?thesis using plan
    by (simp add: refresh_grant_with_audit_def token_refresh_short_circuit_report_def quiet_ops_def sample_state_def on_sweep_db_def)
qed

theorem refresh_change_always_audited_witness:
  "\<exists>rep s'. refresh_grant_with_audit pg_to_timestamp sample_json quiet_ops sample_state sample_snapshot 9000000
      (sweep_audit_context sample_request 0) = (Ok rep, s') \<and> refresh_recorded sample_json sample_snapshot sample_refresh_db rep (sw_db s')"
proof -
  from sample_sweep_refresh obtain rep s' where run: "refresh_grant_with_audit pg_to_timestamp sample_json quiet_ops sample_state
      sample_snapshot 9000000 (sweep_audit_context sample_request 0) = (Ok rep, s')" by blast
  have "adapter_db quiet_ops sample_state sample_snapshot = sample_refresh_db"
    by (simp add: adapter_db_def quiet_ops_def sample_state_def)
  with refresh_change_always_audited [OF run] run show ?thesis by auto
qed

lemma sample_candidates:
  "list_refresh_candidate_snapshots pg_to_timestamp (\<lambda>_. 0 :: nat) (rd_grants sample_refresh_db) ''t1'' 9000000 5 = Ok [sample_snapshot]"
proof -
  have due: "pg_system_time_to_ms 9000000 = Ok 9" "pg_to_timestamp (u64_as_i64 9) = Some 9000"
    by (simp_all add: pg_system_time_to_ms_def millis_since_epoch_def u64_as_i64_small MAX_EXACT_MS_def pg_to_timestamp_def)
  show ?thesis
    by (simp add: list_refresh_candidate_snapshots_def LIST_TOKEN_REFRESH_CANDIDATE_SNAPSHOTS_def due sql_timestamp_def
        refresh_candidate_def sample_refresh_db_def sample_due_row_def sample_grant_row_def PAUSED_REFRESH_ERRORS_def
        token_refresh_snapshot_from_row_def token_grant_state_from_db_def sample_snapshot_def)
qed

theorem sweep_accounts_for_candidates_witness:
  "\<exists>rep s'. run_once_for_tenant pg_to_timestamp sample_json (\<lambda>_. 0 :: nat) quiet_ops sample_state sample_request = (Ok rep, s') \<and>
     wr_candidate_count rep = 1 \<and> length (wr_reports rep) = 1 \<and> \<not> wr_has_more rep"
proof -
  from sample_sweep_refresh obtain r s' where one: "refresh_grant_with_audit pg_to_timestamp sample_json quiet_ops sample_state
      sample_snapshot 9000000 (sweep_audit_context sample_request 0) = (Ok r, s')" by blast
  have lim: "u32_saturating_add 4 1 = 5" by (simp add: u32_saturating_add_def)
  have q: "wq_limit sample_request = 4" "wq_tenant_id sample_request = ''t1''" "wq_due_before sample_request = 9000000"
      "wq_now sample_request = 9000000" and db: "sw_db sample_state = sample_refresh_db"
    by (simp_all add: sample_request_def sample_state_def)
  obtain rep where run: "run_once_for_tenant pg_to_timestamp sample_json (\<lambda>_. 0 :: nat) quiet_ops sample_state sample_request = (Ok rep, s')"
      and one: "wr_candidate_count rep = 1" "\<not> wr_has_more rep"
    using one sample_candidates
    by (simp add: run_once_for_tenant_def lim q db Let_def)
  have "keeps_events quiet_ops" by (simp add: keeps_events_def quiet_ops_def)
  moreover have "grants_ok (rd_grants (sw_db sample_state))"
    by (simp add: grants_ok_def sample_state_def sample_refresh_db_def)
  moreover have "pg_system_time_to_ms (wq_due_before sample_request) = Ok 9" and "pg_to_timestamp (u64_as_i64 9) = Some 9000"
    by (simp_all add: sample_request_def pg_system_time_to_ms_def millis_since_epoch_def u64_as_i64_small MAX_EXACT_MS_def pg_to_timestamp_def)
  moreover have "unat (wq_limit sample_request) < 2 ^ 32 - 1" by (simp add: sample_request_def)
  ultimately show ?thesis using sweep_accounts_for_candidates [OF _ _ _ _ _ run, of 9 9000] run one by simp
qed

theorem attempt_windows_disjoint_witness:
  "scheduled_sweep_audit_sequence_start 81 2 4 + of_nat 3 < scheduled_sweep_audit_sequence_start 81 3 4 + of_nat 0"
  by (rule attempt_windows_disjoint) simp_all

definition sample_sweep_config :: token_refresh_scheduled_sweep_config where
  "sample_sweep_config = \<lparr>cf_tenant_id = ''t1'', cf_lease_id = ''l1'', cf_lease_ms = 100, cf_retry_delay_ms = 10,
     cf_next_run_delay_ms = 1000, cf_backlog_next_run_delay_ms = 1, cf_due_before_ms = 9, cf_limit = 0,
     cf_audit_trace_id = ''sweep'', cf_audit_sequence_start = 1,
     cf_actor = \<lparr>aa_kind = AuditService, aa_actor_id = ''svc'', aa_display_name = None\<rparr>, cf_workspace_id = None\<rparr>"

definition sample_jobs :: "scheduler_row \<Rightarrow> scheduler_db" where
  "sample_jobs r = \<lparr>sd_tenants = [''t1''], sd_jobs = [r]\<rparr>"

definition sample_job :: scheduler_row where
  "sample_job = new_job_row ''token_refresh_sweep'' ''t1'' ''token_refresh_sweep'' 9000"

definition sample_sweep_lease :: scheduler_job_lease where
  "sample_sweep_lease = \<lparr>le_id = ''token_refresh_sweep'', le_tenant_id = ''t1'', le_job_kind = TokenRefreshSweep,
     le_status = JobRunning, le_attempt_count = 1, le_lease_id = ''l1'', le_lease_until_ms = 109\<rparr>"

lemma sample_job_steps:
  "\<exists>u. insert_job_if_missing pg_to_timestamp (rd_jobs sample_refresh_db) ''token_refresh_sweep'' ''t1'' TokenRefreshSweep 9 =
     (Inr u, sample_jobs sample_job)"
  "try_acquire pg_to_timestamp False (sample_jobs sample_job) ''t1'' TokenRefreshSweep 9 ''l1'' 109 =
     (Inr (Acquired sample_sweep_lease), sample_jobs (claimed_row 9000 ''l1'' 109000 sample_job))"
  "complete_for_lease pg_to_timestamp (sample_jobs (claimed_row 9000 ''l1'' 109000 sample_job)) sample_sweep_lease 9 1009 =
     (Inr True, sample_jobs (released_row 9000 1009000 None (claimed_row 9000 ''l1'' 109000 sample_job)))"
  by (simp_all add: acquire_eval insert_job_if_missing_def INSERT_SCHEDULER_JOB_IF_MISSING_def GET_SCHEDULER_JOB_def Let_def
      sample_refresh_db_def sample_jobs_def sample_job_def new_job_row_def sample_sweep_lease_def complete_for_lease_def
      COMPLETE_SCHEDULER_JOB_FOR_LEASE_def RELEASE_SCHEDULER_JOB_FOR_LEASE_def held_under_def released_row_def u32_as_i32_def)

theorem scheduled_sweep_outcome_backed_witness:
  "\<exists>rep s'. scheduled_run_once pg_to_timestamp sample_json (\<lambda>_. 0 :: nat) False quiet_ops sample_sweep_config sample_state = (Ok rep, s') \<and>
     jr_outcome (ws_attempt rep) = JobNoop \<and> outcome_backed pg_to_timestamp sample_sweep_config rep sample_state s'"
proof -
  have num: "saturating_add 9 100 = 109" "saturating_add 9 1000 = 1009" by (simp_all add: saturating_add_def)
  from sample_job_steps(1) obtain u where ins: "insert_job_if_missing pg_to_timestamp (rd_jobs sample_refresh_db)
      ''token_refresh_sweep'' ''t1'' TokenRefreshSweep 9 = (Inr u, sample_jobs sample_job)" ..
  have "\<exists>rep s'. scheduled_run_once pg_to_timestamp sample_json (\<lambda>_. 0 :: nat) False quiet_ops sample_sweep_config sample_state
      = (Ok rep, s') \<and> jr_outcome (ws_attempt rep) = JobNoop"
    by (simp add: scheduled_run_once_def sweep_now_ms_def quiet_ops_def sample_state_def on_sweep_db_def on_jobs_def
        TOKEN_REFRESH_SWEEP_SCHEDULER_JOB_ID_def sample_sweep_config_def ins num sample_job_steps(2) scheduled_sweep_request_def
        run_once_for_tenant_def finish_sweep_def sample_job_steps(3) attempt_report_def Let_def)
  then obtain rep s' where run: "scheduled_run_once pg_to_timestamp sample_json (\<lambda>_. 0 :: nat) False quiet_ops sample_sweep_config sample_state
      = (Ok rep, s')" "jr_outcome (ws_attempt rep) = JobNoop" by blast
  with scheduled_sweep_outcome_backed [OF run(1)] show ?thesis by blast
qed

end
