(* ===== verification/Outbox_Worker.thy ===== *)
theory Outbox_Worker
  imports Audit_Store
begin

text \<open>
  The worker that drains the audit outbox (\<open>storage/postgres/audit_outbox_worker.rs\<close>). The
  dispatcher and the clock are arguments with states of their own. Delivering takes time, in
  which other workers act on the table: the dispatcher's function also yields the table as it
  is when the delivery is over.
\<close>

section \<open>Data\<close>

record audit_outbox_drain_config =
  dc_tenant_id :: string
  dc_stream :: string
  dc_batch_limit :: int
  dc_lease_ms :: u64
  dc_retry_delay_ms :: u64
  dc_max_attempts :: u32

record audit_outbox_drain_report =
  dr_claimed :: nat
  dr_sent :: nat
  dr_retryable :: nat
  dr_failed :: nat
  dr_exhausted :: nat
  dr_stale :: nat

datatype audit_outbox_delivery = DeliverySent | DeliveryRetryable | DeliveryFailed

record ('d, 'c, 'e) outbox_worker_ops =
  wo_deliver :: "'d \<Rightarrow> audit_outbox_message \<Rightarrow> audit_db
     \<Rightarrow> (audit_outbox_delivery, 'e) result \<times> 'd \<times> audit_db"
  wo_clock_ms :: "'c \<Rightarrow> u64 \<times> 'c"

record ('d, 'c) outbox_worker =
  ow_repository :: audit_db
  ow_dispatcher :: 'd
  ow_clock :: 'c

section \<open>Draining\<close>

definition worker_now_ms ::
  "('d, 'c, 'e) outbox_worker_ops \<Rightarrow> ('d, 'c) outbox_worker \<Rightarrow> u64 \<times> ('d, 'c) outbox_worker" where
  "worker_now_ms W w = (let (ms, c) = wo_clock_ms W (ow_clock w) in (ms, w\<lparr>ow_clock := c\<rparr>))"

text \<open>A call of the repository on the worker's table.\<close>

definition on_repository ::
  "('d, 'c) outbox_worker \<Rightarrow> (audit_db \<Rightarrow> ('a, 'e) result \<times> audit_db)
     \<Rightarrow> ('a, 'e) result \<times> ('d, 'c) outbox_worker" where
  "on_repository w call =
     (let (r, db) = call (ow_repository w) in (r, w\<lparr>ow_repository := db\<rparr>))"

definition delivery_exhausted ::
  "audit_outbox_drain_config \<Rightarrow> audit_outbox_message \<Rightarrow> audit_outbox_delivery \<Rightarrow> bool" where
  "delivery_exhausted cfg message delivery \<longleftrightarrow>
     delivery = DeliveryRetryable \<and> 0 \<le> om_attempt_count message \<and>
     uint (dc_max_attempts cfg) \<le> om_attempt_count message"

definition mark_delivery ::
  "(int \<Rightarrow> timestamptz option) \<Rightarrow> ('d, 'c, 'e) outbox_worker_ops \<Rightarrow> audit_outbox_drain_config \<Rightarrow> u64
     \<Rightarrow> audit_outbox_message \<Rightarrow> audit_outbox_delivery \<Rightarrow> ('d, 'c) outbox_worker
     \<Rightarrow> (bool, postgres_repository_error) result \<times> ('d, 'c) outbox_worker" where
  "mark_delivery to_ts W cfg lease_until_ms message effective_delivery w = (case effective_delivery of
      DeliverySent \<Rightarrow>
        (let (sent_at_ms, w) = worker_now_ms W w in on_repository w (\<lambda>db.
           mark_outbox_sent_for_attempt to_ts db (om_tenant_id message) (om_id message)
             (om_attempt_count message) lease_until_ms sent_at_ms))
    | DeliveryRetryable \<Rightarrow>
        (let (now_ms, w) = worker_now_ms W w;
             next_attempt_at_ms = saturating_add now_ms (dc_retry_delay_ms cfg)
         in on_repository w (\<lambda>db.
           mark_outbox_retryable_for_attempt to_ts db (om_tenant_id message) (om_id message)
             (om_attempt_count message) lease_until_ms next_attempt_at_ms))
    | DeliveryFailed \<Rightarrow>
        on_repository w (\<lambda>db.
           mark_outbox_failed_for_attempt to_ts db (om_tenant_id message) (om_id message)
             (om_attempt_count message) lease_until_ms))"

definition count_delivery ::
  "audit_outbox_delivery \<Rightarrow> bool \<Rightarrow> audit_outbox_drain_report \<Rightarrow> audit_outbox_drain_report" where
  "count_delivery effective_delivery exhausted report = (case effective_delivery of
      DeliverySent \<Rightarrow> report\<lparr>dr_sent := dr_sent report + 1\<rparr>
    | DeliveryRetryable \<Rightarrow> report\<lparr>dr_retryable := dr_retryable report + 1\<rparr>
    | DeliveryFailed \<Rightarrow>
        (let report = report\<lparr>dr_failed := dr_failed report + 1\<rparr>
         in if exhausted then report\<lparr>dr_exhausted := dr_exhausted report + 1\<rparr> else report))"

fun drain_messages ::
  "(int \<Rightarrow> timestamptz option) \<Rightarrow> ('d, 'c, 'e) outbox_worker_ops \<Rightarrow> audit_outbox_drain_config \<Rightarrow> u64
     \<Rightarrow> audit_outbox_message list \<Rightarrow> audit_outbox_drain_report \<Rightarrow> ('d, 'c) outbox_worker
     \<Rightarrow> (audit_outbox_drain_report, postgres_repository_error) result \<times> ('d, 'c) outbox_worker" where
  "drain_messages to_ts W cfg lease_until_ms [] report w = (Ok report, w)"
| "drain_messages to_ts W cfg lease_until_ms (message # messages) report w =
     (let (delivered, d, db) = wo_deliver W (ow_dispatcher w) message (ow_repository w);
          w = w\<lparr>ow_dispatcher := d, ow_repository := db\<rparr>;
          delivery = (case delivered of Inl _ \<Rightarrow> DeliveryRetryable | Inr v \<Rightarrow> v);
          exhausted = delivery_exhausted cfg message delivery;
          effective_delivery = (if exhausted then DeliveryFailed else delivery)
      in try_st (mark_delivery to_ts W cfg lease_until_ms message effective_delivery w)
           (\<lambda>mark_result w.
              drain_messages to_ts W cfg lease_until_ms messages
                (if mark_result then count_delivery effective_delivery exhausted report
                 else report\<lparr>dr_stale := dr_stale report + 1\<rparr>) w))"

definition drain_once ::
  "(int \<Rightarrow> timestamptz option) \<Rightarrow> (int \<Rightarrow> bool) \<Rightarrow> ('d, 'c, 'e) outbox_worker_ops
     \<Rightarrow> audit_outbox_drain_config \<Rightarrow> ('d, 'c) outbox_worker
     \<Rightarrow> (audit_outbox_drain_report, postgres_repository_error) result \<times> ('d, 'c) outbox_worker" where
  "drain_once to_ts locked W cfg w =
     (let (now_ms, w) = worker_now_ms W w;
          lease_until_ms = saturating_add now_ms (dc_lease_ms cfg)
      in try_st (on_repository w (\<lambda>db. claim_outbox to_ts locked db (dc_tenant_id cfg) (dc_stream cfg)
             now_ms (dc_batch_limit cfg) lease_until_ms))
           (\<lambda>messages w. drain_messages to_ts W cfg lease_until_ms messages
              \<lparr>dr_claimed = length messages, dr_sent = 0, dr_retryable = 0, dr_failed = 0,
               dr_exhausted = 0, dr_stale = 0\<rparr> w))"

section \<open>Lemmas\<close>

definition report_total :: "audit_outbox_drain_report \<Rightarrow> nat" where
  "report_total r = dr_sent r + dr_retryable r + dr_failed r + dr_stale r"

lemma count_delivery_total:
  "report_total (count_delivery d x r) = report_total r + 1"
  "dr_claimed (count_delivery d x r) = dr_claimed r"
  "dr_stale (count_delivery d x r) = dr_stale r"
  "dr_exhausted r \<le> dr_failed r \<Longrightarrow> dr_exhausted (count_delivery d x r) \<le> dr_failed (count_delivery d x r)"
  by (cases d; simp add: count_delivery_def report_total_def Let_def)+

lemma drain_messages_total:
  assumes "drain_messages to_ts W cfg until messages report w = (Ok report', w')"
  shows "dr_claimed report' = dr_claimed report \<and> report_total report' = report_total report + length messages \<and>
    (dr_exhausted report \<le> dr_failed report \<longrightarrow> dr_exhausted report' \<le> dr_failed report')"
  using assms
proof (induction messages arbitrary: report w)
  case (Cons message messages)
  obtain delivered d db where dl: "wo_deliver W (ow_dispatcher w) message (ow_repository w) = (delivered, d, db)"
    by (cases "wo_deliver W (ow_dispatcher w) message (ow_repository w)") auto
  from Cons.prems obtain effective x mark_result w1 where
    "drain_messages to_ts W cfg until messages
       (if mark_result then count_delivery effective x report else report\<lparr>dr_stale := dr_stale report + 1\<rparr>) w1 = (Ok report', w')"
    by (auto simp: dl Let_def elim!: try_st_OkE)
  from Cons.IH [OF this] show ?case
    by (cases mark_result) (auto simp: count_delivery_total report_total_def [of "report\<lparr>dr_stale := _\<rparr>"], auto simp: report_total_def)
qed simp

text \<open>A message whose row is as its claim left it.\<close>

definition holds_claim :: "timestamptz \<Rightarrow> audit_outbox_message \<Rightarrow> audit_db \<Rightarrow> bool" where
  "holds_claim u m db \<longleftrightarrow>
     (\<exists>r \<in> set_option (outbox_get (om_id m) db). outbox_attempt (om_tenant_id m) (om_id m) (om_attempt_count m) u r)"

lemma update_outbox_hit:
  assumes "holds_claim u m db" and "\<And>r. ob_id (f r) = ob_id r"
  shows "fst (update_outbox (outbox_attempt (om_tenant_id m) (om_id m) (om_attempt_count m) u) f db)"
    and "k \<noteq> om_id m \<Longrightarrow>
      outbox_get k (snd (update_outbox (outbox_attempt (om_tenant_id m) (om_id m) (om_attempt_count m) u) f db)) = outbox_get k db"
proof -
  let ?P = "outbox_attempt (om_tenant_id m) (om_id m) (om_attempt_count m) u"
  show "fst (update_outbox ?P f db)"
    using assms(1) by (auto simp: holds_claim_def update_outbox_def list_ex_iff outbox_get_def dest!: find_SomeD)
  assume "k \<noteq> om_id m"
  then show "outbox_get k (snd (update_outbox ?P f db)) = outbox_get k db"
    using find_map_where [of "\<lambda>r. ob_id r = k" f ?P "ad_outbox db"] assms(2)
    by (cases "outbox_get k db")
      (auto simp: update_outbox_def outbox_get_def outbox_attempt_def dest!: find_SomeD)
qed

lemma mark_delivery_hit:
  assumes "holds_claim u m (ow_repository w)" and "to_ts (u64_as_i64 until) = Some u"
    and "mark_delivery to_ts W cfg until m effective w = (Ok b, w')"
  shows "b" and "k \<noteq> om_id m \<Longrightarrow> outbox_get k (ow_repository w') = outbox_get k (ow_repository w)"
proof -
  let ?P = "outbox_attempt (om_tenant_id m) (om_id m) (om_attempt_count m) u"
  have "\<exists>f. (\<forall>r. ob_id (f r) = ob_id r) \<and> b = fst (update_outbox ?P f (ow_repository w)) \<and>
      ow_repository w' = snd (update_outbox ?P f (ow_repository w))"
  proof (cases effective)
    case DeliverySent
    then obtain ms c t where "to_ts (u64_as_i64 ms) = Some t" and "wo_clock_ms W (ow_clock w) = (ms, c)"
      using assms(2,3) by (cases "to_ts (u64_as_i64 (fst (wo_clock_ms W (ow_clock w))))")
        (auto simp: mark_delivery_def worker_now_ms_def on_repository_def mark_defs MARK_defs sql_timestamp_def split: prod.splits)
    with assms(2,3) DeliverySent show ?thesis
      by (intro exI [of _ "outbox_sent_row t"])
        (auto simp: mark_delivery_def worker_now_ms_def on_repository_def mark_defs MARK_defs sql_timestamp_def exec_sql_def split: prod.splits)
  next
    case DeliveryRetryable
    then obtain ms c t where "to_ts (u64_as_i64 (saturating_add ms (dc_retry_delay_ms cfg))) = Some t"
        and "wo_clock_ms W (ow_clock w) = (ms, c)"
      using assms(2,3) by (cases "to_ts (u64_as_i64 (saturating_add (fst (wo_clock_ms W (ow_clock w))) (dc_retry_delay_ms cfg)))")
        (auto simp: mark_delivery_def worker_now_ms_def on_repository_def mark_defs MARK_defs sql_timestamp_def split: prod.splits)
    with assms(2,3) DeliveryRetryable show ?thesis
      by (intro exI [of _ "outbox_retry_row t"])
        (auto simp: mark_delivery_def worker_now_ms_def on_repository_def mark_defs MARK_defs sql_timestamp_def exec_sql_def split: prod.splits)
  next
    case DeliveryFailed
    with assms(2,3) show ?thesis
      by (intro exI [of _ "outbox_failed_row"])
        (auto simp: mark_delivery_def on_repository_def mark_defs MARK_defs sql_timestamp_def exec_sql_def split: prod.splits)
  qed
  then obtain f where "\<And>r. ob_id (f r) = ob_id r" and "b = fst (update_outbox ?P f (ow_repository w))"
      and "ow_repository w' = snd (update_outbox ?P f (ow_repository w))" by blast
  with update_outbox_hit [OF assms(1), of f]
  show b and "k \<noteq> om_id m \<Longrightarrow> outbox_get k (ow_repository w') = outbox_get k (ow_repository w)" by auto
qed

lemma drain_undisturbed:
  assumes "\<And>d m db. snd (snd (wo_deliver W d m db)) = db" and "to_ts (u64_as_i64 until) = Some u"
    and "drain_messages to_ts W cfg until messages report w = (Ok report', w')"
    and "distinct (map om_id messages)" and "\<forall>m \<in> set messages. holds_claim u m (ow_repository w)"
  shows "dr_stale report' = dr_stale report"
  using assms(3-5)
proof (induction messages arbitrary: report w)
  case (Cons m messages)
  obtain delivered d db where dl: "wo_deliver W (ow_dispatcher w) m (ow_repository w) = (delivered, d, db)"
    by (cases "wo_deliver W (ow_dispatcher w) m (ow_repository w)") auto
  have db: "db = ow_repository w" using assms(1) [of "ow_dispatcher w" m "ow_repository w"] dl by simp
  let ?w = "w\<lparr>ow_dispatcher := d, ow_repository := db\<rparr>"
  from Cons.prems(1) obtain effective x b w1 where
    mark: "mark_delivery to_ts W cfg until m effective ?w = (Ok b, w1)" and
    rest: "drain_messages to_ts W cfg until messages
       (if b then count_delivery effective x report else report\<lparr>dr_stale := dr_stale report + 1\<rparr>) w1 = (Ok report', w')"
    by (auto simp: dl Let_def elim!: try_st_OkE)
  have held: "holds_claim u m (ow_repository ?w)" using Cons.prems(3) db by simp
  have b and others: "\<And>k. k \<noteq> om_id m \<Longrightarrow> outbox_get k (ow_repository w1) = outbox_get k (ow_repository w)"
    using mark_delivery_hit [OF held assms(2) mark] db by auto
  have "\<forall>m' \<in> set messages. holds_claim u m' (ow_repository w1)"
  proof
    fix m' assume m': "m' \<in> set messages"
    then have "om_id m' \<noteq> om_id m" using Cons.prems(2) by (metis distinct.simps(2) image_eqI list.map(2) list.set_map)
    with m' Cons.prems(3) show "holds_claim u m' (ow_repository w1)" by (simp add: holds_claim_def others)
  qed
  with Cons.IH [OF rest] Cons.prems(2) \<open>b\<close> show ?case by (simp add: count_delivery_total)
qed simp

lemma drain_once_OkE:
  assumes "drain_once to_ts locked W cfg w = (Ok report, w')"
  obtains now_ms messages w1 db1 where
    "claim_outbox to_ts locked (ow_repository w) (dc_tenant_id cfg) (dc_stream cfg) now_ms (dc_batch_limit cfg)
       (saturating_add now_ms (dc_lease_ms cfg)) = (Ok messages, db1)"
    and "ow_repository w1 = db1"
    and "drain_messages to_ts W cfg (saturating_add now_ms (dc_lease_ms cfg)) messages
       \<lparr>dr_claimed = length messages, dr_sent = 0, dr_retryable = 0, dr_failed = 0, dr_exhausted = 0, dr_stale = 0\<rparr> w1
       = (Ok report, w')"
proof -
  obtain ms c where clock: "wo_clock_ms W (ow_clock w) = (ms, c)" by (cases "wo_clock_ms W (ow_clock w)")
  let ?claim = "claim_outbox to_ts locked (ow_repository w) (dc_tenant_id cfg) (dc_stream cfg) ms (dc_batch_limit cfg)
      (saturating_add ms (dc_lease_ms cfg))"
  obtain r db1 where claim: "?claim = (r, db1)" by (cases ?claim)
  show thesis
  proof (cases r)
    case (Inr messages)
    with assms clock claim show thesis
      by (intro that [of ms messages db1 "w\<lparr>ow_clock := c, ow_repository := db1\<rparr>"])
        (simp_all add: drain_once_def worker_now_ms_def on_repository_def Let_def)
  qed (use assms clock claim in \<open>simp add: drain_once_def worker_now_ms_def on_repository_def Let_def\<close>)
qed

section \<open>Properties\<close>

text \<open>
  A report of the worker accounts for every message it claimed: each is counted once, as sent,
  to be retried, failed or stale, and the exhausted ones are among the failed. When nobody else
  touches the table during the deliveries, no message is stale.
\<close>

theorem drain_report_accounts:
  assumes "outbox_ok (ow_repository w)" and "drain_once to_ts locked W cfg w = (Ok report, w')"
  shows "dr_claimed report = dr_sent report + dr_retryable report + dr_failed report + dr_stale report \<and>
    dr_exhausted report \<le> dr_failed report \<and> int (dr_claimed report) \<le> dc_batch_limit cfg \<and>
    ((\<forall>d m db. snd (snd (wo_deliver W d m db)) = db) \<longrightarrow> dr_stale report = 0)"
proof -
  from drain_once_OkE [OF assms(2)] obtain now_ms messages w1 db1 where
    claim: "claim_outbox to_ts locked (ow_repository w) (dc_tenant_id cfg) (dc_stream cfg) now_ms (dc_batch_limit cfg)
       (saturating_add now_ms (dc_lease_ms cfg)) = (Ok messages, db1)" and w1: "ow_repository w1 = db1"
    and drain: "drain_messages to_ts W cfg (saturating_add now_ms (dc_lease_ms cfg)) messages
       \<lparr>dr_claimed = length messages, dr_sent = 0, dr_retryable = 0, dr_failed = 0, dr_exhausted = 0, dr_stale = 0\<rparr> w1
       = (Ok report, w')" .
  from claim_outbox_OkE [OF claim] obtain n u where ts: "to_ts (u64_as_i64 now_ms) = Some n"
    "to_ts (u64_as_i64 (saturating_add now_ms (dc_lease_ms cfg))) = Some u" .
  note claimed = claim_outbox_messages [OF assms(1) claim ts(1)]
  have "holds_claim u m db1" if "m \<in> set messages" for m
    by (rule claimed_message [OF assms(1) claim that])
      (use ts in \<open>auto simp: holds_claim_def outbox_attempt_def outbox_claimed_row_def outbox_claimable_def outbox_get_Some_iff [OF assms(1)]\<close>)
  then have "dr_stale report = 0" if "\<forall>d m db. snd (snd (wo_deliver W d m db)) = db"
    using drain_undisturbed [OF _ ts(2) drain] that claimed w1 by simp
  with drain_messages_total [OF drain] claimed show ?thesis by (simp add: report_total_def)
qed

text \<open>One message, a dispatcher that succeeds and a clock that stands still.\<close>

definition sample_worker_ops :: "(unit, unit, unit) outbox_worker_ops" where
  "sample_worker_ops = \<lparr>wo_deliver = (\<lambda>d m db. (Ok DeliverySent, d, db)), wo_clock_ms = (\<lambda>c. (1000, c))\<rparr>"

definition sample_worker :: "(unit, unit) outbox_worker" where
  "sample_worker = \<lparr>ow_repository = sample_audit_db [sample_message_row 0 0], ow_dispatcher = (), ow_clock = ()\<rparr>"

definition sample_drain_config :: audit_outbox_drain_config where
  "sample_drain_config = \<lparr>dc_tenant_id = ''t'', dc_stream = ''audit-events'', dc_batch_limit = 10, dc_lease_ms = 1000,
     dc_retry_delay_ms = 500, dc_max_attempts = 3\<rparr>"

theorem drain_report_accounts_witness:
  "\<exists>report w'. drain_once pg_to_timestamp (\<lambda>_. False) sample_worker_ops sample_drain_config sample_worker = (Ok report, w') \<and>
     dr_claimed report = 1 \<and> dr_sent report = 1 \<and> dr_stale report = 0"
proof -
  have until: "saturating_add 1000 1000 = 2000" by (simp add: saturating_add_def)
  have "\<exists>report w'. drain_once pg_to_timestamp (\<lambda>_. False) sample_worker_ops sample_drain_config sample_worker = (Ok report, w') \<and>
     dr_claimed report = 1 \<and> dr_sent report = 1"
    by (simp add: drain_once_def sample_worker_ops_def sample_drain_config_def sample_worker_def worker_now_ms_def
        on_repository_def until outbox_eval delivery_exhausted_def mark_delivery_def mark_defs MARK_defs
        update_outbox_def count_delivery_def outbox_attempt_def)
  then obtain report w' where run: "drain_once pg_to_timestamp (\<lambda>_. False) sample_worker_ops sample_drain_config sample_worker = (Ok report, w')"
    and counts: "dr_claimed report = 1" "dr_sent report = 1" by blast
  have "outbox_ok (ow_repository sample_worker)" by (simp add: sample_worker_def)
  from drain_report_accounts [OF this run] have "dr_stale report = 0" by (simp add: sample_worker_ops_def)
  with run counts show ?thesis by blast
qed

end
