(* ===== verification/Safe_Error.thy ===== *)
theory Safe_Error
  imports Postgres_Base
begin

text \<open>
  The texts under which errors of the Postgres repositories leave the storage layer
  (\<open>storage/postgres/repository_safe_error.rs\<close>): one fixed text per kind of error, whatever the
  error carries.
\<close>

fun postgres_repository_safe_error_reason :: "postgres_repository_error \<Rightarrow> string" where
  "postgres_repository_safe_error_reason (Sqlx _) = ''postgres_query_failed''"
| "postgres_repository_safe_error_reason (UnknownActionStatus _) = ''unknown_action_status''"
| "postgres_repository_safe_error_reason (UnknownAuditActorKind _) = ''unknown_audit_actor_kind''"
| "postgres_repository_safe_error_reason (UnknownAuditEventType _) = ''unknown_audit_event_type''"
| "postgres_repository_safe_error_reason (UnknownExecutionStatus _) = ''unknown_execution_status''"
| "postgres_repository_safe_error_reason (UnknownDeviceEntryPoint _) = ''unknown_device_entry_point''"
| "postgres_repository_safe_error_reason (UnknownDeviceSessionState _) = ''unknown_device_session_state''"
| "postgres_repository_safe_error_reason (UnknownTokenGrantState _) = ''unknown_token_grant_state''"
| "postgres_repository_safe_error_reason (UnknownTenantStatus _) = ''unknown_tenant_status''"
| "postgres_repository_safe_error_reason (UnknownWorkspaceUserStatus _) = ''unknown_workspace_user_status''"
| "postgres_repository_safe_error_reason (UnknownIdentityActorKind _) = ''unknown_identity_actor_kind''"
| "postgres_repository_safe_error_reason (UnknownScopeBoundary _) = ''unknown_scope_boundary''"
| "postgres_repository_safe_error_reason (UnknownEvidenceSourceKind _) = ''unknown_evidence_source_kind''"
| "postgres_repository_safe_error_reason (UnknownEvidenceVisibilityScope _) = ''unknown_evidence_visibility_scope''"
| "postgres_repository_safe_error_reason (UnknownProposedActionStatus _) = ''unknown_proposed_action_status''"
| "postgres_repository_safe_error_reason (UnknownProposedActionKind _) = ''unknown_proposed_action_kind''"
| "postgres_repository_safe_error_reason (UnknownRiskSeverity _) = ''unknown_risk_severity''"
| "postgres_repository_safe_error_reason (UnknownProposedActionDecision _) = ''unknown_proposed_action_decision''"
| "postgres_repository_safe_error_reason (UnknownReviewInboxLedgerStage _) = ''unknown_review_inbox_ledger_stage''"
| "postgres_repository_safe_error_reason (UnknownReviewInboxLedgerStatus _) = ''unknown_review_inbox_ledger_status''"
| "postgres_repository_safe_error_reason (UnknownReviewInboxItemStatus _) = ''unknown_review_inbox_item_status''"
| "postgres_repository_safe_error_reason (UnknownSchedulerJobKind _) = ''unknown_scheduler_job_kind''"
| "postgres_repository_safe_error_reason (UnknownSchedulerJobStatus _) = ''unknown_scheduler_job_status''"
| "postgres_repository_safe_error_reason UnsafeSchedulerJobErrorCode = ''unsafe_scheduler_job_error_code''"
| "postgres_repository_safe_error_reason UnsafeAuditOutboxPayload = ''unsafe_audit_outbox_payload''"
| "postgres_repository_safe_error_reason (ActionNotConfirmed _) = ''action_not_confirmed''"
| "postgres_repository_safe_error_reason (TenantMismatch _ _ _) = ''tenant_mismatch''"
| "postgres_repository_safe_error_reason (LarkIdentityActorExternalBindingConflict _ _ _) = ''lark_identity_actor_external_binding_conflict''"
| "postgres_repository_safe_error_reason (NegativeInteger _ _) = ''negative_integer''"
| "postgres_repository_safe_error_reason JsonError = ''invalid_json_payload''"
| "postgres_repository_safe_error_reason (TokenRefreshDecisionBridge _) = ''token_refresh_decision_bridge_failed''"
| "postgres_repository_safe_error_reason (InvalidOperationStatusTransition _ _) = ''invalid_operation_status_transition''"
| "postgres_repository_safe_error_reason (InvalidExecutionQueueRow _ _) = ''invalid_execution_queue_row''"
| "postgres_repository_safe_error_reason (UnknownOperationIdempotencyKey _) = ''unknown_operation_idempotency_key''"
| "postgres_repository_safe_error_reason (TokenRefreshPlanMismatch _ _ _) = ''token_refresh_plan_mismatch''"
| "postgres_repository_safe_error_reason (ReviewDecisionRequestMismatch _ _ _) = ''review_decision_request_mismatch''"
| "postgres_repository_safe_error_reason MissingConfirmedActionForDecision = ''missing_confirmed_action_for_decision''"
| "postgres_repository_safe_error_reason MissingConfirmedAtForDecision = ''missing_confirmed_at_for_decision''"
| "postgres_repository_safe_error_reason MissingOperationIdForDecision = ''missing_operation_id_for_decision''"
| "postgres_repository_safe_error_reason UnexpectedConfirmedActionForDecision = ''unexpected_confirmed_action_for_decision''"
| "postgres_repository_safe_error_reason UnexpectedOperationIdForDecision = ''unexpected_operation_id_for_decision''"

definition postgres_repository_safe_error :: "string \<Rightarrow> postgres_repository_error \<Rightarrow> string" where
  "postgres_repository_safe_error stage error =
     stage @ '': '' @ postgres_repository_safe_error_reason error"

definition safe_error_reasons :: "string list" where
  "safe_error_reasons =
    [''postgres_query_failed'', ''unknown_action_status'', ''unknown_audit_actor_kind'',
     ''unknown_audit_event_type'', ''unknown_execution_status'',
     ''unknown_device_entry_point'', ''unknown_device_session_state'',
     ''unknown_token_grant_state'', ''unknown_tenant_status'',
     ''unknown_workspace_user_status'', ''unknown_identity_actor_kind'',
     ''unknown_scope_boundary'', ''unknown_evidence_source_kind'',
     ''unknown_evidence_visibility_scope'', ''unknown_proposed_action_status'',
     ''unknown_proposed_action_kind'', ''unknown_risk_severity'',
     ''unknown_proposed_action_decision'', ''unknown_review_inbox_ledger_stage'',
     ''unknown_review_inbox_ledger_status'', ''unknown_review_inbox_item_status'',
     ''unknown_scheduler_job_kind'', ''unknown_scheduler_job_status'',
     ''unsafe_scheduler_job_error_code'', ''unsafe_audit_outbox_payload'',
     ''action_not_confirmed'', ''tenant_mismatch'',
     ''lark_identity_actor_external_binding_conflict'', ''negative_integer'',
     ''invalid_json_payload'', ''token_refresh_decision_bridge_failed'',
     ''invalid_operation_status_transition'', ''invalid_execution_queue_row'',
     ''unknown_operation_idempotency_key'', ''token_refresh_plan_mismatch'',
     ''review_decision_request_mismatch'', ''missing_confirmed_action_for_decision'',
     ''missing_confirmed_at_for_decision'', ''missing_operation_id_for_decision'',
     ''unexpected_confirmed_action_for_decision'',
     ''unexpected_operation_id_for_decision'']"

lemma safe_error_reason_fixed: "postgres_repository_safe_error_reason e \<in> set safe_error_reasons"
  by (cases e) (simp_all add: safe_error_reasons_def)

end
