(* ===== verification/Tenant_Maintenance.thy ===== *)
theory Tenant_Maintenance
  imports Token_Refresh_Sweep Outbox_Worker Safe_Error
begin

text \<open>
  The maintenance worker of a tenant (\<open>storage/postgres/tenant_maintenance.rs\<close>): a validated
  configuration, and a run that first refreshes grants under the scheduler's lease and then drains
  the audit outbox, both on one database and one clock, with neither stage able to stop the other.
\<close>

section \<open>Configuration\<close>

record postgres_tenant_maintenance_config =
  mc_tenant_id :: string
  mc_lease_id :: string
  mc_audit_stream :: string
  mc_scheduled_lease_ms :: u64
  mc_scheduled_retry_delay_ms :: u64
  mc_scheduled_next_run_delay_ms :: u64
  mc_scheduled_backlog_next_run_delay_ms :: u64
  mc_scheduled_due_before_ms :: u64
  mc_scheduled_limit :: u32
  mc_scheduled_audit_trace_id :: string
  mc_scheduled_audit_sequence_start :: u64
  mc_scheduled_actor :: audit_actor
  mc_scheduled_workspace_id :: "string option"
  mc_outbox_batch_limit :: int
  mc_outbox_lease_ms :: u64
  mc_outbox_retry_delay_ms :: u64
  mc_outbox_max_attempts :: u32

datatype maintenance_config_error = EmptyField string | NonPositiveField string

definition validate_non_empty :: "string \<Rightarrow> string \<Rightarrow> (unit, maintenance_config_error) result" where
  "validate_non_empty field value = (if trim value = [] then Err (EmptyField field) else Ok ())"

definition validate_non_zero_u64 :: "string \<Rightarrow> u64 \<Rightarrow> (unit, maintenance_config_error) result" where
  "validate_non_zero_u64 field value = (if value = 0 then Err (NonPositiveField field) else Ok ())"

definition validate_non_zero_u32 :: "string \<Rightarrow> u32 \<Rightarrow> (unit, maintenance_config_error) result" where
  "validate_non_zero_u32 field value = (if value = 0 then Err (NonPositiveField field) else Ok ())"

definition validate_positive_i64 :: "string \<Rightarrow> int \<Rightarrow> (unit, maintenance_config_error) result" where
  "validate_positive_i64 field value = (if value \<le> 0 then Err (NonPositiveField field) else Ok ())"

definition maintenance_config_validate ::
  "postgres_tenant_maintenance_config \<Rightarrow> (unit, maintenance_config_error) result" where
  "maintenance_config_validate c =
     try_then (validate_non_empty ''tenant_id'' (mc_tenant_id c)) (\<lambda>_.
     try_then (validate_non_empty ''lease_id'' (mc_lease_id c)) (\<lambda>_.
     try_then (validate_non_empty ''audit_stream'' (mc_audit_stream c)) (\<lambda>_.
     try_then (validate_non_empty ''scheduled_audit_trace_id'' (mc_scheduled_audit_trace_id c)) (\<lambda>_.
     try_then (validate_non_zero_u64 ''scheduled_lease_ms'' (mc_scheduled_lease_ms c)) (\<lambda>_.
     try_then (validate_non_zero_u64 ''scheduled_retry_delay_ms'' (mc_scheduled_retry_delay_ms c)) (\<lambda>_.
     try_then (validate_non_zero_u64 ''scheduled_next_run_delay_ms'' (mc_scheduled_next_run_delay_ms c)) (\<lambda>_.
     try_then (validate_non_zero_u64 ''scheduled_backlog_next_run_delay_ms''
       (mc_scheduled_backlog_next_run_delay_ms c)) (\<lambda>_.
     try_then (validate_non_zero_u32 ''scheduled_limit'' (mc_scheduled_limit c)) (\<lambda>_.
     try_then (validate_positive_i64 ''outbox_batch_limit'' (mc_outbox_batch_limit c)) (\<lambda>_.
     try_then (validate_non_zero_u64 ''outbox_lease_ms'' (mc_outbox_lease_ms c)) (\<lambda>_.
     try_then (validate_non_zero_u64 ''outbox_retry_delay_ms'' (mc_outbox_retry_delay_ms c)) (\<lambda>_.
     try_then (validate_non_zero_u32 ''outbox_max_attempts'' (mc_outbox_max_attempts c)) (\<lambda>_.
       Ok ())))))))))))))"

fun maintenance_config_error_display :: "maintenance_config_error \<Rightarrow> string" where
  "maintenance_config_error_display (EmptyField field) =
     ''tenant_maintenance_config_invalid: '' @ field @ ''_empty''"
| "maintenance_config_error_display (NonPositiveField field) =
     ''tenant_maintenance_config_invalid: '' @ field @ ''_non_positive''"

section \<open>The worker\<close>

datatype 't maintenance_stage = StageSucceeded 't | StageFailed string

record postgres_tenant_maintenance_report =
  mr_scheduled_sweep :: "token_refresh_scheduled_sweep_report maintenance_stage"
  mr_outbox_drain :: "audit_outbox_drain_report maintenance_stage"

record maintenance_worker_config =
  mw_sweep_config :: token_refresh_scheduled_sweep_config
  mw_drain_config :: audit_outbox_drain_config

text \<open>The worker's state: the database behind the pool, adapter, dispatcher and the shared clock.\<close>

record ('a, 'd, 'c) maintenance_state =
  ms_db :: refresh_db
  ms_adapter :: 'a
  ms_dispatcher :: 'd
  ms_clock :: 'c

definition maintenance_try_new ::
  "postgres_tenant_maintenance_config \<Rightarrow> (maintenance_worker_config, maintenance_config_error) result" where
  "maintenance_try_new c =
     try_then (maintenance_config_validate c) (\<lambda>_. Ok \<lparr>
       mw_sweep_config = \<lparr>cf_tenant_id = mc_tenant_id c, cf_lease_id = mc_lease_id c,
         cf_lease_ms = mc_scheduled_lease_ms c, cf_retry_delay_ms = mc_scheduled_retry_delay_ms c,
         cf_next_run_delay_ms = mc_scheduled_next_run_delay_ms c,
         cf_backlog_next_run_delay_ms = mc_scheduled_backlog_next_run_delay_ms c,
         cf_due_before_ms = mc_scheduled_due_before_ms c, cf_limit = mc_scheduled_limit c,
         cf_audit_trace_id = mc_scheduled_audit_trace_id c,
         cf_audit_sequence_start = mc_scheduled_audit_sequence_start c,
         cf_actor = mc_scheduled_actor c, cf_workspace_id = mc_scheduled_workspace_id c\<rparr>,
       mw_drain_config = \<lparr>dc_tenant_id = mc_tenant_id c, dc_stream = mc_audit_stream c,
         dc_batch_limit = mc_outbox_batch_limit c, dc_lease_ms = mc_outbox_lease_ms c,
         dc_retry_delay_ms = mc_outbox_retry_delay_ms c,
         dc_max_attempts = mc_outbox_max_attempts c\<rparr>\<rparr>)"

definition stage_failure :: "postgres_repository_error \<Rightarrow> string" where
  "stage_failure error = postgres_repository_safe_error ''tenant_maintenance_stage_failed'' error"

definition stage_of ::
  "('t, postgres_repository_error) result \<Rightarrow> 't maintenance_stage" where
  "stage_of r = (case r of Inr report \<Rightarrow> StageSucceeded report
     | Inl error \<Rightarrow> StageFailed (stage_failure error))"

definition run_sweep_stage ::
  "(int \<Rightarrow> timestamptz option) \<Rightarrow> audit_json \<Rightarrow> (string \<Rightarrow> 'k::linorder) \<Rightarrow> bool \<Rightarrow> ('a, 'c) sweep_ops
     \<Rightarrow> maintenance_worker_config \<Rightarrow> ('a, 'd, 'c) maintenance_state
     \<Rightarrow> (token_refresh_scheduled_sweep_report, postgres_repository_error) result
        \<times> ('a, 'd, 'c) maintenance_state" where
  "run_sweep_stage to_ts J collate job_locked W cfg m =
     (let (r, s) = scheduled_run_once to_ts J collate job_locked W (mw_sweep_config cfg)
            \<lparr>sw_db = ms_db m, sw_adapter = ms_adapter m, sw_clock = ms_clock m\<rparr>
      in (r, m\<lparr>ms_db := sw_db s, ms_adapter := sw_adapter s, ms_clock := sw_clock s\<rparr>))"

definition run_drain_stage ::
  "(int \<Rightarrow> timestamptz option) \<Rightarrow> (int \<Rightarrow> bool) \<Rightarrow> ('d, 'c, 'e) outbox_worker_ops
     \<Rightarrow> maintenance_worker_config \<Rightarrow> ('a, 'd, 'c) maintenance_state
     \<Rightarrow> (audit_outbox_drain_report, postgres_repository_error) result
        \<times> ('a, 'd, 'c) maintenance_state" where
  "run_drain_stage to_ts outbox_locked D cfg m =
     (let (r, w) = drain_once to_ts outbox_locked D (mw_drain_config cfg)
            \<lparr>ow_repository = rd_audit (ms_db m), ow_dispatcher = ms_dispatcher m, ow_clock = ms_clock m\<rparr>
      in (r, m\<lparr>ms_db := (ms_db m)\<lparr>rd_audit := ow_repository w\<rparr>, ms_dispatcher := ow_dispatcher w,
            ms_clock := ow_clock w\<rparr>))"

definition maintenance_run_once ::
  "(int \<Rightarrow> timestamptz option) \<Rightarrow> audit_json \<Rightarrow> (string \<Rightarrow> 'k::linorder) \<Rightarrow> bool \<Rightarrow> (int \<Rightarrow> bool)
     \<Rightarrow> ('a, 'c) sweep_ops \<Rightarrow> ('d, 'c, 'e) outbox_worker_ops \<Rightarrow> maintenance_worker_config
     \<Rightarrow> ('a, 'd, 'c) maintenance_state
     \<Rightarrow> (postgres_tenant_maintenance_report, postgres_repository_error) result
        \<times> ('a, 'd, 'c) maintenance_state" where
  "maintenance_run_once to_ts J collate job_locked outbox_locked W D cfg m =
     (let (sweep, m) = run_sweep_stage to_ts J collate job_locked W cfg m;
          (drain, m) = run_drain_stage to_ts outbox_locked D cfg m
      in (Ok \<lparr>mr_scheduled_sweep = stage_of sweep, mr_outbox_drain = stage_of drain\<rparr>, m))"

section \<open>Properties\<close>

lemma validators_Ok_iff [simp]:
  "validate_non_empty f v = Inr () \<longleftrightarrow> trim v \<noteq> []"
  "validate_non_zero_u64 f w = Inr () \<longleftrightarrow> w \<noteq> 0"
  "validate_non_zero_u32 f x = Inr () \<longleftrightarrow> x \<noteq> 0"
  "validate_positive_i64 f n = Inr () \<longleftrightarrow> 0 < n"
  by (auto simp: validate_non_empty_def validate_non_zero_u64_def validate_non_zero_u32_def
      validate_positive_i64_def)

text \<open>
  A maintenance worker can be built exactly when the four texts are not blank and every delay,
  lease, limit and attempt bound is positive. Both of its stages then work on the configured
  tenant, the sweep asks for at least one grant and the drain for at least one message.
\<close>

theorem maintenance_config_accepted_iff:
  "(\<exists>w. maintenance_try_new c = Ok w \<and> cf_tenant_id (mw_sweep_config w) = mc_tenant_id c \<and>
      dc_tenant_id (mw_drain_config w) = mc_tenant_id c \<and> cf_limit (mw_sweep_config w) \<noteq> 0 \<and>
      0 < dc_batch_limit (mw_drain_config w)) \<longleftrightarrow>
   trim (mc_tenant_id c) \<noteq> [] \<and> trim (mc_lease_id c) \<noteq> [] \<and> trim (mc_audit_stream c) \<noteq> [] \<and>
   trim (mc_scheduled_audit_trace_id c) \<noteq> [] \<and> mc_scheduled_lease_ms c \<noteq> 0 \<and>
   mc_scheduled_retry_delay_ms c \<noteq> 0 \<and> mc_scheduled_next_run_delay_ms c \<noteq> 0 \<and>
   mc_scheduled_backlog_next_run_delay_ms c \<noteq> 0 \<and> mc_scheduled_limit c \<noteq> 0 \<and>
   0 < mc_outbox_batch_limit c \<and> mc_outbox_lease_ms c \<noteq> 0 \<and> mc_outbox_retry_delay_ms c \<noteq> 0 \<and>
   mc_outbox_max_attempts c \<noteq> 0"
  by (auto simp: maintenance_try_new_def maintenance_config_validate_def try_then_Ok_iff)

lemma stage_failed_text:
  "stage_of r = StageFailed msg \<Longrightarrow>
    \<exists>reason \<in> set safe_error_reasons. msg = ''tenant_maintenance_stage_failed: '' @ reason"
  using safe_error_reason_fixed
  by (auto simp: stage_of_def stage_failure_def postgres_repository_safe_error_def split: sum.splits)

text \<open>
  A maintenance run always returns a report. Its outbox stage is the drain on the database and
  clock that the sweep left, whether the sweep returned a report or an error, and a failed stage
  is reported by one of the fixed texts, never by anything the error carries.
\<close>

theorem maintenance_stages_isolated:
  fixes collate :: "string \<Rightarrow> 'k::linorder"
  shows "\<exists>rep sweep m1 drain m2. maintenance_run_once to_ts J collate job_locked outbox_locked W D cfg m = (Ok rep, m2) \<and>
    run_sweep_stage to_ts J collate job_locked W cfg m = (sweep, m1) \<and>
    run_drain_stage to_ts outbox_locked D cfg m1 = (drain, m2) \<and>
    mr_scheduled_sweep rep = stage_of sweep \<and> mr_outbox_drain rep = stage_of drain \<and>
    (\<forall>msg. mr_scheduled_sweep rep = StageFailed msg \<or> mr_outbox_drain rep = StageFailed msg \<longrightarrow>
      (\<exists>reason \<in> set safe_error_reasons. msg = ''tenant_maintenance_stage_failed: '' @ reason))"
proof -
  obtain sweep m1 where s: "run_sweep_stage to_ts J collate job_locked W cfg m = (sweep, m1)" by fastforce
  obtain drain m2 where d: "run_drain_stage to_ts outbox_locked D cfg m1 = (drain, m2)" by fastforce
  from s d stage_failed_text [of sweep] stage_failed_text [of drain] show ?thesis
    by (fastforce simp: maintenance_run_once_def)
qed

end
