(* ===== verification/Execution_Store.thy ===== *)
theory Execution_Store
  imports Safe_Error Audit_Store Operation_Ledger Review_Inbox Proposed_Action
begin

text \<open>
  The Postgres operation ledger and the recorder of executions
  (\<open>storage/postgres/operation_ledger_sql.rs\<close>, \<open>repository_sqlx/action_execution.rs\<close> and
  \<open>repository_sqlx/action_execution/\<close>, the row reader and codec of actions, the inbox projection of
  \<open>repository_sqlx/review_inbox.rs\<close>, and the tables of the first two migrations). A status change,
  its inbox projection, its audit event and its outbox message are one transaction.

  A sequence value drawn in a transaction that is rolled back is skipped by Postgres and drawn
  again here; no theorem depends on its value.
\<close>

section \<open>Tables\<close>

record action_row =
  xa_action_id :: string
  xa_tenant_id :: string
  xa_actor_user_id :: string
  xa_idempotency_key :: string
  xa_status :: string
  xa_confirmed_at :: "timestamptz option"

record operation_row =
  xo_operation_id :: string
  xo_tenant_id :: string
  xo_action_id :: string
  xo_idempotency_key :: string
  xo_status :: string
  xo_last_error :: "string option"
  xo_executing_at :: "timestamptz option"
  xo_finished_at :: "timestamptz option"
  xo_created_at :: timestamptz
  xo_updated_at :: timestamptz

record inbox_row =
  xi_id :: string
  xi_tenant_id :: string
  xi_user_id :: string
  xi_proposed_action_id :: string
  xi_proposed_action_version :: int
  xi_risk_score :: int
  xi_priority :: int
  xi_status :: string
  xi_sort_key :: int
  xi_source_cursor_value :: int
  xi_sync_cursor_value :: int
  xi_updated_at :: timestamptz
  xi_ledger_status :: "string option"
  xi_operation_id :: "string option"

record decision_row =
  xn_id :: string
  xn_tenant_id :: string
  xn_proposed_action_id :: string
  xn_proposed_action_version :: int
  xn_actor_user_id :: string
  xn_decision :: string
  xn_edited_payload :: "json option"
  xn_confirmed_action_id :: "string option"
  xn_decided_at :: timestamptz

record proposal_row =
  xp_id :: string
  xp_tenant_id :: string
  xp_actor_user_id :: string
  xp_target_user_id :: "string option"
  xp_owner_user_id :: "string option"
  xp_version :: int
  xp_status :: string
  xp_kind :: string
  xp_custom_kind :: "string option"
  xp_risk_severity :: string
  xp_suggested_payload :: json
  xp_published_at :: "timestamptz option"

record evidence_ref_row =
  xe_tenant_id :: string
  xe_proposed_action_id :: string
  xe_proposed_action_version :: int
  xe_evidence_id :: string

record evidence_row =
  xv_id :: string
  xv_tenant_id :: string
  xv_summary :: string
  xv_source_kind :: string
  xv_source_id :: string
  xv_locator :: "string option"
  xv_content_hash :: string
  xv_visibility_scope :: string
  xv_observed_at :: timestamptz
  xv_recorded_at :: timestamptz

record execution_db =
  xd_users :: "(string \<times> string) list"
  xd_actions :: "action_row list"
  xd_operations :: "operation_row list"
  xd_inbox :: "inbox_row list"
  xd_cursor_seq :: int
  xd_decisions :: "decision_row list"
  xd_proposals :: "proposal_row list"
  xd_evidence_refs :: "evidence_ref_row list"
  xd_evidence :: "evidence_row list"
  xd_audit :: audit_db

text \<open>The audit tables refer to the operations of the ledger.\<close>

definition audit_of :: "execution_db \<Rightarrow> audit_db" where
  "audit_of db = (xd_audit db)\<lparr>ad_operations :=
     map (\<lambda>r. (xo_tenant_id r, xo_operation_id r)) (xd_operations db)\<rparr>"

definition on_audit_of ::
  "execution_db \<Rightarrow> ('a, 'e) result \<times> audit_db \<Rightarrow> ('a, 'e) result \<times> execution_db" where
  "on_audit_of db r = (fst r, db\<lparr>xd_audit := snd r\<rparr>)"

section \<open>Codec\<close>

fun action_status_to_db :: "action_status \<Rightarrow> string" where
  "action_status_to_db Proposed = ''proposed''"
| "action_status_to_db Confirmed = ''confirmed''"
| "action_status_to_db Executing = ''executing''"
| "action_status_to_db Succeeded = ''succeeded''"
| "action_status_to_db Failed = ''failed''"
| "action_status_to_db Cancelled = ''cancelled''"

definition action_status_from_db :: "string \<Rightarrow> (action_status, postgres_repository_error) result" where
  "action_status_from_db value =
     (if value = ''proposed'' then Ok Proposed
      else if value = ''confirmed'' then Ok Confirmed
      else if value = ''executing'' then Ok Executing
      else if value = ''succeeded'' then Ok Succeeded
      else if value = ''failed'' then Ok Failed
      else if value = ''cancelled'' then Ok Cancelled
      else Err (UnknownActionStatus value))"

fun review_inbox_item_status_to_db :: "review_inbox_item_status \<Rightarrow> string" where
  "review_inbox_item_status_to_db InboxOpen = ''open''"
| "review_inbox_item_status_to_db InboxConfirmed = ''confirmed''"
| "review_inbox_item_status_to_db InboxRejected = ''rejected''"
| "review_inbox_item_status_to_db InboxExecuting = ''executing''"
| "review_inbox_item_status_to_db InboxSucceeded = ''succeeded''"
| "review_inbox_item_status_to_db InboxFailed = ''failed''"
| "review_inbox_item_status_to_db InboxWithdrawn = ''withdrawn''"

definition operation_record_from_row ::
  "operation_row \<Rightarrow> (operation_record, postgres_repository_error) result" where
  "operation_record_from_row r =
     try_then (action_status_from_db (xo_status r)) (\<lambda>status.
       Ok \<lparr>op_operation_id = xo_operation_id r, op_tenant_id = xo_tenant_id r,
          op_action_id = xo_action_id r, op_idempotency_key = xo_idempotency_key r,
          op_status = status, op_last_error = xo_last_error r\<rparr>)"

section \<open>Statements of the ledger\<close>

text \<open>
  The keys and references that an insert must respect beside the one of its \<open>ON CONFLICT\<close>: primary
  keys are unique over all tenants.
\<close>

definition action_insertable :: "execution_db \<Rightarrow> action_row \<Rightarrow> bool" where
  "action_insertable db r \<longleftrightarrow>
     xa_tenant_id r \<in> set (ad_tenants (xd_audit db)) \<and>
     (xa_tenant_id r, xa_actor_user_id r) \<in> set (xd_users db) \<and>
     xa_action_id r \<notin> xa_action_id ` set (xd_actions db)"

definition operation_insertable :: "execution_db \<Rightarrow> operation_row \<Rightarrow> bool" where
  "operation_insertable db r \<longleftrightarrow> xo_operation_id r \<notin> xo_operation_id ` set (xd_operations db)"

definition SUBMIT_CONFIRMED_ACTION_AND_LEDGER ::
  "(int \<Rightarrow> timestamptz option) \<Rightarrow> timestamptz \<Rightarrow> execution_db \<Rightarrow> string \<Rightarrow> string \<Rightarrow> string \<Rightarrow> string \<Rightarrow> int
     \<Rightarrow> string \<Rightarrow> ((operation_row \<times> bool) \<times> execution_db, postgres_repository_error) result" where
  "SUBMIT_CONFIRMED_ACTION_AND_LEDGER to_ts db_now db action_id tenant actor key confirmed_at_ms operation_id =
     try_then (sql_timestamp to_ts confirmed_at_ms) (\<lambda>confirmed_at.
       let known_action = find (\<lambda>r. xa_tenant_id r = tenant \<and> xa_idempotency_key r = key) (xd_actions db);
           new_action = \<lparr>xa_action_id = action_id, xa_tenant_id = tenant, xa_actor_user_id = actor,
             xa_idempotency_key = key, xa_status = ''confirmed'', xa_confirmed_at = Some confirmed_at\<rparr>;
           canonical = (case known_action of Some r \<Rightarrow> r | None \<Rightarrow> new_action);
           known_operation = find (\<lambda>r. xo_tenant_id r = tenant \<and> xo_idempotency_key r = key) (xd_operations db);
           new_operation = \<lparr>xo_operation_id = operation_id, xo_tenant_id = xa_tenant_id canonical,
             xo_action_id = xa_action_id canonical, xo_idempotency_key = xa_idempotency_key canonical,
             xo_status = ''confirmed'', xo_last_error = None, xo_executing_at = None,
             xo_finished_at = None, xo_created_at = db_now, xo_updated_at = db_now\<rparr>
       in if known_action = None \<and> \<not> action_insertable db new_action \<or>
             known_operation = None \<and> \<not> operation_insertable db new_operation
          then Err (Sqlx (DatabaseError ''constraint violation''))
          else Ok ((case known_operation of None \<Rightarrow> (new_operation, True) | Some r \<Rightarrow> (r, False)),
            db\<lparr>xd_actions := (if known_action = None then xd_actions db @ [new_action] else xd_actions db),
               xd_operations := (if known_operation = None then xd_operations db @ [new_operation]
                 else xd_operations db)\<rparr>))"

text \<open>\<open>UPDATE operation_ledger SET f WHERE tenant_id, idempotency_key, status RETURNING ...\<close>.\<close>

definition operation_in :: "string \<Rightarrow> string \<Rightarrow> string \<Rightarrow> operation_row \<Rightarrow> bool" where
  "operation_in tenant key status r \<longleftrightarrow>
     xo_tenant_id r = tenant \<and> xo_idempotency_key r = key \<and> xo_status r = status"

definition update_operation ::
  "(operation_row \<Rightarrow> bool) \<Rightarrow> (operation_row \<Rightarrow> operation_row) \<Rightarrow> execution_db
     \<Rightarrow> operation_row option \<times> execution_db" where
  "update_operation P f db = (map_option f (find P (xd_operations db)),
     db\<lparr>xd_operations := map_where P f (xd_operations db)\<rparr>)"

definition MARK_EXECUTING ::
  "(int \<Rightarrow> timestamptz option) \<Rightarrow> execution_db \<Rightarrow> string \<Rightarrow> string \<Rightarrow> int
     \<Rightarrow> (operation_row option \<times> execution_db, postgres_repository_error) result" where
  "MARK_EXECUTING to_ts db tenant key now_ms =
     try_then (sql_timestamp to_ts now_ms) (\<lambda>now.
       Ok (update_operation (operation_in tenant key ''confirmed'')
         (\<lambda>r. r\<lparr>xo_status := ''executing'', xo_executing_at := Some now, xo_updated_at := now,
            xo_last_error := None\<rparr>) db))"

definition MARK_SUCCEEDED ::
  "(int \<Rightarrow> timestamptz option) \<Rightarrow> execution_db \<Rightarrow> string \<Rightarrow> string \<Rightarrow> int
     \<Rightarrow> (operation_row option \<times> execution_db, postgres_repository_error) result" where
  "MARK_SUCCEEDED to_ts db tenant key now_ms =
     try_then (sql_timestamp to_ts now_ms) (\<lambda>now.
       Ok (update_operation (operation_in tenant key ''executing'')
         (\<lambda>r. r\<lparr>xo_status := ''succeeded'', xo_finished_at := Some now, xo_updated_at := now,
            xo_last_error := None\<rparr>) db))"

definition MARK_FAILED ::
  "(int \<Rightarrow> timestamptz option) \<Rightarrow> execution_db \<Rightarrow> string \<Rightarrow> string \<Rightarrow> string \<Rightarrow> int
     \<Rightarrow> (operation_row option \<times> execution_db, postgres_repository_error) result" where
  "MARK_FAILED to_ts db tenant key error now_ms =
     try_then (sql_timestamp to_ts now_ms) (\<lambda>now.
       Ok (update_operation (operation_in tenant key ''executing'')
         (\<lambda>r. r\<lparr>xo_status := ''failed'', xo_finished_at := Some now, xo_updated_at := now,
            xo_last_error := Some error\<rparr>) db))"

definition GET_BY_IDEMPOTENCY_KEY :: "execution_db \<Rightarrow> string \<Rightarrow> string \<Rightarrow> operation_row option" where
  "GET_BY_IDEMPOTENCY_KEY db tenant key =
     find (\<lambda>r. xo_tenant_id r = tenant \<and> xo_idempotency_key r = key) (xd_operations db)"

section \<open>The ledger repository\<close>

definition submit_confirmed_action_with_executor ::
  "(int \<Rightarrow> timestamptz option) \<Rightarrow> timestamptz \<Rightarrow> execution_db \<Rightarrow> confirmed_action \<Rightarrow> u64 \<Rightarrow> string
     \<Rightarrow> (submit_result, postgres_repository_error) result \<times> execution_db" where
  "submit_confirmed_action_with_executor to_ts db_now db action confirmed_at_ms operation_id =
     try_st (exec_sql db (SUBMIT_CONFIRMED_ACTION_AND_LEDGER to_ts db_now db (ca_action_id action)
         (ca_tenant_id action) (ca_actor_user_id action) (ca_idempotency_key action)
         (u64_as_i64 confirmed_at_ms) operation_id))
       (\<lambda>(row, created) db. (try_then (operation_record_from_row row)
          (\<lambda>record. Ok (if created then Created record else Existing record)), db))"

text \<open>On the pool and in a transaction the same check comes first.\<close>

definition pg_submit_confirmed_action ::
  "(int \<Rightarrow> timestamptz option) \<Rightarrow> timestamptz \<Rightarrow> execution_db \<Rightarrow> confirmed_action \<Rightarrow> u64 \<Rightarrow> string
     \<Rightarrow> (submit_result, postgres_repository_error) result \<times> execution_db" where
  "pg_submit_confirmed_action to_ts db_now db action confirmed_at_ms operation_id =
     (if ca_status action \<noteq> Confirmed then (Err (ActionNotConfirmed (ca_status action)), db)
      else submit_confirmed_action_with_executor to_ts db_now db action confirmed_at_ms operation_id)"

fun submit_result_parts :: "submit_result \<Rightarrow> operation_record \<times> bool" where
  "submit_result_parts (Created record) = (record, False)"
| "submit_result_parts (Existing record) = (record, True)"

datatype operation_status_transition = ToExecuting | ToSucceeded | ToFailed

fun target_status :: "operation_status_transition \<Rightarrow> action_status" where
  "target_status ToExecuting = Executing"
| "target_status ToSucceeded = Succeeded"
| "target_status ToFailed = Failed"

text \<open>A statement is sent with an error text bound or without; only one of the two fits its parameters.\<close>

definition transition_statement ::
  "(int \<Rightarrow> timestamptz option) \<Rightarrow> execution_db \<Rightarrow> operation_status_transition \<Rightarrow> string \<Rightarrow> string
     \<Rightarrow> string option \<Rightarrow> int \<Rightarrow> (operation_row option \<times> execution_db, postgres_repository_error) result" where
  "transition_statement to_ts db transition tenant key error now_ms = (case (transition, error) of
      (ToExecuting, None) \<Rightarrow> MARK_EXECUTING to_ts db tenant key now_ms
    | (ToSucceeded, None) \<Rightarrow> MARK_SUCCEEDED to_ts db tenant key now_ms
    | (ToFailed, Some e) \<Rightarrow> MARK_FAILED to_ts db tenant key e now_ms
    | _ \<Rightarrow> Err (Sqlx (DatabaseError ''wrong number of parameters'')))"

definition transition_operation_with_executor ::
  "(int \<Rightarrow> timestamptz option) \<Rightarrow> execution_db \<Rightarrow> operation_status_transition \<Rightarrow> string \<Rightarrow> string
     \<Rightarrow> string option \<Rightarrow> u64
     \<Rightarrow> (operation_record option, postgres_repository_error) result \<times> execution_db" where
  "transition_operation_with_executor to_ts db transition tenant_id idempotency_key error now_ms =
     (let safe_error = map_option sanitize_adapter_error_message error
      in try_st (exec_sql db (transition_statement to_ts db transition tenant_id idempotency_key
             safe_error (u64_as_i64 now_ms)))
           (\<lambda>row db. (transpose_map operation_record_from_row row, db)))"

definition get_operation_by_idempotency_key ::
  "execution_db \<Rightarrow> string \<Rightarrow> string \<Rightarrow> (operation_record option, postgres_repository_error) result" where
  "get_operation_by_idempotency_key db tenant_id idempotency_key =
     transpose_map operation_record_from_row (GET_BY_IDEMPOTENCY_KEY db tenant_id idempotency_key)"

definition resolve_transition_miss ::
  "operation_record option \<Rightarrow> operation_status_transition \<Rightarrow> string
     \<Rightarrow> (operation_record \<times> bool, postgres_repository_error) result" where
  "resolve_transition_miss existing transition idempotency_key = (case existing of
      Some record \<Rightarrow>
        if op_status record = target_status transition then Ok (record, True)
        else Err (InvalidOperationStatusTransition (op_status record) (target_status transition))
    | None \<Rightarrow> Err (UnknownOperationIdempotencyKey idempotency_key))"

definition transition_in_tx ::
  "(int \<Rightarrow> timestamptz option) \<Rightarrow> execution_db \<Rightarrow> operation_status_transition \<Rightarrow> string \<Rightarrow> string
     \<Rightarrow> string option \<Rightarrow> u64
     \<Rightarrow> (operation_record \<times> bool, postgres_repository_error) result \<times> execution_db" where
  "transition_in_tx to_ts db transition tenant_id idempotency_key error now_ms =
     try_st (transition_operation_with_executor to_ts db transition tenant_id idempotency_key error now_ms)
       (\<lambda>row db. case row of
          Some record \<Rightarrow> (Ok (record, False), db)
        | None \<Rightarrow> (try_then (get_operation_by_idempotency_key db tenant_id idempotency_key) (\<lambda>existing.
            resolve_transition_miss existing transition idempotency_key), db))"

fun ledger_error_from_repository_error :: "postgres_repository_error \<Rightarrow> ledger_error" where
  "ledger_error_from_repository_error (InvalidOperationStatusTransition from to) = InvalidTransition from to"
| "ledger_error_from_repository_error (UnknownOperationIdempotencyKey key) = UnknownIdempotencyKey key"
| "ledger_error_from_repository_error error =
     RepositoryFailure (postgres_repository_safe_error_reason error)"

text \<open>The repository's own transitions run on the pool; the calls and their order are the same.\<close>

definition pg_ledger_transition ::
  "(int \<Rightarrow> timestamptz option) \<Rightarrow> execution_db \<Rightarrow> operation_status_transition \<Rightarrow> string \<Rightarrow> string
     \<Rightarrow> string option \<Rightarrow> u64 \<Rightarrow> (operation_record, ledger_error) result \<times> execution_db" where
  "pg_ledger_transition to_ts db transition tenant_id idempotency_key error now_ms =
     (let (r, db') = transition_operation_with_executor to_ts db transition tenant_id idempotency_key
            error now_ms
      in try_st (map_err ledger_error_from_repository_error r, db') (\<lambda>row db. case row of
           Some record \<Rightarrow> (Ok record, db)
         | None \<Rightarrow> (try_then (map_err ledger_error_from_repository_error
               (get_operation_by_idempotency_key db tenant_id idempotency_key)) (\<lambda>existing.
             try_then (map_err ledger_error_from_repository_error
               (resolve_transition_miss existing transition idempotency_key)) (\<lambda>(record, _).
               Ok record)), db)))"

definition pg_mark_executing ::
  "(int \<Rightarrow> timestamptz option) \<Rightarrow> execution_db \<Rightarrow> string \<Rightarrow> string \<Rightarrow> u64
     \<Rightarrow> (operation_record, ledger_error) result \<times> execution_db" where
  "pg_mark_executing to_ts db tenant_id idempotency_key now_ms =
     pg_ledger_transition to_ts db ToExecuting tenant_id idempotency_key None now_ms"

definition pg_mark_succeeded ::
  "(int \<Rightarrow> timestamptz option) \<Rightarrow> execution_db \<Rightarrow> string \<Rightarrow> string \<Rightarrow> u64
     \<Rightarrow> (operation_record, ledger_error) result \<times> execution_db" where
  "pg_mark_succeeded to_ts db tenant_id idempotency_key now_ms =
     pg_ledger_transition to_ts db ToSucceeded tenant_id idempotency_key None now_ms"

definition pg_mark_failed ::
  "(int \<Rightarrow> timestamptz option) \<Rightarrow> execution_db \<Rightarrow> string \<Rightarrow> string \<Rightarrow> string \<Rightarrow> u64
     \<Rightarrow> (operation_record, ledger_error) result \<times> execution_db" where
  "pg_mark_failed to_ts db tenant_id idempotency_key error now_ms =
     pg_ledger_transition to_ts db ToFailed tenant_id idempotency_key (Some error) now_ms"

section \<open>The inbox projection\<close>

fun review_inbox_status_for_ledger_status :: "action_status \<Rightarrow> review_inbox_item_status option" where
  "review_inbox_status_for_ledger_status Confirmed = None"
| "review_inbox_status_for_ledger_status Proposed = None"
| "review_inbox_status_for_ledger_status Executing = Some InboxExecuting"
| "review_inbox_status_for_ledger_status Succeeded = Some InboxSucceeded"
| "review_inbox_status_for_ledger_status Failed = Some InboxFailed"
| "review_inbox_status_for_ledger_status Cancelled = Some InboxFailed"

definition projectable :: "string \<Rightarrow> string \<Rightarrow> inbox_row \<Rightarrow> bool" where
  "projectable tenant operation_id r \<longleftrightarrow>
     xi_tenant_id r = tenant \<and> xi_operation_id r = Some operation_id \<and>
     xi_status r \<notin> {''rejected'', ''succeeded'', ''failed'', ''withdrawn''} \<and>
     (case xi_ledger_status r of None \<Rightarrow> ''confirmed'' | Some s \<Rightarrow> s) \<notin>
       {''succeeded'', ''failed'', ''cancelled''}"

text \<open>
  \<open>GREATEST(nextval(...), sync_cursor_value + 1)\<close>: at most one row is updated, since an operation
  has at most one inbox item; the sequence is drawn from only for a row that is.
\<close>

definition next_cursor :: "execution_db \<Rightarrow> inbox_row \<Rightarrow> int" where
  "next_cursor db r = max (xd_cursor_seq db) (xi_sync_cursor_value r + 1)"

definition update_inbox ::
  "(inbox_row \<Rightarrow> bool) \<Rightarrow> (inbox_row \<Rightarrow> inbox_row) \<Rightarrow> execution_db
     \<Rightarrow> (string option \<times> execution_db, postgres_repository_error) result" where
  "update_inbox P f db = (case find P (xd_inbox db) of
      None \<Rightarrow> Ok (None, db)
    | Some r \<Rightarrow>
        if 2 ^ 63 \<le> next_cursor db r then Err (Sqlx (DatabaseError ''bigint out of range''))
        else Ok (Some (xi_id r), db\<lparr>xd_cursor_seq := xd_cursor_seq db + 1, xd_inbox :=
          map_where P (\<lambda>r. (f r)\<lparr>xi_sync_cursor_value := next_cursor db r\<rparr>) (xd_inbox db)\<rparr>))"

definition UPDATE_REVIEW_INBOX_LEDGER_PROJECTION ::
  "(int \<Rightarrow> timestamptz option) \<Rightarrow> execution_db \<Rightarrow> string \<Rightarrow> string \<Rightarrow> string \<Rightarrow> string \<Rightarrow> int
     \<Rightarrow> (string option \<times> execution_db, postgres_repository_error) result" where
  "UPDATE_REVIEW_INBOX_LEDGER_PROJECTION to_ts db tenant operation_id status ledger_status now_ms =
     try_then (sql_timestamp to_ts now_ms) (\<lambda>now.
       update_inbox (projectable tenant operation_id)
         (\<lambda>r. r\<lparr>xi_status := status, xi_ledger_status := Some ledger_status, xi_updated_at := now\<rparr>) db)"

definition update_review_inbox_ledger_projection_in_tx ::
  "(int \<Rightarrow> timestamptz option) \<Rightarrow> execution_db \<Rightarrow> operation_record \<Rightarrow> action_status \<Rightarrow> u64
     \<Rightarrow> (string option, postgres_repository_error) result \<times> execution_db" where
  "update_review_inbox_ledger_projection_in_tx to_ts db operation ledger_status now_ms =
     (case review_inbox_status_for_ledger_status ledger_status of
        None \<Rightarrow> (Ok None, db)
      | Some inbox_status \<Rightarrow>
          exec_sql db (UPDATE_REVIEW_INBOX_LEDGER_PROJECTION to_ts db (op_tenant_id operation)
            (op_operation_id operation) (review_inbox_item_status_to_db inbox_status)
            (action_status_to_db ledger_status) (u64_as_i64 now_ms)))"

section \<open>The execution recorder\<close>

record audit_outbox_envelope =
  ov_tenant_id :: string
  ov_stream :: string
  ov_aggregate_id :: string
  ov_payload :: json
  ov_next_attempt_at_ms :: u64

record postgres_execution_recorder_report =
  xr_operation :: operation_record
  xr_outbox_id :: "int option"
  xr_inbox_item_id :: "string option"
  xr_duplicate :: bool

definition validate_recorder_tenant ::
  "string \<Rightarrow> audit_event \<Rightarrow> audit_outbox_envelope \<Rightarrow> (unit, postgres_repository_error) result" where
  "validate_recorder_tenant expected_tenant_id event outbox =
     (if as_tenant_id (ae_scope event) \<noteq> expected_tenant_id
      then Err (TenantMismatch ''event.scope.tenant_id'' expected_tenant_id (as_tenant_id (ae_scope event)))
      else if ov_tenant_id outbox \<noteq> expected_tenant_id
      then Err (TenantMismatch ''outbox.tenant_id'' expected_tenant_id (ov_tenant_id outbox))
      else Ok ())"

definition append_audit_event_in_tx ::
  "audit_json \<Rightarrow> execution_db \<Rightarrow> audit_event \<Rightarrow> string option
     \<Rightarrow> (unit, postgres_repository_error) result \<times> execution_db" where
  "append_audit_event_in_tx J db event operation_id =
     on_audit_of db (pg_audit_append J (audit_of db) event operation_id)"

definition enqueue_outbox_in_tx ::
  "(int \<Rightarrow> timestamptz option) \<Rightarrow> timestamptz \<Rightarrow> execution_db \<Rightarrow> audit_outbox_envelope
     \<Rightarrow> (int, postgres_repository_error) result \<times> execution_db" where
  "enqueue_outbox_in_tx to_ts db_now db outbox =
     on_audit_of db (enqueue_outbox to_ts db_now (audit_of db) (ov_tenant_id outbox) (ov_stream outbox)
       (ov_aggregate_id outbox) (ov_payload outbox) (ov_next_attempt_at_ms outbox))"

definition record_confirmation ::
  "(int \<Rightarrow> timestamptz option) \<Rightarrow> audit_json \<Rightarrow> timestamptz \<Rightarrow> execution_db \<Rightarrow> confirmed_action \<Rightarrow> u64 \<Rightarrow> string
     \<Rightarrow> audit_event \<Rightarrow> audit_outbox_envelope
     \<Rightarrow> (postgres_execution_recorder_report, postgres_repository_error) result \<times> execution_db" where
  "record_confirmation to_ts J db_now db action confirmed_at_ms operation_id event outbox =
     try_st (validate_recorder_tenant (ca_tenant_id action) event outbox, db) (\<lambda>_ db.
       in_tx db (try_st (pg_submit_confirmed_action to_ts db_now db action confirmed_at_ms operation_id)
         (\<lambda>submit db.
           let (operation, duplicate) = submit_result_parts submit
           in if duplicate
              then (Ok \<lparr>xr_operation = operation, xr_outbox_id = None, xr_inbox_item_id = None,
                       xr_duplicate = duplicate\<rparr>, db)
              else try_st (append_audit_event_in_tx J db event (Some (op_operation_id operation))) (\<lambda>_ db.
                   try_st (enqueue_outbox_in_tx to_ts db_now db outbox) (\<lambda>outbox_id db.
                     (Ok \<lparr>xr_operation = operation, xr_outbox_id = Some outbox_id,
                          xr_inbox_item_id = None, xr_duplicate = duplicate\<rparr>, db))))))"

definition record_status_transition ::
  "(int \<Rightarrow> timestamptz option) \<Rightarrow> audit_json \<Rightarrow> timestamptz \<Rightarrow> execution_db \<Rightarrow> operation_status_transition
     \<Rightarrow> string \<Rightarrow> string \<Rightarrow> string option \<Rightarrow> u64 \<Rightarrow> audit_event \<Rightarrow> audit_outbox_envelope
     \<Rightarrow> (postgres_execution_recorder_report, postgres_repository_error) result \<times> execution_db" where
  "record_status_transition to_ts J db_now db transition tenant_id idempotency_key error now_ms event outbox =
     try_st (validate_recorder_tenant tenant_id event outbox, db) (\<lambda>_ db.
       in_tx db (try_st (transition_in_tx to_ts db transition tenant_id idempotency_key error now_ms)
         (\<lambda>(operation, duplicate) db.
           if duplicate
           then (Ok \<lparr>xr_operation = operation, xr_outbox_id = None, xr_inbox_item_id = None,
                    xr_duplicate = duplicate\<rparr>, db)
           else try_st (update_review_inbox_ledger_projection_in_tx to_ts db operation
                  (target_status transition) now_ms) (\<lambda>inbox_item_id db.
                try_st (append_audit_event_in_tx J db event (Some (op_operation_id operation))) (\<lambda>_ db.
                try_st (enqueue_outbox_in_tx to_ts db_now db outbox) (\<lambda>outbox_id db.
                  (Ok \<lparr>xr_operation = operation, xr_outbox_id = Some outbox_id,
                       xr_inbox_item_id = inbox_item_id, xr_duplicate = duplicate\<rparr>, db)))))))"

definition record_dry_run_executing ::
  "(int \<Rightarrow> timestamptz option) \<Rightarrow> audit_json \<Rightarrow> timestamptz \<Rightarrow> execution_db \<Rightarrow> string \<Rightarrow> string \<Rightarrow> u64 \<Rightarrow> audit_event
     \<Rightarrow> audit_outbox_envelope
     \<Rightarrow> (postgres_execution_recorder_report, postgres_repository_error) result \<times> execution_db" where
  "record_dry_run_executing to_ts J db_now db tenant_id idempotency_key now_ms event outbox =
     record_status_transition to_ts J db_now db ToExecuting tenant_id idempotency_key None now_ms event outbox"

definition record_success ::
  "(int \<Rightarrow> timestamptz option) \<Rightarrow> audit_json \<Rightarrow> timestamptz \<Rightarrow> execution_db \<Rightarrow> string \<Rightarrow> string \<Rightarrow> u64 \<Rightarrow> audit_event
     \<Rightarrow> audit_outbox_envelope
     \<Rightarrow> (postgres_execution_recorder_report, postgres_repository_error) result \<times> execution_db" where
  "record_success to_ts J db_now db tenant_id idempotency_key now_ms event outbox =
     record_status_transition to_ts J db_now db ToSucceeded tenant_id idempotency_key None now_ms event outbox"

definition record_failure ::
  "(int \<Rightarrow> timestamptz option) \<Rightarrow> audit_json \<Rightarrow> timestamptz \<Rightarrow> execution_db \<Rightarrow> string \<Rightarrow> string \<Rightarrow> string \<Rightarrow> u64
     \<Rightarrow> audit_event \<Rightarrow> audit_outbox_envelope
     \<Rightarrow> (postgres_execution_recorder_report, postgres_repository_error) result \<times> execution_db" where
  "record_failure to_ts J db_now db tenant_id idempotency_key error now_ms event outbox =
     record_status_transition to_ts J db_now db ToFailed tenant_id idempotency_key (Some error) now_ms event outbox"

section \<open>Lemmas\<close>

text \<open>An update of a keyed table whose condition pins the key touches the row under the key or none.\<close>

lemma keyed_find:
  assumes "distinct (map k rows)" and "\<And>r. P r \<Longrightarrow> k r = key"
  shows "find P rows = (case find (\<lambda>r. k r = key) rows of None \<Rightarrow> None | Some r \<Rightarrow> if P r then Some r else None)"
  using assms(1)
proof (induction rows)
  case (Cons r rows)
  show ?case
  proof (cases "k r = key")
    case True
    with Cons.prems have "key \<notin> k ` set rows" by auto
    then have "\<forall>r' \<in> set rows. \<not> P r'" using assms(2) by blast
    with True show ?thesis by (simp add: find_None_iff)
  next
    case False
    with assms(2) Cons show ?thesis by auto
  qed
qed simp

lemma keyed_miss: "find P rows = None \<Longrightarrow> map_where P f rows = rows"
  by (rule map_where_none) (simp add: find_None_iff)

lemma keyed_find_update:
  assumes "\<And>r. P r \<Longrightarrow> k r = key" and "\<And>r. k (f r) = k r"
  shows "find (\<lambda>r. k r = key') (map_where P f rows) =
    (if key' = key then map_option (\<lambda>r. if P r then f r else r) (find (\<lambda>r. k r = key) rows)
     else find (\<lambda>r. k r = key') rows)"
proof -
  have *: "find (\<lambda>r. k r = key') (map_where P f rows) = map_option (\<lambda>r. if P r then f r else r) (find (\<lambda>r. k r = key') rows)"
    by (rule find_map_where) (simp add: assms(2))
  show ?thesis
  proof (cases "find (\<lambda>r. k r = key') rows")
    case (Some r)
    then have "k r = key'" using find_SomeD [OF Some] by simp
    with * Some assms(1) [of r] show ?thesis by auto
  qed (use * in auto)
qed

text \<open>
  The keys of the ledger are unique, its statuses are the ones the code knows, and every confirmed
  action has its operation: the two are inserted by one statement.
\<close>

abbreviation operation_key :: "operation_row \<Rightarrow> string \<times> string" where
  "operation_key r \<equiv> (xo_tenant_id r, xo_idempotency_key r)"

definition ledger_ok :: "execution_db \<Rightarrow> bool" where
  "ledger_ok db \<longleftrightarrow>
     distinct (map operation_key (xd_operations db)) \<and>
     (\<forall>r \<in> set (xd_operations db). \<exists>s. xo_status r = action_status_to_db s) \<and>
     (\<forall>a \<in> set (xd_actions db). (xa_tenant_id a, xa_idempotency_key a) \<in> operation_key ` set (xd_operations db))"

lemma action_status_codec [simp]: "action_status_from_db (action_status_to_db s) = Inr s"
  by (cases s) (simp_all add: action_status_from_db_def)

lemma action_status_to_db_inj [simp]: "action_status_to_db s = action_status_to_db t \<longleftrightarrow> s = t"
  by (cases s; cases t) simp_all

lemma GET_operation_eq: "GET_BY_IDEMPOTENCY_KEY db tenant key = find (\<lambda>r. operation_key r = (tenant, key)) (xd_operations db)"
  by (simp add: GET_BY_IDEMPOTENCY_KEY_def)

definition record_of_row :: "operation_row \<Rightarrow> operation_record option" where
  "record_of_row r = (case operation_record_from_row r of Inl _ \<Rightarrow> None | Inr x \<Rightarrow> Some x)"

text \<open>The ledger of a tenant as a map from idempotency keys to records.\<close>

definition pg_view :: "string \<Rightarrow> execution_db \<Rightarrow> string \<Rightarrow> operation_record option" where
  "pg_view tenant db key = Option.bind (GET_BY_IDEMPOTENCY_KEY db tenant key) record_of_row"

lemma known_row:
  assumes "ledger_ok db" and "GET_BY_IDEMPOTENCY_KEY db tenant key = Some r"
  shows "\<exists>s. xo_status r = action_status_to_db s \<and> operation_record_from_row r = Inr \<lparr>op_operation_id = xo_operation_id r,
      op_tenant_id = tenant, op_action_id = xo_action_id r, op_idempotency_key = key, op_status = s, op_last_error = xo_last_error r\<rparr>"
proof -
  have r: "r \<in> set (xd_operations db)" "xo_tenant_id r = tenant" "xo_idempotency_key r = key"
    using find_SomeD [OF assms(2) [unfolded GET_BY_IDEMPOTENCY_KEY_def]] by auto
  with assms(1) obtain s where "xo_status r = action_status_to_db s" unfolding ledger_ok_def by blast
  with r show ?thesis by (simp add: operation_record_from_row_def)
qed

text \<open>The change that each transition makes, and the status it starts from.\<close>

definition transition_change ::
  "operation_status_transition \<Rightarrow> string option \<Rightarrow> timestamptz \<Rightarrow> operation_row \<Rightarrow> operation_row" where
  "transition_change t error now r = (case t of
      ToExecuting \<Rightarrow> r\<lparr>xo_status := ''executing'', xo_executing_at := Some now, xo_updated_at := now, xo_last_error := None\<rparr>
    | ToSucceeded \<Rightarrow> r\<lparr>xo_status := ''succeeded'', xo_finished_at := Some now, xo_updated_at := now, xo_last_error := None\<rparr>
    | ToFailed \<Rightarrow> r\<lparr>xo_status := ''failed'', xo_finished_at := Some now, xo_updated_at := now, xo_last_error := error\<rparr>)"

fun source_status :: "operation_status_transition \<Rightarrow> action_status" where
  "source_status ToExecuting = Confirmed"
| "source_status ToSucceeded = Executing"
| "source_status ToFailed = Executing"

lemma transition_change_key [simp]: "operation_key (transition_change t e n r) = operation_key r"
  "xo_operation_id (transition_change t e n r) = xo_operation_id r" "xo_action_id (transition_change t e n r) = xo_action_id r"
  "xo_tenant_id (transition_change t e n r) = xo_tenant_id r" "xo_idempotency_key (transition_change t e n r) = xo_idempotency_key r"
  "xo_status (transition_change t e n r) = action_status_to_db (target_status t)"
  by (cases t; simp add: transition_change_def)+

lemma transition_statement_eq:
  "transition_statement to_ts db t tenant key error now =
    (if (error = None) = (t \<noteq> ToFailed)
     then try_then (sql_timestamp to_ts now) (\<lambda>n. Ok (update_operation (operation_in tenant key (action_status_to_db (source_status t)))
       (transition_change t error n) db))
     else Err (Sqlx (DatabaseError ''wrong number of parameters'')))"
  by (cases t; cases error)
    (simp_all add: transition_statement_def MARK_EXECUTING_def MARK_SUCCEEDED_def MARK_FAILED_def transition_change_def [abs_def])

lemma operation_in_key: "operation_in tenant key st r \<Longrightarrow> operation_key r = (tenant, key)"
  by (simp add: operation_in_def)

text \<open>What a transition does to the table: it changes the row under the key if that has the status it starts from.\<close>

lemma update_operation_eq:
  assumes "ledger_ok db"
  shows "fst (update_operation (operation_in tenant key st) (transition_change t e n) db) =
      (case GET_BY_IDEMPOTENCY_KEY db tenant key of None \<Rightarrow> None
       | Some r \<Rightarrow> if xo_status r = st then Some (transition_change t e n r) else None)"
    and "GET_BY_IDEMPOTENCY_KEY (snd (update_operation (operation_in tenant key st) (transition_change t e n) db)) tenant' key' =
      (if (tenant', key') = (tenant, key)
       then map_option (\<lambda>r. if xo_status r = st then transition_change t e n r else r) (GET_BY_IDEMPOTENCY_KEY db tenant key)
       else GET_BY_IDEMPOTENCY_KEY db tenant' key')"
    and "ledger_ok (snd (update_operation (operation_in tenant key st) (transition_change t e n) db))"
    and "fst (update_operation (operation_in tenant key st) (transition_change t e n) db) = None \<Longrightarrow>
      snd (update_operation (operation_in tenant key st) (transition_change t e n) db) = db"
proof -
  let ?P = "operation_in tenant key st" and ?f = "transition_change t e n"
  have dist: "distinct (map operation_key (xd_operations db))" using assms by (simp add: ledger_ok_def)
  have st: "?P r \<longleftrightarrow> xo_status r = st" if "GET_BY_IDEMPOTENCY_KEY db tenant key = Some r" for r
    using find_SomeD [OF that [unfolded GET_BY_IDEMPOTENCY_KEY_def]] by (auto simp: operation_in_def)
  show "fst (update_operation ?P ?f db) =
      (case GET_BY_IDEMPOTENCY_KEY db tenant key of None \<Rightarrow> None | Some r \<Rightarrow> if xo_status r = st then Some (?f r) else None)"
    using st keyed_find [OF dist, where P = ?P and key = "(tenant, key)"] operation_in_key
    by (auto simp: update_operation_def GET_operation_eq split: option.splits)
  show "GET_BY_IDEMPOTENCY_KEY (snd (update_operation ?P ?f db)) tenant' key' =
      (if (tenant', key') = (tenant, key)
       then map_option (\<lambda>r. if xo_status r = st then ?f r else r) (GET_BY_IDEMPOTENCY_KEY db tenant key)
       else GET_BY_IDEMPOTENCY_KEY db tenant' key')"
    using st keyed_find_update [where k = operation_key and P = ?P and f = ?f and key = "(tenant, key)" and key' = "(tenant', key')"
        and rows = "xd_operations db"] operation_in_key
    by (auto simp: update_operation_def GET_operation_eq simp del: prod.inject cong: map_option_cong)
  show "ledger_ok (snd (update_operation ?P ?f db))"
  proof -
    have keys: "map operation_key (map_where ?P ?f (xd_operations db)) = map operation_key (xd_operations db)"
      by (rule map_map_where) simp
    then have "operation_key ` set (map_where ?P ?f (xd_operations db)) = operation_key ` set (xd_operations db)"
      by (metis list.set_map)
    moreover have "\<forall>r \<in> set (map_where ?P ?f (xd_operations db)). \<exists>s. xo_status r = action_status_to_db s"
      using assms by (auto simp: ledger_ok_def set_map_where)
    ultimately show ?thesis using assms keys by (simp add: ledger_ok_def update_operation_def)
  qed
  show "snd (update_operation ?P ?f db) = db" if "fst (update_operation ?P ?f db) = None"
    using that keyed_miss [of ?P "xd_operations db" ?f] by (simp add: update_operation_def)
qed


section \<open>The Postgres ledger refines the ledger contract\<close>

lemma transition_with_executor_eq:
  assumes "ledger_ok db" and "(error = None) = (t \<noteq> ToFailed)"
  shows "transition_operation_with_executor to_ts db t tenant key error now =
    (case sql_timestamp to_ts (u64_as_i64 now) of
       Inl e \<Rightarrow> (Inl e, db)
     | Inr n \<Rightarrow> (let u = update_operation (operation_in tenant key (action_status_to_db (source_status t)))
           (transition_change t (map_option sanitize_adapter_error_message error) n) db
         in (transpose_map operation_record_from_row (fst u), snd u)))"
  using assms(2)
  by (cases "sql_timestamp to_ts (u64_as_i64 now)")
    (simp_all add: transition_operation_with_executor_def transition_statement_eq Let_def update_operation_def)

lemma record_of_changed_row:
  assumes "operation_record_from_row r = Inr rec"
  shows "operation_record_from_row (transition_change t e n r) =
    Inr (rec\<lparr>op_status := target_status t, op_last_error := (case t of ToFailed \<Rightarrow> e | _ \<Rightarrow> None)\<rparr>)"
  using assms by (cases t) (auto simp: operation_record_from_row_def try_then_Ok_iff transition_change_def action_status_from_db_def)

lemma pg_transition_refines:
  assumes "ledger_ok db" and "(error = None) = (t \<noteq> ToFailed)"
    and "pg_ledger_transition to_ts db t tenant key error now = (r, db')"
  shows "ledger_ok db' \<and> xd_actions db' = xd_actions db \<and>
    mark_spec (pg_view tenant db) key (target_status t) (map_option sanitize_adapter_error_message error) r (pg_view tenant db') \<and>
    (\<forall>tenant'. tenant' \<noteq> tenant \<longrightarrow> pg_view tenant' db' = pg_view tenant' db)"
proof (cases "sql_timestamp to_ts (u64_as_i64 now)")
  case (Inl e)
  then have "r = Inl (ledger_error_from_repository_error e)" and "db' = db"
    using assms(3) by (simp_all add: pg_ledger_transition_def transition_with_executor_eq [OF assms(1,2)])
  then show ?thesis using assms(1) by (simp add: mark_spec_def)
next
  case (Inr n)
  let ?u = "update_operation (operation_in tenant key (action_status_to_db (source_status t)))
      (transition_change t (map_option sanitize_adapter_error_message error) n) db"
  note upd = update_operation_eq [OF assms(1), where tenant = tenant and key = key and st = "action_status_to_db (source_status t)"
      and t = t and e = "map_option sanitize_adapter_error_message error" and n = n]
  have acts: "xd_actions (snd ?u) = xd_actions db" by (simp add: update_operation_def)
  have others: "pg_view tenant' (snd ?u) = pg_view tenant' db" if "tenant' \<noteq> tenant" for tenant'
    using that by (simp add: fun_eq_iff pg_view_def upd(2))
  show ?thesis
  proof (cases "GET_BY_IDEMPOTENCY_KEY db tenant key")
    case None
    then have miss: "fst ?u = None" "snd ?u = db" using upd(1,4) by simp_all
    with assms(3) Inr None have "r = Inl (UnknownIdempotencyKey key)" and "db' = db"
      by (simp_all add: pg_ledger_transition_def transition_with_executor_eq [OF assms(1,2)] Let_def transpose_map_def
          get_operation_by_idempotency_key_def resolve_transition_miss_def)
    then show ?thesis using assms(1) by (simp add: mark_spec_def)
  next
    case (Some row)
    from known_row [OF assms(1) Some] obtain s rec where s: "xo_status row = action_status_to_db s"
      and rec: "operation_record_from_row row = Inr rec" "op_status rec = s" by auto
    show ?thesis
    proof (cases "s = source_status t")
      case True
      define rec' where "rec' = rec\<lparr>op_status := target_status t, op_last_error := map_option sanitize_adapter_error_message error\<rparr>"
      have row': "operation_record_from_row (transition_change t (map_option sanitize_adapter_error_message error) n row) = Inr rec'"
        using record_of_changed_row [OF rec(1)] assms(2) by (cases t) (simp_all add: rec'_def)
      have "fst ?u = Some (transition_change t (map_option sanitize_adapter_error_message error) n row)"
        using upd(1) Some s True by simp
      with assms(3) Inr row' have "r = Inr rec'" and db': "db' = snd ?u"
        by (simp_all add: pg_ledger_transition_def transition_with_executor_eq [OF assms(1,2)] Let_def transpose_map_def)
      moreover have "pg_view tenant (snd ?u) = (pg_view tenant db)(key \<mapsto> rec')"
        using Some s True row' by (simp add: fun_eq_iff pg_view_def upd(2) record_of_row_def)
      moreover have "pg_view tenant db key = Some rec" using Some rec by (simp add: pg_view_def record_of_row_def)
      moreover have "transition_allowed s (target_status t)" using True by (cases t) simp_all
      ultimately show ?thesis using upd(3) acts others rec(2) by (simp add: mark_spec_def rec'_def)
    next
      case False
      then have miss: "fst ?u = None" "snd ?u = db" using upd(1,4) Some s by simp_all
      with assms(3) Inr Some rec have db': "db' = db" and r: "r = (if s = target_status t then Inr rec else Inl (InvalidTransition s (target_status t)))"
        by (auto simp: pg_ledger_transition_def transition_with_executor_eq [OF assms(1,2)] Let_def transpose_map_def
            get_operation_by_idempotency_key_def resolve_transition_miss_def)
      moreover have "pg_view tenant db key = Some rec" using Some rec by (simp add: pg_view_def record_of_row_def)
      ultimately show ?thesis using assms(1) rec(2) by (simp add: mark_spec_def)
    qed
  qed
qed

lemmas pg_transition_refines_pair = pg_transition_refines [OF _ _ prod.collapse [symmetric]]

lemma no_action_without_operation:
  assumes "ledger_ok db" and "GET_BY_IDEMPOTENCY_KEY db tenant key = None"
  shows "find (\<lambda>a. xa_tenant_id a = tenant \<and> xa_idempotency_key a = key) (xd_actions db) = None"
proof (rule ccontr)
  assume "find (\<lambda>a. xa_tenant_id a = tenant \<and> xa_idempotency_key a = key) (xd_actions db) \<noteq> None"
  then obtain a where a: "a \<in> set (xd_actions db)" "xa_tenant_id a = tenant" "xa_idempotency_key a = key"
    by (auto dest: find_SomeD)
  then have "(tenant, key) \<in> operation_key ` set (xd_operations db)" using assms(1) unfolding ledger_ok_def by blast
  then show False using assms(2) by (auto simp: GET_BY_IDEMPOTENCY_KEY_def find_None_iff)
qed

text \<open>A submission finds the operation of the key, or inserts the action and its operation, or fails.\<close>

lemma submit_statement_cases:
  assumes "ledger_ok db"
    and "SUBMIT_CONFIRMED_ACTION_AND_LEDGER to_ts db_now db aid tenant actor key ms oid = Inr ((row, created), db')"
  shows "if created then GET_BY_IDEMPOTENCY_KEY db tenant key = None \<and> xo_operation_id row = oid \<and> xo_tenant_id row = tenant \<and>
      xo_action_id row = aid \<and> xo_idempotency_key row = key \<and> xo_status row = ''confirmed'' \<and> xo_last_error row = None \<and>
      xd_operations db' = xd_operations db @ [row] \<and>
      (\<exists>a. xd_actions db' = xd_actions db @ [a] \<and> xa_tenant_id a = tenant \<and> xa_idempotency_key a = key)
    else GET_BY_IDEMPOTENCY_KEY db tenant key = Some row \<and> xd_operations db' = xd_operations db \<and>
      (\<forall>a \<in> set (xd_actions db'). a \<in> set (xd_actions db) \<or> (xa_tenant_id a, xa_idempotency_key a) = (tenant, key))"
proof (cases "GET_BY_IDEMPOTENCY_KEY db tenant key")
  case None
  with no_action_without_operation [OF assms(1) None] assms(2) show ?thesis
    by (auto simp: SUBMIT_CONFIRMED_ACTION_AND_LEDGER_def try_then_Ok_iff Let_def GET_BY_IDEMPOTENCY_KEY_def split: if_splits)
next
  case (Some r)
  with assms(2) show ?thesis
    by (auto simp: SUBMIT_CONFIRMED_ACTION_AND_LEDGER_def try_then_Ok_iff Let_def GET_BY_IDEMPOTENCY_KEY_def split: if_splits)
qed

lemma pg_submit_refines:
  assumes "ledger_ok db" and "pg_submit_confirmed_action to_ts db_now db a ms oid = (r, db')"
  shows "ledger_ok db' \<and>
    submit_spec (pg_view (ca_tenant_id a) db) a (map_err ledger_error_from_repository_error r) (pg_view (ca_tenant_id a) db') \<and>
    (\<forall>tenant'. tenant' \<noteq> ca_tenant_id a \<longrightarrow> pg_view tenant' db' = pg_view tenant' db)"
proof (cases "ca_status a = Confirmed")
  case False
  with assms show ?thesis by (auto simp: pg_submit_confirmed_action_def submit_spec_def)
next
  case True
  let ?t = "ca_tenant_id a" and ?k = "ca_idempotency_key a"
  let ?stmt = "SUBMIT_CONFIRMED_ACTION_AND_LEDGER to_ts db_now db (ca_action_id a) ?t (ca_actor_user_id a) ?k (u64_as_i64 ms) oid"
  show ?thesis
  proof (cases ?stmt)
    case (Inl e)
    with assms True show ?thesis
      by (auto simp: pg_submit_confirmed_action_def submit_confirmed_action_with_executor_def submit_spec_def)
  next
    case (Inr p)
    then obtain row created where stmt: "?stmt = Inr ((row, created), db')"
        and r: "r = try_then (operation_record_from_row row) (\<lambda>record. Ok (if created then Created record else Existing record))"
      using assms(2) True by (cases p; cases "fst p") (auto simp: pg_submit_confirmed_action_def submit_confirmed_action_with_executor_def)
    note cases = submit_statement_cases [OF assms(1) stmt]
    show ?thesis
    proof (cases created)
      case created: True
      then have row: "xo_operation_id row = oid" "xo_tenant_id row = ?t" "xo_action_id row = ca_action_id a"
          "xo_idempotency_key row = ?k" "xo_status row = ''confirmed''" "xo_last_error row = None"
        and free: "GET_BY_IDEMPOTENCY_KEY db ?t ?k = None" and ops: "xd_operations db' = xd_operations db @ [row]"
        using cases by simp_all
      define rec where "rec = \<lparr>op_operation_id = oid, op_tenant_id = ?t, op_action_id = ca_action_id a, op_idempotency_key = ?k,
        op_status = Confirmed, op_last_error = None\<rparr>"
      have rec: "operation_record_from_row row = Inr rec"
        by (simp add: operation_record_from_row_def row action_status_from_db_def rec_def)
      have get: "GET_BY_IDEMPOTENCY_KEY db' t k = (if (t, k) = (?t, ?k) then Some row else GET_BY_IDEMPOTENCY_KEY db t k)" for t k
        using free row by (auto simp: GET_BY_IDEMPOTENCY_KEY_def ops find_append split: option.split)
      have "pg_view ?t db' = (pg_view ?t db)(?k \<mapsto> rec)" using rec by (simp add: fun_eq_iff pg_view_def get record_of_row_def)
      moreover have "pg_view t db' = pg_view t db" if "t \<noteq> ?t" for t using that by (simp add: fun_eq_iff pg_view_def get)
      moreover have "ledger_ok db'"
      proof -
        have "(?t, ?k) \<notin> operation_key ` set (xd_operations db)"
          using free by (auto simp: GET_BY_IDEMPOTENCY_KEY_def find_None_iff)
        moreover have "\<exists>s. xo_status row = action_status_to_db s" using row(5) by (intro exI [of _ Confirmed]) simp
        ultimately show ?thesis using assms(1) cases created row ops unfolding ledger_ok_def by auto
      qed
      moreover have "r = Inr (Created rec)" using r rec created by simp
      moreover have "pg_view ?t db ?k = None" using free by (simp add: pg_view_def)
      ultimately show ?thesis using True by (simp add: submit_spec_def rec_def)
    next
      case False
      then have found: "GET_BY_IDEMPOTENCY_KEY db ?t ?k = Some row" and ops: "xd_operations db' = xd_operations db"
        and acts: "\<forall>b \<in> set (xd_actions db'). b \<in> set (xd_actions db) \<or> (xa_tenant_id b, xa_idempotency_key b) = (?t, ?k)"
        using cases by simp_all
      from known_row [OF assms(1) found] obtain rec where rec: "operation_record_from_row row = Inr rec" by blast
      have "(?t, ?k) \<in> operation_key ` set (xd_operations db)"
        using find_SomeD [OF found [unfolded GET_operation_eq]] by force
      then have "ledger_ok db'" using assms(1) acts unfolding ledger_ok_def ops by metis
      moreover have "pg_view t db' = pg_view t db" for t by (simp add: fun_eq_iff pg_view_def GET_BY_IDEMPOTENCY_KEY_def ops)
      moreover have "pg_view ?t db ?k = Some rec" using found rec by (simp add: pg_view_def record_of_row_def)
      ultimately show ?thesis using True False r rec by (simp add: submit_spec_def)
    qed
  qed
qed

text \<open>
  C5. The Postgres ledger keeps the promise that the in-memory ledger keeps. Seen as one map from
  idempotency keys to records per tenant, a submission and each of the three transitions satisfy
  the same specification as the operations of \<open>Operation_Ledger\<close>, with the error text sanitised,
  and leave the ledgers of all other tenants as they are.
\<close>

theorem pg_ledger_refines_contract:
  assumes "ledger_ok db"
  shows "(\<forall>db_now a ms oid. let (r, db') = pg_submit_confirmed_action to_ts db_now db a ms oid in ledger_ok db' \<and>
      submit_spec (pg_view (ca_tenant_id a) db) a (map_err ledger_error_from_repository_error r) (pg_view (ca_tenant_id a) db') \<and>
      (\<forall>tenant. tenant \<noteq> ca_tenant_id a \<longrightarrow> pg_view tenant db' = pg_view tenant db)) \<and>
    (\<forall>tenant key now. let (r, db') = pg_mark_executing to_ts db tenant key now in ledger_ok db' \<and>
      mark_spec (pg_view tenant db) key Executing None r (pg_view tenant db') \<and>
      (\<forall>tenant'. tenant' \<noteq> tenant \<longrightarrow> pg_view tenant' db' = pg_view tenant' db)) \<and>
    (\<forall>tenant key now. let (r, db') = pg_mark_succeeded to_ts db tenant key now in ledger_ok db' \<and>
      mark_spec (pg_view tenant db) key Succeeded None r (pg_view tenant db') \<and>
      (\<forall>tenant'. tenant' \<noteq> tenant \<longrightarrow> pg_view tenant' db' = pg_view tenant' db)) \<and>
    (\<forall>tenant key error now. let (r, db') = pg_mark_failed to_ts db tenant key error now in ledger_ok db' \<and>
      mark_spec (pg_view tenant db) key Failed (Some (sanitize_adapter_error_message error)) r (pg_view tenant db') \<and>
      (\<forall>tenant'. tenant' \<noteq> tenant \<longrightarrow> pg_view tenant' db' = pg_view tenant' db))"
proof (intro conjI allI; unfold Let_def case_prod_beta)
  fix db_now a ms oid
  show "ledger_ok (snd (pg_submit_confirmed_action to_ts db_now db a ms oid)) \<and>
      submit_spec (pg_view (ca_tenant_id a) db) a
        (map_err ledger_error_from_repository_error (fst (pg_submit_confirmed_action to_ts db_now db a ms oid)))
        (pg_view (ca_tenant_id a) (snd (pg_submit_confirmed_action to_ts db_now db a ms oid))) \<and>
      (\<forall>tenant. tenant \<noteq> ca_tenant_id a \<longrightarrow>
        pg_view tenant (snd (pg_submit_confirmed_action to_ts db_now db a ms oid)) = pg_view tenant db)"
    by (rule pg_submit_refines [OF assms]) simp
next
  fix tenant key now
  show "ledger_ok (snd (pg_mark_executing to_ts db tenant key now)) \<and>
      mark_spec (pg_view tenant db) key Executing None (fst (pg_mark_executing to_ts db tenant key now))
        (pg_view tenant (snd (pg_mark_executing to_ts db tenant key now))) \<and>
      (\<forall>tenant'. tenant' \<noteq> tenant \<longrightarrow> pg_view tenant' (snd (pg_mark_executing to_ts db tenant key now)) = pg_view tenant' db)"
    using pg_transition_refines_pair [OF assms, of None ToExecuting to_ts tenant key now] by (simp add: pg_mark_executing_def)
next
  fix tenant key now
  show "ledger_ok (snd (pg_mark_succeeded to_ts db tenant key now)) \<and>
      mark_spec (pg_view tenant db) key Succeeded None (fst (pg_mark_succeeded to_ts db tenant key now))
        (pg_view tenant (snd (pg_mark_succeeded to_ts db tenant key now))) \<and>
      (\<forall>tenant'. tenant' \<noteq> tenant \<longrightarrow> pg_view tenant' (snd (pg_mark_succeeded to_ts db tenant key now)) = pg_view tenant' db)"
    using pg_transition_refines_pair [OF assms, of None ToSucceeded to_ts tenant key now] by (simp add: pg_mark_succeeded_def)
next
  fix tenant key error now
  show "ledger_ok (snd (pg_mark_failed to_ts db tenant key error now)) \<and>
      mark_spec (pg_view tenant db) key Failed (Some (sanitize_adapter_error_message error))
        (fst (pg_mark_failed to_ts db tenant key error now)) (pg_view tenant (snd (pg_mark_failed to_ts db tenant key error now))) \<and>
      (\<forall>tenant'. tenant' \<noteq> tenant \<longrightarrow> pg_view tenant' (snd (pg_mark_failed to_ts db tenant key error now)) = pg_view tenant' db)"
    using pg_transition_refines_pair [OF assms, of "Some error" ToFailed to_ts tenant key now] by (simp add: pg_mark_failed_def)
qed

section \<open>The recorder is one transaction\<close>

text \<open>\<open>pg_view\<close> and \<open>ledger_ok\<close> read two tables only.\<close>

lemma same_ledger:
  assumes "xd_operations db' = xd_operations db" and "xd_actions db' = xd_actions db"
  shows "pg_view tenant db' = pg_view tenant db" and "ledger_ok db' \<longleftrightarrow> ledger_ok db"
  using assms by (simp_all add: fun_eq_iff pg_view_def GET_BY_IDEMPOTENCY_KEY_def ledger_ok_def)

lemma transition_in_tx_Ok:
  assumes "ledger_ok db" and "(error = None) = (t \<noteq> ToFailed)"
    and "transition_in_tx to_ts db t tenant key error now = (Inr (rec, dup), db')"
  shows "pg_ledger_transition to_ts db t tenant key error now = (Inr rec, db')"
    and "if dup then db' = db \<and> op_status rec = target_status t
      else op_status rec = target_status t \<and> op_tenant_id rec = tenant \<and>
        (\<exists>old. pg_view tenant db key = Some old \<and> op_status old = source_status t) \<and> pg_view tenant db' key = Some rec"
    and "xd_audit db' = xd_audit db \<and> xd_inbox db' = xd_inbox db \<and> xd_cursor_seq db' = xd_cursor_seq db"
proof -
  obtain q db1 where run: "transition_operation_with_executor to_ts db t tenant key error now = (q, db1)" by fastforce
  with assms(3) obtain row where q: "q = Inr row" by (cases q) (simp_all add: transition_in_tx_def)
  from run q obtain n where n: "sql_timestamp to_ts (u64_as_i64 now) = Inr n"
    by (cases "sql_timestamp to_ts (u64_as_i64 now)") (auto simp: transition_with_executor_eq [OF assms(1,2)] simp del: sql_timestamp_Ok_iff)
  let ?u = "update_operation (operation_in tenant key (action_status_to_db (source_status t)))
      (transition_change t (map_option sanitize_adapter_error_message error) n) db"
  have u: "transpose_map operation_record_from_row (fst ?u) = Inr row" "db1 = snd ?u"
    using run q n by (simp_all add: transition_with_executor_eq [OF assms(1,2)] Let_def)
  have frame: "xd_audit (snd ?u) = xd_audit db \<and> xd_inbox (snd ?u) = xd_inbox db \<and> xd_cursor_seq (snd ?u) = xd_cursor_seq db"
    by (simp add: update_operation_def)
  show "pg_ledger_transition to_ts db t tenant key error now = (Inr rec, db')"
    using assms(3) run q by (auto simp: transition_in_tx_def pg_ledger_transition_def try_then_Ok_iff split: option.splits)
  show "xd_audit db' = xd_audit db \<and> xd_inbox db' = xd_inbox db \<and> xd_cursor_seq db' = xd_cursor_seq db"
    using assms(3) run q u(2) frame by (auto simp: transition_in_tx_def split: option.splits)
  show "if dup then db' = db \<and> op_status rec = target_status t
      else op_status rec = target_status t \<and> op_tenant_id rec = tenant \<and>
        (\<exists>old. pg_view tenant db key = Some old \<and> op_status old = source_status t) \<and> pg_view tenant db' key = Some rec"
  proof (cases row)
    case None
    with u(1) have "fst ?u = None" by (cases "fst ?u") (auto simp: transpose_map_def try_then_Ok_iff)
    then have "snd ?u = db" by (rule update_operation_eq(4) [OF assms(1)])
    with assms(3) run q None u(2) show ?thesis
      by (auto simp: transition_in_tx_def resolve_transition_miss_def try_then_Ok_iff split: option.splits if_splits)
  next
    case (Some x)
    with assms(3) run q have x: "x = rec" "\<not> dup" "db' = snd ?u" using u(2) by (auto simp: transition_in_tx_def)
    with u(1) Some obtain r' where r': "fst ?u = Some r'" "operation_record_from_row r' = Inr rec"
      by (cases "fst ?u") (auto simp: transpose_map_def try_then_Ok_iff)
    note upd = update_operation_eq [OF assms(1), where tenant = tenant and key = key and st = "action_status_to_db (source_status t)"
      and t = t and e = "map_option sanitize_adapter_error_message error" and n = n]
    from r'(1) upd(1) obtain old where old: "GET_BY_IDEMPOTENCY_KEY db tenant key = Some old"
        "xo_status old = action_status_to_db (source_status t)"
        "r' = transition_change t (map_option sanitize_adapter_error_message error) n old"
      by (auto split: option.splits if_splits)
    from known_row [OF assms(1) old(1)] old(2) obtain oldrec where oldrec: "operation_record_from_row old = Inr oldrec"
        "op_status oldrec = source_status t" "op_tenant_id oldrec = tenant" by auto
    have rec: "rec = oldrec\<lparr>op_status := target_status t, op_last_error := (case t of ToFailed \<Rightarrow> map_option sanitize_adapter_error_message error | _ \<Rightarrow> None)\<rparr>"
      using record_of_changed_row [OF oldrec(1)] r'(2) old(3) by simp
    have "pg_view tenant (snd ?u) key = Some rec" using old r'(2) by (simp add: pg_view_def upd(2) record_of_row_def)
    moreover have "pg_view tenant db key = Some oldrec" using old(1) oldrec(1) by (simp add: pg_view_def record_of_row_def)
    ultimately show ?thesis using x rec oldrec by simp
  qed
qed

text \<open>What a recorded transition leaves in the tables around the ledger.\<close>

definition transition_recorded ::
  "audit_json \<Rightarrow> operation_status_transition \<Rightarrow> audit_event \<Rightarrow> audit_outbox_envelope
     \<Rightarrow> postgres_execution_recorder_report \<Rightarrow> execution_db \<Rightarrow> execution_db \<Rightarrow> bool" where
  "transition_recorded J t event outbox rep db db' \<longleftrightarrow>
     (\<exists>row. append_audit_event_query J event (Some (op_operation_id (xr_operation rep))) = Ok row \<and>
       ad_events (xd_audit db') = ad_events (xd_audit db) @ [row]) \<and>
     (\<exists>m. ad_outbox (xd_audit db') = ad_outbox (xd_audit db) @ [m] \<and> xr_outbox_id rep = Some (ob_id m) \<and>
       ob_tenant_id m = ov_tenant_id outbox \<and> ob_payload m = ov_payload outbox \<and> ob_status m = ''pending'') \<and>
     (case find (projectable (op_tenant_id (xr_operation rep)) (op_operation_id (xr_operation rep))) (xd_inbox db) of
        None \<Rightarrow> xr_inbox_item_id rep = None \<and> xd_inbox db' = xd_inbox db
      | Some r \<Rightarrow> xr_inbox_item_id rep = Some (xi_id r) \<and>
          (\<exists>r' \<in> set (xd_inbox db'). xi_id r' = xi_id r \<and> xi_sync_cursor_value r < xi_sync_cursor_value r' \<and>
            xi_ledger_status r' = Some (action_status_to_db (target_status t)) \<and>
            xi_status r' = action_status_to_db (target_status t)))"

lemma enqueue_OkE:
  assumes "enqueue_outbox_in_tx to_ts db_now db outbox = (Inr oid, db')"
  obtains m where "db' = db\<lparr>xd_audit := (audit_of db)\<lparr>ad_outbox := ad_outbox (xd_audit db) @ [m],
      ad_outbox_id_seq := ad_outbox_id_seq (xd_audit db) + 1\<rparr>\<rparr>"
    and "oid = ob_id m" and "ob_tenant_id m = ov_tenant_id outbox" and "ob_payload m = ov_payload outbox" and "ob_status m = ''pending''"
proof -
  let ?run = "enqueue_outbox to_ts db_now (audit_of db) (ov_tenant_id outbox) (ov_stream outbox) (ov_aggregate_id outbox)
    (ov_payload outbox) (ov_next_attempt_at_ms outbox)"
  obtain q adb where run: "?run = (q, adb)" by fastforce
  with assms have q: "q = Inr oid" and db': "db' = db\<lparr>xd_audit := adb\<rparr>"
    by (simp_all add: enqueue_outbox_in_tx_def on_audit_of_def)
  from run q have "ENQUEUE_AUDIT_OUTBOX to_ts db_now (audit_of db) (ov_tenant_id outbox) (ov_stream outbox) (ov_aggregate_id outbox)
      (ov_payload outbox) (u64_as_i64 (ov_next_attempt_at_ms outbox)) = Inr (oid, adb)"
    by (auto simp: enqueue_outbox_def exec_sql_def elim!: try_st_OkE split: sum.splits)
  then obtain at where "adb = (audit_of db)\<lparr>ad_outbox := ad_outbox (xd_audit db) @ [\<lparr>ob_id = oid, ob_tenant_id = ov_tenant_id outbox,
      ob_stream = ov_stream outbox, ob_aggregate_id = ov_aggregate_id outbox, ob_payload = ov_payload outbox, ob_status = ''pending'',
      ob_attempt_count = 0, ob_next_attempt_at = Some at, ob_created_at = db_now, ob_sent_at = None\<rparr>],
      ad_outbox_id_seq := ad_outbox_id_seq (xd_audit db) + 1\<rparr>"
    by (auto simp: ENQUEUE_AUDIT_OUTBOX_def audit_of_def try_then_Ok_iff split: if_splits)
  with db' have "\<exists>m. db' = db\<lparr>xd_audit := (audit_of db)\<lparr>ad_outbox := ad_outbox (xd_audit db) @ [m],
      ad_outbox_id_seq := ad_outbox_id_seq (xd_audit db) + 1\<rparr>\<rparr> \<and> oid = ob_id m \<and> ob_tenant_id m = ov_tenant_id outbox \<and>
      ob_payload m = ov_payload outbox \<and> ob_status m = ''pending''" by force
  with that show thesis by blast
qed

lemma append_in_tx_OkE:
  assumes "append_audit_event_in_tx J db event oid = (Inr u, db')"
  obtains row where "append_audit_event_query J event oid = Inr row"
    and "db' = db\<lparr>xd_audit := (audit_of db)\<lparr>ad_events := ad_events (xd_audit db) @ [row]\<rparr>\<rparr>"
proof -
  from assms obtain adb where app: "pg_audit_append J (audit_of db) event oid = (Inr u, adb)" and db': "db' = db\<lparr>xd_audit := adb\<rparr>"
    by (cases "pg_audit_append J (audit_of db) event oid") (auto simp: append_audit_event_in_tx_def on_audit_of_def)
  from app have "\<exists>row. append_audit_event_query J event oid = Inr row \<and> adb = (audit_of db)\<lparr>ad_events := ad_events (xd_audit db) @ [row]\<rparr>"
    by (auto simp: pg_audit_append_def APPEND_AUDIT_EVENT_def audit_of_def elim!: try_st_OkE split: if_splits)
  with db' that show thesis by blast
qed

lemma projection_OkE:
  assumes "update_review_inbox_ledger_projection_in_tx to_ts db rec (target_status t) now = (Inr item, db')"
  shows "xd_operations db' = xd_operations db \<and> xd_actions db' = xd_actions db \<and> xd_audit db' = xd_audit db \<and>
    (case find (projectable (op_tenant_id rec) (op_operation_id rec)) (xd_inbox db) of
        None \<Rightarrow> item = None \<and> xd_inbox db' = xd_inbox db
      | Some r \<Rightarrow> item = Some (xi_id r) \<and>
          (\<exists>r' \<in> set (xd_inbox db'). xi_id r' = xi_id r \<and> xi_sync_cursor_value r < xi_sync_cursor_value r' \<and>
            xi_ledger_status r' = Some (action_status_to_db (target_status t)) \<and>
            xi_status r' = action_status_to_db (target_status t)))"
proof -
  have st: "\<exists>i. review_inbox_status_for_ledger_status (target_status t) = Some i \<and>
      review_inbox_item_status_to_db i = action_status_to_db (target_status t)"
    by (cases t) simp_all
  let ?P = "projectable (op_tenant_id rec) (op_operation_id rec)"
  from assms st obtain n where upd: "update_inbox ?P
      (\<lambda>r. r\<lparr>xi_status := action_status_to_db (target_status t), xi_ledger_status := Some (action_status_to_db (target_status t)), xi_updated_at := n\<rparr>)
      db = Inr (item, db')"
    by (auto simp: update_review_inbox_ledger_projection_in_tx_def UPDATE_REVIEW_INBOX_LEDGER_PROJECTION_def exec_sql_def
        try_then_Ok_iff split: sum.splits)
  show ?thesis
  proof (cases "find ?P (xd_inbox db)")
    case None
    with upd show ?thesis by (simp add: update_inbox_def)
  next
    case (Some r)
    note r = find_SomeD [OF Some]
    from upd Some have item: "item = Some (xi_id r)" and db': "db' = db\<lparr>xd_cursor_seq := xd_cursor_seq db + 1, xd_inbox :=
        map_where ?P (\<lambda>r. r\<lparr>xi_status := action_status_to_db (target_status t),
          xi_ledger_status := Some (action_status_to_db (target_status t)), xi_updated_at := n, xi_sync_cursor_value := next_cursor db r\<rparr>) (xd_inbox db)\<rparr>"
      by (auto simp: update_inbox_def split: if_splits)
    let ?r = "r\<lparr>xi_status := action_status_to_db (target_status t), xi_ledger_status := Some (action_status_to_db (target_status t)),
        xi_updated_at := n, xi_sync_cursor_value := next_cursor db r\<rparr>"
    have "?r \<in> set (xd_inbox db')" unfolding db' using r by (auto simp: set_map_where)
    then have "\<exists>r' \<in> set (xd_inbox db'). xi_id r' = xi_id r \<and> xi_sync_cursor_value r < xi_sync_cursor_value r' \<and>
        xi_ledger_status r' = Some (action_status_to_db (target_status t)) \<and> xi_status r' = action_status_to_db (target_status t)"
      by (rule bexI [rotated]) (simp add: next_cursor_def)
    then show ?thesis using Some item by (simp add: db')
  qed
qed

lemma record_transition_Err:
  "record_status_transition to_ts J db_now db t tenant key error now event outbox = (Inl e, db') \<Longrightarrow> db' = db"
  by (auto simp: record_status_transition_def in_tx_def try_st_def split: sum.splits prod.splits)

lemma record_transition_OkE:
  assumes "record_status_transition to_ts J db_now db t tenant key error now event outbox = (Inr rep, db')"
  obtains db1 where "transition_in_tx to_ts db t tenant key error now = (Inr (xr_operation rep, xr_duplicate rep), db1)"
    and "xr_duplicate rep \<Longrightarrow> db' = db1"
    and "\<not> xr_duplicate rep \<Longrightarrow> transition_recorded J t event outbox rep db1 db' \<and>
      xd_operations db' = xd_operations db1 \<and> xd_actions db' = xd_actions db1"
proof -
  obtain q db1 where tr: "transition_in_tx to_ts db t tenant key error now = (q, db1)" by fastforce
  from assms have val: "validate_recorder_tenant tenant event outbox = Inr ()"
    by (cases "validate_recorder_tenant tenant event outbox") (simp_all add: record_status_transition_def)
  with assms tr obtain rec dup where q: "q = Inr (rec, dup)"
    by (cases q) (auto simp: record_status_transition_def)
  show thesis
  proof (cases dup)
    case True
    with assms tr q val have "rep = \<lparr>xr_operation = rec, xr_outbox_id = None, xr_inbox_item_id = None, xr_duplicate = True\<rparr>" "db' = db1"
      by (auto simp: record_status_transition_def)
    with that [of db1] tr q True show thesis by simp
  next
    case False
    obtain p db2 where proj: "update_review_inbox_ledger_projection_in_tx to_ts db1 rec (target_status t) now = (p, db2)" by fastforce
    obtain a db3 where app: "append_audit_event_in_tx J db2 event (Some (op_operation_id rec)) = (a, db3)" by fastforce
    obtain o' db4 where enq: "enqueue_outbox_in_tx to_ts db_now db3 outbox = (o', db4)" by fastforce
    note run = assms tr q val False
    from run proj obtain item where p: "p = Inr item" by (cases p) (simp_all add: record_status_transition_def)
    from run proj p app obtain u where a: "a = Inr u" by (cases a) (simp_all add: record_status_transition_def)
    from run proj p app a enq obtain oid where o': "o' = Inr oid" by (cases o') (simp_all add: record_status_transition_def)
    from run proj p app a enq o' have rep: "rep = \<lparr>xr_operation = rec, xr_outbox_id = Some oid, xr_inbox_item_id = item, xr_duplicate = False\<rparr>"
      and db': "db' = db4" by (simp_all add: record_status_transition_def)
    from projection_OkE [OF proj [unfolded p]] have p2: "xd_operations db2 = xd_operations db1" "xd_actions db2 = xd_actions db1"
      "xd_audit db2 = xd_audit db1" by simp_all
    from app a obtain row where row: "append_audit_event_query J event (Some (op_operation_id rec)) = Inr row"
      "db3 = db2\<lparr>xd_audit := (audit_of db2)\<lparr>ad_events := ad_events (xd_audit db2) @ [row]\<rparr>\<rparr>"
      by (auto elim!: append_in_tx_OkE)
    from enq o' obtain m where m: "db4 = db3\<lparr>xd_audit := (audit_of db3)\<lparr>ad_outbox := ad_outbox (xd_audit db3) @ [m],
        ad_outbox_id_seq := ad_outbox_id_seq (xd_audit db3) + 1\<rparr>\<rparr>" "oid = ob_id m" "ob_tenant_id m = ov_tenant_id outbox"
        "ob_payload m = ov_payload outbox" "ob_status m = ''pending''"
      by (auto elim!: enqueue_OkE)
    have "transition_recorded J t event outbox rep db1 db'"
      using projection_OkE [OF proj [unfolded p]] row m p2 by (auto simp: transition_recorded_def rep db' audit_of_def split: option.splits)
    moreover have "xd_operations db' = xd_operations db1 \<and> xd_actions db' = xd_actions db1" using db' row m p2 by simp
    ultimately show thesis using that [of db1] tr q rep False by simp
  qed
qed

lemma record_transition_step:
  assumes "ledger_ok db" and "(error = None) = (t \<noteq> ToFailed)"
    and run: "record_status_transition to_ts J db_now db t tenant key error now event outbox = (Inr rep, db')"
  shows "op_status (xr_operation rep) = target_status t \<and>
    (if xr_duplicate rep then db' = db
     else (\<exists>old. pg_view tenant db key = Some old \<and> op_status old = source_status t) \<and>
       pg_view tenant db' key = Some (xr_operation rep) \<and> ledger_ok db' \<and>
       transition_recorded J t event outbox rep db db')"
proof -
  obtain db1 where tr: "transition_in_tx to_ts db t tenant key error now = (Inr (xr_operation rep, xr_duplicate rep), db1)"
    and dup: "xr_duplicate rep \<Longrightarrow> db' = db1"
    and new: "\<not> xr_duplicate rep \<Longrightarrow> transition_recorded J t event outbox rep db1 db' \<and>
      xd_operations db' = xd_operations db1 \<and> xd_actions db' = xd_actions db1"
    by (rule record_transition_OkE [OF run]) blast
  note step = transition_in_tx_Ok [OF assms(1,2) tr]
  have ok: "ledger_ok db1" using pg_transition_refines [OF assms(1,2) step(1)] by simp
  show ?thesis
  proof (cases "xr_duplicate rep")
    case True
    with step(2) dup show ?thesis by simp
  next
    case False
    have "transition_recorded J t event outbox rep db db'" using new [OF False] step(3) by (simp add: transition_recorded_def split: option.splits)
    then show ?thesis using False step(2) new [OF False] ok same_ledger [of db' db1] by simp
  qed
qed

text \<open>
  C6. The recorder of an execution step is one transaction. When it fails, or when another worker had
  made the same step before, the database is as it was. Otherwise the operation was in the status
  that the step starts from and is in the status that it leads to, exactly one audit event and one
  pending outbox message were added, both carrying what the caller passed, and the inbox item of
  the operation, if one is still open to projection, shows the new status under a larger cursor.
\<close>

theorem recorder_transition_atomic:
  assumes "ledger_ok db" and "(error = None) = (t \<noteq> ToFailed)"
    and "record_status_transition to_ts J db_now db t tenant key error now event outbox = (r, db')"
  shows "case r of
      Inl e \<Rightarrow> db' = db
    | Inr rep \<Rightarrow> op_status (xr_operation rep) = target_status t \<and>
       (if xr_duplicate rep then db' = db
        else (\<exists>old. pg_view tenant db key = Some old \<and> op_status old = source_status t) \<and>
          pg_view tenant db' key = Some (xr_operation rep) \<and> ledger_ok db' \<and>
          transition_recorded J t event outbox rep db db')"
  using assms record_transition_Err record_transition_step [OF assms(1,2)] by (cases r) auto

section \<open>The right to execute is handed out once\<close>

datatype pg_ledger_call =
    PgSubmit timestamptz confirmed_action u64 string
  | PgTransition operation_status_transition string string "string option" u64
  | PgRecordConfirmation timestamptz confirmed_action u64 string audit_event audit_outbox_envelope
  | PgRecordTransition timestamptz operation_status_transition string string "string option" u64 audit_event audit_outbox_envelope

fun pg_ledger_apply :: "(int \<Rightarrow> timestamptz option) \<Rightarrow> audit_json \<Rightarrow> pg_ledger_call \<Rightarrow> execution_db \<Rightarrow> execution_db" where
  "pg_ledger_apply to_ts J (PgSubmit db_now a ms oid) db = snd (pg_submit_confirmed_action to_ts db_now db a ms oid)"
| "pg_ledger_apply to_ts J (PgTransition t tenant key error now) db = snd (pg_ledger_transition to_ts db t tenant key error now)"
| "pg_ledger_apply to_ts J (PgRecordConfirmation db_now a ms oid event outbox) db =
     snd (record_confirmation to_ts J db_now db a ms oid event outbox)"
| "pg_ledger_apply to_ts J (PgRecordTransition db_now t tenant key error now event outbox) db =
     snd (record_status_transition to_ts J db_now db t tenant key error now event outbox)"

text \<open>A step takes an operation from \<open>confirmed\<close> to \<open>executing\<close>, and the number of steps that do.\<close>

definition claims_operation :: "string \<Rightarrow> string \<Rightarrow> execution_db \<Rightarrow> execution_db \<Rightarrow> bool" where
  "claims_operation tenant key db db' \<longleftrightarrow>
     map_option op_status (pg_view tenant db key) = Some Confirmed \<and>
     map_option op_status (pg_view tenant db' key) = Some Executing"

fun claim_count :: "(int \<Rightarrow> timestamptz option) \<Rightarrow> audit_json \<Rightarrow> string \<Rightarrow> string \<Rightarrow> pg_ledger_call list \<Rightarrow> execution_db \<Rightarrow> nat" where
  "claim_count to_ts J tenant key [] db = 0"
| "claim_count to_ts J tenant key (c # cs) db =
     (if claims_operation tenant key db (pg_ledger_apply to_ts J c db) then 1 else 0) +
     claim_count to_ts J tenant key cs (pg_ledger_apply to_ts J c db)"

text \<open>How the status of a key can change in one call.\<close>

definition status_moves :: "action_status option \<Rightarrow> action_status option \<Rightarrow> bool" where
  "status_moves old new \<longleftrightarrow> new = old \<or> old = None \<and> new = Some Confirmed \<or>
     (\<exists>s t. old = Some s \<and> new = Some t \<and> transition_allowed s t)"

lemma status_moves_refl [simp]: "status_moves s s"
  by (simp add: status_moves_def)

lemma submit_spec_moves: "submit_spec v a r v' \<Longrightarrow> status_moves (map_option op_status (v key)) (map_option op_status (v' key))"
  by (cases "key = ca_idempotency_key a") (auto simp: submit_spec_def status_moves_def split: sum.splits submit_result.splits)

lemma mark_spec_moves: "mark_spec v k t e r v' \<Longrightarrow> status_moves (map_option op_status (v key)) (map_option op_status (v' key))"
  by (cases "key = k") (auto simp: mark_spec_def status_moves_def split: sum.splits)

lemma transition_bad_parameters:
  assumes "(error = None) \<noteq> (t \<noteq> ToFailed)"
  shows "snd (pg_ledger_transition to_ts db t tenant key error now) = db"
    and "fst (transition_in_tx to_ts db t tenant key error now) \<noteq> Inr x"
  using assms
  by (auto simp: pg_ledger_transition_def transition_in_tx_def transition_operation_with_executor_def transition_statement_eq Let_def)

lemma record_confirmation_ledger:
  assumes "record_confirmation to_ts J db_now db a ms oid event outbox = (r, db')"
  shows "db' = db \<or> (\<exists>db1. snd (pg_submit_confirmed_action to_ts db_now db a ms oid) = db1 \<and>
    xd_operations db' = xd_operations db1 \<and> xd_actions db' = xd_actions db1)"
proof (cases r)
  case (Inl e)
  with assms show ?thesis by (auto simp: record_confirmation_def in_tx_def try_st_def split: sum.splits prod.splits)
next
  case (Inr rep)
  with assms show ?thesis
    by (auto simp: record_confirmation_def in_tx_def Let_def append_audit_event_in_tx_def enqueue_outbox_in_tx_def on_audit_of_def
        elim!: try_st_OkE split: sum.splits prod.splits if_splits)
qed

lemma pg_ledger_apply_moves:
  assumes "ledger_ok db"
  shows "ledger_ok (pg_ledger_apply to_ts J c db) \<and>
    status_moves (map_option op_status (pg_view tenant db key)) (map_option op_status (pg_view tenant (pg_ledger_apply to_ts J c db) key))"
proof -
  have submit: "ledger_ok db1 \<and> status_moves (map_option op_status (pg_view tenant db key)) (map_option op_status (pg_view tenant db1 key))"
    if "snd (pg_submit_confirmed_action to_ts db_now db a ms oid) = db1" for db_now a ms oid db1
    using pg_submit_refines [OF assms prod.collapse [symmetric], of to_ts db_now a ms oid] that
    by (cases "tenant = ca_tenant_id a") (auto dest: submit_spec_moves [where key = key])
  have trans: "ledger_ok db1 \<and> status_moves (map_option op_status (pg_view tenant db key)) (map_option op_status (pg_view tenant db1 key))"
    if "snd (pg_ledger_transition to_ts db t tenant' key' error now) = db1" for t tenant' key' error now db1
  proof (cases "(error = None) = (t \<noteq> ToFailed)")
    case True
    from pg_transition_refines_pair [OF assms True, of to_ts tenant' key' now] that show ?thesis
      by (cases "tenant = tenant'") (auto dest: mark_spec_moves [where key = key])
  next
    case False
    with transition_bad_parameters(1) [OF False, of to_ts db tenant' key' now] that assms show ?thesis by simp
  qed
  show ?thesis
  proof (cases c)
    case (PgSubmit db_now a ms oid)
    then show ?thesis using submit by simp
  next
    case (PgTransition t tenant' key' error now)
    then show ?thesis using trans by simp
  next
    case (PgRecordConfirmation db_now a ms oid event outbox)
    let ?db = "snd (record_confirmation to_ts J db_now db a ms oid event outbox)"
    from record_confirmation_ledger [OF prod.collapse [symmetric], of to_ts J db_now db a ms oid event outbox]
    show ?thesis
    proof (elim disjE exE conjE)
      assume "?db = db"
      with PgRecordConfirmation assms show ?thesis by simp
    next
      fix db1
      assume run: "snd (pg_submit_confirmed_action to_ts db_now db a ms oid) = db1"
        and same: "xd_operations ?db = xd_operations db1" "xd_actions ?db = xd_actions db1"
      from submit [OF run] same_ledger [OF same] show ?thesis by (simp add: PgRecordConfirmation)
    qed
  next
    case (PgRecordTransition db_now t tenant' key' error now event outbox)
    let ?run = "record_status_transition to_ts J db_now db t tenant' key' error now event outbox"
    show ?thesis
    proof (cases "fst ?run")
      case (Inl e)
      then have "snd ?run = db" using record_transition_Err [of to_ts J db_now db t tenant' key' error now event outbox e "snd ?run"]
        by (metis prod.collapse)
      with PgRecordTransition assms show ?thesis by simp
    next
      case (Inr rep)
      then have run: "?run = (Inr rep, snd ?run)" by (metis prod.collapse)
      obtain db1 where tr: "transition_in_tx to_ts db t tenant' key' error now = (Inr (xr_operation rep, xr_duplicate rep), db1)"
        and same: "xd_operations (snd ?run) = xd_operations db1 \<and> xd_actions (snd ?run) = xd_actions db1"
        by (rule record_transition_OkE [OF run]) metis
      then have par: "(error = None) = (t \<noteq> ToFailed)"
        using transition_bad_parameters(2) [of error t to_ts db tenant' key' now "(xr_operation rep, xr_duplicate rep)"] by auto
      have "snd (pg_ledger_transition to_ts db t tenant' key' error now) = db1"
        using transition_in_tx_Ok(1) [OF assms par tr] by simp
      from trans [OF this] show ?thesis using PgRecordTransition same same_ledger [of "snd ?run" db1] by simp
    qed
  qed
qed

lemma claims_after_confirmed:
  assumes "ledger_ok db" and "\<exists>s. map_option op_status (pg_view tenant db key) = Some s \<and> s \<noteq> Confirmed"
  shows "claim_count to_ts J tenant key cs db = 0"
  using assms
proof (induction cs arbitrary: db)
  case (Cons c cs)
  from pg_ledger_apply_moves [OF Cons.prems(1)] have ok: "ledger_ok (pg_ledger_apply to_ts J c db)"
    and mv: "status_moves (map_option op_status (pg_view tenant db key)) (map_option op_status (pg_view tenant (pg_ledger_apply to_ts J c db) key))"
    by blast+
  have "\<exists>s. map_option op_status (pg_view tenant (pg_ledger_apply to_ts J c db) key) = Some s \<and> s \<noteq> Confirmed"
    using mv Cons.prems(2) by (auto simp: status_moves_def elim: transition_allowed.elims)
  with Cons.IH [OF ok] Cons.prems(2) show ?case by (auto simp: claims_operation_def)
qed simp

text \<open>
  C10. The right to execute an operation is handed out at most once. Whatever sequence of submissions,
  transitions and recorder calls the workers make, with whatever arguments and in whatever
  interleaving, at most one of them takes an operation from confirmed to executing.
\<close>

theorem execution_claimed_once:
  assumes "ledger_ok db"
  shows "claim_count to_ts J tenant key cs db \<le> 1"
  using assms
proof (induction cs arbitrary: db)
  case (Cons c cs)
  from pg_ledger_apply_moves [OF Cons.prems] have ok: "ledger_ok (pg_ledger_apply to_ts J c db)" by blast
  show ?case
  proof (cases "claims_operation tenant key db (pg_ledger_apply to_ts J c db)")
    case True
    then have "\<exists>s. map_option op_status (pg_view tenant (pg_ledger_apply to_ts J c db) key) = Some s \<and> s \<noteq> Confirmed"
      by (auto simp: claims_operation_def)
    from claims_after_confirmed [OF ok this] show ?thesis by simp
  qed (use Cons.IH [OF ok] in simp)
qed simp

section \<open>Witnesses\<close>

definition sample_execution_db :: "string \<Rightarrow> execution_db" where
  "sample_execution_db status = \<lparr>xd_users = [(''t'', ''u'')],
     xd_actions = [\<lparr>xa_action_id = ''a'', xa_tenant_id = ''t'', xa_actor_user_id = ''u'', xa_idempotency_key = ''k'',
       xa_status = ''confirmed'', xa_confirmed_at = Some 0\<rparr>],
     xd_operations = [\<lparr>xo_operation_id = ''o'', xo_tenant_id = ''t'', xo_action_id = ''a'', xo_idempotency_key = ''k'',
       xo_status = status, xo_last_error = None, xo_executing_at = None, xo_finished_at = None, xo_created_at = 0, xo_updated_at = 0\<rparr>],
     xd_inbox = [], xd_cursor_seq = 1, xd_decisions = [], xd_proposals = [], xd_evidence_refs = [], xd_evidence = [],
     xd_audit = sample_audit_db []\<rparr>"

definition sample_envelope :: audit_outbox_envelope where
  "sample_envelope = \<lparr>ov_tenant_id = ''t'', ov_stream = ''audit_event'', ov_aggregate_id = ''x'',
     ov_payload = JObject [(''sequence'', JNumber (PosInt 1))], ov_next_attempt_at_ms = 0\<rparr>"

lemma sample_ledger_ok [simp]: "ledger_ok (sample_execution_db ''confirmed'')"
  by (auto simp: ledger_ok_def sample_execution_db_def intro: exI [of _ Confirmed])

theorem pg_ledger_refines_contract_witness:
  "ledger_ok (sample_execution_db ''confirmed'') \<and>
   (let (r, db') = pg_mark_executing Some (sample_execution_db ''confirmed'') ''t'' ''k'' 5
    in mark_spec (pg_view ''t'' (sample_execution_db ''confirmed'')) ''k'' Executing None r (pg_view ''t'' db'))"
  using pg_ledger_refines_contract [OF sample_ledger_ok, of Some] by (simp add: Let_def case_prod_beta)

lemma sample_event_tenant [simp]: "as_tenant_id (ae_scope sample_event) = ''t''"
  by (simp add: sample_event_def trace_defs event_defs event_of_context_def trace_context_def Let_def
      allocate_sequence_def action_audit_subject_def proposed_confirmed_action_def audit_trace_new_def)

lemma sample_execution_append:
  "ad_tenants adb = [''t''] \<Longrightarrow> ad_events adb = [] \<Longrightarrow> (''t'', oid) \<in> set (ad_operations adb) \<Longrightarrow>
    \<exists>adb'. pg_audit_append sample_json adb sample_event (Some oid) = (Inr (), adb') \<and> ad_tenants adb' = [''t'']"
  by (simp add: pg_audit_append_def append_audit_event_query_def sample_event_def trace_defs event_defs event_of_context_def
        trace_context_def Let_def allocate_sequence_def action_audit_subject_def proposed_confirmed_action_def audit_trace_new_def
        json_option_def transpose_map_def sample_json_def APPEND_AUDIT_EVENT_def audit_event_row_check_def u64_as_i64_def)

lemma sample_recording:
  "\<exists>rep. fst (record_status_transition Some sample_json 0 (sample_execution_db ''confirmed'') ToExecuting ''t'' ''k'' None 5
     sample_event sample_envelope) = Inr rep \<and> \<not> xr_duplicate rep"
proof -
  let ?db = "(sample_execution_db ''confirmed'')\<lparr>xd_operations := [\<lparr>xo_operation_id = ''o'', xo_tenant_id = ''t'', xo_action_id = ''a'',
     xo_idempotency_key = ''k'', xo_status = ''executing'', xo_last_error = None, xo_executing_at = Some 5, xo_finished_at = None,
     xo_created_at = 0, xo_updated_at = 5\<rparr>]\<rparr>"
  let ?rec = "\<lparr>op_operation_id = ''o'', op_tenant_id = ''t'', op_action_id = ''a'', op_idempotency_key = ''k'', op_status = Executing,
     op_last_error = None\<rparr>"
  have tr: "transition_in_tx Some (sample_execution_db ''confirmed'') ToExecuting ''t'' ''k'' None 5 = (Inr (?rec, False), ?db)"
    by (simp add: transition_in_tx_def transition_operation_with_executor_def transition_statement_def MARK_EXECUTING_def
        update_operation_def operation_in_def sample_execution_db_def map_where_def u64_as_i64_def transpose_map_def
        operation_record_from_row_def action_status_from_db_def exec_sql_def)
  have proj: "update_review_inbox_ledger_projection_in_tx Some ?db ?rec Executing 5 = (Inr None, ?db)"
    by (simp add: update_review_inbox_ledger_projection_in_tx_def UPDATE_REVIEW_INBOX_LEDGER_PROJECTION_def update_inbox_def
        sample_execution_db_def u64_as_i64_def exec_sql_def map_where_def)
  have "ad_tenants (audit_of ?db) = [''t'']" "ad_events (audit_of ?db) = []" "(''t'', ''o'') \<in> set (ad_operations (audit_of ?db))"
    by (simp_all add: audit_of_def sample_execution_db_def sample_audit_db_def)
  from sample_execution_append [OF this] obtain adb where app: "pg_audit_append sample_json (audit_of ?db) sample_event (Some ''o'') = (Inr (), adb)"
    and adb: "ad_tenants adb = [''t'']" by blast
  have "fst (enqueue_outbox_in_tx Some 0 (?db\<lparr>xd_audit := adb\<rparr>) sample_envelope) = Inr (ad_outbox_id_seq adb)"
    using adb by (simp add: enqueue_outbox_in_tx_def on_audit_of_def enqueue_outbox_def ENQUEUE_AUDIT_OUTBOX_def sample_envelope_def
      audit_of_def validate_audit_outbox_payload_def safe_payload_try_from_def safe_payload_field_def ok_or_def u64_as_i64_def exec_sql_def)
  then obtain db2 where enq: "enqueue_outbox_in_tx Some 0 (?db\<lparr>xd_audit := adb\<rparr>) sample_envelope = (Inr (ad_outbox_id_seq adb), db2)"
    by (cases "enqueue_outbox_in_tx Some 0 (?db\<lparr>xd_audit := adb\<rparr>) sample_envelope") simp
  show ?thesis
    using tr proj app enq
    by (simp add: record_status_transition_def validate_recorder_tenant_def sample_envelope_def append_audit_event_in_tx_def on_audit_of_def
        in_tx_def)
qed

theorem recorder_transition_atomic_witness:
  "let (r, db') = record_status_transition Some sample_json 0 (sample_execution_db ''confirmed'') ToExecuting ''t'' ''k'' None 5
     sample_event sample_envelope
   in \<exists>rep. r = Inr rep \<and> op_status (xr_operation rep) = Executing \<and> pg_view ''t'' db' ''k'' = Some (xr_operation rep) \<and>
     transition_recorded sample_json ToExecuting sample_event sample_envelope rep (sample_execution_db ''confirmed'') db'"
  using recorder_transition_atomic [OF sample_ledger_ok _ prod.collapse [symmetric], where error = None and t = ToExecuting
      and to_ts = Some and J = sample_json and db_now = 0 and tenant = "''t''" and key = "''k''" and now = 5 and event = sample_event
      and outbox = sample_envelope] sample_recording
  by (auto simp: Let_def case_prod_beta)

theorem execution_claimed_once_witness:
  "ledger_ok (sample_execution_db ''confirmed'') \<and>
   claim_count Some sample_json ''t'' ''k'' [PgTransition ToExecuting ''t'' ''k'' None 5, PgTransition ToFailed ''t'' ''k'' (Some ''e'') 6,
     PgTransition ToExecuting ''t'' ''k'' None 7] (sample_execution_db ''confirmed'') \<le> 1"
  by (intro conjI sample_ledger_ok execution_claimed_once)

end
