(* ===== verification/Review_Codec.thy ===== *)
theory Review_Codec
  imports Execution_Store
begin

text \<open>
  How proposals and decisions are written to and read from their tables
  (\<open>repository_sqlx/codec/proposed_action.rs\<close>), shared by the execution queue and the review store.
\<close>

datatype stored_proposed_action_decision_kind = StoredConfirm | StoredEditThenConfirm | StoredReject

fun proposed_action_status_to_db :: "proposed_action_status \<Rightarrow> string" where
  "proposed_action_status_to_db Draft = ''draft''"
| "proposed_action_status_to_db Published = ''published''"
| "proposed_action_status_to_db Superseded = ''superseded''"
| "proposed_action_status_to_db Withdrawn = ''withdrawn''"

definition proposed_action_status_from_db ::
  "string \<Rightarrow> (proposed_action_status, postgres_repository_error) result" where
  "proposed_action_status_from_db value =
     (if value = ''draft'' then Ok Draft
      else if value = ''published'' then Ok Published
      else if value = ''superseded'' then Ok Superseded
      else if value = ''withdrawn'' then Ok Withdrawn
      else Err (UnknownProposedActionStatus value))"

fun proposed_action_kind_to_db :: "proposed_action_kind \<Rightarrow> string \<times> string option" where
  "proposed_action_kind_to_db CreateKrProgress = (''create_kr_progress'', None)"
| "proposed_action_kind_to_db UpdateKrProgress = (''update_kr_progress'', None)"
| "proposed_action_kind_to_db DeleteKrProgressDryRun = (''delete_kr_progress_dry_run'', None)"
| "proposed_action_kind_to_db (Custom custom) = (''custom'', Some custom)"

definition proposed_action_kind_from_db ::
  "string \<Rightarrow> string option \<Rightarrow> (proposed_action_kind, postgres_repository_error) result" where
  "proposed_action_kind_from_db kind custom_kind =
     (if kind = ''create_kr_progress'' then Ok CreateKrProgress
      else if kind = ''update_kr_progress'' then Ok UpdateKrProgress
      else if kind = ''delete_kr_progress_dry_run'' then Ok DeleteKrProgressDryRun
      else if kind = ''custom'' then ok_or (UnknownProposedActionKind kind) (map_option Custom custom_kind)
      else Err (UnknownProposedActionKind kind))"

fun risk_severity_to_db :: "risk_severity \<Rightarrow> string" where
  "risk_severity_to_db SeverityLow = ''low''"
| "risk_severity_to_db SeverityMedium = ''medium''"
| "risk_severity_to_db SeverityHigh = ''high''"
| "risk_severity_to_db SeverityCritical = ''critical''"

definition risk_severity_from_db :: "string \<Rightarrow> (risk_severity, postgres_repository_error) result" where
  "risk_severity_from_db value =
     (if value = ''low'' then Ok SeverityLow
      else if value = ''medium'' then Ok SeverityMedium
      else if value = ''high'' then Ok SeverityHigh
      else if value = ''critical'' then Ok SeverityCritical
      else Err (UnknownRiskSeverity value))"

fun proposed_action_decision_to_db :: "'v proposed_action_decision \<Rightarrow> string \<times> 'v option" where
  "proposed_action_decision_to_db Confirm = (''confirm'', None)"
| "proposed_action_decision_to_db (EditThenConfirm edited_payload) = (''edit_then_confirm'', Some edited_payload)"
| "proposed_action_decision_to_db Reject = (''reject'', None)"

definition proposed_action_decision_kind_from_db ::
  "string \<Rightarrow> (stored_proposed_action_decision_kind, postgres_repository_error) result" where
  "proposed_action_decision_kind_from_db value =
     (if value = ''confirm'' then Ok StoredConfirm
      else if value = ''edit_then_confirm'' then Ok StoredEditThenConfirm
      else if value = ''reject'' then Ok StoredReject
      else Err (UnknownProposedActionDecision value))"

text \<open>The evidence ids that both joins with a proposal aggregate.\<close>

definition evidence_ids_of :: "(string \<Rightarrow> 'k::linorder) \<Rightarrow> execution_db \<Rightarrow> proposal_row \<Rightarrow> string list" where
  "evidence_ids_of collate db p = sort_key collate (map xe_evidence_id
     (filter (\<lambda>e. xe_tenant_id e = xp_tenant_id p \<and> xe_proposed_action_id e = xp_id p \<and>
        xe_proposed_action_version e = xp_version p) (xd_evidence_refs db)))"

section \<open>Reading back what was written\<close>

lemma proposed_action_status_codec [simp]:
  "proposed_action_status_from_db (proposed_action_status_to_db s) = Inr s"
  by (cases s) (simp_all add: proposed_action_status_from_db_def)

lemma proposed_action_kind_codec [simp]:
  "proposed_action_kind_to_db k = (kind, custom) \<Longrightarrow> proposed_action_kind_from_db kind custom = Inr k"
  by (cases k) (auto simp: proposed_action_kind_from_db_def)

lemma risk_severity_codec [simp]: "risk_severity_from_db (risk_severity_to_db r) = Inr r"
  by (cases r) (simp_all add: risk_severity_from_db_def)

end
