(* ===== verification/Postgres_Executor.thy ===== *)
theory Postgres_Executor
  imports Review_Codec Executor
begin

text \<open>
  The executor that works on Postgres
  (\<open>action/postgres_executor.rs\<close>; the worker is in \<open>Execution_Queue\<close>). Every step is one transaction of the recorder of
  \<open>Execution_Store\<close>.

  Other workers share the database. An adapter call is where a run gives up the processor for
  long, so the calls of the adapter take the database and return it: whatever other workers do
  between two transactions of a run is part of the adapter call that lies between them.
\<close>

section \<open>The executor\<close>

record ('a, 'c) pg_executor =
  px_db :: execution_db
  px_adapter :: 'a
  px_clock :: 'c
  px_outbox_stream :: string

record ('a, 'c) pg_executor_ops =
  po_adapter :: "(json, 'a \<times> execution_db) adapter_ops"
  po_clock_ms :: "'c \<Rightarrow> u64 \<times> 'c"
  po_db_now :: "'c \<Rightarrow> timestamptz"
  po_to_ts :: "int \<Rightarrow> timestamptz option"
  po_json :: audit_json

definition pg_executor_new :: "'a \<Rightarrow> 'c \<Rightarrow> execution_db \<Rightarrow> ('a, 'c) pg_executor" where
  "pg_executor_new adapter clock_ms db =
     \<lparr>px_db = db, px_adapter = adapter, px_clock = clock_ms, px_outbox_stream = ''audit-events''\<rparr>"

definition pg_now_ms :: "('a, 'c) pg_executor_ops \<Rightarrow> ('a, 'c) pg_executor \<Rightarrow> u64 \<times> ('a, 'c) pg_executor" where
  "pg_now_ms E x = (case po_clock_ms E (px_clock x) of (ms, c) \<Rightarrow> (ms, x\<lparr>px_clock := c\<rparr>))"

fun audit_event_type_debug :: "audit_event_type \<Rightarrow> string" where
  "audit_event_type_debug ProposedActionDecisionRecorded = ''ProposedActionDecisionRecorded''"
| "audit_event_type_debug ConfirmedActionRecorded = ''ConfirmedActionRecorded''"
| "audit_event_type_debug DryRunExecuted = ''DryRunExecuted''"
| "audit_event_type_debug ExecutionDenied = ''ExecutionDenied''"
| "audit_event_type_debug ExecutionSucceeded = ''ExecutionSucceeded''"
| "audit_event_type_debug ExecutionFailed = ''ExecutionFailed''"

definition outbox_for ::
  "('a, 'c) pg_executor_ops \<Rightarrow> ('a, 'c) pg_executor \<Rightarrow> confirmed_action \<Rightarrow> audit_event
     \<Rightarrow> audit_outbox_envelope \<times> ('a, 'c) pg_executor" where
  "outbox_for E x action event = (case pg_now_ms E x of (ms, x) \<Rightarrow>
     (\<lparr>ov_tenant_id = ca_tenant_id action, ov_stream = px_outbox_stream x,
       ov_aggregate_id = ae_trace_id event,
       ov_payload = JObject [(''event_id'', JString (ae_event_id event)),
         (''event_type'', JString (audit_event_type_debug (ae_event_type event))),
         (''trace_id'', JString (ae_trace_id event))],
       ov_next_attempt_at_ms = ms\<rparr>, x))"

definition action_confirmed_at_ms :: "confirmed_action \<Rightarrow> u64 option" where
  "action_confirmed_at_ms action = Option.bind (ca_confirmed_at action) millis_since_epoch"

definition action_operation_id :: "confirmed_action \<Rightarrow> string" where
  "action_operation_id action = ''op-'' @ ca_idempotency_key action"

definition postgres_error_to_execution_error :: "postgres_repository_error \<Rightarrow> execution_error" where
  "postgres_error_to_execution_error error =
     AdapterErr (adapter_error_from_safe_message ''postgres_repository_error''
       (postgres_repository_safe_error_reason error))"

text \<open>A call of the recorder, \<open>self.recorder.record(...).await.map_err(...)?\<close>.\<close>

definition recorder_call ::
  "(execution_db \<Rightarrow> ('r, postgres_repository_error) result \<times> execution_db) \<Rightarrow> ('a, 'c) pg_executor
     \<Rightarrow> ('r, execution_error) result \<times> ('a, 'c) pg_executor" where
  "recorder_call f x = (case f (px_db x) of (r, db) \<Rightarrow>
     (map_err postgres_error_to_execution_error r, x\<lparr>px_db := db\<rparr>))"

definition adapter_call_st ::
  "('a \<times> execution_db \<Rightarrow> ('r, adapter_error) result \<times> ('a \<times> execution_db)) \<Rightarrow> ('a, 'c) pg_executor
     \<Rightarrow> ('r, adapter_error) result \<times> ('a, 'c) pg_executor" where
  "adapter_call_st f x = (case f (px_adapter x, px_db x) of (r, (a, db)) \<Rightarrow>
     (r, x\<lparr>px_adapter := a, px_db := db\<rparr>))"

text \<open>The last third of \<open>execute_confirmed_request\<close>: call the adapter and record what it returned.\<close>

definition pg_record_outcome ::
  "('a, 'c) pg_executor_ops \<Rightarrow> ('a, 'c) pg_executor \<Rightarrow> json confirmed_execution_request \<Rightarrow> audit_trace
     \<Rightarrow> audit_event list \<Rightarrow> (adapter_execution, adapter_error) result
     \<Rightarrow> (execution_report, execution_error) result \<times> ('a, 'c) pg_executor" where
  "pg_record_outcome E x request tr events outcome =
     (let action = request_action request;
          (ms, x) = pg_now_ms E x;
          (event, _) = (case outcome of
             Inr execution \<Rightarrow> execution_succeeded_record ms tr (ax_before execution) (ax_after execution)
                (ax_adapter_operation_id execution)
           | Inl error \<Rightarrow> execution_failed_record ms tr (aerr_code error) (aerr_safe_message error));
          (outbox, x) = outbox_for E x action event;
          (at_ms, x) = pg_now_ms E x
      in try_st (recorder_call (\<lambda>db. case outcome of
             Inr _ \<Rightarrow> record_success (po_to_ts E) (po_json E) (po_db_now E (px_clock x)) db
               (ca_tenant_id action) (ca_idempotency_key action) at_ms event outbox
           | Inl error \<Rightarrow> record_failure (po_to_ts E) (po_json E) (po_db_now E (px_clock x)) db
               (ca_tenant_id action) (ca_idempotency_key action) (aerr_safe_message error) at_ms event outbox) x)
         (\<lambda>report x. (Ok \<lparr>rep_operation = xr_operation report,
            rep_events = (if xr_duplicate report then events else events @ [event]),
            rep_duplicate = xr_duplicate report\<rparr>, x)))"

definition pg_run_execute ::
  "('a, 'c) pg_executor_ops \<Rightarrow> ('a, 'c) pg_executor \<Rightarrow> json confirmed_execution_request \<Rightarrow> audit_trace
     \<Rightarrow> audit_event list \<Rightarrow> (execution_report, execution_error) result \<times> ('a, 'c) pg_executor" where
  "pg_run_execute E x request tr events =
     (case adapter_call_st (\<lambda>s. ad_execute (po_adapter E) s request) x of (outcome, x) \<Rightarrow>
        pg_record_outcome E x request tr events outcome)"

text \<open>A report whose operation another worker finished or holds ends the run.\<close>

definition not_owner :: "postgres_execution_recorder_report \<Rightarrow> bool" where
  "not_owner report \<longleftrightarrow> xr_duplicate report \<and>
     (is_terminal_status (op_status (xr_operation report)) \<or> op_status (xr_operation report) = Executing)"

text \<open>The two recorder steps before the execution, with the event that was offered and the trace after it.\<close>

definition pg_record_dry_run ::
  "('a, 'c) pg_executor_ops \<Rightarrow> ('a, 'c) pg_executor \<Rightarrow> confirmed_action \<Rightarrow> audit_trace \<Rightarrow> adapter_dry_run
     \<Rightarrow> (postgres_execution_recorder_report \<times> audit_event \<times> audit_trace, execution_error) result
        \<times> ('a, 'c) pg_executor" where
  "pg_record_dry_run E x action tr dry_run =
     (let (ms, x) = pg_now_ms E x;
          (event, tr) = dry_run_record ms tr (dr_before dry_run) (dr_after dry_run);
          (outbox, x) = outbox_for E x action event;
          (at_ms, x) = pg_now_ms E x
      in try_st (recorder_call (\<lambda>db. record_dry_run_executing (po_to_ts E) (po_json E) (po_db_now E (px_clock x)) db
             (ca_tenant_id action) (ca_idempotency_key action) at_ms event outbox) x)
           (\<lambda>report x. (Ok (report, event, tr), x)))"

definition pg_record_confirmation ::
  "('a, 'c) pg_executor_ops \<Rightarrow> ('a, 'c) pg_executor \<Rightarrow> confirmed_action
     \<Rightarrow> (postgres_execution_recorder_report \<times> audit_event \<times> audit_trace, execution_error) result
        \<times> ('a, 'c) pg_executor" where
  "pg_record_confirmation E x action =
     (let (ms, x) = pg_now_ms E x;
          (event, tr) = confirmed_action_record ms (action_audit_trace action) action;
          (outbox, x) = outbox_for E x action event;
          (confirmed_at_ms, x) = (case action_confirmed_at_ms action of
             Some ms \<Rightarrow> (ms, x) | None \<Rightarrow> pg_now_ms E x)
      in try_st (recorder_call (\<lambda>db. record_confirmation (po_to_ts E) (po_json E) (po_db_now E (px_clock x)) db
             action confirmed_at_ms (action_operation_id action) event outbox) x)
           (\<lambda>report x. (Ok (report, event, tr), x)))"

definition pg_run_dry_run ::
  "('a, 'c) pg_executor_ops \<Rightarrow> ('a, 'c) pg_executor \<Rightarrow> json confirmed_execution_request \<Rightarrow> audit_trace
     \<Rightarrow> audit_event list \<Rightarrow> (execution_report, execution_error) result \<times> ('a, 'c) pg_executor" where
  "pg_run_dry_run E x request tr events =
     (case adapter_call_st (\<lambda>s. ad_dry_run (po_adapter E) s request) x of (r, x) \<Rightarrow>
        try_st (map_err AdapterErr r, x) (\<lambda>dry_run x.
        try_st (pg_record_dry_run E x (request_action request) tr dry_run) (\<lambda>(report, event, tr) x.
          if not_owner report
          then (Ok \<lparr>rep_operation = xr_operation report, rep_events = events, rep_duplicate = True\<rparr>, x)
          else pg_run_execute E x request tr (if xr_duplicate report then events else events @ [event]))))"

definition pg_execute_confirmed_request ::
  "('a, 'c) pg_executor_ops \<Rightarrow> ('a, 'c) pg_executor \<Rightarrow> json confirmed_execution_request
     \<Rightarrow> (execution_report, execution_error) result \<times> ('a, 'c) pg_executor" where
  "pg_execute_confirmed_request E x request =
     try_st (pg_record_confirmation E x (request_action request)) (\<lambda>(report, event, tr) x.
       if not_owner report
       then (Ok \<lparr>rep_operation = xr_operation report, rep_events = [], rep_duplicate = True\<rparr>, x)
       else pg_run_dry_run E x request tr (if xr_duplicate report then [] else [event]))"

definition pg_execute_confirmed_request_with_policy ::
  "('a, 'c) pg_executor_ops \<Rightarrow> ('a, 'c) pg_executor \<Rightarrow> json confirmed_execution_request \<Rightarrow> string \<Rightarrow> string
     \<Rightarrow> action_actor_binding \<Rightarrow> token_grant \<Rightarrow> execution_policy
     \<Rightarrow> (execution_report, execution_error) result \<times> ('a, 'c) pg_executor" where
  "pg_execute_confirmed_request_with_policy E x request action_type required_scope binding grant policy =
     (let action = request_action request in
      case policy_evaluate policy action action_type required_scope grant binding of
        Inl denial \<Rightarrow>
          (let (ms, x) = pg_now_ms E x;
               (event, _) = execution_denied_record ms (action_audit_trace action) denial
           in try_st (recorder_call (\<lambda>db. append_audit_event_in_tx (po_json E) db event None) x) (\<lambda>_ x.
                (Err (PolicyDenied \<lparr>pd_denial = denial, pd_events = [event]\<rparr>), x)))
      | Inr _ \<Rightarrow> pg_execute_confirmed_request E x request)"

section \<open>Interference\<close>

text \<open>
  The right to execute an operation is gone once its ledger record is no longer \<open>Confirmed\<close>. What
  everybody who shares the ledger keeps to: the tables stay well formed and no such right comes
  back. Every call of the ledger and of the recorder keeps to it, and so does whatever leaves the
  two tables of the ledger alone.
\<close>

definition claim_gone :: "string \<Rightarrow> string \<Rightarrow> execution_db \<Rightarrow> bool" where
  "claim_gone tenant key db \<longleftrightarrow> (\<exists>r. pg_view tenant db key = Some r \<and> op_status r \<noteq> Confirmed)"

definition ledger_rely :: "execution_db \<Rightarrow> execution_db \<Rightarrow> bool" where
  "ledger_rely db db' \<longleftrightarrow> (ledger_ok db \<longrightarrow> ledger_ok db' \<and>
     (\<forall>tenant key. claim_gone tenant key db \<longrightarrow> claim_gone tenant key db'))"

lemma ledger_rely_refl [simp]: "ledger_rely db db"
  by (simp add: ledger_rely_def)

lemma ledger_rely_trans [trans]: "ledger_rely db db1 \<Longrightarrow> ledger_rely db1 db2 \<Longrightarrow> ledger_rely db db2"
  by (simp add: ledger_rely_def)

lemma ledger_rely_same:
  "xd_operations db' = xd_operations db \<Longrightarrow> xd_actions db' = xd_actions db \<Longrightarrow> ledger_rely db db'"
  using same_ledger [of db' db] by (simp add: ledger_rely_def claim_gone_def)

lemma status_moves_gone:
  "status_moves (map_option op_status (v key)) (map_option op_status (v' key)) \<Longrightarrow> v key = Some r \<Longrightarrow> op_status r \<noteq> Confirmed \<Longrightarrow>
    \<exists>r'. v' key = Some r' \<and> op_status r' \<noteq> Confirmed"
  by (auto simp: status_moves_def elim: transition_allowed.elims)

lemma ledger_rely_apply: "ledger_rely db (pg_ledger_apply to_ts J c db)"
  unfolding ledger_rely_def claim_gone_def using pg_ledger_apply_moves [of db to_ts J c] status_moves_gone by metis

lemma recorder_rely:
  "ledger_rely db (snd (record_confirmation to_ts J db_now db a ms oid event outbox))"
  "ledger_rely db (snd (record_status_transition to_ts J db_now db t tenant key error now event outbox))"
  using ledger_rely_apply [of db to_ts J "PgRecordConfirmation db_now a ms oid event outbox"]
    ledger_rely_apply [of db to_ts J "PgRecordTransition db_now t tenant key error now event outbox"] by simp_all

text \<open>Adapter calls during which the others keep to it.\<close>

definition interferes_safely :: "(json, 'a \<times> execution_db) adapter_ops \<Rightarrow> bool" where
  "interferes_safely Ad \<longleftrightarrow> (\<forall>a db q. ledger_rely db (snd (snd (ad_dry_run Ad (a, db) q))) \<and>
     ledger_rely db (snd (snd (ad_execute Ad (a, db) q))))"

section \<open>The adapter seen from outside\<close>

text \<open>The adapter wrapped so that it remembers each request it was asked to execute and the database it was asked on.\<close>

definition watched ::
  "(json, 'a \<times> execution_db) adapter_ops
     \<Rightarrow> (json, ('a \<times> (json confirmed_execution_request \<times> execution_db) list) \<times> execution_db) adapter_ops" where
  "watched Ad = \<lparr>
     ad_dry_run = (\<lambda>((a, calls), db) q. case ad_dry_run Ad (a, db) q of (r, (a', db')) \<Rightarrow> (r, ((a', calls), db'))),
     ad_execute = (\<lambda>((a, calls), db) q. case ad_execute Ad (a, db) q of (r, (a', db')) \<Rightarrow> (r, ((a', calls @ [(q, db)]), db')))\<rparr>"

abbreviation px_calls ::
  "('a \<times> (json confirmed_execution_request \<times> execution_db) list, 'c) pg_executor
     \<Rightarrow> (json confirmed_execution_request \<times> execution_db) list" where
  "px_calls x \<equiv> snd (px_adapter x)"

lemma watched_calls:
  assumes "interferes_safely Ad"
  shows "px_calls (snd (adapter_call_st (\<lambda>s. ad_dry_run (watched Ad) s q) x)) = px_calls x"
    and "px_calls (snd (adapter_call_st (\<lambda>s. ad_execute (watched Ad) s q) x)) = px_calls x @ [(q, px_db x)]"
    and "ledger_rely (px_db x) (px_db (snd (adapter_call_st (\<lambda>s. ad_dry_run (watched Ad) s q) x)))"
    and "ledger_rely (px_db x) (px_db (snd (adapter_call_st (\<lambda>s. ad_execute (watched Ad) s q) x)))"
proof -
  obtain a calls where a: "px_adapter x = (a, calls)" by (cases "px_adapter x")
  from assms have "ledger_rely (px_db x) (snd (snd (ad_dry_run Ad (a, px_db x) q)))"
    and "ledger_rely (px_db x) (snd (snd (ad_execute Ad (a, px_db x) q)))" by (auto simp: interferes_safely_def)
  then show "px_calls (snd (adapter_call_st (\<lambda>s. ad_dry_run (watched Ad) s q) x)) = px_calls x"
    and "px_calls (snd (adapter_call_st (\<lambda>s. ad_execute (watched Ad) s q) x)) = px_calls x @ [(q, px_db x)]"
    and "ledger_rely (px_db x) (px_db (snd (adapter_call_st (\<lambda>s. ad_dry_run (watched Ad) s q) x)))"
    and "ledger_rely (px_db x) (px_db (snd (adapter_call_st (\<lambda>s. ad_execute (watched Ad) s q) x)))"
    by (auto simp: adapter_call_st_def watched_def a split: prod.splits)
qed

section \<open>The stages of a run\<close>

lemma pg_now_ms_frame [simp]:
  "px_db (snd (pg_now_ms E x)) = px_db x" "px_adapter (snd (pg_now_ms E x)) = px_adapter x"
  "px_outbox_stream (snd (pg_now_ms E x)) = px_outbox_stream x"
  by (simp_all add: pg_now_ms_def split: prod.split)

lemma outbox_for_frame [simp]:
  "px_db (snd (outbox_for E x a ev)) = px_db x" "px_adapter (snd (outbox_for E x a ev)) = px_adapter x"
  "px_outbox_stream (snd (outbox_for E x a ev)) = px_outbox_stream x"
  by (simp_all add: outbox_for_def case_prod_beta)

lemma recorder_call_eq:
  "recorder_call f x = (map_err postgres_error_to_execution_error (fst (f (px_db x))), x\<lparr>px_db := snd (f (px_db x))\<rparr>)"
  by (simp add: recorder_call_def split: prod.split)

text \<open>
  The three recorder steps, with the readings of the clock named. The message that goes with an
  event carries the ids of the event.
\<close>

definition message_of :: "audit_event \<Rightarrow> json" where
  "message_of event = JObject [(''event_id'', JString (ae_event_id event)),
     (''event_type'', JString (audit_event_type_debug (ae_event_type event))), (''trace_id'', JString (ae_trace_id event))]"

lemma pg_now_msE:
  obtains ms y where "pg_now_ms E x = (ms, y)" and "px_db y = px_db x" and "px_adapter y = px_adapter x"
  using pg_now_ms_frame [of E x] by (cases "pg_now_ms E x") simp

lemma outbox_forE:
  obtains ob y where "outbox_for E x action event = (ob, y)" and "px_db y = px_db x" and "px_adapter y = px_adapter x"
    and "ov_tenant_id ob = ca_tenant_id action" and "ov_payload ob = message_of event"
  by (rule pg_now_msE [of E x]) (simp add: outbox_for_def message_of_def)

lemma pg_record_dry_runE:
  obtains ms ev tr' ob at y db_now where "dry_run_record ms tr (dr_before dry_run) (dr_after dry_run) = (ev, tr')"
    and "ov_tenant_id ob = ca_tenant_id action" and "ov_payload ob = message_of ev" and "px_db y = px_db x" and "px_adapter y = px_adapter x"
    and "pg_record_dry_run E x action tr dry_run = try_st (recorder_call (\<lambda>db. record_status_transition (po_to_ts E) (po_json E) db_now db
      ToExecuting (ca_tenant_id action) (ca_idempotency_key action) None at ev ob) y) (\<lambda>report x. (Ok (report, ev, tr'), x))"
proof -
  obtain ms x1 where 1: "pg_now_ms E x = (ms, x1)" "px_db x1 = px_db x" "px_adapter x1 = px_adapter x" by (rule pg_now_msE)
  obtain ev tr' where ev: "dry_run_record ms tr (dr_before dry_run) (dr_after dry_run) = (ev, tr')" by fastforce
  obtain ob x2 where 2: "outbox_for E x1 action ev = (ob, x2)" "px_db x2 = px_db x1" "px_adapter x2 = px_adapter x1"
    "ov_tenant_id ob = ca_tenant_id action" "ov_payload ob = message_of ev" by (rule outbox_forE)
  obtain at y where 3: "pg_now_ms E x2 = (at, y)" "px_db y = px_db x2" "px_adapter y = px_adapter x2" by (rule pg_now_msE)
  show thesis
    by (rule that [of ms ev tr' ob y "po_db_now E (px_clock y)" at])
      (simp_all add: 1 2 3 ev pg_record_dry_run_def record_dry_run_executing_def)
qed

lemma pg_record_confirmationE:
  obtains ms ev tr' ob at y db_now where "confirmed_action_record ms (action_audit_trace action) action = (ev, tr')"
    and "ov_tenant_id ob = ca_tenant_id action" and "ov_payload ob = message_of ev" and "px_db y = px_db x" and "px_adapter y = px_adapter x"
    and "pg_record_confirmation E x action = try_st (recorder_call (\<lambda>db. record_confirmation (po_to_ts E) (po_json E) db_now db
      action at (action_operation_id action) ev ob) y) (\<lambda>report x. (Ok (report, ev, tr'), x))"
proof -
  obtain ms x1 where 1: "pg_now_ms E x = (ms, x1)" "px_db x1 = px_db x" "px_adapter x1 = px_adapter x" by (rule pg_now_msE)
  obtain ev tr' where ev: "confirmed_action_record ms (action_audit_trace action) action = (ev, tr')" by fastforce
  obtain ob x2 where 2: "outbox_for E x1 action ev = (ob, x2)" "px_db x2 = px_db x1" "px_adapter x2 = px_adapter x1"
    "ov_tenant_id ob = ca_tenant_id action" "ov_payload ob = message_of ev" by (rule outbox_forE)
  obtain at y where 3: "(case action_confirmed_at_ms action of Some ms \<Rightarrow> (ms, x2) | None \<Rightarrow> pg_now_ms E x2) = (at, y)"
    "px_db y = px_db x2" "px_adapter y = px_adapter x2" by (cases "action_confirmed_at_ms action") (auto intro: pg_now_msE [of E x2])
  show thesis
    by (rule that [of ms ev tr' ob y "po_db_now E (px_clock y)" at]) (simp_all add: 1 2 3 ev pg_record_confirmation_def)
qed

definition outcome_transition :: "(adapter_execution, adapter_error) result \<Rightarrow> operation_status_transition" where
  "outcome_transition outcome = (case outcome of Inr _ \<Rightarrow> ToSucceeded | Inl _ \<Rightarrow> ToFailed)"

definition outcome_error :: "(adapter_execution, adapter_error) result \<Rightarrow> string option" where
  "outcome_error outcome = (case outcome of Inr _ \<Rightarrow> None | Inl error \<Rightarrow> Some (aerr_safe_message error))"

definition outcome_event :: "u64 \<Rightarrow> audit_trace \<Rightarrow> (adapter_execution, adapter_error) result \<Rightarrow> audit_event" where
  "outcome_event ms tr outcome = fst (case outcome of
      Inr execution \<Rightarrow> execution_succeeded_record ms tr (ax_before execution) (ax_after execution) (ax_adapter_operation_id execution)
    | Inl error \<Rightarrow> execution_failed_record ms tr (aerr_code error) (aerr_safe_message error))"

lemma pg_record_outcomeE:
  obtains ms ev ob at y db_now where "ev = outcome_event ms tr outcome"
    and "ov_tenant_id ob = ca_tenant_id (request_action q)" and "ov_payload ob = message_of ev"
    and "px_db y = px_db x" and "px_adapter y = px_adapter x"
    and "pg_record_outcome E x q tr evs outcome = try_st (recorder_call (\<lambda>db. record_status_transition (po_to_ts E) (po_json E) db_now db
      (outcome_transition outcome) (ca_tenant_id (request_action q)) (request_key q) (outcome_error outcome) at ev ob) y)
      (\<lambda>report x. (Ok \<lparr>rep_operation = xr_operation report, rep_events = (if xr_duplicate report then evs else evs @ [ev]),
            rep_duplicate = xr_duplicate report\<rparr>, x))"
proof -
  obtain ms x1 where 1: "pg_now_ms E x = (ms, x1)" "px_db x1 = px_db x" "px_adapter x1 = px_adapter x" by (rule pg_now_msE)
  obtain ev tr' where ev: "(case outcome of
      Inr execution \<Rightarrow> execution_succeeded_record ms tr (ax_before execution) (ax_after execution) (ax_adapter_operation_id execution)
    | Inl error \<Rightarrow> execution_failed_record ms tr (aerr_code error) (aerr_safe_message error)) = (ev, tr')" by fastforce
  obtain ob x2 where 2: "outbox_for E x1 (request_action q) ev = (ob, x2)" "px_db x2 = px_db x1" "px_adapter x2 = px_adapter x1"
    "ov_tenant_id ob = ca_tenant_id (request_action q)" "ov_payload ob = message_of ev" by (rule outbox_forE)
  obtain at y where 3: "pg_now_ms E x2 = (at, y)" "px_db y = px_db x2" "px_adapter y = px_adapter x2" by (rule pg_now_msE)
  let ?f = "\<lambda>db. case outcome of
      Inr _ \<Rightarrow> record_success (po_to_ts E) (po_json E) (po_db_now E (px_clock y)) db
        (ca_tenant_id (request_action q)) (request_key q) at ev ob
    | Inl error \<Rightarrow> record_failure (po_to_ts E) (po_json E) (po_db_now E (px_clock y)) db
        (ca_tenant_id (request_action q)) (request_key q) (aerr_safe_message error) at ev ob"
  have run: "pg_record_outcome E x q tr evs outcome = try_st (recorder_call ?f y)
      (\<lambda>report x. (Ok \<lparr>rep_operation = xr_operation report, rep_events = (if xr_duplicate report then evs else evs @ [ev]),
            rep_duplicate = xr_duplicate report\<rparr>, x))"
    by (simp add: pg_record_outcome_def Let_def 1 ev 2 3)
  have f: "?f = (\<lambda>db. record_status_transition (po_to_ts E) (po_json E) (po_db_now E (px_clock y)) db
      (outcome_transition outcome) (ca_tenant_id (request_action q)) (request_key q) (outcome_error outcome) at ev ob)"
    by (cases outcome) (simp_all add: outcome_transition_def outcome_error_def record_success_def record_failure_def)
  show thesis
    by (rule that [of ev ms ob y "po_db_now E (px_clock y)" at]) (simp_all add: outcome_event_def ev 1 2 3 run f)
qed

text \<open>Each of them touches the database through the recorder only.\<close>

lemma recorder_step_frame:
  assumes "try_st (recorder_call f y) (\<lambda>report x. (Ok (g report), x)) = (r, x')"
  shows "px_adapter x' = px_adapter y" and "px_db x' = snd (f (px_db y))"
    and "r = Inr z \<Longrightarrow> \<exists>report. fst (f (px_db y)) = Inr report \<and> z = g report"
    and "r = Inl e \<Longrightarrow> \<exists>e0. fst (f (px_db y)) = Inl e0 \<and> e = postgres_error_to_execution_error e0"
  using assms by (cases "fst (f (px_db y))"; auto simp: recorder_call_eq)+

lemma pg_record_outcome_frame:
  "px_adapter (snd (pg_record_outcome E x q tr evs outcome)) = px_adapter x"
  "ledger_rely (px_db x) (px_db (snd (pg_record_outcome E x q tr evs outcome)))"
proof -
  obtain ms ev ob at y db_now where y: "px_db y = px_db x" "px_adapter y = px_adapter x"
    and eq: "pg_record_outcome E x q tr evs outcome = try_st (recorder_call (\<lambda>db. record_status_transition (po_to_ts E) (po_json E) db_now db
      (outcome_transition outcome) (ca_tenant_id (request_action q)) (request_key q) (outcome_error outcome) at ev ob) y)
      (\<lambda>report x. (Ok \<lparr>rep_operation = xr_operation report, rep_events = (if xr_duplicate report then evs else evs @ [ev]),
            rep_duplicate = xr_duplicate report\<rparr>, x))"
    by (rule pg_record_outcomeE [of tr outcome q x E evs]) blast
  note step = recorder_step_frame [OF prod.collapse [symmetric, of "pg_record_outcome E x q tr evs outcome", unfolded eq], folded eq]
  show "px_adapter (snd (pg_record_outcome E x q tr evs outcome)) = px_adapter x"
    and "ledger_rely (px_db x) (px_db (snd (pg_record_outcome E x q tr evs outcome)))"
    by (simp_all add: step(1,2) y recorder_rely)
qed

lemma pg_run_execute_law:
  assumes "po_adapter E = watched Ad" and "interferes_safely Ad"
  shows "px_calls (snd (pg_run_execute E x q tr evs)) = px_calls x @ [(q, px_db x)]"
    and "ledger_rely (px_db x) (px_db (snd (pg_run_execute E x q tr evs)))"
proof -
  let ?c = "adapter_call_st (\<lambda>s. ad_execute (watched Ad) s q) x"
  have run: "pg_run_execute E x q tr evs = pg_record_outcome E (snd ?c) q tr evs (fst ?c)"
    by (simp add: pg_run_execute_def assms(1) split: prod.split)
  show "px_calls (snd (pg_run_execute E x q tr evs)) = px_calls x @ [(q, px_db x)]"
    by (simp add: run pg_record_outcome_frame watched_calls [OF assms(2)])
  show "ledger_rely (px_db x) (px_db (snd (pg_run_execute E x q tr evs)))"
    unfolding run using watched_calls(4) [OF assms(2)] pg_record_outcome_frame(2) by (rule ledger_rely_trans)
qed

text \<open>
  What one run does to the list of executions: nothing, or one execution, asked for on a database
  that the run's own transaction has just taken from \<open>Confirmed\<close> to \<open>Executing\<close>.
\<close>

definition run_effect ::
  "json confirmed_execution_request \<Rightarrow> ('a \<times> (json confirmed_execution_request \<times> execution_db) list, 'c) pg_executor
     \<Rightarrow> ('a \<times> (json confirmed_execution_request \<times> execution_db) list, 'c) pg_executor \<Rightarrow> bool" where
  "run_effect q x x' \<longleftrightarrow> ledger_rely (px_db x) (px_db x') \<and>
     (px_calls x' = px_calls x \<or>
      (\<exists>d0 d. px_calls x' = px_calls x @ [(q, d)] \<and> ledger_ok d \<and> ledger_rely (px_db x) d0 \<and>
         claims_operation (ca_tenant_id (request_action q)) (request_key q) d0 d \<and> ledger_rely d (px_db x')))"

lemma record_executing_claims:
  assumes "ledger_ok db"
    and "record_status_transition to_ts J db_now db ToExecuting tenant key None now event outbox = (Inr rep, db')" and "\<not> not_owner rep"
  shows "claims_operation tenant key db db'"
proof -
  obtain db1 where tr: "transition_in_tx to_ts db ToExecuting tenant key None now = (Inr (xr_operation rep, xr_duplicate rep), db1)"
    and new: "\<not> xr_duplicate rep \<Longrightarrow> xd_operations db' = xd_operations db1 \<and> xd_actions db' = xd_actions db1"
    by (rule record_transition_OkE [OF assms(2)]) blast
  note step = transition_in_tx_Ok(2) [OF assms(1) _ tr, simplified]
  from step assms(3) have "\<not> xr_duplicate rep" by (auto simp: not_owner_def)
  with step new same_ledger(1) [of db' db1 tenant] show ?thesis by (auto simp: claims_operation_def)
qed

lemma pg_record_dry_run_law:
  assumes "ledger_ok (px_db x)" and run: "pg_record_dry_run E x action tr dry_run = (r, x')"
  shows "px_adapter x' = px_adapter x" and "ledger_rely (px_db x) (px_db x')"
    and "r = Inr (rep, ev, tr') \<Longrightarrow> \<not> not_owner rep \<Longrightarrow>
      claims_operation (ca_tenant_id action) (ca_idempotency_key action) (px_db x) (px_db x')"
proof -
  obtain ev0 tr0 ob at y db_now where y: "px_db y = px_db x" "px_adapter y = px_adapter x"
    and eq: "pg_record_dry_run E x action tr dry_run = try_st (recorder_call (\<lambda>db. record_status_transition (po_to_ts E) (po_json E) db_now db
      ToExecuting (ca_tenant_id action) (ca_idempotency_key action) None at ev0 ob) y) (\<lambda>report x. (Ok (report, ev0, tr0), x))"
    by (rule pg_record_dry_runE [of tr dry_run action x E]) blast
  note step = recorder_step_frame [OF run [unfolded eq]]
  show "px_adapter x' = px_adapter x" and "ledger_rely (px_db x) (px_db x')"
    by (simp_all add: step(1,2) y recorder_rely)
  show "claims_operation (ca_tenant_id action) (ca_idempotency_key action) (px_db x) (px_db x')"
    if r: "r = Inr (rep, ev, tr')" and own: "\<not> not_owner rep"
    by (rule record_executing_claims [OF assms(1) _ own, where to_ts = "po_to_ts E" and J = "po_json E" and db_now = db_now and now = at
          and event = ev0 and outbox = ob])
      (use step(2) step(3) [OF r] y in \<open>auto simp: prod_eq_iff\<close>)
qed

lemma pg_record_confirmation_law:
  assumes run: "pg_record_confirmation E x action = (r, x')"
  shows "px_adapter x' = px_adapter x" and "ledger_rely (px_db x) (px_db x')"
proof -
  obtain ev0 tr0 ob at y db_now where y: "px_db y = px_db x" "px_adapter y = px_adapter x"
    and eq: "pg_record_confirmation E x action = try_st (recorder_call (\<lambda>db. record_confirmation (po_to_ts E) (po_json E) db_now db
      action at (action_operation_id action) ev0 ob) y) (\<lambda>report x. (Ok (report, ev0, tr0), x))"
    by (rule pg_record_confirmationE [of action x E]) blast
  note step = recorder_step_frame [OF run [unfolded eq]]
  show "px_adapter x' = px_adapter x" and "ledger_rely (px_db x) (px_db x')"
    by (simp_all add: step(1,2) y recorder_rely)
qed

lemma pg_run_dry_run_law:
  assumes "po_adapter E = watched Ad" and "interferes_safely Ad" and "ledger_ok (px_db x)"
  shows "run_effect q x (snd (pg_run_dry_run E x q tr evs))"
proof -
  obtain r y where call: "adapter_call_st (\<lambda>s. ad_dry_run (watched Ad) s q) x = (r, y)" by fastforce
  with watched_calls(1,3) [OF assms(2), where x = x and q = q] have y: "px_calls y = px_calls x" "ledger_rely (px_db x) (px_db y)" by simp_all
  then have oky: "ledger_ok (px_db y)" using assms(3) by (simp add: ledger_rely_def)
  show ?thesis
  proof (cases r)
    case (Inl e)
    then show ?thesis using y call by (simp add: pg_run_dry_run_def assms(1) run_effect_def)
  next
    case (Inr dry_run)
    obtain r2 z where rec: "pg_record_dry_run E y (request_action q) tr dry_run = (r2, z)" by fastforce
    note law = pg_record_dry_run_law [OF oky rec]
    have z: "px_calls z = px_calls x" "ledger_rely (px_db x) (px_db z)" using law(1,2) y by (auto intro: ledger_rely_trans)
    then have okz: "ledger_ok (px_db z)" using assms(3) by (simp add: ledger_rely_def)
    show ?thesis
    proof (cases "\<exists>rep ev tr'. r2 = Inr (rep, ev, tr') \<and> \<not> not_owner rep")
      case True
      then obtain rep ev tr' where r2: "r2 = Inr (rep, ev, tr')" "\<not> not_owner rep" by blast
      then have run: "pg_run_dry_run E x q tr evs = pg_run_execute E z q tr' (if xr_duplicate rep then evs else evs @ [ev])"
        using call Inr rec by (simp add: pg_run_dry_run_def assms(1))
      from law(3) [OF r2] pg_run_execute_law [OF assms(1,2), of z q tr'] y z okz show ?thesis
        unfolding run_effect_def run by (auto intro: ledger_rely_trans)
    next
      case False
      then have "snd (pg_run_dry_run E x q tr evs) = z"
        using call Inr rec by (cases r2) (auto simp: pg_run_dry_run_def assms(1))
      with z show ?thesis by (simp add: run_effect_def)
    qed
  qed
qed

lemma pg_execute_law:
  assumes "po_adapter E = watched Ad" and "interferes_safely Ad" and "ledger_ok (px_db x)"
  shows "run_effect q x (snd (pg_execute_confirmed_request E x q))"
proof -
  obtain r y where rec: "pg_record_confirmation E x (request_action q) = (r, y)" by fastforce
  note y = pg_record_confirmation_law [OF rec]
  then have oky: "ledger_ok (px_db y)" using assms(3) by (simp add: ledger_rely_def)
  show ?thesis
  proof (cases "\<exists>rep ev tr'. r = Inr (rep, ev, tr') \<and> \<not> not_owner rep")
    case True
    then obtain rep ev tr' where "r = Inr (rep, ev, tr')" "\<not> not_owner rep" by blast
    then have "pg_execute_confirmed_request E x q = pg_run_dry_run E y q tr' (if xr_duplicate rep then [] else [ev])"
      using rec by (simp add: pg_execute_confirmed_request_def)
    with pg_run_dry_run_law [OF assms(1,2) oky, of q tr'] y show ?thesis
      unfolding run_effect_def by (auto intro: ledger_rely_trans)
  next
    case False
    then have "snd (pg_execute_confirmed_request E x q) = y"
      using rec by (cases r) (auto simp: pg_execute_confirmed_request_def)
    with y show ?thesis by (simp add: run_effect_def)
  qed
qed

section \<open>Sequences of requests\<close>

fun pg_executor_apply ::
  "('a, 'c) pg_executor_ops \<Rightarrow> ('a, 'c) pg_executor \<Rightarrow> json executor_call
     \<Rightarrow> (execution_report, execution_error) result \<times> ('a, 'c) pg_executor" where
  "pg_executor_apply E x (PlainCall q) = pg_execute_confirmed_request E x q"
| "pg_executor_apply E x (PolicyCall q ty scope b g p) =
     pg_execute_confirmed_request_with_policy E x q ty scope b g p"

fun pg_executor_run ::
  "('a, 'c) pg_executor_ops \<Rightarrow> ('a, 'c) pg_executor \<Rightarrow> json executor_call list \<Rightarrow> ('a, 'c) pg_executor" where
  "pg_executor_run E x [] = x"
| "pg_executor_run E x (c # cs) = pg_executor_run E (snd (pg_executor_apply E x c)) cs"

text \<open>The executions of one operation among the remembered calls.\<close>

definition executions_of ::
  "string \<Rightarrow> string \<Rightarrow> (json confirmed_execution_request \<times> execution_db) list \<Rightarrow> nat" where
  "executions_of tenant key calls = length (filter (\<lambda>(q, d). ca_tenant_id (request_action q) = tenant \<and> request_key q = key) calls)"

lemma pg_apply_effect:
  assumes "po_adapter E = watched Ad" and "interferes_safely Ad" and "ledger_ok (px_db x)"
  shows "run_effect (call_request c) x (snd (pg_executor_apply E x c))"
    and "\<not> call_permitted c \<Longrightarrow> px_calls (snd (pg_executor_apply E x c)) = px_calls x"
proof -
  have denied: "run_effect q x (snd (pg_execute_confirmed_request_with_policy E x q ty scope b g p)) \<and>
      px_calls (snd (pg_execute_confirmed_request_with_policy E x q ty scope b g p)) = px_calls x"
    if "policy_evaluate p (request_action q) ty scope g b = Inl e" for q ty scope b g p e
    using that by (auto simp: pg_execute_confirmed_request_with_policy_def Let_def case_prod_beta recorder_call_eq run_effect_def
        append_audit_event_in_tx_def on_audit_of_def intro: ledger_rely_same split: try_st_split)
  show "run_effect (call_request c) x (snd (pg_executor_apply E x c))"
  proof (cases c)
    case (PlainCall q)
    with pg_execute_law [OF assms] show ?thesis by simp
  next
    case (PolicyCall q ty scope b g p)
    with pg_execute_law [OF assms] denied show ?thesis
      by (cases "policy_evaluate p (request_action q) ty scope g b") (simp_all add: pg_execute_confirmed_request_with_policy_def)
  qed
  show "px_calls (snd (pg_executor_apply E x c)) = px_calls x" if "\<not> call_permitted c"
  proof (cases c)
    case (PlainCall q)
    with that show ?thesis by simp
  next
    case (PolicyCall q ty scope b g p)
    with that denied [of p q ty scope g b] show ?thesis
      by (cases "policy_evaluate p (request_action q) ty scope g b") (simp_all flip: policy_evaluate_Ok_iff)
  qed
qed

text \<open>An execution that the executor was entitled to: it came from a permitted call, and the operation had just been claimed.\<close>

definition entitled :: "json executor_call list \<Rightarrow> json confirmed_execution_request \<times> execution_db \<Rightarrow> bool" where
  "entitled cs = (\<lambda>(q, d). (\<exists>c \<in> set cs. call_request c = q \<and> call_permitted c) \<and>
     (\<exists>d0. claims_operation (ca_tenant_id (request_action q)) (request_key q) d0 d))"

definition executions_bounded ::
  "json executor_call list \<Rightarrow> (json confirmed_execution_request \<times> execution_db) list \<Rightarrow> execution_db \<Rightarrow> execution_db \<Rightarrow> bool" where
  "executions_bounded cs calls db db' \<longleftrightarrow> ledger_rely db db' \<and> list_all (entitled cs) calls \<and>
     (\<forall>tenant key. executions_of tenant key calls \<le> (if claim_gone tenant key db then 0 else 1) \<and>
        (executions_of tenant key calls \<noteq> 0 \<longrightarrow> claim_gone tenant key db'))"

lemma executions_of_Cons [simp]:
  "executions_of tenant key [] = 0"
  "executions_of tenant key ((q, d) # calls) =
     (if ca_tenant_id (request_action q) = tenant \<and> request_key q = key then 1 else 0) + executions_of tenant key calls"
  by (simp_all add: executions_of_def)

lemma bounded_step:
  assumes "ledger_ok db" and "ledger_rely db d0" and "claims_operation (ca_tenant_id (request_action q)) (request_key q) d0 d"
    and "ledger_rely d db1" and "ledger_ok d" and "executions_bounded cs calls db1 db'" and "ledger_rely db db1"
    and "call_request c = q" and "call_permitted c"
  shows "executions_bounded (c # cs) ((q, d) # calls) db db'"
proof -
  let ?t = "ca_tenant_id (request_action q)" and ?k = "request_key q"
  have "\<not> claim_gone ?t ?k d0" "claim_gone ?t ?k d" using assms(3) by (auto simp: claims_operation_def claim_gone_def)
  then have gone: "\<not> claim_gone ?t ?k db" "claim_gone ?t ?k db1" using assms(1,2,4,5) by (auto simp: ledger_rely_def)
  have ok1: "ledger_ok db1" using assms(1,7) by (simp add: ledger_rely_def)
  have keep: "claim_gone t k db \<Longrightarrow> claim_gone t k db1" for t k using assms(1,7) by (simp add: ledger_rely_def)
  have last: "claim_gone t k db1 \<Longrightarrow> claim_gone t k db'" for t k
    using assms(6) ok1 by (simp add: executions_bounded_def ledger_rely_def)
  have rest: "executions_of t k calls \<le> (if claim_gone t k db1 then 0 else 1)"
    "executions_of t k calls \<noteq> 0 \<Longrightarrow> claim_gone t k db'" for t k
    using assms(6) by (auto simp: executions_bounded_def)
  have "list_all (entitled (c # cs)) ((q, d) # calls)"
    using assms(3,6,8,9) by (auto simp: executions_bounded_def entitled_def list_all_iff)
  moreover have "executions_of t k ((q, d) # calls) \<le> (if claim_gone t k db then 0 else 1) \<and>
      (executions_of t k ((q, d) # calls) \<noteq> 0 \<longrightarrow> claim_gone t k db')" for t k
    using gone keep [of t k] last [of t k] rest [of t k] by (cases "(t, k) = (?t, ?k)") (auto split: if_splits)
  ultimately show ?thesis
    using assms(6,7) by (auto simp: executions_bounded_def intro: ledger_rely_trans)
qed

lemma bounded_weaken:
  assumes "executions_bounded cs calls db1 db'" and "ledger_ok db" and "ledger_rely db db1"
  shows "executions_bounded (c # cs) calls db db'"
proof -
  have "list_all (entitled (c # cs)) calls"
    using assms(1) unfolding executions_bounded_def by (auto simp: entitled_def list_all_iff)
  moreover have "executions_of tenant key calls \<le> (if claim_gone tenant key db then 0 else 1)" for tenant key
  proof -
    have "executions_of tenant key calls \<le> (if claim_gone tenant key db1 then 0 else 1)"
      using assms(1) unfolding executions_bounded_def by blast
    moreover have "claim_gone tenant key db \<Longrightarrow> claim_gone tenant key db1" using assms(2,3) by (simp add: ledger_rely_def)
    ultimately show ?thesis by (auto split: if_splits)
  qed
  ultimately show ?thesis
    using assms(1,3) by (auto simp: executions_bounded_def intro: ledger_rely_trans)
qed

lemma pg_executor_run_bounded:
  assumes "po_adapter E = watched Ad" and "interferes_safely Ad" and "ledger_ok (px_db x)"
  shows "\<exists>calls. px_calls (pg_executor_run E x cs) = px_calls x @ calls \<and>
    executions_bounded cs calls (px_db x) (px_db (pg_executor_run E x cs))"
  using assms(3)
proof (induction cs arbitrary: x)
  case Nil
  show ?case by (simp add: executions_bounded_def)
next
  case (Cons c cs)
  define x1 where "x1 = snd (pg_executor_apply E x c)"
  have eff: "run_effect (call_request c) x x1" and deny: "\<not> call_permitted c \<Longrightarrow> px_calls x1 = px_calls x"
    using pg_apply_effect [OF assms(1,2) Cons.prems] by (simp_all add: x1_def)
  then have rely: "ledger_rely (px_db x) (px_db x1)" by (simp add: run_effect_def)
  then have "ledger_ok (px_db x1)" using Cons.prems by (simp add: ledger_rely_def)
  from Cons.IH [OF this] obtain calls where calls: "px_calls (pg_executor_run E x1 cs) = px_calls x1 @ calls"
    "executions_bounded cs calls (px_db x1) (px_db (pg_executor_run E x1 cs))" by blast
  show ?case
  proof (cases "px_calls x1 = px_calls x")
    case True
    with calls bounded_weaken [OF calls(2) Cons.prems rely] show ?thesis by (simp add: x1_def [symmetric])
  next
    case False
    with eff obtain d0 d where d: "px_calls x1 = px_calls x @ [(call_request c, d)]" "ledger_rely (px_db x) d0" "ledger_ok d"
        "claims_operation (ca_tenant_id (request_action (call_request c))) (request_key (call_request c)) d0 d" "ledger_rely d (px_db x1)"
      by (auto simp: run_effect_def)
    with False deny bounded_step [OF Cons.prems d(2,4,5,3) calls(2) rely refl] calls(1) show ?thesis
      by (auto simp: x1_def [symmetric])
  qed
qed


section \<open>What a run records\<close>

definition events_recorded :: "audit_json \<Rightarrow> string \<Rightarrow> audit_event list \<Rightarrow> execution_db \<Rightarrow> execution_db \<Rightarrow> bool" where
  "events_recorded J operation_id events db db' \<longleftrightarrow> (\<exists>rows messages.
     ad_events (xd_audit db') = ad_events (xd_audit db) @ rows \<and> ad_outbox (xd_audit db') = ad_outbox (xd_audit db) @ messages \<and>
     list_all2 (\<lambda>event row. append_audit_event_query J event (Some operation_id) = Inr row) events rows \<and>
     map ob_payload messages = map message_of events \<and> list_all (\<lambda>m. ob_status m = ''pending'') messages)"

lemma events_recorded_Nil: "xd_audit db' = xd_audit db \<Longrightarrow> events_recorded J oid [] db db'"
  by (simp add: events_recorded_def)

lemma events_recorded_append:
  assumes "events_recorded J oid evs db db1" and "events_recorded J oid evs' db1 db'"
  shows "events_recorded J oid (evs @ evs') db db'"
proof -
  from assms(1) obtain rows ms where 1: "ad_events (xd_audit db1) = ad_events (xd_audit db) @ rows" "ad_outbox (xd_audit db1) = ad_outbox (xd_audit db) @ ms"
    "list_all2 (\<lambda>event row. append_audit_event_query J event (Some oid) = Inr row) evs rows"
    "map ob_payload ms = map message_of evs" "list_all (\<lambda>m. ob_status m = ''pending'') ms" unfolding events_recorded_def by blast
  from assms(2) obtain rows' ms' where 2: "ad_events (xd_audit db') = ad_events (xd_audit db1) @ rows'" "ad_outbox (xd_audit db') = ad_outbox (xd_audit db1) @ ms'"
    "list_all2 (\<lambda>event row. append_audit_event_query J event (Some oid) = Inr row) evs' rows'"
    "map ob_payload ms' = map message_of evs'" "list_all (\<lambda>m. ob_status m = ''pending'') ms'" unfolding events_recorded_def by blast
  show ?thesis unfolding events_recorded_def
    by (rule exI [of _ "rows @ rows'"], rule exI [of _ "ms @ ms'"]) (use 1 2 in \<open>simp add: list_all2_appendI\<close>)
qed

lemma transition_events_recorded:
  assumes "transition_recorded J t event outbox rep db db'" and "ov_payload outbox = message_of event"
  shows "events_recorded J (op_operation_id (xr_operation rep)) [event] db db'"
  using assms unfolding transition_recorded_def events_recorded_def
  by (elim conjE exE) (simp add: list_all2_Cons1)

text \<open>A recorded transition concerns the operation of its key, whether it is a repetition or not.\<close>

lemma record_transition_view:
  assumes "ledger_ok db" and "(error = None) = (t \<noteq> ToFailed)"
    and run: "record_status_transition to_ts J db_now db t tenant key error now event outbox = (Inr rep, db')"
  shows "pg_view tenant db' key = Some (xr_operation rep) \<and>
    (\<exists>old. pg_view tenant db key = Some old \<and> op_operation_id (xr_operation rep) = op_operation_id old)"
proof -
  obtain db1 where tr: "transition_in_tx to_ts db t tenant key error now = (Inr (xr_operation rep, xr_duplicate rep), db1)"
    and same: "xd_operations db' = xd_operations db1 \<and> xd_actions db' = xd_actions db1"
    by (rule record_transition_OkE [OF run]) metis
  from pg_transition_refines [OF assms(1,2) transition_in_tx_Ok(1) [OF assms(1,2) tr]]
  show ?thesis using same_ledger(1) [of db' db1 tenant] same by (auto simp: mark_spec_def)
qed

lemma record_confirmation_step:
  assumes "ledger_ok db" and run: "record_confirmation to_ts J db_now db a ms oid event outbox = (Inr rep, db')"
  shows "ca_status a = Confirmed \<and> ledger_ok db' \<and> pg_view (ca_tenant_id a) db' (ca_idempotency_key a) = Some (xr_operation rep) \<and>
    (if xr_duplicate rep
     then pg_view (ca_tenant_id a) db (ca_idempotency_key a) = Some (xr_operation rep) \<and> xd_audit db' = xd_audit db
     else pg_view (ca_tenant_id a) db (ca_idempotency_key a) = None \<and> op_status (xr_operation rep) = Confirmed \<and>
       (ov_payload outbox = message_of event \<longrightarrow> events_recorded J (op_operation_id (xr_operation rep)) [event] db db'))"
proof -
  obtain q db1 where sub: "pg_submit_confirmed_action to_ts db_now db a ms oid = (q, db1)" by fastforce
  from run have val: "validate_recorder_tenant (ca_tenant_id a) event outbox = Inr ()"
    by (cases "validate_recorder_tenant (ca_tenant_id a) event outbox") (simp_all add: record_confirmation_def)
  with run sub obtain submit where q: "q = Inr submit" by (cases q) (auto simp: record_confirmation_def)
  note law = pg_submit_refines [OF assms(1) sub]
  have conf: "ca_status a = Confirmed" using law q by (auto simp: submit_spec_def split: submit_result.splits)
  have aud: "xd_audit db1 = xd_audit db"
    using sub q by (auto simp: pg_submit_confirmed_action_def submit_confirmed_action_with_executor_def SUBMIT_CONFIRMED_ACTION_AND_LEDGER_def
        exec_sql_def try_then_Ok_iff Let_def elim!: try_st_OkE split: if_splits sum.splits option.splits)
  show ?thesis
  proof (cases submit)
    case (Existing rec)
    with run sub q val have "rep = \<lparr>xr_operation = rec, xr_outbox_id = None, xr_inbox_item_id = None, xr_duplicate = True\<rparr>" "db' = db1"
      by (auto simp: record_confirmation_def)
    with law q Existing aud conf show ?thesis by (auto simp: submit_spec_def)
  next
    case (Created rec)
    obtain r2 db2 where app: "append_audit_event_in_tx J db1 event (Some (op_operation_id rec)) = (r2, db2)" by fastforce
    obtain r3 db3 where enq: "enqueue_outbox_in_tx to_ts db_now db2 outbox = (r3, db3)" by fastforce
    note run' = run sub q val Created
    from run' app obtain u where r2: "r2 = Inr u" by (cases r2) (simp_all add: record_confirmation_def)
    from run' app r2 enq obtain ouid where r3: "r3 = Inr ouid" by (cases r3) (simp_all add: record_confirmation_def)
    from run' app r2 enq r3 have rep: "rep = \<lparr>xr_operation = rec, xr_outbox_id = Some ouid, xr_inbox_item_id = None, xr_duplicate = False\<rparr>" "db' = db3"
      by (simp_all add: record_confirmation_def)
    from app r2 obtain row where row: "append_audit_event_query J event (Some (op_operation_id rec)) = Inr row"
      "db2 = db1\<lparr>xd_audit := (audit_of db1)\<lparr>ad_events := ad_events (xd_audit db1) @ [row]\<rparr>\<rparr>" by (auto elim!: append_in_tx_OkE)
    from enq r3 obtain m where m: "db3 = db2\<lparr>xd_audit := (audit_of db2)\<lparr>ad_outbox := ad_outbox (xd_audit db2) @ [m],
        ad_outbox_id_seq := ad_outbox_id_seq (xd_audit db2) + 1\<rparr>\<rparr>" "ob_payload m = ov_payload outbox" "ob_status m = ''pending''"
      by (auto elim!: enqueue_OkE)
    have "ov_payload outbox = message_of event \<Longrightarrow> events_recorded J (op_operation_id rec) [event] db db'"
      unfolding events_recorded_def using row m aud
      by (intro exI [of _ "[row]"] exI [of _ "[m]"]) (simp add: rep audit_of_def)
    moreover have "pg_view t db' = pg_view t db1" "ledger_ok db' \<longleftrightarrow> ledger_ok db1" for t using same_ledger [of db' db1] row m rep by simp_all
    ultimately show ?thesis using law q Created conf rep by (auto simp: submit_spec_def)
  qed
qed


section \<open>Runs without interference\<close>

text \<open>An adapter that leaves the database alone, and so do all other workers during its calls.\<close>

definition undisturbed :: "(json, 'a \<times> execution_db) adapter_ops \<Rightarrow> bool" where
  "undisturbed Ad \<longleftrightarrow> (\<forall>a db q. snd (snd (ad_dry_run Ad (a, db) q)) = db \<and> snd (snd (ad_execute Ad (a, db) q)) = db)"

lemma undisturbed_calls:
  assumes "undisturbed Ad"
  shows "px_db (snd (adapter_call_st (\<lambda>s. ad_dry_run Ad s q) x)) = px_db x"
    and "px_db (snd (adapter_call_st (\<lambda>s. ad_execute Ad s q) x)) = px_db x"
    and "fst (adapter_call_st (\<lambda>s. ad_execute Ad s q) x) = fst (ad_execute Ad (px_adapter x, px_db x) q)"
proof -
  have "snd (snd (ad_dry_run Ad (px_adapter x, px_db x) q)) = px_db x" "snd (snd (ad_execute Ad (px_adapter x, px_db x) q)) = px_db x"
    using assms by (simp_all add: undisturbed_def)
  then show "px_db (snd (adapter_call_st (\<lambda>s. ad_dry_run Ad s q) x)) = px_db x"
    and "px_db (snd (adapter_call_st (\<lambda>s. ad_execute Ad s q) x)) = px_db x"
    and "fst (adapter_call_st (\<lambda>s. ad_execute Ad s q) x) = fst (ad_execute Ad (px_adapter x, px_db x) q)"
    by (auto simp: adapter_call_st_def split: prod.splits)
qed

abbreviation request_view :: "json confirmed_execution_request \<Rightarrow> execution_db \<Rightarrow> operation_record option" where
  "request_view q db \<equiv> pg_view (ca_tenant_id (request_action q)) db (request_key q)"

lemma outcome_event_type:
  "ae_event_type (outcome_event ms tr outcome) = (case outcome of Inr _ \<Rightarrow> ExecutionSucceeded | Inl _ \<Rightarrow> ExecutionFailed)"
  by (cases outcome) (simp_all add: outcome_event_def execution_succeeded_record_def execution_failed_record_def trace_defs Let_def case_prod_beta)

lemma dry_run_event_type: "dry_run_record ms tr b a = (ev, tr') \<Longrightarrow> ae_event_type ev = DryRunExecuted"
  by (auto simp: dry_run_record_def trace_defs Let_def case_prod_beta)

lemma confirmed_event_type: "confirmed_action_record ms tr a = (ev, tr') \<Longrightarrow> ae_event_type ev = ConfirmedActionRecorded"
  by (auto simp: confirmed_action_record_def trace_defs Let_def case_prod_beta)

text \<open>A report that ends an execution which the run owned.\<close>

definition execution_reported ::
  "audit_json \<Rightarrow> audit_event list \<Rightarrow> (adapter_execution, adapter_error) result \<Rightarrow> json confirmed_execution_request \<Rightarrow> execution_report
     \<Rightarrow> audit_event list \<Rightarrow> execution_db \<Rightarrow> execution_db \<Rightarrow> bool" where
  "execution_reported J before outcome q rep evs db db' \<longleftrightarrow>
     \<not> rep_duplicate rep \<and> rep_events rep = before @ evs \<and> request_view q db' = Some (rep_operation rep) \<and>
     op_status (rep_operation rep) = target_status (outcome_transition outcome) \<and>
     events_recorded J (op_operation_id (rep_operation rep)) evs db db'"

lemma pg_run_execute_OkD:
  assumes "undisturbed (po_adapter E)" and "ledger_ok (px_db x)" and "request_view q (px_db x) = Some r" and "op_status r = Executing"
    and run: "pg_run_execute E x q tr evs = (Inr rep, x')"
  shows "\<exists>ms. execution_reported (po_json E) evs (fst (ad_execute (po_adapter E) (px_adapter x, px_db x) q)) q rep
    [outcome_event ms tr (fst (ad_execute (po_adapter E) (px_adapter x, px_db x) q))] (px_db x) (px_db x') \<and>
    op_operation_id (rep_operation rep) = op_operation_id r"
proof -
  obtain outcome y where call: "adapter_call_st (\<lambda>s. ad_execute (po_adapter E) s q) x = (outcome, y)" by fastforce
  with undisturbed_calls(2,3) [OF assms(1), of q x] have y: "px_db y = px_db x" "outcome = fst (ad_execute (po_adapter E) (px_adapter x, px_db x) q)"
    by simp_all
  from run call have run': "pg_record_outcome E y q tr evs outcome = (Inr rep, x')" by (simp add: pg_run_execute_def)
  obtain ms ev ob at z db_now where ev: "ev = outcome_event ms tr outcome" "ov_payload ob = message_of ev" "px_db z = px_db y"
    and eq: "pg_record_outcome E y q tr evs outcome = try_st (recorder_call (\<lambda>db. record_status_transition (po_to_ts E) (po_json E) db_now db
      (outcome_transition outcome) (ca_tenant_id (request_action q)) (request_key q) (outcome_error outcome) at ev ob) z)
      (\<lambda>report x. (Ok \<lparr>rep_operation = xr_operation report, rep_events = (if xr_duplicate report then evs else evs @ [ev]),
            rep_duplicate = xr_duplicate report\<rparr>, x))"
    by (rule pg_record_outcomeE [of tr outcome q y E evs]) blast
  note step = recorder_step_frame [OF run' [unfolded eq]]
  from step(3) [OF refl] obtain report where report:
    "record_status_transition (po_to_ts E) (po_json E) db_now (px_db x) (outcome_transition outcome)
       (ca_tenant_id (request_action q)) (request_key q) (outcome_error outcome) at ev ob = (Inr report, px_db x')"
    "rep = \<lparr>rep_operation = xr_operation report, rep_events = (if xr_duplicate report then evs else evs @ [ev]), rep_duplicate = xr_duplicate report\<rparr>"
    using step(2) y(1) ev(3) by (auto simp: prod_eq_iff)
  have par: "(outcome_error outcome = None) = (outcome_transition outcome \<noteq> ToFailed)"
    by (cases outcome) (simp_all add: outcome_error_def outcome_transition_def)
  have src: "outcome_transition outcome \<noteq> ToExecuting" by (cases outcome) (simp_all add: outcome_transition_def)
  note tstep = record_transition_step [OF assms(2) par report(1)]
  have fresh: "\<not> xr_duplicate report"
    using record_transition_view [OF assms(2) par report(1)] tstep assms(3,4) src by (cases "outcome_transition outcome") (auto split: if_splits)
  from tstep fresh have "transition_recorded (po_json E) (outcome_transition outcome) ev ob report (px_db x) (px_db x')" by simp
  note recd = transition_events_recorded [OF this ev(2)]
  have "op_operation_id (xr_operation report) = op_operation_id r" "request_view q (px_db x') = Some (xr_operation report)"
    using record_transition_view [OF assms(2) par report(1)] assms(3) by simp_all
  with tstep fresh recd show ?thesis
    unfolding execution_reported_def y(2) [symmetric] by (intro exI [of _ ms]) (simp add: report(2) ev(1) [symmetric])
qed


lemma pg_run_dry_run_OkD:
  assumes "undisturbed (po_adapter E)" and "ledger_ok (px_db x)" and "request_view q (px_db x) = Some r" and "\<not> is_terminal_status (op_status r)"
    and "op_status r \<noteq> Executing" and run: "pg_run_dry_run E x q tr evs = (Inr rep, x')"
  shows "\<exists>outcome ev1 ev2 s. execution_reported (po_json E) evs outcome q rep [ev1, ev2] (px_db x) (px_db x') \<and>
    outcome = fst (ad_execute (po_adapter E) s q) \<and> ae_event_type ev1 = DryRunExecuted \<and>
    ae_event_type ev2 = (case outcome of Inr _ \<Rightarrow> ExecutionSucceeded | Inl _ \<Rightarrow> ExecutionFailed) \<and>
    op_operation_id (rep_operation rep) = op_operation_id r"
proof -
  obtain res y where call: "adapter_call_st (\<lambda>s. ad_dry_run (po_adapter E) s q) x = (res, y)" by fastforce
  with undisturbed_calls(1) [OF assms(1), of q x] have y: "px_db y = px_db x" by simp
  from run call obtain dry_run where res: "res = Inr dry_run" by (cases res) (auto simp: pg_run_dry_run_def)
  obtain r2 z where rec: "pg_record_dry_run E y (request_action q) tr dry_run = (r2, z)" by fastforce
  obtain ms ev1 tr1 ob at y1 db_now where ev1: "dry_run_record ms tr (dr_before dry_run) (dr_after dry_run) = (ev1, tr1)"
      "ov_payload ob = message_of ev1" "px_db y1 = px_db y"
    and eq: "pg_record_dry_run E y (request_action q) tr dry_run = try_st (recorder_call (\<lambda>db. record_status_transition (po_to_ts E) (po_json E)
      db_now db ToExecuting (ca_tenant_id (request_action q)) (request_key q) None at ev1 ob) y1) (\<lambda>report x. (Ok (report, ev1, tr1), x))"
    by (rule pg_record_dry_runE [of tr dry_run "request_action q" y E]) blast
  note step = recorder_step_frame [OF rec [unfolded eq]]
  from run call res rec obtain report where r2: "r2 = Inr (report, ev1, tr1)"
    using step(3) by (cases r2) (auto simp: pg_run_dry_run_def)
  have report: "record_status_transition (po_to_ts E) (po_json E) db_now (px_db x) ToExecuting
       (ca_tenant_id (request_action q)) (request_key q) None at ev1 ob = (Inr report, px_db z)"
    using step(2) step(3) [OF r2] y ev1(3) by (auto simp: prod_eq_iff)
  note tstep = record_transition_step [OF assms(2) _ report, simplified]
  obtain old where view: "pg_view (ca_tenant_id (request_action q)) (px_db z) (request_key q) = Some (xr_operation report)"
    and old: "request_view q (px_db x) = Some old" "op_operation_id (xr_operation report) = op_operation_id old"
    using record_transition_view [OF assms(2) _ report] by auto
  have fresh: "\<not> xr_duplicate report" using tstep view assms(3,5) by (auto split: if_splits)
  then have own: "\<not> not_owner report" by (simp add: not_owner_def)
  from run call res rec r2 own fresh have exec: "pg_run_execute E z q tr1 (evs @ [ev1]) = (Inr rep, x')"
    by (simp add: pg_run_dry_run_def)
  from tstep fresh have z: "ledger_ok (px_db z)" "op_status (xr_operation report) = Executing"
    "transition_recorded (po_json E) ToExecuting ev1 ob report (px_db x) (px_db z)" by simp_all
  from pg_run_execute_OkD [OF assms(1) z(1) view z(2) exec] obtain ms2 where
    fin: "execution_reported (po_json E) (evs @ [ev1]) (fst (ad_execute (po_adapter E) (px_adapter z, px_db z) q)) q rep
    [outcome_event ms2 tr1 (fst (ad_execute (po_adapter E) (px_adapter z, px_db z) q))] (px_db z) (px_db x')"
    and ids: "op_operation_id (rep_operation rep) = op_operation_id (xr_operation report)" by blast
  have "execution_reported (po_json E) evs (fst (ad_execute (po_adapter E) (px_adapter z, px_db z) q)) q rep
    [ev1, outcome_event ms2 tr1 (fst (ad_execute (po_adapter E) (px_adapter z, px_db z) q))] (px_db x) (px_db x')"
    using fin events_recorded_append [OF transition_events_recorded [OF z(3) ev1(2)]] ids by (simp add: execution_reported_def)
  then show ?thesis using dry_run_event_type [OF ev1(1)] outcome_event_type ids old assms(3) by fastforce
qed


text \<open>
  C3. What a report of the Postgres executor says is what the database holds, when nobody else works on
  it during the run. A duplicate report is the stored record of an operation that is executing or
  finished already, and the run has recorded nothing. Any other report ends an operation that was
  not started before: the adapter was asked, the record is \<open>Succeeded\<close> or \<open>Failed\<close> as the adapter's
  answer was, and the events of the report, the confirmation (only if the operation is new to the
  ledger), the dry run and the outcome, are exactly what was appended to the audit log, each with
  one pending outbox message that names it.
\<close>

theorem pg_executor_report_faithful:
  assumes "undisturbed (po_adapter E)" and "ledger_ok (px_db x)"
    and "pg_execute_confirmed_request E x q = (Ok rep, x')"
  shows "request_view q (px_db x') = Some (rep_operation rep) \<and>
    events_recorded (po_json E) (op_operation_id (rep_operation rep)) (rep_events rep) (px_db x) (px_db x') \<and>
    (if rep_duplicate rep
     then rep_events rep = [] \<and> request_view q (px_db x) = Some (rep_operation rep) \<and>
       op_status (rep_operation rep) \<in> {Executing, Succeeded, Failed, Cancelled}
     else (\<exists>s. let outcome = fst (ad_execute (po_adapter E) s q) in
       op_status (rep_operation rep) = (case outcome of Inr _ \<Rightarrow> Succeeded | Inl _ \<Rightarrow> Failed) \<and>
       map ae_event_type (rep_events rep) =
         (if request_view q (px_db x) = None then [ConfirmedActionRecorded] else []) @
         [DryRunExecuted, case outcome of Inr _ \<Rightarrow> ExecutionSucceeded | Inl _ \<Rightarrow> ExecutionFailed]))"
proof -
  obtain r y where rec: "pg_record_confirmation E x (request_action q) = (r, y)" by fastforce
  obtain ms ev tr ob at y1 db_now where ev: "confirmed_action_record ms (action_audit_trace (request_action q)) (request_action q) = (ev, tr)"
      "ov_payload ob = message_of ev" "px_db y1 = px_db x"
    and eq: "pg_record_confirmation E x (request_action q) = try_st (recorder_call (\<lambda>db. record_confirmation (po_to_ts E) (po_json E) db_now db
      (request_action q) at (action_operation_id (request_action q)) ev ob) y1) (\<lambda>report x. (Ok (report, ev, tr), x))"
    by (rule pg_record_confirmationE [of "request_action q" x E]) blast
  note step = recorder_step_frame [OF rec [unfolded eq]]
  from assms(3) rec obtain report where r: "r = Inr (report, ev, tr)"
    using step(3) by (cases r) (auto simp: pg_execute_confirmed_request_def)
  have report: "record_confirmation (po_to_ts E) (po_json E) db_now (px_db x) (request_action q) at
      (action_operation_id (request_action q)) ev ob = (Inr report, px_db y)"
    using step(2) step(3) [OF r] ev(3) by (auto simp: prod_eq_iff)
  note cstep = record_confirmation_step [OF assms(2) report]
  show ?thesis
  proof (cases "not_owner report")
    case True
    with assms(3) rec r have "rep = \<lparr>rep_operation = xr_operation report, rep_events = [], rep_duplicate = True\<rparr>" "x' = y"
      by (auto simp: pg_execute_confirmed_request_def)
    with cstep True events_recorded_Nil show ?thesis by (auto simp: not_owner_def elim: is_terminal_status.elims)
  next
    case False
    let ?evs = "if xr_duplicate report then [] else [ev]"
    from False assms(3) rec r have run: "pg_run_dry_run E y q tr ?evs = (Inr rep, x')"
      by (simp add: pg_execute_confirmed_request_def)
    have st: "\<not> is_terminal_status (op_status (xr_operation report))" "op_status (xr_operation report) \<noteq> Executing"
      using False cstep by (auto simp: not_owner_def split: if_splits)
    from cstep have y: "ledger_ok (px_db y)" "request_view q (px_db y) = Some (xr_operation report)" by simp_all
    from pg_run_dry_run_OkD [OF assms(1) y st run] obtain outcome ev1 ev2 s where
      fin: "execution_reported (po_json E) ?evs outcome q rep [ev1, ev2] (px_db y) (px_db x')"
      and out: "outcome = fst (ad_execute (po_adapter E) s q)" "ae_event_type ev1 = DryRunExecuted"
        "ae_event_type ev2 = (case outcome of Inr _ \<Rightarrow> ExecutionSucceeded | Inl _ \<Rightarrow> ExecutionFailed)"
        "op_operation_id (rep_operation rep) = op_operation_id (xr_operation report)" by blast
    have pre: "events_recorded (po_json E) (op_operation_id (rep_operation rep)) ?evs (px_db x) (px_db y)"
      using cstep ev(2) out(4) events_recorded_Nil by (auto split: if_splits)
    have "events_recorded (po_json E) (op_operation_id (rep_operation rep)) (rep_events rep) (px_db x) (px_db x')"
      using events_recorded_append [OF pre] fin by (simp add: execution_reported_def)
    moreover have "map ae_event_type (rep_events rep) = (if request_view q (px_db x) = None then [ConfirmedActionRecorded] else []) @
         [DryRunExecuted, case outcome of Inr _ \<Rightarrow> ExecutionSucceeded | Inl _ \<Rightarrow> ExecutionFailed]"
      using fin out cstep confirmed_event_type [OF ev(1)] by (auto simp: execution_reported_def split: if_splits)
    moreover have "op_status (rep_operation rep) = (case outcome of Inr _ \<Rightarrow> Succeeded | Inl _ \<Rightarrow> Failed)"
      using fin by (cases outcome) (simp_all add: execution_reported_def outcome_transition_def)
    moreover have "\<not> rep_duplicate rep" "request_view q (px_db x') = Some (rep_operation rep)"
      using fin by (simp_all add: execution_reported_def)
    ultimately show ?thesis using out(1) by (simp add: Let_def del: split_paired_Ex) blast
  qed
qed

section \<open>Reuse of the first event id\<close>

definition stores_event_id :: "string \<Rightarrow> execution_db \<Rightarrow> bool" where
  "stores_event_id eid db \<longleftrightarrow> eid \<in> ar_event_id ` set (ad_events (xd_audit db))"

lemma append_stored_event:
  assumes "stores_event_id (ae_event_id event) db"
  shows "\<exists>e. append_audit_event_in_tx J db event oid = (Inl e, db\<lparr>xd_audit := audit_of db\<rparr>)"
proof (cases "append_audit_event_query J event oid")
  case (Inl e)
  then show ?thesis by (simp add: append_audit_event_in_tx_def on_audit_of_def pg_audit_append_def)
next
  case (Inr row)
  then have "ar_event_id row = ae_event_id event" by (auto simp: append_audit_event_query_def try_then_Ok_iff)
  then have "list_ex (same_event_key row) (ad_events (audit_of db))"
    using assms by (auto simp: stores_event_id_def list_ex_iff same_event_key_def audit_of_def)
  with Inr show ?thesis
    by (simp add: append_audit_event_in_tx_def on_audit_of_def pg_audit_append_def APPEND_AUDIT_EVENT_def)
qed

lemma append_Ok_stores:
  "append_audit_event_in_tx J db event oid = (Inr u, db') \<Longrightarrow> stores_event_id (ae_event_id event) db'"
  by (erule append_in_tx_OkE) (auto simp: stores_event_id_def append_audit_event_query_def try_then_Ok_iff)

lemma confirmation_event_id: "confirmed_action_record ms (action_audit_trace a) a = (ev, tr) \<Longrightarrow> ae_event_id ev = first_event_id a"
  by (auto simp: confirmed_action_record_def trace_defs action_audit_trace_def audit_trace_new_def first_event_id_def show_u64_1 Let_def)

lemma denial_event_id: "execution_denied_record ms (action_audit_trace a) d = (ev, tr) \<Longrightarrow> ae_event_id ev = first_event_id a"
  by (auto simp: execution_denied_record_def trace_defs action_audit_trace_def audit_trace_new_def first_event_id_def show_u64_1 Let_def)

lemma record_confirmation_blocked:
  assumes "ledger_ok db" and "pg_view (ca_tenant_id a) db (ca_idempotency_key a) = None" and "stores_event_id (ae_event_id event) db"
  shows "\<exists>e. record_confirmation to_ts J db_now db a ms oid event outbox = (Inl e, db)"
proof (cases "fst (record_confirmation to_ts J db_now db a ms oid event outbox)")
  case (Inl e)
  then show ?thesis
    by (cases "record_confirmation to_ts J db_now db a ms oid event outbox")
      (auto simp: record_confirmation_def in_tx_def try_st_def split: sum.splits prod.splits)
next
  case (Inr rep)
  then obtain db' where run: "record_confirmation to_ts J db_now db a ms oid event outbox = (Inr rep, db')"
    by (cases "record_confirmation to_ts J db_now db a ms oid event outbox") simp
  obtain q db1 where sub: "pg_submit_confirmed_action to_ts db_now db a ms oid = (q, db1)" by fastforce
  from run have val: "validate_recorder_tenant (ca_tenant_id a) event outbox = Inr ()"
    by (cases "validate_recorder_tenant (ca_tenant_id a) event outbox") (simp_all add: record_confirmation_def)
  with run sub obtain submit where q: "q = Inr submit" by (cases q) (auto simp: record_confirmation_def)
  obtain rec where rec: "submit = Created rec"
    using pg_submit_refines [OF assms(1) sub] q assms(2) by (cases submit) (simp_all add: submit_spec_def)
  have "xd_audit db1 = xd_audit db"
    using sub q by (auto simp: pg_submit_confirmed_action_def submit_confirmed_action_with_executor_def SUBMIT_CONFIRMED_ACTION_AND_LEDGER_def
        exec_sql_def try_then_Ok_iff Let_def elim!: try_st_OkE split: if_splits sum.splits option.splits)
  then have "stores_event_id (ae_event_id event) db1" using assms(3) by (simp add: stores_event_id_def)
  from append_stored_event [OF this] obtain e where "append_audit_event_in_tx J db1 event (Some (op_operation_id rec)) =
      (Inl e, db1\<lparr>xd_audit := audit_of db1\<rparr>)" by blast
  with run val sub q rec show ?thesis by (simp add: record_confirmation_def)
qed

lemma pg_execute_blocked:
  assumes "ledger_ok (px_db x)" and "request_view q (px_db x) = None" and "stores_event_id (first_event_id (request_action q)) (px_db x)"
  shows "\<exists>e x'. pg_execute_confirmed_request E x q = (Inl (AdapterErr e), x') \<and> px_db x' = px_db x \<and> px_adapter x' = px_adapter x"
proof -
  obtain r y where rec: "pg_record_confirmation E x (request_action q) = (r, y)" by fastforce
  obtain ms ev tr ob at y1 db_now where ev: "confirmed_action_record ms (action_audit_trace (request_action q)) (request_action q) = (ev, tr)"
      "px_db y1 = px_db x" "px_adapter y1 = px_adapter x"
    and eq: "pg_record_confirmation E x (request_action q) = try_st (recorder_call (\<lambda>db. record_confirmation (po_to_ts E) (po_json E) db_now db
      (request_action q) at (action_operation_id (request_action q)) ev ob) y1) (\<lambda>report x. (Ok (report, ev, tr), x))"
    by (rule pg_record_confirmationE [of "request_action q" x E]) blast
  obtain e where "record_confirmation (po_to_ts E) (po_json E) db_now (px_db x) (request_action q) at
      (action_operation_id (request_action q)) ev ob = (Inl e, px_db x)"
    using record_confirmation_blocked [OF assms(1,2)] assms(3) confirmation_event_id [OF ev(1)] by metis
  with ev(2,3) have "pg_record_confirmation E x (request_action q) = (Inl (postgres_error_to_execution_error e), y1\<lparr>px_db := px_db x\<rparr>)"
    unfolding eq by (simp add: recorder_call_eq)
  then show ?thesis using ev(3) by (auto simp: pg_execute_confirmed_request_def postgres_error_to_execution_error_def)
qed

text \<open>The plain executor fails with an error of the adapter or of the repository only.\<close>

lemma recorder_step_error:
  "fst (try_st (recorder_call f y) (\<lambda>report x. (Ok (g report), x))) = Inl e \<Longrightarrow> \<exists>a. e = AdapterErr a"
  using recorder_step_frame(4) [OF prod.collapse [symmetric]] by (fastforce simp: postgres_error_to_execution_error_def)

lemma recorder_step_error':
  "p = try_st (recorder_call f y) (\<lambda>report x. (Ok (g report), x)) \<Longrightarrow> fst p = Inl e \<Longrightarrow> \<exists>a. e = AdapterErr a"
  by (rule recorder_step_error) simp

lemma recorder_step_errors:
  "fst (pg_record_outcome E x q tr evs outcome) = Inl e \<Longrightarrow> \<exists>a. e = AdapterErr a"
  "fst (pg_record_dry_run E x a tr d) = Inl e \<Longrightarrow> \<exists>a. e = AdapterErr a"
  "fst (pg_record_confirmation E x a) = Inl e \<Longrightarrow> \<exists>a. e = AdapterErr a"
proof -
  show "fst (pg_record_outcome E x q tr evs outcome) = Inl e \<Longrightarrow> \<exists>a. e = AdapterErr a"
    by (rule pg_record_outcomeE [of tr outcome q x E evs], rule recorder_step_error')
  show "fst (pg_record_dry_run E x a tr d) = Inl e \<Longrightarrow> \<exists>a. e = AdapterErr a"
    by (rule pg_record_dry_runE [of tr d a x E], rule recorder_step_error')
  show "fst (pg_record_confirmation E x a) = Inl e \<Longrightarrow> \<exists>a. e = AdapterErr a"
    by (rule pg_record_confirmationE [of a x E], rule recorder_step_error')
qed

lemma pg_execute_error:
  assumes "fst (pg_execute_confirmed_request E x q) = Inl e"
  shows "\<exists>a. e = AdapterErr a"
proof -
  have outcome: "\<exists>a. e = AdapterErr a" if "fst (pg_record_outcome E y q tr evs res) = Inl e" for y tr evs res
    using that by (rule recorder_step_errors(1))
  have dry: "\<exists>a. e = AdapterErr a" if "fst (pg_record_dry_run E y a tr d) = Inl e" for y a tr d
    using that by (rule recorder_step_errors(2))
  have conf: "\<exists>a. e = AdapterErr a" if "fst (pg_record_confirmation E y a) = Inl e" for y a
    using that by (rule recorder_step_errors(3))
  have exec: "\<exists>a. e = AdapterErr a" if "fst (pg_run_execute E y q tr evs) = Inl e" for y tr evs
    using that outcome by (auto simp: pg_run_execute_def split: prod.splits)
  have run: "\<exists>a. e = AdapterErr a" if "fst (pg_run_dry_run E y q tr evs) = Inl e" for y tr evs
  proof -
    obtain res z where call: "adapter_call_st (\<lambda>s. ad_dry_run (po_adapter E) s q) y = (res, z)" by fastforce
    show ?thesis
    proof (cases res)
      case (Inr d)
      obtain r2 w where rec: "pg_record_dry_run E z (request_action q) tr d = (r2, w)" by fastforce
      then show ?thesis
        using that call Inr exec dry [of z "request_action q" tr d] by (cases r2) (auto simp: pg_run_dry_run_def split: if_splits)
    qed (use that call in \<open>auto simp: pg_run_dry_run_def\<close>)
  qed
  obtain r y where rec: "pg_record_confirmation E x (request_action q) = (r, y)" by fastforce
  then show ?thesis
    using assms run conf [of x "request_action q"] by (cases r) (auto simp: pg_execute_confirmed_request_def split: if_splits)
qed


section \<open>Witnesses\<close>

definition sample_pg_adapter :: "(json, unit \<times> execution_db) adapter_ops" where
  "sample_pg_adapter = \<lparr>
     ad_dry_run = (\<lambda>s _. (Ok \<lparr>dr_before = None, dr_after = None\<rparr>, s)),
     ad_execute = (\<lambda>s _. (Ok \<lparr>ax_adapter_operation_id = ''op'', ax_before = None, ax_after = None\<rparr>, s))\<rparr>"

definition sample_pg_ops ::
  "(unit \<times> (json confirmed_execution_request \<times> execution_db) list, u64) pg_executor_ops" where
  "sample_pg_ops = \<lparr>po_adapter = watched sample_pg_adapter, po_clock_ms = (\<lambda>n. (n, n + 1)), po_db_now = (\<lambda>_. 0),
     po_to_ts = Some, po_json = sample_json\<rparr>"

definition sample_pg_request :: "json confirmed_execution_request" where
  "sample_pg_request = \<lparr>cr_confirmed_action = \<lparr>ca_action_id = ''a'', ca_tenant_id = ''t'', ca_actor_user_id = ''u'',
       ca_idempotency_key = ''k'', ca_status = Confirmed, ca_confirmed_at = Some 0\<rparr>,
     cr_proposed_action_id = ''p'', cr_proposed_action_version = 1, cr_action_kind = UpdateKrProgress, cr_target_user_id = None,
     cr_owner_user_id = None, cr_evidence_ids = [''e''], cr_effective_payload = JNull, cr_decision = ExecConfirm\<rparr>"

definition sample_pg_executor ::
  "(unit \<times> (json confirmed_execution_request \<times> execution_db) list, u64) pg_executor" where
  "sample_pg_executor = pg_executor_new ((), []) 1 (sample_execution_db ''confirmed'')"

lemma sample_pg_simps [simp]:
  "po_adapter sample_pg_ops = watched sample_pg_adapter" "po_json sample_pg_ops = sample_json"
  "px_db sample_pg_executor = sample_execution_db ''confirmed''" "px_calls sample_pg_executor = []"
  by (simp_all add: sample_pg_ops_def sample_pg_executor_def pg_executor_new_def)

lemma sample_pg_adapter_safe [simp]: "interferes_safely sample_pg_adapter" "undisturbed (watched sample_pg_adapter)"
  by (auto simp: interferes_safely_def undisturbed_def watched_def sample_pg_adapter_def)

text \<open>One full run: the adapter is asked once and the report holds the dry run and the outcome.\<close>

lemma sample_pg_run:
  "case pg_execute_confirmed_request sample_pg_ops sample_pg_executor sample_pg_request of
     (Inr rep, x') \<Rightarrow> \<not> rep_duplicate rep \<and> length (rep_events rep) = 2 \<and> length (px_calls x') = 1 | _ \<Rightarrow> False"
  by code_simp


theorem pg_executor_report_faithful_witness:
  "\<exists>rep x'. pg_execute_confirmed_request sample_pg_ops sample_pg_executor sample_pg_request = (Ok rep, x') \<and> \<not> rep_duplicate rep \<and>
     request_view sample_pg_request (px_db x') = Some (rep_operation rep) \<and>
     events_recorded sample_json (op_operation_id (rep_operation rep)) (rep_events rep) (sample_execution_db ''confirmed'') (px_db x')"
proof -
  from sample_pg_run obtain rep x' where run: "pg_execute_confirmed_request sample_pg_ops sample_pg_executor sample_pg_request = (Inr rep, x')"
    "\<not> rep_duplicate rep" by (auto split: prod.splits sum.splits)
  with pg_executor_report_faithful [OF _ _ run(1)] show ?thesis by auto
qed

text \<open>An action that the policy denies, in an empty ledger.\<close>

definition sample_denied_request :: "json confirmed_execution_request" where
  "sample_denied_request = sample_pg_request\<lparr>cr_confirmed_action := sample_confirmed\<rparr>"

definition sample_empty_executor ::
  "(unit \<times> (json confirmed_execution_request \<times> execution_db) list, u64) pg_executor" where
  "sample_empty_executor = pg_executor_new ((), []) 1 ((sample_execution_db ''confirmed'')\<lparr>xd_actions := [], xd_operations := [],
     xd_audit := (sample_audit_db [])\<lparr>ad_tenants := [''t1'']\<rparr>\<rparr>)"

lemma sample_denial_stored:
  "let (r, x1) = pg_execute_confirmed_request_with_policy sample_pg_ops sample_empty_executor sample_denied_request ''okr.progress.update'' ''other''
       sample_binding sample_grant sample_policy
   in (\<exists>d. r = Inl (PolicyDenied d)) \<and> ledger_ok (px_db x1) \<and> request_view sample_denied_request (px_db x1) = None \<and>
     xd_operations (px_db x1) = []"
proof -
  have "policy_evaluate sample_policy (request_action sample_denied_request) ''okr.progress.update'' ''other'' sample_grant sample_binding =
      Inl (MissingScope ''other'')"
    using sample_denied by (simp add: sample_denied_request_def Executor.sample_request_def)
  moreover have "fst (append_audit_event_in_tx sample_json (px_db sample_empty_executor)
      (fst (execution_denied_record 1 (action_audit_trace (request_action sample_denied_request)) (MissingScope ''other''))) None) = Inr ()"
    by code_simp
  moreover have "pg_now_ms sample_pg_ops sample_empty_executor = (1, sample_empty_executor\<lparr>px_clock := 2\<rparr>)"
    by (simp add: pg_now_ms_def sample_pg_ops_def sample_empty_executor_def pg_executor_new_def)
  ultimately show ?thesis
    by (auto simp: pg_execute_confirmed_request_with_policy_def Let_def case_prod_beta recorder_call_eq append_audit_event_in_tx_def on_audit_of_def
        sample_empty_executor_def pg_executor_new_def sample_execution_db_def ledger_ok_def pg_view_def GET_BY_IDEMPOTENCY_KEY_def)
qed


end
