(* ===== verification/Execution_Queue.thy ===== *)
theory Execution_Queue
  imports Postgres_Executor
begin

text \<open>
  The queue of confirmed actions and the worker that drains it into the Postgres executor
  (\<open>action/postgres_execution_worker.rs\<close>, the queue query of \<open>operation_ledger_sql.rs\<close> and its row
  reader). The sort key \<open>collate\<close> stands for the collation of the database; the order of rows that
  agree in creation time and operation id is left open by SQL and is that of the tables here.
\<close>

section \<open>The queue of confirmed actions\<close>

record ready_row =
  rq_action :: action_row
  rq_operation :: operation_row
  rq_decision :: decision_row
  rq_proposal :: proposal_row
  rq_evidence_ids :: "string list"

definition ready_joins :: "(string \<Rightarrow> 'k::linorder) \<Rightarrow> execution_db \<Rightarrow> string \<Rightarrow> ready_row list" where
  "ready_joins collate db tenant =
     [\<lparr>rq_action = a, rq_operation = oper, rq_decision = d, rq_proposal = p,
       rq_evidence_ids = evidence_ids_of collate db p\<rparr>.
      oper \<leftarrow> filter (\<lambda>oper. xo_tenant_id oper = tenant \<and> xo_status oper = ''confirmed'') (xd_operations db),
      a \<leftarrow> filter (\<lambda>a. xa_tenant_id a = xo_tenant_id oper \<and> xa_action_id a = xo_action_id oper \<and>
         xa_idempotency_key a = xo_idempotency_key oper \<and> xa_status a = ''confirmed'') (xd_actions db),
      d \<leftarrow> filter (\<lambda>d. xn_tenant_id d = xa_tenant_id a \<and> xn_confirmed_action_id d = Some (xa_action_id a) \<and>
         xn_decision d \<in> {''confirm'', ''edit_then_confirm''}) (xd_decisions db),
      p \<leftarrow> filter (\<lambda>p. xp_tenant_id p = xn_tenant_id d \<and> xp_id p = xn_proposed_action_id d \<and>
         xp_version p = xn_proposed_action_version d) (xd_proposals db)]"

definition LIST_CONFIRMED_ACTIONS_READY_FOR_EXECUTION ::
  "(string \<Rightarrow> 'k::linorder) \<Rightarrow> execution_db \<Rightarrow> string \<Rightarrow> int \<Rightarrow> ready_row list" where
  "LIST_CONFIRMED_ACTIONS_READY_FOR_EXECUTION collate db tenant limit =
     take (nat limit) (sort_key (\<lambda>r. (xo_created_at (rq_operation r), collate (xo_operation_id (rq_operation r))))
       (ready_joins collate db tenant))"

record stored_pending_confirmed_action =
  sa_request :: "json confirmed_execution_request"
  sa_operation :: operation_record

definition pending_decision_payload ::
  "ready_row \<Rightarrow> (confirmed_execution_decision \<times> json, postgres_repository_error) result" where
  "pending_decision_payload r =
     try_then (proposed_action_decision_kind_from_db (xn_decision (rq_decision r))) (\<lambda>decision.
       case decision of
         StoredConfirm \<Rightarrow> Ok (ExecConfirm, xp_suggested_payload (rq_proposal r))
       | StoredEditThenConfirm \<Rightarrow>
           try_then (ok_or (InvalidExecutionQueueRow ''edited_payload'' ''edit_then_confirm requires edited payload'')
               (xn_edited_payload (rq_decision r)))
             (\<lambda>payload. Ok (ExecEditThenConfirm, payload))
       | StoredReject \<Rightarrow> Err (InvalidExecutionQueueRow ''decision'' ''reject decisions are not executable''))"

definition pending_confirmed_action_from_row ::
  "ready_row \<Rightarrow> (stored_pending_confirmed_action, postgres_repository_error) result" where
  "pending_confirmed_action_from_row r =
     try_then (optional_non_negative_i64_to_u64 (map_option epoch_ms (xa_confirmed_at (rq_action r)))
       ''confirmed_at_ms'') (\<lambda>confirmed_at_ms.
     try_then (pending_decision_payload r) (\<lambda>(decision, effective_payload).
     try_then (non_negative_i64_to_u64 (xp_version (rq_proposal r)) ''proposed_action_version'') (\<lambda>version.
     try_then (action_status_from_db (xa_status (rq_action r))) (\<lambda>status.
     try_then (proposed_action_kind_from_db (xp_kind (rq_proposal r)) (xp_custom_kind (rq_proposal r))) (\<lambda>kind.
     try_then (operation_record_from_row (rq_operation r)) (\<lambda>operation.
       Ok \<lparr>sa_request = \<lparr>cr_confirmed_action =
              \<lparr>ca_action_id = xa_action_id (rq_action r), ca_tenant_id = xa_tenant_id (rq_action r),
               ca_actor_user_id = xa_actor_user_id (rq_action r),
               ca_idempotency_key = xa_idempotency_key (rq_action r), ca_status = status,
               ca_confirmed_at = map_option ms_to_system_time confirmed_at_ms\<rparr>,
            cr_proposed_action_id = xp_id (rq_proposal r), cr_proposed_action_version = version,
            cr_action_kind = kind, cr_target_user_id = xp_target_user_id (rq_proposal r),
            cr_owner_user_id = xp_owner_user_id (rq_proposal r), cr_evidence_ids = rq_evidence_ids r,
            cr_effective_payload = effective_payload, cr_decision = decision\<rparr>,
          sa_operation = operation\<rparr>))))))"

definition list_confirmed_actions_ready_for_execution ::
  "(string \<Rightarrow> 'k::linorder) \<Rightarrow> execution_db \<Rightarrow> string \<Rightarrow> u32
     \<Rightarrow> (stored_pending_confirmed_action list, postgres_repository_error) result" where
  "list_confirmed_actions_ready_for_execution collate db tenant_id limit =
     collect_results pending_confirmed_action_from_row
       (LIST_CONFIRMED_ACTIONS_READY_FOR_EXECUTION collate db tenant_id (uint limit))"

section \<open>The worker\<close>

record confirmed_action_drain_config =
  kc_tenant_id :: string
  kc_limit :: u32

record confirmed_action_drain_report =
  kr_selected :: nat
  kr_attempted :: nat
  kr_succeeded :: nat
  kr_failed :: nat
  kr_duplicate :: nat
  kr_execution_errors :: nat

definition count_execution ::
  "(execution_report, execution_error) result \<Rightarrow> confirmed_action_drain_report \<Rightarrow> confirmed_action_drain_report" where
  "count_execution r report = (case r of
      Inr execution \<Rightarrow>
        (let report = (if rep_duplicate execution then report\<lparr>kr_duplicate := kr_duplicate report + 1\<rparr>
               else report\<lparr>kr_attempted := kr_attempted report + 1\<rparr>)
         in case op_status (rep_operation execution) of
              Succeeded \<Rightarrow> report\<lparr>kr_succeeded := kr_succeeded report + 1\<rparr>
            | Failed \<Rightarrow> report\<lparr>kr_failed := kr_failed report + 1\<rparr>
            | Cancelled \<Rightarrow> report\<lparr>kr_failed := kr_failed report + 1\<rparr>
            | _ \<Rightarrow> report)
    | Inl _ \<Rightarrow> report\<lparr>kr_execution_errors := kr_execution_errors report + 1\<rparr>)"

fun drain_pending ::
  "('a, 'c) pg_executor_ops \<Rightarrow> stored_pending_confirmed_action list \<Rightarrow> confirmed_action_drain_report
     \<Rightarrow> ('a, 'c) pg_executor \<Rightarrow> confirmed_action_drain_report \<times> ('a, 'c) pg_executor" where
  "drain_pending E [] report x = (report, x)"
| "drain_pending E (item # pending) report x =
     (case pg_execute_confirmed_request E x (sa_request item) of (r, x) \<Rightarrow>
        drain_pending E pending (count_execution r report) x)"

definition execution_drain_once ::
  "(string \<Rightarrow> 'k::linorder) \<Rightarrow> ('a, 'c) pg_executor_ops \<Rightarrow> confirmed_action_drain_config \<Rightarrow> ('a, 'c) pg_executor
     \<Rightarrow> (confirmed_action_drain_report, postgres_repository_error) result \<times> ('a, 'c) pg_executor" where
  "execution_drain_once collate E config x =
     try_st (list_confirmed_actions_ready_for_execution collate (px_db x) (kc_tenant_id config) (kc_limit config), x)
       (\<lambda>pending x.
         let (report, x) = drain_pending E pending \<lparr>kr_selected = length pending, kr_attempted = 0,
           kr_succeeded = 0, kr_failed = 0, kr_duplicate = 0, kr_execution_errors = 0\<rparr> x
         in (Ok report, x))"

section \<open>Properties\<close>

abbreviation queue_key :: "(string \<Rightarrow> 'k::linorder) \<Rightarrow> ready_row \<Rightarrow> int \<times> 'k" where
  "queue_key collate r \<equiv> (xo_created_at (rq_operation r), collate (xo_operation_id (rq_operation r)))"

lemma collect_results_all2: "collect_results f xs = Inr ys \<Longrightarrow> list_all2 (\<lambda>x y. f x = Inr y) xs ys"
  by (induction xs arbitrary: ys) (auto simp: try_then_Ok_iff)

lemma take_sort_least:
  fixes k :: "'a \<Rightarrow> 'k::linorder"
  shows "mset (take n (sort_key k xs)) \<subseteq># mset xs"
    and "\<forall>x \<in> set (take n (sort_key k xs)). \<forall>y \<in># mset xs - mset (take n (sort_key k xs)). k x \<le> k y"
proof -
  have split: "mset xs = mset (take n (sort_key k xs)) + mset (drop n (sort_key k xs))"
    by (metis append_take_drop_id mset_append mset_sort)
  then show "mset (take n (sort_key k xs)) \<subseteq># mset xs" by simp
  have "sorted (map k (take n (sort_key k xs)) @ map k (drop n (sort_key k xs)))"
    by (metis append_take_drop_id map_append sorted_sort_key)
  then have "\<forall>x \<in> set (take n (sort_key k xs)). \<forall>y \<in> set (drop n (sort_key k xs)). k x \<le> k y"
    by (simp add: sorted_append)
  then show "\<forall>x \<in> set (take n (sort_key k xs)). \<forall>y \<in># mset xs - mset (take n (sort_key k xs)). k x \<le> k y"
    unfolding split by simp
qed

text \<open>What a request of the queue says about the rows it was read from.\<close>

definition request_of_rows :: "string \<Rightarrow> ready_row \<Rightarrow> stored_pending_confirmed_action \<Rightarrow> bool" where
  "request_of_rows tenant r item \<longleftrightarrow>
     ca_tenant_id (request_action (sa_request item)) = tenant \<and> ca_status (request_action (sa_request item)) = Confirmed \<and>
     request_key (sa_request item) = xo_idempotency_key (rq_operation r) \<and>
     op_status (sa_operation item) = Confirmed \<and> op_tenant_id (sa_operation item) = tenant \<and>
     op_idempotency_key (sa_operation item) = request_key (sa_request item) \<and>
     cr_evidence_ids (sa_request item) = rq_evidence_ids r \<and>
     (case cr_decision (sa_request item) of
        ExecConfirm \<Rightarrow> xn_decision (rq_decision r) = ''confirm'' \<and> cr_effective_payload (sa_request item) = xp_suggested_payload (rq_proposal r)
      | ExecEditThenConfirm \<Rightarrow> xn_decision (rq_decision r) = ''edit_then_confirm'' \<and>
          xn_edited_payload (rq_decision r) = Some (cr_effective_payload (sa_request item)))"

lemma ready_row_tables:
  "r \<in> set (ready_joins collate db tenant) \<Longrightarrow> xo_tenant_id (rq_operation r) = tenant \<and> xo_status (rq_operation r) = ''confirmed'' \<and>
    xa_tenant_id (rq_action r) = tenant \<and> xa_status (rq_action r) = ''confirmed'' \<and> xa_idempotency_key (rq_action r) = xo_idempotency_key (rq_operation r)"
  by (auto simp: ready_joins_def)

lemma pending_payload_OkD:
  "pending_decision_payload r = Inr (d, v) \<Longrightarrow> (case d of
      ExecConfirm \<Rightarrow> xn_decision (rq_decision r) = ''confirm'' \<and> v = xp_suggested_payload (rq_proposal r)
    | ExecEditThenConfirm \<Rightarrow> xn_decision (rq_decision r) = ''edit_then_confirm'' \<and> xn_edited_payload (rq_decision r) = Some v)"
  by (auto simp: pending_decision_payload_def proposed_action_decision_kind_from_db_def try_then_Ok_iff split: if_splits)

lemma pending_row_OkD:
  assumes "r \<in> set (ready_joins collate db tenant)" and "pending_confirmed_action_from_row r = Inr item"
  shows "request_of_rows tenant r item"
proof -
  note rows = ready_row_tables [OF assms(1)]
  then have "action_status_from_db (xa_status (rq_action r)) = Inr Confirmed" by (simp add: action_status_from_db_def)
  with assms(2) rows show ?thesis
    by (auto simp: pending_confirmed_action_from_row_def try_then_Ok_iff request_of_rows_def operation_record_from_row_def
        action_status_from_db_def dest!: pending_payload_OkD split: confirmed_execution_decision.splits)
qed


text \<open>How the counters of a drain relate.\<close>

definition drain_balanced :: "confirmed_action_drain_report \<Rightarrow> nat \<Rightarrow> bool" where
  "drain_balanced rep n \<longleftrightarrow> kr_attempted rep + kr_duplicate rep + kr_execution_errors rep = n \<and>
     kr_succeeded rep + kr_failed rep \<le> kr_attempted rep + kr_duplicate rep"

lemma count_execution_balanced:
  "drain_balanced rep n \<Longrightarrow> drain_balanced (count_execution r rep) (Suc n) \<and> kr_selected (count_execution r rep) = kr_selected rep"
  by (auto simp: drain_balanced_def count_execution_def Let_def split: sum.splits action_status.splits)

lemma drain_pending_balanced:
  "drain_balanced rep n \<Longrightarrow> drain_balanced (fst (drain_pending E items rep x)) (n + length items) \<and>
    kr_selected (fst (drain_pending E items rep x)) = kr_selected rep"
proof (induction items arbitrary: rep n x)
  case (Cons item items)
  obtain r y where run: "pg_execute_confirmed_request E x (sa_request item) = (r, y)" by fastforce
  with Cons.IH [of "count_execution r rep" "Suc n" y] count_execution_balanced [OF Cons.prems, of r] show ?case by simp
qed simp

lemma drain_pending_run: "snd (drain_pending E items rep x) = pg_executor_run E x (map (\<lambda>i. PlainCall (sa_request i)) items)"
  by (induction items arbitrary: rep x) (auto split: prod.splits)

text \<open>
  A drain of the queue is a run of the executor over the requests of the queue, in its order, and
  its report accounts for each of them once, as attempted, duplicate or failed with an error.
\<close>

theorem execution_drain_accounts:
  fixes collate :: "string \<Rightarrow> 'k::linorder"
  assumes "execution_drain_once collate E config x = (Ok report, x')"
  shows "\<exists>items. list_confirmed_actions_ready_for_execution collate (px_db x) (kc_tenant_id config) (kc_limit config) = Ok items \<and>
    x' = pg_executor_run E x (map (\<lambda>i. PlainCall (sa_request i)) items) \<and> kr_selected report = length items \<and>
    length items \<le> unat (kc_limit config) \<and>
    kr_attempted report + kr_duplicate report + kr_execution_errors report = kr_selected report \<and>
    kr_succeeded report + kr_failed report \<le> kr_attempted report + kr_duplicate report"
proof -
  from assms obtain items where items: "list_confirmed_actions_ready_for_execution collate (px_db x) (kc_tenant_id config) (kc_limit config) = Inr items"
    by (cases "list_confirmed_actions_ready_for_execution collate (px_db x) (kc_tenant_id config) (kc_limit config)")
      (auto simp: execution_drain_once_def)
  let ?zero = "\<lparr>kr_selected = length items, kr_attempted = 0, kr_succeeded = 0, kr_failed = 0, kr_duplicate = 0, kr_execution_errors = 0\<rparr>"
  have run: "drain_pending E items ?zero x = (report, x')"
    using assms items by (simp add: execution_drain_once_def case_prod_beta prod_eq_iff)
  have "drain_balanced ?zero 0" by (simp add: drain_balanced_def)
  from drain_pending_balanced [OF this, of E items x] have "drain_balanced report (length items)" "kr_selected report = length items"
    using run by simp_all
  moreover have "length items \<le> unat (kc_limit config)"
    using collect_results_all2 [THEN list_all2_lengthD] items
    by (fastforce simp: list_confirmed_actions_ready_for_execution_def LIST_CONFIRMED_ACTIONS_READY_FOR_EXECUTION_def simp flip: unat_eq_nat_uint)
  moreover have "x' = pg_executor_run E x (map (\<lambda>i. PlainCall (sa_request i)) items)"
    using drain_pending_run [of E items ?zero x] run by simp
  ultimately show ?thesis using items by (simp add: drain_balanced_def)
qed

section \<open>Witnesses\<close>

text \<open>The confirmed operation of \<open>sample_execution_db\<close> with the proposal and the decision it came from.\<close>

definition sample_queue_db :: execution_db where
  "sample_queue_db = (sample_execution_db ''confirmed'')\<lparr>
     xd_decisions := [\<lparr>xn_id = ''d'', xn_tenant_id = ''t'', xn_proposed_action_id = ''p'', xn_proposed_action_version = 1,
       xn_actor_user_id = ''u'', xn_decision = ''confirm'', xn_edited_payload = None, xn_confirmed_action_id = Some ''a'', xn_decided_at = 0\<rparr>],
     xd_proposals := [\<lparr>xp_id = ''p'', xp_tenant_id = ''t'', xp_actor_user_id = ''u'', xp_target_user_id = None, xp_owner_user_id = None,
       xp_version = 1, xp_status = ''published'', xp_kind = ''update_kr_progress'', xp_custom_kind = None, xp_risk_severity = ''low'',
       xp_suggested_payload = JNull, xp_published_at = Some 0\<rparr>]\<rparr>"

definition sample_collate :: "string \<Rightarrow> nat" where
  "sample_collate s = length s"

lemma sample_queue: "\<exists>item. list_confirmed_actions_ready_for_execution sample_collate sample_queue_db ''t'' 5 = Inr [item]"
  by (simp add: list_confirmed_actions_ready_for_execution_def LIST_CONFIRMED_ACTIONS_READY_FOR_EXECUTION_def ready_joins_def
      sample_queue_db_def sample_execution_db_def evidence_ids_of_def pending_confirmed_action_from_row_def pending_decision_payload_def
      proposed_action_decision_kind_from_db_def proposed_action_kind_from_db_def operation_record_from_row_def action_status_from_db_def
      epoch_ms_def)


theorem execution_drain_accounts_witness:
  "let (r, x') = execution_drain_once sample_collate sample_pg_ops \<lparr>kc_tenant_id = ''t'', kc_limit = 5\<rparr> (pg_executor_new ((), []) 1 sample_queue_db)
   in \<exists>report. r = Ok report \<and> kr_selected report = 1 \<and> kr_attempted report + kr_duplicate report + kr_execution_errors report = 1"
proof -
  let ?run = "execution_drain_once sample_collate sample_pg_ops \<lparr>kc_tenant_id = ''t'', kc_limit = 5\<rparr> (pg_executor_new ((), []) 1 sample_queue_db)"
  from sample_queue obtain item where item: "list_confirmed_actions_ready_for_execution sample_collate sample_queue_db ''t'' 5 = Inr [item]" by blast
  then obtain report x' where run: "?run = (Inr report, x')"
    by (cases "drain_pending sample_pg_ops [item] \<lparr>kr_selected = length [item], kr_attempted = 0, kr_succeeded = 0, kr_failed = 0,
        kr_duplicate = 0, kr_execution_errors = 0\<rparr> (pg_executor_new ((), []) 1 sample_queue_db)")
      (auto simp: execution_drain_once_def pg_executor_new_def)
  from execution_drain_accounts [OF run] item run show ?thesis by (auto simp: pg_executor_new_def)
qed

end
