(* ===== verification/Review_Store.thy ===== *)
theory Review_Store
  imports Review_Codec Evidence
begin

text \<open>
  The store of the review inbox and the recorder of decisions
  (\<open>storage/postgres/review_inbox_sql/\<close>, \<open>repository_sqlx/review_inbox.rs\<close> with its read model, the
  row readers and codecs of the inbox, \<open>repository_sqlx/action_execution/review_decision.rs\<close> and
  \<open>validation.rs\<close>). A decision, the confirmed action with its operation, the change of the inbox
  item, the audit event and its outbox message are one transaction.
\<close>

section \<open>Types\<close>

record stored_evidence_item =
  se_id :: string
  se_tenant_id :: string
  se_summary :: string
  se_source_kind :: evidence_source_kind
  se_source_id :: string
  se_locator :: "string option"
  se_content_hash :: string
  se_visibility_scope :: evidence_visibility_scope
  se_observed_at :: system_time
  se_recorded_at :: system_time

record stored_review_inbox_item =
  si_id :: string
  si_tenant_id :: string
  si_user_id :: string
  si_proposed_action_id :: string
  si_proposed_action_version :: u64
  si_risk_score :: u32
  si_priority :: u32
  si_status :: review_inbox_item_status
  si_sort_key :: i64
  si_sync_cursor_value :: u64
  si_updated_at :: system_time
  si_ledger_status :: "action_status option"
  si_operation_id :: "string option"

record stored_review_inbox_action_decision =
  sd_id :: string
  sd_actor_user_id :: string
  sd_decision :: stored_proposed_action_decision_kind
  sd_confirmed_action_id :: "string option"
  sd_decided_at :: system_time

record stored_review_inbox_action =
  sx_review_item_id :: string
  sx_id :: string
  sx_tenant_id :: string
  sx_actor_user_id :: string
  sx_target_user_id :: "string option"
  sx_owner_user_id :: "string option"
  sx_version :: u64
  sx_status :: proposed_action_status
  sx_kind :: proposed_action_kind
  sx_risk_severity :: risk_severity
  sx_evidence_ids :: "string list"
  sx_suggested_payload :: json
  sx_decision :: "stored_review_inbox_action_decision option"

record stored_review_inbox_evidence =
  sv_review_item_id :: string
  sv_item :: stored_evidence_item

record stored_review_decision_context =
  sc_item :: stored_review_inbox_item
  sc_action :: stored_review_inbox_action
  sc_evidence :: "stored_review_inbox_evidence list"

record postgres_review_decision_context_request =
  rc_tenant_id :: string
  rc_user_id :: string
  rc_proposed_action_id :: string
  rc_proposed_action_version :: u64
  rc_expected_sync_cursor_value :: u64

record insert_proposed_action_decision_request =
  id_id :: string
  id_tenant_id :: string
  id_proposed_action_id :: string
  id_proposed_action_version :: u64
  id_actor_user_id :: string
  id_decision :: "json proposed_action_decision"
  id_confirmed_action_id :: "string option"
  id_decided_at :: system_time

record postgres_review_decision_recorder_request =
  rd_expected_sync_cursor_value :: u64
  rd_decision :: insert_proposed_action_decision_request
  rd_confirmed_action :: "confirmed_action option"
  rd_confirmed_at_ms :: "u64 option"
  rd_operation_id :: "string option"
  rd_inbox_item :: review_inbox_item
  rd_event :: audit_event
  rd_outbox :: audit_outbox_envelope

record postgres_review_decision_recorder_report =
  rr_operation :: "operation_record option"
  rr_inbox_item_id :: "string option"
  rr_outbox_id :: "int option"
  rr_duplicate :: bool

section \<open>Codec\<close>

definition review_inbox_item_status_from_db ::
  "string \<Rightarrow> (review_inbox_item_status, postgres_repository_error) result" where
  "review_inbox_item_status_from_db value =
     (if value = ''open'' then Ok InboxOpen
      else if value = ''confirmed'' then Ok InboxConfirmed
      else if value = ''rejected'' then Ok InboxRejected
      else if value = ''executing'' then Ok InboxExecuting
      else if value = ''succeeded'' then Ok InboxSucceeded
      else if value = ''failed'' then Ok InboxFailed
      else if value = ''withdrawn'' then Ok InboxWithdrawn
      else Err (UnknownReviewInboxItemStatus value))"

fun evidence_source_kind_to_db :: "evidence_source_kind \<Rightarrow> string" where
  "evidence_source_kind_to_db OkrProgress = ''okr_progress''"
| "evidence_source_kind_to_db LarkMinutes = ''lark_minutes''"
| "evidence_source_kind_to_db LarkDoc = ''lark_doc''"
| "evidence_source_kind_to_db LarkTask = ''lark_task''"
| "evidence_source_kind_to_db LarkCalendar = ''lark_calendar''"
| "evidence_source_kind_to_db LarkIm = ''lark_im''"
| "evidence_source_kind_to_db ManualReviewNote = ''manual_review_note''"
| "evidence_source_kind_to_db AuditEventSource = ''audit_event''"

definition evidence_source_kind_from_db ::
  "string \<Rightarrow> (evidence_source_kind, postgres_repository_error) result" where
  "evidence_source_kind_from_db value =
     (if value = ''okr_progress'' then Ok OkrProgress
      else if value = ''lark_minutes'' then Ok LarkMinutes
      else if value = ''lark_doc'' then Ok LarkDoc
      else if value = ''lark_task'' then Ok LarkTask
      else if value = ''lark_calendar'' then Ok LarkCalendar
      else if value = ''lark_im'' then Ok LarkIm
      else if value = ''manual_review_note'' then Ok ManualReviewNote
      else if value = ''audit_event'' then Ok AuditEventSource
      else Err (UnknownEvidenceSourceKind value))"

fun evidence_visibility_scope_to_db :: "evidence_visibility_scope \<Rightarrow> string" where
  "evidence_visibility_scope_to_db VisibleTenant = ''tenant''"
| "evidence_visibility_scope_to_db VisibleTeam = ''team''"
| "evidence_visibility_scope_to_db VisibleUser = ''user''"

definition evidence_visibility_scope_from_db ::
  "string \<Rightarrow> (evidence_visibility_scope, postgres_repository_error) result" where
  "evidence_visibility_scope_from_db value =
     (if value = ''tenant'' then Ok VisibleTenant
      else if value = ''team'' then Ok VisibleTeam
      else if value = ''user'' then Ok VisibleUser
      else Err (UnknownEvidenceVisibilityScope value))"

section \<open>Row readers\<close>

definition stored_evidence_item_from_row ::
  "evidence_row \<Rightarrow> (stored_evidence_item, postgres_repository_error) result" where
  "stored_evidence_item_from_row r =
     try_then (evidence_source_kind_from_db (xv_source_kind r)) (\<lambda>source_kind.
     try_then (evidence_visibility_scope_from_db (xv_visibility_scope r)) (\<lambda>visibility_scope.
     try_then (non_negative_i64_to_u64 (epoch_ms (xv_observed_at r)) ''observed_at_ms'') (\<lambda>observed_at.
     try_then (non_negative_i64_to_u64 (epoch_ms (xv_recorded_at r)) ''recorded_at_ms'') (\<lambda>recorded_at.
       Ok \<lparr>se_id = xv_id r, se_tenant_id = xv_tenant_id r, se_summary = xv_summary r,
          se_source_kind = source_kind, se_source_id = xv_source_id r, se_locator = xv_locator r,
          se_content_hash = xv_content_hash r, se_visibility_scope = visibility_scope,
          se_observed_at = ms_to_system_time observed_at, se_recorded_at = ms_to_system_time recorded_at\<rparr>))))"

definition stored_review_inbox_item_from_row ::
  "inbox_row \<Rightarrow> (stored_review_inbox_item, postgres_repository_error) result" where
  "stored_review_inbox_item_from_row r =
     try_then (non_negative_i64_to_u64 (xi_proposed_action_version r) ''proposed_action_version'') (\<lambda>version.
     try_then (non_negative_i64_to_u64 (xi_risk_score r) ''risk_score'') (\<lambda>risk_score.
     try_then (non_negative_i64_to_u64 (xi_priority r) ''priority'') (\<lambda>priority.
     try_then (review_inbox_item_status_from_db (xi_status r)) (\<lambda>status.
     try_then (non_negative_i64_to_u64 (xi_sync_cursor_value r) ''sync_cursor_value'') (\<lambda>sync_cursor_value.
     try_then (non_negative_i64_to_u64 (epoch_ms (xi_updated_at r)) ''updated_at_ms'') (\<lambda>updated_at.
     try_then (transpose_map action_status_from_db (xi_ledger_status r)) (\<lambda>ledger_status.
       Ok \<lparr>si_id = xi_id r, si_tenant_id = xi_tenant_id r, si_user_id = xi_user_id r,
          si_proposed_action_id = xi_proposed_action_id r, si_proposed_action_version = version,
          si_risk_score = ucast risk_score, si_priority = ucast priority, si_status = status,
          si_sort_key = word_of_int (xi_sort_key r), si_sync_cursor_value = sync_cursor_value,
          si_updated_at = ms_to_system_time updated_at, si_ledger_status = ledger_status,
          si_operation_id = xi_operation_id r\<rparr>)))))))"

text \<open>A row of the join of items, proposals and decisions.\<close>

record review_action_row =
  jr_review_item_id :: string
  jr_proposal :: proposal_row
  jr_evidence_ids :: "string list"
  jr_decision :: "decision_row option"

definition stored_review_inbox_action_decision_from_row ::
  "decision_row option \<Rightarrow> (stored_review_inbox_action_decision option, postgres_repository_error) result" where
  "stored_review_inbox_action_decision_from_row row = (case row of
      None \<Rightarrow> Ok None
    | Some d \<Rightarrow>
        try_then (proposed_action_decision_kind_from_db (xn_decision d)) (\<lambda>decision.
        try_then (non_negative_i64_to_u64 (epoch_ms (xn_decided_at d)) ''decided_at_ms'') (\<lambda>decided_at.
          Ok (Some \<lparr>sd_id = xn_id d, sd_actor_user_id = xn_actor_user_id d, sd_decision = decision,
            sd_confirmed_action_id = xn_confirmed_action_id d,
            sd_decided_at = ms_to_system_time decided_at\<rparr>))))"

definition stored_review_inbox_action_from_row ::
  "review_action_row \<Rightarrow> (stored_review_inbox_action, postgres_repository_error) result" where
  "stored_review_inbox_action_from_row r = (let p = jr_proposal r in
     try_then (non_negative_i64_to_u64 (xp_version p) ''version'') (\<lambda>version.
     try_then (proposed_action_status_from_db (xp_status p)) (\<lambda>status.
     try_then (proposed_action_kind_from_db (xp_kind p) (xp_custom_kind p)) (\<lambda>kind.
     try_then (risk_severity_from_db (xp_risk_severity p)) (\<lambda>risk_severity.
     try_then (stored_review_inbox_action_decision_from_row (jr_decision r)) (\<lambda>decision.
       Ok \<lparr>sx_review_item_id = jr_review_item_id r, sx_id = xp_id p, sx_tenant_id = xp_tenant_id p,
          sx_actor_user_id = xp_actor_user_id p, sx_target_user_id = xp_target_user_id p,
          sx_owner_user_id = xp_owner_user_id p, sx_version = version, sx_status = status,
          sx_kind = kind, sx_risk_severity = risk_severity, sx_evidence_ids = jr_evidence_ids r,
          sx_suggested_payload = xp_suggested_payload p, sx_decision = decision\<rparr>))))))"

definition stored_review_inbox_evidence_from_row ::
  "string \<times> evidence_row \<Rightarrow> (stored_review_inbox_evidence, postgres_repository_error) result" where
  "stored_review_inbox_evidence_from_row r =
     try_then (stored_evidence_item_from_row (snd r)) (\<lambda>item.
       Ok \<lparr>sv_review_item_id = fst r, sv_item = item\<rparr>)"

section \<open>Proposals and evidence\<close>

text \<open>\<open>btrim\<close> removes spaces only.\<close>

definition sql_blank :: "string \<Rightarrow> bool" where
  "sql_blank s = list_all (\<lambda>c. c = CHR '' '') s"

definition evidence_row_check :: "execution_db \<Rightarrow> evidence_row \<Rightarrow> bool" where
  "evidence_row_check db r \<longleftrightarrow>
     \<not> sql_blank (xv_summary r) \<and> \<not> sql_blank (xv_source_id r) \<and>
     xv_source_kind r \<in> {''okr_progress'', ''lark_minutes'', ''lark_doc'', ''lark_task'', ''lark_calendar'',
       ''lark_im'', ''manual_review_note'', ''audit_event''} \<and>
     (case strip_prefix (xv_content_hash r) ''sha256:'' of None \<Rightarrow> False
      | Some digest \<Rightarrow> length digest = 64 \<and> list_all is_ascii_hexdigit digest) \<and>
     xv_visibility_scope r \<in> {''tenant'', ''team'', ''user''}"

definition INSERT_EVIDENCE_ITEM ::
  "execution_db \<Rightarrow> evidence_row \<Rightarrow> (evidence_row option \<times> execution_db, postgres_repository_error) result" where
  "INSERT_EVIDENCE_ITEM db r =
     (if \<not> evidence_row_check db r then Err (Sqlx (DatabaseError ''constraint violation''))
      else if (xv_tenant_id r, xv_id r) \<in> (\<lambda>e. (xv_tenant_id e, xv_id e)) ` set (xd_evidence db) then Ok (None, db)
      else if xv_tenant_id r \<notin> set (ad_tenants (xd_audit db)) then Err (Sqlx (DatabaseError ''constraint violation''))
      else Ok (Some r, db\<lparr>xd_evidence := xd_evidence db @ [r]\<rparr>))"

definition insert_evidence_item ::
  "(int \<Rightarrow> timestamptz option) \<Rightarrow> execution_db \<Rightarrow> string \<Rightarrow> evidence_item
     \<Rightarrow> (stored_evidence_item option, postgres_repository_error) result \<times> execution_db" where
  "insert_evidence_item to_ts db tenant_id item =
     try_st (try_then (pg_system_time_to_ms (ev_observed_at item)) (\<lambda>observed_at_ms.
             try_then (pg_system_time_to_ms (ev_recorded_at item)) (\<lambda>recorded_at_ms.
             try_then (sql_timestamp to_ts (u64_as_i64 observed_at_ms)) (\<lambda>observed_at.
             try_then (sql_timestamp to_ts (u64_as_i64 recorded_at_ms)) (\<lambda>recorded_at.
               Ok \<lparr>xv_id = evidence_str (ev_id item), xv_tenant_id = tenant_id, xv_summary = ev_summary item,
                  xv_source_kind = evidence_source_kind_to_db (ref_source_kind (ev_reference item)),
                  xv_source_id = ref_source_id (ev_reference item), xv_locator = ref_locator (ev_reference item),
                  xv_content_hash = ev_content_hash item,
                  xv_visibility_scope = evidence_visibility_scope_to_db (ev_visibility item),
                  xv_observed_at = observed_at, xv_recorded_at = recorded_at\<rparr>)))), db)
       (\<lambda>r db. try_st (exec_sql db (INSERT_EVIDENCE_ITEM db r)) (\<lambda>row db.
          (transpose_map stored_evidence_item_from_row row, db)))"

definition user_exists :: "execution_db \<Rightarrow> string \<Rightarrow> string option \<Rightarrow> bool" where
  "user_exists db tenant user = (case user of None \<Rightarrow> True | Some u \<Rightarrow> (tenant, u) \<in> set (xd_users db))"

definition proposal_key :: "proposal_row \<Rightarrow> string \<times> string \<times> int" where
  "proposal_key p = (xp_tenant_id p, xp_id p, xp_version p)"

definition INSERT_PROPOSED_ACTION ::
  "execution_db \<Rightarrow> proposal_row \<Rightarrow> (string option \<times> execution_db, postgres_repository_error) result" where
  "INSERT_PROPOSED_ACTION db p =
     (if xp_version p \<le> 0 \<or> (xp_kind p = ''custom'') \<noteq> (xp_custom_kind p \<noteq> None)
      then Err (Sqlx (DatabaseError ''constraint violation''))
      else if proposal_key p \<in> proposal_key ` set (xd_proposals db) then Ok (None, db)
      else if xp_tenant_id p \<notin> set (ad_tenants (xd_audit db)) \<or>
        \<not> user_exists db (xp_tenant_id p) (Some (xp_actor_user_id p)) \<or>
        \<not> user_exists db (xp_tenant_id p) (xp_target_user_id p) \<or>
        \<not> user_exists db (xp_tenant_id p) (xp_owner_user_id p)
      then Err (Sqlx (DatabaseError ''constraint violation''))
      else Ok (Some (xp_id p), db\<lparr>xd_proposals := xd_proposals db @ [p]\<rparr>))"

definition insert_proposed_action ::
  "(int \<Rightarrow> timestamptz option) \<Rightarrow> execution_db \<Rightarrow> json proposed_action \<Rightarrow> system_time option
     \<Rightarrow> (bool, postgres_repository_error) result \<times> execution_db" where
  "insert_proposed_action to_ts db action published_at =
     (let (kind, custom_kind) = proposed_action_kind_to_db (pa_kind action) in
      try_st (try_then (transpose_map pg_system_time_to_ms published_at) (\<lambda>published_at_ms.
              transpose_map (sql_timestamp to_ts) (map_option u64_as_i64 published_at_ms)), db)
        (\<lambda>published db. try_st (exec_sql db (INSERT_PROPOSED_ACTION db
             \<lparr>xp_id = proposed_action_str (pa_id action), xp_tenant_id = tenant_str (pa_tenant_id action),
              xp_actor_user_id = user_str (pa_actor_user_id action),
              xp_target_user_id = map_option user_str (pa_target_user_id action),
              xp_owner_user_id = map_option user_str (pa_owner_user_id action),
              xp_version = u64_as_i64 (pa_version action),
              xp_status = proposed_action_status_to_db (pa_status action), xp_kind = kind,
              xp_custom_kind = custom_kind, xp_risk_severity = risk_severity_to_db (pa_risk_severity action),
              xp_suggested_payload = pa_suggested_payload action, xp_published_at = published\<rparr>))
           (\<lambda>row db. (Ok (row \<noteq> None), db))))"

definition INSERT_PROPOSED_ACTION_EVIDENCE_REF ::
  "execution_db \<Rightarrow> evidence_ref_row \<Rightarrow> (unit \<times> execution_db, postgres_repository_error) result" where
  "INSERT_PROPOSED_ACTION_EVIDENCE_REF db r =
     (if xe_proposed_action_version r \<le> 0 then Err (Sqlx (DatabaseError ''constraint violation''))
      else if r \<in> set (xd_evidence_refs db) then Ok ((), db)
      else if xe_tenant_id r \<notin> set (ad_tenants (xd_audit db)) \<or>
        (xe_tenant_id r, xe_proposed_action_id r, xe_proposed_action_version r)
          \<notin> proposal_key ` set (xd_proposals db) \<or>
        (xe_tenant_id r, xe_evidence_id r) \<notin> (\<lambda>e. (xv_tenant_id e, xv_id e)) ` set (xd_evidence db)
      then Err (Sqlx (DatabaseError ''constraint violation''))
      else Ok ((), db\<lparr>xd_evidence_refs := xd_evidence_refs db @ [r]\<rparr>))"

definition insert_proposed_action_evidence_ref ::
  "execution_db \<Rightarrow> string \<Rightarrow> string \<Rightarrow> u64 \<Rightarrow> string
     \<Rightarrow> (unit, postgres_repository_error) result \<times> execution_db" where
  "insert_proposed_action_evidence_ref db tenant_id proposed_action_id version evidence_id =
     exec_sql db (INSERT_PROPOSED_ACTION_EVIDENCE_REF db
       \<lparr>xe_tenant_id = tenant_id, xe_proposed_action_id = proposed_action_id,
        xe_proposed_action_version = u64_as_i64 version, xe_evidence_id = evidence_id\<rparr>)"

section \<open>Inbox items\<close>

definition inbox_ledger_status_check :: "string option \<Rightarrow> bool" where
  "inbox_ledger_status_check s \<longleftrightarrow> (case s of None \<Rightarrow> True
     | Some t \<Rightarrow> t \<in> {''confirmed'', ''executing'', ''succeeded'', ''failed'', ''cancelled''})"

definition inbox_row_check :: "inbox_row \<Rightarrow> bool" where
  "inbox_row_check r \<longleftrightarrow>
     0 < xi_proposed_action_version r \<and> 0 \<le> xi_risk_score r \<and> xi_risk_score r \<le> 100 \<and> 0 \<le> xi_priority r \<and>
     0 \<le> xi_source_cursor_value r \<and> 0 \<le> xi_sync_cursor_value r \<and> inbox_ledger_status_check (xi_ledger_status r)"

text \<open>The unique key on an operation and the reference to it, which is checked at commit.\<close>

definition operation_taken :: "execution_db \<Rightarrow> (inbox_row \<Rightarrow> bool) \<Rightarrow> string \<Rightarrow> string option \<Rightarrow> bool" where
  "operation_taken db own tenant operation_id \<longleftrightarrow> (case operation_id of None \<Rightarrow> False
     | Some oid \<Rightarrow> \<exists>r \<in> set (xd_inbox db). \<not> own r \<and> xi_tenant_id r = tenant \<and> xi_operation_id r = Some oid)"

definition deferred_references_ok :: "execution_db \<Rightarrow> bool" where
  "deferred_references_ok db \<longleftrightarrow>
     (\<forall>d \<in> set (xd_decisions db). case xn_confirmed_action_id d of None \<Rightarrow> True
        | Some aid \<Rightarrow> (xn_tenant_id d, aid) \<in> (\<lambda>a. (xa_tenant_id a, xa_action_id a)) ` set (xd_actions db)) \<and>
     (\<forall>r \<in> set (xd_inbox db). case xi_operation_id r of None \<Rightarrow> True
        | Some oid \<Rightarrow> (xi_tenant_id r, oid) \<in> (\<lambda>p. (xo_tenant_id p, xo_operation_id p)) ` set (xd_operations db))"

definition commit_deferred ::
  "('a, postgres_repository_error) result \<times> execution_db \<Rightarrow> ('a, postgres_repository_error) result \<times> execution_db" where
  "commit_deferred body = (case body of
      (Inl e, db) \<Rightarrow> (Err e, db)
    | (Inr x, db) \<Rightarrow> if deferred_references_ok db then (Ok x, db)
        else (Err (Sqlx (DatabaseError ''constraint violation'')), db))"

definition upsert_conflict :: "inbox_row \<Rightarrow> inbox_row \<Rightarrow> bool" where
  "upsert_conflict new r \<longleftrightarrow> xi_tenant_id r = xi_tenant_id new \<and> xi_user_id r = xi_user_id new \<and>
     xi_proposed_action_id r = xi_proposed_action_id new"

definition upsert_changed :: "execution_db \<Rightarrow> inbox_row \<Rightarrow> inbox_row \<Rightarrow> inbox_row" where
  "upsert_changed db new r = r\<lparr>xi_risk_score := xi_risk_score new, xi_priority := xi_priority new,
     xi_status := xi_status new, xi_sort_key := xi_sort_key new,
     xi_source_cursor_value := xi_source_cursor_value new,
     xi_sync_cursor_value := max (xi_source_cursor_value new) (max (xd_cursor_seq db + 1) (xi_sync_cursor_value r + 1)),
     xi_updated_at := xi_updated_at new, xi_ledger_status := xi_ledger_status new,
     xi_operation_id := xi_operation_id new\<rparr>"

text \<open>
  \<open>new\<close> is the row of the \<open>VALUES\<close> clause with its cursor still to be drawn. The insert draws a
  value of the sequence before it meets a conflict, the update draws another.
\<close>

definition UPSERT_REVIEW_INBOX_ITEM ::
  "execution_db \<Rightarrow> inbox_row \<Rightarrow> (string option \<times> execution_db, postgres_repository_error) result" where
  "UPSERT_REVIEW_INBOX_ITEM db new =
     (let new = new\<lparr>xi_sync_cursor_value := max (xi_source_cursor_value new) (xd_cursor_seq db)\<rparr> in
      if 2 ^ 63 \<le> xd_cursor_seq db then Err (Sqlx (DatabaseError ''bigint out of range''))
      else if \<not> inbox_row_check new then Err (Sqlx (DatabaseError ''constraint violation''))
      else case find (upsert_conflict new) (xd_inbox db) of
        Some r \<Rightarrow>
          if xi_source_cursor_value r < xi_source_cursor_value new \<and>
             xi_status r \<notin> {''rejected'', ''succeeded'', ''failed'', ''withdrawn''}
          then if 2 ^ 63 \<le> xi_sync_cursor_value (upsert_changed db new r)
               then Err (Sqlx (DatabaseError ''bigint out of range''))
               else if operation_taken db (upsert_conflict new) (xi_tenant_id new) (xi_operation_id new)
               then Err (Sqlx (DatabaseError ''constraint violation''))
               else Ok (Some (xi_id r), db\<lparr>xd_cursor_seq := xd_cursor_seq db + 2,
                 xd_inbox := map_where (upsert_conflict new) (upsert_changed db new) (xd_inbox db)\<rparr>)
          else Ok (None, db\<lparr>xd_cursor_seq := xd_cursor_seq db + 1\<rparr>)
      | None \<Rightarrow>
          if xi_id new \<in> xi_id ` set (xd_inbox db) \<or>
             operation_taken db (\<lambda>_. False) (xi_tenant_id new) (xi_operation_id new) \<or>
             xi_tenant_id new \<notin> set (ad_tenants (xd_audit db)) \<or>
             \<not> user_exists db (xi_tenant_id new) (Some (xi_user_id new)) \<or>
             (xi_tenant_id new, xi_proposed_action_id new, xi_proposed_action_version new)
               \<notin> proposal_key ` set (xd_proposals db)
          then Err (Sqlx (DatabaseError ''constraint violation''))
          else Ok (Some (xi_id new), db\<lparr>xd_cursor_seq := xd_cursor_seq db + 1, xd_inbox := xd_inbox db @ [new]\<rparr>))"

definition upsert_review_inbox_item_query ::
  "(int \<Rightarrow> timestamptz option) \<Rightarrow> review_inbox_item \<Rightarrow> (inbox_row, postgres_repository_error) result" where
  "upsert_review_inbox_item_query to_ts item =
     try_then (pg_system_time_to_ms (ri_updated_at item)) (\<lambda>updated_at_ms.
     try_then (sql_timestamp to_ts (u64_as_i64 updated_at_ms)) (\<lambda>updated_at.
       Ok \<lparr>xi_id = inbox_item_str (ri_id item), xi_tenant_id = tenant_str (ri_tenant_id item),
          xi_user_id = user_str (ri_user_id item), xi_proposed_action_id = ri_proposed_action_id item,
          xi_proposed_action_version = u64_as_i64 (ri_proposed_action_version item),
          xi_risk_score = u32_as_i32 (ri_risk_score item), xi_priority = u32_as_i32 (ri_priority item),
          xi_status = review_inbox_item_status_to_db (ri_status item), xi_sort_key = sint (ri_sort_key item),
          xi_source_cursor_value = u64_as_i64 (ri_sync_cursor item), xi_sync_cursor_value = 0,
          xi_updated_at = updated_at, xi_ledger_status = ri_ledger_status item,
          xi_operation_id = ri_operation_id item\<rparr>))"

definition upsert_review_inbox_item ::
  "(int \<Rightarrow> timestamptz option) \<Rightarrow> execution_db \<Rightarrow> review_inbox_item
     \<Rightarrow> (string option, postgres_repository_error) result \<times> execution_db" where
  "upsert_review_inbox_item to_ts db item =
     in_tx db (commit_deferred (try_st (upsert_review_inbox_item_query to_ts item, db)
       (\<lambda>row db. exec_sql db (UPSERT_REVIEW_INBOX_ITEM db row))))"

definition inbox_order :: "(string \<Rightarrow> 'k::linorder) \<Rightarrow> inbox_row \<Rightarrow> int \<times> int \<times> 'k" where
  "inbox_order collate r = (- xi_sort_key r, - xi_updated_at r, collate (xi_id r))"

definition LIST_REVIEW_INBOX_ITEMS ::
  "(string \<Rightarrow> 'k::linorder) \<Rightarrow> execution_db \<Rightarrow> string \<Rightarrow> string \<Rightarrow> int \<Rightarrow> int \<Rightarrow> inbox_row list" where
  "LIST_REVIEW_INBOX_ITEMS collate db tenant user after_cursor limit =
     take (nat limit) (sort_key (inbox_order collate) (filter (\<lambda>r. xi_tenant_id r = tenant \<and>
       xi_user_id r = user \<and> after_cursor < xi_sync_cursor_value r) (xd_inbox db)))"

definition list_review_inbox_items ::
  "(string \<Rightarrow> 'k::linorder) \<Rightarrow> execution_db \<Rightarrow> string \<Rightarrow> string \<Rightarrow> u64 \<Rightarrow> u32
     \<Rightarrow> (stored_review_inbox_item list, postgres_repository_error) result" where
  "list_review_inbox_items collate db tenant_id user_id after_cursor limit =
     (if limit = 0 then Ok []
      else collect_results stored_review_inbox_item_from_row
        (LIST_REVIEW_INBOX_ITEMS collate db tenant_id user_id (u64_as_i64 after_cursor) (uint limit)))"

section \<open>The context of a decision\<close>

definition decided_item :: "string \<Rightarrow> string \<Rightarrow> string \<Rightarrow> int \<Rightarrow> int \<Rightarrow> inbox_row \<Rightarrow> bool" where
  "decided_item tenant user action_id version cursor r \<longleftrightarrow>
     xi_tenant_id r = tenant \<and> xi_user_id r = user \<and> xi_proposed_action_id r = action_id \<and>
     xi_proposed_action_version r = version \<and> xi_sync_cursor_value r = cursor"

definition LOAD_REVIEW_DECISION_ITEM ::
  "execution_db \<Rightarrow> string \<Rightarrow> string \<Rightarrow> string \<Rightarrow> int \<Rightarrow> int \<Rightarrow> inbox_row option" where
  "LOAD_REVIEW_DECISION_ITEM db tenant user action_id version cursor =
     find (decided_item tenant user action_id version cursor) (xd_inbox db)"

text \<open>A left join: an item without a decision keeps its row.\<close>

definition decisions_or_none :: "execution_db \<Rightarrow> proposal_row \<Rightarrow> decision_row option list" where
  "decisions_or_none db p =
     (case filter (\<lambda>d. xn_tenant_id d = xp_tenant_id p \<and> xn_proposed_action_id d = xp_id p \<and>
        xn_proposed_action_version d = xp_version p) (xd_decisions db) of
        [] \<Rightarrow> [None] | ds \<Rightarrow> map Some ds)"

definition proposals_of_item :: "execution_db \<Rightarrow> inbox_row \<Rightarrow> proposal_row list" where
  "proposals_of_item db r = filter (\<lambda>p. xp_tenant_id p = xi_tenant_id r \<and> xp_id p = xi_proposed_action_id r \<and>
     xp_version p = xi_proposed_action_version r) (xd_proposals db)"

definition review_actions_of ::
  "(string \<Rightarrow> 'k::linorder) \<Rightarrow> execution_db \<Rightarrow> inbox_row list \<Rightarrow> review_action_row list" where
  "review_actions_of collate db items =
     [\<lparr>jr_review_item_id = xi_id r, jr_proposal = p, jr_evidence_ids = evidence_ids_of collate db p, jr_decision = d\<rparr>.
      r \<leftarrow> items, p \<leftarrow> proposals_of_item db r, d \<leftarrow> decisions_or_none db p]"

definition LOAD_REVIEW_DECISION_ACTION ::
  "(string \<Rightarrow> 'k::linorder) \<Rightarrow> execution_db \<Rightarrow> string \<Rightarrow> string \<Rightarrow> string \<Rightarrow> int \<Rightarrow> int
     \<Rightarrow> review_action_row option" where
  "LOAD_REVIEW_DECISION_ACTION collate db tenant user action_id version cursor =
     (case review_actions_of collate db
        (filter (decided_item tenant user action_id version cursor) (xd_inbox db)) of
        [] \<Rightarrow> None | row # _ \<Rightarrow> Some row)"

definition evidence_of_items :: "execution_db \<Rightarrow> inbox_row list \<Rightarrow> (string \<times> evidence_row) list" where
  "evidence_of_items db items =
     [(xi_id r, e).
      r \<leftarrow> items,
      ref \<leftarrow> filter (\<lambda>x. xe_tenant_id x = xi_tenant_id r \<and> xe_proposed_action_id x = xi_proposed_action_id r \<and>
        xe_proposed_action_version x = xi_proposed_action_version r) (xd_evidence_refs db),
      e \<leftarrow> filter (\<lambda>e. xv_tenant_id e = xe_tenant_id ref \<and> xv_id e = xe_evidence_id ref) (xd_evidence db)]"

definition LOAD_REVIEW_DECISION_EVIDENCE ::
  "(string \<Rightarrow> 'k::linorder) \<Rightarrow> execution_db \<Rightarrow> string \<Rightarrow> string \<Rightarrow> string \<Rightarrow> int \<Rightarrow> int
     \<Rightarrow> (string \<times> evidence_row) list" where
  "LOAD_REVIEW_DECISION_EVIDENCE collate db tenant user action_id version cursor =
     sort_key (\<lambda>(_, e). (- xv_observed_at e, collate (xv_id e)))
       (evidence_of_items db (filter (decided_item tenant user action_id version cursor) (xd_inbox db)))"

definition load_review_decision_context ::
  "(string \<Rightarrow> 'k::linorder) \<Rightarrow> execution_db \<Rightarrow> postgres_review_decision_context_request
     \<Rightarrow> (stored_review_decision_context option, postgres_repository_error) result" where
  "load_review_decision_context collate db request =
     (let tenant = rc_tenant_id request; user = rc_user_id request; action_id = rc_proposed_action_id request;
          version = u64_as_i64 (rc_proposed_action_version request);
          cursor = u64_as_i64 (rc_expected_sync_cursor_value request)
      in case LOAD_REVIEW_DECISION_ITEM db tenant user action_id version cursor of
        None \<Rightarrow> Ok None
      | Some item_row \<Rightarrow>
          try_then (stored_review_inbox_item_from_row item_row) (\<lambda>item.
            case LOAD_REVIEW_DECISION_ACTION collate db tenant user action_id version cursor of
              None \<Rightarrow> Ok None
            | Some action_row \<Rightarrow>
                try_then (stored_review_inbox_action_from_row action_row) (\<lambda>action.
                try_then (collect_results stored_review_inbox_evidence_from_row
                    (LOAD_REVIEW_DECISION_EVIDENCE collate db tenant user action_id version cursor)) (\<lambda>evidence.
                  Ok (Some \<lparr>sc_item = item, sc_action = action, sc_evidence = evidence\<rparr>)))))"

section \<open>Recording a decision\<close>

definition decision_row_check :: "decision_row \<Rightarrow> bool" where
  "decision_row_check d \<longleftrightarrow>
     0 < xn_proposed_action_version d \<and> xn_decision d \<in> {''confirm'', ''edit_then_confirm'', ''reject''} \<and>
     (xn_decision d = ''reject'') = (xn_confirmed_action_id d = None) \<and>
     (xn_decision d = ''edit_then_confirm'') = (xn_edited_payload d \<noteq> None)"

definition decision_key :: "decision_row \<Rightarrow> string \<times> string \<times> int" where
  "decision_key d = (xn_tenant_id d, xn_proposed_action_id d, xn_proposed_action_version d)"

definition INSERT_PROPOSED_ACTION_DECISION ::
  "execution_db \<Rightarrow> decision_row \<Rightarrow> (string option \<times> execution_db, postgres_repository_error) result" where
  "INSERT_PROPOSED_ACTION_DECISION db d =
     (if \<not> decision_row_check d then Err (Sqlx (DatabaseError ''constraint violation''))
      else if decision_key d \<in> decision_key ` set (xd_decisions db) then Ok (None, db)
      else if xn_id d \<in> xn_id ` set (xd_decisions db) \<or>
        xn_tenant_id d \<notin> set (ad_tenants (xd_audit db)) \<or>
        \<not> user_exists db (xn_tenant_id d) (Some (xn_actor_user_id d)) \<or>
        decision_key d \<notin> proposal_key ` set (xd_proposals db)
      then Err (Sqlx (DatabaseError ''constraint violation''))
      else Ok (Some (xn_id d), db\<lparr>xd_decisions := xd_decisions db @ [d]\<rparr>))"

definition insert_proposed_action_decision_query ::
  "(int \<Rightarrow> timestamptz option) \<Rightarrow> insert_proposed_action_decision_request
     \<Rightarrow> (decision_row, postgres_repository_error) result" where
  "insert_proposed_action_decision_query to_ts request =
     (let (decision, edited_payload) = proposed_action_decision_to_db (id_decision request) in
      try_then (pg_system_time_to_ms (id_decided_at request)) (\<lambda>decided_at_ms.
      try_then (sql_timestamp to_ts (u64_as_i64 decided_at_ms)) (\<lambda>decided_at.
        Ok \<lparr>xn_id = id_id request, xn_tenant_id = id_tenant_id request,
           xn_proposed_action_id = id_proposed_action_id request,
           xn_proposed_action_version = u64_as_i64 (id_proposed_action_version request),
           xn_actor_user_id = id_actor_user_id request, xn_decision = decision,
           xn_edited_payload = edited_payload, xn_confirmed_action_id = id_confirmed_action_id request,
           xn_decided_at = decided_at\<rparr>)))"

definition insert_proposed_action_decision_in_tx ::
  "(int \<Rightarrow> timestamptz option) \<Rightarrow> execution_db \<Rightarrow> insert_proposed_action_decision_request
     \<Rightarrow> (bool, postgres_repository_error) result \<times> execution_db" where
  "insert_proposed_action_decision_in_tx to_ts db request =
     try_st (insert_proposed_action_decision_query to_ts request, db) (\<lambda>d db.
       try_st (exec_sql db (INSERT_PROPOSED_ACTION_DECISION db d)) (\<lambda>row db. (Ok (row \<noteq> None), db)))"

text \<open>On the pool the statement is a transaction of its own.\<close>

definition insert_proposed_action_decision ::
  "(int \<Rightarrow> timestamptz option) \<Rightarrow> execution_db \<Rightarrow> insert_proposed_action_decision_request
     \<Rightarrow> (bool, postgres_repository_error) result \<times> execution_db" where
  "insert_proposed_action_decision to_ts db request =
     in_tx db (commit_deferred (insert_proposed_action_decision_in_tx to_ts db request))"

definition LOAD_PROPOSED_ACTION_DECISION_FOR_RECORDER ::
  "execution_db \<Rightarrow> string \<Rightarrow> string \<Rightarrow> int \<Rightarrow> decision_row option" where
  "LOAD_PROPOSED_ACTION_DECISION_FOR_RECORDER db tenant action_id version =
     find (\<lambda>d. decision_key d = (tenant, action_id, version)) (xd_decisions db)"

definition existing_decision_matches ::
  "execution_db \<Rightarrow> postgres_review_decision_recorder_request \<Rightarrow> bool" where
  "existing_decision_matches db request = (let wanted = rd_decision request in
     case LOAD_PROPOSED_ACTION_DECISION_FOR_RECORDER db (id_tenant_id wanted) (id_proposed_action_id wanted)
         (u64_as_i64 (id_proposed_action_version wanted)) of
       None \<Rightarrow> False
     | Some row \<Rightarrow>
        (let (expected_decision, expected_edited_payload) = proposed_action_decision_to_db (id_decision wanted)
         in xn_actor_user_id row = id_actor_user_id wanted \<and> xn_decision row = expected_decision \<and>
            xn_edited_payload row = expected_edited_payload \<and>
            xn_confirmed_action_id row = id_confirmed_action_id wanted))"

definition open_item :: "string \<Rightarrow> string \<Rightarrow> string \<Rightarrow> int \<Rightarrow> int \<Rightarrow> inbox_row \<Rightarrow> bool" where
  "open_item tenant user action_id version cursor r \<longleftrightarrow>
     decided_item tenant user action_id version cursor r \<and> xi_status r = ''open''"

definition UPDATE_REVIEW_INBOX_DECISION_STATE ::
  "(int \<Rightarrow> timestamptz option) \<Rightarrow> execution_db \<Rightarrow> string \<Rightarrow> string \<Rightarrow> string \<Rightarrow> int \<Rightarrow> int \<Rightarrow> string \<Rightarrow> int
     \<Rightarrow> string option \<Rightarrow> string option \<Rightarrow> (string option \<times> execution_db, postgres_repository_error) result" where
  "UPDATE_REVIEW_INBOX_DECISION_STATE to_ts db tenant user action_id version cursor status updated_at_ms
       ledger_status operation_id =
     try_then (sql_timestamp to_ts updated_at_ms) (\<lambda>updated_at.
       let P = open_item tenant user action_id version cursor in
       if find P (xd_inbox db) \<noteq> None \<and>
          (\<not> inbox_ledger_status_check ledger_status \<or> operation_taken db P tenant operation_id)
       then Err (Sqlx (DatabaseError ''constraint violation''))
       else update_inbox P (\<lambda>r. r\<lparr>xi_status := status, xi_updated_at := updated_at,
              xi_ledger_status := ledger_status, xi_operation_id := operation_id\<rparr>) db)"

definition update_review_inbox_decision_state_in_tx ::
  "(int \<Rightarrow> timestamptz option) \<Rightarrow> execution_db \<Rightarrow> review_inbox_item \<Rightarrow> u64
     \<Rightarrow> (string option, postgres_repository_error) result \<times> execution_db" where
  "update_review_inbox_decision_state_in_tx to_ts db item expected_sync_cursor_value =
     try_st (pg_system_time_to_ms (ri_updated_at item), db) (\<lambda>updated_at_ms db.
       exec_sql db (UPDATE_REVIEW_INBOX_DECISION_STATE to_ts db (tenant_str (ri_tenant_id item))
         (user_str (ri_user_id item)) (ri_proposed_action_id item)
         (u64_as_i64 (ri_proposed_action_version item)) (u64_as_i64 expected_sync_cursor_value)
         (review_inbox_item_status_to_db (ri_status item)) (u64_as_i64 updated_at_ms)
         (ri_ledger_status item) (ri_operation_id item)))"

fun inbox_status_debug :: "review_inbox_item_status \<Rightarrow> string" where
  "inbox_status_debug InboxOpen = ''Open''"
| "inbox_status_debug InboxConfirmed = ''Confirmed''"
| "inbox_status_debug InboxRejected = ''Rejected''"
| "inbox_status_debug InboxExecuting = ''Executing''"
| "inbox_status_debug InboxSucceeded = ''Succeeded''"
| "inbox_status_debug InboxFailed = ''Failed''"
| "inbox_status_debug InboxWithdrawn = ''Withdrawn''"

definition validate_review_decision_tenant_binding ::
  "string \<Rightarrow> string \<Rightarrow> string \<Rightarrow> (unit, postgres_repository_error) result" where
  "validate_review_decision_tenant_binding field expected actual =
     (if expected \<noteq> actual then Err (ReviewDecisionRequestMismatch field expected actual) else Ok ())"

definition decision_requires_action :: "'v proposed_action_decision \<Rightarrow> bool" where
  "decision_requires_action decision =
     (case decision of Confirm \<Rightarrow> True | EditThenConfirm _ \<Rightarrow> True | Reject \<Rightarrow> False)"

definition validate_confirming_request ::
  "postgres_review_decision_recorder_request \<Rightarrow> (unit, postgres_repository_error) result" where
  "validate_confirming_request request =
     (let decision = rd_decision request; item = rd_inbox_item request in
      if ri_status item \<noteq> InboxConfirmed
      then Err (ReviewDecisionRequestMismatch ''inbox_item.status'' ''confirmed'' (inbox_status_debug (ri_status item)))
      else try_then (ok_or MissingConfirmedActionForDecision (rd_confirmed_action request)) (\<lambda>action.
           try_then (ok_or MissingOperationIdForDecision (rd_operation_id request)) (\<lambda>operation_id.
           if rd_confirmed_at_ms request = None then Err MissingConfirmedAtForDecision
           else try_then (ok_or MissingConfirmedActionForDecision (id_confirmed_action_id decision)) (\<lambda>confirmed_action_id.
                try_then (validate_review_decision_tenant_binding ''decision.confirmed_action_id''
                  confirmed_action_id (ca_action_id action)) (\<lambda>_.
                try_then (validate_review_decision_tenant_binding ''confirmed_action.tenant_id''
                  (id_tenant_id decision) (ca_tenant_id action)) (\<lambda>_.
                try_then (validate_review_decision_tenant_binding ''confirmed_action.actor_user_id''
                  (id_actor_user_id decision) (ca_actor_user_id action)) (\<lambda>_.
                try_then (validate_review_decision_tenant_binding ''inbox_item.operation_id'' operation_id
                  (case ri_operation_id item of None \<Rightarrow> [] | Some oid \<Rightarrow> oid)) (\<lambda>_.
                if ri_ledger_status item = None
                then Err (ReviewDecisionRequestMismatch ''inbox_item.ledger_status'' ''confirmed'' ''none'')
                else Ok ()))))))))"

definition validate_rejecting_request ::
  "postgres_review_decision_recorder_request \<Rightarrow> (unit, postgres_repository_error) result" where
  "validate_rejecting_request request =
     (let item = rd_inbox_item request in
      if ri_status item \<noteq> InboxRejected
      then Err (ReviewDecisionRequestMismatch ''inbox_item.status'' ''rejected'' (inbox_status_debug (ri_status item)))
      else if rd_confirmed_action request \<noteq> None then Err UnexpectedConfirmedActionForDecision
      else if rd_confirmed_at_ms request \<noteq> None then Err UnexpectedConfirmedActionForDecision
      else if rd_operation_id request \<noteq> None then Err UnexpectedOperationIdForDecision
      else if id_confirmed_action_id (rd_decision request) \<noteq> None then Err UnexpectedConfirmedActionForDecision
      else Ok ())"

definition validate_review_decision_request ::
  "postgres_review_decision_recorder_request \<Rightarrow> (unit, postgres_repository_error) result" where
  "validate_review_decision_request request =
     (let decision = rd_decision request; item = rd_inbox_item request in
      try_then (validate_recorder_tenant (id_tenant_id decision) (rd_event request) (rd_outbox request)) (\<lambda>_.
      try_then (validate_review_decision_tenant_binding ''inbox_item.tenant_id''
        (id_tenant_id decision) (tenant_str (ri_tenant_id item))) (\<lambda>_.
      try_then (validate_review_decision_tenant_binding ''event.actor.actor_id''
        (id_actor_user_id decision) (aa_actor_id (ae_actor (rd_event request)))) (\<lambda>_.
      try_then (validate_review_decision_tenant_binding ''inbox_item.user_id''
        (id_actor_user_id decision) (user_str (ri_user_id item))) (\<lambda>_.
      try_then (validate_review_decision_tenant_binding ''inbox_item.proposed_action_id''
        (id_proposed_action_id decision) (ri_proposed_action_id item)) (\<lambda>_.
      if id_proposed_action_version decision \<noteq> ri_proposed_action_version item
      then Err (ReviewDecisionRequestMismatch ''proposed_action_version''
        (show_u64 (id_proposed_action_version decision)) (show_u64 (ri_proposed_action_version item)))
      else if ri_sync_cursor item \<le> rd_expected_sync_cursor_value request
      then Err (ReviewDecisionRequestMismatch ''inbox_item.sync_cursor''
        (''>'' @ show_u64 (rd_expected_sync_cursor_value request)) (show_u64 (ri_sync_cursor item)))
      else if decision_requires_action (id_decision decision) then validate_confirming_request request
      else validate_rejecting_request request))))))"

definition submit_decided_action ::
  "(int \<Rightarrow> timestamptz option) \<Rightarrow> timestamptz \<Rightarrow> execution_db \<Rightarrow> postgres_review_decision_recorder_request
     \<Rightarrow> (operation_record option, postgres_repository_error) result \<times> execution_db" where
  "submit_decided_action to_ts db_now db request =
     (case (rd_confirmed_action request, rd_confirmed_at_ms request, rd_operation_id request) of
        (Some action, Some confirmed_at_ms, Some operation_id) \<Rightarrow>
          try_st (pg_submit_confirmed_action to_ts db_now db action confirmed_at_ms operation_id)
            (\<lambda>submit db. (Ok (Some (fst (submit_result_parts submit))), db))
      | _ \<Rightarrow> (Ok None, db))"

definition record_decision ::
  "(int \<Rightarrow> timestamptz option) \<Rightarrow> audit_json \<Rightarrow> timestamptz \<Rightarrow> execution_db \<Rightarrow> postgres_review_decision_recorder_request
     \<Rightarrow> (postgres_review_decision_recorder_report, postgres_repository_error) result \<times> execution_db" where
  "record_decision to_ts J db_now db request =
     try_st (validate_review_decision_request request, db) (\<lambda>_ db. in_tx db (commit_deferred (
       try_st (insert_proposed_action_decision_in_tx to_ts db (rd_decision request)) (\<lambda>inserted_decision db.
       if \<not> inserted_decision
       then if \<not> existing_decision_matches db request
            then (Err (ReviewDecisionRequestMismatch ''decision'' ''same_existing_decision''
              ''conflicting_existing_decision''), db)
            else (Ok \<lparr>rr_operation = None, rr_inbox_item_id = None, rr_outbox_id = None, rr_duplicate = True\<rparr>, db)
       else try_st (submit_decided_action to_ts db_now db request) (\<lambda>operation db.
            try_st (update_review_inbox_decision_state_in_tx to_ts db (rd_inbox_item request)
                (rd_expected_sync_cursor_value request)) (\<lambda>updated db.
            try_st (ok_or (ReviewDecisionRequestMismatch ''inbox_item.sync_cursor''
                (show_u64 (rd_expected_sync_cursor_value request)) ''stale_or_terminal'') updated, db) (\<lambda>inbox_item_id db.
            try_st (append_audit_event_in_tx J db (rd_event request) (map_option op_operation_id operation)) (\<lambda>_ db.
            try_st (enqueue_outbox_in_tx to_ts db_now db (rd_outbox request)) (\<lambda>outbox_id db.
              (Ok \<lparr>rr_operation = operation, rr_inbox_item_id = Some inbox_item_id,
                 rr_outbox_id = Some outbox_id, rr_duplicate = False\<rparr>, db))))))))))"

section \<open>Lemmas\<close>

lemma commit_deferred_simps [simp]:
  "commit_deferred (Inl e, db) = (Inl e, db)"
  "commit_deferred (Inr x, db) = (if deferred_references_ok db then (Inr x, db)
     else (Inl (Sqlx (DatabaseError ''constraint violation'')), db))"
  by (simp_all add: commit_deferred_def)

lemma in_tx_commit_OkE:
  assumes "in_tx db (commit_deferred body) = (Inr x, db')"
  shows "body = (Inr x, db') \<and> deferred_references_ok db'"
  using assms by (cases body; cases "fst body") (auto split: if_splits)

lemma decision_query_row:
  assumes "insert_proposed_action_decision_query to_ts q = Inr d"
  shows "decision_key d = (id_tenant_id q, id_proposed_action_id q, u64_as_i64 (id_proposed_action_version q))"
    "xn_id d = id_id q" "xn_actor_user_id d = id_actor_user_id q"
    "(xn_decision d, xn_edited_payload d) = proposed_action_decision_to_db (id_decision q)"
    "xn_confirmed_action_id d = id_confirmed_action_id q" "xn_tenant_id d = id_tenant_id q"
  using assms
  by (auto simp: insert_proposed_action_decision_query_def decision_key_def try_then_Ok_iff split: prod.splits)

lemma insert_decision_OkE:
  assumes "insert_proposed_action_decision_in_tx to_ts db q = (Inr b, db')"
  obtains d where "insert_proposed_action_decision_query to_ts q = Inr d" and "decision_row_check d"
    and "b \<Longrightarrow> db' = db\<lparr>xd_decisions := xd_decisions db @ [d]\<rparr> \<and> decision_key d \<notin> decision_key ` set (xd_decisions db) \<and>
      xn_id d \<notin> xn_id ` set (xd_decisions db) \<and> decision_key d \<in> proposal_key ` set (xd_proposals db)"
    and "\<not> b \<Longrightarrow> db' = db \<and> decision_key d \<in> decision_key ` set (xd_decisions db)"
proof -
  from assms obtain d where d: "insert_proposed_action_decision_query to_ts q = Inr d"
    by (cases "insert_proposed_action_decision_query to_ts q") (simp_all add: insert_proposed_action_decision_in_tx_def)
  with assms obtain row where ins: "INSERT_PROPOSED_ACTION_DECISION db d = Inr (row, db')" and b: "b \<longleftrightarrow> row \<noteq> None"
    by (cases "INSERT_PROPOSED_ACTION_DECISION db d") (auto simp: insert_proposed_action_decision_in_tx_def)
  from ins b that [OF d] show thesis
    by (auto simp: INSERT_PROPOSED_ACTION_DECISION_def split: if_splits)
qed

text \<open>What a submission to the ledger leaves alone.\<close>

definition other_tables where
  "other_tables db = (xd_users db, xd_inbox db, xd_cursor_seq db, xd_decisions db, xd_proposals db,
     xd_evidence_refs db, xd_evidence db, xd_audit db)"

lemma submit_tables:
  assumes "pg_submit_confirmed_action to_ts db_now db a ms oid = (r, db')"
  shows "other_tables db' = other_tables db"
proof (cases "SUBMIT_CONFIRMED_ACTION_AND_LEDGER to_ts db_now db (ca_action_id a) (ca_tenant_id a)
      (ca_actor_user_id a) (ca_idempotency_key a) (u64_as_i64 ms) oid")
  case (Inl e)
  with assms have "db' = db"
    by (auto simp: pg_submit_confirmed_action_def submit_confirmed_action_with_executor_def split: if_splits)
  then show ?thesis by simp
next
  case (Inr p)
  obtain q db1 where p: "p = (q, db1)" by fastforce
  have "other_tables db1 = other_tables db"
    using Inr unfolding p SUBMIT_CONFIRMED_ACTION_AND_LEDGER_def Let_def try_then_Ok_iff
    by (auto simp: other_tables_def split: if_splits)
  moreover from assms Inr p have "db' = db1 \<or> db' = db"
    by (cases q) (auto simp: pg_submit_confirmed_action_def submit_confirmed_action_with_executor_def split: if_splits)
  ultimately show ?thesis by auto
qed

lemma submit_decided_OkD:
  assumes "submit_decided_action to_ts db_now db request = (Inr operation, db')"
  shows "case (rd_confirmed_action request, rd_confirmed_at_ms request, rd_operation_id request) of
      (Some a, Some ms, Some oid) \<Rightarrow> \<exists>s. pg_submit_confirmed_action to_ts db_now db a ms oid = (Inr s, db') \<and>
        operation = Some (fst (submit_result_parts s))
    | _ \<Rightarrow> operation = None \<and> db' = db"
  using assms
  by (auto simp: submit_decided_action_def elim!: try_st_OkE split: option.splits)

lemma submit_decided_tables:
  assumes "submit_decided_action to_ts db_now db request = (Inr operation, db')"
  shows "other_tables db' = other_tables db"
  using submit_decided_OkD [OF assms] by (auto split: option.splits dest: submit_tables)

lemma validate_OkD:
  assumes "validate_review_decision_request request = Inr ()"
  shows "(rd_confirmed_action request \<noteq> None) = decision_requires_action (id_decision (rd_decision request))"
    and "rd_confirmed_action request = Some a \<Longrightarrow> rd_confirmed_at_ms request \<noteq> None \<and> rd_operation_id request \<noteq> None \<and>
      ca_tenant_id a = id_tenant_id (rd_decision request) \<and> id_confirmed_action_id (rd_decision request) = Some (ca_action_id a) \<and>
      ca_actor_user_id a = id_actor_user_id (rd_decision request)"
    and "ri_status (rd_inbox_item request) =
      (if decision_requires_action (id_decision (rd_decision request)) then InboxConfirmed else InboxRejected)"
    and "tenant_str (ri_tenant_id (rd_inbox_item request)) = id_tenant_id (rd_decision request)"
      "user_str (ri_user_id (rd_inbox_item request)) = id_actor_user_id (rd_decision request)"
      "ri_proposed_action_id (rd_inbox_item request) = id_proposed_action_id (rd_decision request)"
      "ri_proposed_action_version (rd_inbox_item request) = id_proposed_action_version (rd_decision request)"
  using assms
  by (auto simp: validate_review_decision_request_def validate_confirming_request_def validate_rejecting_request_def
      validate_review_decision_tenant_binding_def try_then_Ok_iff Let_def split: if_splits option.splits)

text \<open>What the update of an inbox item amounts to.\<close>

definition item_decided :: "review_inbox_item \<Rightarrow> u64 \<Rightarrow> string \<Rightarrow> execution_db \<Rightarrow> execution_db \<Rightarrow> bool" where
  "item_decided item cursor i db db' \<longleftrightarrow>
     (let P = open_item (tenant_str (ri_tenant_id item)) (user_str (ri_user_id item)) (ri_proposed_action_id item)
            (u64_as_i64 (ri_proposed_action_version item)) (u64_as_i64 cursor)
      in (\<exists>r \<in> set (xd_inbox db). P r \<and> xi_id r = i \<and> (\<exists>r' \<in> set (xd_inbox db'). xi_id r' = i \<and>
            xi_status r' = review_inbox_item_status_to_db (ri_status item) \<and>
            xi_ledger_status r' = ri_ledger_status item \<and> xi_operation_id r' = ri_operation_id item \<and>
            xi_sync_cursor_value r < xi_sync_cursor_value r')) \<and>
         (\<forall>r \<in> set (xd_inbox db). P r \<or> r \<in> set (xd_inbox db')) \<and>
         length (xd_inbox db') = length (xd_inbox db))"

lemma decision_update_OkE:
  assumes "update_review_inbox_decision_state_in_tx to_ts db item cursor = (Inr (Some i), db')"
  shows "item_decided item cursor i db db' \<and> (\<exists>rows. db' = db\<lparr>xd_cursor_seq := xd_cursor_seq db + 1, xd_inbox := rows\<rparr>)"
proof -
  let ?P = "open_item (tenant_str (ri_tenant_id item)) (user_str (ri_user_id item)) (ri_proposed_action_id item)
            (u64_as_i64 (ri_proposed_action_version item)) (u64_as_i64 cursor)"
  from assms obtain n where upd: "update_inbox ?P (\<lambda>r. r\<lparr>xi_status := review_inbox_item_status_to_db (ri_status item),
      xi_updated_at := n, xi_ledger_status := ri_ledger_status item, xi_operation_id := ri_operation_id item\<rparr>) db = Inr (Some i, db')"
    by (auto simp: update_review_inbox_decision_state_in_tx_def UPDATE_REVIEW_INBOX_DECISION_STATE_def exec_sql_def
        try_then_Ok_iff Let_def elim!: try_st_OkE split: sum.splits if_splits)
  then obtain r where r: "find ?P (xd_inbox db) = Some r" and i: "i = xi_id r"
    and db': "db' = db\<lparr>xd_cursor_seq := xd_cursor_seq db + 1, xd_inbox := map_where ?P
      (\<lambda>r'. r'\<lparr>xi_status := review_inbox_item_status_to_db (ri_status item), xi_updated_at := n,
        xi_ledger_status := ri_ledger_status item, xi_operation_id := ri_operation_id item,
        xi_sync_cursor_value := next_cursor db r'\<rparr>) (xd_inbox db)\<rparr>"
    by (auto simp: update_inbox_def split: option.splits if_splits)
  note found = find_SomeD [OF r]
  have "r\<lparr>xi_status := review_inbox_item_status_to_db (ri_status item), xi_updated_at := n,
        xi_ledger_status := ri_ledger_status item, xi_operation_id := ri_operation_id item,
        xi_sync_cursor_value := next_cursor db r\<rparr> \<in> set (xd_inbox db')"
    unfolding db' using found by (auto simp: set_map_where)
  then have "\<exists>r' \<in> set (xd_inbox db'). xi_id r' = i \<and> xi_status r' = review_inbox_item_status_to_db (ri_status item) \<and>
      xi_ledger_status r' = ri_ledger_status item \<and> xi_operation_id r' = ri_operation_id item \<and>
      xi_sync_cursor_value r < xi_sync_cursor_value r'"
    by (rule bexI [rotated]) (simp add: next_cursor_def i)
  moreover have "\<forall>x \<in> set (xd_inbox db). ?P x \<or> x \<in> set (xd_inbox db')"
    unfolding db' by (force simp: set_map_where)
  ultimately have "item_decided item cursor i db db'"
    using found i unfolding item_decided_def Let_def by (auto simp: db')
  then show ?thesis using db' by blast
qed

lemma record_decision_OkE:
  assumes "record_decision to_ts J db_now db request = (Inr rep, db')"
  obtains (duplicate) "validate_review_decision_request request = Inr ()" and "rr_duplicate rep" and "rr_operation rep = None"
      and "db' = db" and "existing_decision_matches db request"
  | (fresh) d db2 db3 i db4 row m where "validate_review_decision_request request = Inr ()" and "\<not> rr_duplicate rep"
      and "insert_proposed_action_decision_query to_ts (rd_decision request) = Inr d" and "decision_row_check d"
      and "decision_key d \<notin> decision_key ` set (xd_decisions db) \<and> xn_id d \<notin> xn_id ` set (xd_decisions db)"
      and "decision_key d \<in> proposal_key ` set (xd_proposals db)"
      and "submit_decided_action to_ts db_now (db\<lparr>xd_decisions := xd_decisions db @ [d]\<rparr>) request = (Inr (rr_operation rep), db2)"
      and "update_review_inbox_decision_state_in_tx to_ts db2 (rd_inbox_item request) (rd_expected_sync_cursor_value request) = (Inr (Some i), db3)"
      and "rr_inbox_item_id rep = Some i"
      and "append_audit_event_query J (rd_event request) (map_option op_operation_id (rr_operation rep)) = Inr row"
      and "db4 = db3\<lparr>xd_audit := (audit_of db3)\<lparr>ad_events := ad_events (xd_audit db3) @ [row]\<rparr>\<rparr>"
      and "db' = db4\<lparr>xd_audit := (audit_of db4)\<lparr>ad_outbox := ad_outbox (xd_audit db4) @ [m],
        ad_outbox_id_seq := ad_outbox_id_seq (xd_audit db4) + 1\<rparr>\<rparr>"
      and "rr_outbox_id rep = Some (ob_id m)" and "ob_tenant_id m = ov_tenant_id (rd_outbox request)"
      and "ob_payload m = ov_payload (rd_outbox request)" and "ob_status m = ''pending''"
      and "deferred_references_ok db'"
proof -
  from assms have val: "validate_review_decision_request request = Inr ()"
    by (cases "validate_review_decision_request request") (simp_all add: record_decision_def)
  obtain q db1 where ins: "insert_proposed_action_decision_in_tx to_ts db (rd_decision request) = (q, db1)" by fastforce
  note run = in_tx_commit_OkE [OF assms [unfolded record_decision_def val try_st_simps]]
  from run ins obtain b where q: "q = Inr b" by (cases q) auto
  from insert_decision_OkE [OF ins [unfolded q]] obtain d where d: "insert_proposed_action_decision_query to_ts (rd_decision request) = Inr d"
      "decision_row_check d"
    and new_row: "b \<Longrightarrow> db1 = db\<lparr>xd_decisions := xd_decisions db @ [d]\<rparr> \<and> decision_key d \<notin> decision_key ` set (xd_decisions db) \<and>
      xn_id d \<notin> xn_id ` set (xd_decisions db) \<and> decision_key d \<in> proposal_key ` set (xd_proposals db)"
    and dup: "\<not> b \<Longrightarrow> db1 = db" by metis
  show thesis
  proof (cases b)
    case False
    with run ins q dup duplicate [OF val] show thesis by (auto split: if_splits)
  next
    case True
    with new_row have db1: "db1 = db\<lparr>xd_decisions := xd_decisions db @ [d]\<rparr>"
      and key: "decision_key d \<notin> decision_key ` set (xd_decisions db) \<and> xn_id d \<notin> xn_id ` set (xd_decisions db)"
        "decision_key d \<in> proposal_key ` set (xd_proposals db)" by simp_all
    obtain p db2 where sub: "submit_decided_action to_ts db_now db1 request = (p, db2)" by fastforce
    with run ins q True obtain operation where p: "p = Inr operation" by (cases p) auto
    obtain u db3 where upd: "update_review_inbox_decision_state_in_tx to_ts db2 (rd_inbox_item request)
        (rd_expected_sync_cursor_value request) = (u, db3)" by fastforce
    with run ins q True sub p obtain i where u: "u = Inr (Some i)" by (cases u; cases "projr u") auto
    obtain a db4 where app: "append_audit_event_in_tx J db3 (rd_event request) (map_option op_operation_id operation) = (a, db4)" by fastforce
    with run ins q True sub p upd u have a: "a = Inr ()" by (cases a) auto
    obtain w db5 where enq: "enqueue_outbox_in_tx to_ts db_now db4 (rd_outbox request) = (w, db5)" by fastforce
    with run ins q True sub p upd u app a obtain oid where w: "w = Inr oid" by (cases w) auto
    from run ins q True sub p upd u app a enq w have rep: "rep = \<lparr>rr_operation = operation, rr_inbox_item_id = Some i,
        rr_outbox_id = Some oid, rr_duplicate = False\<rparr>" and db': "db' = db5" and refs: "deferred_references_ok db'" by auto
    from append_in_tx_OkE [OF app [unfolded a]] obtain row where row: "append_audit_event_query J (rd_event request) (map_option op_operation_id operation) = Inr row"
        "db4 = db3\<lparr>xd_audit := (audit_of db3)\<lparr>ad_events := ad_events (xd_audit db3) @ [row]\<rparr>\<rparr>" by metis
    from enqueue_OkE [OF enq [unfolded w]] obtain m where m: "db5 = db4\<lparr>xd_audit := (audit_of db4)\<lparr>ad_outbox := ad_outbox (xd_audit db4) @ [m],
        ad_outbox_id_seq := ad_outbox_id_seq (xd_audit db4) + 1\<rparr>\<rparr>" "oid = ob_id m" "ob_tenant_id m = ov_tenant_id (rd_outbox request)"
        "ob_payload m = ov_payload (rd_outbox request)" "ob_status m = ''pending''" by metis
    show thesis
      by (rule fresh [OF val _ d key, of db2 i db3 row db4 m])
        (use sub p upd u row m rep db' refs db1 in simp_all)
  qed
qed

section \<open>A decision is one transaction\<close>

text \<open>The operation that a confirming decision leaves in the ledger.\<close>

definition decision_operation :: "postgres_review_decision_recorder_request \<Rightarrow> operation_record option \<Rightarrow> execution_db \<Rightarrow> execution_db \<Rightarrow> bool" where
  "decision_operation request operation db db' \<longleftrightarrow> (case rd_confirmed_action request of
      None \<Rightarrow> operation = None \<and> xd_operations db' = xd_operations db \<and> xd_actions db' = xd_actions db
    | Some a \<Rightarrow> \<exists>oper. operation = Some oper \<and> submit_spec (pg_view (ca_tenant_id a) db) a
        (Ok (if pg_view (ca_tenant_id a) db (ca_idempotency_key a) = None then Created oper else Existing oper))
        (pg_view (ca_tenant_id a) db'))"

lemma ledger_tables_only:
  assumes "xd_operations db = xd_operations db'" and "xd_actions db = xd_actions db'"
  shows "ledger_ok db = ledger_ok db'" "pg_view t db = pg_view t db'"
  using assms by (simp_all add: ledger_ok_def pg_view_def [abs_def] GET_BY_IDEMPOTENCY_KEY_def)

lemma submit_spec_result:
  assumes "submit_spec L a (Inr s) L'"
  shows "s = (if L (ca_idempotency_key a) = None then Created (fst (submit_result_parts s)) else Existing (fst (submit_result_parts s)))"
  using assms by (cases s) (auto simp: submit_spec_def)

lemma decision_operation_submit:
  assumes "ledger_ok db" and "validate_review_decision_request request = Inr ()"
    and "submit_decided_action to_ts db_now db request = (Inr operation, db')"
  shows "ledger_ok db' \<and> decision_operation request operation db db'"
proof (cases "rd_confirmed_action request")
  case None
  with submit_decided_OkD [OF assms(3)] assms(1) show ?thesis by (simp add: decision_operation_def)
next
  case (Some a)
  with validate_OkD(2) [OF assms(2) Some] submit_decided_OkD [OF assms(3)] obtain ms oid s where
    run: "pg_submit_confirmed_action to_ts db_now db a ms oid = (Inr s, db')" and op: "operation = Some (fst (submit_result_parts s))"
    by auto
  from pg_submit_refines [OF assms(1) run] have ok: "ledger_ok db'"
    and spec: "submit_spec (pg_view (ca_tenant_id a) db) a (Inr s) (pg_view (ca_tenant_id a) db')" by auto
  with submit_spec_result [OF spec] Some op show ?thesis by (simp add: decision_operation_def)
qed

lemma ledger_ok_record_decision:
  assumes "ledger_ok db"
  shows "ledger_ok (snd (record_decision to_ts J db_now db request))"
proof (cases "record_decision to_ts J db_now db request")
  case (Pair r db')
  show ?thesis
  proof (cases r)
    case (Inl e)
    with Pair have "db' = db"
      by (cases "validate_review_decision_request request") (auto simp: record_decision_def dest: in_tx_Err)
    with Pair assms show ?thesis by simp
  next
    case (Inr rep)
    from Pair [unfolded Inr] show ?thesis
    proof (cases rule: record_decision_OkE)
      case duplicate
      with Pair assms show ?thesis by simp
    next
      case (fresh d db2 db3 i db4 row m)
      have "ledger_ok (db\<lparr>xd_decisions := xd_decisions db @ [d]\<rparr>)"
        using assms ledger_tables_only(1) [of "db\<lparr>xd_decisions := xd_decisions db @ [d]\<rparr>" db] by simp
      from decision_operation_submit [OF this fresh(1) fresh(7)] have "ledger_ok db2" ..
      moreover from decision_update_OkE [OF fresh(8)] have "xd_operations db' = xd_operations db2" "xd_actions db' = xd_actions db2"
        unfolding fresh(11,12) by auto
      ultimately show ?thesis using Pair ledger_tables_only(1) [of db' db2] by simp
    qed
  qed
qed

text \<open>
  C7. Recording a review decision is one transaction. A refused request changes nothing. A repeated
  one changes nothing and agrees in actor, kind, edited payload and confirmed action with the
  decision that is stored. A fresh one stores a decision under a key that had none, for a proposal
  that exists; closes exactly the open item that the client saw, with a larger cursor; submits the
  confirmed action to the ledger precisely when the decision confirms; and leaves one audit event
  and one pending outbox message.
\<close>

theorem review_decision_atomic:
  assumes "ledger_ok db" and "record_decision to_ts J db_now db request = (r, db')"
  shows "case r of Inl _ \<Rightarrow> db' = db
    | Inr rep \<Rightarrow> if rr_duplicate rep then db' = db \<and> existing_decision_matches db request
      else ledger_ok db' \<and>
        (\<exists>d. insert_proposed_action_decision_query to_ts (rd_decision request) = Ok d \<and>
          decision_key d \<notin> decision_key ` set (xd_decisions db) \<and> decision_key d \<in> proposal_key ` set (xd_proposals db) \<and>
          xd_decisions db' = xd_decisions db @ [d]) \<and>
        (\<exists>i. rr_inbox_item_id rep = Some i \<and>
          item_decided (rd_inbox_item request) (rd_expected_sync_cursor_value request) i db db') \<and>
        (rd_confirmed_action request \<noteq> None) = decision_requires_action (id_decision (rd_decision request)) \<and>
        decision_operation request (rr_operation rep) db db' \<and>
        (\<exists>row. append_audit_event_query J (rd_event request) (map_option op_operation_id (rr_operation rep)) = Ok row \<and>
          ad_events (xd_audit db') = ad_events (xd_audit db) @ [row]) \<and>
        (\<exists>m. rr_outbox_id rep = Some (ob_id m) \<and> ob_payload m = ov_payload (rd_outbox request) \<and> ob_status m = ''pending'' \<and>
          ad_outbox (xd_audit db') = ad_outbox (xd_audit db) @ [m])"
proof (cases r)
  case (Inl e)
  with assms(2) have "db' = db"
    by (cases "validate_review_decision_request request") (auto simp: record_decision_def dest: in_tx_Err)
  with Inl show ?thesis by simp
next
  case (Inr rep)
  from assms(2) [unfolded Inr] show ?thesis
  proof (cases rule: record_decision_OkE)
    case duplicate
    with Inr show ?thesis by simp
  next
    case (fresh d db2 db3 i db4 row m)
    let ?db1 = "db\<lparr>xd_decisions := xd_decisions db @ [d]\<rparr>"
    have same: "ledger_ok ?db1 = ledger_ok db" "\<And>t. pg_view t ?db1 = pg_view t db"
      by (rule ledger_tables_only; simp)+
    from decision_operation_submit [OF _ fresh(1) fresh(7)] assms(1) same
    have led: "ledger_ok db2" and oper: "decision_operation request (rr_operation rep) ?db1 db2" by auto
    from submit_decided_tables [OF fresh(7)] have others: "xd_inbox db2 = xd_inbox db" "xd_decisions db2 = xd_decisions db @ [d]"
      "xd_audit db2 = xd_audit db" by (simp_all add: other_tables_def)
    from decision_update_OkE [OF fresh(8)] obtain rows where item: "item_decided (rd_inbox_item request) (rd_expected_sync_cursor_value request) i db2 db3"
      and db3: "db3 = db2\<lparr>xd_cursor_seq := xd_cursor_seq db2 + 1, xd_inbox := rows\<rparr>" by blast
    have db': "xd_operations db' = xd_operations db2" "xd_actions db' = xd_actions db2" "xd_inbox db' = xd_inbox db3"
        "xd_decisions db' = xd_decisions db2"
      unfolding fresh(11,12) db3 by simp_all
    note tables = ledger_tables_only [OF db'(1,2)]
    have "item_decided (rd_inbox_item request) (rd_expected_sync_cursor_value request) i db db'"
      using item others db' by (simp add: item_decided_def)
    moreover have "decision_operation request (rr_operation rep) db db'"
      using oper same db' tables by (cases "rd_confirmed_action request") (simp_all add: decision_operation_def)
    moreover have "ad_events (xd_audit db') = ad_events (xd_audit db) @ [row]"
        "ad_outbox (xd_audit db') = ad_outbox (xd_audit db) @ [m]"
      unfolding fresh(11,12) db3 using others by (simp_all add: audit_of_def)
    ultimately show ?thesis
      using Inr fresh(2,3,5,6,9,10,13,15,16) led tables(1) db'(4) others validate_OkD(1) [OF fresh(1)] by auto
  qed
qed

section \<open>What was reviewed stays\<close>

text \<open>
  A table to which rows are only added, each under a key of its own: over any sequence of calls a row
  stays and its key stays its own.
\<close>

definition appended :: "('r \<Rightarrow> 'k) \<Rightarrow> 'r list \<Rightarrow> 'r list \<Rightarrow> bool" where
  "appended key rows rows' \<longleftrightarrow> (\<exists>new. rows' = rows @ new \<and> distinct (map key new) \<and> key ` set new \<inter> key ` set rows = {})"

lemma appended_refl [simp]: "appended key rows rows"
  by (simp add: appended_def)

lemma appended_one [simp]: "appended key rows (rows @ [r]) \<longleftrightarrow> key r \<notin> key ` set rows"
  by (simp add: appended_def)

locale append_only_table =
  fixes rows :: "'db \<Rightarrow> 'r list"
    and key :: "'r \<Rightarrow> 'k"
    and apply_op :: "'op \<Rightarrow> 'db \<Rightarrow> 'db"
  assumes appends: "appended key (rows db) (rows (apply_op c db))"
begin

lemma row_stays: "r \<in> set (rows db) \<Longrightarrow> r \<in> set (rows (fold apply_op cs db))"
proof (induction cs arbitrary: db)
  case (Cons c cs)
  from appends [of db c] Cons.prems have "r \<in> set (rows (apply_op c db))" by (auto simp: appended_def)
  with Cons.IH show ?case by simp
qed simp

lemma found_stays:
  "find (\<lambda>r. key r = k) (rows db) = Some r \<Longrightarrow> find (\<lambda>r. key r = k) (rows (fold apply_op cs db)) = Some r"
proof (induction cs arbitrary: db)
  case (Cons c cs)
  from appends [of db c] Cons.prems have "find (\<lambda>r. key r = k) (rows (apply_op c db)) = Some r"
    by (auto simp: find_append appended_def)
  with Cons.IH show ?case by simp
qed simp

lemma keys_distinct: "distinct (map key (rows db)) \<Longrightarrow> distinct (map key (rows (fold apply_op cs db)))"
proof (induction cs arbitrary: db)
  case (Cons c cs)
  from appends [of db c] obtain new where "rows (apply_op c db) = rows db @ new" "distinct (map key new)"
    "key ` set new \<inter> key ` set (rows db) = {}" unfolding appended_def by blast
  with Cons.prems have "distinct (map key (rows (apply_op c db)))" by (simp add: Int_commute)
  with Cons.IH show ?case by simp
qed simp

end

text \<open>The calls of the review store, beside those of the ledger.\<close>

datatype review_call =
    StoreEvidence string evidence_item
  | StoreProposal "json proposed_action" "system_time option"
  | StoreEvidenceRef string string u64 string
  | StoreDecision insert_proposed_action_decision_request
  | StoreItem review_inbox_item
  | RecordDecision timestamptz postgres_review_decision_recorder_request
  | CallLedger pg_ledger_call

fun review_apply :: "(int \<Rightarrow> timestamptz option) \<Rightarrow> audit_json \<Rightarrow> review_call \<Rightarrow> execution_db \<Rightarrow> execution_db" where
  "review_apply to_ts J (StoreEvidence tenant item) db = snd (insert_evidence_item to_ts db tenant item)"
| "review_apply to_ts J (StoreProposal pa published) db = snd (insert_proposed_action to_ts db pa published)"
| "review_apply to_ts J (StoreEvidenceRef tenant pa version ev) db =
     snd (insert_proposed_action_evidence_ref db tenant pa version ev)"
| "review_apply to_ts J (StoreDecision request) db = snd (insert_proposed_action_decision to_ts db request)"
| "review_apply to_ts J (StoreItem item) db = snd (upsert_review_inbox_item to_ts db item)"
| "review_apply to_ts J (RecordDecision db_now request) db = snd (record_decision to_ts J db_now db request)"
| "review_apply to_ts J (CallLedger c) db = pg_ledger_apply to_ts J c db"

lemma try_st_keeps:
  assumes "f (snd p) = f db" and "\<And>x s. f (snd (k x s)) = f s"
  shows "f (snd (try_st p k)) = f db"
  using assms by (cases p; cases "fst p") auto

lemma in_tx_keeps: "f (snd body) = f db \<Longrightarrow> f (snd (in_tx db body)) = f db"
  by (cases body; cases "fst body") auto

definition reviewed_tables where
  "reviewed_tables db = (xd_decisions db, xd_proposals db, xd_evidence db, xd_evidence_refs db)"

lemma reviewed_ledger: "reviewed_tables (snd (pg_submit_confirmed_action to_ts db_now db a ms oid)) = reviewed_tables db"
  using submit_tables [of to_ts db_now db a ms oid]
  by (cases "pg_submit_confirmed_action to_ts db_now db a ms oid") (simp add: reviewed_tables_def other_tables_def)

lemma reviewed_audit:
  "reviewed_tables (snd (append_audit_event_in_tx J db event oid)) = reviewed_tables db"
  "reviewed_tables (snd (enqueue_outbox_in_tx to_ts db_now db outbox)) = reviewed_tables db"
  by (simp_all add: reviewed_tables_def append_audit_event_in_tx_def enqueue_outbox_in_tx_def on_audit_of_def)

lemma reviewed_operation: "reviewed_tables (snd (transition_operation_with_executor to_ts db t tenant key e now)) = reviewed_tables db"
  unfolding transition_operation_with_executor_def Let_def transition_statement_eq
  by (rule try_st_keeps)
    (auto simp: snd_exec_sql try_then_Ok_iff update_operation_def reviewed_tables_def split: sum.splits)

lemma reviewed_transition: "reviewed_tables (snd (transition_in_tx to_ts db t tenant key e now)) = reviewed_tables db"
  unfolding transition_in_tx_def by (auto simp: reviewed_operation split: option.splits intro!: try_st_keeps)

lemma reviewed_projection: "reviewed_tables (snd (update_review_inbox_ledger_projection_in_tx to_ts db oper st now)) = reviewed_tables db"
  by (auto simp: update_review_inbox_ledger_projection_in_tx_def UPDATE_REVIEW_INBOX_LEDGER_PROJECTION_def update_inbox_def
      exec_sql_def try_then_Ok_iff reviewed_tables_def split: option.splits sum.splits if_splits)

lemmas reviewed_steps = reviewed_ledger reviewed_audit reviewed_transition reviewed_projection

lemma reviewed_ledger_calls: "reviewed_tables (pg_ledger_apply to_ts J c db) = reviewed_tables db"
proof (cases c)
  case (PgTransition t tenant key e now)
  then show ?thesis
    using reviewed_operation [of to_ts db t tenant key e now]
    by (auto simp: pg_ledger_transition_def Let_def split: prod.splits option.splits intro!: try_st_keeps)
next
  case (PgRecordConfirmation db_now a ms oid event outbox)
  then show ?thesis
    by (auto simp: record_confirmation_def reviewed_steps Let_def split: prod.splits intro!: try_st_keeps in_tx_keeps)
next
  case (PgRecordTransition db_now t tenant key e now event outbox)
  then show ?thesis
    by (auto simp: record_status_transition_def reviewed_steps split: prod.splits intro!: try_st_keeps in_tx_keeps)
qed (simp add: reviewed_ledger)

abbreviation evidence_key :: "evidence_row \<Rightarrow> string \<times> string" where
  "evidence_key e \<equiv> (xv_tenant_id e, xv_id e)"

text \<open>One call adds to the three tables at most one row, under a new key.\<close>

definition reviewed_grows :: "execution_db \<Rightarrow> execution_db \<Rightarrow> bool" where
  "reviewed_grows db db' \<longleftrightarrow> appended decision_key (xd_decisions db) (xd_decisions db') \<and>
     appended proposal_key (xd_proposals db) (xd_proposals db') \<and> appended evidence_key (xd_evidence db) (xd_evidence db')"

lemma reviewed_grows_same: "reviewed_tables db' = reviewed_tables db \<Longrightarrow> reviewed_grows db db'"
  by (simp add: reviewed_grows_def reviewed_tables_def)

lemma evidence_grows: "reviewed_grows db (snd (insert_evidence_item to_ts db tenant item))"
proof (cases "insert_evidence_item to_ts db tenant item")
  case (Pair r db')
  then have "db' = db \<or> (\<exists>e. INSERT_EVIDENCE_ITEM db e = Inr (Some e, db')) \<or> (\<exists>e. INSERT_EVIDENCE_ITEM db e = Inr (None, db'))"
    by (auto simp: insert_evidence_item_def INSERT_EVIDENCE_ITEM_def exec_sql_def try_st_def split: sum.splits prod.splits if_splits)
  then show ?thesis
    by (auto simp: Pair INSERT_EVIDENCE_ITEM_def reviewed_grows_def split: if_splits)
qed

lemma proposal_grows: "reviewed_grows db (snd (insert_proposed_action to_ts db pa published))"
proof (cases "insert_proposed_action to_ts db pa published")
  case (Pair r db')
  then have "db' = db \<or> (\<exists>row b. INSERT_PROPOSED_ACTION db row = Inr (b, db'))"
    by (auto simp: insert_proposed_action_def exec_sql_def try_st_def Let_def split: sum.splits prod.splits)
  then show ?thesis
    by (auto simp: Pair INSERT_PROPOSED_ACTION_def reviewed_grows_def split: if_splits)
qed

lemma decision_in_tx_grows:
  "reviewed_grows db (snd (insert_proposed_action_decision_in_tx to_ts db request))"
proof (cases "insert_proposed_action_decision_in_tx to_ts db request")
  case (Pair r db')
  then have "db' = db \<or> (\<exists>d b. INSERT_PROPOSED_ACTION_DECISION db d = Inr (b, db'))"
    by (auto simp: insert_proposed_action_decision_in_tx_def exec_sql_def try_st_def split: sum.splits prod.splits)
  then show ?thesis
    by (auto simp: Pair INSERT_PROPOSED_ACTION_DECISION_def reviewed_grows_def split: if_splits)
qed

lemma in_tx_commit_cases: "snd (in_tx db (commit_deferred body)) = db \<or> snd (in_tx db (commit_deferred body)) = snd body"
  by (cases body; cases "fst body") auto

lemma item_grows: "reviewed_grows db (snd (upsert_review_inbox_item to_ts db item))"
proof -
  have "reviewed_tables (snd (try_st (upsert_review_inbox_item_query to_ts item, db)
       (\<lambda>row db. exec_sql db (UPSERT_REVIEW_INBOX_ITEM db row)))) = reviewed_tables db"
    by (rule try_st_keeps)
      (auto simp: UPSERT_REVIEW_INBOX_ITEM_def reviewed_tables_def exec_sql_def Let_def split: option.splits sum.splits if_splits)
  then show ?thesis
    using in_tx_commit_cases [of db "try_st (upsert_review_inbox_item_query to_ts item, db)
       (\<lambda>row db. exec_sql db (UPSERT_REVIEW_INBOX_ITEM db row))"]
    by (auto simp: upsert_review_inbox_item_def intro!: reviewed_grows_same)
qed

lemma record_decision_grows: "reviewed_grows db (snd (record_decision to_ts J db_now db request))"
proof (cases "record_decision to_ts J db_now db request")
  case (Pair r db')
  show ?thesis
  proof (cases r)
    case (Inl e)
    with Pair have "db' = db"
      by (cases "validate_review_decision_request request") (auto simp: record_decision_def dest: in_tx_Err)
    with Pair show ?thesis by (simp add: reviewed_grows_same)
  next
    case (Inr rep)
    from Pair [unfolded Inr] show ?thesis
    proof (cases rule: record_decision_OkE)
      case duplicate
      with Pair show ?thesis by (simp add: reviewed_grows_same)
    next
      case (fresh d db2 db3 i db4 row m)
      from submit_decided_tables [OF fresh(7)] decision_update_OkE [OF fresh(8)]
      have "xd_decisions db' = xd_decisions db @ [d]" "xd_proposals db' = xd_proposals db" "xd_evidence db' = xd_evidence db"
        unfolding fresh(11,12) by (auto simp: other_tables_def)
      with fresh(5) Pair show ?thesis by (auto simp: reviewed_grows_def)
    qed
  qed
qed

lemma review_call_grows: "reviewed_grows db (review_apply to_ts J c db)"
proof (cases c)
  case (StoreEvidenceRef tenant pa version ev)
  then show ?thesis
    by (auto simp: insert_proposed_action_evidence_ref_def INSERT_PROPOSED_ACTION_EVIDENCE_REF_def snd_exec_sql reviewed_grows_def
        split: sum.splits if_splits)
next
  case (StoreDecision request)
  then show ?thesis
    using decision_in_tx_grows [of db to_ts request] in_tx_commit_cases [of db "insert_proposed_action_decision_in_tx to_ts db request"]
    by (auto simp: insert_proposed_action_decision_def reviewed_grows_same)
qed (simp_all add: evidence_grows proposal_grows item_grows record_decision_grows reviewed_ledger_calls reviewed_grows_same)

interpretation stored_decisions: append_only_table xd_decisions decision_key "review_apply to_ts J" for to_ts J
  by unfold_locales (use review_call_grows in \<open>simp add: reviewed_grows_def\<close>)

interpretation stored_proposals: append_only_table xd_proposals proposal_key "review_apply to_ts J" for to_ts J
  by unfold_locales (use review_call_grows in \<open>simp add: reviewed_grows_def\<close>)

interpretation stored_evidence: append_only_table xd_evidence evidence_key "review_apply to_ts J" for to_ts J
  by unfold_locales (use review_call_grows in \<open>simp add: reviewed_grows_def\<close>)

lemma repeated_decision:
  assumes "record_decision to_ts J db_now db request = (r, db')"
    and "LOAD_PROPOSED_ACTION_DECISION_FOR_RECORDER db (id_tenant_id (rd_decision request)) (id_proposed_action_id (rd_decision request))
      (u64_as_i64 (id_proposed_action_version (rd_decision request))) = Some d"
  shows "db' = db \<and> (case r of Inl _ \<Rightarrow> True | Inr rep \<Rightarrow> rr_duplicate rep \<and>
      (xn_decision d, xn_edited_payload d) = proposed_action_decision_to_db (id_decision (rd_decision request)) \<and>
      xn_actor_user_id d = id_actor_user_id (rd_decision request))"
proof (cases r)
  case (Inl e)
  with assms(1) show ?thesis
    by (cases "validate_review_decision_request request") (auto simp: record_decision_def dest: in_tx_Err)
next
  case (Inr rep)
  from assms(1) [unfolded Inr] show ?thesis
  proof (cases rule: record_decision_OkE)
    case duplicate
    with assms(2) Inr show ?thesis by (auto simp: existing_decision_matches_def Let_def split: prod.splits)
  next
    case (fresh d' db2 db3 i db4 row m)
    from find_SomeD [OF assms(2) [unfolded LOAD_PROPOSED_ACTION_DECISION_FOR_RECORDER_def]] fresh(5) decision_query_row(1) [OF fresh(3)]
    show ?thesis by (metis imageI)
  qed
qed

text \<open>
  C17. What a user decided, and what the decision was about, can no longer change. Over any sequence
  of calls on the review store and the ledger every proposal version, every evidence item and every
  decision that is stored stays as it is. A later request for the same version of the proposal is
  refused, or it repeats the stored decision and changes nothing.
\<close>

theorem stored_decision_is_final:
  fixes cs :: "review_call list"
  defines "later \<equiv> (\<lambda>to_ts J. fold (review_apply to_ts J) cs)"
  shows "(\<forall>p \<in> set (xd_proposals db). p \<in> set (xd_proposals (later to_ts J db))) \<and>
    (\<forall>e \<in> set (xd_evidence db). e \<in> set (xd_evidence (later to_ts J db))) \<and>
    (\<forall>d. LOAD_PROPOSED_ACTION_DECISION_FOR_RECORDER db tenant pa version = Some d \<longrightarrow>
      LOAD_PROPOSED_ACTION_DECISION_FOR_RECORDER (later to_ts J db) tenant pa version = Some d \<and>
      (\<forall>db_now request r db'. record_decision to_ts J db_now (later to_ts J db) request = (r, db') \<and>
        (id_tenant_id (rd_decision request), id_proposed_action_id (rd_decision request),
          u64_as_i64 (id_proposed_action_version (rd_decision request))) = (tenant, pa, version) \<longrightarrow>
        db' = later to_ts J db \<and> (case r of Inl _ \<Rightarrow> True | Inr rep \<Rightarrow> rr_duplicate rep \<and>
          (xn_decision d, xn_edited_payload d) = proposed_action_decision_to_db (id_decision (rd_decision request)) \<and>
          xn_actor_user_id d = id_actor_user_id (rd_decision request))))"
proof (intro conjI ballI allI impI)
  show "p \<in> set (xd_proposals (later to_ts J db))" if "p \<in> set (xd_proposals db)" for p
    unfolding later_def using that by (rule stored_proposals.row_stays)
  show "e \<in> set (xd_evidence (later to_ts J db))" if "e \<in> set (xd_evidence db)" for e
    unfolding later_def using that by (rule stored_evidence.row_stays)
next
  fix d
  assume "LOAD_PROPOSED_ACTION_DECISION_FOR_RECORDER db tenant pa version = Some d"
  then show kept: "LOAD_PROPOSED_ACTION_DECISION_FOR_RECORDER (later to_ts J db) tenant pa version = Some d"
    unfolding later_def LOAD_PROPOSED_ACTION_DECISION_FOR_RECORDER_def by (rule stored_decisions.found_stays)
  fix db_now request r db'
  assume run: "record_decision to_ts J db_now (later to_ts J db) request = (r, db') \<and>
    (id_tenant_id (rd_decision request), id_proposed_action_id (rd_decision request),
      u64_as_i64 (id_proposed_action_version (rd_decision request))) = (tenant, pa, version)"
  show "db' = later to_ts J db" "case r of Inl _ \<Rightarrow> True | Inr rep \<Rightarrow> rr_duplicate rep \<and>
      (xn_decision d, xn_edited_payload d) = proposed_action_decision_to_db (id_decision (rd_decision request)) \<and>
      xn_actor_user_id d = id_actor_user_id (rd_decision request)"
    using repeated_decision [OF conjunct1 [OF run], of d] kept run by auto
qed

section \<open>Inbox items that are written again\<close>

definition inbox_key :: "inbox_row \<Rightarrow> string \<times> string \<times> string" where
  "inbox_key r = (xi_tenant_id r, xi_user_id r, xi_proposed_action_id r)"

definition item_key :: "review_inbox_item \<Rightarrow> string \<times> string \<times> string" where
  "item_key item = (tenant_str (ri_tenant_id item), user_str (ri_user_id item), ri_proposed_action_id item)"

lemma upsert_conflict_key: "upsert_conflict new r \<longleftrightarrow> inbox_key r = inbox_key new"
  by (auto simp: upsert_conflict_def inbox_key_def)

lemma upsert_changed_fields [simp]:
  "xi_id (upsert_changed db new r) = xi_id r" "inbox_key (upsert_changed db new r) = inbox_key r"
  "xi_proposed_action_version (upsert_changed db new r) = xi_proposed_action_version r"
  "xi_status (upsert_changed db new r) = xi_status new"
  by (simp_all add: upsert_changed_def inbox_key_def)

lemma upsert_OkE:
  assumes "upsert_review_inbox_item to_ts db item = (Inr res, db')"
  obtains new where "inbox_key new = item_key item" and "xi_id new = inbox_item_str (ri_id item)"
    and "xi_status new = review_inbox_item_status_to_db (ri_status item)"
    and "xi_proposed_action_version new = u64_as_i64 (ri_proposed_action_version item)"
    and "xi_source_cursor_value new = u64_as_i64 (ri_sync_cursor item)"
    and "UPSERT_REVIEW_INBOX_ITEM db new = Inr (res, db')"
proof -
  note run = in_tx_commit_OkE [OF assms [unfolded upsert_review_inbox_item_def], THEN conjunct1]
  then obtain new where q: "upsert_review_inbox_item_query to_ts item = Inr new"
    by (cases "upsert_review_inbox_item_query to_ts item") simp_all
  with run have "UPSERT_REVIEW_INBOX_ITEM db new = Inr (res, db')"
    by (cases "UPSERT_REVIEW_INBOX_ITEM db new") auto
  with q that [of new] show thesis
    by (auto simp: upsert_review_inbox_item_query_def inbox_key_def item_key_def try_then_Ok_iff)
qed

text \<open>
  C18. Writing an inbox item again. A first write adds one open or closed row. A later write for the
  same user and proposal changes the row only if it comes from a newer source state and the row is
  not closed for good; then the row takes the new status and a strictly larger cursor, and every
  other row stays. The version of the proposal that the row names is the one of the first write.
\<close>

theorem inbox_upsert_correct:
  assumes "distinct (map inbox_key (xd_inbox db))" and "upsert_review_inbox_item to_ts db item = (Ok res, db')"
  shows "case find (\<lambda>r. inbox_key r = item_key item) (xd_inbox db) of
      None \<Rightarrow> res = Some (inbox_item_str (ri_id item)) \<and> (\<exists>row. xd_inbox db' = xd_inbox db @ [row] \<and>
        inbox_key row = item_key item \<and> xi_status row = review_inbox_item_status_to_db (ri_status item) \<and>
        xi_proposed_action_version row = u64_as_i64 (ri_proposed_action_version item))
    | Some r \<Rightarrow>
        if u64_as_i64 (ri_sync_cursor item) \<le> xi_source_cursor_value r \<or>
           xi_status r \<in> {''rejected'', ''succeeded'', ''failed'', ''withdrawn''}
        then res = None \<and> xd_inbox db' = xd_inbox db
        else res = Some (xi_id r) \<and> (\<exists>r'. xd_inbox db' = map (\<lambda>x. if x = r then r' else x) (xd_inbox db) \<and>
          xi_id r' = xi_id r \<and> inbox_key r' = inbox_key r \<and> xi_status r' = review_inbox_item_status_to_db (ri_status item) \<and>
          xi_sync_cursor_value r < xi_sync_cursor_value r' \<and>
          xi_proposed_action_version r' = xi_proposed_action_version r)"
proof -
  from assms(2) show ?thesis
  proof (cases rule: upsert_OkE)
    case (1 new)
    define row where "row = new\<lparr>xi_sync_cursor_value := max (xi_source_cursor_value new) (xd_cursor_seq db)\<rparr>"
    have row: "inbox_key row = item_key item" "xi_id row = inbox_item_str (ri_id item)" "xi_status row = xi_status new"
        "xi_source_cursor_value row = xi_source_cursor_value new" "xi_proposed_action_version row = xi_proposed_action_version new"
      using 1(1,2) by (simp_all add: row_def inbox_key_def)
    have conflict: "upsert_conflict row = (\<lambda>r. inbox_key r = item_key item)"
      by (rule ext) (simp add: upsert_conflict_key row)
    note stmt = 1(6) [unfolded UPSERT_REVIEW_INBOX_ITEM_def Let_def row_def [symmetric] conflict]
    show ?thesis
    proof (cases "find (\<lambda>r. inbox_key r = item_key item) (xd_inbox db)")
      case None
      with stmt 1(2,3,4) row show ?thesis by (auto split: if_splits)
    next
      case (Some r)
      note found = find_SomeD [OF Some]
      show ?thesis
      proof (cases "xi_source_cursor_value r < xi_source_cursor_value row \<and> xi_status r \<notin> {''rejected'', ''succeeded'', ''failed'', ''withdrawn''}")
        case False
        with stmt Some row 1(5) show ?thesis by (auto split: if_splits)
      next
        case True
        let ?r' = "upsert_changed db row r"
        have only: "inbox_key x = item_key item \<longleftrightarrow> x = r" if "x \<in> set (xd_inbox db)" for x
          using assms(1) that found by (auto simp: distinct_map inj_on_def)
        with stmt Some True have "res = Some (xi_id r)" and "xd_inbox db' = map (\<lambda>x. if x = r then ?r' else x) (xd_inbox db)"
          by (auto simp: map_where_def split: if_splits)
        moreover have "xi_sync_cursor_value r < xi_sync_cursor_value ?r'" by (simp add: upsert_changed_def)
        ultimately show ?thesis using Some True row 1(3,5) by (auto intro!: exI [of _ ?r'])
      qed
    qed
  qed
qed

text \<open>
  C39. A newer version of a proposal that is already in the inbox cannot be decided. The write of its
  item succeeds and gives the row the status of the new item, but the row keeps the old version, so the context of a decision
  on the new version is never found, whatever cursor the client names.
\<close>

theorem newer_version_not_decidable:
  assumes "distinct (map inbox_key (xd_inbox db))" and "upsert_review_inbox_item to_ts db item = (Ok (Some i), db')"
    and "r \<in> set (xd_inbox db)" and "inbox_key r = item_key item"
    and "xi_proposed_action_version r \<noteq> u64_as_i64 (ri_proposed_action_version item)"
  shows "(\<exists>r' \<in> set (xd_inbox db'). xi_id r' = i \<and> xi_status r' = review_inbox_item_status_to_db (ri_status item)) \<and>
    load_review_decision_context collate db' \<lparr>rc_tenant_id = tenant_str (ri_tenant_id item), rc_user_id = user_str (ri_user_id item),
      rc_proposed_action_id = ri_proposed_action_id item, rc_proposed_action_version = ri_proposed_action_version item,
      rc_expected_sync_cursor_value = cursor\<rparr> = Ok None"
proof -
  from assms(2) obtain new where new: "inbox_key new = item_key item" "xi_status new = review_inbox_item_status_to_db (ri_status item)"
    "UPSERT_REVIEW_INBOX_ITEM db new = Inr (Some i, db')" by (rule upsert_OkE)
  define row where "row = new\<lparr>xi_sync_cursor_value := max (xi_source_cursor_value new) (xd_cursor_seq db)\<rparr>"
  have row: "inbox_key row = item_key item" "xi_status row = xi_status new" using new(1) by (simp_all add: row_def inbox_key_def)
  have conflict: "upsert_conflict row = (\<lambda>r. inbox_key r = item_key item)"
    by (rule ext) (simp add: upsert_conflict_key row)
  have only: "inbox_key x = item_key item \<longleftrightarrow> x = r" if "x \<in> set (xd_inbox db)" for x
    using assms(1,3,4) that by (auto simp: distinct_map inj_on_def)
  then have "find (\<lambda>r. inbox_key r = item_key item) (xd_inbox db) = Some r"
    using assms(3,4) find_SomeD by (metis (mono_tags, lifting) find_None_iff not_None_eq)
  with new(3) have i: "i = xi_id r" and db': "xd_inbox db' = map_where (\<lambda>r. inbox_key r = item_key item) (upsert_changed db row) (xd_inbox db)"
    unfolding UPSERT_REVIEW_INBOX_ITEM_def Let_def row_def [symmetric] conflict by (auto split: if_splits)
  have "\<exists>r' \<in> set (xd_inbox db'). xi_id r' = i \<and> xi_status r' = review_inbox_item_status_to_db (ri_status item)"
    by (rule bexI [of _ "upsert_changed db row r"]) (use assms(3,4) i row new(2) in \<open>auto simp: db' set_map_where\<close>)
  moreover
  have "\<not> decided_item (tenant_str (ri_tenant_id item)) (user_str (ri_user_id item)) (ri_proposed_action_id item)
      (u64_as_i64 (ri_proposed_action_version item)) c x" if "x \<in> set (xd_inbox db')" for x c
  proof -
    have "xi_proposed_action_version x = xi_proposed_action_version r" if "inbox_key x = item_key item"
      using that \<open>x \<in> set (xd_inbox db')\<close> only by (auto simp: db' set_map_where split: if_splits)
    then show ?thesis using assms(5) by (auto simp: decided_item_def inbox_key_def item_key_def)
  qed
  then have "LOAD_REVIEW_DECISION_ITEM db' (tenant_str (ri_tenant_id item)) (user_str (ri_user_id item)) (ri_proposed_action_id item)
      (u64_as_i64 (ri_proposed_action_version item)) (u64_as_i64 cursor) = None"
    by (simp add: LOAD_REVIEW_DECISION_ITEM_def find_None_iff)
  ultimately show ?thesis by (simp add: load_review_decision_context_def)
qed

end
