(* ===== verification/Web_Text.thy ===== *)
theory Web_Text
  imports OAR_Prelude
begin

text \<open>
  Text operations of Rust's standard library that the HTTP facade adds to those of the prelude:
  UTF-8 encoding and its check, lines, words, joining, trimming of given characters and splitting
  at the first separator.
\<close>

section \<open>UTF-8\<close>

text \<open>The bytes of a text that is given by its code points: a literal outside ASCII.\<close>

fun utf8_bytes :: "nat \<Rightarrow> nat list" where
  "utf8_bytes n =
     (if n < 0x80 then [n]
      else if n < 0x800 then [0xC0 + n div 64, 0x80 + n mod 64]
      else if n < 0x10000 then [0xE0 + n div 4096, 0x80 + n div 64 mod 64, 0x80 + n mod 64]
      else [0xF0 + n div 262144, 0x80 + n div 4096 mod 64, 0x80 + n div 64 mod 64, 0x80 + n mod 64])"

definition utf8 :: "nat list \<Rightarrow> string" where
  "utf8 ns = map char_of (concat (map utf8_bytes ns))"

definition byte_in :: "nat \<Rightarrow> nat \<Rightarrow> char \<Rightarrow> bool" where
  "byte_in lo hi c \<longleftrightarrow> lo \<le> of_char c \<and> of_char c \<le> hi"

text \<open>\<open>String::from_utf8\<close> accepts exactly these byte sequences: no overlong forms, no surrogates,
  nothing above the last code point.\<close>

definition utf8_lead3 :: "char \<Rightarrow> char \<Rightarrow> bool" where
  "utf8_lead3 a b \<longleftrightarrow> byte_in 0xE0 0xE0 a \<and> byte_in 0xA0 0xBF b \<or> byte_in 0xE1 0xEC a \<and> is_cont b \<or>
     byte_in 0xED 0xED a \<and> byte_in 0x80 0x9F b \<or> byte_in 0xEE 0xEF a \<and> is_cont b"

definition utf8_lead4 :: "char \<Rightarrow> char \<Rightarrow> bool" where
  "utf8_lead4 a b \<longleftrightarrow> byte_in 0xF0 0xF0 a \<and> byte_in 0x90 0xBF b \<or> byte_in 0xF1 0xF3 a \<and> is_cont b \<or>
     byte_in 0xF4 0xF4 a \<and> byte_in 0x80 0x8F b"

fun valid_utf8 :: "string \<Rightarrow> bool" where
  "valid_utf8 [] \<longleftrightarrow> True"
| "valid_utf8 (a # s) \<longleftrightarrow>
     (if byte_in 0 0x7F a then valid_utf8 s
      else case s of [] \<Rightarrow> False | b # s \<Rightarrow>
        if byte_in 0xC2 0xDF a then is_cont b \<and> valid_utf8 s
        else case s of [] \<Rightarrow> False | c # s \<Rightarrow>
          if utf8_lead3 a b then is_cont c \<and> valid_utf8 s
          else case s of [] \<Rightarrow> False | d # s \<Rightarrow>
            utf8_lead4 a b \<and> is_cont c \<and> is_cont d \<and> valid_utf8 s)"

lemma valid_utf8_append: "valid_utf8 s \<Longrightarrow> valid_utf8 t \<Longrightarrow> valid_utf8 (s @ t)"
proof (induction s rule: valid_utf8.induct)
  case (2 a s)
  note unfold = valid_utf8.simps(2) [of a s] valid_utf8.simps(2) [of a "s @ t"]
  show ?case
  proof (cases s)
    case Nil
    with 2 show ?thesis by (simp only: unfold append_Cons) (simp split: if_splits)
  next
    case (Cons b u)
    show ?thesis
    proof (cases u)
      case Nil
      with 2 Cons show ?thesis by (simp only: unfold append_Cons) (simp split: if_splits)
    next
      case (Cons c v)
      with 2 \<open>s = b # u\<close> show ?thesis
        using valid_utf8.simps(2) [of a "b # c # v"] valid_utf8.simps(2) [of a "b # c # v @ t"]
        by (cases v) (simp_all del: valid_utf8.simps(2) split: if_splits)
    qed
  qed
qed simp

declare valid_utf8.simps(2) [simp del]

lemma valid_utf8_ascii: "list_all (byte_in 0 0x7F) s \<Longrightarrow> valid_utf8 s"
  by (induction s) (auto simp: valid_utf8.simps)

section \<open>Lines and words\<close>

text \<open>\<open>s.lines()\<close>: a line ends with a line feed, which may follow a carriage return; an empty rest
  after the last line feed is no line.\<close>

definition strip_cr :: "string \<Rightarrow> string" where
  "strip_cr s = (if s \<noteq> [] \<and> last s = CHR 0x0D then butlast s else s)"

function str_lines :: "string \<Rightarrow> string list" where
  "str_lines s =
     (if s = [] then []
      else case dropWhile (\<lambda>c. c \<noteq> CHR 0x0A) s of
        [] \<Rightarrow> [s]
      | _ # rest \<Rightarrow> strip_cr (takeWhile (\<lambda>c. c \<noteq> CHR 0x0A) s) # str_lines rest)"
  by pat_completeness auto
termination
proof (relation "measure length")
  fix s rest :: string and c :: char
  assume "dropWhile (\<lambda>c. c \<noteq> CHR 0x0A) s = c # rest"
  then have "length (c # rest) \<le> length s" by (metis length_dropWhile_le)
  then show "(rest, s) \<in> measure length" by simp
qed simp

declare str_lines.simps [simp del]

fun str_join :: "string \<Rightarrow> string list \<Rightarrow> string" where
  "str_join sep [] = []"
| "str_join sep [x] = x"
| "str_join sep (x # y # zs) = x @ sep @ str_join sep (y # zs)"

definition trim_end_matches :: "(char \<Rightarrow> bool) \<Rightarrow> string \<Rightarrow> string" where
  "trim_end_matches P s = rev (dropWhile P (rev s))"

definition trim_matches :: "(char \<Rightarrow> bool) \<Rightarrow> string \<Rightarrow> string" where
  "trim_matches P s = trim_end_matches P (dropWhile P s)"

text \<open>\<open>s.split_whitespace()\<close>: the maximal runs of scalar values that are not white space.\<close>

function words_of :: "string list \<Rightarrow> string list" where
  "words_of gs = (case dropWhile is_whitespace gs of
      [] \<Rightarrow> []
    | g # rest \<Rightarrow> concat (g # takeWhile (\<lambda>x. \<not> is_whitespace x) rest)
        # words_of (dropWhile (\<lambda>x. \<not> is_whitespace x) rest))"
  by pat_completeness auto
termination
proof (relation "measure length")
  fix gs rest :: "string list" and g :: string
  assume "dropWhile is_whitespace gs = g # rest"
  then have "length (g # rest) \<le> length gs" by (metis length_dropWhile_le)
  moreover have "length (dropWhile (\<lambda>x. \<not> is_whitespace x) rest) \<le> length rest" by (rule length_dropWhile_le)
  ultimately show "(dropWhile (\<lambda>x. \<not> is_whitespace x) rest, gs) \<in> measure length" by simp
qed simp

declare words_of.simps [simp del]

definition split_whitespace :: "string \<Rightarrow> string list" where
  "split_whitespace s = words_of (chars s)"

definition replace_char :: "char \<Rightarrow> string \<Rightarrow> string \<Rightarrow> string" where
  "replace_char c t s = concat (map (\<lambda>x. if x = c then t else [x]) s)"

text \<open>\<open>s.split_once(c)\<close>\<close>

definition split_once :: "char \<Rightarrow> string \<Rightarrow> (string \<times> string) option" where
  "split_once c s = (case dropWhile (\<lambda>x. x \<noteq> c) s of [] \<Rightarrow> None | _ # rest \<Rightarrow> Some (takeWhile (\<lambda>x. x \<noteq> c) s, rest))"

definition ends_with :: "string \<Rightarrow> string \<Rightarrow> bool" where
  "ends_with s p \<longleftrightarrow> starts_with (rev s) (rev p)"

definition strip_suffix :: "string \<Rightarrow> string \<Rightarrow> string option" where
  "strip_suffix s p = (if ends_with s p then Some (take (length s - length p) s) else None)"

lemma str_lines_line:
  assumes "CHR 0x0A \<notin> set l"
  shows "str_lines (l @ CHR 0x0A # rest) = strip_cr l # str_lines rest"
proof -
  have "dropWhile (\<lambda>c. c \<noteq> CHR 0x0A) (l @ CHR 0x0A # rest) = CHR 0x0A # rest"
    "takeWhile (\<lambda>c. c \<noteq> CHR 0x0A) (l @ CHR 0x0A # rest) = l"
    using assms by (induction l) auto
  then show ?thesis by (subst str_lines.simps) simp
qed

lemma str_lines_last:
  assumes "CHR 0x0A \<notin> set l" and "l \<noteq> []"
  shows "str_lines l = [l]"
proof -
  have "dropWhile (\<lambda>c. c \<noteq> CHR 0x0A) l = []" using assms(1) by (induction l) auto
  with assms(2) show ?thesis by (subst str_lines.simps) (simp only: list.case if_False)
qed

lemma str_lines_Nil [simp]: "str_lines [] = []"
  by (simp add: str_lines.simps)

end
