(* ===== verification/Facade_Base.thy ===== *)
theory Facade_Base
  imports Json Web_Text
begin

text \<open>
  The responses of the HTTP facade (\<open>oar-http-facade/src/response.rs\<close>) and the identity that a
  handler works for. The body of a JSON response is the value that is printed.
\<close>

section \<open>Responses\<close>

datatype facade_body = JsonBody json | TextBody string

record facade_response =
  fr_status_code :: nat
  fr_content_type :: string
  fr_body :: facade_body

definition json_facade_response :: "nat \<Rightarrow> json \<Rightarrow> facade_response" where
  "json_facade_response status body =
     \<lparr>fr_status_code = status, fr_content_type = ''application/json'', fr_body = JsonBody body\<rparr>"

definition html_facade_response :: "nat \<Rightarrow> string \<Rightarrow> facade_response" where
  "html_facade_response status body =
     \<lparr>fr_status_code = status, fr_content_type = ''text/html; charset=utf-8'', fr_body = TextBody body\<rparr>"

definition sse_facade_response :: "string \<Rightarrow> facade_response" where
  "sse_facade_response body =
     \<lparr>fr_status_code = 200, fr_content_type = ''text/event-stream'', fr_body = TextBody body\<rparr>"

text \<open>Every error body has the same two members.\<close>

definition error_body :: "string \<Rightarrow> string \<Rightarrow> json" where
  "error_body error safe_message =
     JObject [(''error'', JString error), (''safe_message'', JString safe_message)]"

definition service_unavailable :: "string \<Rightarrow> string \<Rightarrow> facade_response" where
  "service_unavailable error safe_message = json_facade_response 503 (error_body error safe_message)"

definition unauthorized :: facade_response where
  "unauthorized = json_facade_response 401
     (error_body ''missing_oar_session'' ''A valid OAR session bearer token is required.'')"

definition invalid_oar_session :: facade_response where
  "invalid_oar_session = json_facade_response 401
     (error_body ''invalid_oar_session'' ''The OAR session is invalid or expired.'')"

definition not_found :: facade_response where
  "not_found = json_facade_response 404
     (error_body ''not_found'' ''No OAR backend route matched this request.'')"

definition escape_html :: "string \<Rightarrow> string" where
  "escape_html value =
     replace_char (CHR 0x27) ''&#39;''
       (replace_char (CHR 0x22) ''&quot;''
         (replace_char (CHR ''>'') ''&gt;''
           (replace_char (CHR ''<'') ''&lt;''
             (replace_char (CHR ''&'') ''&amp;'' value))))"

definition callback_html :: "nat \<Rightarrow> string \<Rightarrow> string \<Rightarrow> facade_response" where
  "callback_html status title message = html_facade_response status
     (''<!doctype html><html lang=\"zh-CN\"><meta charset=\"utf-8\"><title>'' @ escape_html title @
      ''</title><body style=\"font-family:-apple-system,BlinkMacSystemFont,'' @ [CHR 0x27] @ ''Segoe UI'' @ [CHR 0x27] @
      '',sans-serif;margin:0;display:grid;place-items:center;min-height:100vh;background:#f6f7f8;color:#202124\"><main style=\"max-width:520px;padding:32px\"><h1 style=\"font-size:22px;margin:0 0 12px\">'' @
      escape_html title @ ''</h1><p style=\"font-size:15px;line-height:1.6;margin:0;color:#5f6368\">'' @
      escape_html message @ ''</p></main></body></html>'')"

section \<open>The identity of a request\<close>

record authenticated_context =
  au_session_id :: string
  au_tenant_id :: string
  au_user_id :: string

section \<open>No markup\<close>

lemma set_replace_char:
  "x \<in> set (replace_char c t s) \<Longrightarrow> x \<noteq> c \<and> x \<in> set s \<or> x \<in> set t"
  by (auto simp: replace_char_def split: if_splits)

lemma escape_html_safe:
  assumes "x \<in> set (escape_html s)"
  shows "x \<notin> {CHR ''<'', CHR ''>'', CHR 0x22, CHR 0x27}"
proof -
  have "x \<noteq> CHR 0x27" using assms unfolding escape_html_def by (auto dest!: set_replace_char)
  moreover have "x \<noteq> CHR 0x22" using assms unfolding escape_html_def by (auto dest!: set_replace_char)
  moreover have "x \<noteq> CHR ''>''" using assms unfolding escape_html_def by (auto dest!: set_replace_char)
  moreover have "x \<noteq> CHR ''<''" using assms unfolding escape_html_def by (auto dest!: set_replace_char)
  ultimately show ?thesis by simp
qed

end
