(* ===== verification/Review_Route.thy ===== *)
theory Review_Route
  imports Review_Store Execution_Queue Facade_Base
begin

text \<open>
  The route that records a review decision (\<open>oar-http-facade/src/review_inbox_routes/decision.rs\<close>
  with its submodules, \<open>labels.rs\<close> and the answers of \<open>response.rs\<close>): the checks on the request,
  the stored context it is decided against, the domain operations that turn the decision into a
  confirmed action and a closed inbox item, and the call of the recorder. A response body is kept as
  the JSON value that is printed. On success the handler answers with a new snapshot of the inbox;
  that answer is \<open>AnswerSnapshot\<close> here.
\<close>

section \<open>Responses\<close>

definition REVIEW_DECISION_CHANGED_MESSAGE :: string where
  "REVIEW_DECISION_CHANGED_MESSAGE = ''The review inbox item changed; refresh before retrying.''"

definition review_decision_conflict :: "string \<Rightarrow> facade_response" where
  "review_decision_conflict safe_message =
     json_facade_response 409 (error_body ''review_decision_conflict'' safe_message)"

definition review_decision_action_unsupported :: facade_response where
  "review_decision_action_unsupported =
     json_facade_response 422 (error_body ''review_decision_action_unsupported''
       ''The requested review action cannot be decided.'')"

datatype decision_answer = AnswerWith facade_response | AnswerSnapshot

section \<open>The request\<close>

datatype review_decision_kind_dto = DtoConfirm | DtoEditThenConfirm | DtoReject

record review_decision_request_dto =
  dq_action_id :: string
  dq_action_version :: u64
  dq_decision :: review_decision_kind_dto
  dq_note :: string
  dq_expected_sync_cursor :: "u64 option"
  dq_edited_payload :: "json option"

definition decode_review_decision_request ::
  "('b \<Rightarrow> review_decision_request_dto option) \<Rightarrow> 'b \<Rightarrow> (review_decision_request_dto, facade_response) result" where
  "decode_review_decision_request from_slice body = (case from_slice body of
      None \<Rightarrow> Err (json_facade_response 400 (error_body ''review_decision_invalid_json''
        ''Review decision request body must be valid JSON.''))
    | Some request \<Rightarrow>
        if trim (dq_action_id request) = [] \<or> dq_action_version request = 0 \<or> 320 < length (chars (dq_note request))
        then Err (json_facade_response 400 (error_body ''review_decision_invalid_request''
          ''Review decision request is invalid.''))
        else Ok request)"

fun review_decision_kind :: "review_decision_kind_dto \<Rightarrow> string" where
  "review_decision_kind DtoConfirm = ''confirm''"
| "review_decision_kind DtoEditThenConfirm = ''edit_then_confirm''"
| "review_decision_kind DtoReject = ''reject''"

fun action_status_label :: "action_status \<Rightarrow> string" where
  "action_status_label Proposed = ''proposed''"
| "action_status_label Confirmed = ''confirmed''"
| "action_status_label Executing = ''executing''"
| "action_status_label Succeeded = ''succeeded''"
| "action_status_label Failed = ''failed''"
| "action_status_label Cancelled = ''cancelled''"

section \<open>From the store to the domain and back\<close>

definition proposed_action_from_stored ::
  "stored_review_inbox_action \<Rightarrow> (json proposed_action, proposed_action_error) result" where
  "proposed_action_from_stored action =
     try_then (draft_action (ProposedActionId (sx_id action)) (TenantId (sx_tenant_id action))
       (WorkspaceUserId (sx_actor_user_id action)) (map_option WorkspaceUserId (sx_target_user_id action))
       (map_option WorkspaceUserId (sx_owner_user_id action)) (sx_version action) (sx_kind action)
       (sx_risk_severity action) (sx_evidence_ids action) (sx_suggested_payload action)) (\<lambda>proposed.
     let (published, proposed) = publish proposed in
     try_then published (\<lambda>_. Ok proposed))"

definition review_inbox_item_from_stored :: "stored_review_inbox_item \<Rightarrow> system_time \<Rightarrow> review_inbox_item" where
  "review_inbox_item_from_stored item updated_at =
     \<lparr>ri_id = ReviewInboxItemId (si_id item), ri_tenant_id = TenantId (si_tenant_id item),
      ri_user_id = WorkspaceUserId (si_user_id item), ri_proposed_action_id = si_proposed_action_id item,
      ri_proposed_action_version = si_proposed_action_version item, ri_risk_score = si_risk_score item,
      ri_priority = si_priority item, ri_status = si_status item, ri_sort_key = si_sort_key item,
      ri_sync_cursor = si_sync_cursor_value item, ri_updated_at = updated_at,
      ri_ledger_status = map_option action_status_label (si_ledger_status item),
      ri_operation_id = si_operation_id item\<rparr>"

definition operation_id_for :: "confirmed_action \<Rightarrow> string" where
  "operation_id_for action = ''op-'' @ ca_idempotency_key action"

fun is_confirmable_action_kind :: "proposed_action_kind \<Rightarrow> bool" where
  "is_confirmable_action_kind UpdateKrProgress = True"
| "is_confirmable_action_kind _ = False"

definition decision_id :: "string \<Rightarrow> u64 \<Rightarrow> review_decision_kind_dto \<Rightarrow> string" where
  "decision_id action_id version decision =
     ''decision:'' @ action_id @ '':v'' @ show_u64 version @ '':'' @ review_decision_kind decision"

definition decision_audit_event ::
  "authenticated_context \<Rightarrow> review_decision_request_dto \<Rightarrow> string \<Rightarrow> u64 \<Rightarrow> audit_event" where
  "decision_audit_event context request did occurred_at_ms =
     (let trace_id = ''review-decision:'' @ did in
      proposed_action_decision_event
        \<lparr>ac_event_id = ''audit:'' @ did, ac_trace_id = trace_id, ac_sequence = 1,
         ac_occurred_at_ms = occurred_at_ms, ac_subject =
           \<lparr>asb_actor = \<lparr>aa_kind = AuditUser, aa_actor_id = au_user_id context, aa_display_name = None\<rparr>,
            asb_scope = \<lparr>as_tenant_id = au_tenant_id context, as_workspace_id = None\<rparr>,
            asb_target = \<lparr>at_resource_type = ''proposed_action'', at_resource_id = dq_action_id request,
              at_action_type = review_decision_kind (dq_decision request)\<rparr>\<rparr>\<rparr>
        \<lparr>ss_summary = ''review decision '' @ review_decision_kind (dq_decision request) @ '' recorded'',
         ss_reference_ids = [dq_action_id request, did], ss_content_hash = None\<rparr>)"

definition decision_audit_outbox ::
  "authenticated_context \<Rightarrow> audit_event \<Rightarrow> u64 \<Rightarrow> audit_outbox_envelope" where
  "decision_audit_outbox context event next_attempt_at_ms =
     \<lparr>ov_tenant_id = au_tenant_id context, ov_stream = ''audit-events'', ov_aggregate_id = ae_trace_id event,
      ov_payload = JObject [(''event_id'', JString (ae_event_id event)),
        (''trace_id'', JString (ae_trace_id event)),
        (''event_type'', JString ''ProposedActionDecisionRecorded''),
        (''tenant_id'', JString (au_tenant_id context)),
        (''sequence'', JNumber (PosInt (ae_sequence event)))],
      ov_next_attempt_at_ms = next_attempt_at_ms\<rparr>"

section \<open>The handler\<close>

definition decision_of_request ::
  "review_decision_request_dto \<Rightarrow> stored_review_inbox_action \<Rightarrow> json proposed_action_decision" where
  "decision_of_request request action = (case dq_decision request of
      DtoConfirm \<Rightarrow> Confirm
    | DtoEditThenConfirm \<Rightarrow> EditThenConfirm
        (case dq_edited_payload request of Some payload \<Rightarrow> payload | None \<Rightarrow> sx_suggested_payload action)
    | DtoReject \<Rightarrow> Reject)"

definition decided_inbox_item ::
  "stored_review_inbox_item \<Rightarrow> confirmed_action option \<Rightarrow> system_time
     \<Rightarrow> (unit, review_inbox_error) result \<times> review_inbox_item" where
  "decided_inbox_item item confirmed_action now =
     (let next_cursor = saturating_add (si_sync_cursor_value item) 1;
          inbox_item = review_inbox_item_from_stored item now
      in case confirmed_action of
           Some action \<Rightarrow> try_st (inbox_confirm inbox_item next_cursor now) (\<lambda>_ inbox_item.
             (Ok (), inbox_item\<lparr>ri_ledger_status := Some ''confirmed'', ri_operation_id := Some (operation_id_for action)\<rparr>))
         | None \<Rightarrow> inbox_reject inbox_item next_cursor now)"

text \<open>The checks against the stored state, up to the domain decision.\<close>

definition decide_stored ::
  "review_decision_request_dto \<Rightarrow> stored_review_decision_context \<Rightarrow> system_time
     \<Rightarrow> (json proposed_action_decision \<times> confirmed_action option \<times> review_inbox_item, facade_response) result" where
  "decide_stored request decision_context now =
     (let item = sc_item decision_context; action = sc_action decision_context in
      if inbox_is_terminal (si_status item) \<or> si_status item \<noteq> InboxOpen
      then Err (json_facade_response 422 (error_body ''review_decision_item_not_open''
        ''The requested review item is no longer open.''))
      else if sx_decision action \<noteq> None
      then Err (review_decision_conflict ''The requested review action already has a decision.'')
      else if sx_status action \<noteq> Published then Err review_decision_action_unsupported
      else if dq_decision request \<in> {DtoConfirm, DtoEditThenConfirm} \<and> \<not> is_confirmable_action_kind (sx_kind action)
      then Err review_decision_action_unsupported
      else let decision = decision_of_request request action in
        case proposed_action_from_stored action of
          Inl _ \<Rightarrow> Err review_decision_action_unsupported
        | Inr proposed_action \<Rightarrow>
            (case fst (decide proposed_action decision now) of
               Inl _ \<Rightarrow> Err review_decision_action_unsupported
             | Inr confirmed_action \<Rightarrow>
                 (case decided_inbox_item item confirmed_action now of
                    (Inl _, _) \<Rightarrow> Err (review_decision_conflict REVIEW_DECISION_CHANGED_MESSAGE)
                  | (Inr _, inbox_item) \<Rightarrow> Ok (decision, confirmed_action, inbox_item))))"

definition recorder_request ::
  "authenticated_context \<Rightarrow> review_decision_request_dto \<Rightarrow> u64 \<Rightarrow> system_time \<Rightarrow> u64
     \<Rightarrow> json proposed_action_decision \<times> confirmed_action option \<times> review_inbox_item
     \<Rightarrow> postgres_review_decision_recorder_request" where
  "recorder_request context request expected_sync_cursor_value now decided_at_ms decided =
     (case decided of (decision, confirmed_action, inbox_item) \<Rightarrow>
      let did = decision_id (dq_action_id request) (dq_action_version request) (dq_decision request);
          event = decision_audit_event context request did decided_at_ms
      in \<lparr>rd_expected_sync_cursor_value = expected_sync_cursor_value,
          rd_decision = \<lparr>id_id = did, id_tenant_id = au_tenant_id context,
            id_proposed_action_id = dq_action_id request, id_proposed_action_version = dq_action_version request,
            id_actor_user_id = au_user_id context, id_decision = decision,
            id_confirmed_action_id = map_option ca_action_id confirmed_action, id_decided_at = now\<rparr>,
          rd_confirmed_action = confirmed_action,
          rd_confirmed_at_ms = map_option (\<lambda>_. decided_at_ms) confirmed_action,
          rd_operation_id = map_option operation_id_for confirmed_action,
          rd_inbox_item = inbox_item, rd_event = event,
          rd_outbox = decision_audit_outbox context event decided_at_ms\<rparr>)"

definition decision_record_failure :: "postgres_repository_error \<Rightarrow> facade_response" where
  "decision_record_failure error =
     (if postgres_repository_safe_error_reason error = ''review_decision_request_mismatch''
      then review_decision_conflict REVIEW_DECISION_CHANGED_MESSAGE
      else service_unavailable ''review_decision_record_failed'' ''Review decision could not be recorded.'')"

text \<open>
  \<open>persistence\<close>: whether the runtime has a database; \<open>now\<close> and \<open>db_now\<close>: the two clocks; \<open>others\<close>:
  what other requests commit between the read of the context and the recorder's transaction.
\<close>

definition record_decision_for_context ::
  "(int \<Rightarrow> timestamptz option) \<Rightarrow> (string \<Rightarrow> 'k::linorder) \<Rightarrow> audit_json \<Rightarrow> bool \<Rightarrow> system_time \<Rightarrow> timestamptz
     \<Rightarrow> (execution_db \<Rightarrow> execution_db) \<Rightarrow> execution_db \<Rightarrow> authenticated_context \<Rightarrow> review_decision_request_dto
     \<Rightarrow> decision_answer \<times> execution_db" where
  "record_decision_for_context to_ts collate J persistence now db_now others db context request =
     (if \<not> persistence
      then (AnswerWith (service_unavailable ''review_decision_store_unavailable''
        ''Review decision storage is temporarily unavailable.''), db)
      else case dq_expected_sync_cursor request of
        None \<Rightarrow> (AnswerWith (json_facade_response 400 (error_body ''review_decision_missing_sync_cursor''
          ''Review decision requires the expected sync cursor.'')), db)
      | Some expected_sync_cursor_value \<Rightarrow>
         (case load_review_decision_context collate db \<lparr>rc_tenant_id = au_tenant_id context,
             rc_user_id = au_user_id context, rc_proposed_action_id = dq_action_id request,
             rc_proposed_action_version = dq_action_version request,
             rc_expected_sync_cursor_value = expected_sync_cursor_value\<rparr> of
            Inl _ \<Rightarrow> (AnswerWith (service_unavailable ''review_decision_state_unavailable''
              ''Review decision state is temporarily unavailable.''), db)
          | Inr None \<Rightarrow> (AnswerWith (review_decision_conflict REVIEW_DECISION_CHANGED_MESSAGE), db)
          | Inr (Some decision_context) \<Rightarrow>
             (case decide_stored request decision_context now of
                Inl response \<Rightarrow> (AnswerWith response, db)
              | Inr decided \<Rightarrow>
                 (case millis_since_epoch now of
                    None \<Rightarrow> (AnswerWith (service_unavailable ''review_decision_clock_unavailable''
                      ''Review decision storage is temporarily unavailable.''), db)
                  | Some decided_at_ms \<Rightarrow>
                     (case record_decision to_ts J db_now (others db) (recorder_request context request
                         expected_sync_cursor_value now decided_at_ms decided) of
                        (Inr _, db) \<Rightarrow> (AnswerSnapshot, db)
                      | (Inl error, db) \<Rightarrow> (AnswerWith (decision_record_failure error), db))))))"

section \<open>Answers\<close>

text \<open>Every error the route can answer with: its status and its fixed texts.\<close>

definition decision_errors :: "facade_response list" where
  "decision_errors =
    [service_unavailable ''review_decision_store_unavailable'' ''Review decision storage is temporarily unavailable.'',
     json_facade_response 400 (error_body ''review_decision_missing_sync_cursor'' ''Review decision requires the expected sync cursor.''),
     service_unavailable ''review_decision_state_unavailable'' ''Review decision state is temporarily unavailable.'',
     review_decision_conflict REVIEW_DECISION_CHANGED_MESSAGE,
     json_facade_response 422 (error_body ''review_decision_item_not_open'' ''The requested review item is no longer open.''),
     review_decision_conflict ''The requested review action already has a decision.'',
     review_decision_action_unsupported,
     service_unavailable ''review_decision_clock_unavailable'' ''Review decision storage is temporarily unavailable.'',
     service_unavailable ''review_decision_record_failed'' ''Review decision could not be recorded.'']"

lemma decide_stored_errors: "decide_stored request c now = Inl response \<Longrightarrow> response \<in> set decision_errors"
  by (auto simp: decide_stored_def decision_errors_def Let_def split: if_splits sum.splits prod.splits)

lemma record_failure_known: "decision_record_failure e \<in> set decision_errors"
  by (simp add: decision_record_failure_def decision_errors_def)

lemma record_decision_Err: "record_decision to_ts J db_now db request = (Inl e, db') \<Longrightarrow> db' = db"
  by (cases "validate_review_decision_request request") (auto simp: record_decision_def dest: in_tx_Err)

lemma route_recordedE:
  assumes "record_decision_for_context to_ts collate J persistence now db_now others db context request = (AnswerSnapshot, db')"
  obtains cursor c decided ms rep where "dq_expected_sync_cursor request = Some cursor"
    and "load_review_decision_context collate db \<lparr>rc_tenant_id = au_tenant_id context, rc_user_id = au_user_id context,
      rc_proposed_action_id = dq_action_id request, rc_proposed_action_version = dq_action_version request,
      rc_expected_sync_cursor_value = cursor\<rparr> = Inr (Some c)"
    and "decide_stored request c now = Inr decided" and "millis_since_epoch now = Some ms"
    and "record_decision to_ts J db_now (others db) (recorder_request context request cursor now ms decided) = (Inr rep, db')"
  using assms
  by (auto simp: record_decision_for_context_def split: if_splits option.splits sum.splits prod.splits)

lemma decide_stored_OkE:
  assumes "decide_stored request c now = Inr decided"
  obtains pa confirmed it where "decided = (decision_of_request request (sc_action c), confirmed, it)"
    and "si_status (sc_item c) = InboxOpen" and "sx_decision (sc_action c) = None" and "sx_status (sc_action c) = Published"
    and "dq_decision request = DtoReject \<or> sx_kind (sc_action c) = UpdateKrProgress"
    and "proposed_action_from_stored (sc_action c) = Inr pa"
    and "fst (decide pa (decision_of_request request (sc_action c)) now) = Inr confirmed"
    and "decided_inbox_item (sc_item c) confirmed now = (Inr (), it)"
proof -
  have kind: "dq_decision request = DtoReject \<or> sx_kind (sc_action c) = UpdateKrProgress"
    using assms by (cases "dq_decision request"; cases "sx_kind (sc_action c)")
      (auto simp: decide_stored_def Let_def split: if_splits)
  from assms kind that show thesis
    by (auto simp: decide_stored_def Let_def split: if_splits sum.splits prod.splits)
qed

lemma decision_of_request_db:
  "proposed_action_decision_to_db (decision_of_request request action) = (review_decision_kind (dq_decision request),
     case dq_decision request of DtoEditThenConfirm \<Rightarrow>
       Some (case dq_edited_payload request of Some payload \<Rightarrow> payload | None \<Rightarrow> sx_suggested_payload action) | _ \<Rightarrow> None)"
  by (cases "dq_decision request") (simp_all add: decision_of_request_def)

lemma recorder_request_fields [simp]:
  "id_tenant_id (rd_decision (recorder_request context request cursor now ms d)) = au_tenant_id context"
  "id_proposed_action_id (rd_decision (recorder_request context request cursor now ms d)) = dq_action_id request"
  "id_proposed_action_version (rd_decision (recorder_request context request cursor now ms d)) = dq_action_version request"
  "id_actor_user_id (rd_decision (recorder_request context request cursor now ms d)) = au_user_id context"
  "id_id (rd_decision (recorder_request context request cursor now ms d)) =
     decision_id (dq_action_id request) (dq_action_version request) (dq_decision request)"
  "id_decision (rd_decision (recorder_request context request cursor now ms d)) = fst d"
  "rd_confirmed_action (recorder_request context request cursor now ms d) = fst (snd d)"
  by (cases d; simp add: recorder_request_def Let_def)+

lemma recorded_decision_row:
  assumes "record_decision to_ts J db_now db request = (Inr rep, db')"
  shows "\<exists>d \<in> set (xd_decisions db'). decision_key d = (id_tenant_id (rd_decision request), id_proposed_action_id (rd_decision request),
      u64_as_i64 (id_proposed_action_version (rd_decision request))) \<and> xn_actor_user_id d = id_actor_user_id (rd_decision request) \<and>
      (xn_decision d, xn_edited_payload d) = proposed_action_decision_to_db (id_decision (rd_decision request))"
  using assms
proof (cases rule: record_decision_OkE)
  case duplicate
  then obtain d where stored: "LOAD_PROPOSED_ACTION_DECISION_FOR_RECORDER db (id_tenant_id (rd_decision request)) (id_proposed_action_id (rd_decision request))
      (u64_as_i64 (id_proposed_action_version (rd_decision request))) = Some d"
    and fields: "xn_actor_user_id d = id_actor_user_id (rd_decision request)"
      "(xn_decision d, xn_edited_payload d) = proposed_action_decision_to_db (id_decision (rd_decision request))"
    by (auto simp: existing_decision_matches_def Let_def split: option.splits prod.splits)
  from find_SomeD [OF stored [unfolded LOAD_PROPOSED_ACTION_DECISION_FOR_RECORDER_def]] fields
  show ?thesis by (intro bexI [of _ d]) (simp_all add: duplicate(4))
next
  case (fresh d db2 db3 i db4 row m)
  from submit_decided_tables [OF fresh(7)] decision_update_OkE [OF fresh(8)]
  have "xd_decisions db' = xd_decisions db @ [d]" unfolding fresh(11,12) by (auto simp: other_tables_def)
  with decision_query_row [OF fresh(3)] show ?thesis by (intro bexI [of _ d]) simp_all
qed

lemma decision_errors_known:
  "service_unavailable ''review_decision_store_unavailable'' ''Review decision storage is temporarily unavailable.'' \<in> set decision_errors"
  "json_facade_response 400 (error_body ''review_decision_missing_sync_cursor'' ''Review decision requires the expected sync cursor.'') \<in> set decision_errors"
  "service_unavailable ''review_decision_state_unavailable'' ''Review decision state is temporarily unavailable.'' \<in> set decision_errors"
  "review_decision_conflict REVIEW_DECISION_CHANGED_MESSAGE \<in> set decision_errors"
  "service_unavailable ''review_decision_clock_unavailable'' ''Review decision storage is temporarily unavailable.'' \<in> set decision_errors"
  by (simp_all add: decision_errors_def)

lemma route_errorE:
  assumes "record_decision_for_context to_ts collate J persistence now db_now others db context request = (AnswerWith response, db')"
  shows "response \<in> set decision_errors \<and> (db' = db \<or> db' = others db)"
proof (cases "persistence \<and> dq_expected_sync_cursor request \<noteq> None")
  case False
  with assms show ?thesis
    by (cases persistence; cases "dq_expected_sync_cursor request")
      (auto simp: record_decision_for_context_def decision_errors_known)
next
  case True
  then obtain cursor where cursor: "dq_expected_sync_cursor request = Some cursor" by auto
  note run = assms [unfolded record_decision_for_context_def cursor option.case]
  let ?load = "load_review_decision_context collate db \<lparr>rc_tenant_id = au_tenant_id context, rc_user_id = au_user_id context,
      rc_proposed_action_id = dq_action_id request, rc_proposed_action_version = dq_action_version request,
      rc_expected_sync_cursor_value = cursor\<rparr>"
  show ?thesis
  proof (cases "\<exists>c decided ms. ?load = Inr (Some c) \<and> decide_stored request c now = Inr decided \<and> millis_since_epoch now = Some ms")
    case False
    with run True show ?thesis
      by (cases ?load; cases "projr ?load"; cases "decide_stored request (the (projr ?load)) now"; cases "millis_since_epoch now")
        (auto simp: decision_errors_known dest: decide_stored_errors)
  next
    case True
    then obtain c decided ms where steps: "?load = Inr (Some c)" "decide_stored request c now = Inr decided" "millis_since_epoch now = Some ms"
      by blast
    obtain r db1 where rec: "record_decision to_ts J db_now (others db) (recorder_request context request cursor now ms decided) = (r, db1)"
      by fastforce
    with run steps \<open>persistence \<and> _\<close> obtain e where "r = Inl e" "response = decision_record_failure e" "db' = db1"
      by (cases r) auto
    with rec show ?thesis by (auto simp: record_failure_known dest: record_decision_Err)
  qed
qed


section \<open>From the decision to the execution queue\<close>

lemma ledger_ok_review_call: "ledger_ok db \<Longrightarrow> ledger_ok (review_apply to_ts J c db)"
proof -
  assume ok: "ledger_ok db"
  let ?f = "\<lambda>db. (xd_operations db, xd_actions db)"
  have same: "ledger_ok db'" if "?f db' = ?f db" for db' using ok that ledger_tables_only(1) [of db' db] by simp
  have ins: "?f (snd (insert_proposed_action_decision_in_tx to_ts db request)) = ?f db" for request
    unfolding insert_proposed_action_decision_in_tx_def
    by (rule try_st_keeps [where f = ?f], simp, rule try_st_keeps [where f = ?f])
      (auto simp: INSERT_PROPOSED_ACTION_DECISION_def exec_sql_def)
  have item: "?f (snd (try_st (upsert_review_inbox_item_query to_ts it, db)
       (\<lambda>row db. exec_sql db (UPSERT_REVIEW_INBOX_ITEM db row)))) = ?f db" for it
    by (rule try_st_keeps [where f = ?f])
      (auto simp: UPSERT_REVIEW_INBOX_ITEM_def exec_sql_def Let_def split: option.splits sum.splits if_splits)
  show ?thesis
  proof (cases c)
    case (StoreEvidence tenant it)
    have "?f (snd (insert_evidence_item to_ts db tenant it)) = ?f db"
      unfolding insert_evidence_item_def
      by (rule try_st_keeps [where f = ?f], simp, rule try_st_keeps [where f = ?f])
        (auto simp: INSERT_EVIDENCE_ITEM_def exec_sql_def)
    with StoreEvidence same show ?thesis by simp
  next
    case (StoreProposal pa published)
    have "?f (snd (insert_proposed_action to_ts db pa published)) = ?f db"
      unfolding insert_proposed_action_def Let_def case_prod_beta
      by (rule try_st_keeps [where f = ?f], simp, rule try_st_keeps [where f = ?f])
        (auto simp: INSERT_PROPOSED_ACTION_def exec_sql_def)
    with StoreProposal same show ?thesis by simp
  next
    case (StoreEvidenceRef tenant pa version ev)
    then show ?thesis
      by (auto intro!: same simp: insert_proposed_action_evidence_ref_def INSERT_PROPOSED_ACTION_EVIDENCE_REF_def exec_sql_def)
  next
    case (StoreDecision request)
    with ins [of request] in_tx_commit_cases [of db "insert_proposed_action_decision_in_tx to_ts db request"] same ok show ?thesis
      by (auto simp: insert_proposed_action_decision_def)
  next
    case (StoreItem it)
    with item [of it] same ok in_tx_commit_cases [of db "try_st (upsert_review_inbox_item_query to_ts it, db)
       (\<lambda>row db. exec_sql db (UPSERT_REVIEW_INBOX_ITEM db row))"] show ?thesis
      by (auto simp: upsert_review_inbox_item_def)
  next
    case (RecordDecision db_now request)
    with ledger_ok_record_decision [OF ok] show ?thesis by simp
  next
    case (CallLedger call)
    with pg_ledger_apply_moves [OF ok] show ?thesis by simp
  qed
qed

lemma ledger_ok_review_calls: "ledger_ok db \<Longrightarrow> ledger_ok (fold (review_apply to_ts J) cs db)"
  by (induction cs arbitrary: db) (simp_all add: ledger_ok_review_call)

text \<open>The rows of a submission that finds the ledger without the key.\<close>

lemma submit_createdE:
  assumes "ledger_ok db" and "pg_submit_confirmed_action to_ts db_now db a ms oid = (Inr s, db')"
    and "pg_view (ca_tenant_id a) db (ca_idempotency_key a) = None"
  obtains arow orow where "arow \<in> set (xd_actions db')" and "orow \<in> set (xd_operations db')"
    and "xa_tenant_id arow = ca_tenant_id a" and "xa_action_id arow = ca_action_id a" and "xa_actor_user_id arow = ca_actor_user_id a"
    and "xa_idempotency_key arow = ca_idempotency_key a" and "xa_status arow = ''confirmed''"
    and "xo_tenant_id orow = ca_tenant_id a" and "xo_action_id orow = ca_action_id a"
    and "xo_idempotency_key orow = ca_idempotency_key a" and "xo_status orow = ''confirmed''"
proof -
  let ?t = "ca_tenant_id a" and ?k = "ca_idempotency_key a"
  have none: "GET_BY_IDEMPOTENCY_KEY db ?t ?k = None"
  proof (cases "GET_BY_IDEMPOTENCY_KEY db ?t ?k")
    case (Some r)
    with known_row [OF assms(1) Some] assms(3) show ?thesis by (auto simp: pg_view_def record_of_row_def)
  qed simp
  let ?stmt = "SUBMIT_CONFIRMED_ACTION_AND_LEDGER to_ts db_now db (ca_action_id a) ?t (ca_actor_user_id a) ?k (u64_as_i64 ms) oid"
  from assms(2) obtain row created where stmt: "?stmt = Inr ((row, created), db')"
    by (cases ?stmt; cases "fst (projr ?stmt)")
      (auto simp: pg_submit_confirmed_action_def submit_confirmed_action_with_executor_def split: if_splits)
  let ?arow = "\<lambda>at. \<lparr>xa_action_id = ca_action_id a, xa_tenant_id = ?t, xa_actor_user_id = ca_actor_user_id a,
    xa_idempotency_key = ?k, xa_status = ''confirmed'', xa_confirmed_at = Some at\<rparr>"
  let ?orow = "\<lparr>xo_operation_id = oid, xo_tenant_id = ?t, xo_action_id = ca_action_id a, xo_idempotency_key = ?k,
    xo_status = ''confirmed'', xo_last_error = None, xo_executing_at = None, xo_finished_at = None,
    xo_created_at = db_now, xo_updated_at = db_now\<rparr>"
  from stmt none no_action_without_operation [OF assms(1) none]
  have "\<exists>at. db' = db\<lparr>xd_actions := xd_actions db @ [?arow at], xd_operations := xd_operations db @ [?orow]\<rparr>"
    by (auto simp: SUBMIT_CONFIRMED_ACTION_AND_LEDGER_def try_then_Ok_iff Let_def GET_BY_IDEMPOTENCY_KEY_def split: if_splits)
  then obtain at where "db' = db\<lparr>xd_actions := xd_actions db @ [?arow at], xd_operations := xd_operations db @ [?orow]\<rparr>" ..
  with that [of "?arow at" ?orow] show thesis by simp
qed

lemma load_contextE:
  assumes "load_review_decision_context collate db q = Inr (Some c)"
  obtains p where "p \<in> set (xd_proposals db)"
    and "proposal_key p = (rc_tenant_id q, rc_proposed_action_id q, u64_as_i64 (rc_proposed_action_version q))"
    and "sx_id (sc_action c) = xp_id p" and "sx_tenant_id (sc_action c) = xp_tenant_id p"
    and "sx_actor_user_id (sc_action c) = xp_actor_user_id p" and "sx_version (sc_action c) = rc_proposed_action_version q"
    and "proposed_action_status_from_db (xp_status p) = Inr (sx_status (sc_action c))"
    and "proposed_action_kind_from_db (xp_kind p) (xp_custom_kind p) = Inr (sx_kind (sc_action c))"
    and "sx_suggested_payload (sc_action c) = xp_suggested_payload p"
proof -
  let ?items = "filter (decided_item (rc_tenant_id q) (rc_user_id q) (rc_proposed_action_id q)
    (u64_as_i64 (rc_proposed_action_version q)) (u64_as_i64 (rc_expected_sync_cursor_value q))) (xd_inbox db)"
  from assms obtain row rest where rows: "review_actions_of collate db ?items = row # rest"
      and action: "stored_review_inbox_action_from_row row = Inr (sc_action c)"
    by (auto simp: load_review_decision_context_def LOAD_REVIEW_DECISION_ACTION_def Let_def try_then_Ok_iff
        split: option.splits list.splits)
  then have "row \<in> set (review_actions_of collate db ?items)" by simp
  then obtain p where p: "p \<in> set (xd_proposals db)" "jr_proposal row = p"
      "proposal_key p = (rc_tenant_id q, rc_proposed_action_id q, u64_as_i64 (rc_proposed_action_version q))"
    by (auto simp: review_actions_of_def proposals_of_item_def decided_item_def proposal_key_def)
  from p(3) have "word_of_int (xp_version p) = rc_proposed_action_version q"
    by (simp add: proposal_key_def u64_as_i64_def)
  with action p that [of p] show thesis
    by (auto simp: stored_review_inbox_action_from_row_def Let_def try_then_Ok_iff non_negative_i64_to_u64_def
        split: if_splits dest!: sym [of _ "sc_action c"])
qed

lemma in_concat_filterI: "x \<in> set xs \<Longrightarrow> P x \<Longrightarrow> y \<in> set (f x) \<Longrightarrow> y \<in> set (concat (map f (filter P xs)))"
  by auto

lemma ready_joinsI:
  assumes "orow \<in> set (xd_operations db)" and "arow \<in> set (xd_actions db)" and "d \<in> set (xd_decisions db)" and "p \<in> set (xd_proposals db)"
    and "xo_tenant_id orow = tenant" and "xo_status orow = ''confirmed''"
    and "xa_tenant_id arow = xo_tenant_id orow" and "xa_action_id arow = xo_action_id orow"
    and "xa_idempotency_key arow = xo_idempotency_key orow" and "xa_status arow = ''confirmed''"
    and "xn_tenant_id d = xa_tenant_id arow" and "xn_confirmed_action_id d = Some (xa_action_id arow)"
    and "xn_decision d \<in> {''confirm'', ''edit_then_confirm''}"
    and "xp_tenant_id p = xn_tenant_id d" and "xp_id p = xn_proposed_action_id d" and "xp_version p = xn_proposed_action_version d"
  shows "\<lparr>rq_action = arow, rq_operation = orow, rq_decision = d, rq_proposal = p, rq_evidence_ids = evidence_ids_of collate db p\<rparr>
    \<in> set (ready_joins collate db tenant)"
  unfolding ready_joins_def
  by (rule in_concat_filterI [of orow], use assms in simp, use assms in simp,
      rule in_concat_filterI [of arow], use assms in simp, use assms in simp,
      rule in_concat_filterI [of d], use assms in simp, use assms in simp)
    (use assms in simp)

lemma recorded_decision_ready:
  fixes collate :: "string \<Rightarrow> 'k::linorder"
  assumes "ledger_ok db" and "record_decision to_ts J db_now db request = (Inr rep, db')" and "\<not> rr_duplicate rep"
    and a: "rd_confirmed_action request = Some a" and "pg_view (ca_tenant_id a) db (ca_idempotency_key a) = None"
    and p: "p \<in> set (xd_proposals db)" "proposal_key p = (id_tenant_id (rd_decision request), id_proposed_action_id (rd_decision request),
      u64_as_i64 (id_proposed_action_version (rd_decision request)))"
  shows "\<exists>row \<in> set (ready_joins collate db' (ca_tenant_id a)). rq_proposal row = p \<and>
    xa_actor_user_id (rq_action row) = ca_actor_user_id a \<and> xa_tenant_id (rq_action row) = ca_tenant_id a \<and>
    xa_idempotency_key (rq_action row) = ca_idempotency_key a \<and>
    (xn_decision (rq_decision row), xn_edited_payload (rq_decision row)) = proposed_action_decision_to_db (id_decision (rd_decision request))"
  using assms(2)
proof (cases rule: record_decision_OkE)
  case duplicate
  with assms(3) show ?thesis by simp
next
  case (fresh d db2 db3 i db4 row m)
  let ?db1 = "db\<lparr>xd_decisions := xd_decisions db @ [d]\<rparr>"
  have same: "ledger_ok ?db1" "pg_view (ca_tenant_id a) ?db1 (ca_idempotency_key a) = None"
    using assms(1,5) ledger_tables_only [of ?db1 db] by simp_all
  from validate_OkD(2) [OF fresh(1) a] submit_decided_OkD [OF fresh(7)] a obtain ms oid s where
    run: "pg_submit_confirmed_action to_ts db_now ?db1 a ms oid = (Inr s, db2)" by auto
  from submit_createdE [OF same(1) run same(2)] obtain arow orow where rows: "arow \<in> set (xd_actions db2)" "orow \<in> set (xd_operations db2)"
    and arow: "xa_tenant_id arow = ca_tenant_id a" "xa_action_id arow = ca_action_id a" "xa_actor_user_id arow = ca_actor_user_id a"
      "xa_idempotency_key arow = ca_idempotency_key a" "xa_status arow = ''confirmed''"
    and orow: "xo_tenant_id orow = ca_tenant_id a" "xo_action_id orow = ca_action_id a"
      "xo_idempotency_key orow = ca_idempotency_key a" "xo_status orow = ''confirmed''" .
  from submit_decided_tables [OF fresh(7)] decision_update_OkE [OF fresh(8)]
  have db': "xd_decisions db' = xd_decisions db @ [d]" "xd_proposals db' = xd_proposals db" "xd_actions db' = xd_actions db2"
      "xd_operations db' = xd_operations db2"
    unfolding fresh(11,12) by (auto simp: other_tables_def)
  note d = decision_query_row [OF fresh(3)]
  have requires: "decision_requires_action (id_decision (rd_decision request))" using validate_OkD(1) [OF fresh(1)] a by simp
  then have kind: "xn_decision d \<in> {''confirm'', ''edit_then_confirm''}"
    using d(4) by (cases "id_decision (rd_decision request)") (simp_all add: decision_requires_action_def)
  have link: "xn_tenant_id d = ca_tenant_id a" "xn_confirmed_action_id d = Some (ca_action_id a)"
    using validate_OkD(2) [OF fresh(1) a] d by simp_all
  define ready where "ready = \<lparr>rq_action = arow, rq_operation = orow, rq_decision = d, rq_proposal = p,
    rq_evidence_ids = evidence_ids_of collate db' p\<rparr>"
  have "ready \<in> set (ready_joins collate db' (ca_tenant_id a))"
    unfolding ready_def by (rule ready_joinsI) (use rows arow orow kind link p d(1) in \<open>auto simp: db' decision_key_def proposal_key_def\<close>)
  then show ?thesis
    by (rule bexI [rotated]) (use arow d(4) in \<open>simp add: ready_def\<close>)
qed

lemma proposed_from_storedE:
  assumes "proposed_action_from_stored action = Inr pa"
  shows "pa_id pa = ProposedActionId (sx_id action)" "pa_tenant_id pa = TenantId (sx_tenant_id action)"
    "pa_actor_user_id pa = WorkspaceUserId (sx_actor_user_id action)" "pa_version pa = sx_version action"
proof -
  let ?draft = "draft_action (ProposedActionId (sx_id action)) (TenantId (sx_tenant_id action))
       (WorkspaceUserId (sx_actor_user_id action)) (map_option WorkspaceUserId (sx_target_user_id action))
       (map_option WorkspaceUserId (sx_owner_user_id action)) (sx_version action) (sx_kind action)
       (sx_risk_severity action) (sx_evidence_ids action) (sx_suggested_payload action)"
  from assms obtain pa0 where draft: "?draft = Inr pa0"
    by (cases ?draft) (simp_all add: proposed_action_from_stored_def)
  with assms have pub: "publish pa0 = (Inr (), pa)"
    by (cases "publish pa0"; cases "fst (publish pa0)") (simp_all add: proposed_action_from_stored_def)
  have "pa_id pa = pa_id pa0" "pa_tenant_id pa = pa_tenant_id pa0" "pa_actor_user_id pa = pa_actor_user_id pa0" "pa_version pa = pa_version pa0"
    using pub by (cases "ensure_publishable pa0"; auto simp: publish_def)+
  with draft show "pa_id pa = ProposedActionId (sx_id action)" "pa_tenant_id pa = TenantId (sx_tenant_id action)"
    "pa_actor_user_id pa = WorkspaceUserId (sx_actor_user_id action)" "pa_version pa = sx_version action"
    by (auto simp: draft_action_def try_then_Ok_iff split: if_splits)
qed

lemma decision_kinds:
  "proposed_action_status_from_db s = Inr Published \<Longrightarrow> s = ''published''"
  "proposed_action_kind_from_db k custom = Inr UpdateKrProgress \<Longrightarrow> k = ''update_kr_progress''"
  by (auto simp: proposed_action_status_from_db_def proposed_action_kind_from_db_def ok_or_def split: if_splits option.splits)



section \<open>Witnesses\<close>

definition sample_inbox_row :: inbox_row where
  "sample_inbox_row = \<lparr>xi_id = ''i'', xi_tenant_id = ''t'', xi_user_id = ''u'', xi_proposed_action_id = ''p'',
     xi_proposed_action_version = 1, xi_risk_score = 10, xi_priority = 1, xi_status = ''open'', xi_sort_key = 0,
     xi_source_cursor_value = 3, xi_sync_cursor_value = 4, xi_updated_at = 0, xi_ledger_status = None, xi_operation_id = None\<rparr>"

definition sample_review_db :: execution_db where
  "sample_review_db = \<lparr>xd_users = [(''t'', ''u'')], xd_actions = [], xd_operations = [], xd_inbox = [sample_inbox_row],
     xd_cursor_seq = 9, xd_decisions = [],
     xd_proposals = [\<lparr>xp_id = ''p'', xp_tenant_id = ''t'', xp_actor_user_id = ''u'', xp_target_user_id = None, xp_owner_user_id = None,
       xp_version = 1, xp_status = ''published'', xp_kind = ''update_kr_progress'', xp_custom_kind = None, xp_risk_severity = ''low'',
       xp_suggested_payload = JNull, xp_published_at = Some 0\<rparr>],
     xd_evidence_refs = [\<lparr>xe_tenant_id = ''t'', xe_proposed_action_id = ''p'', xe_proposed_action_version = 1, xe_evidence_id = ''e''\<rparr>],
     xd_evidence = [], xd_audit = sample_audit_db []\<rparr>"

definition sample_context :: authenticated_context where
  "sample_context = \<lparr>au_session_id = ''s'', au_tenant_id = ''t'', au_user_id = ''u''\<rparr>"

definition sample_decision_request :: review_decision_request_dto where
  "sample_decision_request = \<lparr>dq_action_id = ''p'', dq_action_version = 1, dq_decision = DtoConfirm, dq_note = [],
     dq_expected_sync_cursor = Some 4, dq_edited_payload = None\<rparr>"

definition sample_stored_action :: stored_review_inbox_action where
  "sample_stored_action = \<lparr>sx_review_item_id = ''i'', sx_id = ''p'', sx_tenant_id = ''t'', sx_actor_user_id = ''u'',
     sx_target_user_id = None, sx_owner_user_id = None, sx_version = 1, sx_status = Published, sx_kind = UpdateKrProgress,
     sx_risk_severity = SeverityLow, sx_evidence_ids = [''e''], sx_suggested_payload = JNull, sx_decision = None\<rparr>"

definition sample_stored_item :: stored_review_inbox_item where
  "sample_stored_item = \<lparr>si_id = ''i'', si_tenant_id = ''t'', si_user_id = ''u'', si_proposed_action_id = ''p'',
     si_proposed_action_version = 1, si_risk_score = 10, si_priority = 1, si_status = InboxOpen, si_sort_key = 0,
     si_sync_cursor_value = 4, si_updated_at = 0, si_ledger_status = None, si_operation_id = None\<rparr>"

definition sample_context_request :: postgres_review_decision_context_request where
  "sample_context_request = \<lparr>rc_tenant_id = ''t'', rc_user_id = ''u'', rc_proposed_action_id = ''p'',
     rc_proposed_action_version = 1, rc_expected_sync_cursor_value = 4\<rparr>"

lemma sample_load: "load_review_decision_context sample_collate sample_review_db sample_context_request =
    Inr (Some \<lparr>sc_item = sample_stored_item, sc_action = sample_stored_action, sc_evidence = []\<rparr>)"
  by code_simp

definition sample_decided_action :: confirmed_action where
  "sample_decided_action = \<lparr>ca_action_id = ''pa:p:v1:confirm'', ca_tenant_id = ''t'', ca_actor_user_id = ''u'',
     ca_idempotency_key = ''tenant:t:pa:p:v1:confirm'', ca_status = Confirmed, ca_confirmed_at = Some 5000000\<rparr>"

definition sample_decided_item :: review_inbox_item where
  "sample_decided_item = \<lparr>ri_id = ReviewInboxItemId ''i'', ri_tenant_id = TenantId ''t'', ri_user_id = WorkspaceUserId ''u'',
     ri_proposed_action_id = ''p'', ri_proposed_action_version = 1, ri_risk_score = 10, ri_priority = 1,
     ri_status = InboxConfirmed, ri_sort_key = 0, ri_sync_cursor = 5, ri_updated_at = 5000000,
     ri_ledger_status = Some ''confirmed'', ri_operation_id = Some ''op-tenant:t:pa:p:v1:confirm''\<rparr>"

lemma sample_trim: "trim ''e'' = ''e''" "show_u64 1 = ''1''"
  by code_simp+

lemma sample_decide: "decide_stored sample_decision_request \<lparr>sc_item = sample_stored_item, sc_action = sample_stored_action, sc_evidence = []\<rparr> 5000000 =
    Inr (Confirm, Some sample_decided_action, sample_decided_item)"
  by (simp add: decide_stored_def sample_decision_request_def sample_stored_item_def sample_stored_action_def
      decision_of_request_def proposed_action_from_stored_def draft_action_def normalize_evidence_ids_def sample_trim
      publish_def ensure_publishable_def has_valid_evidence_chain_def decide_def ensure_decidable_def
      build_confirmed_action_def confirm_action_def proposed_confirmed_action_def action_id_of_def idempotency_key_of_def
      version_chain_def decided_inbox_item_def review_inbox_item_from_stored_def inbox_op_defs saturating_add_def
      operation_id_for_def Let_def sample_decided_action_def sample_decided_item_def)

lemma sample_payload: "validate_audit_outbox_payload (ov_payload (decision_audit_outbox sample_context
   (decision_audit_event sample_context sample_decision_request (decision_id ''p'' 1 DtoConfirm) 5) 5)) = Inr ()"
  by code_simp

definition sample_recorder_request :: postgres_review_decision_recorder_request where
  "sample_recorder_request = recorder_request sample_context sample_decision_request 4 5000000 5
     (Confirm, Some sample_decided_action, sample_decided_item)"

lemma sample_validate: "validate_review_decision_request sample_recorder_request = Inr ()"
  by (simp add: sample_recorder_request_def recorder_request_def validate_review_decision_request_def validate_recorder_tenant_def
      validate_review_decision_tenant_binding_def decision_audit_event_def decision_audit_outbox_def event_defs sample_context_def
      sample_decided_action_def sample_decided_item_def sample_decision_request_def decision_requires_action_def
      validate_confirming_request_def operation_id_for_def Let_def)

definition sample_decision_row :: decision_row where
  "sample_decision_row = \<lparr>xn_id = ''decision:p:v1:confirm'', xn_tenant_id = ''t'', xn_proposed_action_id = ''p'',
     xn_proposed_action_version = 1, xn_actor_user_id = ''u'', xn_decision = ''confirm'', xn_edited_payload = None,
     xn_confirmed_action_id = Some ''pa:p:v1:confirm'', xn_decided_at = 5000\<rparr>"

lemma sample_insert_decision:
  "insert_proposed_action_decision_in_tx pg_to_timestamp sample_review_db (rd_decision sample_recorder_request) =
    (Inr True, sample_review_db\<lparr>xd_decisions := [sample_decision_row]\<rparr>)"
  by (simp add: sample_recorder_request_def recorder_request_def insert_proposed_action_decision_in_tx_def
      insert_proposed_action_decision_query_def INSERT_PROPOSED_ACTION_DECISION_def pg_system_time_to_ms_def millis_since_epoch_def
      sql_timestamp_def pg_to_timestamp_def u64_as_i64_def decision_id_def sample_trim sample_context_def sample_decision_request_def
      sample_decided_action_def sample_decision_row_def decision_row_check_def decision_key_def proposal_key_def user_exists_def
      sample_review_db_def sample_audit_db_def Let_def)

lemma sample_submit:
  "\<exists>operation db2. submit_decided_action pg_to_timestamp 5000 (sample_review_db\<lparr>xd_decisions := [sample_decision_row]\<rparr>) sample_recorder_request =
      (Inr (Some operation), db2) \<and> op_operation_id operation = ''op-tenant:t:pa:p:v1:confirm'' \<and>
    xd_actions db2 = [\<lparr>xa_action_id = ''pa:p:v1:confirm'', xa_tenant_id = ''t'', xa_actor_user_id = ''u'',
       xa_idempotency_key = ''tenant:t:pa:p:v1:confirm'', xa_status = ''confirmed'', xa_confirmed_at = Some 5000\<rparr>] \<and>
    map (\<lambda>r. (xo_tenant_id r, xo_operation_id r)) (xd_operations db2) = [(''t'', ''op-tenant:t:pa:p:v1:confirm'')]"
  by (simp add: submit_decided_action_def sample_recorder_request_def recorder_request_def sample_decided_action_def
      pg_submit_confirmed_action_def submit_confirmed_action_with_executor_def SUBMIT_CONFIRMED_ACTION_AND_LEDGER_def
      sql_timestamp_def pg_to_timestamp_def u64_as_i64_def action_insertable_def operation_insertable_def
      sample_review_db_def sample_audit_db_def operation_record_from_row_def action_status_from_db_def operation_id_for_def Let_def)

lemma sample_recorded_decision:
  "\<exists>rep db'. record_decision pg_to_timestamp sample_json 5000 sample_review_db sample_recorder_request = (Inr rep, db') \<and> \<not> rr_duplicate rep"
proof -
  let ?db1 = "sample_review_db\<lparr>xd_decisions := [sample_decision_row]\<rparr>" and ?oid = "''op-tenant:t:pa:p:v1:confirm''"
  from sample_submit obtain operation db2 where submit: "submit_decided_action pg_to_timestamp 5000 ?db1 sample_recorder_request = (Inr (Some operation), db2)"
    and oid: "op_operation_id operation = ?oid" and acts: "map (\<lambda>a. (xa_tenant_id a, xa_action_id a)) (xd_actions db2) = [(''t'', ''pa:p:v1:confirm'')]"
    and ops: "map (\<lambda>r. (xo_tenant_id r, xo_operation_id r)) (xd_operations db2) = [(''t'', ?oid)]" by auto
  from submit_decided_tables [OF submit] have db2: "xd_inbox db2 = [sample_inbox_row]" "xd_cursor_seq db2 = 9" "xd_decisions db2 = [sample_decision_row]"
      "xd_audit db2 = sample_audit_db []"
    by (simp_all add: other_tables_def sample_review_db_def)
  let ?item = "rd_inbox_item sample_recorder_request" and ?event = "rd_event sample_recorder_request"
  have item: "?item = sample_decided_item" "rd_expected_sync_cursor_value sample_recorder_request = 4"
    by (simp_all add: sample_recorder_request_def recorder_request_def Let_def)
  define db3 where "db3 = db2\<lparr>xd_cursor_seq := 10, xd_inbox := [sample_inbox_row\<lparr>xi_status := ''confirmed'', xi_updated_at := 5000,
    xi_ledger_status := Some ''confirmed'', xi_operation_id := Some ?oid, xi_sync_cursor_value := 9\<rparr>]\<rparr>"
  have update: "update_review_inbox_decision_state_in_tx pg_to_timestamp db2 ?item 4 = (Inr (Some ''i''), db3)"
    by (simp add: item sample_decided_item_def update_review_inbox_decision_state_in_tx_def UPDATE_REVIEW_INBOX_DECISION_STATE_def
        pg_system_time_to_ms_def millis_since_epoch_def sql_timestamp_def pg_to_timestamp_def u64_as_i64_def open_item_def decided_item_def
        update_inbox_def next_cursor_def inbox_ledger_status_check_def operation_taken_def db2 sample_inbox_row_def db3_def Let_def)
  have db3: "xd_audit db3 = sample_audit_db []" "xd_operations db3 = xd_operations db2" by (simp_all add: db3_def db2)
  have op_in: "(''t'', ?oid) \<in> (\<lambda>r. (xo_tenant_id r, xo_operation_id r)) ` set (xd_operations db2)"
    using arg_cong [OF ops, of set] by simp
  define adb where "adb = snd (pg_audit_append sample_json (audit_of db3) ?event (Some ?oid))"
  have "fst (pg_audit_append sample_json (audit_of db3) ?event (Some ?oid)) = Inr () \<and> ad_tenants adb = [''t'']"
    unfolding adb_def using op_in
    by (simp add: pg_audit_append_def append_audit_event_query_def sample_json_def json_option_def
        transpose_map_def APPEND_AUDIT_EVENT_def audit_event_row_check_def u64_as_i64_def sample_recorder_request_def recorder_request_def
        decision_audit_event_def event_defs sample_context_def sample_audit_db_def audit_of_def db3 Let_def)
  then have app: "append_audit_event_in_tx sample_json db3 ?event (Some ?oid) = (Inr (), db3\<lparr>xd_audit := adb\<rparr>)"
    and adb: "ad_tenants adb = [''t'']"
    by (simp_all add: append_audit_event_in_tx_def on_audit_of_def adb_def)
  let ?db4 = "db3\<lparr>xd_audit := adb\<rparr>"
  have outbox: "ov_tenant_id (rd_outbox sample_recorder_request) = ''t''" "ov_next_attempt_at_ms (rd_outbox sample_recorder_request) = 5"
      "validate_audit_outbox_payload (ov_payload (rd_outbox sample_recorder_request)) = Inr ()"
    using sample_payload by (simp_all add: sample_recorder_request_def recorder_request_def decision_audit_outbox_def sample_context_def
        sample_decision_request_def Let_def)
  let ?enq = "enqueue_outbox pg_to_timestamp 5000 (audit_of ?db4) (ov_tenant_id (rd_outbox sample_recorder_request))
    (ov_stream (rd_outbox sample_recorder_request)) (ov_aggregate_id (rd_outbox sample_recorder_request))
    (ov_payload (rd_outbox sample_recorder_request)) (ov_next_attempt_at_ms (rd_outbox sample_recorder_request))"
  define adb' where "adb' = snd ?enq"
  obtain oid' where "fst ?enq = Inr oid'"
    by (simp add: enqueue_outbox_def outbox ENQUEUE_AUDIT_OUTBOX_def audit_of_def adb sql_timestamp_def pg_to_timestamp_def u64_as_i64_def)
  then have enq: "enqueue_outbox_in_tx pg_to_timestamp 5000 ?db4 (rd_outbox sample_recorder_request) = (Inr oid', ?db4\<lparr>xd_audit := adb'\<rparr>)"
    by (simp add: enqueue_outbox_in_tx_def on_audit_of_def adb'_def)
  have act_in: "(''t'', ''pa:p:v1:confirm'') \<in> (\<lambda>a. (xa_tenant_id a, xa_action_id a)) ` set (xd_actions db2)"
    using arg_cong [OF acts, of set] by simp
  have "deferred_references_ok (?db4\<lparr>xd_audit := adb'\<rparr>)"
    using op_in act_in by (simp add: deferred_references_ok_def db3_def db2 sample_decision_row_def sample_inbox_row_def)
  then show ?thesis
    using sample_validate sample_insert_decision submit update app enq item oid
    by (simp add: record_decision_def)
qed

lemma sample_decision_run:
  "\<exists>db'. record_decision_for_context pg_to_timestamp sample_collate sample_json True 5000000 5000 id sample_review_db
     sample_context sample_decision_request = (AnswerSnapshot, db')"
proof -
  from sample_recorded_decision obtain rep db' where rec: "record_decision pg_to_timestamp sample_json 5000 sample_review_db sample_recorder_request = (Inr rep, db')"
    by blast
  have "dq_expected_sync_cursor sample_decision_request = Some 4" by (simp add: sample_decision_request_def)
  moreover have "load_review_decision_context sample_collate sample_review_db \<lparr>rc_tenant_id = au_tenant_id sample_context,
      rc_user_id = au_user_id sample_context, rc_proposed_action_id = dq_action_id sample_decision_request,
      rc_proposed_action_version = dq_action_version sample_decision_request, rc_expected_sync_cursor_value = 4\<rparr> =
      Inr (Some \<lparr>sc_item = sample_stored_item, sc_action = sample_stored_action, sc_evidence = []\<rparr>)"
    using sample_load by (simp add: sample_context_request_def sample_context_def sample_decision_request_def)
  moreover have "millis_since_epoch 5000000 = Some 5" by (simp add: millis_since_epoch_def)
  ultimately show ?thesis
    using rec sample_decide by (simp add: record_decision_for_context_def sample_recorder_request_def)
qed

lemma sample_ledger_review: "ledger_ok sample_review_db"
  by (simp add: ledger_ok_def sample_review_db_def)




theorem review_decision_atomic_witness:
  "\<exists>rep db'. record_decision pg_to_timestamp sample_json 5000 sample_review_db sample_recorder_request = (Inr rep, db') \<and>
     ledger_ok db' \<and> decision_operation sample_recorder_request (rr_operation rep) sample_review_db db'"
proof -
  from sample_recorded_decision obtain rep db' where run: "record_decision pg_to_timestamp sample_json 5000 sample_review_db sample_recorder_request = (Inr rep, db')"
    and "\<not> rr_duplicate rep" by blast
  with review_decision_atomic [OF sample_ledger_review run] show ?thesis by auto
qed

theorem stored_decision_is_final_witness:
  "\<exists>rep db'. record_decision pg_to_timestamp sample_json 5000 (sample_review_db\<lparr>xd_decisions := [sample_decision_row]\<rparr>) sample_recorder_request =
     (rep, db') \<and> db' = sample_review_db\<lparr>xd_decisions := [sample_decision_row]\<rparr>"
proof -
  let ?db = "sample_review_db\<lparr>xd_decisions := [sample_decision_row]\<rparr>"
  obtain rep db' where run: "record_decision pg_to_timestamp sample_json 5000 ?db sample_recorder_request = (rep, db')" by fastforce
  have "LOAD_PROPOSED_ACTION_DECISION_FOR_RECORDER ?db ''t'' ''p'' 1 = Some sample_decision_row"
    by (simp add: LOAD_PROPOSED_ACTION_DECISION_FOR_RECORDER_def decision_key_def sample_decision_row_def)
  moreover have "(id_tenant_id (rd_decision sample_recorder_request), id_proposed_action_id (rd_decision sample_recorder_request),
      u64_as_i64 (id_proposed_action_version (rd_decision sample_recorder_request))) = (''t'', ''p'', 1)"
    by (simp add: sample_recorder_request_def sample_context_def sample_decision_request_def u64_as_i64_def)
  ultimately show ?thesis
    using stored_decision_is_final [of ?db pg_to_timestamp sample_json "[]" "''t''" "''p''" 1] run by auto
qed

definition sample_newer_item :: review_inbox_item where
  "sample_newer_item = sample_decided_item\<lparr>ri_proposed_action_version := 2, ri_status := InboxOpen, ri_sync_cursor := 7,
     ri_ledger_status := None, ri_operation_id := None\<rparr>"

lemma sample_upsert: "\<exists>db'. upsert_review_inbox_item pg_to_timestamp sample_review_db sample_newer_item = (Inr (Some ''i''), db')"
  by (simp add: upsert_review_inbox_item_def upsert_review_inbox_item_query_def sample_newer_item_def sample_decided_item_def
      pg_system_time_to_ms_def millis_since_epoch_def sql_timestamp_def pg_to_timestamp_def u64_as_i64_def u32_as_i32_def
      UPSERT_REVIEW_INBOX_ITEM_def inbox_row_check_def inbox_ledger_status_check_def upsert_conflict_def upsert_changed_def
      operation_taken_def sample_review_db_def sample_inbox_row_def deferred_references_ok_def Let_def)

lemma sample_inbox_distinct: "distinct (map inbox_key (xd_inbox sample_review_db))"
  by (simp add: sample_review_db_def)

theorem inbox_upsert_correct_witness:
  "\<exists>db'. upsert_review_inbox_item pg_to_timestamp sample_review_db sample_newer_item = (Inr (Some ''i''), db') \<and>
     (\<exists>r' \<in> set (xd_inbox db'). xi_id r' = ''i'' \<and> 4 < xi_sync_cursor_value r' \<and> xi_proposed_action_version r' = 1)"
proof -
  from sample_upsert obtain db' where run: "upsert_review_inbox_item pg_to_timestamp sample_review_db sample_newer_item = (Inr (Some ''i''), db')" by blast
  have "find (\<lambda>r. inbox_key r = item_key sample_newer_item) (xd_inbox sample_review_db) = Some sample_inbox_row"
    by (simp add: sample_review_db_def sample_inbox_row_def inbox_key_def item_key_def sample_newer_item_def sample_decided_item_def)
  with inbox_upsert_correct [OF sample_inbox_distinct run] obtain r' where
    "xd_inbox db' = map (\<lambda>x. if x = sample_inbox_row then r' else x) (xd_inbox sample_review_db)"
    "xi_id r' = xi_id sample_inbox_row" "xi_sync_cursor_value sample_inbox_row < xi_sync_cursor_value r'"
    "xi_proposed_action_version r' = xi_proposed_action_version sample_inbox_row"
    by (auto split: if_splits)
  then have "r' \<in> set (xd_inbox db') \<and> xi_id r' = ''i'' \<and> 4 < xi_sync_cursor_value r' \<and> xi_proposed_action_version r' = 1"
    by (simp add: sample_review_db_def) (simp add: sample_inbox_row_def)
  with run show ?thesis by blast
qed

theorem newer_version_not_decidable_witness:
  "\<exists>db'. upsert_review_inbox_item pg_to_timestamp sample_review_db sample_newer_item = (Inr (Some ''i''), db') \<and>
     load_review_decision_context sample_collate db' \<lparr>rc_tenant_id = ''t'', rc_user_id = ''u'', rc_proposed_action_id = ''p'',
       rc_proposed_action_version = 2, rc_expected_sync_cursor_value = 9\<rparr> = Ok None"
proof -
  from sample_upsert obtain db' where run: "upsert_review_inbox_item pg_to_timestamp sample_review_db sample_newer_item = (Inr (Some ''i''), db')" by blast
  have "sample_inbox_row \<in> set (xd_inbox sample_review_db)" "inbox_key sample_inbox_row = item_key sample_newer_item"
      "xi_proposed_action_version sample_inbox_row \<noteq> u64_as_i64 (ri_proposed_action_version sample_newer_item)"
    by (simp_all add: sample_review_db_def sample_inbox_row_def inbox_key_def item_key_def sample_newer_item_def sample_decided_item_def u64_as_i64_def)
  from newer_version_not_decidable [OF sample_inbox_distinct run this, of sample_collate 9] run show ?thesis
    by (simp add: sample_newer_item_def sample_decided_item_def)
qed

end
