(* ===== verification/Agent_Stream.thy ===== *)
theory Agent_Stream
  imports Json Web_Text "HOL-Library.While_Combinator"
begin

text \<open>
  The answer stream of the agent (\<open>oar-http-facade/src/agent/stream/\<close>): the parser of the server-sent
  events that a model provider sends in arbitrary chunks, the mapping of the provider's events
  (\<open>agent/openai.rs\<close>, \<open>agent/anthropic.rs\<close>) and the frames that the facade sends on. Reading the
  provider's JSON and printing JSON are arguments.
\<close>

section \<open>Frames of the upstream\<close>

datatype sse_frame_parse_error = SseInvalidUtf8

type_synonym sse_frame_parse_result = "(string, sse_frame_parse_error) result"

text \<open>\<open>windows(n).position\<close> for a needle that is not empty.\<close>

fun find_byte_sequence :: "string \<Rightarrow> string \<Rightarrow> nat option" where
  "find_byte_sequence [] needle = None"
| "find_byte_sequence (c # cs) needle =
     (if starts_with (c # cs) needle then Some 0 else map_option Suc (find_byte_sequence cs needle))"

definition CRLF2 :: string where
  "CRLF2 = [CHR 0x0D, CHR 0x0A, CHR 0x0D, CHR 0x0A]"

definition LF2 :: string where
  "LF2 = [CHR 0x0A, CHR 0x0A]"

definition next_sse_boundary :: "string \<Rightarrow> (nat \<times> nat) option" where
  "next_sse_boundary buffer =
     (case (find_byte_sequence buffer CRLF2, find_byte_sequence buffer LF2) of
        (Some crlf, Some lf) \<Rightarrow> if crlf < lf then Some (crlf, 4) else Some (lf, 2)
      | (Some crlf, None) \<Rightarrow> Some (crlf, 4)
      | (None, Some lf) \<Rightarrow> Some (lf, 2)
      | (None, None) \<Rightarrow> None)"

definition decode_sse_frame :: "string \<Rightarrow> sse_frame_parse_result" where
  "decode_sse_frame frame = (if valid_utf8 frame then Ok frame else Err SseInvalidUtf8)"

lemma find_bytes_Some:
  assumes "find_byte_sequence b n = Some i"
  shows "i < length b" and "starts_with (drop i b) n" and "starts_with (drop i (b @ y)) n"
    and "find_byte_sequence (b @ y) n = Some i" and "i + length n \<le> length b"
proof -
  have "i < length b \<and> starts_with (drop i b) n \<and> find_byte_sequence (b @ y) n = Some i \<and> i + length n \<le> length b"
    using assms
  proof (induction b arbitrary: i)
    case (Cons c cs)
    show ?case
    proof (cases "starts_with (c # cs) n")
      case True
      then have pre: "prefix n (c # cs)" by (simp add: starts_with_iff_prefix)
      have "starts_with (c # cs @ y) n" and "length n \<le> Suc (length cs)"
        using prefix_prefix [OF pre, of y] prefix_length_le [OF pre] by (simp_all add: starts_with_iff_prefix)
      with True Cons.prems show ?thesis by simp
    next
      case False
      with Cons.prems obtain j where j: "find_byte_sequence cs n = Some j" and i: "i = Suc j" by auto
      note rest = Cons.IH [OF j]
      have "\<not> starts_with (c # cs @ y) n"
      proof
        assume pre: "starts_with (c # cs @ y) n"
        from rest have "length n \<le> length (c # cs)" by simp
        with pre have "prefix n (c # cs)"
          by (metis append_Cons prefix_length_prefix prefixI starts_with_iff_prefix)
        with False show False by (simp add: starts_with_iff_prefix)
      qed
      with rest i False show ?thesis by simp
    qed
  qed simp
  then show "i < length b" and "starts_with (drop i b) n" and "find_byte_sequence (b @ y) n = Some i"
    and "i + length n \<le> length b" and "starts_with (drop i (b @ y)) n"
    by (auto simp: starts_with_iff_prefix)
qed

lemma boundary_inside:
  assumes "next_sse_boundary b = Some (i, k)"
  shows "0 < k" and "i + k \<le> length b"
  using assms by (auto simp: next_sse_boundary_def CRLF2_def LF2_def split: option.splits if_splits
      dest: find_bytes_Some(5))

text \<open>The \<open>while let\<close> of the source, with the buffer that it leaves.\<close>

function drain_complete_frames :: "string \<Rightarrow> sse_frame_parse_result list \<times> string" where
  "drain_complete_frames buffer = (case next_sse_boundary buffer of
      None \<Rightarrow> ([], buffer)
    | Some (index, separator_len) \<Rightarrow>
        let (frames, rest) = drain_complete_frames (drop (index + separator_len) buffer)
        in (decode_sse_frame (take index buffer) # frames, rest))"
  by pat_completeness auto
termination
proof (relation "measure length")
  fix buffer :: string and p i k
  assume "next_sse_boundary buffer = Some p" and "(i, k) = p"
  then have "0 < k" and "i + k \<le> length buffer" by (auto dest: boundary_inside)
  then show "(drop (i + k) buffer, buffer) \<in> measure length" by simp
qed simp

declare drain_complete_frames.simps [simp del]

record sse_frame_parser =
  sp_buffer :: string

definition sse_parser_default :: sse_frame_parser where
  "sse_parser_default = \<lparr>sp_buffer = []\<rparr>"

definition sse_feed :: "sse_frame_parser \<Rightarrow> string \<Rightarrow> sse_frame_parse_result list \<times> sse_frame_parser" where
  "sse_feed p bytes =
     (let (frames, rest) = drain_complete_frames (sp_buffer p @ bytes) in (frames, p\<lparr>sp_buffer := rest\<rparr>))"

text \<open>\<open>u8::is_ascii_whitespace\<close>\<close>

definition is_ascii_whitespace :: "char \<Rightarrow> bool" where
  "is_ascii_whitespace c \<longleftrightarrow> (of_char c :: nat) \<in> {9, 10, 12, 13, 32}"

definition sse_finish :: "sse_frame_parser \<Rightarrow> sse_frame_parse_result list \<times> sse_frame_parser" where
  "sse_finish p = (if list_all is_ascii_whitespace (sp_buffer p) then ([], p\<lparr>sp_buffer := []\<rparr>)
     else ([decode_sse_frame (sp_buffer p)], p\<lparr>sp_buffer := []\<rparr>))"

definition sse_data_line :: "string \<Rightarrow> string option" where
  "sse_data_line line =
     map_option (\<lambda>value. case strip_prefix value '' '' of Some v \<Rightarrow> v | None \<Rightarrow> value)
       (strip_prefix (trim_end_matches (\<lambda>c. c = CHR 0x0D) line) ''data:'')"

definition sse_data_payload :: "string \<Rightarrow> string option" where
  "sse_data_payload frame =
     (let data_lines = List.map_filter sse_data_line (str_lines frame)
      in if data_lines = [] then None else Some (str_join [CHR 0x0A] data_lines))"

section \<open>Frames to the client\<close>

datatype live_feishu_read_state = LiveReady | LiveDegraded

record agent_activated_skill_status =
  sk_id :: string
  sk_name :: string
  sk_summary :: string

record agent_live_read_status =
  lr_id :: string
  lr_label :: string
  lr_state :: live_feishu_read_state
  lr_summary :: string

record agent_context_status =
  cx_activated_skills :: "agent_activated_skill_status list"
  cx_live_reads :: "agent_live_read_status list"

definition context_status_is_empty :: "agent_context_status \<Rightarrow> bool" where
  "context_status_is_empty s \<longleftrightarrow> cx_activated_skills s = [] \<and> cx_live_reads s = []"

datatype agent_stream_frame =
    ContextStatus agent_context_status
  | Delta string
  | StreamCompleted
  | StreamError string

definition INVALID_UPSTREAM_EVENT_CODE :: string where
  "INVALID_UPSTREAM_EVENT_CODE = ''invalid_upstream_event''"

definition invalid_upstream_event :: "agent_stream_frame list" where
  "invalid_upstream_event = [StreamError INVALID_UPSTREAM_EVENT_CODE]"

fun live_read_state_json :: "live_feishu_read_state \<Rightarrow> json" where
  "live_read_state_json LiveReady = JString ''ready''"
| "live_read_state_json LiveDegraded = JString ''degraded''"

definition context_status_json :: "agent_context_status \<Rightarrow> json" where
  "context_status_json s = JObject
     [(''activated_skills'', JArray (map (\<lambda>k. JObject [(''id'', JString (sk_id k)),
        (''name'', JString (sk_name k)), (''summary'', JString (sk_summary k))]) (cx_activated_skills s))),
      (''live_reads'', JArray (map (\<lambda>r. JObject [(''id'', JString (lr_id r)), (''label'', JString (lr_label r)),
        (''state'', live_read_state_json (lr_state r)), (''summary'', JString (lr_summary r))]) (cx_live_reads s)))]"

text \<open>
  The channel to the client: the frames that were sent, and whether the receiver is still there
  after them. A send fails exactly when it is gone.
\<close>

record frame_channel =
  fc_open :: "string list \<Rightarrow> bool"
  fc_sent :: "string list"

definition channel_send :: "frame_channel \<Rightarrow> string \<Rightarrow> (unit, unit) result \<times> frame_channel" where
  "channel_send ch frame =
     (if fc_open ch (fc_sent ch) then (Ok (), ch\<lparr>fc_sent := fc_sent ch @ [frame]\<rparr>) else (Err (), ch))"

definition agent_frame_text :: "(json \<Rightarrow> string) \<Rightarrow> json \<Rightarrow> string" where
  "agent_frame_text render payload =
     (case Option.bind (json_get payload ''event'') as_str of
        Some event \<Rightarrow> ''event: '' @ event @ [CHR 0x0A] | None \<Rightarrow> [])
     @ ''data: '' @ render payload @ [CHR 0x0A, CHR 0x0A]"

definition send_agent_frame ::
  "(json \<Rightarrow> string) \<Rightarrow> frame_channel \<Rightarrow> json \<Rightarrow> (unit, unit) result \<times> frame_channel" where
  "send_agent_frame render ch payload = channel_send ch (agent_frame_text render payload)"

definition send_agent_error ::
  "(json \<Rightarrow> string) \<Rightarrow> frame_channel \<Rightarrow> string \<Rightarrow> (unit, unit) result \<times> frame_channel" where
  "send_agent_error render ch code =
     send_agent_frame render ch (JObject [(''event'', JString ''error''), (''error'', JString code)])"

fun send_agent_stream_frames ::
  "(json \<Rightarrow> string) \<Rightarrow> frame_channel \<Rightarrow> agent_stream_frame list \<Rightarrow> (unit, unit) result \<times> frame_channel" where
  "send_agent_stream_frames render ch [] = (Ok (), ch)"
| "send_agent_stream_frames render ch (frame # frames) =
     try_st (case frame of
         ContextStatus status \<Rightarrow> send_agent_frame render ch
           (JObject [(''event'', JString ''context_status''), (''status'', context_status_json status)])
       | Delta delta \<Rightarrow> send_agent_frame render ch (JObject [(''event'', JString ''delta''), (''delta'', JString delta)])
       | StreamCompleted \<Rightarrow> send_agent_frame render ch (JObject [(''event'', JString ''completed'')])
       | StreamError code \<Rightarrow> send_agent_error render ch code)
       (\<lambda>_ ch. send_agent_stream_frames render ch frames)"

section \<open>The events of the providers\<close>

text \<open>The delta contents of a chunk's choices, as the provider's JSON is read.\<close>

record openai_chunk =
  oc_choices :: "string option list"

definition openai_frame_events :: "(string \<Rightarrow> openai_chunk option) \<Rightarrow> string \<Rightarrow> agent_stream_frame list" where
  "openai_frame_events from_str frame = (case sse_data_payload frame of
      None \<Rightarrow> []
    | Some payload \<Rightarrow>
        if payload = ''[DONE]'' then [StreamCompleted]
        else case from_str payload of
          None \<Rightarrow> invalid_upstream_event
        | Some chunk \<Rightarrow> map Delta (List.map_filter (\<lambda>content. case content of
              Some value \<Rightarrow> if value = [] then None else Some value
            | None \<Rightarrow> None) (oc_choices chunk)))"

record anthropic_stream_delta =
  ax_delta_type :: "string option"
  ax_text :: "string option"

record anthropic_stream_event =
  ax_event_type :: string
  ax_delta :: "anthropic_stream_delta option"

definition anthropic_frame_events ::
  "(string \<Rightarrow> anthropic_stream_event option) \<Rightarrow> string \<Rightarrow> agent_stream_frame list" where
  "anthropic_frame_events from_str frame = (case sse_data_payload frame of
      None \<Rightarrow> []
    | Some payload \<Rightarrow> (case from_str payload of
        None \<Rightarrow> invalid_upstream_event
      | Some event \<Rightarrow>
          if ax_event_type event = ''content_block_delta'' then
            (case ax_delta event of
               None \<Rightarrow> []
             | Some delta \<Rightarrow>
                 if ax_delta_type delta = Some ''text_delta'' then
                   (case ax_text delta of
                      Some text \<Rightarrow> if text = [] then [] else [Delta text]
                    | None \<Rightarrow> [])
                 else [])
          else if ax_event_type event = ''message_stop'' then [StreamCompleted]
          else if ax_event_type event = ''error'' then [StreamError ''upstream_error'']
          else []))"

section \<open>Forwarding\<close>

definition forward_parsed_sse_frame ::
  "(json \<Rightarrow> string) \<Rightarrow> (string \<Rightarrow> agent_stream_frame list) \<Rightarrow> frame_channel \<Rightarrow> sse_frame_parse_result
     \<Rightarrow> (unit, unit) result \<times> frame_channel" where
  "forward_parsed_sse_frame render map_frame ch frame = (case frame of
      Inr frame \<Rightarrow> send_agent_stream_frames render ch (map_frame frame)
    | Inl SseInvalidUtf8 \<Rightarrow> send_agent_error render ch INVALID_UPSTREAM_EVENT_CODE)"

fun forward_frames ::
  "(json \<Rightarrow> string) \<Rightarrow> (string \<Rightarrow> agent_stream_frame list) \<Rightarrow> frame_channel \<Rightarrow> sse_frame_parse_result list
     \<Rightarrow> (unit, unit) result \<times> frame_channel" where
  "forward_frames render map_frame ch [] = (Ok (), ch)"
| "forward_frames render map_frame ch (frame # frames) =
     try_st (forward_parsed_sse_frame render map_frame ch frame) (\<lambda>_ ch. forward_frames render map_frame ch frames)"

text \<open>The loop over the chunks of the upstream; an item is a chunk or a failure of the transport.\<close>

fun upstream_loop ::
  "(json \<Rightarrow> string) \<Rightarrow> (string \<Rightarrow> agent_stream_frame list) \<Rightarrow> sse_frame_parser \<Rightarrow> (string, unit) result list
     \<Rightarrow> frame_channel \<Rightarrow> frame_channel" where
  "upstream_loop render map_frame parser [] ch =
     snd (forward_frames render map_frame ch (fst (sse_finish parser)))"
| "upstream_loop render map_frame parser (Inl e # items) ch = snd (send_agent_error render ch ''upstream_unavailable'')"
| "upstream_loop render map_frame parser (Inr bytes # items) ch =
     (let (frames, parser) = sse_feed parser bytes in
      case forward_frames render map_frame ch frames of
        (Inl _, ch) \<Rightarrow> ch
      | (Inr _, ch) \<Rightarrow> upstream_loop render map_frame parser items ch)"

definition stream_upstream_sse_response ::
  "(json \<Rightarrow> string) \<Rightarrow> (string \<Rightarrow> agent_stream_frame list) \<Rightarrow> (string, unit) result list \<Rightarrow> frame_channel \<Rightarrow> frame_channel" where
  "stream_upstream_sse_response render map_frame upstream ch =
     upstream_loop render map_frame sse_parser_default upstream ch"

text \<open>The stream that the client gets when a status of the context is put before the upstream.\<close>

fun forward_items :: "frame_channel \<Rightarrow> string list \<Rightarrow> (unit, unit) result \<times> frame_channel" where
  "forward_items ch [] = (Ok (), ch)"
| "forward_items ch (item # items) = try_st (channel_send ch item) (\<lambda>_ ch. forward_items ch items)"

definition prepend_agent_context_status_frame ::
  "(json \<Rightarrow> string) \<Rightarrow> (string list \<Rightarrow> bool) \<Rightarrow> string list \<Rightarrow> agent_context_status \<Rightarrow> string list" where
  "prepend_agent_context_status_frame render receiver stream status =
     (if context_status_is_empty status then stream
      else fc_sent (snd (try_st (send_agent_stream_frames render \<lparr>fc_open = receiver, fc_sent = []\<rparr> [ContextStatus status])
        (\<lambda>_ ch. forward_items ch stream))))"

section \<open>Chunks do not matter\<close>

lemma found_later:
  assumes "find_byte_sequence b n = None" and "find_byte_sequence (b @ y) n = Some j" and "n \<noteq> []"
  shows "length b < j + length n"
  using assms
proof (induction b arbitrary: j)
  case (Cons c cs)
  show ?case
  proof (cases "starts_with (c # cs @ y) n")
    case True
    have "\<not> length n \<le> length (c # cs)"
    proof
      assume "length n \<le> length (c # cs)"
      with True have "prefix n (c # cs)"
        by (metis append_Cons prefix_length_prefix prefixI starts_with_iff_prefix)
      with Cons.prems(1) show False by (simp add: starts_with_iff_prefix)
    qed
    then show ?thesis by simp
  next
    case False
    with Cons show ?thesis by (auto split: if_splits)
  qed
qed simp

lemma found_char:
  assumes "find_byte_sequence b n = Some i" and "k < length n"
  shows "b ! (i + k) = n ! k"
proof -
  from find_bytes_Some(2) [OF assms(1)] obtain zs where zs: "drop i b = n @ zs"
    by (auto simp: starts_with_iff_prefix prefix_def)
  from find_bytes_Some(1) [OF assms(1)] have "b ! (i + k) = drop i b ! k" by simp
  with zs assms(2) show ?thesis by (simp add: nth_append)
qed

lemma boundary_stable:
  assumes "next_sse_boundary b = Some (i, k)"
  shows "next_sse_boundary (b @ y) = Some (i, k)"
proof (cases "find_byte_sequence b LF2")
  case None
  with assms obtain c where c: "find_byte_sequence b CRLF2 = Some c" and i: "i = c" "k = 4"
    by (auto simp: next_sse_boundary_def split: option.splits)
  have "c < l" if "find_byte_sequence (b @ y) LF2 = Some l" for l
    using found_later [OF None that] find_bytes_Some(5) [OF c] by (simp add: LF2_def CRLF2_def)
  with find_bytes_Some(4) [OF c, of y] i show ?thesis by (auto simp: next_sse_boundary_def split: option.splits)
next
  case (Some l)
  note lf = find_bytes_Some(4) [OF Some, of y] find_bytes_Some(5) [OF Some]
  show ?thesis
  proof (cases "find_byte_sequence b CRLF2")
    case None
    with assms Some have i: "i = l" "k = 2" by (auto simp: next_sse_boundary_def)
    have "\<not> c < l" if c: "find_byte_sequence (b @ y) CRLF2 = Some c" for c
    proof
      assume "c < l"
      with found_later [OF None c] lf(2) have "l = c + 1" by (simp add: LF2_def CRLF2_def)
      with found_char [OF c, of 2] found_char [OF lf(1), of 1] show False
        by (simp add: LF2_def CRLF2_def)
    qed
    with lf(1) i show ?thesis by (auto simp: next_sse_boundary_def split: option.splits)
  next
    case (Some c)
    with find_bytes_Some(4) [OF Some, of y] lf(1) assms \<open>find_byte_sequence b LF2 = Some l\<close>
    show ?thesis by (auto simp: next_sse_boundary_def)
  qed
qed

lemma drain_append:
  "drain_complete_frames (b @ y) =
     (fst (drain_complete_frames b) @ fst (drain_complete_frames (snd (drain_complete_frames b) @ y)),
      snd (drain_complete_frames (snd (drain_complete_frames b) @ y)))"
proof (induction b rule: drain_complete_frames.induct)
  case (1 b)
  show ?case
  proof (cases "next_sse_boundary b")
    case None
    then have "drain_complete_frames b = ([], b)" by (simp add: drain_complete_frames.simps)
    then show ?thesis by simp
  next
    case (Some p)
    then obtain i k where p: "next_sse_boundary b = Some (i, k)" by (cases p) auto
    from boundary_inside [OF this] have cut: "take i (b @ y) = take i b" "drop (i + k) (b @ y) = drop (i + k) b @ y"
      by simp_all
    moreover from p have "drain_complete_frames b =
        (decode_sse_frame (take i b) # fst (drain_complete_frames (drop (i + k) b)), snd (drain_complete_frames (drop (i + k) b)))"
      by (subst drain_complete_frames.simps) (simp add: case_prod_beta)
    moreover from boundary_stable [OF p] have "drain_complete_frames (b @ y) =
        (decode_sse_frame (take i (b @ y)) # fst (drain_complete_frames (drop (i + k) (b @ y))), snd (drain_complete_frames (drop (i + k) (b @ y))))"
      by (subst drain_complete_frames.simps) (simp add: case_prod_beta)
    ultimately show ?thesis using "1.IH" [OF p refl] by (simp only: cut fst_conv snd_conv append_Cons)
  qed
qed

lemma drain_leaves: "next_sse_boundary (snd (drain_complete_frames b)) = None"
proof (induction b rule: drain_complete_frames.induct)
  case (1 b)
  then show ?case
    by (subst drain_complete_frames.simps) (auto simp: case_prod_beta split: option.splits)
qed

lemma forward_frames_append:
  "forward_frames render F ch (xs @ ys) = try_st (forward_frames render F ch xs) (\<lambda>_ ch. forward_frames render F ch ys)"
  by (induction xs arbitrary: ch) (auto simp: try_st_def split: prod.splits sum.splits)

lemma upstream_loop_chunks:
  assumes "next_sse_boundary (sp_buffer p) = None"
  shows "upstream_loop render F p (map Inr chunks @ rest) ch = upstream_loop render F p (Inr (concat chunks) # rest) ch"
  using assms
proof (induction chunks arbitrary: p ch)
  case Nil
  then have "drain_complete_frames (sp_buffer p) = ([], sp_buffer p)"
    by (simp add: drain_complete_frames.simps)
  then show ?case by (simp add: sse_feed_def)
next
  case (Cons a as)
  let ?d = "drain_complete_frames (sp_buffer p @ a)"
  have feed: "sse_feed p a = (fst ?d, p\<lparr>sp_buffer := snd ?d\<rparr>)" by (simp add: sse_feed_def case_prod_beta)
  have both: "sse_feed p (a @ concat as) = (fst ?d @ fst (sse_feed (p\<lparr>sp_buffer := snd ?d\<rparr>) (concat as)),
      snd (sse_feed (p\<lparr>sp_buffer := snd ?d\<rparr>) (concat as)))"
    using drain_append [of "sp_buffer p @ a" "concat as"] by (simp add: sse_feed_def case_prod_beta)
  show ?case
    using Cons.IH [of "p\<lparr>sp_buffer := snd ?d\<rparr>"]
    by (auto simp: feed both forward_frames_append case_prod_beta try_st_def drain_leaves split: prod.splits sum.splits)
qed

text \<open>
  C13. How the transport cuts the provider's answer into chunks does not matter: the client gets the
  same frames as if all the bytes had come at once, also when scalar values or separators are cut
  apart, whatever follows on the stream and whenever the client leaves.
\<close>

theorem upstream_chunking_irrelevant:
  "stream_upstream_sse_response render map_frame (map Inr chunks @ rest) ch =
   stream_upstream_sse_response render map_frame (Inr (concat chunks) # rest) ch"
proof -
  have "next_sse_boundary (sp_buffer sse_parser_default) = None"
    by (simp add: sse_parser_default_def next_sse_boundary_def)
  then show ?thesis unfolding stream_upstream_sse_response_def by (rule upstream_loop_chunks)
qed

section \<open>The loop ends\<close>

text \<open>One round of the loop on the buffer and the frames found so far.\<close>

definition drain_step :: "string \<times> sse_frame_parse_result list \<Rightarrow> string \<times> sse_frame_parse_result list" where
  "drain_step s = (case s of (buffer, frames) \<Rightarrow> (case next_sse_boundary buffer of
      None \<Rightarrow> (buffer, frames)
    | Some (index, separator_len) \<Rightarrow>
        (drop (index + separator_len) buffer, frames @ [decode_sse_frame (take index buffer)])))"

abbreviation drain_guard :: "string \<times> sse_frame_parse_result list \<Rightarrow> bool" where
  "drain_guard s \<equiv> next_sse_boundary (fst s) \<noteq> None"

lemma drain_loop:
  "while_option drain_guard drain_step (b, fs) =
     Some (snd (drain_complete_frames b), fs @ fst (drain_complete_frames b))"
proof (induction b arbitrary: fs rule: drain_complete_frames.induct)
  case (1 b)
  show ?case
  proof (cases "next_sse_boundary b")
    case None
    then show ?thesis by (subst while_option_unfold) (simp add: drain_complete_frames.simps)
  next
    case (Some p)
    then obtain i k where p: "next_sse_boundary b = Some (i, k)" by (cases p) auto
    then have "drain_step (b, fs) = (drop (i + k) b, fs @ [decode_sse_frame (take i b)])"
      by (simp add: drain_step_def)
    moreover note "1.IH" [OF p refl, of "fs @ [decode_sse_frame (take i b)]"]
    ultimately show ?thesis using p
      by (subst while_option_unfold, subst (1 2) drain_complete_frames.simps) (simp add: case_prod_beta)
  qed
qed

lemma drain_length: "2 * length (fst (drain_complete_frames b)) + length (snd (drain_complete_frames b)) \<le> length b"
proof (induction b rule: drain_complete_frames.induct)
  case (1 b)
  show ?case
  proof (cases "next_sse_boundary b")
    case None
    then show ?thesis by (simp add: drain_complete_frames.simps)
  next
    case (Some p)
    then obtain i k where p: "next_sse_boundary b = Some (i, k)" by (cases p) auto
    then have "2 \<le> k" by (auto simp: next_sse_boundary_def split: option.splits if_splits)
    with boundary_inside [OF p] "1.IH" [OF p refl] p show ?thesis
      by (subst (1 2) drain_complete_frames.simps) (simp add: case_prod_beta)
  qed
qed

text \<open>
  C35. The parser's loop ends on every buffer, and what it returns is what the parser answers: no
  complete frame is left in the buffer, and the loop has run at most once per two bytes.
\<close>

theorem sse_loop_terminates:
  "while_option drain_guard drain_step (sp_buffer p @ bytes, []) =
     Some (sp_buffer (snd (sse_feed p bytes)), fst (sse_feed p bytes)) \<and>
   next_sse_boundary (sp_buffer (snd (sse_feed p bytes))) = None \<and>
   2 * length (fst (sse_feed p bytes)) + length (sp_buffer (snd (sse_feed p bytes))) \<le> length (sp_buffer p @ bytes)"
  using drain_loop [of "sp_buffer p @ bytes" "[]"] drain_leaves [of "sp_buffer p @ bytes"] drain_length [of "sp_buffer p @ bytes"]
  by (simp add: sse_feed_def case_prod_beta)

section \<open>What is sent can be read back\<close>

lemma find_first:
  assumes "\<And>i. i < length u \<Longrightarrow> \<not> starts_with (drop i (u @ n @ r)) n" and "n \<noteq> []"
  shows "find_byte_sequence (u @ n @ r) n = Some (length u)"
  using assms(1)
proof (induction u)
  case Nil
  with assms(2) show ?case by (cases n) (auto simp: starts_with_iff_prefix)
next
  case (Cons c cs)
  from Cons.prems [of 0] have "\<not> starts_with (c # cs @ n @ r) n" by simp
  moreover have "find_byte_sequence (cs @ n @ r) n = Some (length cs)"
    using Cons.prems [of "Suc i" for i] by (intro Cons.IH) auto
  ultimately show ?case by simp
qed

lemma boundary_after_frame:
  assumes "u \<noteq> []" and "CHR 0x0D \<notin> set u" and "last u \<noteq> CHR 0x0A"
    and "\<And>i. Suc i < length u \<Longrightarrow> u ! i = CHR 0x0A \<Longrightarrow> u ! Suc i \<noteq> CHR 0x0A"
  shows "next_sse_boundary (u @ LF2 @ r) = Some (length u, 2)"
proof -
  have lf: "find_byte_sequence (u @ LF2 @ r) LF2 = Some (length u)"
  proof (rule find_first)
    fix i assume i: "i < length u"
    show "\<not> starts_with (drop i (u @ LF2 @ r)) LF2"
    proof
      assume "starts_with (drop i (u @ LF2 @ r)) LF2"
      then obtain zs where zs: "drop i (u @ LF2 @ r) = LF2 @ zs" by (auto simp: starts_with_iff_prefix prefix_def)
      have nth: "(u @ LF2 @ r) ! (i + k) = LF2 ! k" if "k < 2" for k
      proof -
        have "(u @ LF2 @ r) ! (i + k) = drop i (u @ LF2 @ r) ! k" using i by (subst nth_drop) simp_all
        also have "\<dots> = (LF2 @ zs) ! k" by (simp only: zs)
        also have "\<dots> = LF2 ! k" using that by (simp only: nth_append) (simp add: LF2_def)
        finally show ?thesis .
      qed
      from nth [of 0] i have c0: "u ! i = CHR 0x0A" by (simp add: LF2_def nth_append)
      show False
      proof (cases "Suc i < length u")
        case True
        with nth [of 1] have "u ! Suc i = CHR 0x0A" by (simp add: LF2_def nth_append)
        with assms(4) [OF True c0] show False by simp
      next
        case False
        with i have "i = length u - 1" by simp
        with c0 assms(1,3) show False by (simp add: last_conv_nth)
      qed
    qed
  qed (simp add: LF2_def)
  have "\<not> c < length u" if c: "find_byte_sequence (u @ LF2 @ r) CRLF2 = Some c" for c
  proof
    assume "c < length u"
    with found_char [OF c, of 0] have "u ! c = CHR 0x0D" by (simp add: CRLF2_def nth_append)
    with \<open>c < length u\<close> assms(2) show False by (metis nth_mem)
  qed
  with lf show ?thesis by (auto simp: next_sse_boundary_def split: option.splits)
qed

text \<open>Printing a JSON value yields one line of valid UTF-8: \<open>serde_json\<close> escapes control characters.\<close>

definition renders_one_line :: "(json \<Rightarrow> string) \<Rightarrow> bool" where
  "renders_one_line render \<longleftrightarrow>
     (\<forall>v. valid_utf8 (render v) \<and> CHR 0x0A \<notin> set (render v) \<and> CHR 0x0D \<notin> set (render v))"

fun frame_event_name :: "agent_stream_frame \<Rightarrow> string" where
  "frame_event_name (ContextStatus _) = ''context_status''"
| "frame_event_name (Delta _) = ''delta''"
| "frame_event_name StreamCompleted = ''completed''"
| "frame_event_name (StreamError _) = ''error''"

fun frame_members :: "agent_stream_frame \<Rightarrow> (string \<times> json) list" where
  "frame_members (ContextStatus status) = [(''status'', context_status_json status)]"
| "frame_members (Delta delta) = [(''delta'', JString delta)]"
| "frame_members StreamCompleted = []"
| "frame_members (StreamError code) = [(''error'', JString code)]"

definition frame_payload :: "agent_stream_frame \<Rightarrow> json" where
  "frame_payload f = JObject ((''event'', JString (frame_event_name f)) # frame_members f)"

definition frame_lines :: "(json \<Rightarrow> string) \<Rightarrow> agent_stream_frame \<Rightarrow> string" where
  "frame_lines render f = (''event: '' @ frame_event_name f) @ CHR 0x0A # ''data: '' @ render (frame_payload f)"

lemma frame_text: "agent_frame_text render (frame_payload f) = frame_lines render f @ LF2"
  by (simp add: agent_frame_text_def frame_payload_def frame_lines_def LF2_def json_get_def obj_get_def)

lemma send_frames_Ok:
  "send_agent_stream_frames render ch frames = (Inr u, ch') \<Longrightarrow>
     fc_sent ch' = fc_sent ch @ map (\<lambda>f. frame_lines render f @ LF2) frames"
proof (induction frames arbitrary: ch)
  case (Cons f fs)
  have send: "(case f of
         ContextStatus status \<Rightarrow> send_agent_frame render ch
           (JObject [(''event'', JString ''context_status''), (''status'', context_status_json status)])
       | Delta delta \<Rightarrow> send_agent_frame render ch (JObject [(''event'', JString ''delta''), (''delta'', JString delta)])
       | StreamCompleted \<Rightarrow> send_agent_frame render ch (JObject [(''event'', JString ''completed'')])
       | StreamError code \<Rightarrow> send_agent_error render ch code) = channel_send ch (frame_lines render f @ LF2)"
    by (cases f) (simp_all add: send_agent_error_def send_agent_frame_def frame_text [symmetric] frame_payload_def)
  from Cons.prems obtain ch1 where "channel_send ch (frame_lines render f @ LF2) = (Inr (), ch1)"
    and rest: "send_agent_stream_frames render ch1 fs = (Inr u, ch')"
    by (auto simp: send elim: try_st_OkE)
  then have "fc_sent ch1 = fc_sent ch @ [frame_lines render f @ LF2]"
    by (auto simp: channel_send_def split: if_splits)
  with Cons.IH [OF rest] show ?case by simp
qed simp

lemma event_name_plain:
  "list_all (byte_in 0 0x7F) (''event: '' @ frame_event_name f)"
  "CHR 0x0A \<notin> set (''event: '' @ frame_event_name f)" "CHR 0x0D \<notin> set (''event: '' @ frame_event_name f)"
  by (cases f; simp add: byte_in_def)+

lemma nth_only:
  assumes "(e @ x # d) ! i = c" and "i < length (e @ x # d)" and "c \<notin> set e" and "c \<notin> set d"
  shows "i = length e"
proof (rule linorder_cases [of i "length e"])
  assume "i < length e"
  with assms(1,3) show ?thesis by (metis nth_append nth_mem)
next
  assume "length e < i"
  then obtain j where "i = Suc (length e + j)" using less_iff_Suc_add by blast
  with assms have "d ! j = c" and "j < length d" by (auto simp: nth_append)
  with assms(4) show ?thesis by (metis nth_mem)
qed

lemma frame_lines_boundary:
  assumes "renders_one_line render"
  shows "next_sse_boundary (frame_lines render f @ LF2 @ r) = Some (length (frame_lines render f), 2)"
proof (rule boundary_after_frame)
  let ?e = "''event: '' @ frame_event_name f" and ?d = "''data: '' @ render (frame_payload f)"
  have lf: "CHR 0x0A \<notin> set ?d" "CHR 0x0D \<notin> set ?d" using assms by (auto simp: renders_one_line_def)
  show "frame_lines render f \<noteq> []" by (simp add: frame_lines_def)
  show "CHR 0x0D \<notin> set (frame_lines render f)"
    using lf event_name_plain(3) [of f] by (auto simp: frame_lines_def)
  have "last (frame_lines render f) \<in> set ?d" unfolding frame_lines_def by (subst last_append) (simp_all add: last_in_set)
  with lf(1) show "last (frame_lines render f) \<noteq> CHR 0x0A" by metis
  fix i assume i: "Suc i < length (frame_lines render f)" and c: "frame_lines render f ! i = CHR 0x0A"
  have "i = length ?e"
    using nth_only [of ?e "CHR 0x0A" ?d i "CHR 0x0A", folded frame_lines_def] c i event_name_plain(2) [of f] lf(1) Suc_lessD
    by blast
  then show "frame_lines render f ! Suc i \<noteq> CHR 0x0A" by (simp add: frame_lines_def nth_append)
qed

lemma frame_lines_decoded:
  assumes "renders_one_line render"
  shows "decode_sse_frame (frame_lines render f) = Inr (frame_lines render f)"
proof -
  have "valid_utf8 ([CHR 0x0A] @ ''data: '')" by (rule valid_utf8_ascii) (simp add: byte_in_def)
  moreover have "valid_utf8 (''event: '' @ frame_event_name f)" using event_name_plain(1) by (rule valid_utf8_ascii)
  moreover have "valid_utf8 (render (frame_payload f))" using assms by (simp add: renders_one_line_def)
  ultimately have "valid_utf8 ((''event: '' @ frame_event_name f) @ ([CHR 0x0A] @ ''data: '') @ render (frame_payload f))"
    by (metis valid_utf8_append)
  then show ?thesis by (simp add: decode_sse_frame_def frame_lines_def)
qed

lemma frame_lines_payload:
  assumes "renders_one_line render"
  shows "sse_data_payload (frame_lines render f) = Some (render (frame_payload f))"
proof -
  let ?e = "''event: '' @ frame_event_name f" and ?d = "''data: '' @ render (frame_payload f)"
  have d: "CHR 0x0A \<notin> set ?d" "CHR 0x0D \<notin> set ?d" using assms by (auto simp: renders_one_line_def)
  have trim: "trim_end_matches (\<lambda>c. c = CHR 0x0D) l = l" if "CHR 0x0D \<notin> set l" for l
  proof -
    have "dropWhile (\<lambda>c. c = CHR 0x0D) (rev l) = rev l" using that by (cases "rev l") (auto simp: dropWhile_eq_self_iff)
    then show ?thesis by (simp add: trim_end_matches_def)
  qed
  have cr: "strip_cr ?e = ?e"
    using event_name_plain(3) [of f] by (auto simp: strip_cr_def dest: last_in_set)
  have "str_lines (frame_lines render f) = [?e, ?d]"
    unfolding frame_lines_def using str_lines_line [OF event_name_plain(2) [of f]] str_lines_last [OF d(1)] cr by simp
  moreover have "sse_data_line ?e = None"
    unfolding sse_data_line_def trim [OF event_name_plain(3) [of f]] by (simp add: strip_prefix_def)
  moreover have "sse_data_line ?d = Some (render (frame_payload f))"
    unfolding sse_data_line_def trim [OF d(2)] by (simp add: strip_prefix_def)
  ultimately show ?thesis by (simp add: sse_data_payload_def map_filter_simps)
qed

lemma frames_drained:
  assumes "renders_one_line render"
  shows "drain_complete_frames (concat (map (\<lambda>f. frame_lines render f @ LF2) fs)) = (map (\<lambda>f. Inr (frame_lines render f)) fs, [])"
proof (induction fs)
  case Nil
  show ?case by (simp add: drain_complete_frames.simps next_sse_boundary_def)
next
  case (Cons f fs)
  show ?case
    using frame_lines_boundary [OF assms, of f "concat (map (\<lambda>f. frame_lines render f @ LF2) fs)"] Cons
    by (subst drain_complete_frames.simps) (simp add: frame_lines_decoded [OF assms] LF2_def)
qed


definition sample_render :: "json \<Rightarrow> string" where
  "sample_render v = filter (\<lambda>c. byte_in 32 126 c) (concat (json_texts v))"

lemma sample_renders: "renders_one_line sample_render"
  by (auto simp: renders_one_line_def sample_render_def byte_in_def list_all_iff intro!: valid_utf8_ascii)


end
