(* ===== verification/Session_Store.thy ===== *)
theory Session_Store
  imports Grant_Store Audit_Store Device_Sync
begin

text \<open>
  The Postgres repositories of tenants, users, platform identities and device sessions
  (\<open>storage/postgres/identity_sql.rs\<close>, \<open>device_session_sql.rs\<close>, \<open>repository_sqlx/identity/\<close> with its
  codecs and row readers), and the transaction that signs a session out and, with the last active
  session of a user, revokes the user's grants (\<open>repository_sqlx/identity/auth_lifecycle.rs\<close>).
  The columns \<open>created_at\<close> and \<open>updated_at\<close>, which nothing here reads, are left out.
\<close>

section \<open>Tables\<close>

record tenant_row =
  tr_id :: string
  tr_display_name :: string
  tr_status :: string

record user_row =
  ur_id :: string
  ur_tenant_id :: string
  ur_display_name :: string
  ur_status :: string

record identity_row =
  ir_id :: string
  ir_tenant_id :: string
  ir_actor_kind :: string
  ir_actor_external_id :: string
  ir_display_name :: "string option"

record session_row =
  dv_id :: string
  dv_tenant_id :: string
  dv_user_id :: string
  dv_entry_point :: string
  dv_state :: string
  dv_sync_stream :: string
  dv_sync_cursor_value :: int
  dv_sync_cursor_updated_at :: timestamptz
  dv_session_identity_hash :: string
  dv_last_seen_at :: timestamptz
  dv_revoked_at :: "timestamptz option"
  dv_expired_at :: "timestamptz option"

record auth_db =
  ab_tenants :: "tenant_row list"
  ab_users :: "user_row list"
  ab_identities :: "identity_row list"
  ab_sessions :: "session_row list"
  ab_grants :: "token_grant_row list"
  ab_audit :: audit_db

text \<open>The database as the grant repository and the audit repository see it.\<close>

definition grants_view :: "auth_db \<Rightarrow> grant_db" where
  "grants_view db = \<lparr>gd_tenants = map tr_id (ab_tenants db),
     gd_identities = map (\<lambda>i. (ir_tenant_id i, ir_id i)) (ab_identities db), gd_grants = ab_grants db\<rparr>"

definition with_grants :: "(grant_db \<Rightarrow> 'a \<times> grant_db) \<Rightarrow> auth_db \<Rightarrow> 'a \<times> auth_db" where
  "with_grants f db = (case f (grants_view db) of (r, g) \<Rightarrow> (r, db\<lparr>ab_grants := gd_grants g\<rparr>))"

definition audit_view :: "auth_db \<Rightarrow> audit_db" where
  "audit_view db = (ab_audit db)\<lparr>ad_tenants := map tr_id (ab_tenants db)\<rparr>"

definition with_audit :: "(audit_db \<Rightarrow> 'a \<times> audit_db) \<Rightarrow> auth_db \<Rightarrow> 'a \<times> auth_db" where
  "with_audit f db = (case f (audit_view db) of (r, a) \<Rightarrow> (r, db\<lparr>ab_audit := a\<rparr>))"

section \<open>Stored values\<close>

record stored_tenant =
  st_id :: string
  st_display_name :: string
  st_status :: tenant_status

record stored_workspace_user =
  su_id :: string
  su_tenant_id :: string
  su_display_name :: string
  su_status :: workspace_user_status

record stored_lark_identity =
  sl_id :: string
  sl_tenant_id :: string
  sl_actor_kind :: actor_kind
  sl_actor_external_id :: string
  sl_display_name :: "string option"

record stored_device_session =
  sn_id :: string
  sn_tenant_id :: string
  sn_user_id :: string
  sn_entry_point :: device_entry_point
  sn_state :: session_state
  sn_sync_stream :: string
  sn_sync_cursor_value :: u64
  sn_sync_cursor_updated_at :: system_time
  sn_session_identity_hash :: string
  sn_last_seen_at :: system_time
  sn_revoked_at :: "system_time option"
  sn_expired_at :: "system_time option"

fun tenant_status_to_db :: "tenant_status \<Rightarrow> string" where
  "tenant_status_to_db TenantActive = ''active''"
| "tenant_status_to_db TenantSuspended = ''suspended''"

definition tenant_status_from_db :: "string \<Rightarrow> (tenant_status, postgres_repository_error) result" where
  "tenant_status_from_db value =
     (if value = ''active'' then Ok TenantActive
      else if value = ''suspended'' then Ok TenantSuspended
      else Err (UnknownTenantStatus value))"

fun workspace_user_status_to_db :: "workspace_user_status \<Rightarrow> string" where
  "workspace_user_status_to_db UserActive = ''active''"
| "workspace_user_status_to_db UserDisabled = ''disabled''"

definition workspace_user_status_from_db ::
  "string \<Rightarrow> (workspace_user_status, postgres_repository_error) result" where
  "workspace_user_status_from_db value =
     (if value = ''active'' then Ok UserActive
      else if value = ''disabled'' then Ok UserDisabled
      else Err (UnknownWorkspaceUserStatus value))"

fun device_entry_point_to_db :: "device_entry_point \<Rightarrow> string" where
  "device_entry_point_to_db MacOs = ''macos''"
| "device_entry_point_to_db Ios = ''ios''"
| "device_entry_point_to_db Web = ''web''"
| "device_entry_point_to_db LarkEntry = ''lark''"

definition device_entry_point_from_db ::
  "string \<Rightarrow> (device_entry_point, postgres_repository_error) result" where
  "device_entry_point_from_db value =
     (if value = ''macos'' then Ok MacOs
      else if value = ''ios'' then Ok Ios
      else if value = ''web'' then Ok Web
      else if value = ''lark'' then Ok LarkEntry
      else Err (UnknownDeviceEntryPoint value))"

fun device_session_state_to_db :: "session_state \<Rightarrow> string" where
  "device_session_state_to_db SessionActive = ''active''"
| "device_session_state_to_db SessionRevokedState = ''revoked''"
| "device_session_state_to_db SessionExpiredState = ''expired''"

definition device_session_state_from_db ::
  "string \<Rightarrow> (session_state, postgres_repository_error) result" where
  "device_session_state_from_db value =
     (if value = ''active'' then Ok SessionActive
      else if value = ''revoked'' then Ok SessionRevokedState
      else if value = ''expired'' then Ok SessionExpiredState
      else Err (UnknownDeviceSessionState value))"

definition stored_tenant_from_row :: "tenant_row \<Rightarrow> (stored_tenant, postgres_repository_error) result" where
  "stored_tenant_from_row r = try_then (tenant_status_from_db (tr_status r)) (\<lambda>status.
     Ok \<lparr>st_id = tr_id r, st_display_name = tr_display_name r, st_status = status\<rparr>)"

definition stored_workspace_user_from_row ::
  "user_row \<Rightarrow> (stored_workspace_user, postgres_repository_error) result" where
  "stored_workspace_user_from_row r = try_then (workspace_user_status_from_db (ur_status r)) (\<lambda>status.
     Ok \<lparr>su_id = ur_id r, su_tenant_id = ur_tenant_id r, su_display_name = ur_display_name r, su_status = status\<rparr>)"

definition stored_lark_identity_from_row ::
  "identity_row \<Rightarrow> (stored_lark_identity, postgres_repository_error) result" where
  "stored_lark_identity_from_row r = try_then (identity_actor_kind_from_db (ir_actor_kind r)) (\<lambda>kind.
     Ok \<lparr>sl_id = ir_id r, sl_tenant_id = ir_tenant_id r, sl_actor_kind = kind,
        sl_actor_external_id = ir_actor_external_id r, sl_display_name = ir_display_name r\<rparr>)"

definition stored_device_session_from_row ::
  "session_row \<Rightarrow> (stored_device_session, postgres_repository_error) result" where
  "stored_device_session_from_row r =
     try_then (device_entry_point_from_db (dv_entry_point r)) (\<lambda>entry.
     try_then (device_session_state_from_db (dv_state r)) (\<lambda>state.
     try_then (non_negative_i64_to_u64 (dv_sync_cursor_value r) ''sync_cursor_value'') (\<lambda>cursor.
     try_then (non_negative_i64_to_u64 (epoch_ms (dv_sync_cursor_updated_at r)) ''sync_cursor_updated_at_ms'') (\<lambda>cursor_at.
     try_then (non_negative_i64_to_u64 (epoch_ms (dv_last_seen_at r)) ''last_seen_at_ms'') (\<lambda>seen.
     try_then (optional_non_negative_i64_to_u64 (map_option epoch_ms (dv_revoked_at r)) ''revoked_at_ms'') (\<lambda>revoked.
     try_then (optional_non_negative_i64_to_u64 (map_option epoch_ms (dv_expired_at r)) ''expired_at_ms'') (\<lambda>expired.
       Ok \<lparr>sn_id = dv_id r, sn_tenant_id = dv_tenant_id r, sn_user_id = dv_user_id r, sn_entry_point = entry,
          sn_state = state, sn_sync_stream = dv_sync_stream r, sn_sync_cursor_value = cursor,
          sn_sync_cursor_updated_at = ms_to_system_time cursor_at,
          sn_session_identity_hash = dv_session_identity_hash r, sn_last_seen_at = ms_to_system_time seen,
          sn_revoked_at = map_option ms_to_system_time revoked,
          sn_expired_at = map_option ms_to_system_time expired\<rparr>)))))))"

section \<open>Tenants, users, identities\<close>

definition UPSERT_TENANT :: "auth_db \<Rightarrow> tenant_row \<Rightarrow> tenant_row \<times> auth_db" where
  "UPSERT_TENANT db new =
     (if list_ex (\<lambda>r. tr_id r = tr_id new) (ab_tenants db)
      then (new, db\<lparr>ab_tenants := map_where (\<lambda>r. tr_id r = tr_id new) (\<lambda>_. new) (ab_tenants db)\<rparr>)
      else (new, db\<lparr>ab_tenants := ab_tenants db @ [new]\<rparr>))"

definition tenant_upsert ::
  "auth_db \<Rightarrow> tenant \<Rightarrow> (stored_tenant, postgres_repository_error) result \<times> auth_db" where
  "tenant_upsert db t =
     (case UPSERT_TENANT db \<lparr>tr_id = tenant_str (tn_id t), tr_display_name = tn_display_name t,
         tr_status = tenant_status_to_db (tn_status t)\<rparr> of (row, db) \<Rightarrow> (stored_tenant_from_row row, db))"

definition tenant_get_by_id ::
  "auth_db \<Rightarrow> string \<Rightarrow> (stored_tenant option, postgres_repository_error) result" where
  "tenant_get_by_id db tenant_id =
     transpose_map stored_tenant_from_row (find (\<lambda>r. tr_id r = tenant_id) (ab_tenants db))"

text \<open>\<open>LIST_ACTIVE_TENANT_IDS\<close>; the order of texts is the collation's.\<close>

definition list_active_ids :: "(string \<Rightarrow> 'k::linorder) \<Rightarrow> auth_db \<Rightarrow> string list" where
  "list_active_ids collate db =
     sort_key collate (map tr_id (filter (\<lambda>r. tr_status r = ''active'') (ab_tenants db)))"

text \<open>
  The upserts of a row that belongs to a tenant: a row of another tenant with the same id is left
  alone and no row is returned. The second part of their \<open>UNION\<close> finds nothing that the first
  does not.
\<close>

definition UPSERT_WORKSPACE_USER ::
  "auth_db \<Rightarrow> user_row \<Rightarrow> (user_row option \<times> auth_db, postgres_repository_error) result" where
  "UPSERT_WORKSPACE_USER db new =
     (case find (\<lambda>r. ur_id r = ur_id new) (ab_users db) of
        None \<Rightarrow>
          if ur_tenant_id new \<notin> tr_id ` set (ab_tenants db) then Err (Sqlx (DatabaseError ''constraint violation''))
          else Ok (Some new, db\<lparr>ab_users := ab_users db @ [new]\<rparr>)
      | Some r \<Rightarrow>
          if ur_tenant_id r = ur_tenant_id new
          then Ok (Some new, db\<lparr>ab_users := map_where (\<lambda>r. ur_id r = ur_id new) (\<lambda>_. new) (ab_users db)\<rparr>)
          else Ok (None, db))"

text \<open>A text other than the tenant's id stands for the tenant that holds the row.\<close>

definition redacted_tenant_actual :: string where
  "redacted_tenant_actual = ''<redacted>''"

definition tenant_mismatch_or_row_not_found ::
  "bool \<Rightarrow> string \<Rightarrow> ('a, postgres_repository_error) result" where
  "tenant_mismatch_or_row_not_found row_exists expected_tenant_id =
     (if row_exists then Err (TenantMismatch ''tenant_id'' expected_tenant_id redacted_tenant_actual)
      else Err (Sqlx RowNotFound))"

definition user_upsert ::
  "auth_db \<Rightarrow> workspace_user \<Rightarrow> (stored_workspace_user, postgres_repository_error) result \<times> auth_db" where
  "user_upsert db u =
     try_st (exec_sql db (UPSERT_WORKSPACE_USER db \<lparr>ur_id = user_str (wu_id u),
         ur_tenant_id = tenant_str (wu_tenant_id u), ur_display_name = wu_display_name u,
         ur_status = workspace_user_status_to_db (wu_status u)\<rparr>)) (\<lambda>row db.
       case row of
         Some row \<Rightarrow> (stored_workspace_user_from_row row, db)
       | None \<Rightarrow> (tenant_mismatch_or_row_not_found (list_ex (\<lambda>r. ur_id r = user_str (wu_id u)) (ab_users db))
            (tenant_str (wu_tenant_id u)), db))"

definition user_get_by_id ::
  "auth_db \<Rightarrow> string \<Rightarrow> string \<Rightarrow> (stored_workspace_user option, postgres_repository_error) result" where
  "user_get_by_id db tenant_id user_id = transpose_map stored_workspace_user_from_row
     (find (\<lambda>r. ur_tenant_id r = tenant_id \<and> ur_id r = user_id) (ab_users db))"

definition external_key :: "identity_row \<Rightarrow> string \<times> string \<times> string" where
  "external_key r = (ir_tenant_id r, ir_actor_kind r, ir_actor_external_id r)"

definition UPSERT_LARK_IDENTITY ::
  "auth_db \<Rightarrow> identity_row \<Rightarrow> (identity_row option \<times> auth_db, postgres_repository_error) result" where
  "UPSERT_LARK_IDENTITY db new =
     (let taken = list_ex (\<lambda>r. ir_id r \<noteq> ir_id new \<and> external_key r = external_key new) (ab_identities db)
      in case find (\<lambda>r. ir_id r = ir_id new) (ab_identities db) of
        None \<Rightarrow>
          if taken then Err (Sqlx (DatabaseError ''unique violation''))
          else if ir_tenant_id new \<notin> tr_id ` set (ab_tenants db) then Err (Sqlx (DatabaseError ''constraint violation''))
          else Ok (Some new, db\<lparr>ab_identities := ab_identities db @ [new]\<rparr>)
      | Some r \<Rightarrow>
          if ir_tenant_id r \<noteq> ir_tenant_id new then Ok (None, db)
          else if taken then Err (Sqlx (DatabaseError ''unique violation''))
          else Ok (Some new, db\<lparr>ab_identities := map_where (\<lambda>r. ir_id r = ir_id new) (\<lambda>_. new) (ab_identities db)\<rparr>))"

definition is_unique_violation :: "postgres_repository_error \<Rightarrow> bool" where
  "is_unique_violation error \<longleftrightarrow> error = Sqlx (DatabaseError ''unique violation'')"

definition GET_LARK_IDENTITY_BY_ACTOR_EXTERNAL :: "auth_db \<Rightarrow> string \<Rightarrow> string \<Rightarrow> string \<Rightarrow> identity_row option" where
  "GET_LARK_IDENTITY_BY_ACTOR_EXTERNAL db tenant kind external_id =
     find (\<lambda>r. external_key r = (tenant, kind, external_id)) (ab_identities db)"

definition identity_upsert ::
  "auth_db \<Rightarrow> lark_identity \<Rightarrow> (stored_lark_identity, postgres_repository_error) result \<times> auth_db" where
  "identity_upsert db i =
     (let tenant = tenant_str (li_tenant_id i); kind = actor_kind_to_db (li_actor_kind i) in
      case exec_sql db (UPSERT_LARK_IDENTITY db \<lparr>ir_id = identity_str (li_id i), ir_tenant_id = tenant,
          ir_actor_kind = kind, ir_actor_external_id = li_actor_external_id i, ir_display_name = li_display_name i\<rparr>) of
        (Inl error, db) \<Rightarrow>
          if is_unique_violation error
          then (try_then (transpose_map stored_lark_identity_from_row
                  (GET_LARK_IDENTITY_BY_ACTOR_EXTERNAL db tenant kind (li_actor_external_id i))) (\<lambda>conflicting.
                case conflicting of
                  Some conflicting \<Rightarrow> if sl_id conflicting \<noteq> identity_str (li_id i)
                    then Err (LarkIdentityActorExternalBindingConflict tenant (li_actor_kind i) (li_actor_external_id i))
                    else Err error
                | None \<Rightarrow> Err error), db)
          else (Err error, db)
      | (Inr (Some row), db) \<Rightarrow> (stored_lark_identity_from_row row, db)
      | (Inr None, db) \<Rightarrow> (tenant_mismatch_or_row_not_found
            (list_ex (\<lambda>r. ir_id r = identity_str (li_id i)) (ab_identities db)) tenant, db))"

definition identity_get_by_id ::
  "auth_db \<Rightarrow> string \<Rightarrow> string \<Rightarrow> (stored_lark_identity option, postgres_repository_error) result" where
  "identity_get_by_id db tenant_id identity_id = transpose_map stored_lark_identity_from_row
     (find (\<lambda>r. ir_tenant_id r = tenant_id \<and> ir_id r = identity_id) (ab_identities db))"

definition identity_get_by_actor_external_id ::
  "auth_db \<Rightarrow> string \<Rightarrow> actor_kind \<Rightarrow> string \<Rightarrow> (stored_lark_identity option, postgres_repository_error) result" where
  "identity_get_by_actor_external_id db tenant_id kind external_id = transpose_map stored_lark_identity_from_row
     (GET_LARK_IDENTITY_BY_ACTOR_EXTERNAL db tenant_id (actor_kind_to_db kind) external_id)"

section \<open>Device sessions\<close>

definition active_session :: "session_row \<Rightarrow> bool" where
  "active_session r \<longleftrightarrow> dv_state r = ''active'' \<and> dv_revoked_at r = None \<and> dv_expired_at r = None"

text \<open>The checks come before the conflict on the id, the references after it.\<close>

definition session_references :: "auth_db \<Rightarrow> session_row \<Rightarrow> bool" where
  "session_references db r \<longleftrightarrow>
     dv_tenant_id r \<in> tr_id ` set (ab_tenants db) \<and>
     (dv_tenant_id r, dv_user_id r) \<in> (\<lambda>u. (ur_tenant_id u, ur_id u)) ` set (ab_users db)"

definition session_row_check :: "session_row \<Rightarrow> bool" where
  "session_row_check r \<longleftrightarrow>
     dv_entry_point r \<in> {''macos'', ''ios'', ''web'', ''lark''} \<and>
     dv_state r \<in> {''active'', ''revoked'', ''expired''} \<and> 0 \<le> dv_sync_cursor_value r"

definition upserted_session_row :: "session_row \<Rightarrow> session_row \<Rightarrow> session_row" where
  "upserted_session_row excluded r = r\<lparr>dv_user_id := dv_user_id excluded,
     dv_entry_point := dv_entry_point excluded, dv_sync_stream := dv_sync_stream excluded,
     dv_sync_cursor_value := dv_sync_cursor_value excluded,
     dv_sync_cursor_updated_at := dv_sync_cursor_updated_at excluded,
     dv_session_identity_hash := dv_session_identity_hash excluded,
     dv_last_seen_at := dv_last_seen_at excluded\<rparr>"

text \<open>
  A new row, or the change of an active row of the same tenant; every other row of the tenant is
  returned as it is, a row of another tenant is not returned.
\<close>

definition UPSERT_DEVICE_SESSION ::
  "auth_db \<Rightarrow> session_row \<Rightarrow> (session_row option \<times> auth_db, postgres_repository_error) result" where
  "UPSERT_DEVICE_SESSION db new =
     (let taken = list_ex (\<lambda>r. dv_id r \<noteq> dv_id new \<and> dv_tenant_id r = dv_tenant_id new \<and>
            dv_session_identity_hash r = dv_session_identity_hash new) (ab_sessions db)
      in if \<not> session_row_check new then Err (Sqlx (DatabaseError ''constraint violation''))
      else case find (\<lambda>r. dv_id r = dv_id new) (ab_sessions db) of
        None \<Rightarrow>
          if taken then Err (Sqlx (DatabaseError ''unique violation''))
          else if \<not> session_references db new then Err (Sqlx (DatabaseError ''constraint violation''))
          else Ok (Some new, db\<lparr>ab_sessions := ab_sessions db @ [new]\<rparr>)
      | Some r \<Rightarrow>
          if dv_tenant_id r = dv_tenant_id new \<and> active_session r
          then if taken then Err (Sqlx (DatabaseError ''unique violation''))
               else if \<not> session_references db new then Err (Sqlx (DatabaseError ''constraint violation''))
               else Ok (Some (upserted_session_row new r),
                 db\<lparr>ab_sessions := map_where (\<lambda>r. dv_id r = dv_id new) (upserted_session_row new) (ab_sessions db)\<rparr>)
          else Ok (if dv_tenant_id r = dv_tenant_id new then Some r else None, db))"

definition GET_DEVICE_SESSION_BY_ID :: "auth_db \<Rightarrow> string \<Rightarrow> string \<Rightarrow> session_row option" where
  "GET_DEVICE_SESSION_BY_ID db tenant session_id =
     find (\<lambda>r. dv_tenant_id r = tenant \<and> dv_id r = session_id) (ab_sessions db)"

definition GET_DEVICE_SESSION_BY_SESSION_ID :: "auth_db \<Rightarrow> string \<Rightarrow> session_row option" where
  "GET_DEVICE_SESSION_BY_SESSION_ID db session_id = find (\<lambda>r. dv_id r = session_id) (ab_sessions db)"

definition update_session ::
  "(session_row \<Rightarrow> bool) \<Rightarrow> (session_row \<Rightarrow> session_row) \<Rightarrow> auth_db \<Rightarrow> session_row option \<times> auth_db" where
  "update_session P f db =
     (map_option f (find P (ab_sessions db)), db\<lparr>ab_sessions := map_where P f (ab_sessions db)\<rparr>)"

definition ADVANCE_DEVICE_SESSION_CURSOR_CAS ::
  "(int \<Rightarrow> timestamptz option) \<Rightarrow> auth_db \<Rightarrow> string \<Rightarrow> string \<Rightarrow> int \<Rightarrow> int \<Rightarrow> int
     \<Rightarrow> (session_row option \<times> auth_db, postgres_repository_error) result" where
  "ADVANCE_DEVICE_SESSION_CURSOR_CAS to_ts db tenant session_id next_cursor now_ms expected_cursor =
     try_then (sql_timestamp to_ts now_ms) (\<lambda>now. Ok (update_session
       (\<lambda>r. dv_tenant_id r = tenant \<and> dv_id r = session_id \<and> dv_sync_cursor_value r = expected_cursor \<and>
          dv_sync_cursor_value r < next_cursor \<and> dv_last_seen_at r \<le> now \<and> active_session r)
       (\<lambda>r. r\<lparr>dv_sync_cursor_value := next_cursor, dv_sync_cursor_updated_at := now, dv_last_seen_at := now\<rparr>) db))"

definition REVOKE_DEVICE_SESSION ::
  "(int \<Rightarrow> timestamptz option) \<Rightarrow> auth_db \<Rightarrow> string \<Rightarrow> string \<Rightarrow> int
     \<Rightarrow> (session_row option \<times> auth_db, postgres_repository_error) result" where
  "REVOKE_DEVICE_SESSION to_ts db tenant session_id now_ms =
     try_then (sql_timestamp to_ts now_ms) (\<lambda>now. Ok (update_session
       (\<lambda>r. dv_tenant_id r = tenant \<and> dv_id r = session_id \<and> dv_state r \<noteq> ''revoked'')
       (\<lambda>r. r\<lparr>dv_state := ''revoked'', dv_revoked_at := Some (case dv_revoked_at r of None \<Rightarrow> now | Some t \<Rightarrow> t)\<rparr>) db))"

definition EXPIRE_DEVICE_SESSION ::
  "(int \<Rightarrow> timestamptz option) \<Rightarrow> auth_db \<Rightarrow> string \<Rightarrow> string \<Rightarrow> int
     \<Rightarrow> (session_row option \<times> auth_db, postgres_repository_error) result" where
  "EXPIRE_DEVICE_SESSION to_ts db tenant session_id now_ms =
     try_then (sql_timestamp to_ts now_ms) (\<lambda>now. Ok (update_session
       (\<lambda>r. dv_tenant_id r = tenant \<and> dv_id r = session_id \<and> dv_state r = ''active'' \<and> dv_revoked_at r = None)
       (\<lambda>r. r\<lparr>dv_state := ''expired'', dv_expired_at := Some (case dv_expired_at r of None \<Rightarrow> now | Some t \<Rightarrow> t)\<rparr>) db))"

definition option_system_time_to_i64_ms ::
  "system_time option \<Rightarrow> (int option, postgres_repository_error) result" where
  "option_system_time_to_i64_ms value =
     try_then (transpose_map pg_system_time_to_ms value) (\<lambda>ms. Ok (map_option u64_as_i64 ms))"

definition session_row_of ::
  "(int \<Rightarrow> timestamptz option) \<Rightarrow> device_session \<Rightarrow> string \<Rightarrow> (session_row, postgres_repository_error) result" where
  "session_row_of to_ts s session_identity_hash =
     try_then (pg_system_time_to_ms (cu_updated_at (ds_cursor s))) (\<lambda>cursor_ms.
     try_then (pg_system_time_to_ms (ds_last_seen_at s)) (\<lambda>seen_ms.
     try_then (option_system_time_to_i64_ms (ds_revoked_at s)) (\<lambda>revoked_ms.
     try_then (option_system_time_to_i64_ms (ds_expired_at s)) (\<lambda>expired_ms.
     try_then (sql_timestamp to_ts (u64_as_i64 cursor_ms)) (\<lambda>cursor_at.
     try_then (sql_timestamp to_ts (u64_as_i64 seen_ms)) (\<lambda>seen.
     try_then (sql_timestamp_option to_ts revoked_ms) (\<lambda>revoked.
     try_then (sql_timestamp_option to_ts expired_ms) (\<lambda>expired.
       Ok \<lparr>dv_id = session_str (ds_id s), dv_tenant_id = tenant_str (ds_tenant_id s),
          dv_user_id = user_str (ds_user_id s), dv_entry_point = device_entry_point_to_db (ds_entry_point s),
          dv_state = device_session_state_to_db (ds_state s), dv_sync_stream = cu_stream (ds_cursor s),
          dv_sync_cursor_value = u64_as_i64 (cu_value (ds_cursor s)), dv_sync_cursor_updated_at = cursor_at,
          dv_session_identity_hash = session_identity_hash, dv_last_seen_at = seen,
          dv_revoked_at = revoked, dv_expired_at = expired\<rparr>))))))))"

definition upsert_with_identity_hash ::
  "(int \<Rightarrow> timestamptz option) \<Rightarrow> auth_db \<Rightarrow> device_session \<Rightarrow> string
     \<Rightarrow> (stored_device_session, postgres_repository_error) result \<times> auth_db" where
  "upsert_with_identity_hash to_ts db s session_identity_hash =
     try_st (exec_sql db (try_then (session_row_of to_ts s session_identity_hash) (UPSERT_DEVICE_SESSION db))) (\<lambda>row db.
       case row of
         Some row \<Rightarrow> (stored_device_session_from_row row, db)
       | None \<Rightarrow> (tenant_mismatch_or_row_not_found (list_ex (\<lambda>r. dv_id r = session_str (ds_id s)) (ab_sessions db))
            (tenant_str (ds_tenant_id s)), db))"

definition session_get_by_id ::
  "auth_db \<Rightarrow> string \<Rightarrow> string \<Rightarrow> (stored_device_session option, postgres_repository_error) result" where
  "session_get_by_id db tenant_id session_id =
     transpose_map stored_device_session_from_row (GET_DEVICE_SESSION_BY_ID db tenant_id session_id)"

definition get_by_session_id_for_authentication ::
  "auth_db \<Rightarrow> string \<Rightarrow> (stored_device_session option, postgres_repository_error) result" where
  "get_by_session_id_for_authentication db session_id =
     transpose_map stored_device_session_from_row (GET_DEVICE_SESSION_BY_SESSION_ID db session_id)"

definition returned_session ::
  "auth_db \<Rightarrow> (session_row option \<times> auth_db, postgres_repository_error) result
     \<Rightarrow> (stored_device_session option, postgres_repository_error) result \<times> auth_db" where
  "returned_session db stmt =
     try_st (exec_sql db stmt) (\<lambda>row db. (transpose_map stored_device_session_from_row row, db))"

definition advance_cursor_cas ::
  "(int \<Rightarrow> timestamptz option) \<Rightarrow> auth_db \<Rightarrow> string \<Rightarrow> string \<Rightarrow> u64 \<Rightarrow> u64 \<Rightarrow> system_time
     \<Rightarrow> (stored_device_session option, postgres_repository_error) result \<times> auth_db" where
  "advance_cursor_cas to_ts db tenant_id session_id expected_cursor next_cursor now =
     try_st (pg_system_time_to_ms now, db) (\<lambda>now_ms db. returned_session db
       (ADVANCE_DEVICE_SESSION_CURSOR_CAS to_ts db tenant_id session_id (u64_as_i64 next_cursor)
          (u64_as_i64 now_ms) (u64_as_i64 expected_cursor)))"

definition session_revoke ::
  "(int \<Rightarrow> timestamptz option) \<Rightarrow> auth_db \<Rightarrow> string \<Rightarrow> string \<Rightarrow> system_time
     \<Rightarrow> (stored_device_session option, postgres_repository_error) result \<times> auth_db" where
  "session_revoke to_ts db tenant_id session_id now =
     try_st (pg_system_time_to_ms now, db) (\<lambda>now_ms db. returned_session db
       (REVOKE_DEVICE_SESSION to_ts db tenant_id session_id (u64_as_i64 now_ms)))"

definition session_expire ::
  "(int \<Rightarrow> timestamptz option) \<Rightarrow> auth_db \<Rightarrow> string \<Rightarrow> string \<Rightarrow> system_time
     \<Rightarrow> (stored_device_session option, postgres_repository_error) result \<times> auth_db" where
  "session_expire to_ts db tenant_id session_id now =
     try_st (pg_system_time_to_ms now, db) (\<lambda>now_ms db. returned_session db
       (EXPIRE_DEVICE_SESSION to_ts db tenant_id session_id (u64_as_i64 now_ms)))"

section \<open>Signing out\<close>

record auth_logout_revoke_request =
  lq_tenant_id :: string
  lq_user_id :: string
  lq_session_id :: string
  lq_grant_id_hint :: "string option"
  lq_occurred_at_ms :: u64
  lq_revocation_reason :: string
  lq_audit_trace_id :: string
  lq_audit_action_type :: string

definition remaining_active_sessions :: "auth_db \<Rightarrow> string \<Rightarrow> string \<Rightarrow> nat" where
  "remaining_active_sessions db tenant user =
     length (filter (\<lambda>r. dv_tenant_id r = tenant \<and> dv_user_id r = user \<and> active_session r) (ab_sessions db))"

text \<open>The condition of the join of grants and identities.\<close>

definition user_grant :: "auth_db \<Rightarrow> string \<Rightarrow> string \<Rightarrow> string option \<Rightarrow> token_grant_row \<Rightarrow> bool" where
  "user_grant db tenant user hint g \<longleftrightarrow>
     gr_tenant_id g = tenant \<and> gr_actor_kind g = ''user'' \<and> gr_scope_boundary g = ''user'' \<and>
     list_ex (\<lambda>i. ir_id i = gr_identity_id g \<and> ir_tenant_id i = gr_tenant_id g \<and>
       (hint = Some (gr_id g) \<or> ir_actor_kind i = ''user'' \<and> ir_actor_external_id i = user)) (ab_identities db)"

definition revoke_user_grants_in_tx ::
  "(int \<Rightarrow> timestamptz option) \<Rightarrow> (string \<Rightarrow> 'k::linorder) \<Rightarrow> auth_db \<Rightarrow> auth_logout_revoke_request \<Rightarrow> int
     \<Rightarrow> (string list, postgres_repository_error) result \<times> auth_db" where
  "revoke_user_grants_in_tx to_ts collate db request occurred_at_ms =
     exec_sql db (try_then (sql_timestamp to_ts occurred_at_ms) (\<lambda>now.
       let P = (\<lambda>g. user_grant db (lq_tenant_id request) (lq_user_id request) (lq_grant_id_hint request) g \<and>
             gr_state g \<noteq> ''revoked'')
       in Ok (sort_key collate (map gr_id (filter P (ab_grants db))),
            db\<lparr>ab_grants := map_where P (revoked_row now (lq_revocation_reason request)) (ab_grants db)\<rparr>)))"

definition logout_grant_revoke_audit_event :: "auth_logout_revoke_request \<Rightarrow> string \<Rightarrow> u64 \<Rightarrow> audit_event" where
  "logout_grant_revoke_audit_event request grant_id sequence =
     execution_succeeded_event
       \<lparr>ac_event_id = lq_audit_trace_id request @ ''-evt-'' @ show_u64 sequence,
        ac_trace_id = lq_audit_trace_id request, ac_sequence = sequence,
        ac_occurred_at_ms = lq_occurred_at_ms request, ac_subject =
          \<lparr>asb_actor = \<lparr>aa_kind = AuditUser, aa_actor_id = lq_user_id request, aa_display_name = None\<rparr>,
           asb_scope = \<lparr>as_tenant_id = lq_tenant_id request, as_workspace_id = None\<rparr>,
           asb_target = \<lparr>at_resource_type = ''token_grant'', at_resource_id = grant_id,
             at_action_type = lq_audit_action_type request\<rparr>\<rparr>\<rparr>
       (Some \<lparr>ss_summary = ''Local Feishu token grant was active before last-device logout revoke.'',
          ss_reference_ids = [], ss_content_hash = None\<rparr>)
       (Some \<lparr>ss_summary = ''Local Feishu token grant was revoked after the last active OAR device signed out.'',
          ss_reference_ids = [], ss_content_hash = None\<rparr>)
       (''token-grant-revoke:'' @ grant_id)"

fun append_revoke_events ::
  "audit_json \<Rightarrow> auth_db \<Rightarrow> auth_logout_revoke_request \<Rightarrow> nat \<Rightarrow> string list
     \<Rightarrow> (unit, postgres_repository_error) result \<times> auth_db" where
  "append_revoke_events J db request index [] = (Ok (), db)"
| "append_revoke_events J db request index (grant_id # grant_ids) =
     try_st (with_audit (\<lambda>a. pg_audit_append J a
         (logout_grant_revoke_audit_event request grant_id (of_nat (index + 1))) None) db)
       (\<lambda>_ db. append_revoke_events J db request (index + 1) grant_ids)"

text \<open>The first statement of the transaction locks rows and changes nothing.\<close>

definition revoke_logout_session_and_last_device_grants ::
  "(int \<Rightarrow> timestamptz option) \<Rightarrow> (string \<Rightarrow> 'k::linorder) \<Rightarrow> audit_json \<Rightarrow> auth_db \<Rightarrow> auth_logout_revoke_request
     \<Rightarrow> (string list, postgres_repository_error) result \<times> auth_db" where
  "revoke_logout_session_and_last_device_grants to_ts collate J db request =
     (let occurred_at_ms = u64_as_i64 (lq_occurred_at_ms request) in in_tx db (
        try_st (exec_sql db (REVOKE_DEVICE_SESSION to_ts db (lq_tenant_id request) (lq_session_id request) occurred_at_ms)) (\<lambda>_ db.
        if remaining_active_sessions db (lq_tenant_id request) (lq_user_id request) = 0
        then try_st (revoke_user_grants_in_tx to_ts collate db request occurred_at_ms) (\<lambda>revoked_grant_ids db.
             try_st (append_revoke_events J db request 0 revoked_grant_ids) (\<lambda>_ db. (Ok revoked_grant_ids, db)))
        else (Ok [], db))))"

section \<open>Rows that only move on\<close>

text \<open>
  A table in which a row keeps its key and only moves along a relation, and new rows come with new
  keys: over any sequence of calls every row is still there, further along.
\<close>

definition table_evolves :: "('r \<Rightarrow> 'k) \<Rightarrow> ('r \<Rightarrow> 'r \<Rightarrow> bool) \<Rightarrow> 'r list \<Rightarrow> 'r list \<Rightarrow> bool" where
  "table_evolves key evolves rows rows' \<longleftrightarrow> (\<exists>f new. rows' = map f rows @ new \<and>
     (\<forall>r \<in> set rows. key (f r) = key r \<and> evolves r (f r)) \<and>
     distinct (map key new) \<and> key ` set new \<inter> key ` set rows = {})"

locale evolving_table =
  fixes rows :: "'db \<Rightarrow> 'r list"
    and key :: "'r \<Rightarrow> 'k"
    and evolves :: "'r \<Rightarrow> 'r \<Rightarrow> bool"
    and apply_op :: "'op \<Rightarrow> 'db \<Rightarrow> 'db"
  assumes evolves_refl: "evolves r r"
    and evolves_trans: "evolves r s \<Longrightarrow> evolves s t \<Longrightarrow> evolves r t"
    and step: "table_evolves key evolves (rows db) (rows (apply_op c db))"
begin

lemma row_evolves:
  "r \<in> set (rows db) \<Longrightarrow> \<exists>r' \<in> set (rows (fold apply_op cs db)). key r' = key r \<and> evolves r r'"
proof (induction cs arbitrary: r db)
  case Nil
  then show ?case by (auto intro: evolves_refl)
next
  case (Cons c cs)
  from step [of db c] obtain f new where "rows (apply_op c db) = map f (rows db) @ new"
    and "\<forall>r \<in> set (rows db). key (f r) = key r \<and> evolves r (f r)" unfolding table_evolves_def by blast
  with Cons.prems obtain s where "s \<in> set (rows (apply_op c db))" and s: "key s = key r" "evolves r s" by auto
  from Cons.IH [OF this(1)] obtain t where "t \<in> set (rows (fold apply_op cs (apply_op c db)))" "key t = key s" "evolves s t"
    by blast
  with s show ?case by (auto intro: evolves_trans)
qed

lemma keys_distinct: "distinct (map key (rows db)) \<Longrightarrow> distinct (map key (rows (fold apply_op cs db)))"
proof (induction cs arbitrary: db)
  case (Cons c cs)
  from step [of db c] obtain f new where rows: "rows (apply_op c db) = map f (rows db) @ new"
    and f: "\<forall>r \<in> set (rows db). key (f r) = key r" and new: "distinct (map key new)" "key ` set new \<inter> key ` set (rows db) = {}"
    unfolding table_evolves_def by blast
  from f have keys: "map key (map f (rows db)) = map key (rows db)" by simp
  then have "key ` f ` set (rows db) = key ` set (rows db)" by (metis list.set_map)
  with keys new Cons.prems have "distinct (map key (map f (rows db) @ new))"
    unfolding map_append distinct_append by (simp only: keys) (auto simp: Int_commute)
  with rows have "distinct (map key (rows (apply_op c db)))" by simp
  with Cons.IH show ?case by simp
qed simp

end

text \<open>The calls of the repositories that share this database.\<close>

datatype auth_call =
    SaveTenant tenant
  | SaveUser workspace_user
  | SaveIdentity lark_identity
  | SaveGrant encrypted_token_grant_record
  | RefreshGrant token_refresh_command
  | SaveSession device_session string
  | AdvanceSession string string u64 u64 system_time
  | RevokeSession string string system_time
  | ExpireSession string string system_time
  | SignOut auth_logout_revoke_request

fun auth_apply ::
  "(int \<Rightarrow> timestamptz option) \<Rightarrow> (string \<Rightarrow> 'k::linorder) \<Rightarrow> audit_json \<Rightarrow> auth_call \<Rightarrow> auth_db \<Rightarrow> auth_db" where
  "auth_apply to_ts collate J (SaveTenant t) db = snd (tenant_upsert db t)"
| "auth_apply to_ts collate J (SaveUser u) db = snd (user_upsert db u)"
| "auth_apply to_ts collate J (SaveIdentity i) db = snd (identity_upsert db i)"
| "auth_apply to_ts collate J (SaveGrant g) db = snd (with_grants (\<lambda>gs. upsert_encrypted_grant to_ts gs g) db)"
| "auth_apply to_ts collate J (RefreshGrant c) db = snd (with_grants (\<lambda>gs. apply_refresh_command_with_executor to_ts gs c) db)"
| "auth_apply to_ts collate J (SaveSession s hash) db = snd (upsert_with_identity_hash to_ts db s hash)"
| "auth_apply to_ts collate J (AdvanceSession tenant sid expected next now) db =
     snd (advance_cursor_cas to_ts db tenant sid expected next now)"
| "auth_apply to_ts collate J (RevokeSession tenant sid now) db = snd (session_revoke to_ts db tenant sid now)"
| "auth_apply to_ts collate J (ExpireSession tenant sid now) db = snd (session_expire to_ts db tenant sid now)"
| "auth_apply to_ts collate J (SignOut request) db =
     snd (revoke_logout_session_and_last_device_grants to_ts collate J db request)"

text \<open>A session keeps its tenant, and once it is not active it never is again.\<close>

definition session_row_evolves :: "session_row \<Rightarrow> session_row \<Rightarrow> bool" where
  "session_row_evolves r r' \<longleftrightarrow> dv_tenant_id r' = dv_tenant_id r \<and> (active_session r' \<longrightarrow> active_session r)"

abbreviation sessions_evolve :: "auth_db \<Rightarrow> auth_db \<Rightarrow> bool" where
  "sessions_evolve db db' \<equiv> table_evolves dv_id session_row_evolves (ab_sessions db) (ab_sessions db')"

lemma sessions_evolve_same: "ab_sessions db' = ab_sessions db \<Longrightarrow> sessions_evolve db db'"
  unfolding table_evolves_def by (rule exI [of _ "\<lambda>r. r"], rule exI [of _ "[]"]) (simp add: session_row_evolves_def)

lemma sessions_evolve_where:
  assumes "ab_sessions db' = map_where P f (ab_sessions db)"
    and "\<And>r. P r \<Longrightarrow> dv_id (f r) = dv_id r \<and> session_row_evolves r (f r)"
  shows "sessions_evolve db db'"
  unfolding table_evolves_def
  by (rule exI [of _ "\<lambda>r. if P r then f r else r"], rule exI [of _ "[]"])
    (use assms in \<open>auto simp: map_where_def session_row_evolves_def\<close>)

lemma sessions_evolve_new:
  assumes "ab_sessions db' = ab_sessions db @ [r]" and "find (\<lambda>s. dv_id s = dv_id r) (ab_sessions db) = None"
  shows "sessions_evolve db db'"
  unfolding table_evolves_def
  by (rule exI [of _ "\<lambda>r. r"], rule exI [of _ "[r]"])
    (use assms in \<open>auto simp: session_row_evolves_def find_None_iff\<close>)

lemma with_grants_sessions [simp]: "ab_sessions (snd (with_grants f db)) = ab_sessions db"
  by (simp add: with_grants_def split: prod.split)

lemma with_audit_tables [simp]:
  "ab_sessions (snd (with_audit f db)) = ab_sessions db" "ab_grants (snd (with_audit f db)) = ab_grants db"
  "ab_identities (snd (with_audit f db)) = ab_identities db" "ab_users (snd (with_audit f db)) = ab_users db"
  "ab_tenants (snd (with_audit f db)) = ab_tenants db"
  by (simp_all add: with_audit_def split: prod.split)

lemma append_revoke_events_tables:
  "append_revoke_events J db request n ids = (r, db') \<Longrightarrow>
     ab_sessions db' = ab_sessions db \<and> ab_grants db' = ab_grants db \<and> ab_identities db' = ab_identities db"
proof (induction ids arbitrary: n db)
  case (Cons i ids)
  show ?case
  proof (cases "with_audit (\<lambda>a. pg_audit_append J a (logout_grant_revoke_audit_event request i (of_nat (n + 1))) None) db")
    case (Pair e db1)
    from with_audit_tables [of "\<lambda>a. pg_audit_append J a (logout_grant_revoke_audit_event request i (of_nat (n + 1))) None" db]
    have "ab_sessions db1 = ab_sessions db \<and> ab_grants db1 = ab_grants db \<and> ab_identities db1 = ab_identities db"
      by (simp only: Pair snd_conv)
    with Cons.prems Cons.IH [of db1 "n + 1"] Pair show ?thesis by (cases e) auto
  qed
qed simp

lemma update_session_evolves:
  assumes "\<And>r. P r \<Longrightarrow> dv_id (f r) = dv_id r \<and> session_row_evolves r (f r)"
  shows "sessions_evolve db (snd (update_session P f db))"
  by (rule sessions_evolve_where [of _ P f]) (use assms in \<open>simp_all add: update_session_def\<close>)

lemma session_statement_evolves:
  "ADVANCE_DEVICE_SESSION_CURSOR_CAS to_ts db tenant sid next_cursor ms expected = Inr (row, db') \<Longrightarrow> sessions_evolve db db'"
  "REVOKE_DEVICE_SESSION to_ts db tenant sid ms = Inr (row, db') \<Longrightarrow> sessions_evolve db db'"
  "EXPIRE_DEVICE_SESSION to_ts db tenant sid ms = Inr (row, db') \<Longrightarrow> sessions_evolve db db'"
  unfolding ADVANCE_DEVICE_SESSION_CURSOR_CAS_def REVOKE_DEVICE_SESSION_def EXPIRE_DEVICE_SESSION_def
  by (auto simp: try_then_Ok_iff session_row_evolves_def active_session_def
      dest!: arg_cong [where f = snd] intro!: update_session_evolves)

lemma upsert_session_evolves:
  assumes "UPSERT_DEVICE_SESSION db new = Inr (row, db')"
  shows "sessions_evolve db db'"
proof -
  from assms consider "db' = db"
    | "db' = db\<lparr>ab_sessions := map_where (\<lambda>r. dv_id r = dv_id new) (upserted_session_row new) (ab_sessions db)\<rparr>"
    | "find (\<lambda>r. dv_id r = dv_id new) (ab_sessions db) = None" "db' = db\<lparr>ab_sessions := ab_sessions db @ [new]\<rparr>"
    unfolding UPSERT_DEVICE_SESSION_def Let_def by (auto split: option.splits if_splits)
  then show ?thesis
  proof cases
    case 2
    then show ?thesis
      by (intro sessions_evolve_where [of _ "\<lambda>r. dv_id r = dv_id new" "upserted_session_row new"])
        (simp_all add: upserted_session_row_def session_row_evolves_def active_session_def)
  next
    case 3
    then show ?thesis by (intro sessions_evolve_new [of _ _ new]) simp_all
  qed (auto intro: sessions_evolve_same)
qed

lemma exec_sql_sessions_evolve:
  assumes "\<And>x db'. stmt = Inr (x, db') \<Longrightarrow> sessions_evolve db db'"
  shows "sessions_evolve db (snd (exec_sql db stmt))"
  using assms by (cases stmt) (auto simp: exec_sql_def intro: sessions_evolve_same)

lemma snd_try_st_same: "(\<And>x db. snd (k x db) = db) \<Longrightarrow> snd (try_st p k) = snd p"
  by (simp add: try_st_def split: prod.split sum.split)

lemma snd_try_st_read: "snd (try_st (r, db) k) = (case r of Inl e \<Rightarrow> db | Inr x \<Rightarrow> snd (k x db))"
  by (simp add: try_st_def split: sum.split)

lemma session_call_evolves:
  "sessions_evolve db (snd (upsert_with_identity_hash to_ts db s hash))"
  "sessions_evolve db (snd (advance_cursor_cas to_ts db tenant sid expected next_cursor now))"
  "sessions_evolve db (snd (session_revoke to_ts db tenant sid now))"
  "sessions_evolve db (snd (session_expire to_ts db tenant sid now))"
  unfolding upsert_with_identity_hash_def advance_cursor_cas_def session_revoke_def session_expire_def returned_session_def
  by (subst snd_try_st_same, simp split: option.split, rule exec_sql_sessions_evolve,
      force simp: try_then_Ok_iff intro: upsert_session_evolves)
    (auto simp: snd_try_st_read snd_try_st_same split: sum.split
      intro: sessions_evolve_same session_statement_evolves intro!: exec_sql_sessions_evolve)

lemma session_statement_grants:
  "UPSERT_DEVICE_SESSION db new = Inr (row, db') \<Longrightarrow> ab_grants db' = ab_grants db"
  "ADVANCE_DEVICE_SESSION_CURSOR_CAS to_ts db tenant sid next_cursor ms expected = Inr (row, db') \<Longrightarrow> ab_grants db' = ab_grants db"
  "REVOKE_DEVICE_SESSION to_ts db tenant sid ms = Inr (row, db') \<Longrightarrow> ab_grants db' = ab_grants db"
  "EXPIRE_DEVICE_SESSION to_ts db tenant sid ms = Inr (row, db') \<Longrightarrow> ab_grants db' = ab_grants db"
  unfolding UPSERT_DEVICE_SESSION_def ADVANCE_DEVICE_SESSION_CURSOR_CAS_def REVOKE_DEVICE_SESSION_def
    EXPIRE_DEVICE_SESSION_def Let_def update_session_def
  by (auto simp: try_then_Ok_iff split: option.splits if_splits)

lemma exec_sql_grants:
  "(\<And>x db'. stmt = Inr (x, db') \<Longrightarrow> ab_grants db' = ab_grants db) \<Longrightarrow> ab_grants (snd (exec_sql db stmt)) = ab_grants db"
  by (cases stmt) (auto simp: exec_sql_def)

lemma session_call_grants:
  "ab_grants (snd (upsert_with_identity_hash to_ts db s hash)) = ab_grants db"
  "ab_grants (snd (advance_cursor_cas to_ts db tenant sid expected next_cursor now)) = ab_grants db"
  "ab_grants (snd (session_revoke to_ts db tenant sid now)) = ab_grants db"
  "ab_grants (snd (session_expire to_ts db tenant sid now)) = ab_grants db"
  unfolding upsert_with_identity_hash_def advance_cursor_cas_def session_revoke_def session_expire_def returned_session_def
  by (subst snd_try_st_same, simp split: option.split, rule exec_sql_grants,
      force simp: try_then_Ok_iff intro: session_statement_grants)
    (auto simp: snd_try_st_read snd_try_st_same split: sum.split
      intro: session_statement_grants intro!: exec_sql_grants)

lemma sign_out_evolves:
  "sessions_evolve db (snd (revoke_logout_session_and_last_device_grants to_ts collate J db request))"
proof (cases "revoke_logout_session_and_last_device_grants to_ts collate J db request")
  case (Pair res db')
  show ?thesis
  proof (cases "REVOKE_DEVICE_SESSION to_ts db (lq_tenant_id request) (lq_session_id request) (u64_as_i64 (lq_occurred_at_ms request))")
    case (Inl e)
    then have "snd (revoke_logout_session_and_last_device_grants to_ts collate J db request) = db"
      by (simp add: revoke_logout_session_and_last_device_grants_def exec_sql_def in_tx_def)
    then show ?thesis by (simp add: sessions_evolve_same)
  next
    case (Inr rd)
    obtain row db1 where rd: "rd = (row, db1)" by fastforce
    from Inr rd have ev: "sessions_evolve db db1" by (auto intro: session_statement_evolves)
    have "ab_sessions db' = ab_sessions db1 \<or> db' = db"
      using Pair Inr rd unfolding revoke_logout_session_and_last_device_grants_def Let_def in_tx_def revoke_user_grants_in_tx_def
      by (auto simp: exec_sql_def try_st_def try_then_def dest: append_revoke_events_tables
          split: if_splits sum.splits prod.splits)
    with ev Pair show ?thesis by (auto intro: sessions_evolve_same)
  qed
qed

lemma auth_apply_sessions_evolve: "sessions_evolve db (auth_apply to_ts collate J c db)"
proof (cases c)
  case (SaveTenant t)
  then show ?thesis by (auto simp: tenant_upsert_def UPSERT_TENANT_def split: prod.splits if_splits intro: sessions_evolve_same)
next
  case (SaveUser u)
  then show ?thesis
    by (auto simp: user_upsert_def exec_sql_def try_st_def UPSERT_WORKSPACE_USER_def
        split: prod.splits if_splits option.splits intro: sessions_evolve_same)
next
  case (SaveIdentity i)
  then show ?thesis
    by (auto simp: identity_upsert_def exec_sql_def UPSERT_LARK_IDENTITY_def Let_def
        split: prod.splits if_splits option.splits intro: sessions_evolve_same)
qed (simp_all add: session_call_evolves sign_out_evolves sessions_evolve_same)

lemma session_row_evolves_refl: "session_row_evolves r r"
  by (simp add: session_row_evolves_def)

lemma session_row_evolves_trans: "session_row_evolves r s \<Longrightarrow> session_row_evolves s t \<Longrightarrow> session_row_evolves r t"
  by (simp add: session_row_evolves_def)

interpretation sessions: evolving_table ab_sessions dv_id session_row_evolves "auth_apply to_ts collate J"
  for to_ts and collate :: "string \<Rightarrow> 'k::linorder" and J
  by unfold_locales (use session_row_evolves_trans in \<open>auto intro: session_row_evolves_refl auth_apply_sessions_evolve\<close>)

text \<open>A revoked grant stays revoked under every call but a new grant of the same id, which is a new sign-in.\<close>

definition grant_evolves :: "token_grant_row \<Rightarrow> token_grant_row \<Rightarrow> bool" where
  "grant_evolves r r' \<longleftrightarrow> (gr_revoked_at r \<noteq> None \<longrightarrow> gr_revoked_at r' \<noteq> None)"

abbreviation grants_evolve :: "auth_db \<Rightarrow> auth_db \<Rightarrow> bool" where
  "grants_evolve db db' \<equiv> table_evolves gr_id grant_evolves (ab_grants db) (ab_grants db')"

fun apply_unless_sign_in ::
  "(int \<Rightarrow> timestamptz option) \<Rightarrow> (string \<Rightarrow> 'k::linorder) \<Rightarrow> audit_json \<Rightarrow> auth_call \<Rightarrow> auth_db \<Rightarrow> auth_db" where
  "apply_unless_sign_in to_ts collate J (SaveGrant g) db = db"
| "apply_unless_sign_in to_ts collate J c db = auth_apply to_ts collate J c db"

lemma grants_evolve_where:
  assumes "ab_grants db' = map_where P f (ab_grants db)"
    and "\<And>r. P r \<Longrightarrow> gr_id (f r) = gr_id r \<and> grant_evolves r (f r)"
  shows "grants_evolve db db'"
  unfolding table_evolves_def
  by (rule exI [of _ "\<lambda>r. if P r then f r else r"], rule exI [of _ "[]"])
    (use assms in \<open>auto simp: map_where_def grant_evolves_def\<close>)

lemma grants_evolve_same: "ab_grants db' = ab_grants db \<Longrightarrow> grants_evolve db db'"
  by (rule grants_evolve_where [of _ "\<lambda>_. False"]) (simp_all add: map_where_def)

lemma refresh_statement_grants:
  assumes "refresh_command_statement to_ts g c = Inr (row, g')"
  obtains P f where "gd_grants g' = map_where P f (gd_grants g)"
    and "\<And>r. P r \<Longrightarrow> gr_id (f r) = gr_id r \<and> grant_evolves r (f r)"
  using assms
  by (cases c) (auto simp: ROTATE_TOKEN_GRANT_def MARK_TOKEN_GRANT_REFRESH_FAILED_def MARK_TOKEN_GRANT_REAUTH_REQUIRED_def
      try_then_Ok_iff update_grant_def refresh_guard_def grant_evolves_def rotated_row_def refresh_failed_row_def
      reauth_required_row_def)

lemma refresh_grants_evolve:
  "grants_evolve db (snd (with_grants (\<lambda>gs. apply_refresh_command_with_executor to_ts gs c) db))"
proof (cases "refresh_command_statement to_ts (grants_view db) c")
  case (Inl e)
  then show ?thesis
    by (auto simp: with_grants_def apply_refresh_command_with_executor_def returned_grant_def exec_sql_def grants_view_def
        intro: grants_evolve_same)
next
  case (Inr rg)
  obtain row g where rg: "rg = (row, g)" by fastforce
  with Inr obtain P f where "gd_grants g = map_where P f (gd_grants (grants_view db))"
    and f: "\<And>r. P r \<Longrightarrow> gr_id (f r) = gr_id r \<and> grant_evolves r (f r)"
    using refresh_statement_grants by metis
  with Inr rg show ?thesis
    by (intro grants_evolve_where [of _ P f])
      (simp_all add: with_grants_def apply_refresh_command_with_executor_def returned_grant_def exec_sql_def grants_view_def)
qed

abbreviation signed_out_row :: "timestamptz \<Rightarrow> session_row \<Rightarrow> session_row" where
  "signed_out_row now \<equiv> \<lambda>r. r\<lparr>dv_state := ''revoked'',
     dv_revoked_at := Some (case dv_revoked_at r of None \<Rightarrow> now | Some t \<Rightarrow> t)\<rparr>"

abbreviation to_sign_out :: "auth_logout_revoke_request \<Rightarrow> session_row \<Rightarrow> bool" where
  "to_sign_out request \<equiv> \<lambda>r. dv_tenant_id r = lq_tenant_id request \<and> dv_id r = lq_session_id request \<and>
     dv_state r \<noteq> ''revoked''"

abbreviation to_revoke :: "auth_db \<Rightarrow> auth_logout_revoke_request \<Rightarrow> token_grant_row \<Rightarrow> bool" where
  "to_revoke db request \<equiv> \<lambda>g. user_grant db (lq_tenant_id request) (lq_user_id request) (lq_grant_id_hint request) g \<and>
     gr_state g \<noteq> ''revoked''"

lemma sign_out_OkE:
  assumes "revoke_logout_session_and_last_device_grants to_ts collate J db request = (Inr ids, db')"
  obtains now where "ab_sessions db' = map_where (to_sign_out request) (signed_out_row now) (ab_sessions db)"
    and "ab_identities db' = ab_identities db"
    and "if remaining_active_sessions db' (lq_tenant_id request) (lq_user_id request) = 0
      then ids = sort_key collate (map gr_id (filter (to_revoke db request) (ab_grants db))) \<and>
        ab_grants db' = map_where (to_revoke db request) (revoked_row now (lq_revocation_reason request)) (ab_grants db) \<and>
        (\<exists>db2. ab_audit db2 = ab_audit db \<and> ab_tenants db2 = ab_tenants db \<and>
           append_revoke_events J db2 request 0 ids = (Ok (), db'))
      else ids = [] \<and> ab_grants db' = ab_grants db \<and> ab_audit db' = ab_audit db"
proof -
  let ?ms = "u64_as_i64 (lq_occurred_at_ms request)"
  let ?left = "\<lambda>d. remaining_active_sessions d (lq_tenant_id request) (lq_user_id request)"
  from assms obtain now where now: "to_ts ?ms = Some now"
    by (cases "to_ts ?ms") (auto simp: revoke_logout_session_and_last_device_grants_def REVOKE_DEVICE_SESSION_def
        sql_timestamp_def exec_sql_def in_tx_def)
  define db1 where "db1 = snd (update_session (to_sign_out request) (signed_out_row now) db)"
  have stmt: "REVOKE_DEVICE_SESSION to_ts db (lq_tenant_id request) (lq_session_id request) ?ms
      = Inr (map_option (signed_out_row now) (find (to_sign_out request) (ab_sessions db)), db1)"
    using now by (simp add: REVOKE_DEVICE_SESSION_def db1_def update_session_def)
  have db1: "ab_sessions db1 = map_where (to_sign_out request) (signed_out_row now) (ab_sessions db)"
    "ab_identities db1 = ab_identities db" "ab_grants db1 = ab_grants db" "ab_audit db1 = ab_audit db"
    "ab_tenants db1 = ab_tenants db"
    by (simp_all add: db1_def update_session_def)
  then have P: "to_revoke db1 request = to_revoke db request" by (simp add: user_grant_def)
  define db2 where "db2 = db1\<lparr>ab_grants := map_where (to_revoke db request)
      (revoked_row now (lq_revocation_reason request)) (ab_grants db)\<rparr>"
  let ?ids = "sort_key collate (map gr_id (filter (to_revoke db request) (ab_grants db)))"
  have revoke: "revoke_user_grants_in_tx to_ts collate db1 request ?ms = (Ok ?ids, db2)"
    using now db1(3) P by (simp add: revoke_user_grants_in_tx_def exec_sql_def Let_def db2_def)
  have run: "in_tx db (if ?left db1 = 0
      then try_st (append_revoke_events J db2 request 0 ?ids) (\<lambda>_ db. (Ok ?ids, db)) else (Ok [], db1)) = (Inr ids, db')"
    using assms stmt revoke unfolding revoke_logout_session_and_last_device_grants_def
    by (simp add: if_distrib [of "in_tx db"] cong: if_cong)
  show ?thesis
  proof (cases "?left db1 = 0")
    case True
    with run obtain u where app: "append_revoke_events J db2 request 0 ?ids = (Inr u, db')" and ids: "ids = ?ids"
      by (auto simp: in_tx_def split: prod.splits sum.splits elim!: try_st_OkE)
    from append_revoke_events_tables [OF app] have "ab_sessions db' = ab_sessions db1" "ab_grants db' = ab_grants db2"
        "ab_identities db' = ab_identities db"
      by (simp_all add: db2_def db1)
    moreover from this True have "?left db' = 0" by (simp add: remaining_active_sessions_def)
    ultimately show ?thesis
      using app ids by (intro that [of now]) (auto simp: db1 db2_def intro!: exI [of _ db2])
  next
    case False
    with run have "db' = db1" "ids = []" by (simp_all add: in_tx_def)
    with False show ?thesis by (intro that [of now]) (simp_all add: db1)
  qed
qed

lemma sign_out_Err:
  "revoke_logout_session_and_last_device_grants to_ts collate J db request = (Inl e, db') \<Longrightarrow> db' = db"
  unfolding revoke_logout_session_and_last_device_grants_def Let_def by (rule in_tx_Err)

lemma apply_unless_sign_in_grants_evolve: "grants_evolve db (apply_unless_sign_in to_ts collate J c db)"
proof (cases c)
  case (SaveTenant t)
  then show ?thesis by (auto simp: tenant_upsert_def UPSERT_TENANT_def split: prod.splits if_splits intro: grants_evolve_same)
next
  case (SaveUser u)
  then show ?thesis
    by (auto simp: user_upsert_def exec_sql_def try_st_def UPSERT_WORKSPACE_USER_def
        split: prod.splits if_splits option.splits intro: grants_evolve_same)
next
  case (SaveIdentity i)
  then show ?thesis
    by (auto simp: identity_upsert_def exec_sql_def UPSERT_LARK_IDENTITY_def Let_def
        split: prod.splits if_splits option.splits intro: grants_evolve_same)
next
  case (SignOut request)
  show ?thesis
  proof (cases "revoke_logout_session_and_last_device_grants to_ts collate J db request")
    case (Pair r db')
    show ?thesis
    proof (cases r)
      case (Inl e)
      with Pair have "db' = db" by (blast intro: sign_out_Err)
      with Pair SignOut show ?thesis by (simp add: grants_evolve_same)
    next
      case (Inr ids)
      with Pair have run: "revoke_logout_session_and_last_device_grants to_ts collate J db request = (Inr ids, db')" by simp
      from sign_out_OkE [OF run] obtain now where "ab_grants db' = ab_grants db \<or>
          ab_grants db' = map_where (to_revoke db request) (revoked_row now (lq_revocation_reason request)) (ab_grants db)"
        by metis
      then have "grants_evolve db db'"
        by (elim disjE grants_evolve_same grants_evolve_where) (simp add: revoked_row_def grant_evolves_def)
      with Pair SignOut show ?thesis by simp
    qed
  qed
qed (simp_all add: refresh_grants_evolve grants_evolve_same session_call_grants)

lemma grant_evolves_refl: "grant_evolves r r"
  by (simp add: grant_evolves_def)

lemma grant_evolves_trans: "grant_evolves r s \<Longrightarrow> grant_evolves s t \<Longrightarrow> grant_evolves r t"
  by (simp add: grant_evolves_def)

interpretation revoked_grants: evolving_table ab_grants gr_id grant_evolves "apply_unless_sign_in to_ts collate J"
  for to_ts and collate :: "string \<Rightarrow> 'k::linorder" and J
  by unfold_locales (use grant_evolves_trans in \<open>auto intro: grant_evolves_refl apply_unless_sign_in_grants_evolve\<close>)

lemma apply_unless_sign_in_eq:
  "list_all (\<lambda>c. case c of SaveGrant g \<Rightarrow> False | _ \<Rightarrow> True) cs \<Longrightarrow>
     fold (auth_apply to_ts collate J) cs db = fold (apply_unless_sign_in to_ts collate J) cs db"
proof (induction cs arbitrary: db)
  case (Cons c cs)
  then show ?case by (cases c) simp_all
qed simp

end
