(* ===== verification/Session_Auth.thy ===== *)
theory Session_Auth
  imports Session_Store Facade_Base
begin

text \<open>
  Authentication of a request by its bearer token and signing out
  (\<open>oar-http-facade/src/session_auth.rs\<close>), and the grant that a user's requests may use
  (\<open>feishu_auth/grants.rs\<close>). The digest of a trace id is an argument.
\<close>

section \<open>Authentication\<close>

datatype oar_session_auth_error = MissingBearer | InvalidSession | StoreUnavailable

datatype logout_session_state = LogoutActive authenticated_context | LogoutSignedOut

definition bearer_session_id :: "string option \<Rightarrow> (string, oar_session_auth_error) result" where
  "bearer_session_id authorization =
     try_then (ok_or MissingBearer
       (Option.bind (map_option trim (Option.bind authorization (\<lambda>value. strip_prefix value ''Bearer '')))
         (\<lambda>value. if value \<noteq> [] then Some value else None))) (\<lambda>session_id.
     if \<not> starts_with session_id ''oar_session_'' then Err InvalidSession else Ok session_id)"

definition oar_session_auth_error_response :: "oar_session_auth_error \<Rightarrow> facade_response" where
  "oar_session_auth_error_response error = (case error of
      MissingBearer \<Rightarrow> unauthorized
    | InvalidSession \<Rightarrow> invalid_oar_session
    | StoreUnavailable \<Rightarrow> service_unavailable ''oar_session_verification_unavailable''
        ''OAR session verification is temporarily unavailable.'')"

definition signed_out_response :: facade_response where
  "signed_out_response = json_facade_response 200 (JObject [(''status'', JString ''signed_out'')])"

definition protected_route_requires_session_store :: "string option \<Rightarrow> string \<Rightarrow> facade_response" where
  "protected_route_requires_session_store authorization safe_message =
     (case bearer_session_id authorization of
        Inr _ \<Rightarrow> service_unavailable ''oar_session_verification_unavailable'' safe_message
      | Inl error \<Rightarrow> oar_session_auth_error_response error)"

definition authenticated_context_from_session ::
  "stored_device_session \<Rightarrow> (authenticated_context, oar_session_auth_error) result" where
  "authenticated_context_from_session session =
     (if sn_state session \<noteq> SessionActive \<or> sn_revoked_at session \<noteq> None \<or> sn_expired_at session \<noteq> None
      then Err InvalidSession
      else Ok \<lparr>au_session_id = sn_id session, au_tenant_id = sn_tenant_id session, au_user_id = sn_user_id session\<rparr>)"

definition logout_session_state_from_session ::
  "stored_device_session \<Rightarrow> (logout_session_state, oar_session_auth_error) result" where
  "logout_session_state_from_session session =
     (if sn_state session = SessionRevokedState \<or> sn_revoked_at session \<noteq> None then Ok LogoutSignedOut
      else try_then (authenticated_context_from_session session) (\<lambda>context. Ok (LogoutActive context)))"

text \<open>\<open>persistence\<close>: whether the runtime has a database.\<close>

definition authenticate_oar_session ::
  "bool \<Rightarrow> auth_db \<Rightarrow> string option \<Rightarrow> (authenticated_context, oar_session_auth_error) result" where
  "authenticate_oar_session persistence db authorization =
     try_then (bearer_session_id authorization) (\<lambda>session_id.
     if \<not> persistence then Err StoreUnavailable
     else try_then (map_err (\<lambda>_. StoreUnavailable) (get_by_session_id_for_authentication db session_id)) (\<lambda>session.
     try_then (ok_or InvalidSession session) authenticated_context_from_session))"

section \<open>Signing out\<close>

definition hex_digit :: "nat \<Rightarrow> char" where
  "hex_digit d = (if d < 10 then char_of (48 + d) else char_of (87 + d))"

text \<open>\<open>hex::encode\<close>\<close>

definition hex_encode :: "string \<Rightarrow> string" where
  "hex_encode bytes = concat (map (\<lambda>c. [hex_digit (of_char c div 16), hex_digit (of_char c mod 16)]) bytes)"

definition u64_to_be_bytes :: "u64 \<Rightarrow> string" where
  "u64_to_be_bytes n = map (\<lambda>i. char_of (unat n div 256 ^ (7 - i) mod 256)) [0..<8]"

definition stable_sha256_hex :: "(string \<Rightarrow> string) \<Rightarrow> string list \<Rightarrow> string" where
  "stable_sha256_hex sha256 parts =
     hex_encode (sha256 (concat (map (\<lambda>part. u64_to_be_bytes (of_nat (length part)) @ part) parts)))"

definition system_time_to_ms_lossy :: "system_time \<Rightarrow> u64" where
  "system_time_to_ms_lossy t = word_of_int (min (max t 0 div 1000000) (2 ^ 64 - 1))"

definition grant_id_for_workspace_user_id :: "string \<Rightarrow> string option" where
  "grant_id_for_workspace_user_id user_id =
     map_option (\<lambda>user_tail. ''feishu_grant_'' @ user_tail) (strip_prefix user_id ''feishu_user_'')"

definition LOGOUT_GRANT_REVOKE_ACTION_TYPE :: string where
  "LOGOUT_GRANT_REVOKE_ACTION_TYPE = ''token_grant.revoke.logout_last_device''"

definition safe_logout_grant_revoke_trace_id ::
  "(string \<Rightarrow> string) \<Rightarrow> authenticated_context \<Rightarrow> u64 \<Rightarrow> string" where
  "safe_logout_grant_revoke_trace_id sha256 auth_context occurred_at_ms =
     ''auth-logout-grant-revoke-'' @ take 24 (stable_sha256_hex sha256 [au_tenant_id auth_context,
       au_user_id auth_context, au_session_id auth_context, show_u64 occurred_at_ms, LOGOUT_GRANT_REVOKE_ACTION_TYPE])"

definition revoke_logout_session_and_last_device_grant ::
  "(int \<Rightarrow> timestamptz option) \<Rightarrow> (string \<Rightarrow> 'k::linorder) \<Rightarrow> audit_json \<Rightarrow> (string \<Rightarrow> string) \<Rightarrow> auth_db
     \<Rightarrow> authenticated_context \<Rightarrow> system_time \<Rightarrow> (string list, postgres_repository_error) result \<times> auth_db" where
  "revoke_logout_session_and_last_device_grant to_ts collate J sha256 db auth_context now =
     (let now_ms = system_time_to_ms_lossy now in
      revoke_logout_session_and_last_device_grants to_ts collate J db
        \<lparr>lq_tenant_id = au_tenant_id auth_context, lq_user_id = au_user_id auth_context,
         lq_session_id = au_session_id auth_context,
         lq_grant_id_hint = grant_id_for_workspace_user_id (au_user_id auth_context),
         lq_occurred_at_ms = now_ms, lq_revocation_reason = ''oar_session_logout_last_device'',
         lq_audit_trace_id = safe_logout_grant_revoke_trace_id sha256 auth_context now_ms,
         lq_audit_action_type = LOGOUT_GRANT_REVOKE_ACTION_TYPE\<rparr>)"

text \<open>\<open>others\<close>: what other requests commit between the read of the session and the transaction.\<close>

definition logout_oar_session ::
  "(int \<Rightarrow> timestamptz option) \<Rightarrow> (string \<Rightarrow> 'k::linorder) \<Rightarrow> audit_json \<Rightarrow> (string \<Rightarrow> string) \<Rightarrow> bool
     \<Rightarrow> system_time \<Rightarrow> (auth_db \<Rightarrow> auth_db) \<Rightarrow> auth_db \<Rightarrow> string option \<Rightarrow> facade_response \<times> auth_db" where
  "logout_oar_session to_ts collate J sha256 persistence now others db authorization =
     (case bearer_session_id authorization of
        Inl error \<Rightarrow> (oar_session_auth_error_response error, db)
      | Inr session_id \<Rightarrow>
          if \<not> persistence then (oar_session_auth_error_response StoreUnavailable, db)
          else (case get_by_session_id_for_authentication db session_id of
              Inl _ \<Rightarrow> (oar_session_auth_error_response StoreUnavailable, db)
            | Inr None \<Rightarrow> (oar_session_auth_error_response InvalidSession, db)
            | Inr (Some session) \<Rightarrow>
               (case logout_session_state_from_session session of
                  Inl error \<Rightarrow> (oar_session_auth_error_response error, db)
                | Inr LogoutSignedOut \<Rightarrow> (signed_out_response, db)
                | Inr (LogoutActive auth_context) \<Rightarrow>
                   (case revoke_logout_session_and_last_device_grant to_ts collate J sha256 (others db) auth_context now of
                      (Inl _, db) \<Rightarrow> (service_unavailable ''oar_session_logout_unavailable''
                        ''OAR session logout is temporarily unavailable.'', db)
                    | (Inr _, db) \<Rightarrow> (signed_out_response, db)))))"

section \<open>The grant of a user\<close>

datatype grant_resolution_error = NoUsableGrant | AmbiguousGrant | NoLarkIdentity | EmptyLarkIdentity

definition usable_grant :: "token_grant_row \<Rightarrow> bool" where
  "usable_grant g \<longleftrightarrow> gr_revoked_at g = None \<and> gr_reauth_required_at g = None"

text \<open>\<open>ORDER BY refreshed_at DESC NULLS LAST, issued_at DESC\<close>; rows that compare equal may come in
  any order, but both queries look only at whether there is exactly one.\<close>

definition grant_recency :: "token_grant_row \<Rightarrow> (int \<times> int) \<times> int" where
  "grant_recency g = ((case gr_refreshed_at g of None \<Rightarrow> (1, 0) | Some t \<Rightarrow> (0, - t)), - gr_issued_at g)"

definition resolve_grant_id_for_user ::
  "auth_db \<Rightarrow> authenticated_context \<Rightarrow> (string, grant_resolution_error) result" where
  "resolve_grant_id_for_user db auth_context =
     (let tenant = au_tenant_id auth_context; user = au_user_id auth_context in
      case grant_id_for_workspace_user_id user of
        Some grant_id \<Rightarrow>
          ok_or NoUsableGrant (map_option gr_id (find (\<lambda>g. gr_tenant_id g = tenant \<and> gr_id g = grant_id \<and>
            gr_actor_kind g = ''user'' \<and> gr_scope_boundary g = ''user'' \<and> usable_grant g \<and>
            list_ex (\<lambda>s. dv_tenant_id s = gr_tenant_id g \<and> dv_user_id s = user \<and>
              dv_id s = au_session_id auth_context \<and> active_session s) (ab_sessions db)) (ab_grants db)))
      | None \<Rightarrow>
          (case take 2 (map gr_id (sort_key grant_recency (concat (map (\<lambda>g. map (\<lambda>_. g)
              (filter (\<lambda>i. ir_tenant_id i = gr_tenant_id g \<and> ir_id i = gr_identity_id g \<and>
                 ir_actor_kind i = ''user'' \<and> ir_actor_external_id i = user) (ab_identities db)))
              (filter (\<lambda>g. gr_tenant_id g = tenant \<and> usable_grant g) (ab_grants db)))))) of
             [] \<Rightarrow> Err NoUsableGrant
           | [grant_id] \<Rightarrow> Ok grant_id
           | _ \<Rightarrow> Err AmbiguousGrant))"

definition resolve_lark_open_id_for_grant ::
  "auth_db \<Rightarrow> authenticated_context \<Rightarrow> encrypted_token_grant_record \<Rightarrow> (string, grant_resolution_error) result" where
  "resolve_lark_open_id_for_grant db auth_context token_grant =
     try_then (ok_or NoLarkIdentity (map_option ir_actor_external_id (find (\<lambda>i.
        ir_tenant_id i = au_tenant_id auth_context \<and> ir_id i = eg_identity_id token_grant \<and>
        ir_actor_kind i = ''user'') (ab_identities db)))) (\<lambda>open_id.
     if trim open_id = [] then Err EmptyLarkIdentity else Ok open_id)"

section \<open>Signed out for good\<close>

lemma transpose_map_None_iff: "transpose_map f x = Inr y \<Longrightarrow> y = None \<longleftrightarrow> x = None"
  by (auto simp: transpose_map_def try_then_Ok_iff split: option.splits)

lemma stored_session_row:
  assumes "stored_device_session_from_row r = Inr s"
  shows "sn_id s = dv_id r" and "sn_tenant_id s = dv_tenant_id r" and "sn_user_id s = dv_user_id r"
    and "sn_state s = SessionActive \<longleftrightarrow> dv_state r = ''active''"
    and "sn_state s = SessionRevokedState \<longleftrightarrow> dv_state r = ''revoked''"
    and "sn_revoked_at s = None \<longleftrightarrow> dv_revoked_at r = None" and "sn_expired_at s = None \<longleftrightarrow> dv_expired_at r = None"
proof -
  from assms obtain entry state cursor cursor_at seen revoked expired where
    state: "device_session_state_from_db (dv_state r) = Inr state"
    and revoked: "optional_non_negative_i64_to_u64 (map_option epoch_ms (dv_revoked_at r)) ''revoked_at_ms'' = Inr revoked"
    and expired: "optional_non_negative_i64_to_u64 (map_option epoch_ms (dv_expired_at r)) ''expired_at_ms'' = Inr expired"
    and s: "s = \<lparr>sn_id = dv_id r, sn_tenant_id = dv_tenant_id r, sn_user_id = dv_user_id r, sn_entry_point = entry,
          sn_state = state, sn_sync_stream = dv_sync_stream r, sn_sync_cursor_value = cursor,
          sn_sync_cursor_updated_at = ms_to_system_time cursor_at,
          sn_session_identity_hash = dv_session_identity_hash r, sn_last_seen_at = ms_to_system_time seen,
          sn_revoked_at = map_option ms_to_system_time revoked, sn_expired_at = map_option ms_to_system_time expired\<rparr>"
    by (auto simp: stored_device_session_from_row_def try_then_Ok_iff)
  from revoked expired have "revoked = None \<longleftrightarrow> dv_revoked_at r = None" "expired = None \<longleftrightarrow> dv_expired_at r = None"
    by (auto simp: optional_non_negative_i64_to_u64_def dest: transpose_map_None_iff)
  with s state show "sn_id s = dv_id r" "sn_tenant_id s = dv_tenant_id r" "sn_user_id s = dv_user_id r"
    "sn_state s = SessionActive \<longleftrightarrow> dv_state r = ''active''" "sn_state s = SessionRevokedState \<longleftrightarrow> dv_state r = ''revoked''"
    "sn_revoked_at s = None \<longleftrightarrow> dv_revoked_at r = None" "sn_expired_at s = None \<longleftrightarrow> dv_expired_at r = None"
    by (auto simp: device_session_state_from_db_def split: if_splits)
qed

lemma authenticated_row:
  assumes "stored_device_session_from_row r = Inr s" and "authenticated_context_from_session s = Inr c"
  shows "active_session r \<and> c = \<lparr>au_session_id = dv_id r, au_tenant_id = dv_tenant_id r, au_user_id = dv_user_id r\<rparr>"
  using assms(2) stored_session_row [OF assms(1)]
  by (auto simp: authenticated_context_from_session_def active_session_def split: if_splits)

lemma authenticate_OkE:
  assumes "authenticate_oar_session persistence db authorization = Inr c"
  obtains session_id r where "bearer_session_id authorization = Inr session_id"
    and "GET_DEVICE_SESSION_BY_SESSION_ID db session_id = Some r" and "active_session r"
    and "c = \<lparr>au_session_id = session_id, au_tenant_id = dv_tenant_id r, au_user_id = dv_user_id r\<rparr>"
proof -
  from assms obtain session_id session where bearer: "bearer_session_id authorization = Inr session_id"
    and get: "get_by_session_id_for_authentication db session_id = Inr (Some session)"
    and ctx: "authenticated_context_from_session session = Inr c"
    by (auto simp: authenticate_oar_session_def try_then_Ok_iff map_err_def ok_or_def split: if_splits sum.splits option.splits)
  from get obtain r where row: "GET_DEVICE_SESSION_BY_SESSION_ID db session_id = Some r"
    and stored: "stored_device_session_from_row r = Inr session"
    by (auto simp: get_by_session_id_for_authentication_def transpose_map_def try_then_Ok_iff split: option.splits)
  from row have "dv_id r = session_id" by (auto simp: GET_DEVICE_SESSION_BY_SESSION_ID_def find_Some_iff)
  with that bearer row authenticated_row [OF stored ctx] show ?thesis by auto
qed

lemma signed_out_row_inactive:
  assumes "stored_device_session_from_row r = Inr s" and "logout_session_state_from_session s = Inr LogoutSignedOut"
  shows "\<not> active_session r"
  using assms(2) stored_session_row [OF assms(1)]
  by (auto simp: logout_session_state_from_session_def try_then_Ok_iff active_session_def split: if_splits)

text \<open>An inactive session is never authenticated again, whatever is called.\<close>

lemma inactive_not_authenticated:
  assumes "distinct (map dv_id (ab_sessions db))" and "r \<in> set (ab_sessions db)" and "\<not> active_session r"
    and "bearer_session_id authorization = Inr (dv_id r)"
  shows "authenticate_oar_session persistence (fold (auth_apply to_ts collate J) cs db) authorization \<noteq> Inr c"
proof
  let ?db = "fold (auth_apply to_ts collate J) cs db"
  assume "authenticate_oar_session persistence ?db authorization = Inr c"
  then obtain s where s: "GET_DEVICE_SESSION_BY_SESSION_ID ?db (dv_id r) = Some s" "active_session s"
    using assms(4) by (elim authenticate_OkE) simp
  then have in_s: "s \<in> set (ab_sessions ?db)" "dv_id s = dv_id r"
    by (auto simp: GET_DEVICE_SESSION_BY_SESSION_ID_def find_Some_iff)
  from sessions.row_evolves [OF assms(2)] obtain r' where r': "r' \<in> set (ab_sessions ?db)" "dv_id r' = dv_id r"
      "session_row_evolves r r'" by blast
  have "distinct (map dv_id (ab_sessions ?db))" by (rule sessions.keys_distinct [OF assms(1)])
  then have "inj_on dv_id (set (ab_sessions ?db))" by (simp add: distinct_map)
  with in_s r' have "r' = s" by (simp add: inj_on_def)
  with r' s assms(3) show False by (simp add: session_row_evolves_def)
qed

lemma sign_out_leaves_inactive:
  assumes "revoke_logout_session_and_last_device_grants to_ts collate J db request = (Inr ids, db')"
    and "r \<in> set (ab_sessions db')" and "dv_id r = lq_session_id request" and "dv_tenant_id r = lq_tenant_id request"
  shows "\<not> active_session r"
proof -
  from assms(1) obtain now where
    "ab_sessions db' = map_where (to_sign_out request) (signed_out_row now) (ab_sessions db)" by (rule sign_out_OkE)
  with assms(2) have "r \<in> (\<lambda>s. if to_sign_out request s then signed_out_row now s else s) ` set (ab_sessions db)"
    by (simp only: set_map_where)
  then obtain s where "r = (if to_sign_out request s then signed_out_row now s else s)" by blast
  with assms(3,4) show ?thesis by (cases "to_sign_out request s") (auto simp: active_session_def)
qed

lemma not_error_response [simp]:
  "oar_session_auth_error_response e \<noteq> signed_out_response" "service_unavailable c m \<noteq> signed_out_response"
  by (simp_all add: oar_session_auth_error_response_def signed_out_response_def service_unavailable_def unauthorized_def
      invalid_oar_session_def json_facade_response_def split: oar_session_auth_error.split)

text \<open>C11. A sign-out is final: when \<open>/auth/logout\<close> answers that the session is signed out, then,
  whatever other requests committed while it ran and whatever calls follow (the same session saved
  again by a late login callback, cursor updates, other sign-ins and sign-outs), no request with that
  bearer token is authenticated again.\<close>

theorem signed_out_stays_signed_out:
  assumes "distinct (map dv_id (ab_sessions db))"
    and "others = fold (auth_apply to_ts collate J) between"
    and "fst (logout_oar_session to_ts collate J sha256 persistence now others db authorization) = signed_out_response"
  shows "authenticate_oar_session persistence'
      (fold (auth_apply to_ts collate J) later
        (snd (logout_oar_session to_ts collate J sha256 persistence now others db authorization))) authorization
      \<noteq> Ok auth_context"
proof -
  let ?out = "logout_oar_session to_ts collate J sha256 persistence now others db authorization"
  from assms(3) obtain session_id where bearer: "bearer_session_id authorization = Inr session_id"
    by (cases "bearer_session_id authorization") (auto simp: logout_oar_session_def)
  from assms(3) bearer obtain session where
    get: "get_by_session_id_for_authentication db session_id = Inr (Some session)"
    by (auto simp: logout_oar_session_def split: if_splits sum.splits option.splits)
  from get obtain r where row: "GET_DEVICE_SESSION_BY_SESSION_ID db session_id = Some r"
    and stored: "stored_device_session_from_row r = Inr session"
    by (auto simp: get_by_session_id_for_authentication_def transpose_map_def try_then_Ok_iff split: option.splits)
  from row have r: "r \<in> set (ab_sessions db)" "dv_id r = session_id"
    by (auto simp: GET_DEVICE_SESSION_BY_SESSION_ID_def find_Some_iff)
  have out: "?out = (case logout_session_state_from_session session of
      Inl error \<Rightarrow> (oar_session_auth_error_response error, db)
    | Inr LogoutSignedOut \<Rightarrow> (signed_out_response, db)
    | Inr (LogoutActive c) \<Rightarrow>
       (case revoke_logout_session_and_last_device_grant to_ts collate J sha256 (others db) c now of
          (Inl _, db) \<Rightarrow> (service_unavailable ''oar_session_logout_unavailable''
            ''OAR session logout is temporarily unavailable.'', db)
        | (Inr _, db) \<Rightarrow> (signed_out_response, db)))"
    using bearer get assms(3) by (auto simp: logout_oar_session_def split: if_splits)
  show ?thesis
  proof (cases "logout_session_state_from_session session")
    case (Inl e)
    with out assms(3) show ?thesis by simp
  next
    case (Inr state)
    show ?thesis
    proof (cases state)
      case LogoutSignedOut
      with Inr out have "snd ?out = db" by simp
      with inactive_not_authenticated [OF assms(1) r(1)] signed_out_row_inactive [OF stored] Inr LogoutSignedOut bearer r(2)
      show ?thesis by simp
    next
      case (LogoutActive c)
      with Inr have "authenticated_context_from_session session = Inr c"
        by (auto simp: logout_session_state_from_session_def try_then_Ok_iff split: if_splits)
      with authenticated_row [OF stored] have c: "au_session_id c = dv_id r" "au_tenant_id c = dv_tenant_id r" by auto
      obtain res db' where run: "revoke_logout_session_and_last_device_grant to_ts collate J sha256 (others db) c now = (res, db')"
        by fastforce
      with Inr LogoutActive out assms(3) obtain ids where ids: "res = Inr ids" and db': "snd ?out = db'"
        by (cases res) auto
      from run ids obtain request where
        sign_out: "revoke_logout_session_and_last_device_grants to_ts collate J (others db) request = (Inr ids, db')"
        and request: "lq_session_id request = dv_id r" "lq_tenant_id request = dv_tenant_id r"
        using c by (auto simp: revoke_logout_session_and_last_device_grant_def Let_def)
      have fold: "db' = fold (auth_apply to_ts collate J) (between @ [SignOut request]) db"
        using sign_out assms(2) by simp
      have "distinct (map dv_id (ab_sessions db'))"
        unfolding fold by (rule sessions.keys_distinct [OF assms(1)])
      moreover obtain s where "s \<in> set (ab_sessions db')" and s: "dv_id s = dv_id r" "session_row_evolves r s"
        unfolding fold using sessions.row_evolves [OF r(1)] by blast
      moreover from this sign_out_leaves_inactive [OF sign_out] request have "\<not> active_session s"
        by (simp add: session_row_evolves_def)
      ultimately show ?thesis
        unfolding db' using inactive_not_authenticated [of db' s] bearer r(2) s(1) by simp
    qed
  qed
qed

section \<open>The last device of a user\<close>

lemma filter_map_where_other:
  "(\<And>r. P r \<Longrightarrow> \<not> Q r \<and> \<not> Q (f r)) \<Longrightarrow> filter Q (map_where P f rows) = filter Q rows"
  by (induction rows) (auto simp: map_where_def)

lemma user_grant_revoked_row [simp]: "user_grant db t u h (revoked_row now reason g) = user_grant db t u h g"
  by (simp add: user_grant_def revoked_row_def)

lemma append_revoke_events_rows:
  "append_revoke_events J db request n ids = (Inr u, db') \<Longrightarrow>
     \<exists>rows. ad_events (ab_audit db') = ad_events (ab_audit db) @ rows \<and>
       list_all2 (\<lambda>(k, i) row. append_audit_event_query J (logout_grant_revoke_audit_event request i (of_nat k)) None = Inr row)
         (enumerate (n + 1) ids) rows"
proof (induction ids arbitrary: n db)
  case (Cons i ids)
  let ?e = "logout_grant_revoke_audit_event request i (of_nat (n + 1))"
  from Cons.prems obtain v db1 where first: "with_audit (\<lambda>a. pg_audit_append J a ?e None) db = (Inr v, db1)"
    and rest: "append_revoke_events J db1 request (n + 1) ids = (Inr u, db')"
    by (auto elim!: try_st_OkE)
  from first obtain a where "pg_audit_append J (audit_view db) ?e None = (Inr v, a)" and "db1 = db\<lparr>ab_audit := a\<rparr>"
    by (auto simp: with_audit_def split: prod.splits)
  then obtain row where "append_audit_event_query J ?e None = Inr row"
    and "ad_events (ab_audit db1) = ad_events (ab_audit db) @ [row]"
    by (auto elim!: pg_audit_append_OkE simp: audit_view_def)
  with Cons.IH [OF rest] show ?case by (force simp: enumerate_simps)
qed simp

text \<open>C12. The sign-out transaction: an error leaves the database as it was. Otherwise the session is
  no longer active and no other session has changed; while the user has another active session, no
  grant and no audit event is touched; with the last one every grant of the user is revoked, the
  grants of others stay as they are, the answer lists each newly revoked grant once in order, and the
  audit log gains exactly one event for each, numbered in that order.\<close>

theorem last_device_sign_out_correct:
  "case revoke_logout_session_and_last_device_grants to_ts collate J db request of
     (Inl e, db') \<Rightarrow> db' = db
   | (Inr ids, db') \<Rightarrow>
       (let tenant = lq_tenant_id request; user = lq_user_id request; hint = lq_grant_id_hint request;
            theirs = user_grant db tenant user hint; other = (\<lambda>r. dv_id r \<noteq> lq_session_id request)
        in filter (\<lambda>r. dv_tenant_id r = tenant \<and> dv_id r = lq_session_id request \<and> active_session r) (ab_sessions db') = [] \<and>
           filter other (ab_sessions db') = filter other (ab_sessions db) \<and>
           (if remaining_active_sessions db' tenant user = 0
            then filter (\<lambda>g. theirs g \<and> gr_state g \<noteq> ''revoked'') (ab_grants db') = [] \<and>
              filter (\<lambda>g. \<not> theirs g) (ab_grants db') = filter (\<lambda>g. \<not> theirs g) (ab_grants db) \<and>
              mset ids = image_mset gr_id {#g \<in># mset (ab_grants db). theirs g \<and> gr_state g \<noteq> ''revoked''#} \<and>
              sorted (map collate ids) \<and>
              (\<exists>rows. ad_events (ab_audit db') = ad_events (ab_audit db) @ rows \<and>
                 list_all2 (\<lambda>(k, i) row. append_audit_event_query J
                     (logout_grant_revoke_audit_event request i (of_nat k)) None = Ok row) (enumerate 1 ids) rows)
            else ids = [] \<and> ab_grants db' = ab_grants db \<and> ab_audit db' = ab_audit db))"
proof (cases "revoke_logout_session_and_last_device_grants to_ts collate J db request")
  case (Pair res db')
  show ?thesis
  proof (cases res)
    case (Inl e)
    with Pair have "db' = db" by (blast intro: sign_out_Err)
    with Pair Inl show ?thesis by simp
  next
    case (Inr ids)
    with Pair have run: "revoke_logout_session_and_last_device_grants to_ts collate J db request = (Inr ids, db')" by simp
    let ?P = "to_revoke db request"
    let ?left = "remaining_active_sessions db' (lq_tenant_id request) (lq_user_id request)"
    from run obtain now where sess: "ab_sessions db' = map_where (to_sign_out request) (signed_out_row now) (ab_sessions db)"
      and rest: "if ?left = 0
      then ids = sort_key collate (map gr_id (filter ?P (ab_grants db))) \<and>
        ab_grants db' = map_where ?P (revoked_row now (lq_revocation_reason request)) (ab_grants db) \<and>
        (\<exists>db2. ab_audit db2 = ab_audit db \<and> ab_tenants db2 = ab_tenants db \<and>
           append_revoke_events J db2 request 0 ids = (Ok (), db'))
      else ids = [] \<and> ab_grants db' = ab_grants db \<and> ab_audit db' = ab_audit db"
      by (rule sign_out_OkE)
    have "filter (\<lambda>r. dv_tenant_id r = lq_tenant_id request \<and> dv_id r = lq_session_id request \<and> active_session r)
        (ab_sessions db') = []"
      using sign_out_leaves_inactive [OF run] by (auto simp: filter_empty_conv)
    moreover have "filter (\<lambda>r. dv_id r \<noteq> lq_session_id request) (ab_sessions db')
        = filter (\<lambda>r. dv_id r \<noteq> lq_session_id request) (ab_sessions db)"
      unfolding sess by (rule filter_map_where_other) simp
    moreover have "filter ?P (ab_grants db') = []"
      and "filter (\<lambda>g. \<not> user_grant db (lq_tenant_id request) (lq_user_id request) (lq_grant_id_hint request) g) (ab_grants db')
        = filter (\<lambda>g. \<not> user_grant db (lq_tenant_id request) (lq_user_id request) (lq_grant_id_hint request) g) (ab_grants db)"
      and "mset ids = image_mset gr_id {#g \<in># mset (ab_grants db). ?P g#}" and "sorted (map collate ids)"
      if "?left = 0"
    proof -
      from rest that have ids: "ids = sort_key collate (map gr_id (filter ?P (ab_grants db)))"
        and grants: "ab_grants db' = map_where ?P (revoked_row now (lq_revocation_reason request)) (ab_grants db)" by auto
      show "filter ?P (ab_grants db') = []"
        unfolding grants filter_empty_conv set_map_where by (auto simp: revoked_row_def split: if_splits)
      show "filter (\<lambda>g. \<not> user_grant db (lq_tenant_id request) (lq_user_id request) (lq_grant_id_hint request) g) (ab_grants db')
        = filter (\<lambda>g. \<not> user_grant db (lq_tenant_id request) (lq_user_id request) (lq_grant_id_hint request) g) (ab_grants db)"
        unfolding grants by (rule filter_map_where_other) simp
      show "mset ids = image_mset gr_id {#g \<in># mset (ab_grants db). ?P g#}" by (simp add: ids)
      show "sorted (map collate ids)" by (simp add: ids)
    qed
    moreover have "\<exists>rows. ad_events (ab_audit db') = ad_events (ab_audit db) @ rows \<and>
        list_all2 (\<lambda>(k, i) row. append_audit_event_query J (logout_grant_revoke_audit_event request i (of_nat k)) None = Inr row)
          (enumerate 1 ids) rows" if "?left = 0"
      using rest that append_revoke_events_rows by fastforce
    ultimately show ?thesis using Pair Inr rest by (simp add: Let_def)
  qed
qed

lemma only_one_Ok: "(case xs of [] \<Rightarrow> Err a | [x] \<Rightarrow> Ok x | _ \<Rightarrow> Err b) = Inr y \<Longrightarrow> xs = [y]"
  by (cases xs; cases "tl xs") auto

lemma resolved_grant_usable:
  assumes "resolve_grant_id_for_user db auth_context = Inr grant_id"
  obtains g where "g \<in> set (ab_grants db)" and "gr_id g = grant_id" and "gr_revoked_at g = None"
proof (cases "grant_id_for_workspace_user_id (au_user_id auth_context)")
  case None
  let ?ids = "map gr_id (sort_key grant_recency (concat (map (\<lambda>g. map (\<lambda>_. g)
      (filter (\<lambda>i. ir_tenant_id i = gr_tenant_id g \<and> ir_id i = gr_identity_id g \<and>
         ir_actor_kind i = ''user'' \<and> ir_actor_external_id i = au_user_id auth_context) (ab_identities db)))
      (filter (\<lambda>g. gr_tenant_id g = au_tenant_id auth_context \<and> usable_grant g) (ab_grants db)))))"
  from assms have "take 2 ?ids = [grant_id]"
    unfolding resolve_grant_id_for_user_def Let_def None option.case by (rule only_one_Ok)
  then have "grant_id \<in> set (take 2 ?ids)" by (simp only: list.set_intros)
  then have "grant_id \<in> set ?ids" by (rule in_set_takeD)
  then obtain g where "g \<in> set (ab_grants db)" "usable_grant g" "gr_id g = grant_id" by auto
  with that show ?thesis by (simp add: usable_grant_def)
next
  case (Some gid)
  with assms that show ?thesis
    by (auto simp: resolve_grant_id_for_user_def Let_def ok_or_def find_Some_iff usable_grant_def in_set_conv_nth
        split: option.splits)
qed

lemma revoked_grants_of_sign_out:
  assumes "revoke_logout_session_and_last_device_grants to_ts collate J db request = (Inr ids, db')" and "grant_id \<in> set ids"
  shows "\<exists>g \<in> set (ab_grants db'). gr_id g = grant_id \<and> gr_revoked_at g \<noteq> None"
    and "map gr_id (ab_grants db') = map gr_id (ab_grants db)"
proof -
  from assms(1) obtain now where
    "if remaining_active_sessions db' (lq_tenant_id request) (lq_user_id request) = 0
      then ids = sort_key collate (map gr_id (filter (to_revoke db request) (ab_grants db))) \<and>
        ab_grants db' = map_where (to_revoke db request) (revoked_row now (lq_revocation_reason request)) (ab_grants db) \<and>
        (\<exists>db2. ab_audit db2 = ab_audit db \<and> ab_tenants db2 = ab_tenants db \<and>
           append_revoke_events J db2 request 0 ids = (Ok (), db'))
      else ids = [] \<and> ab_grants db' = ab_grants db \<and> ab_audit db' = ab_audit db" by (rule sign_out_OkE)
  with assms(2) have ids: "grant_id \<in> gr_id ` set (filter (to_revoke db request) (ab_grants db))"
    and grants: "ab_grants db' = map_where (to_revoke db request) (revoked_row now (lq_revocation_reason request)) (ab_grants db)"
    by (auto split: if_splits)
  from ids obtain g where "g \<in> set (ab_grants db)" "to_revoke db request g" "gr_id g = grant_id" by auto
  then have "revoked_row now (lq_revocation_reason request) g \<in> set (ab_grants db')"
    unfolding grants set_map_where by force
  with \<open>gr_id g = grant_id\<close> show "\<exists>g \<in> set (ab_grants db'). gr_id g = grant_id \<and> gr_revoked_at g \<noteq> None"
    by (intro bexI [of _ "revoked_row now (lq_revocation_reason request) g"]) (simp_all add: revoked_row_def)
  show "map gr_id (ab_grants db') = map gr_id (ab_grants db)"
    unfolding grants by (simp add: map_where_def revoked_row_def)
qed


section \<open>Witnesses\<close>

definition sample_session_row :: session_row where
  "sample_session_row = \<lparr>dv_id = ''oar_session_1'', dv_tenant_id = ''t1'', dv_user_id = ''feishu_user_1'', dv_entry_point = ''macos'',
     dv_state = ''active'', dv_sync_stream = ''main'', dv_sync_cursor_value = 0, dv_sync_cursor_updated_at = 0,
     dv_session_identity_hash = ''h'', dv_last_seen_at = 0, dv_revoked_at = None, dv_expired_at = None\<rparr>"

definition sample_auth_db :: "token_grant_row list \<Rightarrow> auth_db" where
  "sample_auth_db grants = \<lparr>
     ab_tenants = [\<lparr>tr_id = ''t1'', tr_display_name = ''T'', tr_status = ''active''\<rparr>],
     ab_users = [\<lparr>ur_id = ''feishu_user_1'', ur_tenant_id = ''t1'', ur_display_name = ''U'', ur_status = ''active''\<rparr>],
     ab_identities = [\<lparr>ir_id = ''i1'', ir_tenant_id = ''t1'', ir_actor_kind = ''user'', ir_actor_external_id = ''ou_1'',
       ir_display_name = None\<rparr>],
     ab_sessions = [sample_session_row], ab_grants = grants,
     ab_audit = \<lparr>ad_tenants = [''t1''], ad_operations = [], ad_events = [], ad_outbox = [], ad_outbox_id_seq = 1\<rparr>\<rparr>"

definition sample_user_grant :: token_grant_row where
  "sample_user_grant = sample_grant_row\<lparr>gr_id := ''feishu_grant_1''\<rparr>"

definition sample_sign_out :: auth_logout_revoke_request where
  "sample_sign_out = \<lparr>lq_tenant_id = ''t1'', lq_user_id = ''feishu_user_1'', lq_session_id = ''oar_session_1'',
     lq_grant_id_hint = Some ''feishu_grant_1'', lq_occurred_at_ms = 5000, lq_revocation_reason = ''logout'',
     lq_audit_trace_id = ''trace'', lq_audit_action_type = ''token_grant.revoke''\<rparr>"

lemmas sample_auth_defs = sample_auth_db_def sample_session_row_def sample_sign_out_def sample_user_grant_def sample_grant_row_def

lemmas sign_out_eval = revoke_logout_session_and_last_device_grants_def REVOKE_DEVICE_SESSION_def update_session_def
  revoke_user_grants_in_tx_def exec_sql_def in_tx_def remaining_active_sessions_def active_session_def user_grant_def
  revoked_row_def pg_to_timestamp_def sql_timestamp_def u64_as_i64_def Let_def sample_auth_defs

lemma sample_bearer: "bearer_session_id (Some ''Bearer oar_session_1'') = Inr ''oar_session_1''"
  by code_simp

lemma sample_session_found:
  "get_by_session_id_for_authentication (sample_auth_db grants) ''oar_session_1'' = Inr (Some
     \<lparr>sn_id = ''oar_session_1'', sn_tenant_id = ''t1'', sn_user_id = ''feishu_user_1'', sn_entry_point = MacOs,
      sn_state = SessionActive, sn_sync_stream = ''main'', sn_sync_cursor_value = 0, sn_sync_cursor_updated_at = 0,
      sn_session_identity_hash = ''h'', sn_last_seen_at = 0, sn_revoked_at = None, sn_expired_at = None\<rparr>)"
  by (simp add: get_by_session_id_for_authentication_def GET_DEVICE_SESSION_BY_SESSION_ID_def sample_auth_defs
      transpose_map_def stored_device_session_from_row_def device_entry_point_from_db_def device_session_state_from_db_def
      non_negative_i64_to_u64_def optional_non_negative_i64_to_u64_def epoch_ms_def ms_to_system_time_def)

lemma sample_transaction:
  "fst (revoke_logout_session_and_last_device_grant pg_to_timestamp length sample_json (\<lambda>_. []) (sample_auth_db [])
     \<lparr>au_session_id = ''oar_session_1'', au_tenant_id = ''t1'', au_user_id = ''feishu_user_1''\<rparr> 5000000000) = Ok []"
  by (simp add: revoke_logout_session_and_last_device_grant_def system_time_to_ms_lossy_def sign_out_eval)

lemma sample_sign_out_answers:
  "fst (logout_oar_session pg_to_timestamp length sample_json (\<lambda>_. []) True 5000000000 (\<lambda>db. db)
     (sample_auth_db []) (Some ''Bearer oar_session_1'')) = signed_out_response"
  using sample_transaction
  by (auto simp: logout_oar_session_def sample_bearer sample_session_found logout_session_state_from_session_def
      authenticated_context_from_session_def split: prod.split)

theorem signed_out_stays_signed_out_witness:
  "authenticate_oar_session True
     (auth_apply pg_to_timestamp length sample_json (SaveSession (device_session_new (DeviceSessionId ''oar_session_1'') (TenantId ''t1'')
         (WorkspaceUserId ''feishu_user_1'') MacOs ''main'' 0 6000000000) ''h'')
       (snd (logout_oar_session pg_to_timestamp length sample_json (\<lambda>_. []) True 5000000000 (\<lambda>db. db)
         (sample_auth_db []) (Some ''Bearer oar_session_1'')))) (Some ''Bearer oar_session_1'')
       \<noteq> Ok \<lparr>au_session_id = ''oar_session_1'', au_tenant_id = ''t1'', au_user_id = ''feishu_user_1''\<rparr>"
  using signed_out_stays_signed_out [of "sample_auth_db []" "\<lambda>db. db" pg_to_timestamp length sample_json "[]" "\<lambda>_. []" True 5000000000
      "Some ''Bearer oar_session_1''" True "[SaveSession (device_session_new (DeviceSessionId ''oar_session_1'') (TenantId ''t1'')
         (WorkspaceUserId ''feishu_user_1'') MacOs ''main'' 0 6000000000) ''h'']"
      "\<lparr>au_session_id = ''oar_session_1'', au_tenant_id = ''t1'', au_user_id = ''feishu_user_1''\<rparr>"] sample_sign_out_answers
  by (simp add: sample_auth_db_def id_def)

lemma sample_last_sign_out:
  "fst (revoke_logout_session_and_last_device_grants pg_to_timestamp length sample_json (sample_auth_db [sample_user_grant]) sample_sign_out)
     = Ok [''feishu_grant_1'']"
  by (simp add: sign_out_eval with_audit_def audit_view_def pg_audit_append_def append_audit_event_query_def
      logout_grant_revoke_audit_event_def event_defs event_of_context_def json_option_def transpose_map_def sample_json_def
      APPEND_AUDIT_EVENT_def audit_event_row_check_def)


end
