(* ===== verification/Session_Invariant.thy ===== *)
theory Session_Invariant
  imports Session_Auth
begin

text \<open>
  The keys, references and checks of the tables of tenants, users, identities and device sessions,
  which every call of the repositories keeps, so that a request that is authenticated is always made
  for a user of an existing tenant.
\<close>

section \<open>Well-formed tables\<close>

definition session_keys_ok :: "auth_db \<Rightarrow> bool" where
  "session_keys_ok db \<longleftrightarrow> distinct (map dv_id (ab_sessions db)) \<and>
     distinct (map (\<lambda>r. (dv_tenant_id r, dv_session_identity_hash r)) (ab_sessions db))"

definition user_keys :: "auth_db \<Rightarrow> (string \<times> string) set" where
  "user_keys db = (\<lambda>u. (ur_tenant_id u, ur_id u)) ` set (ab_users db)"

definition identities_ok :: "auth_db \<Rightarrow> bool" where
  "identities_ok db \<longleftrightarrow> distinct (map ir_id (ab_identities db)) \<and> distinct (map external_key (ab_identities db)) \<and>
     (\<forall>i \<in> set (ab_identities db). ir_tenant_id i \<in> tr_id ` set (ab_tenants db))"

definition auth_tables_ok :: "auth_db \<Rightarrow> bool" where
  "auth_tables_ok db \<longleftrightarrow>
     distinct (map tr_id (ab_tenants db)) \<and> distinct (map ur_id (ab_users db)) \<and>
     (\<forall>u \<in> set (ab_users db). ur_tenant_id u \<in> tr_id ` set (ab_tenants db)) \<and>
     identities_ok db \<and> session_keys_ok db \<and>
     (\<forall>r \<in> set (ab_sessions db). session_row_check r \<and> (dv_tenant_id r, dv_user_id r) \<in> user_keys db)"

lemma session_references_iff:
  "session_references db r \<longleftrightarrow>
     dv_tenant_id r \<in> tr_id ` set (ab_tenants db) \<and> (dv_tenant_id r, dv_user_id r) \<in> user_keys db"
  by (simp add: session_references_def user_keys_def)

lemma distinct_key_update:
  assumes "distinct (map idf rows)" and "distinct (map key rows)"
    and "\<And>r. r \<in> set rows \<Longrightarrow> idf r = i \<Longrightarrow> key (f r) = k" and "\<And>r. r \<in> set rows \<Longrightarrow> idf r \<noteq> i \<Longrightarrow> key r \<noteq> k"
  shows "distinct (map key (map_where (\<lambda>r. idf r = i) f rows))"
  using assms
proof (induction rows)
  case (Cons r rows)
  then have "distinct (map key (map_where (\<lambda>r. idf r = i) f rows))" by simp
  moreover have "key (if idf r = i then f r else r) \<notin> key ` set (map_where (\<lambda>r. idf r = i) f rows)"
  proof
    assume "key (if idf r = i then f r else r) \<in> key ` set (map_where (\<lambda>r. idf r = i) f rows)"
    then obtain s where s: "s \<in> set rows" and eq: "key (if idf r = i then f r else r) = key (if idf s = i then f s else s)"
      unfolding set_map_where by auto
    from s Cons.prems have "key r \<noteq> key s" "idf r \<noteq> idf s" by (auto simp: image_iff)
    with s eq Cons.prems(3) [of r] Cons.prems(4) [of r] Cons.prems(3) [of s] Cons.prems(4) [of s] show False
      by (cases "idf r = i"; cases "idf s = i") auto
  qed
  ultimately show ?case by (cases "idf r = i") simp_all
qed simp

section \<open>Every call keeps them\<close>

lemma auth_tables_ok_same:
  "auth_tables_ok db \<Longrightarrow> ab_tenants d = ab_tenants db \<Longrightarrow> ab_users d = ab_users db \<Longrightarrow>
     ab_identities d = ab_identities db \<Longrightarrow> ab_sessions d = ab_sessions db \<Longrightarrow> auth_tables_ok d"
  by (simp add: auth_tables_ok_def identities_ok_def session_keys_ok_def user_keys_def)

lemma exec_sql_ok:
  "auth_tables_ok db \<Longrightarrow> (\<And>x d. stmt = Inr (x, d) \<Longrightarrow> auth_tables_ok d) \<Longrightarrow> auth_tables_ok (snd (exec_sql db stmt))"
  by (cases stmt) (auto simp: exec_sql_def)

lemma upsert_tenant_ok:
  assumes "auth_tables_ok db"
  shows "auth_tables_ok (snd (UPSERT_TENANT db new))"
proof (cases "list_ex (\<lambda>r. tr_id r = tr_id new) (ab_tenants db)")
  case True
  have ids: "map tr_id (map_where (\<lambda>r. tr_id r = tr_id new) (\<lambda>_. new) (ab_tenants db)) = map tr_id (ab_tenants db)"
    by (simp add: map_where_def)
  then have "tr_id ` set (map_where (\<lambda>r. tr_id r = tr_id new) (\<lambda>_. new) (ab_tenants db)) = tr_id ` set (ab_tenants db)"
    by (metis list.set_map)
  with ids True assms show ?thesis
    by (simp add: UPSERT_TENANT_def auth_tables_ok_def identities_ok_def session_keys_ok_def user_keys_def)
next
  case False
  with assms show ?thesis
    by (auto simp: UPSERT_TENANT_def auth_tables_ok_def identities_ok_def session_keys_ok_def user_keys_def list_ex_iff)
qed

lemma upsert_user_ok:
  assumes ok: "auth_tables_ok db" and upsert: "UPSERT_WORKSPACE_USER db new = Inr (row, d)"
  shows "auth_tables_ok d"
proof (cases "find (\<lambda>r. ur_id r = ur_id new) (ab_users db)")
  case None
  with upsert have d: "d = db\<lparr>ab_users := ab_users db @ [new]\<rparr>" "ur_tenant_id new \<in> tr_id ` set (ab_tenants db)"
    by (simp_all add: UPSERT_WORKSPACE_USER_def split: if_splits)
  with None ok show ?thesis
    by (auto simp: auth_tables_ok_def identities_ok_def session_keys_ok_def user_keys_def find_None_iff)
next
  case (Some r)
  let ?rows = "map_where (\<lambda>r. ur_id r = ur_id new) (\<lambda>_. new) (ab_users db)"
  show ?thesis
  proof (cases "ur_tenant_id r = ur_tenant_id new")
    case False
    with Some upsert ok show ?thesis by (simp add: UPSERT_WORKSPACE_USER_def)
  next
    case True
    with Some upsert have d: "d = db\<lparr>ab_users := ?rows\<rparr>" by (simp add: UPSERT_WORKSPACE_USER_def)
    from Some have r: "r \<in> set (ab_users db)" "ur_id r = ur_id new" by (auto simp: find_Some_iff)
    from ok have inj: "inj_on ur_id (set (ab_users db))" by (simp add: auth_tables_ok_def distinct_map)
    have tenant: "ur_tenant_id s = ur_tenant_id new" if "s \<in> set (ab_users db)" "ur_id s = ur_id new" for s
    proof -
      from inj that r have "s = r" by (simp add: inj_on_def)
      with True show ?thesis by simp
    qed
    have keys: "map (\<lambda>s. (ur_tenant_id s, ur_id s)) ?rows = map (\<lambda>s. (ur_tenant_id s, ur_id s)) (ab_users db)"
      unfolding map_where_def list.map_comp by (rule map_cong) (simp_all add: tenant)
    have "map ur_id ?rows = map ur_id (ab_users db)" by (simp add: map_where_def)
    moreover from arg_cong [OF keys, of set] have "user_keys d = user_keys db" by (simp add: user_keys_def d)
    moreover have "ur_tenant_id s \<in> tr_id ` set (ab_tenants db)" if s: "s \<in> set ?rows" for s
    proof -
      from s r(1) tenant [of r] obtain s' where "s' \<in> set (ab_users db)" "ur_tenant_id s' = ur_tenant_id s"
        unfolding set_map_where using r(2) by (auto split: if_splits)
      with ok show ?thesis by (metis auth_tables_ok_def)
    qed
    ultimately show ?thesis using ok by (simp add: auth_tables_ok_def identities_ok_def session_keys_ok_def d)
  qed
qed

lemma upsert_identity_ok:
  assumes ok: "auth_tables_ok db" and upsert: "UPSERT_LARK_IDENTITY db new = Inr (row, d)"
  shows "auth_tables_ok d"
proof -
  from ok have i: "identities_ok db" by (simp add: auth_tables_ok_def)
  have "identities_ok d \<and> ab_tenants d = ab_tenants db \<and> ab_users d = ab_users db \<and> ab_sessions d = ab_sessions db"
  proof (cases "find (\<lambda>r. ir_id r = ir_id new) (ab_identities db)")
    case None
    with upsert have "d = db\<lparr>ab_identities := ab_identities db @ [new]\<rparr>" "ir_tenant_id new \<in> tr_id ` set (ab_tenants db)"
      "\<not> list_ex (\<lambda>r. ir_id r \<noteq> ir_id new \<and> external_key r = external_key new) (ab_identities db)"
      by (auto simp: UPSERT_LARK_IDENTITY_def Let_def split: if_splits)
    with None i show ?thesis by (fastforce simp: identities_ok_def find_None_iff list_ex_iff)
  next
    case (Some r)
    show ?thesis
    proof (cases "ir_tenant_id r = ir_tenant_id new")
      case False
      with Some upsert i show ?thesis by (simp add: UPSERT_LARK_IDENTITY_def Let_def)
    next
      case True
      with Some upsert have d: "d = db\<lparr>ab_identities := map_where (\<lambda>r. ir_id r = ir_id new) (\<lambda>_. new) (ab_identities db)\<rparr>"
        and free: "\<not> list_ex (\<lambda>r. ir_id r \<noteq> ir_id new \<and> external_key r = external_key new) (ab_identities db)"
        by (auto simp: UPSERT_LARK_IDENTITY_def Let_def split: if_splits)
      have "distinct (map ir_id (ab_identities d))"
        using i unfolding d identities_ok_def by (simp add: map_where_def comp_def if_distrib cong: if_cong map_cong)
      moreover have "distinct (map external_key (ab_identities d))"
        unfolding d using i free by (simp, intro distinct_key_update [where k = "external_key new"])
          (auto simp: identities_ok_def list_ex_iff)
      moreover from Some have "r \<in> set (ab_identities db)" by (auto simp: find_Some_iff)
      with True i have "ir_tenant_id new \<in> tr_id ` set (ab_tenants db)" unfolding identities_ok_def by metis
      with i have "\<forall>i \<in> set (ab_identities d). ir_tenant_id i \<in> tr_id ` set (ab_tenants d)"
        unfolding d identities_ok_def by (auto simp: set_map_where)
      ultimately show ?thesis by (simp add: identities_ok_def d)
    qed
  qed
  with ok show ?thesis by (simp add: auth_tables_ok_def session_keys_ok_def user_keys_def)
qed

text \<open>A change of sessions that keeps their keys, references and checks.\<close>

lemma update_session_ok:
  assumes ok: "auth_tables_ok db"
    and f: "\<And>r. P r \<Longrightarrow> session_row_check r \<Longrightarrow> session_row_check (f r)"
    and keys: "\<And>r. P r \<Longrightarrow> dv_id (f r) = dv_id r \<and> dv_tenant_id (f r) = dv_tenant_id r \<and>
      dv_session_identity_hash (f r) = dv_session_identity_hash r \<and> dv_user_id (f r) = dv_user_id r"
  shows "auth_tables_ok (snd (update_session P f db))"
proof -
  let ?rows = "map_where P f (ab_sessions db)"
  have "map dv_id ?rows = map dv_id (ab_sessions db)"
    and "map (\<lambda>r. (dv_tenant_id r, dv_session_identity_hash r)) ?rows
      = map (\<lambda>r. (dv_tenant_id r, dv_session_identity_hash r)) (ab_sessions db)"
    unfolding map_where_def list.map_comp by (rule map_cong; use keys in simp)+
  moreover have "session_row_check r \<and> (dv_tenant_id r, dv_user_id r) \<in> user_keys db" if "r \<in> set ?rows" for r
    using that ok f keys unfolding set_map_where auth_tables_ok_def by (auto split: if_splits)
  ultimately show ?thesis using ok
    by (simp add: update_session_def auth_tables_ok_def identities_ok_def session_keys_ok_def user_keys_def)
qed

lemma session_statement_ok:
  assumes ok: "auth_tables_ok db"
  shows "ADVANCE_DEVICE_SESSION_CURSOR_CAS to_ts db tenant sid next_cursor ms expected = Inr (row, d) \<Longrightarrow> auth_tables_ok d"
    and "REVOKE_DEVICE_SESSION to_ts db tenant sid ms = Inr (row, d) \<Longrightarrow> auth_tables_ok d"
    and "EXPIRE_DEVICE_SESSION to_ts db tenant sid ms = Inr (row, d) \<Longrightarrow> auth_tables_ok d"
  unfolding ADVANCE_DEVICE_SESSION_CURSOR_CAS_def REVOKE_DEVICE_SESSION_def EXPIRE_DEVICE_SESSION_def
  by (auto simp: try_then_Ok_iff session_row_check_def
      dest!: arg_cong [where f = snd] intro!: update_session_ok [OF ok])

lemma upsert_session_ok:
  assumes ok: "auth_tables_ok db" and upsert: "UPSERT_DEVICE_SESSION db new = Inr (row, d)"
  shows "auth_tables_ok d"
proof (cases "find (\<lambda>r. dv_id r = dv_id new) (ab_sessions db)")
  case None
  with upsert have d: "d = db\<lparr>ab_sessions := ab_sessions db @ [new]\<rparr>" and check: "session_row_check new"
    and refs: "session_references db new" and free: "\<not> list_ex (\<lambda>r. dv_id r \<noteq> dv_id new \<and>
        dv_tenant_id r = dv_tenant_id new \<and> dv_session_identity_hash r = dv_session_identity_hash new) (ab_sessions db)"
    by (auto simp: UPSERT_DEVICE_SESSION_def Let_def split: if_splits)
  with None ok show ?thesis
    by (fastforce simp: auth_tables_ok_def identities_ok_def session_keys_ok_def session_references_iff user_keys_def
        find_None_iff list_ex_iff)
next
  case (Some r)
  show ?thesis
  proof (cases "dv_tenant_id r = dv_tenant_id new \<and> active_session r")
    case False
    with Some upsert ok show ?thesis by (auto simp: UPSERT_DEVICE_SESSION_def Let_def split: if_splits)
  next
    case True
    let ?rows = "map_where (\<lambda>r. dv_id r = dv_id new) (upserted_session_row new) (ab_sessions db)"
    from True Some upsert have d: "d = db\<lparr>ab_sessions := ?rows\<rparr>" and check: "session_row_check new"
      and refs: "session_references db new" and free: "\<not> list_ex (\<lambda>r. dv_id r \<noteq> dv_id new \<and>
        dv_tenant_id r = dv_tenant_id new \<and> dv_session_identity_hash r = dv_session_identity_hash new) (ab_sessions db)"
      by (auto simp: UPSERT_DEVICE_SESSION_def Let_def split: if_splits)
    from Some have r: "r \<in> set (ab_sessions db)" "dv_id r = dv_id new" by (auto simp: find_Some_iff)
    from ok have keys: "session_keys_ok db" by (simp add: auth_tables_ok_def)
    have same: "s = r" if "s \<in> set (ab_sessions db)" "dv_id s = dv_id new" for s
      using keys that r by (simp add: session_keys_ok_def distinct_map inj_on_def)
    have "map dv_id ?rows = map dv_id (ab_sessions db)"
      unfolding map_where_def list.map_comp by (rule map_cong) (simp_all add: upserted_session_row_def)
    moreover have "distinct (map (\<lambda>r. (dv_tenant_id r, dv_session_identity_hash r)) ?rows)"
      by (rule distinct_key_update [where k = "(dv_tenant_id new, dv_session_identity_hash new)"])
        (use keys free same True in \<open>auto simp: session_keys_ok_def upserted_session_row_def list_ex_iff\<close>)
    ultimately have "session_keys_ok d" using keys by (simp add: session_keys_ok_def d)
    moreover have "session_row_check s \<and> (dv_tenant_id s, dv_user_id s) \<in> user_keys db" if s: "s \<in> set ?rows" for s
    proof -
      from s obtain s' where s': "s' \<in> set (ab_sessions db)"
        "s = (if dv_id s' = dv_id new then upserted_session_row new s' else s')" unfolding set_map_where by blast
      with ok have "session_row_check s'" "(dv_tenant_id s', dv_user_id s') \<in> user_keys db" by (auto simp: auth_tables_ok_def)
      with s' same [of s'] True check refs show ?thesis
        by (cases "dv_id s' = dv_id new") (auto simp: upserted_session_row_def session_row_check_def session_references_iff)
    qed
    ultimately show ?thesis using ok by (simp add: auth_tables_ok_def identities_ok_def user_keys_def d)
  qed
qed

lemma session_call_ok:
  assumes ok: "auth_tables_ok db"
  shows "auth_tables_ok (snd (upsert_with_identity_hash to_ts db s hash))"
    and "auth_tables_ok (snd (advance_cursor_cas to_ts db tenant sid expected next_cursor now))"
    and "auth_tables_ok (snd (session_revoke to_ts db tenant sid now))"
    and "auth_tables_ok (snd (session_expire to_ts db tenant sid now))"
  unfolding upsert_with_identity_hash_def advance_cursor_cas_def session_revoke_def session_expire_def returned_session_def
  by (subst snd_try_st_same, simp split: option.split, rule exec_sql_ok [OF ok],
      force simp: try_then_Ok_iff intro: upsert_session_ok [OF ok])
    (auto simp: snd_try_st_read snd_try_st_same ok split: sum.split
      intro: session_statement_ok [OF ok] intro!: exec_sql_ok [OF ok])

lemma append_revoke_events_users:
  "append_revoke_events J db request n ids = (r, db') \<Longrightarrow> ab_users db' = ab_users db \<and> ab_tenants db' = ab_tenants db"
proof (induction ids arbitrary: n db)
  case (Cons i ids)
  show ?case
  proof (cases "with_audit (\<lambda>a. pg_audit_append J a (logout_grant_revoke_audit_event request i (of_nat (n + 1))) None) db")
    case (Pair e db1)
    from with_audit_tables [of "\<lambda>a. pg_audit_append J a (logout_grant_revoke_audit_event request i (of_nat (n + 1))) None" db]
    have "ab_users db1 = ab_users db \<and> ab_tenants db1 = ab_tenants db" by (simp only: Pair snd_conv)
    with Cons.prems Cons.IH [of db1 "n + 1"] Pair show ?thesis by (cases e) auto
  qed
qed simp

lemma sign_out_ok:
  assumes ok: "auth_tables_ok db"
  shows "auth_tables_ok (snd (revoke_logout_session_and_last_device_grants to_ts collate J db request))"
proof -
  let ?ms = "u64_as_i64 (lq_occurred_at_ms request)"
  let ?stmt = "REVOKE_DEVICE_SESSION to_ts db (lq_tenant_id request) (lq_session_id request) ?ms"
  obtain res db' where out: "revoke_logout_session_and_last_device_grants to_ts collate J db request = (res, db')" by fastforce
  show ?thesis
  proof (cases res)
    case (Inl e)
    with out have "db' = db" by (blast intro: sign_out_Err)
    with out ok show ?thesis by simp
  next
    case (Inr ids)
    with out obtain row db1 where stmt: "?stmt = Inr (row, db1)"
      by (cases ?stmt) (auto simp: revoke_logout_session_and_last_device_grants_def exec_sql_def in_tx_def)
    from session_statement_ok(2) [OF ok stmt] have ok1: "auth_tables_ok db1" .
    let ?same = "\<lambda>d. ab_tenants d = ab_tenants db1 \<and> ab_users d = ab_users db1 \<and> ab_identities d = ab_identities db1 \<and>
       ab_sessions d = ab_sessions db1"
    have grants: "?same d" if "revoke_user_grants_in_tx to_ts collate db1 request ?ms = (r, d)" for r d
      using that by (auto simp: revoke_user_grants_in_tx_def exec_sql_def try_then_def Let_def split: sum.splits)
    have body: "?same db'"
      using out Inr stmt unfolding revoke_logout_session_and_last_device_grants_def Let_def
      by (auto simp: in_tx_def try_st_def dest!: grants dest: append_revoke_events_tables append_revoke_events_users
          split: if_splits sum.splits prod.splits)
    with out ok1 show ?thesis by (auto intro: auth_tables_ok_same)
  qed
qed

lemma auth_apply_ok:
  assumes ok: "auth_tables_ok db"
  shows "auth_tables_ok (auth_apply to_ts collate J c db)"
proof (cases c)
  case (SaveTenant t)
  have "snd (tenant_upsert db t) = snd (UPSERT_TENANT db \<lparr>tr_id = tenant_str (tn_id t),
      tr_display_name = tn_display_name t, tr_status = tenant_status_to_db (tn_status t)\<rparr>)"
    by (simp add: tenant_upsert_def split: prod.split)
  with SaveTenant upsert_tenant_ok [OF ok] show ?thesis by simp
next
  case (SaveUser u)
  have "auth_tables_ok (snd (user_upsert db u))"
    unfolding user_upsert_def
    by (subst snd_try_st_same, simp split: option.split, rule exec_sql_ok [OF ok], erule upsert_user_ok [OF ok])
  with SaveUser show ?thesis by simp
next
  case (SaveIdentity i)
  let ?stmt = "UPSERT_LARK_IDENTITY db \<lparr>ir_id = identity_str (li_id i), ir_tenant_id = tenant_str (li_tenant_id i),
     ir_actor_kind = actor_kind_to_db (li_actor_kind i), ir_actor_external_id = li_actor_external_id i,
     ir_display_name = li_display_name i\<rparr>"
  have "snd (identity_upsert db i) = snd (exec_sql db ?stmt)"
    by (simp add: identity_upsert_def Let_def split: prod.split sum.split option.split)
  moreover have "auth_tables_ok (snd (exec_sql db ?stmt))"
    by (rule exec_sql_ok [OF ok], erule upsert_identity_ok [OF ok])
  ultimately show ?thesis using SaveIdentity by simp
qed (auto simp: session_call_ok [OF ok] sign_out_ok [OF ok] with_grants_def split: prod.split intro: auth_tables_ok_same [OF ok])

lemma auth_tables_ok_run: "auth_tables_ok db \<Longrightarrow> auth_tables_ok (fold (auth_apply to_ts collate J) cs db)"
  by (induction cs arbitrary: db) (simp_all add: auth_apply_ok)

lemma filter_unique_key: "distinct (map k xs) \<Longrightarrow> x \<in> set xs \<Longrightarrow> filter (\<lambda>y. k y = k x) xs = [x]"
proof (induction xs)
  case (Cons y ys)
  then show ?case by (cases "x = y") (auto simp: filter_empty_conv image_iff)
qed simp

text \<open>C16. Over any sequence of calls of the tenant, user, identity, grant, session and sign-out
  repositories the tables keep their keys, references and checks, and a bearer token that is
  accepted names exactly one active session, whose user is a user of the same, existing tenant.\<close>

theorem authenticated_user_exists:
  assumes "auth_tables_ok db"
  shows "auth_tables_ok (fold (auth_apply to_ts collate J) calls db) \<and>
    (case authenticate_oar_session persistence (fold (auth_apply to_ts collate J) calls db) authorization of
       Inl e \<Rightarrow> True
     | Inr c \<Rightarrow>
         (let after = fold (auth_apply to_ts collate J) calls db in
          (\<exists>r. filter (\<lambda>r. dv_id r = au_session_id c) (ab_sessions after) = [r] \<and> active_session r \<and>
             dv_tenant_id r = au_tenant_id c \<and> dv_user_id r = au_user_id c) \<and>
          (\<exists>u. filter (\<lambda>u. ur_id u = au_user_id c) (ab_users after) = [u] \<and> ur_tenant_id u = au_tenant_id c) \<and>
          au_tenant_id c \<in> tr_id ` set (ab_tenants after)))"
proof -
  let ?db = "fold (auth_apply to_ts collate J) calls db"
  have ok: "auth_tables_ok ?db" using assms by (rule auth_tables_ok_run)
  show ?thesis
  proof (cases "authenticate_oar_session persistence ?db authorization")
    case (Inr c)
    then obtain sid r where row: "GET_DEVICE_SESSION_BY_SESSION_ID ?db sid = Some r" and active: "active_session r"
      and c: "c = \<lparr>au_session_id = sid, au_tenant_id = dv_tenant_id r, au_user_id = dv_user_id r\<rparr>"
      by (rule authenticate_OkE)
    from row have r: "r \<in> set (ab_sessions ?db)" "dv_id r = sid"
      by (auto simp: GET_DEVICE_SESSION_BY_SESSION_ID_def find_Some_iff)
    from ok r have "(dv_tenant_id r, dv_user_id r) \<in> user_keys ?db" by (simp add: auth_tables_ok_def)
    then obtain u where u: "u \<in> set (ab_users ?db)" "ur_id u = dv_user_id r" "ur_tenant_id u = dv_tenant_id r"
      by (auto simp: user_keys_def)
    from ok have "distinct (map dv_id (ab_sessions ?db))" "distinct (map ur_id (ab_users ?db))"
      by (simp_all add: auth_tables_ok_def session_keys_ok_def)
    with filter_unique_key [of dv_id, OF _ r(1)] filter_unique_key [of ur_id, OF _ u(1)] r u
    have "filter (\<lambda>y. dv_id y = sid) (ab_sessions ?db) = [r]" "filter (\<lambda>y. ur_id y = dv_user_id r) (ab_users ?db) = [u]"
      by simp_all
    moreover from ok u(1) have "ur_tenant_id u \<in> tr_id ` set (ab_tenants ?db)" by (simp add: auth_tables_ok_def)
    ultimately show ?thesis unfolding Inr using ok active c u(3) by (simp add: Let_def)
  qed (simp add: ok)
qed

lemma sample_tables_ok: "auth_tables_ok (sample_auth_db [])"
  by (simp add: auth_tables_ok_def sample_auth_defs identities_ok_def session_keys_ok_def user_keys_def session_row_check_def)

theorem authenticated_user_exists_witness:
  "auth_tables_ok (auth_apply pg_to_timestamp length sample_json (RevokeSession ''t1'' ''oar_session_1'' 9000)
     (sample_auth_db []))"
  using authenticated_user_exists [OF sample_tables_ok, of pg_to_timestamp length sample_json
      "[RevokeSession ''t1'' ''oar_session_1'' 9000]" True None]
  by simp

end
