(* ===== verification/Operational_Recovery.thy ===== *)
theory Operational_Recovery
  imports Postgres_Executor Grant_Store
begin

text \<open>
  Recovery by an operator (\<open>storage/postgres/operational_recovery_sql.rs\<close>,
  \<open>repository_sqlx/operational_recovery/\<close>, \<open>types/operational_recovery.rs\<close>): a report of the parked
  token grants and the failed outbox messages of a tenant, and the execution of a confirmed recovery
  action, which is one transaction over the ledger, the audit tables and the grants.

  The column \<open>token_grants.updated_at\<close>, which only this component reads, is kept beside the grants
  as a function of the primary key.
\<close>

section \<open>State and requests\<close>

record recovery_db =
  vd_exec :: execution_db
  vd_grants :: grant_db
  vd_updated_at :: "string \<Rightarrow> timestamptz"

definition on_exec ::
  "recovery_db \<Rightarrow> ('a, 'e) result \<times> execution_db \<Rightarrow> ('a, 'e) result \<times> recovery_db" where
  "on_exec db r = (fst r, db\<lparr>vd_exec := snd r\<rparr>)"

datatype operational_recovery_action =
    InspectFailedAuditOutbox
  | RequeueFailedAuditOutbox
  | FixFeishuRefreshConfigThenResume
  | AskUserToReauthorize

record failed_audit_outbox_recovery_item =
  fi_id :: int
  fi_tenant_id :: string
  fi_stream :: string
  fi_aggregate_id :: string
  fi_attempt_count :: int
  fi_created_at_ms :: u64
  fi_payload :: "safe_audit_outbox_payload option"
  fi_payload_safe :: bool
  fi_recommended_action :: operational_recovery_action

record parked_token_grant_recovery_item =
  ki_grant_id :: string
  ki_tenant_id :: string
  ki_identity_id :: string
  ki_actor_kind :: actor_kind
  ki_scope_boundary :: scope_boundary
  ki_state :: token_grant_state
  ki_safe_error :: "string option"
  ki_refreshed_at_ms :: "u64 option"
  ki_reauth_required_at_ms :: "u64 option"
  ki_updated_at_ms :: u64
  ki_recommended_action :: operational_recovery_action

record operational_recovery_report =
  rv_tenant_id :: string
  rv_failed_audit_outbox :: "failed_audit_outbox_recovery_item list"
  rv_parked_token_grants :: "parked_token_grant_recovery_item list"

definition has_recovery_items :: "operational_recovery_report \<Rightarrow> bool" where
  "has_recovery_items r \<longleftrightarrow> rv_failed_audit_outbox r \<noteq> [] \<or> rv_parked_token_grants r \<noteq> []"

datatype operational_recovery_execution_kind =
    ResumePausedAuthRefresh string u64
  | RequeueFailedOutbox int int u64

definition show_int :: "int \<Rightarrow> string" where
  "show_int i = (if i < 0 then CHR ''-'' # show_nat (nat (- i)) else show_nat (nat i))"

fun recovery_action_type :: "operational_recovery_execution_kind \<Rightarrow> string" where
  "recovery_action_type (ResumePausedAuthRefresh grant_id expected_updated_at_ms) =
     ''operational_recovery.resume_paused_auth_refresh''"
| "recovery_action_type (RequeueFailedOutbox outbox_id expected_attempt_count requeue_next_attempt_at_ms) =
     ''operational_recovery.requeue_failed_audit_outbox''"

definition outbox_reference :: "int \<Rightarrow> string" where
  "outbox_reference outbox_id = ''audit_outbox:'' @ show_int outbox_id"

fun target_reference_ids :: "operational_recovery_execution_kind \<Rightarrow> string list" where
  "target_reference_ids (ResumePausedAuthRefresh grant_id expected_updated_at_ms) = [grant_id]"
| "target_reference_ids (RequeueFailedOutbox outbox_id expected_attempt_count requeue_next_attempt_at_ms) =
     [outbox_reference outbox_id]"

record recovery_execution_request =
  rr_action :: confirmed_action
  rr_confirmed_at_ms :: u64
  rr_operation_id :: string
  rr_occurred_at_ms :: u64
  rr_outbox_next_attempt_at_ms :: u64
  rr_audit_trace_id :: string
  rr_kind :: operational_recovery_execution_kind

datatype operational_recovery_execution_target =
    TokenGrantRefresh string
  | AuditOutboxRequeue int

record recovery_execution_report =
  re_operation :: operation_record
  re_duplicate :: bool
  re_recovered_target :: "operational_recovery_execution_target option"
  re_events :: "audit_event list"

section \<open>Statements\<close>

definition LIST_FAILED_AUDIT_OUTBOX_RECOVERY_ITEMS :: "recovery_db \<Rightarrow> string \<Rightarrow> u32 \<Rightarrow> outbox_row list" where
  "LIST_FAILED_AUDIT_OUTBOX_RECOVERY_ITEMS db tenant limit =
     take (unat limit) (sort_key (\<lambda>r. (ob_created_at r, ob_id r)) (filter (\<lambda>r. ob_tenant_id r = tenant \<and>
       ob_status r = ''failed'' \<and> ob_stream r = ''audit-events'' \<and> ob_sent_at r = None)
       (ad_outbox (xd_audit (vd_exec db)))))"

definition paused_refresh :: "token_grant_row \<Rightarrow> bool" where
  "paused_refresh r \<longleftrightarrow> gr_state r \<in> {''valid'', ''needs_refresh'', ''expired''} \<and> gr_revoked_at r = None \<and>
     gr_reauth_required_at r = None \<and>
     (case gr_last_refresh_error r of None \<Rightarrow> '''' | Some e \<Rightarrow> e) \<in> set PAUSED_REFRESH_ERRORS"

definition LIST_PARKED_TOKEN_GRANT_RECOVERY_ITEMS ::
  "(string \<Rightarrow> 'k::linorder) \<Rightarrow> recovery_db \<Rightarrow> string \<Rightarrow> u32 \<Rightarrow> token_grant_row list" where
  "LIST_PARKED_TOKEN_GRANT_RECOVERY_ITEMS collate db tenant limit =
     take (unat limit) (sort_key (\<lambda>r. (vd_updated_at db (gr_id r), collate (gr_id r))) (filter (\<lambda>r.
       gr_tenant_id r = tenant \<and> (gr_state r = ''reauth_required'' \<or> paused_refresh r)) (gd_grants (vd_grants db))))"

definition paused_for_recovery :: "recovery_db \<Rightarrow> string \<Rightarrow> string \<Rightarrow> int \<Rightarrow> token_grant_row \<Rightarrow> bool" where
  "paused_for_recovery db tenant grant_id updated_at_ms r \<longleftrightarrow>
     gr_tenant_id r = tenant \<and> gr_id r = grant_id \<and> epoch_ms (vd_updated_at db (gr_id r)) = updated_at_ms \<and>
     paused_refresh r \<and> 0 < length (gr_encrypted_oauth_grant r)"

definition LOCK_PAUSED_TOKEN_GRANT_REFRESH_FOR_RECOVERY ::
  "recovery_db \<Rightarrow> string \<Rightarrow> string \<Rightarrow> int \<Rightarrow> token_grant_row option" where
  "LOCK_PAUSED_TOKEN_GRANT_REFRESH_FOR_RECOVERY db tenant grant_id updated_at_ms =
     find (paused_for_recovery db tenant grant_id updated_at_ms) (gd_grants (vd_grants db))"

definition resumed_row :: "token_grant_row \<Rightarrow> token_grant_row" where
  "resumed_row r = r\<lparr>gr_last_refresh_error := None\<rparr>"

definition RESUME_PAUSED_TOKEN_GRANT_REFRESH_FOR_RECOVERY ::
  "(int \<Rightarrow> timestamptz option) \<Rightarrow> recovery_db \<Rightarrow> string \<Rightarrow> string \<Rightarrow> int \<Rightarrow> int
     \<Rightarrow> (string option \<times> recovery_db, postgres_repository_error) result" where
  "RESUME_PAUSED_TOKEN_GRANT_REFRESH_FOR_RECOVERY to_ts db tenant grant_id updated_at_ms resumed_at_ms =
     try_then (sql_timestamp to_ts resumed_at_ms) (\<lambda>resumed_at.
       let P = paused_for_recovery db tenant grant_id updated_at_ms in
       case find P (gd_grants (vd_grants db)) of
         None \<Rightarrow> Ok (None, db)
       | Some r \<Rightarrow> Ok (Some (gr_id r), db\<lparr>
           vd_grants := (vd_grants db)\<lparr>gd_grants := map_where P resumed_row (gd_grants (vd_grants db))\<rparr>,
           vd_updated_at := (vd_updated_at db)(gr_id r := resumed_at)\<rparr>))"

definition failed_for_recovery :: "string \<Rightarrow> int \<Rightarrow> int \<Rightarrow> outbox_row \<Rightarrow> bool" where
  "failed_for_recovery tenant outbox_id attempt_count r \<longleftrightarrow>
     ob_tenant_id r = tenant \<and> ob_id r = outbox_id \<and> ob_attempt_count r = attempt_count \<and>
     ob_stream r = ''audit-events'' \<and> ob_status r = ''failed'' \<and> ob_sent_at r = None"

definition LOCK_FAILED_AUDIT_OUTBOX_FOR_RECOVERY ::
  "recovery_db \<Rightarrow> string \<Rightarrow> int \<Rightarrow> int \<Rightarrow> outbox_row option" where
  "LOCK_FAILED_AUDIT_OUTBOX_FOR_RECOVERY db tenant outbox_id attempt_count =
     find (failed_for_recovery tenant outbox_id attempt_count) (ad_outbox (xd_audit (vd_exec db)))"

definition requeued_row :: "timestamptz \<Rightarrow> outbox_row \<Rightarrow> outbox_row" where
  "requeued_row next_attempt_at r =
     r\<lparr>ob_status := ''pending'', ob_next_attempt_at := Some next_attempt_at, ob_sent_at := None\<rparr>"

definition REQUEUE_FAILED_AUDIT_OUTBOX_FOR_RECOVERY ::
  "(int \<Rightarrow> timestamptz option) \<Rightarrow> recovery_db \<Rightarrow> string \<Rightarrow> int \<Rightarrow> int \<Rightarrow> int
     \<Rightarrow> (int option \<times> recovery_db, postgres_repository_error) result" where
  "REQUEUE_FAILED_AUDIT_OUTBOX_FOR_RECOVERY to_ts db tenant outbox_id attempt_count next_attempt_at_ms =
     try_then (sql_timestamp to_ts next_attempt_at_ms) (\<lambda>next_attempt_at.
       let P = failed_for_recovery tenant outbox_id attempt_count; a = xd_audit (vd_exec db) in
       Ok (map_option ob_id (find P (ad_outbox a)), db\<lparr>vd_exec := (vd_exec db)\<lparr>xd_audit :=
         a\<lparr>ad_outbox := map_where P (requeued_row next_attempt_at) (ad_outbox a)\<rparr>\<rparr>\<rparr>))"

section \<open>The report\<close>

definition failed_outbox_recovery_item_from_row ::
  "outbox_row \<Rightarrow> (failed_audit_outbox_recovery_item, postgres_repository_error) result" where
  "failed_outbox_recovery_item_from_row r =
     (let payload = (case safe_payload_try_from (ob_payload r) of Inl _ \<Rightarrow> None | Inr p \<Rightarrow> Some p);
          payload_safe = (payload \<noteq> None);
          can_requeue = (payload_safe \<and> ob_stream r = ''audit-events'')
      in try_then (non_negative_i64_to_u64 (epoch_ms (ob_created_at r)) ''created_at_ms'') (\<lambda>created_at_ms.
         Ok \<lparr>fi_id = ob_id r, fi_tenant_id = ob_tenant_id r, fi_stream = ob_stream r, fi_aggregate_id = ob_aggregate_id r,
            fi_attempt_count = ob_attempt_count r, fi_created_at_ms = created_at_ms, fi_payload = payload,
            fi_payload_safe = payload_safe, fi_recommended_action =
              (if can_requeue then RequeueFailedAuditOutbox else InspectFailedAuditOutbox)\<rparr>))"

definition parked_token_grant_recovery_item_from_row ::
  "recovery_db \<Rightarrow> token_grant_row \<Rightarrow> (parked_token_grant_recovery_item, postgres_repository_error) result" where
  "parked_token_grant_recovery_item_from_row db r =
     try_then (token_grant_state_from_db (gr_state r)) (\<lambda>state.
     try_then (identity_actor_kind_from_db (gr_actor_kind r)) (\<lambda>actor_kind.
     try_then (scope_boundary_from_db (gr_scope_boundary r)) (\<lambda>scope_boundary.
     try_then (optional_non_negative_i64_to_u64 (map_option epoch_ms (gr_refreshed_at r)) ''refreshed_at_ms'') (\<lambda>refreshed.
     try_then (optional_non_negative_i64_to_u64 (map_option epoch_ms (gr_reauth_required_at r)) ''reauth_required_at_ms'') (\<lambda>reauth.
     try_then (non_negative_i64_to_u64 (epoch_ms (vd_updated_at db (gr_id r))) ''updated_at_ms'') (\<lambda>updated.
       Ok \<lparr>ki_grant_id = gr_id r, ki_tenant_id = gr_tenant_id r, ki_identity_id = gr_identity_id r,
          ki_actor_kind = actor_kind, ki_scope_boundary = scope_boundary, ki_state = state,
          ki_safe_error = map_option sanitize_refresh_error_for_storage (gr_last_refresh_error r),
          ki_refreshed_at_ms = refreshed, ki_reauth_required_at_ms = reauth, ki_updated_at_ms = updated,
          ki_recommended_action = (case state of ReauthRequired \<Rightarrow> AskUserToReauthorize
            | _ \<Rightarrow> FixFeishuRefreshConfigThenResume)\<rparr>))))))"

definition load_tenant_recovery_report ::
  "(string \<Rightarrow> 'k::linorder) \<Rightarrow> recovery_db \<Rightarrow> string \<Rightarrow> u32
     \<Rightarrow> (operational_recovery_report, postgres_repository_error) result" where
  "load_tenant_recovery_report collate db tenant_id limit =
     (if limit = 0
      then Ok \<lparr>rv_tenant_id = tenant_id, rv_failed_audit_outbox = [], rv_parked_token_grants = []\<rparr>
      else try_then (collect_results failed_outbox_recovery_item_from_row
             (LIST_FAILED_AUDIT_OUTBOX_RECOVERY_ITEMS db tenant_id limit)) (\<lambda>failed.
           try_then (collect_results (parked_token_grant_recovery_item_from_row db)
             (LIST_PARKED_TOKEN_GRANT_RECOVERY_ITEMS collate db tenant_id limit)) (\<lambda>parked.
             Ok \<lparr>rv_tenant_id = tenant_id, rv_failed_audit_outbox = failed, rv_parked_token_grants = parked\<rparr>)))"

section \<open>Events\<close>

datatype recovery_dry_run_outcome = RecoveryEligible string | UnsafePayload string | RecoveryMissing

definition recovery_audit_trace :: "recovery_execution_request \<Rightarrow> audit_trace" where
  "recovery_audit_trace request = audit_trace_new (rr_audit_trace_id request)
     \<lparr>asb_actor = \<lparr>aa_kind = AuditUser, aa_actor_id = ca_actor_user_id (rr_action request), aa_display_name = None\<rparr>,
      asb_scope = \<lparr>as_tenant_id = ca_tenant_id (rr_action request), as_workspace_id = None\<rparr>,
      asb_target = \<lparr>at_resource_type = ''operational_recovery'', at_resource_id = ca_action_id (rr_action request),
        at_action_type = recovery_action_type (rr_kind request)\<rparr>\<rparr>"

definition recovery_summary :: "string \<Rightarrow> string list \<Rightarrow> audit_state_summary" where
  "recovery_summary summary reference_ids =
     \<lparr>ss_summary = summary, ss_reference_ids = reference_ids, ss_content_hash = None\<rparr>"

definition reread_summary :: "recovery_execution_request \<Rightarrow> audit_state_summary" where
  "reread_summary request = recovery_summary ''operational recovery request re-read live state before write''
     (target_reference_ids (rr_kind request))"

definition recovery_dry_run_event ::
  "audit_trace \<Rightarrow> recovery_execution_request \<Rightarrow> recovery_dry_run_outcome \<Rightarrow> audit_event \<times> audit_trace" where
  "recovery_dry_run_event trace request outcome =
     (let reference_ids = target_reference_ids (rr_kind request);
          after_summary = (case (rr_kind request, outcome) of
              (ResumePausedAuthRefresh _ _, RecoveryEligible reference_id) \<Rightarrow>
                recovery_summary ''paused auth refresh grant is eligible for recovery resume'' [reference_id]
            | (ResumePausedAuthRefresh _ _, UnsafePayload reference_id) \<Rightarrow>
                recovery_summary ''paused auth refresh grant matched an unsafe recovery state'' [reference_id]
            | (ResumePausedAuthRefresh _ _, RecoveryMissing) \<Rightarrow>
                recovery_summary ''no eligible paused auth refresh grant matched the recovery request'' reference_ids
            | (RequeueFailedOutbox _ _ _, RecoveryEligible reference_id) \<Rightarrow>
                recovery_summary ''failed audit outbox is eligible for recovery requeue'' [reference_id]
            | (RequeueFailedOutbox _ _ _, UnsafePayload reference_id) \<Rightarrow>
                recovery_summary ''failed audit outbox matched but payload did not pass safety validation'' [reference_id]
            | (RequeueFailedOutbox _ _ _, RecoveryMissing) \<Rightarrow>
                recovery_summary ''no eligible failed audit outbox matched the recovery request'' reference_ids)
      in trace_dry_run trace (rr_occurred_at_ms request) (Some (reread_summary request)) (Some after_summary))"

fun recovery_succeeded_event ::
  "audit_trace \<Rightarrow> recovery_execution_request \<Rightarrow> operational_recovery_execution_target \<Rightarrow> audit_event \<times> audit_trace" where
  "recovery_succeeded_event trace request (TokenGrantRefresh grant_id) =
     trace_execution_succeeded trace (rr_occurred_at_ms request)
       (Some (recovery_summary ''paused auth refresh grant had a recoverable safe refresh blocker'' [grant_id]))
       (Some (recovery_summary ''paused auth refresh blocker was cleared; scheduler can re-evaluate the grant'' [grant_id]))
       (''operational-recovery:resume-paused-auth-refresh:'' @ grant_id)"
| "recovery_succeeded_event trace request (AuditOutboxRequeue outbox_id) =
     trace_execution_succeeded trace (rr_occurred_at_ms request)
       (Some (recovery_summary ''failed audit outbox had a recoverable safe delivery blocker'' [outbox_reference outbox_id]))
       (Some (recovery_summary ''failed audit outbox was reopened for delivery; worker can retry the same row''
          [outbox_reference outbox_id]))
       (''operational-recovery:requeue-failed-audit-outbox:'' @ show_int outbox_id)"

definition recovery_failed_event ::
  "audit_trace \<Rightarrow> recovery_execution_request \<Rightarrow> string \<Rightarrow> string \<Rightarrow> audit_event \<times> audit_trace" where
  "recovery_failed_event trace request error_code message =
     trace_execution_failed trace (rr_occurred_at_ms request) (Some (reread_summary request)) None error_code message"

section \<open>Execution\<close>

definition append_recovery_event_in_tx ::
  "(int \<Rightarrow> timestamptz option) \<Rightarrow> audit_json \<Rightarrow> timestamptz \<Rightarrow> recovery_db \<Rightarrow> audit_event \<Rightarrow> string
     \<Rightarrow> recovery_execution_request \<Rightarrow> (unit, postgres_repository_error) result \<times> recovery_db" where
  "append_recovery_event_in_tx to_ts J db_now db event operation_id request =
     try_st (on_exec db (append_audit_event_in_tx J (vd_exec db) event (Some operation_id))) (\<lambda>_ db.
     try_st (on_exec db (enqueue_outbox_in_tx to_ts db_now (vd_exec db)
         \<lparr>ov_tenant_id = ca_tenant_id (rr_action request), ov_stream = ''audit-events'', ov_aggregate_id = ae_trace_id event,
          ov_payload = JObject [(''event_id'', JString (ae_event_id event)), (''trace_id'', JString (ae_trace_id event)),
            (''event_type'', JString (audit_event_type_debug (ae_event_type event))),
            (''kind'', JString ''operational_recovery'')],
          ov_next_attempt_at_ms = rr_outbox_next_attempt_at_ms request\<rparr>)) (\<lambda>_ db. (Ok (), db)))"

definition recovery_transition ::
  "(int \<Rightarrow> timestamptz option) \<Rightarrow> recovery_db \<Rightarrow> operation_status_transition \<Rightarrow> recovery_execution_request \<Rightarrow> string option
     \<Rightarrow> (operation_record \<times> bool, postgres_repository_error) result \<times> recovery_db" where
  "recovery_transition to_ts db transition request error =
     on_exec db (transition_in_tx to_ts (vd_exec db) transition (ca_tenant_id (rr_action request))
       (ca_idempotency_key (rr_action request)) error (rr_occurred_at_ms request))"

text \<open>The failure of a recovery, with the report that follows it in every caller.\<close>

definition fail_recovery_operation ::
  "(int \<Rightarrow> timestamptz option) \<Rightarrow> audit_json \<Rightarrow> timestamptz \<Rightarrow> recovery_db \<Rightarrow> recovery_execution_request
     \<Rightarrow> audit_event list \<Rightarrow> audit_trace \<Rightarrow> string \<Rightarrow> string
     \<Rightarrow> (operation_record \<times> audit_event list, postgres_repository_error) result \<times> recovery_db" where
  "fail_recovery_operation to_ts J db_now db request events trace error_code message =
     (let (failed_event, _) = recovery_failed_event trace request error_code message in
      try_st (recovery_transition to_ts db ToFailed request (Some error_code)) (\<lambda>(operation, _) db.
      try_st (append_recovery_event_in_tx to_ts J db_now db failed_event (op_operation_id operation) request) (\<lambda>_ db.
        (Ok (operation, events @ [failed_event]), db))))"

definition failed_report ::
  "(operation_record \<times> audit_event list, postgres_repository_error) result \<times> recovery_db
     \<Rightarrow> (recovery_execution_report, postgres_repository_error) result \<times> recovery_db" where
  "failed_report r = try_st r (\<lambda>(operation, events) db. (Ok \<lparr>re_operation = operation, re_duplicate = False,
     re_recovered_target = None, re_events = events\<rparr>, db))"

definition succeed_recovery_operation ::
  "(int \<Rightarrow> timestamptz option) \<Rightarrow> audit_json \<Rightarrow> timestamptz \<Rightarrow> recovery_db \<Rightarrow> recovery_execution_request
     \<Rightarrow> audit_event list \<Rightarrow> audit_trace \<Rightarrow> operational_recovery_execution_target
     \<Rightarrow> (recovery_execution_report, postgres_repository_error) result \<times> recovery_db" where
  "succeed_recovery_operation to_ts J db_now db request events trace recovered_target =
     try_st (recovery_transition to_ts db ToSucceeded request None) (\<lambda>(operation, _) db.
       let (succeeded_event, _) = recovery_succeeded_event trace request recovered_target in
       try_st (append_recovery_event_in_tx to_ts J db_now db succeeded_event (op_operation_id operation) request) (\<lambda>_ db.
         (Ok \<lparr>re_operation = operation, re_duplicate = False, re_recovered_target = Some recovered_target,
            re_events = events @ [succeeded_event]\<rparr>, db)))"

definition execute_resume_paused_auth_refresh ::
  "(int \<Rightarrow> timestamptz option) \<Rightarrow> audit_json \<Rightarrow> timestamptz \<Rightarrow> recovery_db \<Rightarrow> recovery_execution_request
     \<Rightarrow> operation_record \<Rightarrow> audit_event list \<Rightarrow> audit_trace \<Rightarrow> string \<Rightarrow> u64
     \<Rightarrow> (recovery_execution_report, postgres_repository_error) result \<times> recovery_db" where
  "execute_resume_paused_auth_refresh to_ts J db_now db request operation events trace grant_id expected_updated_at_ms =
     try_st (transpose_map (\<lambda>r. try_then (non_negative_i64_to_u64 (epoch_ms (vd_updated_at db (gr_id r))) ''updated_at_ms'')
           (\<lambda>updated_at_ms. Ok (gr_id r, updated_at_ms)))
         (LOCK_PAUSED_TOKEN_GRANT_REFRESH_FOR_RECOVERY db (ca_tenant_id (rr_action request)) grant_id
            (u64_as_i64 expected_updated_at_ms)), db) (\<lambda>eligible db.
     let (dry_run_event, trace) = recovery_dry_run_event trace request
           (case eligible of Some (locked_id, _) \<Rightarrow> RecoveryEligible locked_id | None \<Rightarrow> RecoveryMissing) in
     try_st (append_recovery_event_in_tx to_ts J db_now db dry_run_event (op_operation_id operation) request) (\<lambda>_ db.
     let events = events @ [dry_run_event] in
     case eligible of
       None \<Rightarrow> failed_report (fail_recovery_operation to_ts J db_now db request events trace
         ''operational_recovery_no_eligible_grant''
         ''no eligible paused auth refresh grant matched the confirmed recovery request'')
     | Some (locked_id, updated_at_ms) \<Rightarrow>
         try_st (exec_sql db (RESUME_PAUSED_TOKEN_GRANT_REFRESH_FOR_RECOVERY to_ts db (ca_tenant_id (rr_action request))
             locked_id (u64_as_i64 updated_at_ms) (u64_as_i64 (rr_occurred_at_ms request)))) (\<lambda>resumed db.
         case resumed of
           None \<Rightarrow> failed_report (fail_recovery_operation to_ts J db_now db request events trace
             ''operational_recovery_resume_conflict''
             ''paused auth refresh grant changed before recovery could resume it'')
         | Some resumed_id \<Rightarrow>
             succeed_recovery_operation to_ts J db_now db request events trace (TokenGrantRefresh resumed_id))))"

definition execute_requeue_failed_audit_outbox ::
  "(int \<Rightarrow> timestamptz option) \<Rightarrow> audit_json \<Rightarrow> timestamptz \<Rightarrow> recovery_db \<Rightarrow> recovery_execution_request
     \<Rightarrow> operation_record \<Rightarrow> audit_event list \<Rightarrow> audit_trace \<Rightarrow> int \<Rightarrow> int \<Rightarrow> u64
     \<Rightarrow> (recovery_execution_report, postgres_repository_error) result \<times> recovery_db" where
  "execute_requeue_failed_audit_outbox to_ts J db_now db request operation events trace outbox_id
       expected_attempt_count requeue_next_attempt_at_ms =
     (let eligible = LOCK_FAILED_AUDIT_OUTBOX_FOR_RECOVERY db (ca_tenant_id (rr_action request)) outbox_id expected_attempt_count;
          payload_safe = map_option (\<lambda>item. validate_audit_outbox_payload (ob_payload item) = Ok ()) eligible;
          (dry_run_event, trace) = recovery_dry_run_event trace request (case eligible of
             Some _ \<Rightarrow> if payload_safe = Some True then RecoveryEligible (outbox_reference outbox_id)
               else UnsafePayload (outbox_reference outbox_id)
           | None \<Rightarrow> RecoveryMissing) in
      try_st (append_recovery_event_in_tx to_ts J db_now db dry_run_event (op_operation_id operation) request) (\<lambda>_ db.
      let events = events @ [dry_run_event] in
      case eligible of
        None \<Rightarrow> failed_report (fail_recovery_operation to_ts J db_now db request events trace
          ''operational_recovery_no_eligible_outbox''
          ''no eligible failed audit outbox matched the confirmed recovery request'')
      | Some item \<Rightarrow>
          if payload_safe \<noteq> Some True
          then failed_report (fail_recovery_operation to_ts J db_now db request events trace
            ''operational_recovery_unsafe_outbox_payload''
            ''failed audit outbox payload did not pass safety validation'')
          else try_st (exec_sql db (REQUEUE_FAILED_AUDIT_OUTBOX_FOR_RECOVERY to_ts db (ca_tenant_id (rr_action request))
               (ob_id item) (ob_attempt_count item) (u64_as_i64 requeue_next_attempt_at_ms))) (\<lambda>reopened db.
             case reopened of
               None \<Rightarrow> failed_report (fail_recovery_operation to_ts J db_now db request events trace
                 ''operational_recovery_outbox_conflict''
                 ''failed audit outbox changed before recovery could requeue it'')
             | Some reopened_id \<Rightarrow>
                 succeed_recovery_operation to_ts J db_now db request events trace (AuditOutboxRequeue reopened_id))))"

definition is_recovery_terminal_or_inflight :: "action_status \<Rightarrow> bool" where
  "is_recovery_terminal_or_inflight status \<longleftrightarrow> status \<in> {Executing, Succeeded, Failed, Cancelled}"

text \<open>The statements between \<open>begin\<close> and \<open>commit\<close>.\<close>

definition recovery_in_tx ::
  "(int \<Rightarrow> timestamptz option) \<Rightarrow> audit_json \<Rightarrow> timestamptz \<Rightarrow> recovery_db \<Rightarrow> recovery_execution_request
     \<Rightarrow> (recovery_execution_report, postgres_repository_error) result \<times> recovery_db" where
  "recovery_in_tx to_ts J db_now db request =
     try_st (on_exec db (pg_submit_confirmed_action to_ts db_now (vd_exec db) (rr_action request)
         (rr_confirmed_at_ms request) (rr_operation_id request))) (\<lambda>submit db.
     let (operation, duplicate) = submit_result_parts submit in
     if duplicate \<and> is_recovery_terminal_or_inflight (op_status operation)
     then (Ok \<lparr>re_operation = operation, re_duplicate = True, re_recovered_target = None, re_events = []\<rparr>, db)
     else
       let trace = recovery_audit_trace request in
       try_st (if \<not> duplicate
         then let (event, trace) = trace_confirmed_action trace (rr_occurred_at_ms request)
                    (recovery_summary (''confirmed operational recovery '' @ ca_action_id (rr_action request))
                       (target_reference_ids (rr_kind request))) in
              try_st (append_recovery_event_in_tx to_ts J db_now db event (op_operation_id operation) request)
                (\<lambda>_ db. (Ok ([event], trace), db))
         else (Ok ([], trace), db)) (\<lambda>(events, trace) db.
       try_st (recovery_transition to_ts db ToExecuting request None) (\<lambda>(operation, duplicate_executing) db.
       if duplicate_executing
       then (Ok \<lparr>re_operation = operation, re_duplicate = True, re_recovered_target = None, re_events = events\<rparr>, db)
       else case rr_kind request of
           ResumePausedAuthRefresh grant_id expected_updated_at_ms \<Rightarrow>
             execute_resume_paused_auth_refresh to_ts J db_now db request operation events trace grant_id expected_updated_at_ms
         | RequeueFailedOutbox outbox_id expected_attempt_count requeue_next_attempt_at_ms \<Rightarrow>
             execute_requeue_failed_audit_outbox to_ts J db_now db request operation events trace outbox_id
               expected_attempt_count requeue_next_attempt_at_ms)))"

definition execute_confirmed_recovery ::
  "(int \<Rightarrow> timestamptz option) \<Rightarrow> audit_json \<Rightarrow> timestamptz \<Rightarrow> recovery_db \<Rightarrow> recovery_execution_request
     \<Rightarrow> (recovery_execution_report, postgres_repository_error) result \<times> recovery_db" where
  "execute_confirmed_recovery to_ts J db_now db request = in_tx db (recovery_in_tx to_ts J db_now db request)"

section \<open>What a run leaves behind\<close>

text \<open>
  Up to a point of a run: the events so far are in the log under the operation, each with a pending
  message, and nothing else of the audit tables or of the grants has changed.
\<close>

definition run_so_far ::
  "audit_json \<Rightarrow> string \<Rightarrow> audit_event list \<Rightarrow> recovery_db \<Rightarrow> recovery_db \<Rightarrow> bool" where
  "run_so_far J operation_id events db0 db \<longleftrightarrow>
     vd_grants db = vd_grants db0 \<and> vd_updated_at db = vd_updated_at db0 \<and>
     (\<exists>rows. ad_events (xd_audit (vd_exec db)) = ad_events (xd_audit (vd_exec db0)) @ rows \<and>
        list_all2 (\<lambda>e row. append_audit_event_query J e (Some operation_id) = Inr row) events rows) \<and>
     (\<exists>ms. ad_outbox (xd_audit (vd_exec db)) = ad_outbox (xd_audit (vd_exec db0)) @ ms \<and>
        (\<forall>m \<in> set ms. ob_status m = ''pending''))"

abbreviation same_ledger_tables :: "recovery_db \<Rightarrow> recovery_db \<Rightarrow> bool" where
  "same_ledger_tables db db' \<equiv> xd_operations (vd_exec db') = xd_operations (vd_exec db) \<and>
     xd_actions (vd_exec db') = xd_actions (vd_exec db)"

lemma run_so_far_start: "run_so_far J oid [] db db"
  by (simp add: run_so_far_def)

lemma on_exec_OkE:
  assumes "on_exec db r = (Inr x, db')"
  obtains d where "r = (Inr x, d)" and "db' = db\<lparr>vd_exec := d\<rparr>"
  using assms by (cases r) (simp add: on_exec_def)

text \<open>One event: the log and the outbox of the database before it grow by one row each.\<close>

lemma recovery_event_OkE:
  assumes "append_recovery_event_in_tx to_ts J db_now db event oid request = (Inr u, db')"
  obtains row m where "append_audit_event_query J event (Some oid) = Inr row" and "ob_status m = ''pending''"
    and "ad_events (xd_audit (vd_exec db')) = ad_events (xd_audit (vd_exec db)) @ [row]"
    and "ad_outbox (xd_audit (vd_exec db')) = ad_outbox (xd_audit (vd_exec db)) @ [m]"
    and "same_ledger_tables db db'" and "vd_grants db' = vd_grants db" and "vd_updated_at db' = vd_updated_at db"
  using assms unfolding append_recovery_event_in_tx_def
  by (elim try_st_OkE on_exec_OkE append_in_tx_OkE enqueue_OkE) (rule that, assumption, assumption, auto simp: audit_of_def)

lemma run_so_far_event:
  assumes "run_so_far J oid events db0 db" and "append_recovery_event_in_tx to_ts J db_now db event oid request = (Inr u, db')"
  shows "run_so_far J oid (events @ [event]) db0 db' \<and> same_ledger_tables db db'"
proof -
  from assms(2) obtain row m where new: "append_audit_event_query J event (Some oid) = Inr row" "ob_status m = ''pending''"
    "ad_events (xd_audit (vd_exec db')) = ad_events (xd_audit (vd_exec db)) @ [row]"
    "ad_outbox (xd_audit (vd_exec db')) = ad_outbox (xd_audit (vd_exec db)) @ [m]"
    and same: "same_ledger_tables db db'" "vd_grants db' = vd_grants db" "vd_updated_at db' = vd_updated_at db"
    by (rule recovery_event_OkE) blast
  from assms(1) obtain rows ms where old: "ad_events (xd_audit (vd_exec db)) = ad_events (xd_audit (vd_exec db0)) @ rows"
    "list_all2 (\<lambda>e row. append_audit_event_query J e (Some oid) = Inr row) events rows"
    "ad_outbox (xd_audit (vd_exec db)) = ad_outbox (xd_audit (vd_exec db0)) @ ms" "\<forall>m \<in> set ms. ob_status m = ''pending''"
    unfolding run_so_far_def by blast
  from old(2) new(1) have "list_all2 (\<lambda>e row. append_audit_event_query J e (Some oid) = Inr row) (events @ [event]) (rows @ [row])"
    by (simp add: list_all2_appendI)
  then show ?thesis using assms(1) old new same unfolding run_so_far_def by auto
qed

lemma run_so_far_tables:
  "run_so_far J oid events db0 db \<Longrightarrow> vd_grants db' = vd_grants db \<Longrightarrow> vd_updated_at db' = vd_updated_at db \<Longrightarrow>
     xd_audit (vd_exec db') = xd_audit (vd_exec db) \<Longrightarrow> run_so_far J oid events db0 db'"
  by (simp add: run_so_far_def)

text \<open>A status change of the recovery's own operation.\<close>

abbreviation recovery_view :: "recovery_execution_request \<Rightarrow> recovery_db \<Rightarrow> operation_record option" where
  "recovery_view request db \<equiv> pg_view (ca_tenant_id (rr_action request)) (vd_exec db) (ca_idempotency_key (rr_action request))"

lemma recovery_transition_OkE:
  assumes ok: "ledger_ok (vd_exec db)" and param: "(error = None) = (t \<noteq> ToFailed)"
    and run: "recovery_transition to_ts db t request error = (Inr (rec, dup), db')"
  shows "op_status rec = target_status t"
    and "if dup then db' = db \<and> recovery_view request db = Some rec else ledger_ok (vd_exec db') \<and> recovery_view request db' = Some rec \<and>
      (\<exists>old. recovery_view request db = Some old \<and> op_status old = source_status t \<and>
         op_operation_id rec = op_operation_id old)"
    and "vd_grants db' = vd_grants db" and "vd_updated_at db' = vd_updated_at db"
    and "xd_audit (vd_exec db') = xd_audit (vd_exec db)"
proof -
  from run obtain d where tr: "transition_in_tx to_ts (vd_exec db) t (ca_tenant_id (rr_action request))
      (ca_idempotency_key (rr_action request)) error (rr_occurred_at_ms request) = (Inr (rec, dup), d)"
    and db': "db' = db\<lparr>vd_exec := d\<rparr>"
    unfolding recovery_transition_def by (rule on_exec_OkE)
  note step = transition_in_tx_Ok [OF ok param tr]
  note refines = pg_transition_refines [OF ok param step(1)]
  show "op_status rec = target_status t" using step(2) by (simp split: if_splits)
  show "if dup then db' = db \<and> recovery_view request db = Some rec else ledger_ok (vd_exec db') \<and> recovery_view request db' = Some rec \<and>
      (\<exists>old. recovery_view request db = Some old \<and> op_status old = source_status t \<and>
         op_operation_id rec = op_operation_id old)"
  proof -
    from refines have "pg_view (ca_tenant_id (rr_action request)) d (ca_idempotency_key (rr_action request)) = Some rec"
      by (auto simp: mark_spec_def)
    with step(2) refines show ?thesis by (cases dup) (auto simp: db' mark_spec_def)
  qed
  show "vd_grants db' = vd_grants db" "vd_updated_at db' = vd_updated_at db" "xd_audit (vd_exec db') = xd_audit (vd_exec db)"
    using step(3) by (simp_all add: db')
qed

text \<open>The end of a run, in failure and in success.\<close>

definition run_ends ::
  "audit_json \<Rightarrow> recovery_execution_request \<Rightarrow> recovery_db \<Rightarrow> recovery_db \<Rightarrow> recovery_execution_report \<Rightarrow> bool" where
  "run_ends J request db db' rep \<longleftrightarrow> \<not> re_duplicate rep \<and> recovery_view request db' = Some (re_operation rep) \<and>
     ledger_ok (vd_exec db') \<and>
     run_so_far J (op_operation_id (re_operation rep)) (re_events rep) db db'"

lemma failed_run:
  assumes ok: "ledger_ok (vd_exec db1)" and before: "run_so_far J oid events db db1"
    and op: "\<exists>op. recovery_view request db1 = Some op \<and> op_status op = Executing \<and> op_operation_id op = oid"
    and run: "failed_report (fail_recovery_operation to_ts J db_now db1 request events trace code msg) = (Inr rep, db')"
  shows "run_ends J request db db' rep \<and> re_recovered_target rep = None \<and> op_status (re_operation rep) = Failed"
proof -
  obtain event tr where event: "recovery_failed_event trace request code msg = (event, tr)" by fastforce
  from run event obtain rec dup db2 u where
    tr: "recovery_transition to_ts db1 ToFailed request (Some code) = (Inr (rec, dup), db2)"
    and app: "append_recovery_event_in_tx to_ts J db_now db2 event (op_operation_id rec) request = (Inr u, db')"
    and rep: "rep = \<lparr>re_operation = rec, re_duplicate = False, re_recovered_target = None, re_events = events @ [event]\<rparr>"
    by (auto simp: failed_report_def fail_recovery_operation_def elim!: try_st_OkE)
  note step = recovery_transition_OkE [OF ok _ tr, simplified]
  have "\<not> dup"
  proof
    assume dup
    with step(2) have "recovery_view request db1 = Some rec" by simp
    with op step(1) show False by simp
  qed
  with step(2) op have view: "recovery_view request db2 = Some rec" "op_operation_id rec = oid" "ledger_ok (vd_exec db2)" by auto
  from run_so_far_tables [OF before step(3-5)] have "run_so_far J (op_operation_id rec) events db db2" by (simp add: view)
  from run_so_far_event [OF this app] view step(1) rep show ?thesis
    by (simp add: run_ends_def same_ledger [of "vd_exec db'" "vd_exec db2"])
qed

lemma succeeded_run:
  assumes ok: "ledger_ok (vd_exec db1)" and before: "run_so_far J oid events db0 db1"
    and op: "\<exists>op. recovery_view request db1 = Some op \<and> op_status op = Executing \<and> op_operation_id op = oid"
    and run: "succeed_recovery_operation to_ts J db_now db1 request events trace target = (Inr rep, db')"
  shows "run_ends J request db0 db' rep \<and> re_recovered_target rep = Some target \<and> op_status (re_operation rep) = Succeeded"
proof -
  from run obtain rec dup db2 event tr u where
    tr: "recovery_transition to_ts db1 ToSucceeded request None = (Inr (rec, dup), db2)"
    and app: "append_recovery_event_in_tx to_ts J db_now db2 event (op_operation_id rec) request = (Inr u, db')"
    and rep: "rep = \<lparr>re_operation = rec, re_duplicate = False, re_recovered_target = Some target, re_events = events @ [event]\<rparr>"
    by (auto simp: succeed_recovery_operation_def elim!: try_st_OkE split: prod.splits)
  note step = recovery_transition_OkE [OF ok _ tr, simplified]
  have "\<not> dup"
  proof
    assume dup
    with step(2) have "recovery_view request db1 = Some rec" by simp
    with op step(1) show False by simp
  qed
  with step(2) op have view: "recovery_view request db2 = Some rec" "op_operation_id rec = oid" "ledger_ok (vd_exec db2)" by auto
  from run_so_far_tables [OF before step(3-5)] have "run_so_far J (op_operation_id rec) events db0 db2" by (simp add: view)
  from run_so_far_event [OF this app] view step(1) rep show ?thesis
    by (simp add: run_ends_def same_ledger [of "vd_exec db'" "vd_exec db2"])
qed

text \<open>The one change of a successful recovery, made on the database as the transaction found it.\<close>

definition recovers ::
  "(int \<Rightarrow> timestamptz option) \<Rightarrow> recovery_execution_request \<Rightarrow> recovery_db
     \<Rightarrow> operational_recovery_execution_target \<Rightarrow> recovery_db \<Rightarrow> bool" where
  "recovers to_ts request db target db0 \<longleftrightarrow> (let tenant = ca_tenant_id (rr_action request) in
     case rr_kind request of
       ResumePausedAuthRefresh grant_id expected \<Rightarrow> target = TokenGrantRefresh grant_id \<and>
         RESUME_PAUSED_TOKEN_GRANT_REFRESH_FOR_RECOVERY to_ts db tenant grant_id (u64_as_i64 expected)
           (u64_as_i64 (rr_occurred_at_ms request)) = Ok (Some grant_id, db0)
     | RequeueFailedOutbox outbox_id attempts at \<Rightarrow> target = AuditOutboxRequeue outbox_id \<and>
         (\<exists>item. LOCK_FAILED_AUDIT_OUTBOX_FOR_RECOVERY db tenant outbox_id attempts = Some item \<and>
            validate_audit_outbox_payload (ob_payload item) = Ok ()) \<and>
         REQUEUE_FAILED_AUDIT_OUTBOX_FOR_RECOVERY to_ts db tenant outbox_id attempts (u64_as_i64 at)
           = Ok (Some outbox_id, db0))"

text \<open>Whether the target of the request is in the state that the request was confirmed for.\<close>

definition recoverable :: "recovery_execution_request \<Rightarrow> recovery_db \<Rightarrow> bool" where
  "recoverable request db \<longleftrightarrow> (let tenant = ca_tenant_id (rr_action request) in
     case rr_kind request of
       ResumePausedAuthRefresh grant_id expected \<Rightarrow>
         LOCK_PAUSED_TOKEN_GRANT_REFRESH_FOR_RECOVERY db tenant grant_id (u64_as_i64 expected) \<noteq> None
     | RequeueFailedOutbox outbox_id attempts at \<Rightarrow>
         (\<exists>item. LOCK_FAILED_AUDIT_OUTBOX_FOR_RECOVERY db tenant outbox_id attempts = Some item \<and>
            validate_audit_outbox_payload (ob_payload item) = Ok ()))"

lemma find_paused_so_far:
  assumes "run_so_far J oid events db db2"
  shows "LOCK_PAUSED_TOKEN_GRANT_REFRESH_FOR_RECOVERY db2 tenant gid ms = LOCK_PAUSED_TOKEN_GRANT_REFRESH_FOR_RECOVERY db tenant gid ms"
proof -
  from assms have "vd_grants db2 = vd_grants db" "vd_updated_at db2 = vd_updated_at db" by (simp_all add: run_so_far_def)
  then show ?thesis by (simp add: LOCK_PAUSED_TOKEN_GRANT_REFRESH_FOR_RECOVERY_def paused_for_recovery_def [abs_def])
qed

lemma resume_statement_so_far:
  assumes "run_so_far J oid events db db2"
    and "RESUME_PAUSED_TOKEN_GRANT_REFRESH_FOR_RECOVERY to_ts db2 tenant gid ms at = Inr (Some g, db3)"
  shows "\<exists>db0. RESUME_PAUSED_TOKEN_GRANT_REFRESH_FOR_RECOVERY to_ts db tenant gid ms at = Inr (Some g, db0) \<and>
    run_so_far J oid events db0 db3 \<and> vd_exec db3 = vd_exec db2 \<and> g = gid"
proof -
  from assms(1) have same: "vd_grants db2 = vd_grants db" "vd_updated_at db2 = vd_updated_at db" by (simp_all add: run_so_far_def)
  then have P: "paused_for_recovery db2 tenant gid ms = paused_for_recovery db tenant gid ms"
    by (simp add: fun_eq_iff paused_for_recovery_def)
  let ?P = "paused_for_recovery db tenant gid ms"
  from assms(2) obtain t where t: "sql_timestamp to_ts at = Inr t"
    by (cases "sql_timestamp to_ts at") (simp_all add: RESUME_PAUSED_TOKEN_GRANT_REFRESH_FOR_RECOVERY_def del: sql_timestamp_Ok_iff)
  from assms(2) t obtain r where r: "find ?P (gd_grants (vd_grants db)) = Some r"
    by (cases "find ?P (gd_grants (vd_grants db))")
      (simp_all add: RESUME_PAUSED_TOKEN_GRANT_REFRESH_FOR_RECOVERY_def Let_def P same del: sql_timestamp_Ok_iff)
  from assms(2) t r have g: "g = gr_id r" and db3: "db3 = db2\<lparr>vd_grants := (vd_grants db)\<lparr>gd_grants :=
      map_where ?P resumed_row (gd_grants (vd_grants db))\<rparr>, vd_updated_at := (vd_updated_at db)(gr_id r := t)\<rparr>"
    by (auto simp: RESUME_PAUSED_TOKEN_GRANT_REFRESH_FOR_RECOVERY_def Let_def P same simp del: sql_timestamp_Ok_iff)
  from r have "paused_for_recovery db tenant gid ms r" by (auto simp: find_Some_iff)
  then have "gr_id r = gid" by (simp add: paused_for_recovery_def)
  then show ?thesis
    using t r g db3 assms(1)
    by (simp add: RESUME_PAUSED_TOKEN_GRANT_REFRESH_FOR_RECOVERY_def Let_def run_so_far_def del: sql_timestamp_Ok_iff)
qed

lemma resume_run:
  assumes ok: "ledger_ok (vd_exec db1)" and before: "run_so_far J oid events db db1"
    and op: "recovery_view request db1 = Some operation" "op_status operation = Executing" "op_operation_id operation = oid"
    and kind: "rr_kind request = ResumePausedAuthRefresh gid expected"
    and run: "execute_resume_paused_auth_refresh to_ts J db_now db1 request operation events trace gid expected = (Inr rep, db')"
  shows "case re_recovered_target rep of
      None \<Rightarrow> \<not> recoverable request db \<and> op_status (re_operation rep) = Failed \<and> run_ends J request db db' rep
    | Some target \<Rightarrow> op_status (re_operation rep) = Succeeded \<and>
        (\<exists>db0. recovers to_ts request db target db0 \<and> run_ends J request db0 db' rep)"
proof -
  let ?t = "ca_tenant_id (rr_action request)"
  let ?lock = "LOCK_PAUSED_TOKEN_GRANT_REFRESH_FOR_RECOVERY db1 ?t gid (u64_as_i64 expected)"
  from run obtain eligible where eligible: "transpose_map (\<lambda>r. try_then (non_negative_i64_to_u64
      (epoch_ms (vd_updated_at db1 (gr_id r))) ''updated_at_ms'') (\<lambda>ms. Ok (gr_id r, ms))) ?lock = Inr eligible"
    unfolding execute_resume_paused_auth_refresh_def by (auto elim!: try_st_OkE)
  have locked: "i = gid \<and> ms = expected" if "eligible = Some (i, ms)" for i ms
  proof -
    from eligible that obtain r where r: "?lock = Some r" "i = gr_id r"
      and ms: "non_negative_i64_to_u64 (epoch_ms (vd_updated_at db1 (gr_id r))) ''updated_at_ms'' = Inr ms"
      by (auto simp: transpose_map_def try_then_Ok_iff split: option.splits)
    from r(1) have "paused_for_recovery db1 ?t gid (u64_as_i64 expected) r"
      by (auto simp: LOCK_PAUSED_TOKEN_GRANT_REFRESH_FOR_RECOVERY_def find_Some_iff)
    then have "gr_id r = gid" "epoch_ms (vd_updated_at db1 (gr_id r)) = u64_as_i64 expected"
      by (auto simp: paused_for_recovery_def)
    with ms r(2) show ?thesis
      by (auto simp: non_negative_i64_to_u64_def u64_as_i64_def word_of_int_uint split: if_splits)
  qed
  obtain event tr where event: "recovery_dry_run_event trace request
      (case eligible of Some (i, _) \<Rightarrow> RecoveryEligible i | None \<Rightarrow> RecoveryMissing) = (event, tr)" by fastforce
  from run eligible event obtain u db2 where
    app: "append_recovery_event_in_tx to_ts J db_now db1 event oid request = (Inr u, db2)"
    and rest: "(case eligible of
       None \<Rightarrow> failed_report (fail_recovery_operation to_ts J db_now db2 request (events @ [event]) tr
         ''operational_recovery_no_eligible_grant''
         ''no eligible paused auth refresh grant matched the confirmed recovery request'')
     | Some (locked_id, updated_at_ms) \<Rightarrow>
         try_st (exec_sql db2 (RESUME_PAUSED_TOKEN_GRANT_REFRESH_FOR_RECOVERY to_ts db2 ?t
             locked_id (u64_as_i64 updated_at_ms) (u64_as_i64 (rr_occurred_at_ms request)))) (\<lambda>resumed db.
         case resumed of
           None \<Rightarrow> failed_report (fail_recovery_operation to_ts J db_now db request (events @ [event]) tr
             ''operational_recovery_resume_conflict''
             ''paused auth refresh grant changed before recovery could resume it'')
         | Some resumed_id \<Rightarrow>
             succeed_recovery_operation to_ts J db_now db request (events @ [event]) tr (TokenGrantRefresh resumed_id))) = (Inr rep, db')"
    unfolding execute_resume_paused_auth_refresh_def op(3) [symmetric]
    by (auto simp: Let_def elim!: try_st_OkE)
  from run_so_far_event [OF before app] have so_far: "run_so_far J oid (events @ [event]) db db2" and same: "same_ledger_tables db1 db2"
    by auto
  from same ok op have ok2: "ledger_ok (vd_exec db2)"
    and op2: "\<exists>op. recovery_view request db2 = Some op \<and> op_status op = Executing \<and> op_operation_id op = oid"
    by (simp_all add: same_ledger [of "vd_exec db2" "vd_exec db1"])
  show ?thesis
  proof (cases eligible)
    case None
    with eligible have "?lock = None" by (cases ?lock) (auto simp: transpose_map_def try_then_Ok_iff)
    with find_paused_so_far [OF before] kind have "\<not> recoverable request db" by (simp add: recoverable_def)
    with failed_run [OF ok2 so_far op2] rest None show ?thesis by auto
  next
    case (Some e)
    then have e: "e = (gid, expected)" using locked by (cases e) auto
    let ?stmt = "RESUME_PAUSED_TOKEN_GRANT_REFRESH_FOR_RECOVERY to_ts db2 ?t gid (u64_as_i64 expected) (u64_as_i64 (rr_occurred_at_ms request))"
    from rest Some e obtain resumed db3 where stmt: "?stmt = Inr (resumed, db3)"
      by (cases ?stmt) (auto simp: exec_sql_def)
    show ?thesis
    proof (cases resumed)
      case None
      with stmt have "LOCK_PAUSED_TOKEN_GRANT_REFRESH_FOR_RECOVERY db2 ?t gid (u64_as_i64 expected) = None"
        by (auto simp: RESUME_PAUSED_TOKEN_GRANT_REFRESH_FOR_RECOVERY_def LOCK_PAUSED_TOKEN_GRANT_REFRESH_FOR_RECOVERY_def
            Let_def try_then_Ok_iff split: option.splits)
      then have "?lock = None" by (simp add: find_paused_so_far [OF so_far] find_paused_so_far [OF before])
      with eligible Some show ?thesis by (simp add: transpose_map_def)
    next
      case (Some g)
      from resume_statement_so_far [OF so_far stmt [unfolded Some]] obtain db0 where
        db0: "RESUME_PAUSED_TOKEN_GRANT_REFRESH_FOR_RECOVERY to_ts db ?t gid (u64_as_i64 expected)
           (u64_as_i64 (rr_occurred_at_ms request)) = Inr (Some g, db0)"
        and so_far3: "run_so_far J oid (events @ [event]) db0 db3" and exec3: "vd_exec db3 = vd_exec db2" and g: "g = gid" by blast
      from rest \<open>eligible = Some e\<close> e stmt Some have succ: "succeed_recovery_operation to_ts J db_now db3 request
          (events @ [event]) tr (TokenGrantRefresh gid) = (Inr rep, db')" by (simp add: g)
      have "recovers to_ts request db (TokenGrantRefresh gid) db0" using db0 kind g by (simp add: recovers_def)
      with succeeded_run [OF _ so_far3 _ succ] ok2 op2 exec3 show ?thesis by auto
    qed
  qed
qed

lemma not_pending: "failed_for_recovery tenant i n m \<Longrightarrow> ob_status m \<noteq> ''pending''"
  by (simp add: failed_for_recovery_def)

lemma find_failed_so_far:
  assumes "run_so_far J oid events db db2"
  shows "find (failed_for_recovery tenant i n) (ad_outbox (xd_audit (vd_exec db2)))
    = find (failed_for_recovery tenant i n) (ad_outbox (xd_audit (vd_exec db)))"
proof -
  from assms obtain ms where ms: "ad_outbox (xd_audit (vd_exec db2)) = ad_outbox (xd_audit (vd_exec db)) @ ms"
    "\<forall>m \<in> set ms. ob_status m = ''pending''" unfolding run_so_far_def by blast
  then have "find (failed_for_recovery tenant i n) ms = None" by (auto simp: find_None_iff dest: not_pending)
  then show ?thesis by (simp add: ms(1) find_append split: option.split)
qed

lemma requeue_statement_so_far:
  assumes "run_so_far J oid events db db2"
    and "REQUEUE_FAILED_AUDIT_OUTBOX_FOR_RECOVERY to_ts db2 tenant i n at = Inr (Some g, db3)"
  shows "\<exists>db0. REQUEUE_FAILED_AUDIT_OUTBOX_FOR_RECOVERY to_ts db tenant i n at = Inr (Some g, db0) \<and>
    run_so_far J oid events db0 db3 \<and> same_ledger_tables db2 db3 \<and> g = i"
proof -
  let ?P = "failed_for_recovery tenant i n" and ?a = "xd_audit (vd_exec db)" and ?a2 = "xd_audit (vd_exec db2)"
  from assms(1) obtain ms where ms: "ad_outbox ?a2 = ad_outbox ?a @ ms" "\<forall>m \<in> set ms. ob_status m = ''pending''"
    unfolding run_so_far_def by blast
  from assms(2) obtain t where t: "sql_timestamp to_ts at = Inr t"
    by (cases "sql_timestamp to_ts at") (simp_all add: REQUEUE_FAILED_AUDIT_OUTBOX_FOR_RECOVERY_def del: sql_timestamp_Ok_iff)
  let ?db0 = "db\<lparr>vd_exec := (vd_exec db)\<lparr>xd_audit := ?a\<lparr>ad_outbox := map_where ?P (requeued_row t) (ad_outbox ?a)\<rparr>\<rparr>\<rparr>"
  from assms(2) t find_failed_so_far [OF assms(1)] have found: "map_option ob_id (find ?P (ad_outbox ?a)) = Some g"
    and db3: "db3 = db2\<lparr>vd_exec := (vd_exec db2)\<lparr>xd_audit := ?a2\<lparr>ad_outbox := map_where ?P (requeued_row t) (ad_outbox ?a2)\<rparr>\<rparr>\<rparr>"
    by (auto simp: REQUEUE_FAILED_AUDIT_OUTBOX_FOR_RECOVERY_def Let_def simp del: sql_timestamp_Ok_iff)
  have "map_where ?P (requeued_row t) ms = ms" using ms(2) by (intro map_where_none) (auto dest: not_pending)
  then have "map_where ?P (requeued_row t) (ad_outbox ?a2) = map_where ?P (requeued_row t) (ad_outbox ?a) @ ms"
    by (simp add: ms(1) map_where_def)
  then have "run_so_far J oid events ?db0 db3" using assms(1) ms(2) by (simp add: run_so_far_def db3)
  moreover have "REQUEUE_FAILED_AUDIT_OUTBOX_FOR_RECOVERY to_ts db tenant i n at = Inr (Some g, ?db0)"
    using t found by (simp add: REQUEUE_FAILED_AUDIT_OUTBOX_FOR_RECOVERY_def Let_def del: sql_timestamp_Ok_iff)
  moreover from found have "g = i" by (auto simp: find_Some_iff failed_for_recovery_def)
  ultimately show ?thesis by (simp add: db3)
qed

lemma requeue_run:
  assumes ok: "ledger_ok (vd_exec db1)" and before: "run_so_far J oid events db db1"
    and op: "recovery_view request db1 = Some operation" "op_status operation = Executing" "op_operation_id operation = oid"
    and kind: "rr_kind request = RequeueFailedOutbox i n at"
    and run: "execute_requeue_failed_audit_outbox to_ts J db_now db1 request operation events trace i n at = (Inr rep, db')"
  shows "case re_recovered_target rep of
      None \<Rightarrow> \<not> recoverable request db \<and> op_status (re_operation rep) = Failed \<and> run_ends J request db db' rep
    | Some target \<Rightarrow> op_status (re_operation rep) = Succeeded \<and>
        (\<exists>db0. recovers to_ts request db target db0 \<and> run_ends J request db0 db' rep)"
proof -
  let ?t = "ca_tenant_id (rr_action request)"
  define eligible where "eligible = LOCK_FAILED_AUDIT_OUTBOX_FOR_RECOVERY db1 ?t i n"
  define safe where "safe = map_option (\<lambda>item. validate_audit_outbox_payload (ob_payload item) = Ok ()) eligible"
  obtain event tr where event: "recovery_dry_run_event trace request (case eligible of
             Some _ \<Rightarrow> if safe = Some True then RecoveryEligible (outbox_reference i) else UnsafePayload (outbox_reference i)
           | None \<Rightarrow> RecoveryMissing) = (event, tr)" by fastforce
  let ?rest = "\<lambda>db2. case eligible of
        None \<Rightarrow> failed_report (fail_recovery_operation to_ts J db_now db2 request (events @ [event]) tr
          ''operational_recovery_no_eligible_outbox''
          ''no eligible failed audit outbox matched the confirmed recovery request'')
      | Some item \<Rightarrow>
          if safe \<noteq> Some True
          then failed_report (fail_recovery_operation to_ts J db_now db2 request (events @ [event]) tr
            ''operational_recovery_unsafe_outbox_payload''
            ''failed audit outbox payload did not pass safety validation'')
          else try_st (exec_sql db2 (REQUEUE_FAILED_AUDIT_OUTBOX_FOR_RECOVERY to_ts db2 ?t
               (ob_id item) (ob_attempt_count item) (u64_as_i64 at))) (\<lambda>reopened db.
             case reopened of
               None \<Rightarrow> failed_report (fail_recovery_operation to_ts J db_now db request (events @ [event]) tr
                 ''operational_recovery_outbox_conflict''
                 ''failed audit outbox changed before recovery could requeue it'')
             | Some reopened_id \<Rightarrow>
                 succeed_recovery_operation to_ts J db_now db request (events @ [event]) tr (AuditOutboxRequeue reopened_id))"
  have "try_st (append_recovery_event_in_tx to_ts J db_now db1 event oid request) (\<lambda>_ db2. ?rest db2) = (Inr rep, db')"
    using run unfolding execute_requeue_failed_audit_outbox_def op(3) Let_def eligible_def [symmetric] safe_def [symmetric] event
    by (simp only: prod.case)
  then obtain u db2 where app: "append_recovery_event_in_tx to_ts J db_now db1 event oid request = (Inr u, db2)"
    and rest: "?rest db2 = (Inr rep, db')" by (rule try_st_OkE)
  from run_so_far_event [OF before app] have so_far: "run_so_far J oid (events @ [event]) db db2" and same: "same_ledger_tables db1 db2"
    by auto
  from same ok op have ok2: "ledger_ok (vd_exec db2)"
    and op2: "\<exists>op. recovery_view request db2 = Some op \<and> op_status op = Executing \<and> op_operation_id op = oid"
    by (simp_all add: same_ledger [of "vd_exec db2" "vd_exec db1"])
  have lock: "eligible = LOCK_FAILED_AUDIT_OUTBOX_FOR_RECOVERY db ?t i n"
    unfolding eligible_def LOCK_FAILED_AUDIT_OUTBOX_FOR_RECOVERY_def by (rule find_failed_so_far [OF before])
  show ?thesis
  proof (cases eligible)
    case None
    with lock kind have "\<not> recoverable request db" by (simp add: recoverable_def)
    with failed_run [OF ok2 so_far op2] rest None show ?thesis by auto
  next
    case (Some item)
    then have item: "ob_id item = i" "ob_attempt_count item = n"
      by (auto simp: eligible_def LOCK_FAILED_AUDIT_OUTBOX_FOR_RECOVERY_def find_Some_iff failed_for_recovery_def)
    show ?thesis
    proof (cases "safe = Some True")
      case False
      with lock kind Some have "\<not> recoverable request db" by (simp add: recoverable_def safe_def)
      with failed_run [OF ok2 so_far op2] rest Some False show ?thesis by auto
    next
      case True
      let ?stmt = "REQUEUE_FAILED_AUDIT_OUTBOX_FOR_RECOVERY to_ts db2 ?t i n (u64_as_i64 at)"
      from rest Some item True obtain reopened db3 where stmt: "?stmt = Inr (reopened, db3)"
        by (cases ?stmt) (auto simp: exec_sql_def)
      show ?thesis
      proof (cases reopened)
        case None
        with stmt find_failed_so_far [OF so_far] lock \<open>eligible = Some item\<close> show ?thesis
          by (auto simp: REQUEUE_FAILED_AUDIT_OUTBOX_FOR_RECOVERY_def LOCK_FAILED_AUDIT_OUTBOX_FOR_RECOVERY_def Let_def try_then_Ok_iff)
      next
        case (Some g)
        from requeue_statement_so_far [OF so_far stmt [unfolded Some]] obtain db0 where
          db0: "REQUEUE_FAILED_AUDIT_OUTBOX_FOR_RECOVERY to_ts db ?t i n (u64_as_i64 at) = Inr (Some g, db0)"
          and so_far3: "run_so_far J oid (events @ [event]) db0 db3" and same3: "same_ledger_tables db2 db3" and g: "g = i" by blast
        from rest \<open>eligible = Some item\<close> item True stmt Some have succ: "succeed_recovery_operation to_ts J db_now db3 request
            (events @ [event]) tr (AuditOutboxRequeue i) = (Inr rep, db')" by (simp add: g)
        have "recovers to_ts request db (AuditOutboxRequeue i) db0"
          using db0 kind g lock \<open>eligible = Some item\<close> True by (simp add: recovers_def safe_def)
        moreover from same3 ok2 op2 have "ledger_ok (vd_exec db3)"
          "\<exists>op. recovery_view request db3 = Some op \<and> op_status op = Executing \<and> op_operation_id op = oid"
          by (simp_all add: same_ledger [of "vd_exec db3" "vd_exec db2"])
        ultimately show ?thesis using succeeded_run [OF _ so_far3 _ succ] by auto
      qed
    qed
  qed
qed

lemma collect_results_in: "collect_results f xs = Inr ys \<Longrightarrow> y \<in> set ys \<Longrightarrow> \<exists>x \<in> set xs. f x = Inr y"
  by (induction xs arbitrary: ys) (auto simp: try_then_Ok_iff)

lemma submit_keeps_audit:
  "pg_submit_confirmed_action to_ts db_now db a ms oid = (r, db') \<Longrightarrow> xd_audit db' = xd_audit db"
  by (cases r) (auto simp: pg_submit_confirmed_action_def submit_confirmed_action_with_executor_def exec_sql_def
      SUBMIT_CONFIRMED_ACTION_AND_LEDGER_def try_then_def try_st_def Let_def split: if_splits sum.splits option.splits prod.splits)

lemma started_run:
  assumes ok: "ledger_ok (vd_exec db1)" and before: "run_so_far J oid events db db1"
    and view: "recovery_view request db1 = Some op" "op_status op \<noteq> Executing" "op_operation_id op = oid"
    and run: "try_st (recovery_transition to_ts db1 ToExecuting request None) (\<lambda>(operation, duplicate_executing) db.
       if duplicate_executing
       then (Ok \<lparr>re_operation = operation, re_duplicate = True, re_recovered_target = None, re_events = events\<rparr>, db)
       else case rr_kind request of
           ResumePausedAuthRefresh grant_id expected \<Rightarrow>
             execute_resume_paused_auth_refresh to_ts J db_now db request operation events trace grant_id expected
         | RequeueFailedOutbox outbox_id attempts at \<Rightarrow>
             execute_requeue_failed_audit_outbox to_ts J db_now db request operation events trace outbox_id attempts at)
       = (Inr rep, db')"
  shows "op_status op = Confirmed \<and> \<not> re_duplicate rep \<and> (case re_recovered_target rep of
      None \<Rightarrow> \<not> recoverable request db \<and> op_status (re_operation rep) = Failed \<and> run_ends J request db db' rep
    | Some target \<Rightarrow> op_status (re_operation rep) = Succeeded \<and>
        (\<exists>db0. recovers to_ts request db target db0 \<and> run_ends J request db0 db' rep))"
proof -
  from run obtain q db2 where tr: "recovery_transition to_ts db1 ToExecuting request None = (Inr q, db2)"
    and rest: "(\<lambda>(operation, duplicate_executing) db.
       if duplicate_executing
       then (Ok \<lparr>re_operation = operation, re_duplicate = True, re_recovered_target = None, re_events = events\<rparr>, db)
       else case rr_kind request of
           ResumePausedAuthRefresh grant_id expected \<Rightarrow>
             execute_resume_paused_auth_refresh to_ts J db_now db request operation events trace grant_id expected
         | RequeueFailedOutbox outbox_id attempts at \<Rightarrow>
             execute_requeue_failed_audit_outbox to_ts J db_now db request operation events trace outbox_id attempts at) q db2
       = (Inr rep, db')" by (rule try_st_OkE)
  obtain operation dup where q: "q = (operation, dup)" by fastforce
  note step = recovery_transition_OkE [OF ok _ tr [unfolded q], simplified]
  have new: "\<not> dup"
  proof
    assume dup
    with step(2) have "recovery_view request db1 = Some operation" by simp
    with view step(1) show False by simp
  qed
  with step(2) view have op: "recovery_view request db2 = Some operation" "op_operation_id operation = oid" "ledger_ok (vd_exec db2)"
    and was: "op_status op = Confirmed" by auto
  note so_far = run_so_far_tables [OF before step(3-5)]
  have "case re_recovered_target rep of
      None \<Rightarrow> \<not> recoverable request db \<and> op_status (re_operation rep) = Failed \<and> run_ends J request db db' rep
    | Some target \<Rightarrow> op_status (re_operation rep) = Succeeded \<and>
        (\<exists>db0. recovers to_ts request db target db0 \<and> run_ends J request db0 db' rep)"
  proof (cases "rr_kind request")
    case (ResumePausedAuthRefresh gid expected)
    with rest q new show ?thesis using resume_run [OF op(3) so_far op(1) step(1) op(2)] by simp
  next
    case (RequeueFailedOutbox i n at)
    with rest q new show ?thesis using requeue_run [OF op(3) so_far op(1) step(1) op(2)] by simp
  qed
  with was show ?thesis by (auto simp: run_ends_def split: option.splits)
qed

lemma recovery_atomic_case:
  assumes ok: "ledger_ok (vd_exec db)" and run: "execute_confirmed_recovery to_ts J db_now db request = (r, db')"
  shows "case r of
      Inl e \<Rightarrow> db' = db
    | Inr rep \<Rightarrow>
        if re_duplicate rep
        then re_recovered_target rep = None \<and> re_events rep = [] \<and> recovery_view request db = Some (re_operation rep) \<and>
          recovery_view request db' = Some (re_operation rep) \<and> ledger_ok (vd_exec db') \<and>
          is_recovery_terminal_or_inflight (op_status (re_operation rep)) \<and> vd_grants db' = vd_grants db \<and>
          vd_updated_at db' = vd_updated_at db \<and> xd_audit (vd_exec db') = xd_audit (vd_exec db)
        else (case recovery_view request db of None \<Rightarrow> True | Some old \<Rightarrow> op_status old = Confirmed) \<and>
          (case re_recovered_target rep of
             None \<Rightarrow> \<not> recoverable request db \<and> op_status (re_operation rep) = Failed \<and> run_ends J request db db' rep
           | Some target \<Rightarrow> op_status (re_operation rep) = Succeeded \<and>
               (\<exists>db0. recovers to_ts request db target db0 \<and> run_ends J request db0 db' rep))"
proof (cases r)
  case (Inl e)
  with run have "db' = db" by (auto simp: execute_confirmed_recovery_def dest: in_tx_Err)
  with Inl show ?thesis by simp
next
  case (Inr rep)
  with run have body: "recovery_in_tx to_ts J db_now db request = (Inr rep, db')"
    by (auto simp: execute_confirmed_recovery_def in_tx_def split: prod.splits sum.splits)
  let ?submit = "pg_submit_confirmed_action to_ts db_now (vd_exec db) (rr_action request) (rr_confirmed_at_ms request) (rr_operation_id request)"
  from body obtain submit d where submit: "?submit = (Inr submit, d)"
    unfolding recovery_in_tx_def by (elim try_st_OkE on_exec_OkE) blast
  let ?db1 = "db\<lparr>vd_exec := d\<rparr>"
  note spec = pg_submit_refines [OF ok submit]
  let ?go = "\<lambda>events trace db. try_st (recovery_transition to_ts db ToExecuting request None) (\<lambda>(operation, duplicate_executing) db.
       if duplicate_executing
       then (Ok \<lparr>re_operation = operation, re_duplicate = True, re_recovered_target = None, re_events = events\<rparr>, db)
       else case rr_kind request of
           ResumePausedAuthRefresh grant_id expected \<Rightarrow>
             execute_resume_paused_auth_refresh to_ts J db_now db request operation events trace grant_id expected
         | RequeueFailedOutbox outbox_id attempts at \<Rightarrow>
             execute_requeue_failed_audit_outbox to_ts J db_now db request operation events trace outbox_id attempts at)"
  have ok1: "ledger_ok (vd_exec ?db1)" using spec by simp
  have start: "run_so_far J oid [] db ?db1" for oid
    by (rule run_so_far_tables [OF run_so_far_start]) (simp_all add: submit_keeps_audit [OF submit])
  show ?thesis
  proof (cases submit)
    case (Existing rec)
    with spec have view: "recovery_view request db = Some rec" "recovery_view request ?db1 = Some rec"
      by (simp_all add: submit_spec_def)
    show ?thesis
    proof (cases "is_recovery_terminal_or_inflight (op_status rec)")
      case True
      with body submit Existing have "rep = \<lparr>re_operation = rec, re_duplicate = True, re_recovered_target = None, re_events = []\<rparr>"
        "db' = ?db1" by (simp_all add: recovery_in_tx_def on_exec_def)
      with Inr True view ok1 submit_keeps_audit [OF submit] show ?thesis by simp
    next
      case False
      then have "op_status rec \<noteq> Executing" by (auto simp: is_recovery_terminal_or_inflight_def)
      moreover have "?go [] (recovery_audit_trace request) ?db1 = (Inr rep, db')"
        using body submit Existing False by (simp add: recovery_in_tx_def on_exec_def Let_def)
      ultimately show ?thesis using started_run [OF ok1 start view(2) _ refl] view Inr by simp
    qed
  next
    case (Created rec)
    with spec have view: "recovery_view request db = None" "recovery_view request ?db1 = Some rec" "op_status rec = Confirmed"
      by (simp_all add: submit_spec_def)
    obtain event tr where event: "trace_confirmed_action (recovery_audit_trace request) (rr_occurred_at_ms request)
        (recovery_summary (''confirmed operational recovery '' @ ca_action_id (rr_action request))
           (target_reference_ids (rr_kind request))) = (event, tr)" by fastforce
    have "try_st (try_st (append_recovery_event_in_tx to_ts J db_now ?db1 event (op_operation_id rec) request)
        (\<lambda>_ db. (Ok ([event], tr), db))) (\<lambda>(events, trace) db. ?go events trace db) = (Inr rep, db')"
      using body submit Created event by (simp add: recovery_in_tx_def on_exec_def Let_def)
    then obtain u db2 where app: "append_recovery_event_in_tx to_ts J db_now ?db1 event (op_operation_id rec) request = (Inr u, db2)"
      and rest: "?go [event] tr db2 = (Inr rep, db')" by (auto elim!: try_st_OkE)
    from run_so_far_event [OF start app] have so_far: "run_so_far J (op_operation_id rec) [event] db db2"
      and same: "same_ledger_tables ?db1 db2" by auto
    from same ok1 view have ok2: "ledger_ok (vd_exec db2)" and view2: "recovery_view request db2 = Some rec"
      by (simp_all add: same_ledger [of "vd_exec db2" "vd_exec ?db1"])
    from started_run [OF ok2 so_far view2 _ refl rest] view Inr show ?thesis by simp
  qed
qed

text \<open>
  C14. A confirmed recovery is one transaction. An error leaves the database as it was; a repeated
  request answers with the operation of the first and changes neither grants nor audit tables.
  Otherwise the operation was new or still waiting, it ends as succeeded when the target was in the
  state the request names and as failed when it was not, the only other change is the one statement
  on the target, and every event of the answer is in the log under the operation with a pending message.
\<close>

theorem recovery_atomic:
  assumes "ledger_ok (vd_exec db)" and "execute_confirmed_recovery to_ts J db_now db request = (r, db')"
  shows "case r of
      Inl e \<Rightarrow> db' = db
    | Inr rep \<Rightarrow>
        if re_duplicate rep
        then re_recovered_target rep = None \<and> re_events rep = [] \<and> recovery_view request db = Some (re_operation rep) \<and>
          recovery_view request db' = Some (re_operation rep) \<and> ledger_ok (vd_exec db') \<and>
          is_recovery_terminal_or_inflight (op_status (re_operation rep)) \<and> vd_grants db' = vd_grants db \<and>
          vd_updated_at db' = vd_updated_at db \<and> xd_audit (vd_exec db') = xd_audit (vd_exec db)
        else (case recovery_view request db of None \<Rightarrow> True | Some old \<Rightarrow> op_status old = Confirmed) \<and>
          (case re_recovered_target rep of
             None \<Rightarrow> \<not> recoverable request db \<and> op_status (re_operation rep) = Failed \<and> run_ends J request db db' rep
           | Some target \<Rightarrow> op_status (re_operation rep) = Succeeded \<and>
               (\<exists>db0. recovers to_ts request db target db0 \<and> run_ends J request db0 db' rep))"
  using assms by (rule recovery_atomic_case)

lemma committed_run_settled:
  assumes ok: "ledger_ok (vd_exec db)" and run: "execute_confirmed_recovery to_ts J db_now db request = (Inr rep, db')"
  shows "ledger_ok (vd_exec db') \<and> recovery_view request db' = Some (re_operation rep) \<and>
    is_recovery_terminal_or_inflight (op_status (re_operation rep))"
  using recovery_atomic_case [OF ok run]
  by (auto simp: run_ends_def is_recovery_terminal_or_inflight_def split: if_splits option.splits)


text \<open>
  The report and the execution agree about the outbox: a message that the report recommends to
  requeue is requeued by a confirmed request made from the report, as long as the row has not
  changed in between; a message with an unsafe payload is only recommended for inspection.
\<close>

lemma recommended_requeue_succeeds:
  assumes "ledger_ok (vd_exec db)" and "distinct (map ob_id (ad_outbox (xd_audit (vd_exec db))))"
    and "load_tenant_recovery_report collate db (ca_tenant_id (rr_action request)) limit = Ok report"
    and "item \<in> set (rv_failed_audit_outbox report)" and "fi_recommended_action item = RequeueFailedAuditOutbox"
    and "rr_kind request = RequeueFailedOutbox (fi_id item) (fi_attempt_count item) at"
    and "execute_confirmed_recovery to_ts J db_now db request = (Ok rep, db')" and "\<not> re_duplicate rep"
  shows "re_recovered_target rep = Some (AuditOutboxRequeue (fi_id item)) \<and> op_status (re_operation rep) = Succeeded"
proof -
  let ?t = "ca_tenant_id (rr_action request)"
  from assms(3,4) have "\<exists>r. r \<in> set (LIST_FAILED_AUDIT_OUTBOX_RECOVERY_ITEMS db ?t limit) \<and>
      failed_outbox_recovery_item_from_row r = Inr item"
    by (auto simp: load_tenant_recovery_report_def try_then_Ok_iff dest: collect_results_in split: if_splits)
  then obtain r where r: "r \<in> set (ad_outbox (xd_audit (vd_exec db)))" "ob_tenant_id r = ?t" "ob_status r = ''failed''"
      "ob_stream r = ''audit-events''" "ob_sent_at r = None" and item: "failed_outbox_recovery_item_from_row r = Inr item"
    by (auto simp: LIST_FAILED_AUDIT_OUTBOX_RECOVERY_ITEMS_def dest!: in_set_takeD)
  from item assms(5) have fields: "fi_id item = ob_id r" "fi_attempt_count item = ob_attempt_count r"
    and safe: "validate_audit_outbox_payload (ob_payload r) = Inr ()"
    by (auto simp: failed_outbox_recovery_item_from_row_def Let_def try_then_Ok_iff validate_audit_outbox_payload_def
        split: sum.splits if_splits)
  let ?P = "failed_for_recovery ?t (fi_id item) (fi_attempt_count item)"
  from r fields have P: "?P r" by (simp add: failed_for_recovery_def)
  have "find ?P (ad_outbox (xd_audit (vd_exec db))) = Some r"
  proof (cases "find ?P (ad_outbox (xd_audit (vd_exec db)))")
    case None
    with r(1) P show ?thesis by (auto simp: find_None_iff)
  next
    case (Some s)
    then have "s \<in> set (ad_outbox (xd_audit (vd_exec db)))" "ob_id s = ob_id r"
      using fields by (auto simp: find_Some_iff failed_for_recovery_def)
    with assms(2) r(1) have "s = r" by (simp add: distinct_map inj_on_def)
    with Some show ?thesis by simp
  qed
  with assms(6) safe have "recoverable request db" by (simp add: recoverable_def LOCK_FAILED_AUDIT_OUTBOX_FOR_RECOVERY_def)
  with recovery_atomic_case [OF assms(1,7)] assms(6,8) show ?thesis
    by (auto simp: recovers_def Let_def split: option.splits)
qed

section \<open>Witnesses\<close>

definition sample_failed_row :: outbox_row where
  "sample_failed_row = \<lparr>ob_id = 7, ob_tenant_id = ''t'', ob_stream = ''audit-events'', ob_aggregate_id = ''x'',
     ob_payload = JObject [(''kind'', JString ''k'')], ob_status = ''failed'', ob_attempt_count = 3, ob_next_attempt_at = None,
     ob_created_at = 0, ob_sent_at = None\<rparr>"

definition sample_recovery_db :: recovery_db where
  "sample_recovery_db = \<lparr>vd_exec = (sample_execution_db ''confirmed'')\<lparr>xd_audit :=
       (sample_audit_db [sample_failed_row])\<lparr>ad_outbox_id_seq := 8\<rparr>\<rparr>,
     vd_grants = \<lparr>gd_tenants = [''t''], gd_identities = [], gd_grants = []\<rparr>, vd_updated_at = (\<lambda>_. 0)\<rparr>"

definition sample_recovery_request :: recovery_execution_request where
  "sample_recovery_request = \<lparr>rr_action = \<lparr>ca_action_id = ''a2'', ca_tenant_id = ''t'', ca_actor_user_id = ''u'',
       ca_idempotency_key = ''k2'', ca_status = Confirmed, ca_confirmed_at = None\<rparr>,
     rr_confirmed_at_ms = 5, rr_operation_id = ''o2'', rr_occurred_at_ms = 6, rr_outbox_next_attempt_at_ms = 7,
     rr_audit_trace_id = ''tr'', rr_kind = RequeueFailedOutbox 7 3 9\<rparr>"

lemma sample_recovery_ledger_ok: "ledger_ok (vd_exec sample_recovery_db)"
  using sample_ledger_ok by (simp add: sample_recovery_db_def ledger_ok_def)

theorem recovery_atomic_witness:
  "case fst (execute_confirmed_recovery Some sample_json 0 sample_recovery_db sample_recovery_request) of
     Inl e \<Rightarrow> snd (execute_confirmed_recovery Some sample_json 0 sample_recovery_db sample_recovery_request) = sample_recovery_db
   | Inr rep \<Rightarrow> re_duplicate rep \<or> (re_recovered_target rep = None) = (op_status (re_operation rep) = Failed)"
  using recovery_atomic [OF sample_recovery_ledger_ok prod.collapse [symmetric], of Some sample_json 0 sample_recovery_request]
  by (auto split: sum.splits if_splits option.splits)

definition sample_settled_db :: recovery_db where
  "sample_settled_db = sample_recovery_db\<lparr>vd_exec := sample_execution_db ''succeeded''\<rparr>"

definition sample_repeated_request :: recovery_execution_request where
  "sample_repeated_request = sample_recovery_request\<lparr>rr_action := (rr_action sample_recovery_request)\<lparr>ca_idempotency_key := ''k''\<rparr>\<rparr>"

lemma sample_repeated_run:
  "execute_confirmed_recovery Some sample_json 0 sample_settled_db sample_repeated_request =
     (Ok \<lparr>re_operation = \<lparr>op_operation_id = ''o'', op_tenant_id = ''t'', op_action_id = ''a'', op_idempotency_key = ''k'',
        op_status = Succeeded, op_last_error = None\<rparr>, re_duplicate = True, re_recovered_target = None, re_events = []\<rparr>, sample_settled_db)"
  by (simp add: execute_confirmed_recovery_def recovery_in_tx_def in_tx_def on_exec_def pg_submit_confirmed_action_def
      submit_confirmed_action_with_executor_def SUBMIT_CONFIRMED_ACTION_AND_LEDGER_def sample_settled_db_def sample_repeated_request_def
      sample_recovery_db_def sample_recovery_request_def sample_execution_db_def u64_as_i64_def operation_record_from_row_def
      action_status_from_db_def is_recovery_terminal_or_inflight_def)


end
