(* ===== verification/Spec2Isabelle.thy ===== *)
theory Spec2Isabelle
  imports Executor Evidence Device_Sync Review_Inbox Token_Refresh_Audit Grant_Material
    Tenant_Maintenance Execution_Queue Review_Route Agent_Stream Session_Invariant Operational_Recovery
begin

text \<open>
  A verification development for OAR, the service in \<open>src/crates\<close> that lets an agent propose
  changes to a Feishu (Lark) workspace, has a human confirm them, and executes them once.

  \<^bold>\<open>The program.\<close> A \<^emph>\<open>proposed action\<close> is drafted with evidence, published to the
  \<^emph>\<open>review inbox\<close> and decided by its user. A confirming decision yields a
  \<^emph>\<open>confirmed action\<close> with an idempotency key. The \<^emph>\<open>execution policy\<close> checks the action
  against the token grant, the actor binding and the allowlist that the \<^emph>\<open>capability\<close> table
  yields. The \<^emph>\<open>executor\<close> submits the action to the \<^emph>\<open>operation ledger\<close>, asks the platform
  adapter for a dry run, marks the operation as executing, calls the adapter and records the
  outcome in the ledger and in the \<^emph>\<open>audit log\<close>. Beside this path, \<^emph>\<open>token refresh\<close> keeps OAuth
  grants alive: a snapshot of a grant goes to the \<^emph>\<open>Feishu auth client\<close>, the answer becomes a
  decision and then a compare-and-swap command for the grant repository, and the tokens travel as
  \<^emph>\<open>encrypted grant material\<close>. Every text that comes from outside passes the credential
  screening.

  \<^bold>\<open>Theories.\<close>
  \<^item> \<open>OAR_Prelude\<close>: results and the question-mark operator (\<open>try_then\<close>, and \<open>try_st\<close> where the
    callee mutates state), words for \<open>u8\<close> to \<open>u64\<close>, time as nanoseconds, UTF-8 strings with the
    operations of \<open>str\<close> that the sources use, decimal formatting.
  \<^item> \<open>Security\<close>: \<open>security.rs\<close>, \<open>action/safety.rs\<close>, \<open>domain/token_refresh/sanitize.rs\<close>. The
    detector is characterised exactly; the sanitisers are proved to leave no marker, no control
    character and bounded length.
  \<^item> \<open>Identity\<close>: \<open>domain/identity.rs\<close> and \<open>domain/token_grant.rs\<close>; grants as records, their
    operations as functions to results, their life cycle as the step relation \<open>grant_step\<close>.
  \<^item> \<open>Confirmed_Action\<close>, \<open>Operation_Ledger\<close>: \<open>action/confirmed_action.rs\<close>,
    \<open>action/operation_ledger.rs\<close>, \<open>action/operation_ledger_repository.rs\<close>. The ledger is the record of
    its two maps and its sequence number; the locale \<open>ledger_contract\<close> states the promise of the
    repository trait over a single map from keys to records, and the in-memory repository is
    proved to keep it.
  \<^item> \<open>Audit_Log\<close>: \<open>action/audit_event.rs\<close>, \<open>action/audit_trace.rs\<close>, \<open>action/audit_repository.rs\<close>,
    \<open>action/executor/trace.rs\<close>; the locale \<open>audit_contract\<close> states that the log only grows.
  \<^item> \<open>Capability\<close>: \<open>action/capability.rs\<close> and its two submodules, the table row by row.
  \<^item> \<open>Proposed_Action\<close>: \<open>domain/proposed_action.rs\<close>, \<open>action/execution_request.rs\<close>.
  \<^item> \<open>Evidence\<close>, \<open>Device_Sync\<close>, \<open>Review_Inbox\<close>: the modules of the same names under \<open>domain/\<close>.
  \<^item> \<open>Execution_Policy\<close>: \<open>action/execution_policy.rs\<close>, \<open>action/executor/policy.rs\<close>.
  \<^item> \<open>Executor\<close>: the rest of \<open>action/executor/\<close>. The traits of the ledger, the audit store, the
    adapter and the clock are records of functions on state types of their own; the executor
    threads the four states and its local trace and event list. The locale \<open>executor_client\<close>
    extends the ledger contract by what the executor needs, \<open>executor_audit\<close> adds the audit
    contract; both are interpreted on the in-memory repositories.
  \<^item> \<open>Token_Refresh\<close>, \<open>Token_Refresh_Audit\<close>: \<open>domain/token_refresh/\<close> and
    \<open>action/token_refresh_audit.rs\<close>.
  \<^item> \<open>Json\<close>, \<open>Lark_Auth\<close>: JSON values with the accessors the sources call, and \<open>lark/auth/\<close>.
  \<^item> \<open>Grant_Material\<close>: \<open>oar-lark-adapter/src/material/\<close> and \<open>oar-lark-adapter/src/crypto/\<close>.
  \<^item> \<open>Postgres_Base\<close>, \<open>Safe_Error\<close>: what the Postgres repositories share: UTC time in
    microseconds, UUID texts, sequences, the repository's error type, checked conversions, the
    transaction wrapper \<open>in_tx\<close> (an error restores the state), and the error texts that may be
    stored.
  \<^item> \<open>Grant_Store\<close>: \<open>repository_sqlx/token_grants/\<close> with its SQL, codec and row reader; the
    compare-and-swap statement over a table of grant rows, proved to implement the specification
    \<open>grant_cas\<close> over grants.
  \<^item> \<open>Scheduler_Store\<close>: the scheduler's jobs, leases and attempts
    (\<open>repository_sqlx/scheduler.rs\<close> and its SQL), as tables and statements.
  \<^item> \<open>Token_Refresh_Sweep\<close>, \<open>Tenant_Maintenance\<close>: the facade's background work over those
    tables: the refresh sweep with its single-flight lease, and the maintenance of a tenant.
  \<^item> \<open>Audit_Store\<close>, \<open>Outbox_Worker\<close>: the audit event table with its claim queue, and the
    outbox message table with the worker that dispatches its messages.
  \<^item> \<open>Execution_Store\<close>: the confirmed action and operation tables with the statements of
    \<open>repository_sqlx/action_execution\<close>; refined to the contract of \<open>Operation_Ledger\<close>.
  \<^item> \<open>Review_Codec\<close>: \<open>codec/proposed_action.rs\<close>, the stored form of a proposed action.
  \<^item> \<open>Postgres_Executor\<close>: \<open>action/postgres_executor.rs\<close> and its submodules, the executor over
    the shared database: every transaction is one function on the database, and the adapter's
    two calls are the points where other processes may change it.
  \<^item> \<open>Execution_Queue\<close>: the query for confirmed actions that wait for execution, its row
    reader, and the worker that drains it.
  \<^item> \<open>Review_Store\<close>: \<open>review_inbox_sql/\<close>, \<open>repository_sqlx/review_inbox.rs\<close>, the row readers and
    \<open>action_execution/review_decision.rs\<close> with its validation: evidence, proposals, decisions, inbox
    items, and the transaction that records a decision.
  \<^item> \<open>Web_Text\<close>, \<open>Facade_Base\<close>: the operations of the standard library on text and UTF-8 that the
    HTTP facade uses, and \<open>oar-http-facade/src/response.rs\<close>.
  \<^item> \<open>Review_Route\<close>: \<open>review_inbox_routes/decision.rs\<close> and its submodules, from the decoded body to
    the answer; \<open>AnswerSnapshot\<close> stands for the read-only snapshot of a successful answer.
  \<^item> \<open>Session_Store\<close>: \<open>identity_sql.rs\<close>, \<open>device_session_sql.rs\<close>, \<open>repository_sqlx/identity/\<close>. The
    locale \<open>evolving_table\<close> says what a table keeps whose rows only move on; it is interpreted on
    the sessions and on the grants, over every call that shares the database.
  \<^item> \<open>Session_Auth\<close>, \<open>Session_Invariant\<close>: \<open>session_auth.rs\<close>, \<open>feishu_auth/grants.rs\<close>, and the keys and
    references of the identity tables. \<open>others\<close> is what other requests commit between the read of
    a session and the transaction that signs it out.
  \<^item> \<open>Operational_Recovery\<close>: \<open>operational_recovery_sql.rs\<close>, \<open>repository_sqlx/operational_recovery/\<close>.
  \<^item> \<open>Agent_Stream\<close>: \<open>agent/stream/\<close>, \<open>agent/stream.rs\<close>, and the frames of \<open>agent/openai.rs\<close> and
    \<open>agent/anthropic.rs\<close>: the parser of server-sent events, the forwarding loop, the client's frames.

  \<^bold>\<open>What the theorems show.\<close> Both executors call the adapter at most once per idempotency key
  (the Postgres one against interference of other executors that keep the ledger's rely
  condition) and never for a denied action, and their reports agree with the ledger and the audit
  log. The Postgres ledger refines the contract that the in-memory ledger keeps; a transition and
  its audit trail commit together or not at all. Scheduler jobs have at most one live lease, a
  lost lease cannot write, attempts are bounded and backoff is monotone; a grant is replaced only
  under the fence it was read with; the outbox delivers each claimed message to one worker and
  accounts for every outcome; a failing maintenance stage leaves the other stages alone. Ledger
  records, audit events, revoked grants, decided proposals, inbox items and device sessions change
  only the way their life cycle allows. The policy is characterised exactly and, built from the
  capability table, admits only two kinds of write. Token refresh reports are backed by the calls
  they claim, tokens survive sealing and storage, and no text of a remote service reaches a
  report. A decision of the review inbox is recorded as a whole or not at all, is final, and when it
  confirms, its action with the confirmed payload is in the execution queue. A session that was
  signed out is never authenticated again, and the grants that the last sign-out revoked stay out
  of use until the next sign-in; an accepted bearer token names a user of an existing tenant. A
  recovery changes its one target and its operation together, and once. The stream parser gives
  the same frames however the network cuts the bytes, and a client reads back the frames that
  were sent. Some theorems document behaviour that stands in the way of the program's intent: an
  event id that a failed dry run or a denial has used up blocks every later execution of the same
  action, the fallback text for a needed reauthorisation is always redacted, an inbox item keeps the
  version of the proposal it was created with, and decision ids are shared between tenants.

  \<^bold>\<open>Modelling decisions.\<close> Integers keep their width where they can wrap: the ledger's sequence is a
  64-bit word, and theorems about fresh operation ids state the room that is left (at most
  2 to the 64 minus 1 creations) as a hypothesis; the trace counter likewise. A poisoned mutex is a
  flag under which every call fails. Library code is an argument: JSON text reading, AES-GCM,
  SHA-256, the transport, the store and the key resolver. No definition uses fuel: every loop is
  structural or has a measure.

  A database table is a list of row records; a SQL statement is a function from its bind
  parameters and the tables to the changed tables and the returned rows, with its WHERE clause, its
  conflict clause and the constraints of \<open>migrations/\<close> that it can violate written out. A
  transaction runs its statements one after the other and is atomic; \<open>FOR UPDATE SKIP LOCKED\<close> reads
  a flag of the row that says another transaction holds it. A generated id or sequence number
  comes from a counter of the database, which a rollback restores here although Postgres leaves a
  gap. Connection failures are not modelled: a statement fails only for a reason of its own.
  The conversion of \<open>SystemTime\<close> to a timestamp (\<open>to_ts\<close>), the JSON codec of audit texts
  (\<open>audit_json\<close>) and the collation of text comparison are arguments.

  \<^bold>\<open>Not modelled.\<close> The read-only snapshot of the review inbox and pool wiring (queries without a
  state change); the Feishu HTTP clients (requests and response decoding); the runtime composition;
  of the HTTP facade the server, the routing table, configuration, prompts, skills, tools and live
  context of the agent, health and daemon status, which are I/O, fixed texts or wiring of the
  modelled handlers; \<open>Debug\<close> and \<open>Display\<close> instances that only format values; asynchronous variants
  whose bodies repeat the synchronous ones; the Swift client, which is another language.
\<close>

end
